(* ===== verification/Deploy_Prelude.thy ===== *)
theory Deploy_Prelude
  imports Main "HOL-Library.Char_ord" "HOL-Library.List_Lexorder" "HOL-Library.Code_Target_Nat"
begin

text \<open>
  The prelude of the library: the collections of rewrite rules the component theories fill,
  the byte view of characters (a Go string is a byte sequence, so a Go string is a \<^typ>\<open>string\<close>
  and one \<^typ>\<open>char\<close> is one byte), and the generic lemmas on lists that the components share.
\<close>

named_theorems go_string_simps \<open>rewrite rules for the models of Go's string library\<close>
named_theorems quoting \<open>rewrite rules for shell and environment-file quoting\<close>
named_theorems frame_intros \<open>introduction rules: which part of a state a program keeps\<close>

abbreviation byte :: "char \<Rightarrow> nat" where
  "byte c \<equiv> of_char c"

lemma byte_less: "byte c < 256"
  by (metis UNIV_I imageI nat_of_char_less_256)

lemma byte_inject: "byte c = byte d \<longleftrightarrow> c = d"
  by (rule of_char_eq_iff)

lemma char_of_byte [simp]: "char_of (byte c) = c"
  by (rule char_of_char)

lemma byte_char_of: "n < 256 \<Longrightarrow> byte (char_of n) = n"
  by (simp add: of_char_of)

lemma byte_eq_iff: "n < 256 \<Longrightarrow> byte c = n \<longleftrightarrow> c = char_of n"
  by (metis byte_char_of char_of_byte)

subsection \<open>Trimming a list on both sides\<close>

definition trim_list :: "('a \<Rightarrow> bool) \<Rightarrow> 'a list \<Rightarrow> 'a list" where
  "trim_list p xs = rev (dropWhile p (rev (dropWhile p xs)))"

lemma trim_list_Nil [simp]: "trim_list p [] = []"
  by (simp add: trim_list_def)

lemma set_trim_list: "set (trim_list p xs) \<subseteq> set xs"
  unfolding trim_list_def by (auto dest!: set_dropWhileD)

lemma trim_list_eq_Nil_iff: "trim_list p xs = [] \<longleftrightarrow> (\<forall>x\<in>set xs. p x)"
proof -
  have "dropWhile p (rev ys) = [] \<longleftrightarrow> (\<forall>y\<in>set ys. p y)" for ys :: "'a list"
    by (simp add: dropWhile_eq_Nil_conv)
  moreover have "(\<forall>x\<in>set (dropWhile p xs). p x) \<longleftrightarrow> (\<forall>x\<in>set xs. p x)"
    by (induction xs) auto
  ultimately show ?thesis
    by (simp add: trim_list_def)
qed

lemma trim_list_id: "xs \<noteq> [] \<Longrightarrow> \<not> p (hd xs) \<Longrightarrow> \<not> p (last xs) \<Longrightarrow> trim_list p xs = xs"
proof -
  assume ne: "xs \<noteq> []" and h: "\<not> p (hd xs)" and l: "\<not> p (last xs)"
  have "dropWhile p xs = xs"
    using ne h by (cases xs) auto
  moreover have "dropWhile p (rev xs) = rev xs"
    using ne l by (cases xs rule: rev_cases) auto
  ultimately show ?thesis by (simp add: trim_list_def)
qed

lemma trim_list_ends:
  "trim_list p xs \<noteq> [] \<Longrightarrow> \<not> p (hd (trim_list p xs)) \<and> \<not> p (last (trim_list p xs))"
proof -
  let ?ys = "dropWhile p xs"
  assume ne: "trim_list p xs \<noteq> []"
  have last_ok: "\<not> p (last (trim_list p xs))"
    using ne hd_dropWhile [of p "rev ?ys"] by (simp add: trim_list_def last_rev)
  obtain zs where zs: "?ys = trim_list p xs @ zs"
    unfolding trim_list_def
    by (metis rev_append rev_rev_ident takeWhile_dropWhile_id)
  have "hd ?ys = hd (trim_list p xs)"
    using ne zs by simp
  moreover have "?ys \<noteq> []" using ne zs by simp
  ultimately have "\<not> p (hd (trim_list p xs))"
    using hd_dropWhile [of p xs] by metis
  with last_ok show ?thesis by simp
qed

lemma trim_list_idem [simp]: "trim_list p (trim_list p xs) = trim_list p xs"
  by (metis trim_list_ends trim_list_id trim_list_Nil)

lemma trim_list_no_match: "(\<And>x. x \<in> set xs \<Longrightarrow> \<not> p x) \<Longrightarrow> trim_list p xs = xs"
proof -
  assume a: "\<And>x. x \<in> set xs \<Longrightarrow> \<not> p x"
  show "trim_list p xs = xs"
  proof (cases "xs = []")
    case False
    then show ?thesis
      by (intro trim_list_id) (use a in auto)
  qed simp
qed

subsection \<open>Results of fallible operations\<close>

text \<open>A Go function returning \<open>(T, error)\<close> is a function into \<open>'e + 'a\<close>: \<open>Inl\<close> is the error.\<close>

definition try_bind :: "'e + 'a \<Rightarrow> ('a \<Rightarrow> 'e + 'b) \<Rightarrow> 'e + 'b" where
  "try_bind r f = (case r of Inl e \<Rightarrow> Inl e | Inr x \<Rightarrow> f x)"

lemma try_bind_simps [simp]:
  "try_bind (Inl e) f = Inl e"
  "try_bind (Inr x) f = f x"
  by (simp_all add: try_bind_def)

lemma try_bind_eq_Inr_iff: "try_bind r f = Inr y \<longleftrightarrow> (\<exists>x. r = Inr x \<and> f x = Inr y)"
  by (cases r) auto

fun try_map :: "('a \<Rightarrow> 'e + 'b) \<Rightarrow> 'a list \<Rightarrow> 'e + 'b list" where
  "try_map f [] = Inr []"
| "try_map f (x # xs) = try_bind (f x) (\<lambda>y. try_bind (try_map f xs) (\<lambda>ys. Inr (y # ys)))"

lemma try_map_Inr_length: "try_map f xs = Inr ys \<Longrightarrow> length ys = length xs"
  by (induction xs arbitrary: ys) (auto simp: try_bind_eq_Inr_iff)

subsection \<open>First occurrence of each element\<close>

text \<open>The \<open>seen\<close> map idiom of the source: keep the first occurrence, in order.\<close>

fun first_seen :: "'a list \<Rightarrow> 'a list \<Rightarrow> 'a list" where
  "first_seen seen [] = []"
| "first_seen seen (x # xs) =
     (if x \<in> set seen then first_seen seen xs else x # first_seen (x # seen) xs)"

lemma set_first_seen: "set (first_seen seen xs) = set xs - set seen"
  by (induction xs arbitrary: seen) auto

lemma distinct_first_seen: "distinct (first_seen seen xs)"
  by (induction xs arbitrary: seen) (auto simp: set_first_seen)

end
