(* ===== verification/Go_Strings.thy ===== *)
theory Go_Strings
  imports Unicode_Case
begin

text \<open>
  Go's string library, as far as the program uses it. A Go string is a sequence of bytes. Functions
  that range over a string decode UTF-8: \<open>chunks\<close> pairs every decoded code point with the bytes it
  came from (an ill-formed byte decodes to U+FFFD and is consumed alone), and the functions of the
  packages \<^verbatim>\<open>strings\<close>, \<^verbatim>\<open>unicode\<close>, \<^verbatim>\<open>unicode/utf8\<close>, \<^verbatim>\<open>strconv\<close>, \<^verbatim>\<open>sort\<close>, \<^verbatim>\<open>path\<close> and \<^verbatim>\<open>hash/fnv\<close>
  are defined over it.
\<close>

subsection \<open>UTF-8\<close>

definition rune_error :: nat where
  "rune_error = 0xFFFD"

definition continuation :: "nat \<Rightarrow> bool" where
  "continuation b \<longleftrightarrow> 0x80 \<le> b \<and> b \<le> 0xBF"

text \<open>The range the second byte of a sequence of three or four bytes must lie in.\<close>

definition second_byte_ok :: "nat \<Rightarrow> nat \<Rightarrow> bool" where
  "second_byte_ok b0 b1 \<longleftrightarrow>
     (if b0 = 0xE0 then 0xA0 \<le> b1 \<and> b1 \<le> 0xBF
      else if b0 = 0xED then 0x80 \<le> b1 \<and> b1 \<le> 0x9F
      else if b0 = 0xF0 then 0x90 \<le> b1 \<and> b1 \<le> 0xBF
      else if b0 = 0xF4 then 0x80 \<le> b1 \<and> b1 \<le> 0x8F
      else continuation b1)"

fun decode_rune :: "string \<Rightarrow> nat \<times> nat" where
  "decode_rune [] = (rune_error, 0)"
| "decode_rune (c0 # cs) =
     (let b0 = byte c0 in
      if b0 < 0x80 then (b0, 1)
      else case cs of
        [] \<Rightarrow> (rune_error, 1)
      | c1 # cs1 \<Rightarrow>
         (let b1 = byte c1 in
          if 0xC2 \<le> b0 \<and> b0 \<le> 0xDF then
            (if continuation b1 then ((b0 - 0xC0) * 64 + (b1 - 0x80), 2) else (rune_error, 1))
          else case cs1 of
            [] \<Rightarrow> (rune_error, 1)
          | c2 # cs2 \<Rightarrow>
             (let b2 = byte c2 in
              if 0xE0 \<le> b0 \<and> b0 \<le> 0xEF then
                (if second_byte_ok b0 b1 \<and> continuation b2
                 then ((b0 - 0xE0) * 4096 + (b1 - 0x80) * 64 + (b2 - 0x80), 3)
                 else (rune_error, 1))
              else case cs2 of
                [] \<Rightarrow> (rune_error, 1)
              | c3 # cs3 \<Rightarrow>
                 (let b3 = byte c3 in
                  if 0xF0 \<le> b0 \<and> b0 \<le> 0xF4 \<and> second_byte_ok b0 b1 \<and> continuation b2 \<and> continuation b3
                  then ((b0 - 0xF0) * 262144 + (b1 - 0x80) * 4096 + (b2 - 0x80) * 64 + (b3 - 0x80), 4)
                  else (rune_error, 1)))))"

lemma decode_rune_width: "s \<noteq> [] \<Longrightarrow> 1 \<le> snd (decode_rune s)"
  by (cases s) (auto simp: Let_def split: list.splits)

lemma decode_rune_ascii [simp]: "byte c < 128 \<Longrightarrow> decode_rune (c # cs) = (byte c, 1)"
  by simp

declare decode_rune.simps(2) [simp del]

type_synonym chunk = "nat \<times> string"

function chunks :: "string \<Rightarrow> chunk list" where
  "chunks [] = []"
| "chunks (c # cs) =
     (let d = decode_rune (c # cs)
      in (fst d, take (snd d) (c # cs)) # chunks (drop (snd d) (c # cs)))"
  by pat_completeness auto
termination
proof (relation "measure length", simp, goal_cases)
  case (1 c cs x)
  then show ?case
    using decode_rune_width [of "c # cs"] by (cases "snd x") auto
qed

declare chunks.simps(2) [simp del]

lemma chunks_ascii_Cons [simp]: "byte c < 128 \<Longrightarrow> chunks (c # cs) = (byte c, [c]) # chunks cs"
  by (simp add: chunks.simps)

abbreviation runes :: "string \<Rightarrow> nat list" where
  "runes s \<equiv> map fst (chunks s)"

abbreviation chunk_bytes :: "chunk list \<Rightarrow> string" where
  "chunk_bytes ks \<equiv> concat (map snd ks)"

lemma chunk_bytes_chunks [simp]: "chunk_bytes (chunks s) = s"
proof (induction s rule: chunks.induct)
  case (2 c cs)
  then show ?case by (simp add: chunks.simps(2) Let_def)
qed simp

lemma chunks_eq_Nil_iff [simp]: "chunks s = [] \<longleftrightarrow> s = []"
  by (cases s) (auto simp: chunks.simps(2) Let_def)

lemma chunks_nonempty: "k \<in> set (chunks s) \<Longrightarrow> snd k \<noteq> []"
proof (induction s rule: chunks.induct)
  case (2 c cs)
  then show ?case
    using decode_rune_width [of "c # cs"] by (auto simp: chunks.simps(2) Let_def)
qed simp

definition ascii :: "string \<Rightarrow> bool" where
  "ascii s \<longleftrightarrow> (\<forall>c\<in>set s. byte c < 128)"

lemma ascii_simps [simp]:
  "ascii []"
  "ascii (c # s) \<longleftrightarrow> byte c < 128 \<and> ascii s"
  "ascii (s @ t) \<longleftrightarrow> ascii s \<and> ascii t"
  by (auto simp: ascii_def)

lemma chunks_ascii: "ascii s \<Longrightarrow> chunks s = map (\<lambda>c. (byte c, [c])) s"
  by (induction s) auto

lemma runes_ascii: "ascii s \<Longrightarrow> runes s = map byte s"
  by (simp add: chunks_ascii)

text \<open>A code point below 128 comes from one ASCII byte, so a string of such code points is ASCII.\<close>

lemma two_byte_rune_high: "0xC2 \<le> b0 \<Longrightarrow> 128 \<le> (b0 - 0xC0) * 64 + (x::nat)"
proof -
  assume "0xC2 \<le> b0"
  then have "2 \<le> b0 - 0xC0" by simp
  then show ?thesis by linarith
qed

lemma three_byte_rune_high:
  assumes "0xE0 \<le> b0" and "second_byte_ok b0 b1"
  shows "128 \<le> (b0 - 0xE0) * 4096 + (b1 - 0x80) * 64 + x"
proof (cases "b0 = 0xE0")
  case True
  with assms have "32 \<le> b1 - 0x80" by (auto simp: second_byte_ok_def)
  then show ?thesis by linarith
next
  case False
  with assms have "1 \<le> b0 - 0xE0" by simp
  then show ?thesis by linarith
qed

lemma four_byte_rune_high:
  assumes "0xF0 \<le> b0" and "second_byte_ok b0 b1"
  shows "128 \<le> (b0 - 0xF0) * 262144 + (b1 - 0x80) * 4096 + y + x"
proof (cases "b0 = 0xF0")
  case True
  with assms have "16 \<le> b1 - 0x80" by (auto simp: second_byte_ok_def)
  then show ?thesis by linarith
next
  case False
  with assms have "1 \<le> b0 - 0xF0" by simp
  then show ?thesis by linarith
qed

lemma decode_rune_high: "128 \<le> byte c \<Longrightarrow> 128 \<le> fst (decode_rune (c # cs))"
  by (simp add: decode_rune.simps Let_def rune_error_def two_byte_rune_high three_byte_rune_high
      four_byte_rune_high split: list.split)

lemma decode_rune_below_128:
  assumes "s \<noteq> []" and "fst (decode_rune s) < 128"
  shows "byte (hd s) < 128"
proof (cases s)
  case (Cons c cs)
  with assms decode_rune_high [of c cs] show ?thesis
    by (metis list.sel(1) not_le)
qed (use assms in simp)

lemma runes_below_128:
  assumes "\<And>r. r \<in> set (runes s) \<Longrightarrow> r < 128"
  shows "ascii s"
  using assms
proof (induction s rule: chunks.induct)
  case (2 c cs)
  have "fst (decode_rune (c # cs)) < 128"
    by (rule "2.prems") (simp add: chunks.simps(2) Let_def)
  then have c: "byte c < 128"
    using decode_rune_below_128 [of "c # cs"] by simp
  then have d: "decode_rune (c # cs) = (byte c, 1)" by simp
  have "r < 128" if "r \<in> set (runes cs)" for r
    by (rule "2.prems") (use c that in auto)
  with "2.IH" [OF refl] d have "ascii cs" by simp
  with c show ?case by simp
qed simp

lemma chunk_below_128:
  assumes "k \<in> set (chunks s)" and "fst k < 128"
  shows "\<exists>c. k = (byte c, [c])"
  using assms
proof (induction s rule: chunks.induct)
  case (2 c cs)
  show ?case
  proof (cases "k \<in> set (chunks (drop (snd (decode_rune (c # cs))) (c # cs)))")
    case True
    then show ?thesis using "2.IH" [OF refl] "2.prems" by blast
  next
    case False
    with "2.prems" have k: "k = (fst (decode_rune (c # cs)), take (snd (decode_rune (c # cs))) (c # cs))"
      by (auto simp: chunks.simps(2) Let_def)
    with "2.prems" have "byte c < 128"
      using decode_rune_below_128 [of "c # cs"] by simp
    with k show ?thesis by auto
  qed
qed simp

text \<open>Encoding: \<^verbatim>\<open>utf8.AppendRune\<close>, which writes U+FFFD for a value that is no scalar value.\<close>

definition encode_rune :: "nat \<Rightarrow> string" where
  "encode_rune r =
     (if r < 0x80 then [char_of r]
      else if r < 0x800 then [char_of (0xC0 + r div 64), char_of (0x80 + r mod 64)]
      else if 0xD800 \<le> r \<and> r \<le> 0xDFFF \<or> 0x10FFFF < r
        then [char_of (0xEF::nat), char_of (0xBF::nat), char_of (0xBD::nat)]
      else if r < 0x10000
        then [char_of (0xE0 + r div 4096), char_of (0x80 + r div 64 mod 64), char_of (0x80 + r mod 64)]
      else [char_of (0xF0 + r div 262144), char_of (0x80 + r div 4096 mod 64),
            char_of (0x80 + r div 64 mod 64), char_of (0x80 + r mod 64)])"

definition encode_runes :: "nat list \<Rightarrow> string" where
  "encode_runes rs = concat (map encode_rune rs)"

lemma encode_rune_ascii [simp]: "r < 128 \<Longrightarrow> encode_rune r = [char_of r]"
  by (simp add: encode_rune_def)

lemma encode_runes_map_byte: "ascii s \<Longrightarrow> encode_runes (map byte s) = s"
  by (induction s) (auto simp: encode_runes_def)

subsection \<open>Package unicode\<close>

definition IsControl :: "nat \<Rightarrow> bool" where
  "IsControl r \<longleftrightarrow> r < 0x20 \<or> 0x7F \<le> r \<and> r < 0xA0"

definition IsSpace :: "nat \<Rightarrow> bool" where
  "IsSpace r \<longleftrightarrow> r \<in> {9, 10, 11, 12, 13, 32, 0x85, 0xA0, 0x1680, 0x2028, 0x2029, 0x202F, 0x205F, 0x3000}
     \<or> 0x2000 \<le> r \<and> r \<le> 0x200A"

lemma IsSpace_ascii: "r < 128 \<Longrightarrow> IsSpace r \<longleftrightarrow> 9 \<le> r \<and> r \<le> 13 \<or> r = 32"
  by (auto simp: IsSpace_def)

subsection \<open>Package strings: trimming\<close>

definition TrimSpace :: "string \<Rightarrow> string" where
  "TrimSpace s = chunk_bytes (trim_list (\<lambda>k. IsSpace (fst k)) (chunks s))"

text \<open>\<^verbatim>\<open>strings.Trim\<close> and \<^verbatim>\<open>strings.TrimRight\<close> with a cutset of ASCII bytes.\<close>

definition Trim :: "string \<Rightarrow> string \<Rightarrow> string" where
  "Trim s cutset = trim_list (\<lambda>c. c \<in> set cutset) s"

definition TrimRight :: "string \<Rightarrow> string \<Rightarrow> string" where
  "TrimRight s cutset = rev (dropWhile (\<lambda>c. c \<in> set cutset) (rev s))"

lemma TrimSpace_Nil [simp]: "TrimSpace [] = []"
  by (simp add: TrimSpace_def)

lemma TrimSpace_ascii: "ascii s \<Longrightarrow> TrimSpace s = trim_list (\<lambda>c. IsSpace (byte c)) s"
proof -
  assume a: "ascii s"
  have "dropWhile (\<lambda>k. IsSpace (fst k)) (map (\<lambda>c. (byte c, [c])) xs)
      = map (\<lambda>c. (byte c, [c])) (dropWhile (\<lambda>c. IsSpace (byte c)) xs)" for xs
    by (induction xs) auto
  note drop_map = this
  have "chunk_bytes (map (\<lambda>c. (byte c, [c])) xs) = xs" for xs
    by (induction xs) auto
  then show ?thesis
    by (simp add: TrimSpace_def chunks_ascii [OF a] trim_list_def drop_map rev_map
        del: map_map)
qed

lemma TrimSpace_no_space:
  assumes "\<And>r. r \<in> set (runes s) \<Longrightarrow> \<not> IsSpace r"
  shows "TrimSpace s = s"
  unfolding TrimSpace_def by (subst trim_list_no_match) (use assms in auto)

subsection \<open>Package strings: prefixes, suffixes and substrings\<close>

fun HasPrefix :: "string \<Rightarrow> string \<Rightarrow> bool" where
  "HasPrefix s [] = True"
| "HasPrefix [] (p # ps) = False"
| "HasPrefix (c # s) (p # ps) = (c = p \<and> HasPrefix s ps)"

lemma HasPrefix_iff: "HasPrefix s p \<longleftrightarrow> (\<exists>t. s = p @ t)"
  by (induction s p rule: HasPrefix.induct) auto

lemma HasPrefix_append [simp]: "HasPrefix (p @ t) p"
  by (auto simp: HasPrefix_iff)

definition HasSuffix :: "string \<Rightarrow> string \<Rightarrow> bool" where
  "HasSuffix s p = HasPrefix (rev s) (rev p)"

lemma HasSuffix_iff: "HasSuffix s p \<longleftrightarrow> (\<exists>t. s = t @ p)"
  unfolding HasSuffix_def HasPrefix_iff by (metis rev_append rev_rev_ident)

definition TrimPrefix :: "string \<Rightarrow> string \<Rightarrow> string" where
  "TrimPrefix s p = (if HasPrefix s p then drop (length p) s else s)"

definition TrimSuffix :: "string \<Rightarrow> string \<Rightarrow> string" where
  "TrimSuffix s p = (if HasSuffix s p then take (length s - length p) s else s)"

fun Contains :: "string \<Rightarrow> string \<Rightarrow> bool" where
  "Contains [] p = (p = [])"
| "Contains (c # s) p = (HasPrefix (c # s) p \<or> Contains s p)"

lemma Contains_iff: "Contains s p \<longleftrightarrow> (\<exists>u v. s = u @ p @ v)"
proof (induction s p rule: Contains.induct)
  case (2 c s p)
  show ?case (is "_ \<longleftrightarrow> ?R")
  proof
    assume "Contains (c # s) p"
    then consider t where "c # s = p @ t" | u v where "s = u @ p @ v"
      using 2 by (auto simp: HasPrefix_iff)
    then show ?R by cases (metis append_Nil, metis append_Cons)
  next
    assume ?R
    then obtain u v where uv: "c # s = u @ p @ v" by blast
    show "Contains (c # s) p"
    proof (cases u)
      case Nil
      with uv have "HasPrefix (c # s) p" by (auto simp: HasPrefix_iff)
      then show ?thesis by simp
    next
      case (Cons a u')
      with uv have "s = u' @ p @ v" by simp
      with 2 show ?thesis by auto
    qed
  qed
qed auto

lemma Contains_single: "Contains s [c] \<longleftrightarrow> c \<in> set s"
  by (induction s) auto

text \<open>\<^verbatim>\<open>strings.ContainsAny\<close> with a set of ASCII bytes.\<close>

definition ContainsAny :: "string \<Rightarrow> string \<Rightarrow> bool" where
  "ContainsAny s cs \<longleftrightarrow> (\<exists>c\<in>set s. c \<in> set cs)"

text \<open>\<^verbatim>\<open>strings.LastIndex\<close> for one byte: \<open>None\<close> is Go's -1.\<close>

fun LastIndex :: "string \<Rightarrow> char \<Rightarrow> nat option" where
  "LastIndex [] c = None"
| "LastIndex (d # s) c =
     (case LastIndex s c of Some i \<Rightarrow> Some (Suc i) | None \<Rightarrow> if d = c then Some 0 else None)"

lemma LastIndex_None_iff: "LastIndex s c = None \<longleftrightarrow> c \<notin> set s"
  by (induction s) (auto split: option.splits)

lemma LastIndex_Some:
  "LastIndex s c = Some i \<Longrightarrow> i < length s \<and> s ! i = c \<and> c \<notin> set (drop (Suc i) s)"
  by (induction s arbitrary: i) (auto simp: LastIndex_None_iff split: option.splits if_splits)

text \<open>\<^verbatim>\<open>strings.Cut\<close> at a one-byte separator.\<close>

fun Cut :: "string \<Rightarrow> char \<Rightarrow> string \<times> string \<times> bool" where
  "Cut [] c = ([], [], False)"
| "Cut (d # s) c =
     (if d = c then ([], s, True)
      else (let (head, tail, found) = Cut s c in (d # head, tail, found)))"

lemma Cut_append:
  "Cut s c = (b, a, f) \<Longrightarrow> (if f then s = b @ c # a else s = b \<and> a = []) \<and> c \<notin> set b"
  by (induction s arbitrary: b) (auto split: prod.splits if_splits)

subsection \<open>Package strings: splitting and joining\<close>

text \<open>\<^verbatim>\<open>strings.Split\<close> at a one-byte separator.\<close>

fun Split :: "string \<Rightarrow> char \<Rightarrow> string list" where
  "Split [] c = [[]]"
| "Split (d # s) c =
     (if d = c then [] # Split s c
      else (case Split s c of [] \<Rightarrow> [[d]] | w # ws \<Rightarrow> (d # w) # ws))"

fun Join :: "string list \<Rightarrow> string \<Rightarrow> string" where
  "Join [] sep = []"
| "Join [w] sep = w"
| "Join (w # v # ws) sep = w @ sep @ Join (v # ws) sep"

lemma Join_append:
  "us \<noteq> [] \<Longrightarrow> ws \<noteq> [] \<Longrightarrow> Join (us @ ws) sep = Join us sep @ sep @ Join ws sep"
proof (induction us sep rule: Join.induct)
  case (2 w sep)
  then show ?case by (cases ws) auto
qed auto

lemma Split_not_Nil [simp]: "Split s c \<noteq> []"
  by (cases s) (auto split: list.splits)

lemma Join_Split: "Join (Split s c) [c] = s"
proof (induction s)
  case (Cons d s)
  obtain w ws where w: "Split s c = w # ws"
    using Split_not_Nil [of s c] by (meson neq_Nil_conv)
  with Cons show ?case by (cases ws) auto
qed simp

lemma Split_no_sep: "w \<in> set (Split s c) \<Longrightarrow> c \<notin> set w"
proof (induction s arbitrary: w)
  case (Cons d s)
  obtain v vs where v: "Split s c = v # vs"
    using Split_not_Nil [of s c] by (meson neq_Nil_conv)
  show ?case
  proof (cases "d = c")
    case True
    with Cons show ?thesis by auto
  next
    case False
    with Cons.prems v have "w = d # v \<or> w \<in> set vs" by auto
    with False Cons.IH [of v] Cons.IH [of w] v show ?thesis by auto
  qed
qed simp

lemma Split_set: "w \<in> set (Split s c) \<Longrightarrow> set w \<subseteq> set s"
proof (induction s arbitrary: w)
  case (Cons d s)
  obtain v vs where v: "Split s c = v # vs"
    using Split_not_Nil [of s c] by (meson neq_Nil_conv)
  with Cons show ?case by (fastforce split: if_splits)
qed simp

text \<open>\<^verbatim>\<open>strings.Fields\<close>: the maximal runs of code points that are no space.\<close>

fun fields_acc :: "string \<Rightarrow> chunk list \<Rightarrow> string list" where
  "fields_acc w [] = (if w = [] then [] else [w])"
| "fields_acc w (k # ks) =
     (if IsSpace (fst k) then (if w = [] then fields_acc [] ks else w # fields_acc [] ks)
      else fields_acc (w @ snd k) ks)"

definition Fields :: "string \<Rightarrow> string list" where
  "Fields s = fields_acc [] (chunks s)"

subsection \<open>Package strings: replacement and case\<close>

text \<open>
  \<^verbatim>\<open>strings.ReplaceAll\<close> for a non-empty pattern: occurrences are replaced from left to right and
  never overlap. \<open>skip\<close> counts the bytes of the occurrence being skipped.
\<close>

fun replace_skip :: "nat \<Rightarrow> string \<Rightarrow> string \<Rightarrow> string \<Rightarrow> string" where
  "replace_skip k [] old new = []"
| "replace_skip (Suc k) (c # s) old new = replace_skip k s old new"
| "replace_skip 0 (c # s) old new =
     (if HasPrefix (c # s) old then new @ replace_skip (length old - 1) s old new
      else c # replace_skip 0 s old new)"

definition ReplaceAll :: "string \<Rightarrow> string \<Rightarrow> string \<Rightarrow> string" where
  "ReplaceAll s old new = replace_skip 0 s old new"

text \<open>\<^verbatim>\<open>strings.Replace\<close> with limit 1.\<close>

fun ReplaceFirst :: "string \<Rightarrow> string \<Rightarrow> string \<Rightarrow> string" where
  "ReplaceFirst [] old new = []"
| "ReplaceFirst (c # s) old new =
     (if HasPrefix (c # s) old then new @ drop (length old) (c # s) else c # ReplaceFirst s old new)"

lemma ReplaceAll_single:
  "ReplaceAll s [c] new = concat (map (\<lambda>d. if d = c then new else [d]) s)"
  by (induction s) (auto simp: ReplaceAll_def)

definition ToLower :: "string \<Rightarrow> string" where
  "ToLower s = encode_runes (map lower_rune (runes s))"

definition ToUpper :: "string \<Rightarrow> string" where
  "ToUpper s = encode_runes (map upper_rune (runes s))"

definition lower_char :: "char \<Rightarrow> char" where
  "lower_char c = char_of (lower_rune (byte c))"

lemma ToLower_ascii: "ascii s \<Longrightarrow> ToLower s = map lower_char s"
  by (induction s) (auto simp: ToLower_def encode_runes_def lower_char_def lower_rune_ascii)

lemma byte_lower_char: "byte c < 128 \<Longrightarrow> byte (lower_char c) = lower_rune (byte c)"
  by (simp add: lower_char_def lower_rune_ascii of_char_of)

lemma lower_char_idem: "byte c < 128 \<Longrightarrow> lower_char (lower_char c) = lower_char c"
  unfolding lower_char_def by (simp add: lower_rune_ascii of_char_of)

text \<open>\<^verbatim>\<open>strings.Map\<close> with a mapping that may drop code points (\<open>None\<close> is a negative value).\<close>

definition MapRunes :: "(nat \<Rightarrow> nat option) \<Rightarrow> string \<Rightarrow> string" where
  "MapRunes f s = encode_runes (List.map_filter f (runes s))"

text \<open>
  \<^verbatim>\<open>strings.EqualFold\<close>: the code points agree up to simple folding, under which the dotted and dotless
  letters i of Turkish stand for themselves.
\<close>

definition fold_rune :: "nat \<Rightarrow> nat" where
  "fold_rune r = (if r = 0x130 \<or> r = 0x131 then r else lower_rune (upper_rune r))"

definition EqualFold :: "string \<Rightarrow> string \<Rightarrow> bool" where
  "EqualFold a b \<longleftrightarrow> map fold_rune (runes a) = map fold_rune (runes b)"

subsection \<open>Package strconv and fmt: numbers\<close>

fun digits_rev :: "nat \<Rightarrow> nat \<Rightarrow> nat list" where
  "digits_rev b n = (if b < 2 \<or> n < b then [n] else (n mod b) # digits_rev b (n div b))"

declare digits_rev.simps [simp del]

definition digit_char :: "nat \<Rightarrow> char" where
  "digit_char d = (if d < 10 then char_of (48 + d) else char_of (87 + d))"

definition digit_char_upper :: "nat \<Rightarrow> char" where
  "digit_char_upper d = (if d < 10 then char_of (48 + d) else char_of (55 + d))"

definition FormatNat :: "nat \<Rightarrow> string" where
  "FormatNat n = map digit_char (rev (digits_rev 10 n))"

definition FormatInt :: "int \<Rightarrow> string" where
  "FormatInt i = (if i < 0 then CHR ''-'' # FormatNat (nat (- i)) else FormatNat (nat i))"

text \<open>\<^verbatim>\<open>%08x\<close> and \<^verbatim>\<open>%08X\<close>.\<close>

definition pad_left :: "nat \<Rightarrow> char \<Rightarrow> string \<Rightarrow> string" where
  "pad_left n c s = replicate (n - length s) c @ s"

definition hex8 :: "nat \<Rightarrow> string" where
  "hex8 n = pad_left 8 (CHR ''0'') (map digit_char (rev (digits_rev 16 n)))"

definition hex8_upper :: "nat \<Rightarrow> string" where
  "hex8_upper n = pad_left 8 (CHR ''0'') (map digit_char_upper (rev (digits_rev 16 n)))"

definition is_digit :: "char \<Rightarrow> bool" where
  "is_digit c \<longleftrightarrow> 48 \<le> byte c \<and> byte c \<le> 57"

definition digits_value :: "string \<Rightarrow> nat" where
  "digits_value s = foldl (\<lambda>n c. n * 10 + (byte c - 48)) 0 s"

text \<open>
  \<^verbatim>\<open>strconv.ParseInt(s, 10, bits)\<close>: an optional sign and decimal digits, \<open>None\<close> for a syntax or
  range error.
\<close>

definition ParseInt :: "string \<Rightarrow> nat \<Rightarrow> int option" where
  "ParseInt s bits =
     (let neg = HasPrefix s ''-'';
          ds = (if HasPrefix s ''-'' \<or> HasPrefix s ''+'' then tl s else s);
          v = (if neg then - int (digits_value ds) else int (digits_value ds))
      in if ds = [] \<or> \<not> list_all is_digit ds then None
         else if v < - (2 ^ (bits - 1)) \<or> 2 ^ (bits - 1) \<le> v then None else Some v)"

lemma ParseInt_range: "ParseInt s bits = Some v \<Longrightarrow> - (2 ^ (bits - 1)) \<le> v \<and> v < 2 ^ (bits - 1)"
  by (auto simp: ParseInt_def Let_def split: if_splits)

subsection \<open>Package path\<close>

definition IsAbs :: "string \<Rightarrow> bool" where
  "IsAbs p = HasPrefix p ''/''"

text \<open>\<^verbatim>\<open>path.Clean\<close> on the segments of a path: the accumulator is the reversed output.\<close>

fun clean_segments :: "bool \<Rightarrow> string list \<Rightarrow> string list \<Rightarrow> string list" where
  "clean_segments rooted out [] = rev out"
| "clean_segments rooted out (w # ws) =
     (if w = [] \<or> w = ''.'' then clean_segments rooted out ws
      else if w = ''..'' then
        (case out of
           [] \<Rightarrow> clean_segments rooted (if rooted then [] else [''..'']) ws
         | v # vs \<Rightarrow> if v = ''..'' then clean_segments rooted (''..'' # out) ws
                     else clean_segments rooted vs ws)
      else clean_segments rooted (w # out) ws)"

definition Clean :: "string \<Rightarrow> string" where
  "Clean p =
     (let segs = clean_segments (IsAbs p) [] (Split p (CHR ''/''))
      in if IsAbs p then CHR ''/'' # Join segs ''/''
         else if segs = [] then ''.'' else Join segs ''/'')"

definition PathDir :: "string \<Rightarrow> string" where
  "PathDir p = Clean (case LastIndex p (CHR ''/'') of None \<Rightarrow> [] | Some i \<Rightarrow> take (Suc i) p)"

definition PathJoin :: "string list \<Rightarrow> string" where
  "PathJoin ps =
     (let qs = filter (\<lambda>p. p \<noteq> []) ps in if qs = [] then [] else Clean (Join qs ''/''))"

subsection \<open>Package hash/fnv\<close>

text \<open>The 32-bit FNV-1a hash: exclusive or with the byte, then multiplication modulo \<open>2 ^ 32\<close>.\<close>

definition fnv32a :: "string \<Rightarrow> nat" where
  "fnv32a s = foldl (\<lambda>h c. (Bit_Operations.xor h (byte c) * 16777619) mod 2 ^ 32) 2166136261 s"

lemma fnv32a_bound: "fnv32a s < 2 ^ 32"
  by (cases s rule: rev_cases) (simp_all add: fnv32a_def)

lemma digits_rev_less: "2 \<le> b \<Longrightarrow> d \<in> set (digits_rev b n) \<Longrightarrow> d < b"
proof (induction b n rule: digits_rev.induct)
  case (1 b n)
  then show ?case by (subst (asm) (2) digits_rev.simps) (auto split: if_splits)
qed

lemma ascii_FormatNat: "ascii (FormatNat n)"
  using digits_rev_less [of 10 _ n] by (fastforce simp: ascii_def FormatNat_def digit_char_def byte_char_of)

end
