(* ===== verification/Go_Regexp.thy ===== *)
theory Go_Regexp
  imports Go_Strings
begin

text \<open>
  Go's \<^verbatim>\<open>regexp\<close> package, as combinators. A position in the text is the code point before it and the
  chunks after it. A matcher maps a position to the positions where a match starting there may end,
  in the order of preference of a Perl-like (leftmost-first) engine, so the first element is the end
  that Go chooses. The theorems reduce the anchored patterns of the program, a character class
  followed by repetitions of classes, to predicates on the code points of the text.
\<close>

type_synonym pos = "nat option \<times> chunk list"
type_synonym matcher = "pos \<Rightarrow> pos list"

definition m_set :: "(nat \<Rightarrow> bool) \<Rightarrow> matcher" where
  "m_set P p = (case snd p of [] \<Rightarrow> [] | k # ks \<Rightarrow> if P (fst k) then [(Some (fst k), ks)] else [])"

definition m_empty :: matcher where
  "m_empty p = [p]"

definition m_seq :: "matcher \<Rightarrow> matcher \<Rightarrow> matcher" where
  "m_seq f g p = concat (map g (f p))"

definition m_alt :: "matcher \<Rightarrow> matcher \<Rightarrow> matcher" where
  "m_alt f g p = f p @ g p"

definition m_opt :: "matcher \<Rightarrow> matcher" where
  "m_opt f = m_alt f m_empty"

text \<open>Greedy and lazy repetition: an iteration that consumes nothing is not taken.\<close>

function m_star :: "matcher \<Rightarrow> matcher" where
  "m_star f p =
     concat (map (\<lambda>q. if length (snd q) < length (snd p) then m_star f q else []) (f p)) @ [p]"
  by pat_completeness auto
termination
  by (relation "measure (\<lambda>(f, p). length (snd p))") auto

function m_star_lazy :: "matcher \<Rightarrow> matcher" where
  "m_star_lazy f p =
     p # concat (map (\<lambda>q. if length (snd q) < length (snd p) then m_star_lazy f q else []) (f p))"
  by pat_completeness auto
termination
  by (relation "measure (\<lambda>(f, p). length (snd p))") auto

declare m_star.simps [simp del] m_star_lazy.simps [simp del]

definition m_plus :: "matcher \<Rightarrow> matcher" where
  "m_plus f = m_seq f (m_star f)"

text \<open>\<open>x{n}\<close>, \<open>x{n,m}\<close> and \<open>x{n,}\<close>.\<close>

fun m_times :: "nat \<Rightarrow> matcher \<Rightarrow> matcher" where
  "m_times 0 f p = [p]"
| "m_times (Suc n) f p = concat (map (m_times n f) (f p))"

fun m_upto :: "nat \<Rightarrow> matcher \<Rightarrow> matcher" where
  "m_upto 0 f p = [p]"
| "m_upto (Suc n) f p = concat (map (m_upto n f) (f p)) @ [p]"

definition m_between :: "nat \<Rightarrow> nat \<Rightarrow> matcher \<Rightarrow> matcher" where
  "m_between lo hi f = m_seq (m_times lo f) (m_upto (hi - lo) f)"

definition m_at_least :: "nat \<Rightarrow> matcher \<Rightarrow> matcher" where
  "m_at_least lo f = m_seq (m_times lo f) (m_star f)"

fun m_lit :: "string \<Rightarrow> matcher" where
  "m_lit [] p = [p]"
| "m_lit (c # cs) p = concat (map (m_lit cs) (m_set (\<lambda>r. r = byte c) p))"

text \<open>\<open>\b\<close>: a boundary between an ASCII word character and the start, the end or another character.\<close>

definition word_rune :: "nat \<Rightarrow> bool" where
  "word_rune r \<longleftrightarrow> 48 \<le> r \<and> r \<le> 57 \<or> 65 \<le> r \<and> r \<le> 90 \<or> r = 95 \<or> 97 \<le> r \<and> r \<le> 122"

definition m_word_boundary :: matcher where
  "m_word_boundary p =
     (let left = (case fst p of None \<Rightarrow> False | Some r \<Rightarrow> word_rune r);
          right = (case snd p of [] \<Rightarrow> False | k # _ \<Rightarrow> word_rune (fst k))
      in if left \<noteq> right then [p] else [])"

text \<open>Patterns \<open>^ ... $\<close> and \<open>MatchString\<close> of such a pattern.\<close>

definition full_match :: "matcher \<Rightarrow> string \<Rightarrow> bool" where
  "full_match f s \<longleftrightarrow> (\<exists>q\<in>set (f (None, chunks s)). snd q = [])"

text \<open>
  \<open>ReplaceAllStringFunc\<close>: matches are found from left to right and do not overlap. No pattern of
  the program matches the empty text, so a match that consumes nothing is no match here.
\<close>

definition first_match :: "matcher \<Rightarrow> pos \<Rightarrow> pos option" where
  "first_match f p =
     (case f p of [] \<Rightarrow> None | q # _ \<Rightarrow> if length (snd q) < length (snd p) then Some q else None)"

function replace_func :: "matcher \<Rightarrow> (string \<Rightarrow> string) \<Rightarrow> pos \<Rightarrow> string" where
  "replace_func f g p =
     (case snd p of
        [] \<Rightarrow> []
      | k # ks \<Rightarrow>
          (case first_match f p of
             None \<Rightarrow> snd k @ replace_func f g (Some (fst k), ks)
           | Some q \<Rightarrow> g (chunk_bytes (take (length (snd p) - length (snd q)) (snd p)))
                       @ replace_func f g q))"
  by pat_completeness auto
termination
  by (relation "measure (\<lambda>(f, g, p). length (snd p))")
    (auto simp: first_match_def split: list.splits if_splits)

declare replace_func.simps [simp del]

definition ReplaceAllStringFunc :: "matcher \<Rightarrow> (string \<Rightarrow> string) \<Rightarrow> string \<Rightarrow> string" where
  "ReplaceAllStringFunc f g s = replace_func f g (None, chunks s)"

subsection \<open>Character classes\<close>

definition r_lower :: "nat \<Rightarrow> bool" where
  "r_lower r \<longleftrightarrow> 97 \<le> r \<and> r \<le> 122"

definition r_upper :: "nat \<Rightarrow> bool" where
  "r_upper r \<longleftrightarrow> 65 \<le> r \<and> r \<le> 90"

definition r_digit :: "nat \<Rightarrow> bool" where
  "r_digit r \<longleftrightarrow> 48 \<le> r \<and> r \<le> 57"

definition r_alnum :: "nat \<Rightarrow> bool" where
  "r_alnum r \<longleftrightarrow> r_upper r \<or> r_lower r \<or> r_digit r"

definition r_hex :: "nat \<Rightarrow> bool" where
  "r_hex r \<longleftrightarrow> r_digit r \<or> 97 \<le> r \<and> r \<le> 102 \<or> 65 \<le> r \<and> r \<le> 70"

definition one_of :: "string \<Rightarrow> nat \<Rightarrow> bool" where
  "one_of cs r \<longleftrightarrow> r \<in> byte ` set cs"

lemmas class_defs = r_lower_def r_upper_def r_digit_def r_alnum_def r_hex_def one_of_def

subsection \<open>What anchored patterns accept\<close>

abbreviation run_of :: "(nat \<Rightarrow> bool) \<Rightarrow> chunk list \<Rightarrow> bool" where
  "run_of P ks \<equiv> (\<forall>k\<in>set ks. P (fst k))"

text \<open>\<open>leaves f p rest\<close>: a match of \<open>f\<close> from \<open>p\<close> may end before \<open>rest\<close>.\<close>

definition leaves :: "matcher \<Rightarrow> pos \<Rightarrow> chunk list \<Rightarrow> bool" where
  "leaves f p rest \<longleftrightarrow> (\<exists>b. (b, rest) \<in> set (f p))"

lemma full_match_leaves: "full_match f s \<longleftrightarrow> leaves f (None, chunks s) []"
  by (force simp: full_match_def leaves_def)

lemma m_set_simps:
  "m_set P (b, []) = []"
  "m_set P (b, k # ks) = (if P (fst k) then [(Some (fst k), ks)] else [])"
  by (simp_all add: m_set_def)

lemma leaves_set_seq:
  "leaves (m_seq (m_set P) g) (b, []) rest \<longleftrightarrow> False"
  "leaves (m_seq (m_set P) g) (b, k # ks) rest \<longleftrightarrow> P (fst k) \<and> leaves g (Some (fst k), ks) rest"
  by (auto simp: leaves_def m_seq_def m_set_simps)

lemma leaves_star:
  "leaves (m_star (m_set P)) (b, ks) rest \<longleftrightarrow> (\<exists>xs. ks = xs @ rest \<and> run_of P xs)"
proof (induction ks arbitrary: b)
  case Nil
  show ?case by (simp add: leaves_def m_star.simps [of _ "(b, [])"] m_set_simps)
next
  case (Cons k ks)
  have "leaves (m_star (m_set P)) (b, k # ks) rest \<longleftrightarrow>
      k # ks = rest \<or> P (fst k) \<and> leaves (m_star (m_set P)) (Some (fst k), ks) rest"
    by (auto simp: leaves_def m_star.simps [of _ "(b, k # ks)"] m_set_simps)
  also have "\<dots> \<longleftrightarrow> (\<exists>xs. k # ks = xs @ rest \<and> run_of P xs)" (is "?L \<longleftrightarrow> ?R")
  proof
    assume ?L
    then consider "k # ks = rest" | xs where "P (fst k)" "ks = xs @ rest" "run_of P xs"
      using Cons.IH by auto
    then show ?R
    proof cases
      case 1
      then show ?thesis by (intro exI [of _ "[]"]) simp
    next
      case 2
      then show ?thesis by (intro exI [of _ "k # xs"]) simp
    qed
  next
    assume ?R
    then obtain xs where "k # ks = xs @ rest" "run_of P xs" by blast
    then show ?L using Cons.IH by (cases xs) auto
  qed
  finally show ?case .
qed

lemma full_match_star: "full_match (m_star (m_set P)) s \<longleftrightarrow> (\<forall>r\<in>set (runes s). P r)"
  by (simp add: full_match_leaves leaves_star)

lemma full_match_set_star:
  "full_match (m_seq (m_set P) (m_star (m_set Q))) s \<longleftrightarrow>
     (\<exists>r rs. runes s = r # rs \<and> P r \<and> (\<forall>x\<in>set rs. Q x))"
  by (cases "chunks s") (auto simp: full_match_leaves leaves_set_seq leaves_star)

lemma full_match_plus:
  "full_match (m_plus (m_set P)) s \<longleftrightarrow> s \<noteq> [] \<and> (\<forall>r\<in>set (runes s). P r)"
  by (cases "chunks s") (auto simp: m_plus_def full_match_leaves leaves_set_seq leaves_star)

lemma leaves_times:
  "leaves (m_times n (m_set P)) (b, ks) rest \<longleftrightarrow>
     (\<exists>xs. ks = xs @ rest \<and> length xs = n \<and> run_of P xs)"
proof (induction n arbitrary: b ks)
  case 0
  show ?case by (auto simp: leaves_def)
next
  case (Suc n)
  have step: "leaves (m_times (Suc n) (m_set P)) (b, ks) rest \<longleftrightarrow>
      leaves (m_seq (m_set P) (m_times n (m_set P))) (b, ks) rest"
    by (simp add: leaves_def m_seq_def)
  show ?case
  proof (cases ks)
    case (Cons k ks')
    show ?thesis (is "?L \<longleftrightarrow> ?R")
    proof
      assume ?L
      then obtain xs where "P (fst k)" "ks' = xs @ rest" "length xs = n" "run_of P xs"
        using step Cons Suc.IH by (auto simp: leaves_set_seq simp del: m_times.simps)
      then show ?R using Cons by (intro exI [of _ "k # xs"]) simp
    next
      assume ?R
      then show ?L using step Cons Suc.IH
        by (auto simp: leaves_set_seq length_Suc_conv simp del: m_times.simps)
    qed
  qed (use step in \<open>simp add: leaves_set_seq del: m_times.simps\<close>)
qed

lemma leaves_upto:
  "leaves (m_upto n (m_set P)) (b, ks) rest \<longleftrightarrow>
     (\<exists>xs. ks = xs @ rest \<and> length xs \<le> n \<and> run_of P xs)"
proof (induction n arbitrary: b ks)
  case 0
  show ?case by (auto simp: leaves_def)
next
  case (Suc n)
  have step: "leaves (m_upto (Suc n) (m_set P)) (b, ks) rest \<longleftrightarrow>
      ks = rest \<or> leaves (m_seq (m_set P) (m_upto n (m_set P))) (b, ks) rest"
    by (auto simp: leaves_def m_seq_def)
  show ?case (is "?L \<longleftrightarrow> ?R")
  proof
    assume ?L
    then consider "ks = rest"
      | k xs where "ks = k # xs @ rest" "P (fst k)" "length xs \<le> n" "run_of P xs"
      using step Suc.IH by (cases ks) (auto simp: leaves_set_seq simp del: m_upto.simps)
    then show ?R
    proof cases
      case 1
      then show ?thesis by (intro exI [of _ "[]"]) simp
    next
      case 2
      then show ?thesis by (intro exI [of _ "k # xs"]) simp
    qed
  next
    assume ?R
    then obtain xs where "ks = xs @ rest" "length xs \<le> Suc n" "run_of P xs" by blast
    then show ?L using step Suc.IH by (cases xs) (auto simp: leaves_set_seq simp del: m_upto.simps)
  qed
qed

lemma full_match_between:
  assumes "lo \<le> hi"
  shows "full_match (m_between lo hi (m_set P)) s \<longleftrightarrow>
     lo \<le> length (runes s) \<and> length (runes s) \<le> hi \<and> (\<forall>r\<in>set (runes s). P r)"
proof -
  have "full_match (m_between lo hi (m_set P)) s \<longleftrightarrow>
      (\<exists>b' rest. (b', rest) \<in> set (m_times lo (m_set P) (None, chunks s)) \<and>
         leaves (m_upto (hi - lo) (m_set P)) (b', rest) [])"
    by (force simp: full_match_def leaves_def m_between_def m_seq_def)
  also have "\<dots> \<longleftrightarrow> (\<exists>rest. leaves (m_times lo (m_set P)) (None, chunks s) rest \<and>
      length rest \<le> hi - lo \<and> run_of P rest)"
    by (simp add: leaves_upto) (auto simp: leaves_def)
  also have "\<dots> \<longleftrightarrow> lo \<le> length (runes s) \<and> length (runes s) \<le> hi \<and> (\<forall>r\<in>set (runes s). P r)"
    (is "?L \<longleftrightarrow> ?R")
  proof
    assume ?L
    then obtain xs rest where "chunks s = xs @ rest" "length xs = lo" "run_of P xs"
      "length rest \<le> hi - lo" "run_of P rest"
      by (auto simp: leaves_times)
    then show ?R using assms by auto
  next
    assume r: ?R
    then have "run_of P (take lo (chunks s))" "run_of P (drop lo (chunks s))"
      by (auto dest: in_set_takeD in_set_dropD)
    moreover from this r have "leaves (m_times lo (m_set P)) (None, chunks s) (drop lo (chunks s))"
      unfolding leaves_times by (intro exI [of _ "take lo (chunks s)"]) auto
    ultimately show ?L using r by (intro exI [of _ "drop lo (chunks s)"]) auto
  qed
  finally show ?thesis .
qed

subsection \<open>Replacing runs of a class\<close>

lemma m_star_not_Nil [simp]: "m_star f p \<noteq> []"
  by (subst m_star.simps) simp

lemma star_class_suffix:
  assumes "q \<in> set (m_star (m_set P) (b, ks))"
  shows "\<exists>xs. ks = xs @ snd q"
proof -
  have "leaves (m_star (m_set P)) (b, ks) (snd q)"
    using assms by (auto simp: leaves_def) (metis prod.collapse)
  then show ?thesis by (auto simp: leaves_star)
qed

lemma first_match_class_suffix:
  assumes "first_match (m_plus (m_set P)) p = Some q"
  shows "\<exists>xs. snd p = xs @ snd q"
proof (cases "snd p")
  case Nil
  with assms show ?thesis by (auto simp: first_match_def split: list.splits if_splits)
next
  case (Cons k ks)
  then have "p = (fst p, k # ks)" by (metis prod.collapse)
  with assms have "q \<in> set (m_star (m_set P) (Some (fst k), ks))"
    by (cases p)
      (auto simp: first_match_def m_plus_def m_seq_def m_set_simps split: list.splits if_splits)
  then obtain xs where "ks = xs @ snd q" using star_class_suffix by blast
  with Cons show ?thesis by (intro exI [of _ "k # xs"]) simp
qed

lemma first_match_class:
  "first_match (m_plus (m_set P)) (b, k # ks) = None \<longleftrightarrow> \<not> P (fst k)"
proof (cases "P (fst k)")
  case True
  have "length (snd (hd (m_star (m_set P) (Some (fst k), ks)))) \<le> length ks"
    using star_class_suffix [OF list.set_sel(1) [OF m_star_not_Nil [of "m_set P" "(Some (fst k), ks)"]]]
    by (auto dest: arg_cong [where f = length])
  then show ?thesis
    using True
    by (cases "m_star (m_set P) (Some (fst k), ks)")
      (auto simp: first_match_def m_plus_def m_seq_def m_set_simps)
qed (simp add: first_match_def m_plus_def m_seq_def m_set_simps)

text \<open>What is left of a text after the runs of a class have been replaced.\<close>

lemma replace_func_class_chars:
  assumes "c \<in> set (replace_func (m_plus (m_set P)) (\<lambda>_. new) p)"
  shows "c \<in> set new \<or> (\<exists>k\<in>set (snd p). \<not> P (fst k) \<and> c \<in> set (snd k))"
  using assms
proof (induction "m_plus (m_set P)" "\<lambda>_ :: string. new" p rule: replace_func.induct)
  case (1 p)
  show ?case
  proof (cases "snd p")
    case Nil
    with "1.prems" show ?thesis by (simp add: replace_func.simps)
  next
    case (Cons k ks)
    show ?thesis
    proof (cases "first_match (m_plus (m_set P)) p")
      case None
      then have nP: "\<not> P (fst k)"
        using first_match_class [of P "fst p" k ks] Cons by (metis prod.collapse)
      have "c \<in> set (snd k) \<or> c \<in> set (replace_func (m_plus (m_set P)) (\<lambda>_. new) (Some (fst k), ks))"
        using "1.prems" Cons None by (subst (asm) replace_func.simps) simp
      then show ?thesis
        using "1.hyps"(1) [OF Cons None] nP Cons by auto
    next
      case (Some q)
      have "c \<in> set new \<or> c \<in> set (replace_func (m_plus (m_set P)) (\<lambda>_. new) q)"
        using "1.prems" Cons Some by (subst (asm) replace_func.simps) simp
      moreover have "set (snd q) \<subseteq> set (snd p)"
        using first_match_class_suffix [OF Some] by auto
      ultimately show ?thesis
        using "1.hyps"(2) [OF Cons Some] by blast
    qed
  qed
qed

lemma class_replacement_chars:
  assumes "\<And>r. \<not> P r \<Longrightarrow> r < 128"
    and "c \<in> set (ReplaceAllStringFunc (m_plus (m_set P)) (\<lambda>_. new) s)"
  shows "c \<in> set new \<or> \<not> P (byte c)"
proof -
  have "c \<in> set (replace_func (m_plus (m_set P)) (\<lambda>_. new) (None, chunks s))"
    using assms(2) by (simp add: ReplaceAllStringFunc_def)
  from replace_func_class_chars [OF this] show ?thesis
  proof
    assume "\<exists>k\<in>set (snd (None, chunks s)). \<not> P (fst k) \<and> c \<in> set (snd k)"
    then obtain k where k: "k \<in> set (chunks s)" "\<not> P (fst k)" "c \<in> set (snd k)" by auto
    with assms(1) chunk_below_128 obtain d where "k = (byte d, [d])" by blast
    with k show ?thesis by simp
  qed simp
qed

end
