(* ===== verification/String_Util.thy ===== *)
theory String_Util
  imports Go_Regexp Go_Quote
begin

text \<open>
  The package \<^verbatim>\<open>internal/stringutil\<close> and the types of \<^verbatim>\<open>pgtype\<close> that the whole program shares.
  The theorems are about quoting for the shell: a specification of how a POSIX shell reads single
  quotes, backslashes and double quotes splits a command into program text and quoted values, and
  \<open>ShellQuote\<close> contributes exactly its argument, as a quoted value, in every unquoted position.
\<close>

subsection \<open>Values of pgtype\<close>

text \<open>
  A nullable column: \<open>None\<close> is \<open>Valid = false\<close>, which the driver scans with the zero value in the
  other field, so reading \<open>.String\<close> of a null text gives the empty string.
\<close>

type_synonym pg_uuid = "string option"
type_synonym pg_text = "string option"
type_synonym pg_int4 = "int option"
type_synonym pg_time = "nat option"

definition text_String :: "pg_text \<Rightarrow> string" where
  "text_String t = (case t of None \<Rightarrow> [] | Some s \<Rightarrow> s)"

lemma text_String_simps [simp]: "text_String None = []" "text_String (Some s) = s"
  by (simp_all add: text_String_def)

text \<open>
  Errors: \<open>pgx.ErrNoRows\<close>, an error of the database server with its code and the name of the
  violated constraint, and any other error, of which the program only uses the text.
\<close>

datatype go_error =
    ErrNoRows
  | PgError (pg_code: string) (pg_constraint: string) (pg_message: string)
  | Errorf string

fun err_text :: "go_error \<Rightarrow> string" where
  "err_text ErrNoRows = ''no rows in result set''"
| "err_text (PgError code constraint message) =
     ''ERROR: '' @ message @ '' (SQLSTATE '' @ code @ '')''"
| "err_text (Errorf s) = s"

subsection \<open>The package stringutil\<close>

definition HasControlCharacter :: "string \<Rightarrow> bool" where
  "HasControlCharacter value \<longleftrightarrow> (\<exists>r\<in>set (runes value). IsControl r)"

definition ShellQuote :: "string \<Rightarrow> string" where
  "ShellQuote value =
     [CHR 0x27] @ ReplaceAll value [CHR 0x27] [CHR 0x27, backslash, CHR 0x27, CHR 0x27] @ [CHR 0x27]"

fun FirstNonBlank :: "string list \<Rightarrow> string" where
  "FirstNonBlank [] = []"
| "FirstNonBlank (v # vs) = (if TrimSpace v \<noteq> [] then TrimSpace v else FirstNonBlank vs)"

definition UniqueTrimmed :: "string list \<Rightarrow> string list" where
  "UniqueTrimmed values = first_seen [] (filter (\<lambda>v. v \<noteq> []) (map TrimSpace values))"

subsection \<open>Redaction of secrets\<close>

text \<open>
  Case-insensitive matching folds a code point with all its simple case variants: beside the other
  case of a letter, the long s folds with s and the Kelvin sign with k.
\<close>

definition fold_class :: "(nat \<Rightarrow> bool) \<Rightarrow> nat \<Rightarrow> bool" where
  "fold_class P r \<longleftrightarrow>
     P r \<or> r_lower r \<and> P (r - 32) \<or> r_upper r \<and> P (r + 32)
     \<or> r = 0x17F \<and> (P 115 \<or> P 83) \<or> r = 0x212A \<and> (P 107 \<or> P 75)"

definition m_set_i :: "(nat \<Rightarrow> bool) \<Rightarrow> matcher" where
  "m_set_i P = m_set (fold_class P)"

fun m_lit_i :: "string \<Rightarrow> matcher" where
  "m_lit_i [] p = [p]"
| "m_lit_i (c # cs) p = concat (map (m_lit_i cs) (m_set_i (\<lambda>r. r = byte c) p))"

definition r_space :: "nat \<Rightarrow> bool" where
  "r_space r \<longleftrightarrow> r = 9 \<or> r = 10 \<or> r = 12 \<or> r = 13 \<or> r = 32"

definition m_choice :: "matcher list \<Rightarrow> matcher" where
  "m_choice fs p = concat (map (\<lambda>f. f p) fs)"

fun m_seqs :: "matcher list \<Rightarrow> matcher" where
  "m_seqs [] p = [p]"
| "m_seqs (f # fs) p = concat (map (m_seqs fs) (f p))"

definition token_pattern :: matcher where
  "token_pattern = m_seqs [
     m_choice (map m_lit_i [''ghp_'', ''github_pat_'', ''xoxb-'', ''xoxp-'', ''sk_live_'', ''sk_test_'',
                            ''dp.pt.'', ''AIza'']),
     m_plus (m_set_i (\<lambda>r. r_alnum r \<or> one_of ''_.-'' r))]"

definition aws_key_pattern :: matcher where
  "aws_key_pattern = m_seqs [
     m_word_boundary, m_choice [m_lit ''AKIA'', m_lit ''ASIA''],
     m_times 16 (m_set (\<lambda>r. r_upper r \<or> r_digit r)), m_word_boundary]"

definition slack_hook_pattern :: matcher where
  "slack_hook_pattern = m_seqs [
     m_lit ''https://hooks.slack.com/services/'', m_plus (m_set (\<lambda>r. r_alnum r \<or> one_of ''/_-'' r))]"

definition bearer_pattern :: matcher where
  "bearer_pattern = m_seqs [
     m_lit_i ''bearer'', m_plus (m_set_i r_space),
     m_at_least 8 (m_set_i (\<lambda>r. r_alnum r \<or> one_of ''._~+/=-'' r))]"

definition basic_auth_pattern :: matcher where
  "basic_auth_pattern = m_seqs [
     m_lit_i ''authorization:'', m_star (m_set_i r_space), m_lit_i ''basic'', m_plus (m_set_i r_space),
     m_at_least 8 (m_set_i (\<lambda>r. r_alnum r \<or> one_of ''+/='' r))]"

definition private_key_pattern :: matcher where
  "private_key_pattern = m_seqs [
     m_lit ''-----BEGIN '', m_star (m_set (\<lambda>r. r_upper r \<or> r = 32)), m_lit ''PRIVATE KEY-----'',
     m_star_lazy (m_set (\<lambda>r. True)),
     m_lit ''-----END '', m_star (m_set (\<lambda>r. r_upper r \<or> r = 32)), m_lit ''PRIVATE KEY-----'']"

definition SensitiveTextPatterns :: "matcher list" where
  "SensitiveTextPatterns =
     [token_pattern, aws_key_pattern, slack_hook_pattern, bearer_pattern, basic_auth_pattern,
      private_key_pattern]"

definition redaction :: "string \<Rightarrow> string" where
  "redaction match =
     (if HasPrefix (ToLower match) ''bearer '' then ''Bearer [redacted]'' else ''[redacted]'')"

definition RedactSensitiveText :: "string \<Rightarrow> string" where
  "RedactSensitiveText value =
     foldl (\<lambda>value pattern. ReplaceAllStringFunc pattern redaction value) value SensitiveTextPatterns"

subsection \<open>Identifiers\<close>

text \<open>
  \<open>uuid.Parse\<close> and \<open>UUID.String\<close> belong to a library outside the repository: they are parameters.
\<close>

definition PgUUID :: "(string \<Rightarrow> go_error + string) \<Rightarrow> string \<Rightarrow> go_error + pg_uuid" where
  "PgUUID parse value = (case parse value of Inl err \<Rightarrow> Inl err | Inr u \<Rightarrow> Inr (Some u))"

definition UUIDString :: "(string \<Rightarrow> string) \<Rightarrow> pg_uuid \<Rightarrow> string" where
  "UUIDString to_string u = (case u of None \<Rightarrow> [] | Some bytes \<Rightarrow> to_string bytes)"

text \<open>\<open>os.UserHomeDir\<close> reads the environment: its result is a parameter.\<close>

definition ExpandHome :: "string option \<Rightarrow> string \<Rightarrow> string" where
  "ExpandHome home path =
     (if path = ''~'' \<and> home \<noteq> None then the home
      else if HasPrefix path ''~/'' \<and> home \<noteq> None then PathJoin [the home, TrimPrefix path ''~/'']
      else path)"

subsection \<open>How a shell reads a command\<close>

text \<open>
  The quoting rules of a POSIX shell. Outside quotes a single quote opens a literal run, a backslash
  makes the next character literal and a double quote opens a string in which single quotes mean
  nothing. \<open>Code\<close> is a character the shell interprets, \<open>Quoted\<close> a value it takes literally; adjacent
  literal runs join into one value. An unterminated quote has no reading.
\<close>

datatype segment = Code char | Quoted string

datatype sh_mode = Plain | Single | Double

fun add_quoted :: "string \<Rightarrow> segment list \<Rightarrow> segment list" where
  "add_quoted s (Quoted t # segs) = Quoted (s @ t) # segs"
| "add_quoted s segs = Quoted s # segs"

fun sh_scan :: "sh_mode \<Rightarrow> string \<Rightarrow> segment list option" where
  "sh_scan Plain [] = Some []"
| "sh_scan Single [] = None"
| "sh_scan Double [] = None"
| "sh_scan Single (c # cs) =
     (if c = CHR 0x27 then map_option (add_quoted []) (sh_scan Plain cs)
      else map_option (add_quoted [c]) (sh_scan Single cs))"
| "sh_scan Double (c # cs) =
     (if c = CHR 0x22 then map_option (Cons (Code c)) (sh_scan Plain cs)
      else if c = backslash then
        (case cs of [] \<Rightarrow> None | d # ds \<Rightarrow> map_option (\<lambda>r. Code c # Code d # r) (sh_scan Double ds))
      else map_option (Cons (Code c)) (sh_scan Double cs))"
| "sh_scan Plain (c # cs) =
     (if c = CHR 0x27 then sh_scan Single cs
      else if c = backslash then
        (case cs of [] \<Rightarrow> None | d # ds \<Rightarrow> map_option (add_quoted [d]) (sh_scan Plain ds))
      else if c = CHR 0x22 then map_option (Cons (Code c)) (sh_scan Double cs)
      else map_option (Cons (Code c)) (sh_scan Plain cs))"

lemma add_quoted_add: "add_quoted s (add_quoted t segs) = add_quoted (s @ t) segs"
  by (cases "(t, segs)" rule: add_quoted.cases) auto

lemma add_quoted_comp: "add_quoted s \<circ> add_quoted t = add_quoted (s @ t)"
  by (rule ext) (simp add: add_quoted_add)

text \<open>Text without quoting characters is program text.\<close>

definition plain_char :: "char \<Rightarrow> bool" where
  "plain_char c \<longleftrightarrow> c \<noteq> CHR 0x27 \<and> c \<noteq> CHR 0x22 \<and> c \<noteq> backslash"

definition plain :: "string \<Rightarrow> bool" where
  "plain s = list_all plain_char s"

lemma plain_simps [simp]:
  "plain []" "plain (c # s) \<longleftrightarrow> plain_char c \<and> plain s" "plain (s @ t) \<longleftrightarrow> plain s \<and> plain t"
  by (simp_all add: plain_def)

lemma sh_scan_plain [quoting]:
  "plain s \<Longrightarrow> sh_scan Plain (s @ rest) = map_option ((@) (map Code s)) (sh_scan Plain rest)"
proof (induction s)
  case Nil
  then show ?case by (cases "sh_scan Plain rest") auto
next
  case (Cons c s)
  then show ?case by (cases "sh_scan Plain rest") (auto simp: plain_char_def)
qed

lemma sh_scan_double [quoting]:
  "plain s \<Longrightarrow> sh_scan Double (s @ rest) = map_option ((@) (map Code s)) (sh_scan Double rest)"
proof (induction s)
  case Nil
  then show ?case by (cases "sh_scan Double rest") auto
next
  case (Cons c s)
  then show ?case by (cases "sh_scan Double rest") (auto simp: plain_char_def)
qed

lemma sh_scan_single_body:
  "sh_scan Single (ReplaceAll v [CHR 0x27] [CHR 0x27, backslash, CHR 0x27, CHR 0x27] @ CHR 0x27 # rest)
     = map_option (add_quoted v) (sh_scan Plain rest)"
proof (induction v)
  case (Cons c v)
  then show ?case
    by (cases "c = CHR 0x27")
      (auto simp: ReplaceAll_single option.map_comp add_quoted_comp)
qed (simp add: ReplaceAll_single)

lemma sh_scan_ShellQuote [quoting]:
  "sh_scan Plain (ShellQuote v @ rest) = map_option (add_quoted v) (sh_scan Plain rest)"
  using sh_scan_single_body [of v rest] by (simp add: ShellQuote_def)

lemma sh_scan_ShellQuote_end [quoting]: "sh_scan Plain (ShellQuote v) = Some [Quoted v]"
  using sh_scan_ShellQuote [of v "[]"] by simp

text \<open>A list of quoted values separated by blanks is read as that list.\<close>

fun spaced :: "string list \<Rightarrow> segment list" where
  "spaced [] = []"
| "spaced [v] = [Quoted v]"
| "spaced (v # w # vs) = Quoted v # Code (CHR '' '') # spaced (w # vs)"

lemma sh_scan_quoted_list [quoting]:
  "sh_scan Plain (Join (map ShellQuote vs) '' '') = Some (spaced vs)"
proof (induction vs rule: spaced.induct)
  case (3 v w vs)
  then show ?case
    by (simp add: sh_scan_ShellQuote)
qed (simp_all add: sh_scan_ShellQuote_end)

text \<open>The reading of a text is composed from the readings of its parts.\<close>

fun app_segments :: "segment list \<Rightarrow> segment list \<Rightarrow> segment list" where
  "app_segments [] segs = segs"
| "app_segments (Code c # xs) segs = Code c # app_segments xs segs"
| "app_segments (Quoted s # xs) segs = add_quoted s (app_segments xs segs)"

lemma app_add_quoted: "app_segments (add_quoted s xs) segs = add_quoted s (app_segments xs segs)"
  by (cases "(s, xs)" rule: add_quoted.cases) (auto simp: add_quoted_add)

lemma sh_scan_append:
  "sh_scan m s = Some segs \<Longrightarrow>
     sh_scan m (s @ rest) = map_option (app_segments segs) (sh_scan Plain rest)"
proof (induction m s arbitrary: segs rule: sh_scan.induct)
  case 1
  then show ?case by (cases "sh_scan Plain rest") auto
next
  case (4 c cs)
  then show ?case
    by (cases "sh_scan Plain rest") (auto simp: app_add_quoted split: if_splits)
next
  case (5 c cs)
  then show ?case
    by (cases "sh_scan Plain rest") (auto split: if_splits list.splits)
next
  case (6 c cs)
  then show ?case
    by (cases "sh_scan Plain rest") (auto simp: app_add_quoted split: if_splits list.splits)
qed auto

text \<open>What a reading consists of: the text that the shell interprets, and the values it does not.\<close>

fun code_text :: "segment list \<Rightarrow> string" where
  "code_text [] = []"
| "code_text (Code c # segs) = c # code_text segs"
| "code_text (Quoted s # segs) = code_text segs"

fun quoted_values :: "segment list \<Rightarrow> string list" where
  "quoted_values [] = []"
| "quoted_values (Code c # segs) = quoted_values segs"
| "quoted_values (Quoted s # segs) = s # quoted_values segs"

lemma reading_Code [simp]:
  "code_text (map Code s @ segs) = s @ code_text segs"
  "quoted_values (map Code s @ segs) = quoted_values segs"
  by (induction s) auto

text \<open>
  The program of a command: the text that the shell interprets, with all quoted values taken out.
  It is composed from the programs of the parts, without any condition on how they meet.
\<close>

definition shell_program :: "string \<Rightarrow> string option" where
  "shell_program s = map_option code_text (sh_scan Plain s)"

lemma code_text_add_quoted [simp]: "code_text (add_quoted s segs) = code_text segs"
  by (cases "(s, segs)" rule: add_quoted.cases) auto

lemma code_text_app [simp]: "code_text (app_segments xs segs) = code_text xs @ code_text segs"
  by (induction xs segs rule: app_segments.induct) auto

lemma shell_program_Nil [quoting]: "shell_program [] = Some []"
  by (simp add: shell_program_def)

lemma shell_program_Cons [quoting]:
  "plain_char c \<Longrightarrow> shell_program (c # s) = map_option (Cons c) (shell_program s)"
  by (cases "sh_scan Plain s") (auto simp: shell_program_def plain_char_def)

lemma shell_program_append:
  "shell_program a = Some c \<Longrightarrow> shell_program (a @ b) = map_option ((@) c) (shell_program b)"
  by (cases "sh_scan Plain b") (auto simp: shell_program_def sh_scan_append)

lemma shell_program_plain:
  "plain s \<Longrightarrow> shell_program (s @ b) = map_option ((@) s) (shell_program b)"
  by (cases "sh_scan Plain b") (auto simp: shell_program_def sh_scan_plain)

lemma shell_program_ShellQuote [quoting]:
  "shell_program (ShellQuote v @ b) = shell_program b"
  "shell_program (ShellQuote v) = Some []"
  by (cases "sh_scan Plain b")
    (auto simp: shell_program_def sh_scan_ShellQuote sh_scan_ShellQuote_end)

text \<open>A string in double quotes is program text, whatever plain text it contains.\<close>

lemma shell_program_double [quoting]:
  "plain s \<Longrightarrow> shell_program (CHR 0x22 # s @ CHR 0x22 # b)
     = map_option (\<lambda>c. CHR 0x22 # s @ CHR 0x22 # c) (shell_program b)"
  by (cases "sh_scan Plain b") (auto simp: shell_program_def sh_scan_double)

lemma shell_program_concat:
  assumes "\<And>x. x \<in> set xs \<Longrightarrow> shell_program (f x) = Some (g x)"
  shows "shell_program (concat (map f xs) @ b) = map_option ((@) (concat (map g xs))) (shell_program b)"
  using assms
proof (induction xs)
  case (Cons x xs)
  have "shell_program (f x @ concat (map f xs) @ b)
      = map_option ((@) (g x)) (shell_program (concat (map f xs) @ b))"
    by (rule shell_program_append) (simp add: Cons.prems)
  with Cons show ?case by (cases "shell_program b") auto
qed (cases "shell_program b", auto)

end
