(* ===== verification/Db_Models.thy ===== *)
theory Db_Models
  imports String_Util
begin

text \<open>
  The row types of \<^verbatim>\<open>internal/db/models.go\<close> and of the joined rows of \<^verbatim>\<open>internal/db/core.sql.go\<close> that
  the deployment pipeline reads and writes, field by field. A timestamp is a point on the clock of
  the database server, a \<^verbatim>\<open>[]byte\<close> column of JSON text is a string.
\<close>

record application =
  app_ID :: pg_uuid
  app_EnvironmentID :: pg_uuid
  app_ServerID :: pg_uuid
  app_Name :: string
  app_RepositoryUrl :: pg_text
  app_Branch :: string
  app_ComposePath :: string
  app_RemoteDirectory :: string
  app_Domain :: pg_text
  app_HealthCheckUrl :: pg_text
  app_DopplerProject :: pg_text
  app_DopplerConfig :: pg_text
  app_Status :: string
  app_CurrentVersion :: pg_text
  app_TargetVersion :: pg_text
  app_CreatedAt :: pg_time
  app_UpdatedAt :: pg_time
  app_GithubAutoDeploy :: bool
  app_ConfigurationRevision :: int
  app_DeployedConfigurationRevision :: int
  app_DeployedProjectConfigurationRevision :: int
  app_ComposeServices :: string

record deployment_slot =
  slot_ID :: pg_uuid
  slot_ApplicationID :: pg_uuid
  slot_ServerID :: pg_uuid
  slot_Color :: string
  slot_DeploymentID :: pg_uuid
  slot_ImageRef :: string
  slot_ImageDigest :: pg_text
  slot_Status :: string
  slot_PromotedAt :: pg_time
  slot_CreatedAt :: pg_time
  slot_UpdatedAt :: pg_time

record service_runtime_config =
  cfg_ApplicationID :: pg_uuid
  cfg_ComposeService :: string
  cfg_DopplerProject :: pg_text
  cfg_DopplerConfig :: pg_text
  cfg_Variables :: string
  cfg_CreatedAt :: pg_time
  cfg_UpdatedAt :: pg_time

record audit_event =
  audit_ID :: nat
  audit_Actor :: string
  audit_Action :: string
  audit_TargetType :: string
  audit_TargetID :: string
  audit_TargetName :: string
  audit_Metadata :: string
  audit_CreatedAt :: pg_time

record build_run =
  build_ID :: pg_uuid
  build_Provider :: string
  build_ConnectorID :: pg_uuid
  build_ApplicationID :: pg_uuid
  build_Repository :: string
  build_Branch :: string
  build_WorkflowID :: string
  build_Status :: string
  build_CommitSha :: pg_text
  build_ImageRef :: pg_text
  build_ImageDigest :: pg_text
  build_ExternalUrl :: pg_text
  build_ErrorMessage :: pg_text
  build_StartedAt :: pg_time
  build_CompletedAt :: pg_time
  build_CreatedAt :: pg_time
  build_UpdatedAt :: pg_time

record connector_account =
  acc_ID :: pg_uuid
  acc_Provider :: string
  acc_Name :: string
  acc_Enabled :: bool
  acc_Config :: string
  acc_LastSyncStatus :: pg_text
  acc_LastSyncMessage :: pg_text
  acc_LastSyncedAt :: pg_time
  acc_CreatedAt :: pg_time
  acc_UpdatedAt :: pg_time

record deployment =
  dep_ID :: pg_uuid
  dep_ApplicationID :: pg_uuid
  dep_ServerID :: pg_uuid
  dep_Trigger :: string
  dep_Strategy :: string
  dep_Status :: string
  dep_CommitSha :: pg_text
  dep_Actor :: pg_text
  dep_StartedAt :: pg_time
  dep_FinishedAt :: pg_time
  dep_CreatedAt :: pg_time
  dep_ImageRef :: pg_text
  dep_ImageDigest :: pg_text
  dep_SourceRepositoryUrl :: pg_text
  dep_SourceBranch :: pg_text
  dep_CommitMessage :: pg_text
  dep_ConfigurationSnapshot :: string

record deployment_log =
  log_ID :: nat
  log_DeploymentID :: pg_uuid
  log_Stream :: string
  log_Message :: string
  log_CreatedAt :: pg_time

record environment =
  env_ID :: pg_uuid
  env_ProjectID :: pg_uuid
  env_Name :: string
  env_Slug :: string
  env_Kind :: string
  env_IsEphemeral :: bool
  env_PullRequestNumber :: pg_int4
  env_Branch :: pg_text
  env_ExpiresAt :: pg_time
  env_CreatedAt :: pg_time
  env_UpdatedAt :: pg_time

record project =
  proj_ID :: pg_uuid
  proj_Name :: string
  proj_Slug :: string
  proj_Description :: string
  proj_CreatedAt :: pg_time
  proj_UpdatedAt :: pg_time
  proj_DefaultRegistryID :: pg_uuid
  proj_RepositoryConnectorID :: pg_uuid
  proj_RepositoryFullName :: pg_text
  proj_RepositoryBranch :: pg_text
  proj_ConfigurationRevision :: int

record project_runtime_variable =
  pvar_ProjectID :: pg_uuid
  pvar_Key :: string
  pvar_Value :: string
  pvar_CreatedAt :: pg_time
  pvar_UpdatedAt :: pg_time

record proxy_route =
  route_ID :: pg_uuid
  route_ServerID :: pg_uuid
  route_ApplicationID :: pg_uuid
  route_Domain :: string
  route_UpstreamUrl :: string
  route_TlsEnabled :: bool
  route_Status :: string
  route_LastAppliedAt :: pg_time
  route_CreatedAt :: pg_time
  route_UpdatedAt :: pg_time
  route_BlueUpstreamUrl :: pg_text
  route_GreenUpstreamUrl :: pg_text
  route_ComposeService :: pg_text
  route_ContainerPort :: pg_int4
  route_PortVariable :: pg_text

text \<open>The usage columns of a server, which only the health checks write, are left out.\<close>

record server =
  srv_ID :: pg_uuid
  srv_Name :: string
  srv_Hostname :: string
  srv_SshUser :: string
  srv_SshPort :: int
  srv_SshKeyPath :: pg_text
  srv_ConnectionMode :: string
  srv_ProxyType :: string
  srv_Status :: string

subsection \<open>Joined rows\<close>

record dev_sudo_user =
  dev_ID :: pg_uuid
  dev_ServerID :: pg_uuid
  dev_Username :: string
  dev_CreatedAt :: pg_time
  dev_UpdatedAt :: pg_time

record deployment_target =
  tgt_DeploymentID :: pg_uuid
  tgt_Strategy :: string
  tgt_CommitSha :: pg_text
  tgt_ImageRef :: pg_text
  tgt_ImageDigest :: pg_text
  tgt_ApplicationID :: pg_uuid
  tgt_ApplicationName :: string
  tgt_RepositoryUrl :: pg_text
  tgt_Branch :: string
  tgt_ComposePath :: string
  tgt_RemoteDirectory :: string
  tgt_Domain :: pg_text
  tgt_HealthCheckUrl :: pg_text
  tgt_DopplerProject :: pg_text
  tgt_DopplerConfig :: pg_text
  tgt_ComposeServices :: string
  tgt_ConfigurationRevision :: int
  tgt_ProjectConfigurationRevision :: int
  tgt_RepositoryConnectorID :: pg_uuid
  tgt_ServerID :: pg_uuid
  tgt_ServerName :: string
  tgt_Hostname :: string
  tgt_SshUser :: string
  tgt_SshPort :: int
  tgt_SshKeyPath :: pg_text
  tgt_ConnectionMode :: string
  tgt_ProxyType :: string

record route_target =
  rt_ID :: pg_uuid
  rt_ServerID :: pg_uuid
  rt_ApplicationID :: pg_uuid
  rt_Domain :: string
  rt_UpstreamUrl :: string
  rt_TlsEnabled :: bool
  rt_Status :: string
  rt_BlueUpstreamUrl :: pg_text
  rt_GreenUpstreamUrl :: pg_text
  rt_ComposeService :: pg_text
  rt_ContainerPort :: pg_int4
  rt_PortVariable :: pg_text
  rt_ServerName :: string
  rt_Hostname :: string
  rt_SshUser :: string
  rt_SshPort :: int
  rt_SshKeyPath :: pg_text
  rt_ProxyType :: string

end
