(* ===== verification/Go_Utf8.thy ===== *)
theory Go_Utf8
  imports Go_Strings
begin

text \<open>
  Encoding and decoding of UTF-8 are inverse: what \<^verbatim>\<open>string(runes)\<close> writes is read back as the same
  code points, apart from surrogates and values out of range, which Go writes as U+FFFD.
\<close>

definition scalar :: "nat \<Rightarrow> nat" where
  "scalar r = (if 0xD800 \<le> r \<and> r \<le> 0xDFFF \<or> 0x10FFFF < r then rune_error else r)"


lemma digits_64:
  "(r::nat) = r div 64 * 64 + r mod 64"
  "r = r div 4096 * 4096 + r div 64 mod 64 * 64 + r mod 64"
  "r = r div 262144 * 262144 + r div 4096 mod 64 * 4096 + r div 64 mod 64 * 64 + r mod 64"
proof -
  have step: "q = q div 64 * 64 + q mod 64" for q :: nat by simp
  have d: "r div 64 div 64 = r div 4096" "r div 4096 div 64 = r div 262144" by (simp_all add: div_mult2_eq [symmetric])
  show one: "r = r div 64 * 64 + r mod 64" by (rule step)
  have "r div 64 = r div 4096 * 64 + r div 64 mod 64" using step [of "r div 64"] d by simp
  then show two: "r = r div 4096 * 4096 + r div 64 mod 64 * 64 + r mod 64" using one by linarith
  have "r div 4096 = r div 262144 * 64 + r div 4096 mod 64" using step [of "r div 4096"] d by simp
  then show "r = r div 262144 * 262144 + r div 4096 mod 64 * 4096 + r div 64 mod 64 * 64 + r mod 64"
    using two by linarith
qed

lemma decode_two:
  "2 \<le> a \<Longrightarrow> a < 32 \<Longrightarrow> b < 64 \<Longrightarrow>
   decode_rune (char_of (0xC0 + a) # char_of (0x80 + b) # s) = (a * 64 + b, 2)"
  by (simp add: decode_rune.simps Let_def continuation_def of_char_of)

lemma decode_three:
  "a < 16 \<Longrightarrow> b < 64 \<Longrightarrow> c < 64 \<Longrightarrow> (a = 0 \<longrightarrow> 32 \<le> b) \<Longrightarrow> (a = 13 \<longrightarrow> b \<le> 31) \<Longrightarrow>
   decode_rune (char_of (0xE0 + a) # char_of (0x80 + b) # char_of (0x80 + c) # s) = (a * 4096 + b * 64 + c, 3)"
  by (simp add: decode_rune.simps Let_def continuation_def second_byte_ok_def of_char_of)

lemma decode_four:
  "a < 5 \<Longrightarrow> b < 64 \<Longrightarrow> c < 64 \<Longrightarrow> d < 64 \<Longrightarrow> (a = 0 \<longrightarrow> 16 \<le> b) \<Longrightarrow> (a = 4 \<longrightarrow> b \<le> 15) \<Longrightarrow>
   decode_rune (char_of (0xF0 + a) # char_of (0x80 + b) # char_of (0x80 + c) # char_of (0x80 + d) # s)
     = (a * 262144 + b * 4096 + c * 64 + d, 4)"
  by (simp add: decode_rune.simps Let_def continuation_def second_byte_ok_def of_char_of)

lemma decode_encode_2:
  assumes "128 \<le> r" "r < 0x800"
  shows "decode_rune (encode_rune r @ s) = (r, 2)"
proof -
  have enc: "encode_rune r = [char_of (0xC0 + r div 64), char_of (0x80 + r mod 64)]"
    using assms by (simp add: encode_rune_def)
  have "2 \<le> r div 64" "r div 64 < 32" using assms by auto
  from decode_two [OF this, of "r mod 64" s] show ?thesis by (simp add: enc)
qed

lemma decode_encode_3:
  assumes "0x800 \<le> r" "r < 0x10000" "\<not> (0xD800 \<le> r \<and> r \<le> 0xDFFF)"
  shows "decode_rune (encode_rune r @ s) = (r, 3)"
proof -
  have r: "r = r div 4096 * 4096 + r div 64 mod 64 * 64 + r mod 64" by (rule digits_64)
  have enc: "encode_rune r = [char_of (0xE0 + r div 4096), char_of (0x80 + r div 64 mod 64), char_of (0x80 + r mod 64)]"
    using assms unfolding encode_rune_def by (simp only: if_False if_True not_less [symmetric]) auto
  have bounds: "r div 4096 < 16" "r div 64 mod 64 < 64" "r mod 64 < 64" using assms by simp_all
  have k: "r div 4096 = 0 \<longrightarrow> 32 \<le> r div 64 mod 64" "r div 4096 = 13 \<longrightarrow> r div 64 mod 64 \<le> 31"
    using assms bounds(2,3) r by linarith+
  from decode_three [OF bounds k, of s] show ?thesis unfolding enc using r by simp
qed

lemma decode_encode_4:
  assumes "0x10000 \<le> r" "r \<le> 0x10FFFF"
  shows "decode_rune (encode_rune r @ s) = (r, 4)"
proof -
  have r: "r = r div 262144 * 262144 + r div 4096 mod 64 * 4096 + r div 64 mod 64 * 64 + r mod 64"
    by (rule digits_64)
  have enc: "encode_rune r = [char_of (0xF0 + r div 262144), char_of (0x80 + r div 4096 mod 64),
      char_of (0x80 + r div 64 mod 64), char_of (0x80 + r mod 64)]"
    using assms by (simp add: encode_rune_def)
  have bounds: "r div 262144 < 5" "r div 4096 mod 64 < 64" "r div 64 mod 64 < 64" "r mod 64 < 64"
    using assms by simp_all
  have k: "r div 262144 = 0 \<longrightarrow> 16 \<le> r div 4096 mod 64" "r div 262144 = 4 \<longrightarrow> r div 4096 mod 64 \<le> 15"
    using assms bounds(2-4) r by linarith+
  from decode_four [OF bounds k, of s] show ?thesis unfolding enc using r by simp
qed

lemma length_encode_rune:
  "length (encode_rune r) = (if r < 0x80 then 1 else if r < 0x800 then 2
     else if r < 0x10000 \<or> 0x10FFFF < r then 3 else 4)"
  by (auto simp: encode_rune_def)

lemma decode_encode: "decode_rune (encode_rune r @ s) = (scalar r, length (encode_rune r))"
proof -
  consider "r < 128" | "128 \<le> r" "r < 0x800" | "0x800 \<le> r" "r < 0x10000" "\<not> (0xD800 \<le> r \<and> r \<le> 0xDFFF)"
    | "0x10000 \<le> r" "r \<le> 0x10FFFF" | "0xD800 \<le> r \<and> r \<le> 0xDFFF \<or> 0x10FFFF < r" by linarith
  then show ?thesis
  proof cases
    case 1 then show ?thesis by (simp add: scalar_def of_char_of)
  next
    case 2 then show ?thesis using decode_encode_2 [OF 2] by (simp add: scalar_def length_encode_rune)
  next
    case 3 then show ?thesis using decode_encode_3 [OF 3] by (auto simp: scalar_def length_encode_rune)
  next
    case 4 then show ?thesis using decode_encode_4 [OF 4] by (simp add: scalar_def length_encode_rune)
  next
    case 5
    then have "encode_rune r = encode_rune rune_error" "scalar r = rune_error"
      by (auto simp: encode_rune_def rune_error_def scalar_def)
    moreover have "decode_rune (encode_rune rune_error @ s) = (rune_error, 3)"
      by (rule decode_encode_3) (simp_all add: rune_error_def)
    ultimately show ?thesis by (simp add: encode_rune_def rune_error_def)
  qed
qed

lemma encode_rune_not_Nil [simp]: "encode_rune r \<noteq> []"
  by (simp add: encode_rune_def)

lemma chunks_encode_rune: "chunks (encode_rune r @ s) = (scalar r, encode_rune r) # chunks s"
proof -
  obtain c cs where e: "encode_rune r @ s = c # cs" by (cases "encode_rune r @ s") auto
  have "chunks (c # cs) = (let d = decode_rune (c # cs) in (fst d, take (snd d) (c # cs)) # chunks (drop (snd d) (c # cs)))"
    by (rule chunks.simps(2))
  then show ?thesis by (simp add: e [symmetric] decode_encode)
qed

lemma runes_encode_runes: "runes (encode_runes rs @ s) = map scalar rs @ runes s"
  by (induction rs) (simp_all add: encode_runes_def chunks_encode_rune)

lemma length_runes_encode_runes: "length (runes (encode_runes rs @ s)) = length rs + length (runes s)"
  by (simp only: runes_encode_runes length_append length_map)

lemma encode_rune_bytes: "c \<in> set (encode_rune r) \<Longrightarrow> 128 \<le> byte c \<or> c = char_of r \<and> r < 128"
proof -
  have high: "128 \<le> byte (char_of n)" if "128 \<le> n" "n < 256" for n :: nat
    using that by (simp add: byte_char_of)
  assume c: "c \<in> set (encode_rune r)"
  show ?thesis
  proof (cases "r < 128")
    case False
    have "r div 64 < 64" if "r < 2048" using that by simp
    moreover have "r div 4096 < 16" if "r < 65536" using that by simp
    moreover have "r div 262144 < 16" if "r \<le> 0x10FFFF" using that by simp
    ultimately show ?thesis using c False
      by (auto simp: encode_rune_def high split: if_splits)
  qed (use c in simp)
qed

lemma encode_runes_no_NUL: "0 \<notin> set rs \<Longrightarrow> CHR 0x00 \<notin> set (encode_runes rs)"
proof
  assume "0 \<notin> set rs" "CHR 0x00 \<in> set (encode_runes rs)"
  then obtain r where r: "r \<in> set rs" "CHR 0x00 \<in> set (encode_rune r)" by (auto simp: encode_runes_def)
  from encode_rune_bytes [OF r(2)] have "CHR 0x00 = char_of r" "r < 128" by simp_all
  then have "byte (CHR 0x00) = r" by (simp only: byte_char_of)
  then have "r = 0" by simp
  with r(1) \<open>0 \<notin> set rs\<close> show False by simp
qed

lemma runes_no_zero: "CHR 0x00 \<notin> set s \<Longrightarrow> 0 \<notin> set (runes s)"
proof
  assume nul: "CHR 0x00 \<notin> set s" and "0 \<in> set (runes s)"
  then obtain k where k: "k \<in> set (chunks s)" "fst k = 0" by auto
  then obtain c where c: "k = (byte c, [c])" using chunk_below_128 [of k s] by auto
  then have "c = CHR 0x00" using k(2) byte_inject [of c "CHR 0x00"] by simp
  moreover have "c \<in> set (chunk_bytes (chunks s))"
    unfolding set_concat set_map using k(1) c by (metis (no_types, lifting) UN_I image_eqI list.set_intros(1) snd_conv)
  ultimately show False using nul by simp
qed

subsection \<open>Package unicode/utf8: validity\<close>

definition ValidString :: "string \<Rightarrow> bool" where
  "ValidString s = list_all (\<lambda>k. \<not> (fst k = rune_error \<and> length (snd k) = 1)) (chunks s)"

lemma ValidString_encode_runes: "ValidString (encode_runes rs @ s) \<longleftrightarrow> ValidString s"
proof -
  have "\<not> (scalar r = rune_error \<and> length (encode_rune r) = 1)" for r
    by (auto simp: scalar_def length_encode_rune rune_error_def)
  then show ?thesis
    by (induction rs) (simp_all add: ValidString_def encode_runes_def chunks_encode_rune)
qed

lemma ValidString_ascii: "ascii s \<Longrightarrow> ValidString s"
  by (auto simp: ValidString_def chunks_ascii list_all_iff ascii_def rune_error_def)

text \<open>What PostgreSQL accepts as a value of type \<open>text\<close>: UTF-8 without the code point 0.\<close>

definition pg_text_ok :: "string \<Rightarrow> bool" where
  "pg_text_ok s \<longleftrightarrow> CHR 0x00 \<notin> set s \<and> ValidString s"

subsection \<open>Parts of a text\<close>

text \<open>Decoding looks at no more than the bytes of the character: cutting the text after it changes nothing.\<close>

lemma decode_rune_take:
  assumes "snd (decode_rune s) \<le> n"
  shows "decode_rune (take n s) = decode_rune s"
proof (cases s)
  case s: (Cons c0 cs)
  show ?thesis
  proof (cases n)
    case 0
    then show ?thesis using assms decode_rune_width [of s] s by simp
  next
    case n: (Suc n1)
    show ?thesis
    proof (cases "byte c0 < 128 \<or> cs = []")
      case True
      then show ?thesis using s n by auto
    next
      case False
      then obtain c1 cs1 where cs: "cs = c1 # cs1" by (cases cs) auto
      consider "n1 = 0" | "n1 = 1" | "n1 = 2" | m where "n1 = Suc (Suc (Suc m))"
        by (metis One_nat_def Suc_1 not0_implies_Suc)
      then show ?thesis
      proof cases
        case 1
        then show ?thesis using assms s n cs False by (auto simp: decode_rune.simps(2) Let_def split: list.splits if_splits)
      next
        case 2
        then show ?thesis using assms s n cs False by (auto simp: decode_rune.simps(2) Let_def split: list.splits if_splits)
      next
        case 3
        then show ?thesis using assms s n cs False
          by (cases cs1; cases "tl cs1") (auto simp: decode_rune.simps(2) Let_def split: list.splits if_splits)
      next
        case 4
        show ?thesis unfolding s n cs 4
          by (cases cs1; cases "tl cs1"; cases "tl (tl cs1)") (simp_all add: decode_rune.simps(2) Let_def)
      qed
    qed
  qed
qed simp

lemma chunks_suffix: "chunks (chunk_bytes (drop n (chunks s))) = drop n (chunks s)"
proof (induction s arbitrary: n rule: chunks.induct)
  case (2 c cs)
  show ?case
  proof (cases n)
    case (Suc m)
    then show ?thesis using "2.IH" [of "decode_rune (c # cs)" m] by (simp add: chunks.simps(2) Let_def)
  qed simp
qed simp

lemma chunk_bytes_take: "chunk_bytes (take m (chunks t)) = take (length (chunk_bytes (take m (chunks t)))) t"
proof -
  have "t = chunk_bytes (take m (chunks t)) @ chunk_bytes (drop m (chunks t))"
    by (metis append_take_drop_id chunk_bytes_chunks concat_append map_append)
  then show ?thesis by (metis append_eq_conv_conj)
qed

lemma chunks_prefix: "chunks (chunk_bytes (take n (chunks s))) = take n (chunks s)"
proof (induction s arbitrary: n rule: chunks.induct)
  case (2 c cs)
  let ?d = "decode_rune (c # cs)"
  define t where "t = drop (snd ?d) (c # cs)"
  show ?case
  proof (cases n)
    case (Suc m)
    define j where "j = length (chunk_bytes (take m (chunks t)))"
    let ?s = "take (snd ?d + j) (c # cs)"
    have j: "chunk_bytes (take m (chunks t)) = take j t" unfolding j_def by (rule chunk_bytes_take)
    have bytes: "chunk_bytes (take n (chunks (c # cs))) = ?s"
      by (simp add: Suc chunks.simps(2) Let_def t_def [symmetric] j) (simp add: t_def take_add)
    have "1 \<le> snd ?d" by (rule decode_rune_width) simp
    then have "?s = c # take (snd ?d + j - 1) cs" by (cases "snd ?d + j") auto
    then have "chunks ?s = (fst (decode_rune ?s), take (snd (decode_rune ?s)) ?s) # chunks (drop (snd (decode_rune ?s)) ?s)"
      by (metis chunks.simps(2))
    also have "decode_rune ?s = ?d" by (rule decode_rune_take) simp
    also have "take (snd ?d) ?s = take (snd ?d) (c # cs)" by simp
    also have "drop (snd ?d) ?s = take j t" by (simp add: drop_take t_def)
    also have "chunks (take j t) = take m (chunks t)"
      using "2.IH" [of ?d m] by (simp add: t_def [symmetric] j)
    finally show ?thesis unfolding bytes by (simp add: Suc chunks.simps(2) Let_def t_def)
  qed simp
qed simp

lemma chunks_trimmed: "chunks (chunk_bytes (trim_list p (chunks s))) = trim_list p (chunks s)"
proof -
  have "dropWhile p ks = drop (length (takeWhile p ks)) ks" for ks :: "chunk list"
    by (metis dropWhile_eq_drop)
  then obtain n where n: "dropWhile p (chunks s) = drop n (chunks s)" by blast
  have "rev (dropWhile p (rev ks)) = take (length (rev (dropWhile p (rev ks)))) ks" for ks :: "chunk list"
    by (metis append_eq_conv_conj rev_append rev_rev_ident takeWhile_dropWhile_id)
  then obtain m where m: "trim_list p (chunks s) = take m (drop n (chunks s))"
    unfolding trim_list_def n by blast
  let ?t = "chunk_bytes (drop n (chunks s))"
  have "chunks (chunk_bytes (take m (chunks ?t))) = take m (chunks ?t)" by (rule chunks_prefix)
  then show ?thesis unfolding m chunks_suffix .
qed

lemma TrimSpace_idem: "TrimSpace (TrimSpace s) = TrimSpace s"
  unfolding TrimSpace_def chunks_trimmed by simp

end
