(* ===== verification/Store.thy ===== *)
theory Store
  imports Db_Models Go_Utf8
begin

text \<open>
  The database: the tables that the deployment pipeline uses as lists of rows, and the statements of
  \<^verbatim>\<open>internal/db/core.sql.go\<close> as functions on them. A statement either fails and changes nothing, or
  returns rows and the new tables. \<open>now()\<close> is the clock of the server when the statement runs; the
  order of text columns is the collation of the database, given by a sort key. A row identifier that
  the server generates is an argument.
\<close>

record store =
  deployments :: "deployment list"
  deployment_logs :: "deployment_log list"
  slots :: "deployment_slot list"
  applications :: "application list"
  environments :: "environment list"
  projects :: "project list"
  servers :: "server list"
  proxy_routes :: "proxy_route list"
  project_variables :: "project_runtime_variable list"
  service_configs :: "service_runtime_config list"
  audit_events :: "audit_event list"
  build_runs :: "build_run list"
  connector_accounts :: "connector_account list"
  dev_users :: "dev_sudo_user list"
  clock :: nat
  collation :: "string \<Rightarrow> string"

type_synonym 'a stmt = "store \<Rightarrow> go_error + ('a \<times> store)"

text \<open>A comparison with a null value is not true.\<close>

definition sql_eq :: "'a option \<Rightarrow> 'a option \<Rightarrow> bool" where
  "sql_eq a b \<longleftrightarrow> a \<noteq> None \<and> a = b"

definition update_rows :: "('r \<Rightarrow> bool) \<Rightarrow> ('r \<Rightarrow> 'r) \<Rightarrow> 'r list \<Rightarrow> 'r list" where
  "update_rows p f rows = map (\<lambda>r. if p r then f r else r) rows"

text \<open>\<open>QueryRow\<close> on the rows of a statement: the first row, or \<open>ErrNoRows\<close>.\<close>

definition one_row :: "'r list \<Rightarrow> go_error + 'r" where
  "one_row rows = (case rows of [] \<Rightarrow> Inl ErrNoRows | r # _ \<Rightarrow> Inr r)"

definition now :: "store \<Rightarrow> pg_time" where
  "now db = Some (clock db)"

definition fk_error :: "string \<Rightarrow> go_error" where
  "fk_error constraint = PgError ''23503'' constraint (''insert or update violates foreign key constraint '' @ constraint)"

definition unique_error :: "string \<Rightarrow> go_error" where
  "unique_error constraint = PgError ''23505'' constraint (''duplicate key value violates unique constraint '' @ constraint)"

definition check_error :: "string \<Rightarrow> go_error" where
  "check_error constraint = PgError ''23514'' constraint (''new row violates check constraint '' @ constraint)"

definition null_error :: "string \<Rightarrow> go_error" where
  "null_error column = PgError ''23502'' column (''null value violates not-null constraint in column '' @ column)"

definition encoding_error :: go_error where
  "encoding_error = PgError ''22021'' [] ''invalid byte sequence for encoding UTF8''"

subsection \<open>Deployments\<close>

definition in_progress :: "deployment \<Rightarrow> bool" where
  "in_progress d \<longleftrightarrow> dep_Status d = ''queued'' \<or> dep_Status d = ''running''"

definition terminal :: "string \<Rightarrow> bool" where
  "terminal status \<longleftrightarrow> status = ''succeeded'' \<or> status = ''failed'' \<or> status = ''cancelled''"

text \<open>
  The constraints of the table: which time stamps go with which status, and the unique index that
  allows one queued or running deployment for each application.
\<close>

definition status_check :: "deployment \<Rightarrow> bool" where
  "status_check d \<longleftrightarrow>
     (dep_Status d = ''queued'' \<and> dep_StartedAt d = None \<and> dep_FinishedAt d = None)
     \<or> (dep_Status d = ''running'' \<and> dep_StartedAt d \<noteq> None \<and> dep_FinishedAt d = None)
     \<or> (terminal (dep_Status d) \<and> dep_FinishedAt d \<noteq> None)"

definition one_in_progress :: "deployment list \<Rightarrow> bool" where
  "one_in_progress ds \<longleftrightarrow> distinct (map dep_ApplicationID (filter in_progress ds))"

definition deployments_violation :: "deployment list \<Rightarrow> go_error option" where
  "deployments_violation ds =
     (if \<not> list_all status_check ds then Some (check_error ''deployments_status'')
      else if \<not> one_in_progress ds then Some (unique_error ''deployments_one_in_progress_per_application'')
      else None)"

text \<open>An update that would break a constraint fails as a whole.\<close>

definition update_deployment :: "(deployment \<Rightarrow> bool) \<Rightarrow> (deployment \<Rightarrow> deployment) \<Rightarrow> deployment stmt" where
  "update_deployment p f db =
     try_bind (one_row (filter p (deployments db))) (\<lambda>d.
       let ds = update_rows p f (deployments db) in
       case deployments_violation ds of
         Some err \<Rightarrow> Inl err
       | None \<Rightarrow> Inr (f d, db\<lparr>deployments := ds\<rparr>))"

definition GetDeployment :: "pg_uuid \<Rightarrow> deployment stmt" where
  "GetDeployment i db =
     try_bind (one_row (filter (\<lambda>d. sql_eq (dep_ID d) i) (deployments db))) (\<lambda>d. Inr (d, db))"

record create_deployment_params =
  cd_Trigger :: string
  cd_Strategy :: string
  cd_CommitSha :: pg_text
  cd_ImageRef :: pg_text
  cd_ImageDigest :: pg_text
  cd_Actor :: pg_text
  cd_ApplicationID :: pg_uuid

text \<open>
  The constraints on the columns that the statement takes from its caller. The character classes of
  the database agree with those of Go on ASCII.
\<close>

definition opt_all :: "('a \<Rightarrow> bool) \<Rightarrow> 'a option \<Rightarrow> bool" where
  "opt_all P x \<longleftrightarrow> (case x of None \<Rightarrow> True | Some v \<Rightarrow> P v)"

definition sha256_pattern :: matcher where
  "sha256_pattern = m_seq (m_lit ''sha256:'') (m_times 64 (m_set (\<lambda>r. r_digit r \<or> 97 \<le> r \<and> r \<le> 102)))"

definition deployment_params_check :: "create_deployment_params \<Rightarrow> go_error option" where
  "deployment_params_check arg =
     (if \<not> list_all (opt_all pg_text_ok) [cd_CommitSha arg, cd_ImageRef arg, cd_ImageDigest arg, cd_Actor arg]
        then Some encoding_error
      else if cd_Trigger arg \<notin> {''manual'', ''github_push'', ''connector_sync'', ''retry'', ''rollback''}
        then Some (check_error ''deployments_trigger_check'')
      else if cd_Strategy arg \<noteq> ''blue_green'' then Some (check_error ''deployments_strategy_blue_green_only'')
      else if \<not> opt_all (full_match (m_between 7 40 (m_set r_hex))) (cd_CommitSha arg)
        then Some (check_error ''deployments_commit_sha_check'')
      else if \<not> opt_all (\<lambda>v. \<not> HasControlCharacter v) (cd_Actor arg)
        then Some (check_error ''deployments_actor_no_control_characters'')
      else if \<not> opt_all (\<lambda>v. Trim v '' '' \<noteq> [] \<and> length (runes v) \<le> 512
                 \<and> (\<forall>r\<in>set (runes v). \<not> IsSpace r \<and> \<not> IsControl r)) (cd_ImageRef arg)
        then Some (check_error ''deployments_image_ref_safe'')
      else if \<not> opt_all (full_match sha256_pattern) (cd_ImageDigest arg)
        then Some (check_error ''deployments_image_digest_sha256'')
      else None)"

text \<open>
  The unique index on deployments in progress makes a second one fail. The snapshot of the
  configuration is JSON text that the server builds; it is an argument.
\<close>

definition CreateDeployment :: "string \<Rightarrow> string \<Rightarrow> create_deployment_params \<Rightarrow> deployment stmt" where
  "CreateDeployment new_id snapshot arg db =
     (case [(a, e, p). a \<leftarrow> applications db, sql_eq (app_ID a) (cd_ApplicationID arg),
                       e \<leftarrow> environments db, sql_eq (env_ID e) (app_EnvironmentID a),
                       p \<leftarrow> projects db, sql_eq (proj_ID p) (env_ProjectID e)] of
        [] \<Rightarrow> Inl ErrNoRows
      | (a, e, p) # _ \<Rightarrow>
          if deployment_params_check arg \<noteq> None then Inl (the (deployment_params_check arg))
          else if \<exists>d\<in>set (deployments db). in_progress d \<and> dep_ApplicationID d = app_ID a
            then Inl (unique_error ''deployments_one_in_progress_per_application'')
          else if \<exists>d\<in>set (deployments db). dep_ID d = Some new_id then Inl (unique_error ''deployments_pkey'')
          else
            let d = \<lparr>dep_ID = Some new_id, dep_ApplicationID = app_ID a, dep_ServerID = app_ServerID a,
                     dep_Trigger = cd_Trigger arg, dep_Strategy = cd_Strategy arg, dep_Status = ''queued'',
                     dep_CommitSha = cd_CommitSha arg, dep_Actor = cd_Actor arg, dep_StartedAt = None,
                     dep_FinishedAt = None, dep_CreatedAt = now db, dep_ImageRef = cd_ImageRef arg,
                     dep_ImageDigest = cd_ImageDigest arg, dep_SourceRepositoryUrl = app_RepositoryUrl a,
                     dep_SourceBranch = (if app_RepositoryUrl a = None then None else Some (app_Branch a)),
                     dep_CommitMessage = None, dep_ConfigurationSnapshot = snapshot\<rparr>
            in Inr (d, db\<lparr>deployments := deployments db @ [d]\<rparr>))"

definition StartQueuedDeployment :: "pg_uuid \<Rightarrow> deployment stmt" where
  "StartQueuedDeployment i db =
     update_deployment (\<lambda>d. sql_eq (dep_ID d) i \<and> dep_Status d = ''queued'')
       (\<lambda>d. d\<lparr>dep_Status := ''running'',
               dep_StartedAt := (if dep_StartedAt d = None then now db else dep_StartedAt d)\<rparr>) db"

definition UpdateDeploymentStatus :: "pg_uuid \<Rightarrow> string \<Rightarrow> deployment stmt" where
  "UpdateDeploymentStatus i status db =
     update_deployment (\<lambda>d. sql_eq (dep_ID d) i)
       (\<lambda>d. d\<lparr>dep_Status := status,
               dep_StartedAt := (if dep_StartedAt d = None \<and> status = ''running'' then now db else dep_StartedAt d),
               dep_FinishedAt := (if terminal status then now db else dep_FinishedAt d)\<rparr>) db"

definition CancelQueuedDeployment :: "pg_uuid \<Rightarrow> deployment stmt" where
  "CancelQueuedDeployment i db =
     update_deployment (\<lambda>d. sql_eq (dep_ID d) i \<and> dep_Status d = ''queued'')
       (\<lambda>d. d\<lparr>dep_Status := ''cancelled'', dep_FinishedAt := now db\<rparr>) db"

text \<open>\<open>btrim\<close> without a second argument removes spaces only.\<close>

definition SetDeploymentCommitSHA :: "pg_uuid \<Rightarrow> string \<Rightarrow> string \<Rightarrow> deployment stmt" where
  "SetDeploymentCommitSHA i commit message db =
     update_deployment (\<lambda>d. sql_eq (dep_ID d) i)
       (\<lambda>d. d\<lparr>dep_CommitSha := (if dep_CommitSha d = None then Some commit else dep_CommitSha d),
               dep_CommitMessage := (if Trim message '' '' = [] then None else Some (Trim message '' ''))\<rparr>) db"

definition ListQueuedDeploymentsForRecovery :: "int \<Rightarrow> deployment list stmt" where
  "ListQueuedDeploymentsForRecovery limit db =
     Inr (take (nat limit) (sort_key (\<lambda>d. case dep_CreatedAt d of None \<Rightarrow> 0 | Some t \<Rightarrow> t)
            (filter (\<lambda>d. dep_Status d = ''queued'') (deployments db))), db)"

definition fail_running :: "pg_time \<Rightarrow> deployment \<Rightarrow> deployment" where
  "fail_running t d = d\<lparr>dep_Status := ''failed'', dep_FinishedAt := t\<rparr>"

definition FailRunningDeploymentsForRecovery :: "deployment list stmt" where
  "FailRunningDeploymentsForRecovery db =
     (let running = filter (\<lambda>d. dep_Status d = ''running'') (deployments db);
          failed = map (fail_running (now db)) running
      in Inr (failed,
           db\<lparr>deployments := update_rows (\<lambda>d. dep_Status d = ''running'') (fail_running (now db)) (deployments db),
              applications := update_rows (\<lambda>a. \<exists>d\<in>set failed. sql_eq (app_ID a) (dep_ApplicationID d))
                (\<lambda>a. a\<lparr>app_Status := ''failed'', app_UpdatedAt := now db\<rparr>) (applications db)\<rparr>))"

definition target_of :: "deployment \<Rightarrow> application \<Rightarrow> project \<Rightarrow> server \<Rightarrow> deployment_target" where
  "target_of d a p s =
     \<lparr>tgt_DeploymentID = dep_ID d, tgt_Strategy = dep_Strategy d, tgt_CommitSha = dep_CommitSha d,
      tgt_ImageRef = dep_ImageRef d, tgt_ImageDigest = dep_ImageDigest d, tgt_ApplicationID = app_ID a,
      tgt_ApplicationName = app_Name a, tgt_RepositoryUrl = dep_SourceRepositoryUrl d,
      tgt_Branch = (case dep_SourceBranch d of Some b \<Rightarrow> b | None \<Rightarrow> app_Branch a),
      tgt_ComposePath = app_ComposePath a, tgt_RemoteDirectory = app_RemoteDirectory a,
      tgt_Domain = app_Domain a, tgt_HealthCheckUrl = app_HealthCheckUrl a,
      tgt_DopplerProject = app_DopplerProject a, tgt_DopplerConfig = app_DopplerConfig a,
      tgt_ComposeServices = app_ComposeServices a, tgt_ConfigurationRevision = app_ConfigurationRevision a,
      tgt_ProjectConfigurationRevision = proj_ConfigurationRevision p,
      tgt_RepositoryConnectorID = proj_RepositoryConnectorID p, tgt_ServerID = srv_ID s,
      tgt_ServerName = srv_Name s, tgt_Hostname = srv_Hostname s, tgt_SshUser = srv_SshUser s,
      tgt_SshPort = srv_SshPort s, tgt_SshKeyPath = srv_SshKeyPath s,
      tgt_ConnectionMode = srv_ConnectionMode s, tgt_ProxyType = srv_ProxyType s\<rparr>"

definition GetDeploymentTarget :: "pg_uuid \<Rightarrow> deployment_target stmt" where
  "GetDeploymentTarget i db =
     try_bind (one_row [target_of d a p s.
         d \<leftarrow> deployments db, sql_eq (dep_ID d) i,
         a \<leftarrow> applications db, sql_eq (app_ID a) (dep_ApplicationID d),
         e \<leftarrow> environments db, sql_eq (env_ID e) (app_EnvironmentID a),
         p \<leftarrow> projects db, sql_eq (proj_ID p) (env_ProjectID e),
         s \<leftarrow> servers db, sql_eq (srv_ID s) (dep_ServerID d)])
       (\<lambda>t. Inr (t, db))"

subsection \<open>Logs and audit events\<close>

definition next_log_id :: "store \<Rightarrow> nat" where
  "next_log_id db = Suc (foldl max 0 (map log_ID (deployment_logs db)))"

text \<open>The messages that the table of log lines accepts.\<close>

definition log_check :: "string \<Rightarrow> string \<Rightarrow> go_error option" where
  "log_check stream message =
     (if \<not> pg_text_ok message then Some encoding_error
      else if stream \<notin> {''stdout'', ''stderr'', ''system''} then Some (check_error ''deployment_logs_stream_check'')
      else if Trim message '' '' = [] then Some (check_error ''deployment_logs_message_check'')
      else if 32768 < length (runes message) then Some (check_error ''deployment_logs_message_length'')
      else None)"

definition AppendDeploymentLog :: "pg_uuid \<Rightarrow> string \<Rightarrow> string \<Rightarrow> deployment_log stmt" where
  "AppendDeploymentLog i stream message db =
     (case log_check stream message of
        Some err \<Rightarrow> Inl err
      | None \<Rightarrow>
          if \<not> (\<exists>d\<in>set (deployments db). sql_eq (dep_ID d) i)
            then Inl (fk_error ''deployment_logs_deployment_id_fkey'')
          else let entry = \<lparr>log_ID = next_log_id db, log_DeploymentID = i, log_Stream = stream,
                            log_Message = message, log_CreatedAt = now db\<rparr>
               in Inr (entry, db\<lparr>deployment_logs := deployment_logs db @ [entry]\<rparr>))"

definition ListDeploymentLogsAfter :: "pg_uuid \<Rightarrow> int \<Rightarrow> int \<Rightarrow> deployment_log list stmt" where
  "ListDeploymentLogsAfter i lastID limit db =
     Inr (take (nat limit) (sort_key log_ID
            (filter (\<lambda>l. sql_eq (log_DeploymentID l) i \<and> lastID < int (log_ID l)) (deployment_logs db))), db)"

definition ListRecentDeploymentLogs :: "pg_uuid \<Rightarrow> int \<Rightarrow> deployment_log list stmt" where
  "ListRecentDeploymentLogs i limit db =
     (let ls = sort_key log_ID (filter (\<lambda>l. sql_eq (log_DeploymentID l) i) (deployment_logs db))
      in Inr (drop (length ls - nat limit) ls, db))"

definition next_audit_id :: "store \<Rightarrow> nat" where
  "next_audit_id db = Suc (foldl max 0 (map audit_ID (audit_events db)))"

definition AppendAuditEvent ::
  "string \<Rightarrow> string \<Rightarrow> string \<Rightarrow> string \<Rightarrow> string \<Rightarrow> string \<Rightarrow> audit_event stmt" where
  "AppendAuditEvent actor action target_type target_id target_name metadata db =
     (let ev = \<lparr>audit_ID = next_audit_id db, audit_Actor = actor, audit_Action = action,
                audit_TargetType = target_type, audit_TargetID = target_id, audit_TargetName = target_name,
                audit_Metadata = metadata, audit_CreatedAt = now db\<rparr>
      in Inr (ev, db\<lparr>audit_events := audit_events db @ [ev]\<rparr>))"

subsection \<open>Applications\<close>

definition update_application :: "(application \<Rightarrow> bool) \<Rightarrow> (application \<Rightarrow> application) \<Rightarrow> application stmt" where
  "update_application p f db =
     try_bind (one_row (filter p (applications db))) (\<lambda>a.
       Inr (f a, db\<lparr>applications := update_rows p f (applications db)\<rparr>))"

definition coalesce :: "'a option \<Rightarrow> 'a option \<Rightarrow> 'a option" where
  "coalesce a b = (case a of None \<Rightarrow> b | Some _ \<Rightarrow> a)"

definition UpdateApplicationStatus :: "pg_uuid \<Rightarrow> string \<Rightarrow> pg_text \<Rightarrow> application stmt" where
  "UpdateApplicationStatus i status version db =
     update_application (\<lambda>a. sql_eq (app_ID a) i)
       (\<lambda>a. a\<lparr>app_Status := status,
               app_CurrentVersion := (if status = ''healthy'' then coalesce version (app_CurrentVersion a)
                                      else app_CurrentVersion a),
               app_TargetVersion := (if status = ''deploying'' then coalesce version (app_TargetVersion a)
                                     else if status = ''healthy'' then None else app_TargetVersion a),
               app_UpdatedAt := now db\<rparr>) db"

definition MarkApplicationConfigurationDeployed :: "pg_uuid \<Rightarrow> int \<Rightarrow> int \<Rightarrow> application stmt" where
  "MarkApplicationConfigurationDeployed i revision proj_revision db =
     update_application (\<lambda>a. sql_eq (app_ID a) i)
       (\<lambda>a. a\<lparr>app_DeployedConfigurationRevision := max (app_DeployedConfigurationRevision a) revision,
               app_DeployedProjectConfigurationRevision :=
                 max (app_DeployedProjectConfigurationRevision a) proj_revision\<rparr>) db"

definition GetApplication :: "pg_uuid \<Rightarrow> application stmt" where
  "GetApplication i db =
     try_bind (one_row (filter (\<lambda>a. sql_eq (app_ID a) i) (applications db))) (\<lambda>a. Inr (a, db))"

definition ListApplicationServiceRuntimeConfigs :: "pg_uuid \<Rightarrow> service_runtime_config list stmt" where
  "ListApplicationServiceRuntimeConfigs i db =
     Inr (sort_key (\<lambda>c. collation db (cfg_ComposeService c))
            (filter (\<lambda>c. sql_eq (cfg_ApplicationID c) i) (service_configs db)), db)"

definition ListProjectRuntimeVariablesForApplication :: "pg_uuid \<Rightarrow> project_runtime_variable list stmt" where
  "ListProjectRuntimeVariablesForApplication i db =
     Inr (sort_key (\<lambda>v. collation db (pvar_Key v))
            [v. v \<leftarrow> project_variables db, e \<leftarrow> environments db, sql_eq (env_ProjectID e) (pvar_ProjectID v),
                a \<leftarrow> applications db, sql_eq (app_EnvironmentID a) (env_ID e), sql_eq (app_ID a) i], db)"

subsection \<open>Slots\<close>

definition slot_at :: "pg_uuid \<Rightarrow> pg_uuid \<Rightarrow> deployment_slot \<Rightarrow> bool" where
  "slot_at app srv s \<longleftrightarrow> sql_eq (slot_ApplicationID s) app \<and> sql_eq (slot_ServerID s) srv"

text \<open>The latest row of a given status.\<close>

definition latest_slot :: "string \<Rightarrow> pg_uuid \<Rightarrow> pg_uuid \<Rightarrow> deployment_slot stmt" where
  "latest_slot status app srv db =
     try_bind (one_row (rev (sort_key (\<lambda>s. case slot_UpdatedAt s of None \<Rightarrow> 0 | Some t \<Rightarrow> t)
         (filter (\<lambda>s. slot_at app srv s \<and> slot_Status s = status) (slots db)))))
       (\<lambda>s. Inr (s, db))"

definition GetActiveDeploymentSlot :: "pg_uuid \<Rightarrow> pg_uuid \<Rightarrow> deployment_slot stmt" where
  "GetActiveDeploymentSlot app srv db = latest_slot ''active'' app srv db"

definition GetStandbyDeploymentSlot :: "pg_uuid \<Rightarrow> pg_uuid \<Rightarrow> deployment_slot stmt" where
  "GetStandbyDeploymentSlot app srv db = latest_slot ''standby'' app srv db"

definition activate :: "pg_time \<Rightarrow> string \<Rightarrow> deployment_slot \<Rightarrow> deployment_slot" where
  "activate t color s =
     s\<lparr>slot_Status := (if slot_Color s = color then ''active'' else ''standby''),
       slot_PromotedAt := (if slot_Color s = color then t else slot_PromotedAt s),
       slot_UpdatedAt := t\<rparr>"

definition switchable :: "pg_uuid \<Rightarrow> pg_uuid \<Rightarrow> deployment_slot \<Rightarrow> bool" where
  "switchable app srv s \<longleftrightarrow> slot_at app srv s \<and> (slot_Status s = ''active'' \<or> slot_Status s = ''standby'')"

definition ActivateDeploymentSlot :: "pg_uuid \<Rightarrow> pg_uuid \<Rightarrow> string \<Rightarrow> deployment_slot list stmt" where
  "ActivateDeploymentSlot app srv color db =
     Inr (map (activate (now db) color) (filter (switchable app srv) (slots db)),
          db\<lparr>slots := update_rows (switchable app srv) (activate (now db) color) (slots db)\<rparr>)"

record upsert_slot_params =
  us_ApplicationID :: pg_uuid
  us_ServerID :: pg_uuid
  us_Color :: string
  us_DeploymentID :: pg_uuid
  us_ImageRef :: string
  us_ImageDigest :: pg_text
  us_Status :: string

text \<open>The constraints on the columns of a slot.\<close>

definition slot_params_check :: "upsert_slot_params \<Rightarrow> go_error option" where
  "slot_params_check arg =
     (if us_ApplicationID arg = None then Some (null_error ''application_id'')
      else if us_ServerID arg = None then Some (null_error ''server_id'')
      else if us_Color arg \<notin> {''blue'', ''green''} then Some (check_error ''application_deployment_slots_color_check'')
      else if us_Status arg \<notin> {''active'', ''standby'', ''failed''}
        then Some (check_error ''application_deployment_slots_status_check'')
      else None)"

definition UpsertDeploymentSlot :: "string \<Rightarrow> upsert_slot_params \<Rightarrow> deployment_slot stmt" where
  "UpsertDeploymentSlot new_id arg db =
     (let promoted = (if us_Status arg = ''active'' then now db else None);
          same = (\<lambda>s. slot_at (us_ApplicationID arg) (us_ServerID arg) s \<and> slot_Color s = us_Color arg);
          assign = (\<lambda>s. s\<lparr>slot_DeploymentID := us_DeploymentID arg, slot_ImageRef := us_ImageRef arg,
                       slot_ImageDigest := us_ImageDigest arg, slot_Status := us_Status arg,
                       slot_PromotedAt := promoted, slot_UpdatedAt := now db\<rparr>) in
      case slot_params_check arg of Some err \<Rightarrow> Inl err | None \<Rightarrow>
      case filter same (slots db) of
        s # _ \<Rightarrow> Inr (assign s, db\<lparr>slots := update_rows same assign (slots db)\<rparr>)
      | [] \<Rightarrow>
          if \<exists>s\<in>set (slots db). slot_ID s = Some new_id
            then Inl (unique_error ''application_deployment_slots_pkey'')
          else let s = \<lparr>slot_ID = Some new_id, slot_ApplicationID = us_ApplicationID arg,
                        slot_ServerID = us_ServerID arg, slot_Color = us_Color arg,
                        slot_DeploymentID = us_DeploymentID arg, slot_ImageRef = us_ImageRef arg,
                        slot_ImageDigest = us_ImageDigest arg, slot_Status = us_Status arg,
                        slot_PromotedAt = promoted, slot_CreatedAt = now db, slot_UpdatedAt = now db\<rparr>
               in Inr (s, db\<lparr>slots := slots db @ [s]\<rparr>))"

subsection \<open>Proxy routes\<close>

definition route_target_of :: "proxy_route \<Rightarrow> server \<Rightarrow> route_target" where
  "route_target_of r s =
     \<lparr>rt_ID = route_ID r, rt_ServerID = route_ServerID r, rt_ApplicationID = route_ApplicationID r,
      rt_Domain = route_Domain r, rt_UpstreamUrl = route_UpstreamUrl r, rt_TlsEnabled = route_TlsEnabled r,
      rt_Status = route_Status r, rt_BlueUpstreamUrl = route_BlueUpstreamUrl r,
      rt_GreenUpstreamUrl = route_GreenUpstreamUrl r, rt_ComposeService = route_ComposeService r,
      rt_ContainerPort = route_ContainerPort r, rt_PortVariable = route_PortVariable r,
      rt_ServerName = srv_Name s, rt_Hostname = srv_Hostname s, rt_SshUser = srv_SshUser s,
      rt_SshPort = srv_SshPort s, rt_SshKeyPath = srv_SshKeyPath s, rt_ProxyType = srv_ProxyType s\<rparr>"

definition ListProxyRouteTargetsForApplication :: "pg_uuid \<Rightarrow> pg_uuid \<Rightarrow> route_target list stmt" where
  "ListProxyRouteTargetsForApplication app srv db =
     Inr (sort_key (\<lambda>r. collation db (rt_Domain r))
            [route_target_of r s. r \<leftarrow> proxy_routes db, sql_eq (route_ApplicationID r) app,
               sql_eq (route_ServerID r) srv, s \<leftarrow> servers db, sql_eq (srv_ID s) (route_ServerID r)], db)"

definition GetProxyRouteTarget :: "pg_uuid \<Rightarrow> route_target stmt" where
  "GetProxyRouteTarget i db =
     try_bind (one_row [route_target_of r s. r \<leftarrow> proxy_routes db, sql_eq (route_ID r) i,
         s \<leftarrow> servers db, sql_eq (srv_ID s) (route_ServerID r)]) (\<lambda>t. Inr (t, db))"

definition update_route :: "(proxy_route \<Rightarrow> bool) \<Rightarrow> (proxy_route \<Rightarrow> proxy_route) \<Rightarrow> proxy_route stmt" where
  "update_route p f db =
     try_bind (one_row (filter p (proxy_routes db))) (\<lambda>r.
       Inr (f r, db\<lparr>proxy_routes := update_rows p f (proxy_routes db)\<rparr>))"

definition MarkProxyRouteApplied :: "pg_uuid \<Rightarrow> proxy_route stmt" where
  "MarkProxyRouteApplied i db =
     update_route (\<lambda>r. sql_eq (route_ID r) i)
       (\<lambda>r. r\<lparr>route_Status := ''applied'', route_LastAppliedAt := now db, route_UpdatedAt := now db\<rparr>) db"

definition MarkProxyRouteFailed :: "pg_uuid \<Rightarrow> proxy_route stmt" where
  "MarkProxyRouteFailed i db =
     update_route (\<lambda>r. sql_eq (route_ID r) i)
       (\<lambda>r. r\<lparr>route_Status := ''failed'', route_UpdatedAt := now db\<rparr>) db"

text \<open>The two arrays are unnested in step; a row is updated from the first pair with its identifier.\<close>

definition desired_upstream :: "(pg_uuid \<times> string) list \<Rightarrow> proxy_route \<Rightarrow> string option" where
  "desired_upstream desired r = map_option snd (find (\<lambda>(i, _). sql_eq (route_ID r) i) desired)"

definition promote_route :: "pg_time \<Rightarrow> (pg_uuid \<times> string) list \<Rightarrow> proxy_route \<Rightarrow> proxy_route" where
  "promote_route t desired r =
     (case desired_upstream desired r of
        None \<Rightarrow> r
      | Some upstream \<Rightarrow> r\<lparr>route_UpstreamUrl := upstream, route_Status := ''applied'',
                            route_LastAppliedAt := t, route_UpdatedAt := t\<rparr>)"

definition PromoteProxyRoutes :: "pg_uuid list \<Rightarrow> string list \<Rightarrow> proxy_route list stmt" where
  "PromoteProxyRoutes ids upstreams db =
     (let desired = zip ids upstreams in
      Inr (map (promote_route (now db) desired)
             (filter (\<lambda>r. desired_upstream desired r \<noteq> None) (proxy_routes db)),
           db\<lparr>proxy_routes := map (promote_route (now db) desired) (proxy_routes db)\<rparr>))"

subsection \<open>Build runs\<close>

record create_build_params =
  cb_Provider :: string
  cb_ConnectorID :: pg_uuid
  cb_ApplicationID :: pg_uuid
  cb_Repository :: string
  cb_Branch :: string
  cb_WorkflowID :: string
  cb_CommitSha :: pg_text

definition reference_ok :: "('r \<Rightarrow> pg_uuid) \<Rightarrow> 'r list \<Rightarrow> pg_uuid \<Rightarrow> bool" where
  "reference_ok key rows i \<longleftrightarrow> i = None \<or> (\<exists>r\<in>set rows. sql_eq (key r) i)"

definition build_branch_ok :: "string \<Rightarrow> bool" where
  "build_branch_ok branch \<longleftrightarrow>
     (let b = Trim branch '' '' in
      b \<noteq> [] \<and> \<not> HasPrefix b ''-'' \<and> \<not> HasPrefix b ''/'' \<and> \<not> HasSuffix b ''/'' \<and> \<not> Contains b ''//'' \<and>
      \<not> Contains b ''..'' \<and> \<not> HasSuffix b ''.lock'' \<and> \<not> HasSuffix b ''.'' \<and>
      full_match (m_plus (m_set (\<lambda>r. r_alnum r \<or> one_of ''._/-'' r))) b)"

definition no_blanks :: "string \<Rightarrow> bool" where
  "no_blanks v \<longleftrightarrow> (\<forall>r\<in>set (runes v). \<not> IsSpace r \<and> \<not> IsControl r)"

definition build_params_check :: "store \<Rightarrow> create_build_params \<Rightarrow> go_error option" where
  "build_params_check db arg =
     (if \<not> list_all pg_text_ok [cb_Repository arg, cb_Branch arg, cb_WorkflowID arg]
           \<or> \<not> opt_all pg_text_ok (cb_CommitSha arg) then Some encoding_error
      else if cb_Provider arg \<notin> {''github_actions'', ''cloud_build''} then Some (check_error ''build_runs_provider_check'')
      else if \<not> full_match (m_seqs [m_plus (m_set (\<lambda>r. r_alnum r \<or> one_of ''_.-'' r)), m_lit ''/'',
                m_plus (m_set (\<lambda>r. r_alnum r \<or> one_of ''_.-'' r))]) (cb_Repository arg)
        then Some (check_error ''build_runs_repository_check'')
      else if \<not> build_branch_ok (cb_Branch arg) then Some (check_error ''build_runs_branch_check'')
      else if Trim (cb_WorkflowID arg) '' '' = [] \<or> ContainsAny (cb_WorkflowID arg) [CHR ''/'', CHR 0x5C]
              \<or> \<not> no_blanks (cb_WorkflowID arg)
        then Some (check_error ''build_runs_workflow_id_check'')
      else if \<not> opt_all (full_match (m_between 7 40 (m_set r_hex))) (cb_CommitSha arg)
        then Some (check_error ''build_runs_commit_sha_check'')
      else if \<not> reference_ok acc_ID (connector_accounts db) (cb_ConnectorID arg)
        then Some (fk_error ''build_runs_connector_id_fkey'')
      else if \<not> reference_ok app_ID (applications db) (cb_ApplicationID arg)
        then Some (fk_error ''build_runs_application_id_fkey'')
      else None)"

definition CreateBuildRun :: "string \<Rightarrow> create_build_params \<Rightarrow> build_run stmt" where
  "CreateBuildRun new_id arg db =
     (case build_params_check db arg of Some err \<Rightarrow> Inl err | None \<Rightarrow>
      if \<exists>b\<in>set (build_runs db). build_ID b = Some new_id then Inl (unique_error ''build_runs_pkey'')
      else let b = \<lparr>build_ID = Some new_id, build_Provider = cb_Provider arg, build_ConnectorID = cb_ConnectorID arg,
                    build_ApplicationID = cb_ApplicationID arg, build_Repository = cb_Repository arg,
                    build_Branch = cb_Branch arg, build_WorkflowID = cb_WorkflowID arg,
                    build_Status = ''dispatched'', build_CommitSha = cb_CommitSha arg, build_ImageRef = None,
                    build_ImageDigest = None, build_ExternalUrl = None, build_ErrorMessage = None,
                    build_StartedAt = now db, build_CompletedAt = None, build_CreatedAt = now db,
                    build_UpdatedAt = now db\<rparr>
           in Inr (b, db\<lparr>build_runs := build_runs db @ [b]\<rparr>))"

record complete_build_params =
  co_ID :: pg_uuid
  co_Status :: string
  co_ImageRef :: pg_text
  co_ImageDigest :: pg_text
  co_ExternalUrl :: pg_text
  co_ErrorMessage :: pg_text

text \<open>The constraints on the columns of a completed build.\<close>

definition has_credentials :: "string \<Rightarrow> bool" where
  "has_credentials url \<longleftrightarrow>
     (let rest = drop 8 url; host = takeWhile (\<lambda>c. c \<noteq> CHR ''/'' \<and> c \<noteq> CHR ''@'') rest
      in host \<noteq> [] \<and> HasPrefix (drop (length host) rest) ''@'')"

definition build_result_check :: "complete_build_params \<Rightarrow> go_error option" where
  "build_result_check arg =
     (if \<not> list_all (opt_all pg_text_ok) [co_ImageRef arg, co_ImageDigest arg, co_ExternalUrl arg, co_ErrorMessage arg]
        then Some encoding_error
      else if co_Status arg \<notin> {''dispatched'', ''running'', ''succeeded'', ''failed'', ''cancelled''}
        then Some (check_error ''build_runs_status_check'')
      else if \<not> opt_all (\<lambda>v. Trim v '' '' \<noteq> [] \<and> length (runes v) \<le> 512 \<and> no_blanks v) (co_ImageRef arg)
        then Some (check_error ''build_runs_image_ref_check'')
      else if \<not> opt_all (full_match sha256_pattern) (co_ImageDigest arg) then Some (check_error ''build_runs_image_digest_check'')
      else if \<not> opt_all (\<lambda>v. Trim v '' '' \<noteq> [] \<and> HasPrefix v ''https://'' \<and> \<not> HasControlCharacter v \<and> \<not> has_credentials v)
                (co_ExternalUrl arg)
        then Some (check_error ''build_runs_external_url_check'')
      else if \<not> opt_all (\<lambda>v. Trim v '' '' \<noteq> [] \<and> length (runes v) \<le> 512 \<and> \<not> HasControlCharacter v) (co_ErrorMessage arg)
        then Some (check_error ''build_runs_error_message_check'')
      else if co_Status arg = ''succeeded'' \<and> co_ImageRef arg = None then Some (check_error ''build_runs_check'')
      else None)"

definition CompleteBuildRun :: "complete_build_params \<Rightarrow> build_run stmt" where
  "CompleteBuildRun arg db =
     (let p = (\<lambda>b. sql_eq (build_ID b) (co_ID arg) \<and> build_Status b \<noteq> ''succeeded'');
          f = (\<lambda>b. b\<lparr>build_Status := co_Status arg, build_ImageRef := co_ImageRef arg,
                     build_ImageDigest := co_ImageDigest arg, build_ExternalUrl := co_ExternalUrl arg,
                     build_ErrorMessage := co_ErrorMessage arg, build_CompletedAt := now db,
                     build_UpdatedAt := now db\<rparr>)
      in try_bind (one_row (filter p (build_runs db))) (\<lambda>b.
           case build_result_check arg of
             Some err \<Rightarrow> Inl err
           | None \<Rightarrow> Inr (f b, db\<lparr>build_runs := update_rows p f (build_runs db)\<rparr>)))"

end
