(* ===== verification/Go_Url.thy ===== *)
theory Go_Url
  imports Go_Regexp
begin

text \<open>
  The packages \<^verbatim>\<open>net/url\<close> and \<^verbatim>\<open>net/netip\<close>, as far as the program uses them: parsing a URL into its
  parts, the port and host name of its authority, and parsing and classifying IP addresses. An
  address is four or eight groups of numbers. A lookup in the name service is a parameter of the
  definitions that need one.
\<close>

subsection \<open>IP addresses\<close>

datatype ip_addr = V4 nat nat nat nat | V6 "nat list" string

text \<open>A field of a dotted address: one to three digits, no leading zero, at most 255.\<close>

definition parse_v4_field :: "string \<Rightarrow> nat option" where
  "parse_v4_field s =
     (if s = [] \<or> \<not> list_all is_digit s \<or> 3 < length s \<or> (1 < length s \<and> hd s = CHR ''0'')
         \<or> 255 < digits_value s then None
      else Some (digits_value s))"

definition parse_v4 :: "string \<Rightarrow> (nat \<times> nat \<times> nat \<times> nat) option" where
  "parse_v4 s =
     (case Split s (CHR ''.'') of
        [a, b, c, d] \<Rightarrow>
          (case (parse_v4_field a, parse_v4_field b, parse_v4_field c, parse_v4_field d) of
             (Some a', Some b', Some c', Some d') \<Rightarrow> Some (a', b', c', d')
           | _ \<Rightarrow> None)
      | _ \<Rightarrow> None)"

definition is_hex_char :: "char \<Rightarrow> bool" where
  "is_hex_char c = r_hex (byte c)"

definition hex_char_value :: "char \<Rightarrow> nat" where
  "hex_char_value c =
     (if is_digit c then byte c - 48 else if 97 \<le> byte c then byte c - 87 else byte c - 55)"

definition hex_value :: "string \<Rightarrow> nat" where
  "hex_value s = foldl (\<lambda>n c. n * 16 + hex_char_value c) 0 s"

definition parse_v6_field :: "string \<Rightarrow> nat option" where
  "parse_v6_field s =
     (if s = [] \<or> 4 < length s \<or> \<not> list_all is_hex_char s then None else Some (hex_value s))"

text \<open>
  The groups of an IPv6 text without \<open>::\<close>; the last one may be a dotted address, which stands for two
  groups.
\<close>

fun parse_v6_groups :: "string list \<Rightarrow> nat list option" where
  "parse_v6_groups [] = Some []"
| "parse_v6_groups [w] =
     (if CHR ''.'' \<in> set w then
        (case parse_v4 w of Some (a, b, c, d) \<Rightarrow> Some [a * 256 + b, c * 256 + d] | None \<Rightarrow> None)
      else (case parse_v6_field w of Some n \<Rightarrow> Some [n] | None \<Rightarrow> None))"
| "parse_v6_groups (w # v # ws) =
     (case (parse_v6_field w, parse_v6_groups (v # ws)) of
        (Some n, Some ns) \<Rightarrow> Some (n # ns) | _ \<Rightarrow> None)"

text \<open>The position of the first \<open>::\<close>: the text before and after it.\<close>

fun split_ellipsis :: "string \<Rightarrow> (string \<times> string) option" where
  "split_ellipsis (a # b # s) =
     (if a = CHR '':'' \<and> b = CHR '':'' then Some ([], s)
      else map_option (\<lambda>(x, y). (a # x, y)) (split_ellipsis (b # s)))"
| "split_ellipsis _ = None"

definition colon_groups :: "string \<Rightarrow> nat list option" where
  "colon_groups s = (if s = [] then Some [] else parse_v6_groups (Split s (CHR '':'')))"

definition parse_v6 :: "string \<Rightarrow> nat list option" where
  "parse_v6 s =
     (case split_ellipsis s of
        None \<Rightarrow>
          (case colon_groups s of Some gs \<Rightarrow> if length gs = 8 then Some gs else None | None \<Rightarrow> None)
      | Some (left, right) \<Rightarrow>
          (case (if CHR ''.'' \<in> set left then None else colon_groups left, colon_groups right) of
             (Some gs, Some hs) \<Rightarrow>
               if length gs + length hs < 8
               then Some (gs @ replicate (8 - length gs - length hs) 0 @ hs) else None
           | _ \<Rightarrow> None))"

text \<open>
  \<^verbatim>\<open>netip.ParseAddr\<close>: the first of the characters \<open>.\<close>, \<open>:\<close> and \<open>%\<close> decides which syntax is meant; a zone
  after \<open>%\<close> belongs to IPv6 only and is not empty.
\<close>

definition ParseAddr :: "string \<Rightarrow> ip_addr option" where
  "ParseAddr s =
     (case dropWhile (\<lambda>c. c \<notin> set ''.:%'') s of
        [] \<Rightarrow> None
      | c # _ \<Rightarrow>
          if c = CHR ''.'' then map_option (\<lambda>(a, b, c, d). V4 a b c d) (parse_v4 s)
          else if c = CHR '':'' then
            (case Cut s (CHR ''%'') of
               (addr, zone, found) \<Rightarrow>
                 if found \<and> zone = [] then None else map_option (\<lambda>gs. V6 gs zone) (parse_v6 addr))
          else None)"

definition unmap_v4 :: "ip_addr \<Rightarrow> ip_addr" where
  "unmap_v4 a =
     (case a of
        V6 gs z \<Rightarrow>
          if length gs = 8 \<and> take 5 gs = [0, 0, 0, 0, 0] \<and> gs ! 5 = 0xFFFF
          then V4 (gs ! 6 div 256) (gs ! 6 mod 256) (gs ! 7 div 256) (gs ! 7 mod 256)
          else a
      | _ \<Rightarrow> a)"

definition IsLinkLocalUnicast :: "ip_addr \<Rightarrow> bool" where
  "IsLinkLocalUnicast a =
     (case unmap_v4 a of
        V4 x y _ _ \<Rightarrow> x = 169 \<and> y = 254
      | V6 gs _ \<Rightarrow> 0xFE80 \<le> hd gs \<and> hd gs \<le> 0xFEBF)"

text \<open>\<open>ff?2::/16\<close> for every flag nibble, and \<open>224.0.0.0/24\<close>.\<close>

definition IsLinkLocalMulticast :: "ip_addr \<Rightarrow> bool" where
  "IsLinkLocalMulticast a =
     (case unmap_v4 a of
        V4 x y z _ \<Rightarrow> x = 224 \<and> y = 0 \<and> z = 0
      | V6 gs _ \<Rightarrow> 0xFF00 \<le> hd gs \<and> hd gs \<le> 0xFFFF \<and> hd gs mod 16 = 2)"

subsection \<open>URLs\<close>

record url =
  url_Scheme :: string
  url_Opaque :: string
  url_HasUser :: bool
  url_Host :: string
  url_Path :: string
  url_RawQuery :: string
  url_Fragment :: string

definition empty_url :: url where
  "empty_url = \<lparr>url_Scheme = [], url_Opaque = [], url_HasUser = False, url_Host = [], url_Path = [],
     url_RawQuery = [], url_Fragment = []\<rparr>"

datatype encoding = encodeHost | encodeZone | encodePath | encodeFragment | encodeUser

definition is_alnum :: "char \<Rightarrow> bool" where
  "is_alnum c = r_alnum (byte c)"

definition host_char :: "char \<Rightarrow> bool" where
  "host_char c \<longleftrightarrow> is_alnum c \<or> c \<in> set ''!$&()*+,;=:[]<>-_.~'' \<or> c = CHR 0x27 \<or> c = CHR 0x22"

fun unescape :: "encoding \<Rightarrow> string \<Rightarrow> string option" where
  "unescape mode [] = Some []"
| "unescape mode (c # s) =
     (if c = CHR ''%'' then
        (case s of
           a # b # rest \<Rightarrow>
             if \<not> is_hex_char a \<or> \<not> is_hex_char b then None
             else if mode = encodeHost \<and> hex_char_value a < 8 \<and> \<not> (a = CHR ''2'' \<and> b = CHR ''5'') then None
             else if mode = encodeZone \<and> \<not> (a = CHR ''2'' \<and> b = CHR ''5'') \<and> hex_value [a, b] \<noteq> 32
                     \<and> hex_value [a, b] < 128 \<and> \<not> host_char (char_of (hex_value [a, b])) then None
             else map_option (Cons (char_of (hex_value [a, b]))) (unescape mode rest)
         | _ \<Rightarrow> None)
      else if (mode = encodeHost \<or> mode = encodeZone) \<and> byte c < 128 \<and> \<not> host_char c then None
      else map_option (Cons c) (unescape mode s))"

definition validOptionalPort :: "string \<Rightarrow> bool" where
  "validOptionalPort port \<longleftrightarrow> port = [] \<or> hd port = CHR '':'' \<and> list_all is_digit (tl port)"

text \<open>
  \<open>parseHost\<close>: an IP literal in brackets, or a name; what follows the first colon of a name is the
  port. The text in brackets has to be an IPv6 address, with its zone after an escaped percent sign.
\<close>

definition first_index :: "char \<Rightarrow> string \<Rightarrow> string" where
  "first_index c s = dropWhile (\<lambda>d. d \<noteq> c) s"

fun cut_zone :: "string \<Rightarrow> (string \<times> string) option" where
  "cut_zone [] = None"
| "cut_zone (c # s) =
     (if HasPrefix (c # s) ''%25'' then Some ([], c # s)
      else map_option (\<lambda>(h, z). (c # h, z)) (cut_zone s))"

definition parse_bracket_host :: "string \<Rightarrow> string \<Rightarrow> string option" where
  "parse_bracket_host hostname colonPort =
     (let parts = (case cut_zone hostname of Some hz \<Rightarrow> hz | None \<Rightarrow> (hostname, []))
      in case (unescape encodeHost (fst parts), unescape encodeZone (snd parts)) of
           (Some h, Some z) \<Rightarrow>
             (case ParseAddr (h @ z) of
                Some (V6 gs zone) \<Rightarrow> Some (''['' @ h @ z @ '']'' @ colonPort)
              | _ \<Rightarrow> None)
         | _ \<Rightarrow> None)"

definition parseHost :: "string \<Rightarrow> string option" where
  "parseHost host =
     (case LastIndex host (CHR ''['') of
        Some i \<Rightarrow>
          (case LastIndex host (CHR '']'') of
             None \<Rightarrow> None
           | Some j \<Rightarrow>
               if i \<noteq> 0 \<or> j < i \<or> \<not> validOptionalPort (drop (Suc j) host) then None
               else parse_bracket_host (drop 1 (take j host)) (drop (Suc j) host))
      | None \<Rightarrow>
          if CHR '':'' \<in> set host \<and> \<not> validOptionalPort (first_index (CHR '':'') host) then None
          else unescape encodeHost host)"

definition validUserinfo :: "string \<Rightarrow> bool" where
  "validUserinfo s = list_all (\<lambda>c. is_alnum c \<or> c \<in> set ''-._:~!$&()*+,;=%@'' \<or> c = CHR 0x27) s"

text \<open>The user information is reduced to whether there is one.\<close>

definition parseAuthority :: "string \<Rightarrow> (bool \<times> string) option" where
  "parseAuthority authority =
     (case LastIndex authority (CHR ''@'') of
        None \<Rightarrow> map_option (Pair False) (parseHost authority)
      | Some i \<Rightarrow>
          (case parseHost (drop (Suc i) authority) of
             None \<Rightarrow> None
           | Some host \<Rightarrow>
               if validUserinfo (take i authority) \<and> unescape encodeUser (take i authority) \<noteq> None
               then Some (True, host) else None))"

datatype scheme_result = Scheme_Error | Scheme string string

fun getScheme :: "string \<Rightarrow> string \<Rightarrow> string \<Rightarrow> scheme_result" where
  "getScheme raw seen [] = Scheme [] raw"
| "getScheme raw seen (c # s) =
     (if r_upper (byte c) \<or> r_lower (byte c) then getScheme raw (seen @ [c]) s
      else if is_digit c \<or> c \<in> set ''+-.'' then
        (if seen = [] then Scheme [] raw else getScheme raw (seen @ [c]) s)
      else if c = CHR '':'' then (if seen = [] then Scheme_Error else Scheme seen s)
      else Scheme [] raw)"

definition parse_hierarchy :: "url \<Rightarrow> string \<Rightarrow> url option" where
  "parse_hierarchy u rest =
     (if (url_Scheme u \<noteq> [] \<or> \<not> HasPrefix rest ''///'') \<and> HasPrefix rest ''//'' then
        (let authority = takeWhile (\<lambda>c. c \<noteq> CHR ''/'') (drop 2 rest);
             path = dropWhile (\<lambda>c. c \<noteq> CHR ''/'') (drop 2 rest)
         in case (parseAuthority authority, unescape encodePath path) of
              (Some (user, host), Some p) \<Rightarrow>
                Some (u\<lparr>url_HasUser := user, url_Host := host, url_Path := p\<rparr>)
            | _ \<Rightarrow> None)
      else map_option (\<lambda>p. u\<lparr>url_Path := p\<rparr>) (unescape encodePath rest))"

definition parse_url :: "string \<Rightarrow> url option" where
  "parse_url raw =
     (if list_ex (\<lambda>c. byte c < 32 \<or> byte c = 127) raw then None
      else if raw = ''*'' then Some (empty_url\<lparr>url_Path := ''*''\<rparr>)
      else case getScheme raw [] raw of
        Scheme_Error \<Rightarrow> None
      | Scheme sch rest0 \<Rightarrow>
          (case Cut rest0 (CHR ''?'') of
             (rest, query, _) \<Rightarrow>
               let u = empty_url\<lparr>url_Scheme := ToLower sch, url_RawQuery := query\<rparr>
               in if \<not> HasPrefix rest ''/'' then
                    (if sch \<noteq> [] then Some (u\<lparr>url_Opaque := rest\<rparr>)
                     else if CHR '':'' \<in> set (fst (Cut rest (CHR ''/''))) then None
                     else parse_hierarchy u rest)
                  else parse_hierarchy u rest))"

definition Parse :: "string \<Rightarrow> url option" where
  "Parse raw =
     (case Cut raw (CHR ''#'') of
        (u, frag, _) \<Rightarrow>
          (case parse_url u of
             None \<Rightarrow> None
           | Some parsed \<Rightarrow>
               if frag = [] then Some parsed
               else map_option (\<lambda>f. parsed\<lparr>url_Fragment := f\<rparr>) (unescape encodeFragment frag)))"

definition splitHostPort :: "string \<Rightarrow> string \<times> string" where
  "splitHostPort hostPort =
     (let hp = (case LastIndex hostPort (CHR '':'') of
                  Some i \<Rightarrow> if validOptionalPort (drop i hostPort)
                            then (take i hostPort, drop (Suc i) hostPort) else (hostPort, [])
                | None \<Rightarrow> (hostPort, []));
          host = fst hp
      in (if HasPrefix host ''['' \<and> HasSuffix host '']'' then drop 1 (take (length host - 1) host) else host,
          snd hp))"

definition Hostname :: "url \<Rightarrow> string" where
  "Hostname u = fst (splitHostPort (url_Host u))"

definition Port :: "url \<Rightarrow> string" where
  "Port u = snd (splitHostPort (url_Host u))"

text \<open>A port is a sequence of digits, whatever the authority was.\<close>

lemma Port_digits: "list_all is_digit (Port u)"
proof (cases "LastIndex (url_Host u) (CHR '':'')")
  case (Some i)
  then have "i < length (url_Host u)" by (auto dest: LastIndex_Some)
  then have "drop i (url_Host u) = url_Host u ! i # drop (Suc i) (url_Host u)"
    by (rule Cons_nth_drop_Suc [symmetric])
  then show ?thesis
    using Some by (auto simp: Port_def splitHostPort_def Let_def validOptionalPort_def)
qed (simp add: Port_def splitHostPort_def Let_def)

end
