(* ===== verification/Remote_Steps.thy ===== *)
theory Remote_Steps
  imports Db_Models Go_Url "HOL-Library.AList"
begin

text \<open>
  The file \<^verbatim>\<open>internal/deployments/remote_steps.go\<close> and the parts of \<^verbatim>\<open>internal/connectors/connectors.go\<close> it
  uses: validation of a deployment target, the environment files, the names of Compose projects and
  port variables, and the shell commands a deployment runs on the server, in order. A Go map is an
  association list with distinct keys; the order in which Go ranges over a map is not observable in
  the results, which are sorted.
\<close>

subsection \<open>Runtime variables\<close>

record runtime_variable =
  rv_Key :: string
  rv_Value :: string
  rv_IsPublic :: bool

definition runtimeVariableKeyPattern :: matcher where
  "runtimeVariableKeyPattern =
     m_seq (m_set (\<lambda>r. r_upper r \<or> r_lower r \<or> r = 95)) (m_star (m_set (\<lambda>r. r_alnum r \<or> r = 95)))"

definition ValidRuntimeVariableKey :: "string \<Rightarrow> bool" where
  "ValidRuntimeVariableKey key = full_match runtimeVariableKeyPattern key"

type_synonym service_variables = "(string \<times> runtime_variable list) list"

text \<open>Both lists are folded into one map, so the last entry for a key wins; the result is sorted by key.\<close>

definition by_key :: "runtime_variable list \<Rightarrow> (string \<times> runtime_variable) list \<Rightarrow> (string \<times> runtime_variable) list" where
  "by_key variables m = foldl (\<lambda>m v. AList.update (rv_Key v) v m) m variables"

definition mergeRuntimeVariables :: "runtime_variable list \<Rightarrow> runtime_variable list \<Rightarrow> runtime_variable list" where
  "mergeRuntimeVariables projectVariables dopplerVariables =
     (let byKey = by_key dopplerVariables (by_key projectVariables [])
      in map (\<lambda>key. the (map_of byKey key)) (sort (map fst byKey)))"

definition maxRuntimeVariableValueLength :: nat where
  "maxRuntimeVariableValueLength = 8192"

definition maxRuntimeEnvFileLength :: nat where
  "maxRuntimeEnvFileLength = 65536"

definition maxComposeProjectSlugLength :: nat where
  "maxComposeProjectSlugLength = 48"

definition isValidRuntimeVariable :: "runtime_variable \<Rightarrow> bool" where
  "isValidRuntimeVariable variable = ValidRuntimeVariableKey (rv_Key variable)"

definition validRuntimeVariableCount :: "runtime_variable list \<Rightarrow> nat" where
  "validRuntimeVariableCount variables = length (filter isValidRuntimeVariable variables)"

definition quoteEnvValue :: "string \<Rightarrow> string" where
  "quoteEnvValue value0 =
     (let v1 = ReplaceAll value0 [backslash] [backslash, backslash];
          v2 = ReplaceAll v1 [CHR 0x0A] [backslash, CHR ''n''];
          v3 = ReplaceAll v2 [CHR 0x0D] [];
          v4 = ReplaceAll v3 [CHR 0x22] [backslash, CHR 0x22];
          v5 = ReplaceAll v4 [CHR ''$''] [backslash, CHR ''$''];
          v6 = ReplaceAll v5 [CHR 0x60] [backslash, CHR 0x60]
      in [CHR 0x22] @ v6 @ [CHR 0x22])"

definition env_line :: "runtime_variable \<Rightarrow> string" where
  "env_line variable = rv_Key variable @ ''='' @ quoteEnvValue (rv_Value variable)"

definition renderEnvFile :: "runtime_variable list \<Rightarrow> string" where
  "renderEnvFile variables =
     (let lines = sort (map env_line (filter isValidRuntimeVariable variables))
      in if lines = [] then [] else Join lines [CHR 0x0A] @ [CHR 0x0A])"

definition validateRuntimeVariable :: "runtime_variable \<Rightarrow> go_error option" where
  "validateRuntimeVariable variable =
     (if \<not> ValidRuntimeVariableKey (rv_Key variable) then None
      else if CHR 0x00 \<in> set (rv_Value variable)
        then Some (Errorf (''runtime variable '' @ rv_Key variable @ '' cannot contain null bytes''))
      else if maxRuntimeVariableValueLength < length (rv_Value variable)
        then Some (Errorf (''runtime variable '' @ rv_Key variable @ '' cannot exceed ''
               @ FormatNat maxRuntimeVariableValueLength @ '' bytes''))
      else None)"

fun first_error :: "('a \<Rightarrow> go_error option) \<Rightarrow> 'a list \<Rightarrow> go_error option" where
  "first_error f [] = None"
| "first_error f (x # xs) = (case f x of Some err \<Rightarrow> Some err | None \<Rightarrow> first_error f xs)"

definition renderRuntimeEnvFile :: "runtime_variable list \<Rightarrow> go_error + string" where
  "renderRuntimeEnvFile variables =
     (case first_error validateRuntimeVariable variables of
        Some err \<Rightarrow> Inl err
      | None \<Rightarrow>
          let envFile = renderEnvFile variables
          in if maxRuntimeEnvFileLength < length envFile
             then Inl (Errorf (''runtime environment cannot exceed '' @ FormatNat maxRuntimeEnvFileLength @ '' bytes''))
             else Inr envFile)"

subsection \<open>Steps and options\<close>

record remote_step =
  step_label :: string
  step_command :: string
  step_input :: string
  resolvesCommit :: bool

definition step :: "string \<Rightarrow> string \<Rightarrow> remote_step" where
  "step l c = \<lparr>step_label = l, step_command = c, step_input = [], resolvesCommit = False\<rparr>"

record compose_port_variable =
  pv_name :: string
  pv_bluePort :: string
  pv_greenPort :: string
  pv_serviceName :: string
  pv_containerPort :: int

record remote_step_options =
  targetColor :: string
  imageRef :: string
  bluePort :: string
  greenPort :: string
  portVariables :: "compose_port_variable list"
  serviceVariables :: service_variables
  sourceAuthorizationHeader :: string
  singletonServices :: "string list"

definition no_options :: remote_step_options where
  "no_options = \<lparr>targetColor = [], imageRef = [], bluePort = [], greenPort = [], portVariables = [],
     serviceVariables = [], sourceAuthorizationHeader = [], singletonServices = []\<rparr>"

subsection \<open>Image references, commits and names\<close>

definition deploymentCommit :: "deployment_target \<Rightarrow> string" where
  "deploymentCommit target = (case tgt_CommitSha target of None \<Rightarrow> [] | Some s \<Rightarrow> s)"

definition deploymentImageRef :: "deployment_target \<Rightarrow> string" where
  "deploymentImageRef target = (case tgt_ImageRef target of None \<Rightarrow> [] | Some s \<Rightarrow> TrimSpace s)"

definition has_repository :: "deployment_target \<Rightarrow> bool" where
  "has_repository target \<longleftrightarrow>
     tgt_RepositoryUrl target \<noteq> None \<and> TrimSpace (text_String (tgt_RepositoryUrl target)) \<noteq> []"

definition isSourceDeploy :: "deployment_target \<Rightarrow> bool" where
  "isSourceDeploy target \<longleftrightarrow> deploymentImageRef target = [] \<and> has_repository target"

definition isSourceDeployWithOptions :: "deployment_target \<Rightarrow> remote_step_options \<Rightarrow> bool" where
  "isSourceDeployWithOptions target options \<longleftrightarrow> TrimSpace (imageRef options) = [] \<and> isSourceDeploy target"

definition shouldSyncRepository :: "deployment_target \<Rightarrow> string \<Rightarrow> bool" where
  "shouldSyncRepository target ref \<longleftrightarrow>
     has_repository target \<and> (TrimSpace ref = [] \<or> TrimSpace (deploymentCommit target) \<noteq> [])"

definition resolveRemoteStepOptions :: "deployment_target \<Rightarrow> remote_step_options list \<Rightarrow> remote_step_options" where
  "resolveRemoteStepOptions target options =
     (case options of
        opts # _ \<Rightarrow> if imageRef opts = [] then opts\<lparr>imageRef := deploymentImageRef target\<rparr> else opts
      | [] \<Rightarrow> no_options\<lparr>imageRef := deploymentImageRef target\<rparr>)"

text \<open>
  Positions of the last slash and colon: Go's -1 for an absent slash is below every position, so the
  comparison is modelled on positions shifted by one.
\<close>

definition last_pos :: "string \<Rightarrow> char \<Rightarrow> nat" where
  "last_pos s c = (case LastIndex s c of None \<Rightarrow> 0 | Some i \<Rightarrow> Suc i)"

definition imageTag :: "string \<Rightarrow> string" where
  "imageTag ref0 =
     (let ref = TrimSpace ref0 in
      if ref = [] \<or> Contains ref ''@sha256:'' then []
      else let lastSlash = last_pos ref (CHR ''/''); lastColon = last_pos ref (CHR '':'')
           in if lastColon \<le> lastSlash \<or> lastColon = length ref then [] else drop lastColon ref)"

fun tag_key_runes :: "nat list \<Rightarrow> string \<Rightarrow> bool \<Rightarrow> string" where
  "tag_key_runes [] built lastUnderscore = built"
| "tag_key_runes (r # rs) built lastUnderscore =
     (if r_upper r \<or> r_digit r then tag_key_runes rs (built @ [char_of r]) False
      else if \<not> lastUnderscore \<and> built \<noteq> [] then tag_key_runes rs (built @ ''_'') True
      else tag_key_runes rs built lastUnderscore)"

definition applicationImageTagKey :: "string \<Rightarrow> string" where
  "applicationImageTagKey name0 =
     (let name = TrimSpace name0 in
      if name = [] then []
      else let key = Trim (tag_key_runes (runes (ToUpper name)) [] False) ''_''
           in if key = [] then [] else key @ ''_IMAGE_TAG'')"

definition runtime_var :: "string \<Rightarrow> string \<Rightarrow> runtime_variable" where
  "runtime_var k v = \<lparr>rv_Key = k, rv_Value = v, rv_IsPublic = False\<rparr>"

definition appendArtifactVariables ::
  "runtime_variable list \<Rightarrow> deployment_target \<Rightarrow> remote_step_options \<Rightarrow> runtime_variable list" where
  "appendArtifactVariables variables target options =
     variables @ [runtime_var ''DEPLOY_IMAGE'' (imageRef options)]
     @ (let tag = imageTag (imageRef options); key = applicationImageTagKey (tgt_ApplicationName target)
        in if tag = [] then []
           else [runtime_var ''DEPLOY_IMAGE_TAG'' tag] @ (if key = [] then [] else [runtime_var key tag]))
     @ (if targetColor options = [] then [] else [runtime_var ''DEPLOY_COLOR'' (targetColor options)])"

definition hashProjectName :: "string \<Rightarrow> nat" where
  "hashProjectName value = fnv32a value"

definition projectSlugPattern :: matcher where
  "projectSlugPattern = m_plus (m_set (\<lambda>r. \<not> (r_lower r \<or> r_digit r)))"

definition projectSlug :: "string \<Rightarrow> string" where
  "projectSlug original =
     (let value = Trim (ReplaceAllStringFunc projectSlugPattern (\<lambda>_. ''-'') (ToLower (TrimSpace original))) ''-'' in
      if value = [] then ''deploy-manager-app''
      else if maxComposeProjectSlugLength < length value then
        (let suffix = hex8 (hashProjectName original);
             prefix = Trim (take (maxComposeProjectSlugLength - length suffix - 1) value) ''-''
         in if prefix = [] then suffix else prefix @ ''-'' @ suffix)
      else value)"

text \<open>The loop writes one byte per code point and stops when 48 bytes are written.\<close>

definition port_name_char :: "nat \<Rightarrow> char" where
  "port_name_char r = (if r_upper r \<or> r_digit r then char_of r else CHR ''_'')"

definition managedComposePortName :: "string \<Rightarrow> int \<Rightarrow> string" where
  "managedComposePortName service port =
     ''DEPLOY_MANAGER_'' @ Trim (take 48 (map port_name_char (runes (ToUpper service)))) ''_'' @ ''_''
     @ FormatInt port @ ''_'' @ hex8_upper (hashProjectName service) @ ''_PORT''"

definition composeServiceNamePattern :: matcher where
  "composeServiceNamePattern = m_plus (m_set (\<lambda>r. r_alnum r \<or> one_of ''_.-'' r))"

definition valid_service_name :: "string \<Rightarrow> bool" where
  "valid_service_name name = full_match composeServiceNamePattern name"

definition gitCommitSHAPattern :: matcher where
  "gitCommitSHAPattern = m_between 7 40 (m_set r_hex)"

definition ValidCommitSHA :: "string \<Rightarrow> bool" where
  "ValidCommitSHA value = full_match gitCommitSHAPattern (TrimSpace value)"

subsection \<open>Validation\<close>

definition ValidateComposePath :: "string \<Rightarrow> go_error option" where
  "ValidateComposePath composePath0 =
     (let composePath = TrimSpace composePath0 in
      if composePath = [] then Some (Errorf ''compose_path is required'')
      else if IsAbs composePath then Some (Errorf ''compose_path must be relative to remote_directory'')
      else if HasControlCharacter composePath then Some (Errorf ''compose_path cannot contain control characters'')
      else if ''..'' \<in> set (Split composePath (CHR ''/''))
        then Some (Errorf ''compose_path cannot traverse parent directories'')
      else if Clean composePath = ''.'' then Some (Errorf ''compose_path must point to a compose file'')
      else None)"

definition ValidateGitRefName :: "string \<Rightarrow> go_error option" where
  "ValidateGitRefName value0 =
     (let value = TrimSpace value0 in
      if value = [] then Some (Errorf ''branch is required'')
      else if HasPrefix value ''-'' then Some (Errorf ''branch cannot start with hyphen'')
      else if HasPrefix value ''/'' \<or> HasSuffix value ''/'' \<or> Contains value ''//''
        then Some (Errorf ''branch cannot contain empty path segments'')
      else if HasSuffix value ''.'' \<or> Contains value ''..'' \<or> Contains value [CHR ''@'', CHR ''{'']
              \<or> HasSuffix value ''.lock''
        then Some (Errorf ''branch is not a safe git ref'')
      else if \<exists>r\<in>set (runes value). \<not> (r_alnum r \<or> one_of ''/._-'' r)
        then Some (Errorf ''branch contains unsupported characters'')
      else None)"

definition validRemoteStrategy :: "string \<Rightarrow> bool" where
  "validRemoteStrategy strategy0 =
     (let strategy = TrimSpace strategy0
      in strategy = [] \<or> strategy = ''rolling'' \<or> strategy = ''blue_green'')"

definition validateRemoteTarget :: "deployment_target \<Rightarrow> go_error option" where
  "validateRemoteTarget target =
     (let remoteDir = TrimSpace (tgt_RemoteDirectory target) in
      if remoteDir = [] then Some (Errorf ''remote_directory is required'')
      else if \<not> IsAbs remoteDir then Some (Errorf ''remote_directory must be an absolute path'')
      else if Clean remoteDir = ''/'' then Some (Errorf ''remote_directory cannot be root'')
      else if HasControlCharacter remoteDir
        then Some (Errorf ''remote_directory cannot contain control characters'')
      else if Contains remoteDir ''//''
        then Some (Errorf ''remote_directory cannot contain empty path segments'')
      else if ''..'' \<in> set (Split remoteDir (CHR ''/''))
        then Some (Errorf ''remote_directory cannot contain parent directory segments'')
      else if TrimSpace (tgt_ComposePath target) = [] then Some (Errorf ''compose_path is required'')
      else case ValidateComposePath (tgt_ComposePath target) of
        Some err \<Rightarrow> Some err
      | None \<Rightarrow>
      (case (if has_repository target then ValidateGitRefName (tgt_Branch target) else None) of
        Some err \<Rightarrow> Some err
      | None \<Rightarrow>
          if \<not> validRemoteStrategy (tgt_Strategy target)
            then Some (Errorf ''deployment strategy must be rolling or blue_green'')
          else if TrimSpace (tgt_Strategy target) = ''blue_green'' then
            (let healthCheckURL = TrimSpace (text_String (tgt_HealthCheckUrl target)) in
             if tgt_HealthCheckUrl target = None \<or> healthCheckURL = []
               then Some (Errorf ''blue_green deployments require a health_check_url'')
             else if \<not> Contains healthCheckURL ''{color}''
               then Some (Errorf ''blue_green health_check_url must include {color}'')
             else None)
          else None))"

subsection \<open>Ports of proxy routes\<close>

record blue_green_ports =
  ports_blue :: string
  ports_green :: string
  ports_variables :: "compose_port_variable list"

definition no_ports :: blue_green_ports where
  "no_ports = \<lparr>ports_blue = [], ports_green = [], ports_variables = []\<rparr>"

definition upstreamPort :: "pg_text \<Rightarrow> string" where
  "upstreamPort value =
     (case value of
        None \<Rightarrow> []
      | Some s \<Rightarrow> (case Parse (TrimSpace s) of None \<Rightarrow> [] | Some parsed \<Rightarrow> Port parsed))"

definition port_or :: "string \<Rightarrow> string \<Rightarrow> string" where
  "port_or port deflt = (if port = [] then deflt else port)"

definition route_port_variable :: "route_target \<Rightarrow> string \<Rightarrow> string \<Rightarrow> string \<Rightarrow> compose_port_variable" where
  "route_port_variable route name blue green =
     (let variable = \<lparr>pv_name = name, pv_bluePort = blue, pv_greenPort = green, pv_serviceName = [],
                      pv_containerPort = 0\<rparr>
      in case (rt_ComposeService route, rt_ContainerPort route) of
           (Some service, Some port) \<Rightarrow>
             if name = [] then variable\<lparr>pv_name := managedComposePortName service port,
                                        pv_serviceName := service, pv_containerPort := port\<rparr>
             else variable
         | _ \<Rightarrow> variable)"

text \<open>One iteration of the loop over the routes: the pair of default ports and the variables seen.\<close>

definition route_port_step ::
  "string \<times> string \<times> (string \<times> compose_port_variable) list \<Rightarrow> route_target \<Rightarrow>
   go_error + (string \<times> string \<times> (string \<times> compose_port_variable) list)" where
  "route_port_step st route =
     (case st of (pblue, pgreen, seen) \<Rightarrow>
      let blue0 = upstreamPort (rt_BlueUpstreamUrl route); green0 = upstreamPort (rt_GreenUpstreamUrl route) in
      if blue0 = [] \<and> green0 = [] then Inr (pblue, pgreen, seen)
      else
        let blue = port_or blue0 ''3101''; green = port_or green0 ''3102'';
            name0 = TrimSpace (text_String (rt_PortVariable route)) in
        if rt_PortVariable route \<noteq> None \<and> \<not> ValidRuntimeVariableKey name0
          then Inl (Errorf (''proxy route port variable '' @ Quote name0 @ '' is invalid''))
        else
          let pair = (if pblue = [] \<or> name0 = ''DEPLOY_PORT'' then (blue, green) else (pblue, pgreen));
              variable = route_port_variable route name0 blue green;
              name = pv_name variable in
          if name = [] then Inr (fst pair, snd pair, seen)
          else case map_of seen name of
            Some existing \<Rightarrow>
              if pv_bluePort existing \<noteq> blue \<or> pv_greenPort existing \<noteq> green
              then Inl (Errorf (''proxy route port variable '' @ name @ '' has conflicting port pairs''))
              else Inr (fst pair, snd pair, seen)
          | None \<Rightarrow> Inr (fst pair, snd pair, (name, variable) # seen))"

fun route_port_loop ::
  "string \<times> string \<times> (string \<times> compose_port_variable) list \<Rightarrow> route_target list \<Rightarrow>
   go_error + (string \<times> string \<times> (string \<times> compose_port_variable) list)" where
  "route_port_loop st [] = Inr st"
| "route_port_loop st (route # routes) =
     try_bind (route_port_step st route) (\<lambda>st'. route_port_loop st' routes)"

definition routePorts :: "route_target list \<Rightarrow> go_error + blue_green_ports" where
  "routePorts routes =
     try_bind (route_port_loop ([], [], []) routes) (\<lambda>(blue, green, seen).
       Inr \<lparr>ports_blue = (if blue = [] then ''3101'' else blue),
            ports_green = (if blue = [] then ''3102'' else green),
            ports_variables = sort_key pv_name (map snd seen)\<rparr>)"

subsection \<open>Fragments of commands\<close>

definition runtimeComposePath :: "string \<Rightarrow> string" where
  "runtimeComposePath composePath = PathJoin [PathDir composePath, ''.deploy-manager.runtime.yml'']"

definition hasManagedComposePorts :: "compose_port_variable list \<Rightarrow> bool" where
  "hasManagedComposePorts ports = list_ex (\<lambda>p. pv_serviceName p \<noteq> []) ports"

definition composeFileArguments :: "string \<Rightarrow> service_variables \<Rightarrow> compose_port_variable list \<Rightarrow> string" where
  "composeFileArguments composePath services ports =
     ''-f '' @ ShellQuote composePath
     @ (if services \<noteq> [] \<or> hasManagedComposePorts ports
        then '' -f '' @ ShellQuote (runtimeComposePath composePath) else [])"

record source_git_commands =
  git_prefix :: string
  git_fetch :: string
  git_clone :: string
  git_suffix :: string
  git_input :: string

definition sourceGitCommands :: "string \<Rightarrow> string \<Rightarrow> go_error + source_git_commands" where
  "sourceGitCommands remoteDir header0 =
     (let header = TrimSpace header0;
          commands = \<lparr>git_prefix = [], git_fetch = ''git -c safe.directory='' @ remoteDir, git_clone = ''git'',
                      git_suffix = [], git_input = []\<rparr> in
      if header = [] then Inr commands
      else if 4096 < length header \<or> HasControlCharacter header
        then Inl (Errorf ''source authorization header is invalid'')
      else Inr (commands\<lparr>git_prefix := ''IFS= read -r GIT_CONFIG_VALUE_0; export GIT_CONFIG_COUNT=1 GIT_CONFIG_KEY_0=http.extraHeader GIT_CONFIG_VALUE_0 GIT_CONFIG_NOSYSTEM=1 GIT_TERMINAL_PROMPT=0; '',
                         git_input := header @ [CHR 0x0A]\<rparr>))"

definition gitCommitCheckout :: "string \<Rightarrow> string \<Rightarrow> go_error + string" where
  "gitCommitCheckout remoteDir commit0 =
     (let commit = TrimSpace commit0 in
      if commit = [] then Inr []
      else if \<not> ValidCommitSHA commit
        then Inl (Errorf ''commit_sha must be a 7 to 40 character hexadecimal SHA'')
      else Inr ('' && cd '' @ remoteDir @ '' && git -c safe.directory='' @ remoteDir
                @ '' checkout --detach '' @ ShellQuote commit))"

definition fixedColorPortCommand :: "string \<Rightarrow> string \<Rightarrow> string" where
  \<open>fixedColorPortCommand blue green =
     ''if [ "$color" = "blue" ]; then printf %s '' @ ShellQuote blue @ ''; else printf %s ''
     @ ShellQuote green @ ''; fi''\<close>

definition colorPortPairCommand :: "string \<Rightarrow> string \<Rightarrow> string" where
  \<open>colorPortPairCommand blue0 green0 =
     (let blue = port_or (TrimSpace blue0) ''3101''; green = port_or (TrimSpace green0) ''3102''
      in ''if [ "$color" = "blue" ]; then printf %s "${BLUE_DEPLOY_PORT:-'' @ blue
         @ ''}"; else printf %s "${GREEN_DEPLOY_PORT:-'' @ green @ ''}"; fi'')\<close>

definition colorPortCommand :: "remote_step_options \<Rightarrow> string" where
  "colorPortCommand options = colorPortPairCommand (bluePort options) (greenPort options)"

definition passed_port :: "compose_port_variable \<Rightarrow> bool" where
  "passed_port variable \<longleftrightarrow> \<not> (pv_name variable = ''DEPLOY_PORT'' \<or> \<not> ValidRuntimeVariableKey (pv_name variable))"

definition composePortVariableAssignments :: "compose_port_variable list \<Rightarrow> string" where
  "composePortVariableAssignments variables =
     concat (map (\<lambda>v. '' '' @ pv_name v @ ''=$('' @ fixedColorPortCommand (pv_bluePort v) (pv_greenPort v) @ '')'')
       (filter passed_port variables))"

definition composePortVariableValues :: "compose_port_variable list \<Rightarrow> string \<Rightarrow> string" where
  "composePortVariableValues variables color =
     concat (map (\<lambda>v. '' '' @ pv_name v @ ''=''
                        @ ShellQuote (if color = ''green'' then pv_greenPort v else pv_bluePort v))
       (filter passed_port variables))"

definition defaultTargetColor :: "string \<Rightarrow> string" where
  "defaultTargetColor color = (if TrimSpace color = ''green'' then ''green'' else ''blue'')"

definition composeServiceArguments :: "string list \<Rightarrow> string" where
  "composeServiceArguments services = Join (map ShellQuote services) '' ''"

definition deploymentHealthCheckURL :: "deployment_target \<Rightarrow> string \<Rightarrow> string" where
  "deploymentHealthCheckURL target healthCheckURL =
     (if TrimSpace (tgt_Hostname target) = ''playground''
      then ReplaceFirst healthCheckURL ''://127.0.0.1'' ''://host.docker.internal''
      else healthCheckURL)"

definition composeConfigStep :: "string \<Rightarrow> string \<Rightarrow> remote_step" where
  "composeConfigStep remoteDir composeFiles =
     step ''Validating compose config'' (''cd '' @ remoteDir @ '' && docker compose '' @ composeFiles @ '' config --quiet'')"

subsection \<open>Runtime files of services\<close>

definition managed_ports :: "compose_port_variable list \<Rightarrow> (string \<times> compose_port_variable list) list" where
  "managed_ports ports =
     map (\<lambda>name. (name, filter (\<lambda>p. pv_serviceName p = name) ports))
       (first_seen [] (filter (\<lambda>n. n \<noteq> []) (map pv_serviceName ports)))"

definition port_override_line :: "string \<Rightarrow> compose_port_variable \<Rightarrow> string" where
  \<open>port_override_line bindHost binding =
     ''      - "'' @ bindHost @ '':${'' @ pv_name binding @ '':?'' @ pv_name binding @ '' is required}:''
     @ FormatInt (pv_containerPort binding) @ ''"'' @ [CHR 0x0A]\<close>

definition service_override ::
  "string \<Rightarrow> service_variables \<Rightarrow> (string \<times> compose_port_variable list) list \<Rightarrow> string \<Rightarrow> string" where
  "service_override bindHost services managed name =
     ''  '' @ name @ '':'' @ [CHR 0x0A]
     @ (if map_of services name = None then []
        else ''    env_file:'' @ [CHR 0x0A] @ ''      - .deploy-manager/'' @ name @ ''.env'' @ [CHR 0x0A])
     @ (case map_of managed name of
          None \<Rightarrow> []
        | Some bindings \<Rightarrow>
            ''    ports: !override'' @ [CHR 0x0A]
            @ concat (map (port_override_line bindHost) (sort_key pv_containerPort bindings)))"

definition service_env_step :: "deployment_target \<Rightarrow> string \<Rightarrow> runtime_variable list \<Rightarrow> go_error + remote_step" where
  "service_env_step target name variables =
     (let runtimeDirectory = PathJoin [PathDir (tgt_ComposePath target), ''.deploy-manager''];
          envPath = PathJoin [runtimeDirectory, name @ ''.env''] in
      case renderRuntimeEnvFile variables of
        Inl err \<Rightarrow> Inl (Errorf (''render runtime variables for compose service '' @ name @ '': '' @ err_text err))
      | Inr envFile \<Rightarrow>
          Inr (step (''Writing runtime environment for '' @ name)
            (''cd '' @ ShellQuote (tgt_RemoteDirectory target) @ '' && umask 077 && mkdir -p ''
             @ ShellQuote runtimeDirectory @ '' && printf %s '' @ ShellQuote envFile @ '' > '' @ ShellQuote envPath)))"

fun service_env_steps :: "deployment_target \<Rightarrow> service_variables \<Rightarrow> string list \<Rightarrow> go_error + remote_step list" where
  "service_env_steps target services [] = Inr []"
| "service_env_steps target services (name # names) =
     (case map_of services name of
        None \<Rightarrow> service_env_steps target services names
      | Some variables \<Rightarrow>
          try_bind (service_env_step target name variables) (\<lambda>st.
          try_bind (service_env_steps target services names) (\<lambda>sts. Inr (st # sts))))"

definition serviceRuntimeSteps ::
  "deployment_target \<Rightarrow> service_variables \<Rightarrow> compose_port_variable list \<Rightarrow> go_error + remote_step list" where
  "serviceRuntimeSteps target services ports =
     (let managed = managed_ports ports in
      if services = [] \<and> managed = [] then Inr []
      else case List.find (\<lambda>n. \<not> valid_service_name n) (map fst services) of
        Some name \<Rightarrow> Inl (Errorf (''compose service runtime target '' @ Quote name @ '' is invalid''))
      | None \<Rightarrow>
      (case List.find (\<lambda>n. \<not> valid_service_name n) (map fst managed) of
        Some name \<Rightarrow> Inl (Errorf (''compose service port target '' @ Quote name @ '' is invalid''))
      | None \<Rightarrow>
          let names = sort (map fst services @ filter (\<lambda>n. map_of services n = None) (map fst managed));
              bindHost = (if TrimSpace (tgt_Hostname target) = ''playground'' then ''0.0.0.0'' else ''127.0.0.1'');
              override = ''services:'' @ [CHR 0x0A] @ concat (map (service_override bindHost services managed) names)
          in try_bind (service_env_steps target services names) (\<lambda>steps.
               Inr (steps @ [step ''Writing compose runtime override''
                 (''cd '' @ ShellQuote (tgt_RemoteDirectory target) @ '' && umask 077 && printf %s ''
                  @ ShellQuote override @ '' > '' @ ShellQuote (runtimeComposePath (tgt_ComposePath target)))]))))"

subsection \<open>The steps of a deployment\<close>

definition next_color_command :: "deployment_target \<Rightarrow> remote_step_options \<Rightarrow> string \<Rightarrow> string" where
  "next_color_command target options action =
     ''cd '' @ ShellQuote (tgt_RemoteDirectory target)
     @ '' && color=$(cat .deploy-manager-next-color) && port=$('' @ colorPortCommand options
     @ '') && COMPOSE_PROJECT_NAME='' @ ShellQuote (projectSlug (tgt_ApplicationName target))
     @ ''-$color DEPLOY_COLOR=$color DEPLOY_PORT=$port'' @ composePortVariableAssignments (portVariables options)
     @ '' docker compose ''
     @ composeFileArguments (tgt_ComposePath target) (serviceVariables options) (portVariables options)
     @ '' '' @ action"

definition health_command :: "deployment_target \<Rightarrow> remote_step_options \<Rightarrow> string" where
  \<open>health_command target options =
     ''cd '' @ ShellQuote (tgt_RemoteDirectory target)
     @ '' && color=$(cat .deploy-manager-next-color) && port=$('' @ colorPortCommand options
     @ '') && url=$(printf %s ''
     @ ShellQuote (deploymentHealthCheckURL target (text_String (tgt_HealthCheckUrl target)))
     @ '' | sed "s/{color}/$color/g" | sed "s/{port}/$port/g") && curl -fsS --retry 10 --retry-delay 2 --retry-all-errors "$url" >/dev/null''\<close>

definition blueGreenSteps :: "deployment_target \<Rightarrow> remote_step_options \<Rightarrow> remote_step list" where
  "blueGreenSteps target options =
     [step ''Selecting blue-green target''
        (''cd '' @ ShellQuote (tgt_RemoteDirectory target) @ '' && printf %s ''
         @ ShellQuote (defaultTargetColor (targetColor options)) @ '' > .deploy-manager-next-color''),
      step ''Validating compose config'' (next_color_command target options ''config --quiet''),
      (if isSourceDeployWithOptions target options
       then step ''Building next color images'' (next_color_command target options ''build --pull'')
       else step ''Pulling next color images'' (next_color_command target options ''pull'')),
      step ''Starting next color stack'' (next_color_command target options
        (''up -d --remove-orphans''
         @ concat (map (\<lambda>service. '' --scale '' @ ShellQuote (service @ ''=0'')) (singletonServices options))))]
     @ (if singletonServices options = [] then []
        else [step ''Preparing singleton services'' (next_color_command target options
                (''up --no-start --no-deps --no-build --force-recreate ''
                 @ composeServiceArguments (singletonServices options)))])
     @ [step ''Checking next color health'' (health_command target options)]"

definition fixedColorComposeServiceCommand ::
  "deployment_target \<Rightarrow> remote_step_options \<Rightarrow> string \<Rightarrow> string \<Rightarrow> string list \<Rightarrow> string" where
  "fixedColorComposeServiceCommand target options color0 action services =
     (let color = defaultTargetColor color0 in
      ''cd '' @ ShellQuote (tgt_RemoteDirectory target) @ '' && color='' @ ShellQuote color
      @ '' && port=$('' @ colorPortCommand options @ '') && COMPOSE_PROJECT_NAME=''
      @ ShellQuote (projectSlug (tgt_ApplicationName target) @ ''-'' @ color)
      @ '' DEPLOY_COLOR=$color DEPLOY_PORT=$port'' @ composePortVariableAssignments (portVariables options)
      @ '' docker compose ''
      @ composeFileArguments (tgt_ComposePath target) (serviceVariables options) (portVariables options)
      @ '' '' @ action @ '' '' @ composeServiceArguments services)"

definition sync_command :: "deployment_target \<Rightarrow> source_git_commands \<Rightarrow> string \<Rightarrow> string" where
  "sync_command target git commitCheckout =
     (let remoteDir = ShellQuote (tgt_RemoteDirectory target); branch = ShellQuote (tgt_Branch target);
          repository = ShellQuote (text_String (tgt_RepositoryUrl target))
      in ''if [ -d '' @ remoteDir @ ''/.git ]; then cd '' @ remoteDir @ '' && '' @ git_fetch git
         @ '' fetch --prune origin '' @ branch @ '' && git -c safe.directory='' @ remoteDir
         @ '' reset --hard && git -c safe.directory='' @ remoteDir @ '' checkout '' @ branch
         @ '' && git -c safe.directory='' @ remoteDir @ '' reset --hard origin/'' @ branch
         @ ''; else find '' @ remoteDir @ '' -mindepth 1 -maxdepth 1 -exec rm -rf {} + && '' @ git_clone git
         @ '' clone --branch '' @ branch @ '' '' @ repository @ '' '' @ remoteDir @ ''; fi'' @ commitCheckout)"

definition syncSteps :: "deployment_target \<Rightarrow> remote_step_options \<Rightarrow> go_error + remote_step list" where
  "syncSteps target options =
     (if \<not> shouldSyncRepository target (imageRef options) then Inr []
      else let remoteDir = ShellQuote (tgt_RemoteDirectory target) in
        try_bind (sourceGitCommands remoteDir (sourceAuthorizationHeader options)) (\<lambda>git.
        try_bind (gitCommitCheckout remoteDir (deploymentCommit target)) (\<lambda>commitCheckout.
          Inr [\<lparr>step_label = ''Syncing repository'',
                step_command = git_prefix git @ sync_command target git commitCheckout @ git_suffix git,
                step_input = git_input git, resolvesCommit = True\<rparr>])))"

definition rollingSteps :: "deployment_target \<Rightarrow> remote_step_options \<Rightarrow> remote_step list" where
  "rollingSteps target options =
     (let remoteDir = ShellQuote (tgt_RemoteDirectory target);
          project = ShellQuote (projectSlug (tgt_ApplicationName target));
          composeFiles = composeFileArguments (tgt_ComposePath target) (serviceVariables options) (portVariables options);
          compose = (\<lambda>action. ''cd '' @ remoteDir @ '' && COMPOSE_PROJECT_NAME='' @ project
                               @ '' docker compose '' @ composeFiles @ action)
      in [composeConfigStep remoteDir composeFiles,
          (if isSourceDeployWithOptions target options
           then step ''Building compose images'' (compose '' build --pull'')
           else step ''Pulling compose images'' (compose '' pull'')),
          step ''Starting compose stack'' (compose '' up -d --remove-orphans'')])"

definition remoteSteps ::
  "deployment_target \<Rightarrow> runtime_variable list \<Rightarrow> remote_step_options list \<Rightarrow> go_error + remote_step list" where
  "remoteSteps target variables0 options =
     (case validateRemoteTarget target of
        Some err \<Rightarrow> Inl err
      | None \<Rightarrow>
          let opts0 = resolveRemoteStepOptions target options;
              generated = appendArtifactVariables [] target opts0;
              variables = (if imageRef opts0 = [] then variables0 else mergeRuntimeVariables variables0 generated);
              opts = (if imageRef opts0 = [] then opts0
                      else opts0\<lparr>serviceVariables :=
                             map (\<lambda>(service, scoped). (service, mergeRuntimeVariables scoped generated))
                               (serviceVariables opts0)\<rparr>);
              remoteDir = ShellQuote (tgt_RemoteDirectory target)
          in try_bind (syncSteps target opts) (\<lambda>sync.
             try_bind (renderRuntimeEnvFile variables) (\<lambda>envFile.
             let envPath = PathJoin [PathDir (tgt_ComposePath target), ''.env''] in
             try_bind (serviceRuntimeSteps target (serviceVariables opts) (portVariables opts)) (\<lambda>serviceSteps.
               Inr ([step ''Preparing remote directory'' (''mkdir -p '' @ remoteDir)]
                    @ sync
                    @ [step ''Writing runtime environment''
                         (''cd '' @ remoteDir @ '' && umask 077 && printf %s '' @ ShellQuote envFile
                          @ '' > '' @ ShellQuote envPath)]
                    @ serviceSteps
                    @ (if tgt_Strategy target = ''blue_green'' then blueGreenSteps target opts
                       else rollingSteps target opts))))))"

subsection \<open>Stopping an application\<close>

definition down_target :: "application \<Rightarrow> deployment_target" where
  "down_target app =
     \<lparr>tgt_DeploymentID = None, tgt_Strategy = [], tgt_CommitSha = None, tgt_ImageRef = None,
      tgt_ImageDigest = None, tgt_ApplicationID = app_ID app, tgt_ApplicationName = app_Name app,
      tgt_RepositoryUrl = app_RepositoryUrl app, tgt_Branch = app_Branch app,
      tgt_ComposePath = app_ComposePath app, tgt_RemoteDirectory = app_RemoteDirectory app,
      tgt_Domain = None, tgt_HealthCheckUrl = None, tgt_DopplerProject = None, tgt_DopplerConfig = None,
      tgt_ComposeServices = [], tgt_ConfigurationRevision = 0, tgt_ProjectConfigurationRevision = 0,
      tgt_RepositoryConnectorID = None, tgt_ServerID = None, tgt_ServerName = [], tgt_Hostname = [],
      tgt_SshUser = [], tgt_SshPort = 0, tgt_SshKeyPath = None, tgt_ConnectionMode = [], tgt_ProxyType = []\<rparr>"

definition compose_down :: "blue_green_ports \<Rightarrow> string \<Rightarrow> string \<Rightarrow> string \<Rightarrow> string \<Rightarrow> string" where
  "compose_down ports composePath name color port =
     ''COMPOSE_PROJECT_NAME='' @ ShellQuote name @ '' DEPLOY_COLOR='' @ ShellQuote color
     @ '' DEPLOY_PORT='' @ ShellQuote port @ composePortVariableValues (ports_variables ports) color
     @ '' docker compose -f '' @ ShellQuote composePath @ '' down --remove-orphans''"

definition BuildComposeDownCommand :: "application \<Rightarrow> route_target list \<Rightarrow> go_error + string" where
  "BuildComposeDownCommand app routes =
     (case validateRemoteTarget (down_target app) of
        Some err \<Rightarrow> Inl err
      | None \<Rightarrow>
          try_bind (routePorts routes) (\<lambda>ports.
            let remoteDir = ShellQuote (app_RemoteDirectory app); project = projectSlug (app_Name app);
                down = compose_down ports (app_ComposePath app)
            in Inr (''test -d '' @ remoteDir @ '' && cd '' @ remoteDir @ '' && test -f ''
                    @ ShellQuote (app_ComposePath app) @ '' && ''
                    @ Join [down project ''blue'' (ports_blue ports),
                            down (project @ ''-blue'') ''blue'' (ports_blue ports),
                            down (project @ ''-green'') ''green'' (ports_green ports)] '' && '')))"

end
