(* ===== verification/Proxy_Commands.thy ===== *)
theory Proxy_Commands
  imports Go_Url String_Util
begin

text \<open>
  The package \<^verbatim>\<open>internal/proxy\<close>, file \<^verbatim>\<open>commands.go\<close>: validation of domains and upstream URLs and the
  shell commands that write or remove the configuration of one route on a server that runs Caddy or
  Traefik. A lookup in the name service is the parameter \<open>lookup\<close>: the addresses of a host, or none
  when the lookup fails.
\<close>

record proxy_target =
  pt_Domain :: string
  pt_Upstream :: string
  pt_TLSEnabled :: bool
  pt_ProxyType :: string

definition shellQuote :: "string \<Rightarrow> string" where
  "shellQuote value = ShellQuote value"

definition containsUnsafeProxyRune :: "string \<Rightarrow> bool" where
  "containsUnsafeProxyRune value \<longleftrightarrow>
     (\<exists>r\<in>set (runes value). r = 0x27 \<or> r = 0x22 \<or> r = 0x60 \<or> (IsSpace r \<and> r \<noteq> 32))"

definition metadata_addr :: ip_addr where
  "metadata_addr = V4 169 254 169 254"

definition forbidden_addr :: "ip_addr \<Rightarrow> bool" where
  "forbidden_addr addr \<longleftrightarrow>
     addr = metadata_addr \<or> IsLinkLocalUnicast addr \<or> IsLinkLocalMulticast addr"

definition validateUpstreamHost :: "(string \<Rightarrow> ip_addr list option) \<Rightarrow> string \<Rightarrow> go_error option" where
  "validateUpstreamHost lookup host0 =
     (let host = ToLower (Trim host0 ''[]'') in
      if host = ''metadata.google.internal''
        then Some (Errorf ''upstream_url cannot target cloud metadata services'')
      else case ParseAddr host of
        Some addr \<Rightarrow>
          if forbidden_addr addr then Some (Errorf ''upstream_url cannot target link-local addresses'')
          else None
      | None \<Rightarrow>
          (case lookup host of
             None \<Rightarrow> None
           | Some ips \<Rightarrow>
               if list_ex forbidden_addr ips
               then Some (Errorf ''upstream_url cannot target link-local addresses'') else None))"

definition validateUpstreamURL :: "(string \<Rightarrow> ip_addr list option) \<Rightarrow> string \<Rightarrow> go_error option" where
  "validateUpstreamURL lookup value =
     (if HasControlCharacter value then Some (Errorf ''upstream_url cannot contain control characters'')
      else if containsUnsafeProxyRune value then Some (Errorf ''upstream_url contains unsupported characters'')
      else case Parse value of
        None \<Rightarrow> Some (Errorf ''upstream_url must be an absolute HTTP URL'')
      | Some parsed \<Rightarrow>
          if url_Host parsed = [] then Some (Errorf ''upstream_url must be an absolute HTTP URL'')
          else if url_HasUser parsed then Some (Errorf ''upstream_url cannot include credentials'')
          else if url_RawQuery parsed \<noteq> [] \<or> url_Fragment parsed \<noteq> []
                  \<or> (url_Path parsed \<noteq> [] \<and> url_Path parsed \<noteq> ''/'')
            then Some (Errorf ''upstream_url must be an origin URL without path, query, or fragment'')
          else case validateUpstreamHost lookup (Hostname parsed) of
            Some err \<Rightarrow> Some err
          | None \<Rightarrow>
              if url_Scheme parsed = ''http'' \<or> url_Scheme parsed = ''https'' then None
              else Some (Errorf ''upstream_url must use http or https''))"

subsection \<open>Domains\<close>

fun validate_labels :: "string list \<Rightarrow> go_error option" where
  "validate_labels [] = None"
| "validate_labels (label # labels) =
     (if label = [] then Some (Errorf ''domain labels cannot be empty'')
      else if 63 < length label then Some (Errorf ''domain label is too long'')
      else if HasPrefix label ''-'' \<or> HasSuffix label ''-''
        then Some (Errorf ''domain labels cannot start or end with hyphen'')
      else validate_labels labels)"

definition validateDomainLabels :: "string \<Rightarrow> go_error option" where
  "validateDomainLabels domain =
     (if domain = [] then Some (Errorf ''domain is required'')
      else if 253 < length domain then Some (Errorf ''domain is too long'')
      else validate_labels (Split domain (CHR ''.'')))"

definition domain_rune :: "nat \<Rightarrow> bool" where
  "domain_rune r \<longleftrightarrow> r_lower r \<or> r_digit r \<or> r = 46 \<or> r = 45"

definition ValidateDomain :: "string \<Rightarrow> go_error option" where
  "ValidateDomain domain0 =
     (let domain = ToLower (TrimSpace domain0) in
      if \<exists>r\<in>set (runes domain). \<not> domain_rune r then Some (Errorf ''domain contains unsupported characters'')
      else validateDomainLabels domain)"

definition routeSlugPattern :: matcher where
  "routeSlugPattern = m_plus (m_set (\<lambda>r. \<not> (r_lower r \<or> r_digit r \<or> r = 45)))"

definition routeSlug :: "string \<Rightarrow> go_error + string" where
  "routeSlug domain0 =
     (let domain = ToLower (TrimSpace domain0) in
      case ValidateDomain domain of
        Some err \<Rightarrow> Inl err
      | None \<Rightarrow>
          let slug = Trim (ReplaceAllStringFunc routeSlugPattern (\<lambda>_. ''-'') (ReplaceAll domain ''.'' ''-'')) ''-''
          in if slug = [] then Inl (Errorf ''domain is required'') else Inr slug)"

definition ValidateTarget :: "(string \<Rightarrow> ip_addr list option) \<Rightarrow> proxy_target \<Rightarrow> go_error option" where
  "ValidateTarget lookup target =
     (let domain = TrimSpace (pt_Domain target); upstream = TrimSpace (pt_Upstream target) in
      if containsUnsafeProxyRune (pt_Upstream target)
        then Some (Errorf ''upstream_url contains unsupported characters'')
      else if domain = [] then Some (Errorf ''domain is required'')
      else if upstream = [] then Some (Errorf ''upstream_url is required'')
      else case validateUpstreamURL lookup upstream of
        Some err \<Rightarrow> Some err
      | None \<Rightarrow>
          if pt_ProxyType target = ''caddy'' \<or> pt_ProxyType target = ''traefik'' then
            (case routeSlug domain of Inl err \<Rightarrow> Some err | Inr _ \<Rightarrow> None)
          else if pt_ProxyType target = ''none'' then Some (Errorf ''server proxy type is none'')
          else Some (Errorf (''unsupported proxy type '' @ Quote (pt_ProxyType target))))"

subsection \<open>Configurations and commands\<close>

definition caddyConfig :: "proxy_target \<Rightarrow> string" where
  "caddyConfig target =
     (let address = (if \<not> pt_TLSEnabled target then ''http://'' @ pt_Domain target else pt_Domain target)
      in address @ '' {'' @ [CHR 0x0A, CHR 0x09] @ ''reverse_proxy '' @ pt_Upstream target
         @ [CHR 0x0A] @ ''}'' @ [CHR 0x0A])"

text \<open>The Python programs that the command runs to edit a Caddyfile shared by several sites.\<close>

definition caddy_edit_lines :: "string list" where
  \<open>caddy_edit_lines = [
     ''import os'',
     ''import pathlib'',
     ''import re'',
     ''import shutil'',
     ''import time'',
     [],
     ''path = pathlib.Path("/opt/infrastructure/Caddyfile")'',
     ''address = os.environ["DM_CADDY_ADDRESS"].strip()'',
     ''config = os.environ["DM_CADDY_CONFIG"].rstrip() + "'' @ [CHR 0x5C] @ ''n"'',
     ''content = path.read_text()'',
     ''start = f"# deploy-manager route {address}'' @ [CHR 0x5C] @ ''n"'',
     ''end = f"# deploy-manager route end {address}'' @ [CHR 0x5C] @ ''n"'',
     ''managed = start + config + end'',
     [],
     ''content = re.sub('',
     ''    r"(?ms)^" + re.escape(start) + r".*?^" + re.escape(end) + r"'' @ [CHR 0x5C] @ ''n?",'',
     ''    "",'',
     ''    content,'',
     '')'',
     [],
     ''lines = content.splitlines(keepends=True)'',
     ''cleaned = []'',
     ''i = 0'',
     ''while i < len(lines):'',
     ''    if lines[i].strip() == f"{address} {{":'',
     ''        depth = lines[i].count("{") - lines[i].count("}")'',
     ''        i += 1'',
     ''        while i < len(lines) and depth > 0:'',
     ''            depth += lines[i].count("{") - lines[i].count("}")'',
     ''            i += 1'',
     ''        continue'',
     ''    cleaned.append(lines[i])'',
     ''    i += 1'',
     [],
     ''content = "".join(cleaned).rstrip() + "'' @ [CHR 0x5C] @ ''n'' @ [CHR 0x5C] @ ''n" + managed'',
     ''backup = path.with_name(path.name + ".deploy-manager-backup." + time.strftime("%Y%m%d%H%M%S"))'',
     ''shutil.copy2(path, backup)'',
     ''path.write_text(content)'']\<close>

definition caddy_remove_lines :: "string list" where
  \<open>caddy_remove_lines = [
     ''import os'',
     ''import pathlib'',
     ''import re'',
     [],
     ''path = pathlib.Path("/opt/infrastructure/Caddyfile")'',
     ''address = os.environ["DM_CADDY_ADDRESS"].strip()'',
     ''content = path.read_text()'',
     ''start = f"# deploy-manager route {address}'' @ [CHR 0x5C] @ ''n"'',
     ''end = f"# deploy-manager route end {address}'' @ [CHR 0x5C] @ ''n"'',
     [],
     ''content = re.sub('',
     ''    r"(?ms)^" + re.escape(start) + r".*?^" + re.escape(end) + r"'' @ [CHR 0x5C] @ ''n?",'',
     ''    "",'',
     ''    content,'',
     '')'',
     [],
     ''lines = content.splitlines(keepends=True)'',
     ''cleaned = []'',
     ''i = 0'',
     ''while i < len(lines):'',
     ''    if lines[i].strip() == f"{address} {{":'',
     ''        depth = lines[i].count("{") - lines[i].count("}")'',
     ''        i += 1'',
     ''        while i < len(lines) and depth > 0:'',
     ''            depth += lines[i].count("{") - lines[i].count("}")'',
     ''            i += 1'',
     ''        continue'',
     ''    cleaned.append(lines[i])'',
     ''    i += 1'',
     [],
     ''path.write_text("".join(cleaned).rstrip() + "'' @ [CHR 0x5C] @ ''n")'']\<close>

definition caddy_tail_lines :: "string list" where
  \<open>caddy_tail_lines = [
     ''PY'',
     ''  docker exec caddy caddy validate --config /etc/caddy/Caddyfile'',
     ''  docker exec caddy caddy reload --config /etc/caddy/Caddyfile'',
     ''else'',
     ''  echo "no supported caddy runtime found" >&2'',
     ''  exit 1'',
     ''fi'']\<close>

text \<open>
  The script up to the operator that opens the here-document; what follows is constant, and the
  shell reads the lines of the document literally.
\<close>

definition caddy_script_head :: "proxy_target \<Rightarrow> string \<Rightarrow> string" where
  \<open>caddy_script_head target slug =
     (let config = caddyConfig target;
          hostPath = ''/etc/caddy/conf.d/deploy-manager-'' @ slug @ ''.caddy''
      in Join [
      ''set -e'',
      ''if command -v caddy >/dev/null 2>&1 && command -v systemctl >/dev/null 2>&1 && systemctl list-unit-files caddy.service >/dev/null 2>&1; then'',
      ''  sudo mkdir -p /etc/caddy/conf.d'',
      ''  printf %s '' @ shellQuote config @ '' | sudo tee '' @ shellQuote hostPath @ '' >/dev/null'',
      ''  sudo caddy validate --config /etc/caddy/Caddyfile'',
      ''  sudo systemctl reload caddy'',
      ''elif command -v docker >/dev/null 2>&1 && docker ps --format '' @ [CHR 0x27] @ ''{{.Names}}'' @ [CHR 0x27] @ '' | grep -Fxq caddy && test -f /opt/infrastructure/Caddyfile; then'',
      ''  DM_CADDY_ADDRESS='' @ shellQuote (pt_Domain target) @ '' DM_CADDY_CONFIG='' @ shellQuote config @ '' python3 - <<'' @ [CHR 0x27] @ ''PY'' @ [CHR 0x27]] [CHR 0x0A])\<close>

definition caddyScript :: "proxy_target \<Rightarrow> string \<Rightarrow> string" where
  "caddyScript target slug =
     caddy_script_head target slug @ [CHR 0x0A] @ Join (caddy_edit_lines @ caddy_tail_lines) [CHR 0x0A]"

definition caddyCommand :: "proxy_target \<Rightarrow> string \<Rightarrow> string" where
  "caddyCommand target slug = ''bash -lc '' @ shellQuote (caddyScript target slug)"

definition caddy_remove_head :: "string \<Rightarrow> string \<Rightarrow> string" where
  \<open>caddy_remove_head domain slug =
     (let hostPath = ''/etc/caddy/conf.d/deploy-manager-'' @ slug @ ''.caddy''
      in Join [
      ''set -e'',
      ''if command -v caddy >/dev/null 2>&1 && command -v systemctl >/dev/null 2>&1 && systemctl list-unit-files caddy.service >/dev/null 2>&1; then'',
      ''  sudo rm -f '' @ shellQuote hostPath,
      ''  sudo caddy validate --config /etc/caddy/Caddyfile'',
      ''  sudo systemctl reload caddy'',
      ''elif command -v docker >/dev/null 2>&1 && docker ps --format '' @ [CHR 0x27] @ ''{{.Names}}'' @ [CHR 0x27] @ '' | grep -Fxq caddy && test -f /opt/infrastructure/Caddyfile; then'',
      ''  DM_CADDY_ADDRESS='' @ shellQuote domain @ '' python3 - <<'' @ [CHR 0x27] @ ''PY'' @ [CHR 0x27]] [CHR 0x0A])\<close>

definition caddyRemoveScript :: "string \<Rightarrow> string \<Rightarrow> string" where
  "caddyRemoveScript domain slug =
     caddy_remove_head domain slug @ [CHR 0x0A] @ Join (caddy_remove_lines @ caddy_tail_lines) [CHR 0x0A]"

definition caddyRemoveCommand :: "string \<Rightarrow> string \<Rightarrow> string" where
  "caddyRemoveCommand domain slug = ''bash -lc '' @ shellQuote (caddyRemoveScript domain slug)"

definition traefikConfig :: "proxy_target \<Rightarrow> string \<Rightarrow> string" where
  \<open>traefikConfig target slug =
     (let entryPoint = (if \<not> pt_TLSEnabled target then ''web'' else ''websecure'');
          tls = (if \<not> pt_TLSEnabled target then [] else ''    tls: {}'' @ [CHR 0x0A])
      in ''http:'' @ [CHR 0x0A] @
         ''  routers:'' @ [CHR 0x0A] @
         ''    '' @ slug @ '':'' @ [CHR 0x0A] @
         ''      rule: "Host('' @ ''`'' @ pt_Domain target @ ''`'' @ '')"'' @ [CHR 0x0A] @
         ''      service: '' @ slug @ [CHR 0x0A] @
         ''      entryPoints:'' @ [CHR 0x0A] @
         ''        - '' @ entryPoint @ [CHR 0x0A] @
         tls @ ''  services:'' @ [CHR 0x0A] @
         ''    '' @ slug @ '':'' @ [CHR 0x0A] @
         ''      loadBalancer:'' @ [CHR 0x0A] @
         ''        servers:'' @ [CHR 0x0A] @
         ''          - url: "'' @ pt_Upstream target @ ''"'' @ [CHR 0x0A])\<close>

definition traefikPath :: "string \<Rightarrow> string" where
  "traefikPath slug = ''/etc/traefik/dynamic/deploy-manager-'' @ slug @ ''.yml''"

definition BuildCommand :: "(string \<Rightarrow> ip_addr list option) \<Rightarrow> proxy_target \<Rightarrow> go_error + string" where
  "BuildCommand lookup target0 =
     (case ValidateTarget lookup target0 of
        Some err \<Rightarrow> Inl err
      | None \<Rightarrow>
          let target = target0\<lparr>pt_Domain := TrimSpace (pt_Domain target0),
                               pt_Upstream := TrimSpace (pt_Upstream target0)\<rparr>
          in try_bind (routeSlug (pt_Domain target)) (\<lambda>slug.
               if pt_ProxyType target = ''caddy'' then Inr (caddyCommand target slug)
               else if pt_ProxyType target = ''traefik'' then
                 Inr (Join [''sudo mkdir -p /etc/traefik/dynamic'',
                            ''printf %s '' @ shellQuote (traefikConfig target slug) @ '' | sudo tee ''
                              @ shellQuote (traefikPath slug) @ '' >/dev/null''] '' && '')
               else Inl (Errorf (''unsupported proxy type '' @ Quote (pt_ProxyType target)))))"

definition BuildRemoveCommand :: "string \<Rightarrow> string \<Rightarrow> go_error + string" where
  "BuildRemoveCommand domain0 proxyType =
     (let domain = ToLower (TrimSpace domain0) in
      try_bind (routeSlug domain) (\<lambda>slug.
        if proxyType = ''caddy'' then Inr (caddyRemoveCommand domain slug)
        else if proxyType = ''traefik'' then Inr (''sudo rm -f '' @ shellQuote (traefikPath slug))
        else Inl (Errorf (''unsupported proxy type '' @ Quote proxyType))))"

subsection \<open>Slugs\<close>

lemma routeSlug_chars:
  assumes "routeSlug d = Inr slug"
  shows "slug \<noteq> []" and "c \<in> set slug \<Longrightarrow> r_lower (byte c) \<or> r_digit (byte c) \<or> c = CHR ''-''"
proof -
  let ?P = "\<lambda>r. \<not> (r_lower r \<or> r_digit r \<or> r = 45)"
  obtain t where slug: "slug = Trim (ReplaceAllStringFunc (m_plus (m_set ?P)) (\<lambda>_. ''-'') t) ''-''"
    and ne: "slug \<noteq> []"
    using assms by (auto simp: routeSlug_def Let_def routeSlugPattern_def split: option.splits if_splits)
  show "slug \<noteq> []" by (rule ne)
  assume "c \<in> set slug"
  with slug have "c \<in> set (ReplaceAllStringFunc (m_plus (m_set ?P)) (\<lambda>_. ''-'') t)"
    using set_trim_list by (fastforce simp: Trim_def)
  moreover have "r < 128" if "\<not> ?P r" for r using that by (auto simp: class_defs)
  ultimately have "c \<in> set ''-'' \<or> \<not> ?P (byte c)"
    using class_replacement_chars [of ?P] by blast
  with byte_inject [of c "CHR ''-''"] show "r_lower (byte c) \<or> r_digit (byte c) \<or> c = CHR ''-''" by auto
qed

subsection \<open>What the shell reads\<close>

lemma caddy_head_reading:
  "\<exists>segs. sh_scan Plain (caddy_script_head t slug) = Some segs \<and>
     quoted_values segs = [caddyConfig t, ''/etc/caddy/conf.d/deploy-manager-'' @ slug @ ''.caddy'',
       ''{{.Names}}'', pt_Domain t, caddyConfig t, ''PY''] \<and>
     code_text segs = code_text (the (sh_scan Plain (caddy_script_head t' slug')))"
  unfolding caddy_script_head_def Let_def shellQuote_def
  by (simp add: sh_scan_ShellQuote)

lemma caddyCommand_reading:
  "sh_scan Plain (caddyCommand t slug) = Some (map Code ''bash -lc '' @ [Quoted (caddyScript t slug)])"
  unfolding caddyCommand_def shellQuote_def by (simp add: quoting plain_char_def)

text \<open>The quoting of the Caddy commands is sound: for every target the login shell gets the whole
  script as one literal argument, and in the script the shell takes exactly the configuration, the
  path of the configuration file, the domain and the configuration again as literal values, whatever
  characters they contain; the text it interprets is the same for all targets.\<close>

theorem caddy_quoting_sound:
  "\<exists>code. \<forall>target slug. \<exists>segs.
     sh_scan Plain (caddyCommand target slug) =
       Some (map Code ''bash -lc '' @ [Quoted (caddy_script_head target slug @ [CHR 0x0A] @
         Join (caddy_edit_lines @ caddy_tail_lines) [CHR 0x0A])]) \<and>
     sh_scan Plain (caddy_script_head target slug) = Some segs \<and>
     code_text segs = code \<and>
     quoted_values segs = [caddyConfig target, ''/etc/caddy/conf.d/deploy-manager-'' @ slug @ ''.caddy'',
       ''{{.Names}}'', pt_Domain target, caddyConfig target, ''PY'']"
proof -
  fix t' slug'
  show ?thesis
    using caddy_head_reading [of _ _ t' slug']
    by (intro exI [of _ "code_text (the (sh_scan Plain (caddy_script_head t' slug')))"])
      (fastforce simp: caddyCommand_reading caddyScript_def)
qed

subsection \<open>Building and removing a route\<close>

lemma BuildCommand_cases:
  assumes "BuildCommand lookup t = Inr cmd"
  obtains slug where "ValidateTarget lookup t = None" and "routeSlug (TrimSpace (pt_Domain t)) = Inr slug"
    and "pt_ProxyType t = ''caddy'' \<and> cmd = caddyCommand (t\<lparr>pt_Domain := TrimSpace (pt_Domain t),
           pt_Upstream := TrimSpace (pt_Upstream t)\<rparr>) slug
         \<or> pt_ProxyType t = ''traefik'' \<and> cmd = ''sudo mkdir -p /etc/traefik/dynamic && printf %s ''
             @ shellQuote (traefikConfig (t\<lparr>pt_Domain := TrimSpace (pt_Domain t),
                 pt_Upstream := TrimSpace (pt_Upstream t)\<rparr>) slug)
             @ '' | sudo tee '' @ shellQuote (traefikPath slug) @ '' >/dev/null''"
  using assms
  by (auto simp: BuildCommand_def Let_def try_bind_eq_Inr_iff split: option.splits if_splits)

text \<open>C34. A route is only configured for an upstream that names an HTTP or HTTPS origin without
  credentials, whose host is not the metadata name of the cloud and, as an address or through
  the name service, is neither the metadata address nor a link-local one.\<close>

theorem built_upstream_safe:
  assumes "BuildCommand lookup target = Inr command"
  shows "\<exists>u. Parse (TrimSpace (pt_Upstream target)) = Some u \<and> url_Host u \<noteq> [] \<and>
    url_Scheme u \<in> {''http'', ''https''} \<and> \<not> url_HasUser u \<and> url_RawQuery u = [] \<and>
    url_Fragment u = [] \<and> url_Path u \<in> {[], ''/''} \<and>
    ToLower (Trim (Hostname u) ''[]'') \<noteq> ''metadata.google.internal'' \<and>
    (case ParseAddr (ToLower (Trim (Hostname u) ''[]'')) of
       Some addr \<Rightarrow> \<not> forbidden_addr addr
     | None \<Rightarrow> (case lookup (ToLower (Trim (Hostname u) ''[]'')) of
                 None \<Rightarrow> True | Some ips \<Rightarrow> (\<forall>ip\<in>set ips. \<not> forbidden_addr ip)))"
proof -
  obtain slug where "ValidateTarget lookup target = None" using assms by (rule BuildCommand_cases)
  then have "validateUpstreamURL lookup (TrimSpace (pt_Upstream target)) = None"
    by (auto simp: ValidateTarget_def Let_def split: if_splits option.splits)
  then show ?thesis
    by (auto simp: validateUpstreamURL_def validateUpstreamHost_def Let_def list_ex_iff
        split: if_splits option.splits)
qed

theorem built_upstream_safe_witness:
  "\<exists>u. Parse ''http://10.0.0.7:3101'' = Some u \<and> url_Host u \<noteq> [] \<and>
    url_Scheme u \<in> {''http'', ''https''} \<and> \<not> url_HasUser u"
proof -
  let ?t = "\<lparr>pt_Domain = ''app.example.com'', pt_Upstream = ''http://10.0.0.7:3101'',
      pt_TLSEnabled = True, pt_ProxyType = ''traefik''\<rparr>"
  have trim: "TrimSpace ''http://10.0.0.7:3101'' = ''http://10.0.0.7:3101''" by code_simp
  have "\<not> isl (BuildCommand (\<lambda>_. None) ?t)" by code_simp
  then obtain command where "BuildCommand (\<lambda>_. None) ?t = Inr command"
    by (cases "BuildCommand (\<lambda>_. None) ?t") auto
  from built_upstream_safe [OF this] trim show ?thesis by auto
qed

text \<open>Domains that differ only in a dot and a hyphen share one configuration file: the slug, and
  with it the file that a route command writes, does not determine the domain.\<close>

theorem routeSlug_collision:
  "routeSlug ''a-b.com'' = routeSlug ''a.b.com'' \<and> ValidateDomain ''a-b.com'' = None
   \<and> ValidateDomain ''a.b.com'' = None \<and> (\<exists>slug. routeSlug ''a.b.com'' = Inr slug)"
proof -
  have "routeSlug ''a-b.com'' = Inr ''a-b-com''" "routeSlug ''a.b.com'' = Inr ''a-b-com''"
    "ValidateDomain ''a-b.com'' = None" "ValidateDomain ''a.b.com'' = None"
    by code_simp+
  then show ?thesis by simp
qed

end
