(* ===== verification/Go_Json.thy ===== *)
theory Go_Json
  imports Go_Url Go_Quote
begin

text \<open>
  \<^verbatim>\<open>encoding/json\<close>, as far as the program uses it: the text of a value, and decoding a text into a value.
  Strings are escaped and unescaped as Go does (also the characters that are special in HTML);
  an ill-formed byte becomes U+FFFD in both directions. The decoder takes fuel: every call consumes
  input or opens a nested value, so the length of the text is enough, as the round trip shows.
\<close>

datatype json =
    JNull
  | JBool bool
  | JNum string
  | JStr string
  | JArr "json list"
  | JObj "(string \<times> json) list"

subsection \<open>Encoding\<close>

definition json_escape :: "chunk \<Rightarrow> string" where
  "json_escape k =
     (let r = fst k in
      if r = rune_error \<and> length (snd k) = 1 then backslash # ''ufffd''
      else if r = 0x22 \<or> r = 0x5C then [backslash, char_of r]
      else if r = 8 then [backslash, CHR ''b'']
      else if r = 12 then [backslash, CHR ''f'']
      else if r = 10 then [backslash, CHR ''n'']
      else if r = 13 then [backslash, CHR ''r'']
      else if r = 9 then [backslash, CHR ''t'']
      else if r < 32 \<or> r = byte (CHR ''<'') \<or> r = byte (CHR ''>'') \<or> r = byte (CHR ''&'')
        then backslash # CHR ''u'' # hex_digits 4 r
      else if r = 0x2028 \<or> r = 0x2029 then backslash # CHR ''u'' # hex_digits 4 r
      else snd k)"

definition json_string :: "string \<Rightarrow> string" where
  "json_string s = CHR 0x22 # concat (map json_escape (chunks s)) @ [CHR 0x22]"

fun Marshal :: "json \<Rightarrow> string" where
  "Marshal JNull = ''null''"
| "Marshal (JBool b) = (if b then ''true'' else ''false'')"
| "Marshal (JNum n) = n"
| "Marshal (JStr s) = json_string s"
| "Marshal (JArr vs) = ''['' @ Join (map Marshal vs) '','' @ '']''"
| "Marshal (JObj kvs) = ''{'' @ Join (map (\<lambda>(k, v). json_string k @ '':'' @ Marshal v) kvs) '','' @ ''}''"

subsection \<open>Decoding\<close>

definition skip_ws :: "string \<Rightarrow> string" where
  "skip_ws s = dropWhile (\<lambda>c. c = CHR '' '' \<or> c = CHR 0x09 \<or> c = CHR 0x0A \<or> c = CHR 0x0D) s"

definition hex4 :: "string \<Rightarrow> (nat \<times> string) option" where
  "hex4 s = (if length s < 4 \<or> \<not> list_all is_hex_char (take 4 s) then None
             else Some (hex_value (take 4 s), drop 4 s))"

text \<open>The bytes of a string literal up to the closing quote: escapes are kept as pairs.\<close>

fun string_body :: "string \<Rightarrow> (string \<times> string) option" where
  "string_body [] = None"
| "string_body (c # s) =
     (if c = CHR 0x22 then Some ([], s)
      else if byte c < 32 then None
      else if c = backslash then
        (case s of
           [] \<Rightarrow> None
         | d # t \<Rightarrow> map_option (\<lambda>(b, r). (c # d # b, r)) (string_body t))
      else map_option (\<lambda>(b, r). (c # b, r)) (string_body s))"

definition simple_escape :: "char \<Rightarrow> char option" where
  "simple_escape c =
     (if c = CHR 0x22 \<or> c = backslash \<or> c = CHR ''/'' then Some c
      else if c = CHR ''b'' then Some (CHR 0x08)
      else if c = CHR ''f'' then Some (CHR 0x0C)
      else if c = CHR ''n'' then Some (CHR 0x0A)
      else if c = CHR ''r'' then Some (CHR 0x0D)
      else if c = CHR ''t'' then Some (CHR 0x09)
      else None)"

text \<open>
  Escapes of surrogates: a high one followed by an escaped low one is one code point, any other is
  U+FFFD.
\<close>

definition surrogate_pair :: "nat \<Rightarrow> nat \<Rightarrow> nat option" where
  "surrogate_pair hi lo =
     (if 0xD800 \<le> hi \<and> hi < 0xDC00 \<and> 0xDC00 \<le> lo \<and> lo < 0xE000
      then Some ((hi - 0xD800) * 1024 + (lo - 0xDC00) + 0x10000) else None)"

fun unescape_body :: "nat \<Rightarrow> string \<Rightarrow> string option" where
  "unescape_body 0 s = (if s = [] then Some [] else None)"
| "unescape_body (Suc n) s =
     (case s of
        [] \<Rightarrow> Some []
      | c # cs \<Rightarrow>
          if c \<noteq> backslash then
            (let w = decode_rune s in
             map_option ((@) (if fst w = rune_error \<and> snd w = 1 then encode_rune rune_error else take (snd w) s))
               (unescape_body n (drop (snd w) s)))
          else case cs of
            [] \<Rightarrow> None
          | d # t \<Rightarrow>
              if d \<noteq> CHR ''u'' then
                (case simple_escape d of
                   None \<Rightarrow> None
                 | Some e \<Rightarrow> map_option (Cons e) (unescape_body n t))
              else case hex4 t of
                None \<Rightarrow> None
              | Some (r, t') \<Rightarrow>
                  if 0xD800 \<le> r \<and> r < 0xE000 then
                    (case (if HasPrefix t' [backslash, CHR ''u''] then hex4 (drop 2 t') else None) of
                       Some (lo, t'') \<Rightarrow>
                         (case surrogate_pair r lo of
                            Some v \<Rightarrow> map_option ((@) (encode_rune v)) (unescape_body n t'')
                          | None \<Rightarrow> map_option ((@) (encode_rune rune_error)) (unescape_body n t'))
                     | None \<Rightarrow> map_option ((@) (encode_rune rune_error)) (unescape_body n t'))
                  else map_option ((@) (encode_rune r)) (unescape_body n t'))"

definition parse_string :: "string \<Rightarrow> (string \<times> string) option" where
  "parse_string s =
     (case string_body s of
        None \<Rightarrow> None
      | Some (b, rest) \<Rightarrow> map_option (\<lambda>v. (v, rest)) (unescape_body (length b) b))"

text \<open>The number grammar: an optional minus, an integer part without leading zeros, a fraction, an exponent.\<close>

definition span_digits :: "string \<Rightarrow> string \<times> string" where
  "span_digits s = (takeWhile is_digit s, dropWhile is_digit s)"

definition parse_number :: "string \<Rightarrow> (string \<times> string) option" where
  "parse_number s =
     (let sign = (if HasPrefix s ''-'' then ''-'' else []); s1 = drop (length sign) s;
          ip = (if HasPrefix s1 ''0'' then (''0'', tl s1) else span_digits s1);
          fp = (if HasPrefix (snd ip) ''.'' then span_digits (tl (snd ip)) else ([], snd ip));
          has_frac = HasPrefix (snd ip) ''.'';
          has_exp = HasPrefix (snd fp) ''e'' \<or> HasPrefix (snd fp) ''E'';
          e1 = (if has_exp then tl (snd fp) else []);
          esign = (if HasPrefix e1 ''+'' \<or> HasPrefix e1 ''-'' then take 1 e1 else []);
          ep = span_digits (drop (length esign) e1)
      in if fst ip = [] \<or> (has_frac \<and> fst fp = []) \<or> (has_exp \<and> fst ep = []) then None
         else let rest = (if has_exp then snd ep else snd fp)
              in Some (take (length s - length rest) s, rest))"

fun parse_value :: "nat \<Rightarrow> string \<Rightarrow> (json \<times> string) option"
  and parse_elements :: "nat \<Rightarrow> string \<Rightarrow> (json list \<times> string) option"
  and parse_members :: "nat \<Rightarrow> string \<Rightarrow> ((string \<times> json) list \<times> string) option" where
  "parse_value 0 s = None"
| "parse_value (Suc n) s0 =
     (let s = skip_ws s0 in
      if HasPrefix s ''null'' then Some (JNull, drop 4 s)
      else if HasPrefix s ''true'' then Some (JBool True, drop 4 s)
      else if HasPrefix s ''false'' then Some (JBool False, drop 5 s)
      else case s of
        [] \<Rightarrow> None
      | c # t \<Rightarrow>
          if c = CHR 0x22 then map_option (\<lambda>(v, r). (JStr v, r)) (parse_string t)
          else if c = CHR ''['' then
            (if HasPrefix (skip_ws t) '']'' then Some (JArr [], tl (skip_ws t))
             else map_option (\<lambda>(vs, r). (JArr vs, r)) (parse_elements n t))
          else if c = CHR ''{'' then
            (if HasPrefix (skip_ws t) ''}'' then Some (JObj [], tl (skip_ws t))
             else map_option (\<lambda>(kvs, r). (JObj kvs, r)) (parse_members n t))
          else map_option (\<lambda>(v, r). (JNum v, r)) (parse_number s))"
| "parse_elements 0 s = None"
| "parse_elements (Suc n) s =
     (case parse_value n s of
        None \<Rightarrow> None
      | Some (v, r0) \<Rightarrow>
          (case skip_ws r0 of
             [] \<Rightarrow> None
           | c # r \<Rightarrow>
               if c = CHR '']'' then Some ([v], r)
               else if c = CHR '','' then map_option (\<lambda>(vs, q). (v # vs, q)) (parse_elements n r)
               else None))"
| "parse_members 0 s = None"
| "parse_members (Suc n) s =
     (case skip_ws s of
        c # t \<Rightarrow>
          if c \<noteq> CHR 0x22 then None
          else (case parse_string t of
             None \<Rightarrow> None
           | Some (k, r0) \<Rightarrow>
               (case skip_ws r0 of
                  d # r1 \<Rightarrow>
                    if d \<noteq> CHR '':'' then None
                    else (case parse_value n r1 of
                       None \<Rightarrow> None
                     | Some (v, r2) \<Rightarrow>
                         (case skip_ws r2 of
                            [] \<Rightarrow> None
                          | e # r \<Rightarrow>
                              if e = CHR ''}'' then Some ([(k, v)], r)
                              else if e = CHR '','' then
                                map_option (\<lambda>(kvs, q). ((k, v) # kvs, q)) (parse_members n r)
                              else None))
                | [] \<Rightarrow> None))
      | [] \<Rightarrow> None)"

text \<open>\<open>json.Unmarshal\<close> wants one value and nothing but white space after it.\<close>

definition decode_json :: "string \<Rightarrow> json option" where
  "decode_json s =
     (case parse_value (Suc (length s)) s of
        Some (v, rest) \<Rightarrow> if skip_ws rest = [] then Some v else None
      | None \<Rightarrow> None)"

subsection \<open>Decoding into structures\<close>

text \<open>
  The field of a structure is the last member whose key is the field's name, compared without case
  (Go folds case, so also across the Kelvin sign and the long s); null leaves a field unchanged.
\<close>

definition fold_key :: "string \<Rightarrow> string" where
  "fold_key k = encode_runes (map (\<lambda>r. if r = 0x17F then 115 else if r = 0x212A then 107 else lower_rune r) (runes k))"

text \<open>A string field: the empty string when absent, \<open>None\<close> (an error) when a member has another type.\<close>

fun string_field :: "string \<Rightarrow> (string \<times> json) list \<Rightarrow> string \<Rightarrow> string option" where
  "string_field name [] v = Some v"
| "string_field name ((k, j) # kvs) v =
     (if fold_key k = fold_key name then
        (case j of
           JStr s \<Rightarrow> string_field name kvs s
         | JNull \<Rightarrow> string_field name kvs v
         | _ \<Rightarrow> None)
      else string_field name kvs v)"

text \<open>A slice of structures: null is an empty slice, and a null element is a zero value.\<close>

definition object_members :: "json \<Rightarrow> (string \<times> json) list option" where
  "object_members j = (case j of JObj kvs \<Rightarrow> Some kvs | JNull \<Rightarrow> Some [] | _ \<Rightarrow> None)"

definition array_items :: "json \<Rightarrow> json list option" where
  "array_items j = (case j of JArr vs \<Rightarrow> Some vs | JNull \<Rightarrow> Some [] | _ \<Rightarrow> None)"

fun all_some :: "'a option list \<Rightarrow> 'a list option" where
  "all_some [] = Some []"
| "all_some (None # xs) = None"
| "all_some (Some x # xs) = map_option (Cons x) (all_some xs)"

end
