(* ===== verification/Runner.thy ===== *)
theory Runner
  imports Store Remote_Steps Proxy_Commands Audit_Log "HOL-Library.State_Monad"
begin

text \<open>
  The file \<^verbatim>\<open>internal/deployments/runner.go\<close>: what happens to a deployment from the moment a worker picks
  it up. The runner is a program over a world: the database, the commands that have been run on
  servers, the log events that have been published and the notifications that have been sent.
  Everything it cannot control is a parameter, indexed by the number of the interaction, so that every
  interleaving of failures is covered: a statement can be served, refused, or carried out although
  its answer is lost; a remote command answers with any output and error.
\<close>

subsection \<open>The world\<close>

datatype db_outcome = Served | Refused go_error | Lost go_error

datatype ssh_client =
    LocalDockerHost string
  | TailscaleSSH string int string
  | DirectSSH string int string

record runtime_scope =
  scope_ApplicationName :: string
  scope_Project :: string
  scope_Config :: string

record log_event =
  ev_ID :: nat
  ev_DeploymentID :: string
  ev_Stream :: string
  ev_Message :: string
  ev_CreatedAt :: pg_time

record deployment_event =
  note_DeploymentID :: string
  note_ApplicationName :: string
  note_ServerName :: string
  note_Status :: string
  note_Trigger :: string
  note_CommitSHA :: string
  note_Error :: string

record runner_env =
  db_outcomes :: "nat \<Rightarrow> db_outcome"
  db_ticks :: "nat \<Rightarrow> nat"
  fresh_ids :: "nat \<Rightarrow> string"
  ssh_answers :: "nat \<Rightarrow> ssh_client \<Rightarrow> string \<Rightarrow> string \<Rightarrow> string \<times> go_error option"
  ssh_signer :: "string \<Rightarrow> int \<Rightarrow> string \<Rightarrow> string \<Rightarrow> go_error option"
  local_host :: "string \<Rightarrow> bool"
  lookup_ip :: "nat \<Rightarrow> string \<Rightarrow> ip_addr list option"
  runtime_source :: "(nat \<Rightarrow> runtime_scope \<Rightarrow> go_error + runtime_variable list) option"
  source_auth :: "(nat \<Rightarrow> pg_uuid \<Rightarrow> string \<Rightarrow> go_error + string) option"
  notifier :: "nat \<Rightarrow> deployment_event \<Rightarrow> go_error option"
  uuid_text :: "string \<Rightarrow> string"
  json_error :: "string \<Rightarrow> go_error"

record world =
  w_store :: store
  w_steps :: nat
  w_remote :: "(ssh_client \<times> string \<times> string) list"
  w_published :: "log_event list"
  w_notified :: "deployment_event list"

type_synonym 'a run = "(world, 'a) state"

definition next_step :: "nat run" where
  "next_step = State (\<lambda>w. (w_steps w, w\<lparr>w_steps := Suc (w_steps w)\<rparr>))"

definition db_exec :: "runner_env \<Rightarrow> 'a stmt \<Rightarrow> (go_error + 'a) run" where
  "db_exec env q = do {
     n \<leftarrow> next_step;
     State (\<lambda>w.
       let db = (w_store w)\<lparr>clock := clock (w_store w) + db_ticks env n\<rparr> in
       case db_outcomes env n of
         Refused err \<Rightarrow> (Inl err, w\<lparr>w_store := db\<rparr>)
       | Served \<Rightarrow> (case q db of Inl err \<Rightarrow> (Inl err, w\<lparr>w_store := db\<rparr>)
                            | Inr (x, db') \<Rightarrow> (Inr x, w\<lparr>w_store := db'\<rparr>))
       | Lost err \<Rightarrow> (case q db of Inl err' \<Rightarrow> (Inl err', w\<lparr>w_store := db\<rparr>)
                              | Inr (x, db') \<Rightarrow> (Inl err, w\<lparr>w_store := db'\<rparr>)))
   }"

definition RunWithInput :: "runner_env \<Rightarrow> ssh_client \<Rightarrow> string \<Rightarrow> string \<Rightarrow> (string \<times> go_error option) run" where
  "RunWithInput env client cmd inp = do {
     n \<leftarrow> next_step;
     State (\<lambda>w. (ssh_answers env n client cmd inp, w\<lparr>w_remote := w_remote w @ [(client, cmd, inp)]\<rparr>))
   }"

abbreviation Run_cmd :: "runner_env \<Rightarrow> ssh_client \<Rightarrow> string \<Rightarrow> (string \<times> go_error option) run" where
  "Run_cmd env client cmd \<equiv> RunWithInput env client cmd []"

definition publish :: "log_event \<Rightarrow> unit run" where
  "publish ev = State (\<lambda>w. ((), w\<lparr>w_published := w_published w @ [ev]\<rparr>))"

definition uuidString :: "runner_env \<Rightarrow> pg_uuid \<Rightarrow> string" where
  "uuidString env i = UUIDString (uuid_text env) i"

subsection \<open>Log messages\<close>

definition maxDeploymentLogMessageLength :: nat where
  "maxDeploymentLogMessageLength = 32768"

definition deploymentLogTruncatedMarker :: string where
  "deploymentLogTruncatedMarker = [CHR 0x0A] @ ''...[truncated]''"

definition normalizeDeploymentLogMessage :: "string \<Rightarrow> string option" where
  "normalizeDeploymentLogMessage message0 =
     (let message = RedactSensitiveText message0 in
      if TrimSpace message = [] then None
      else if length (runes message) \<le> maxDeploymentLogMessageLength then Some message
      else Some (encode_runes (take (maxDeploymentLogMessageLength - length (runes deploymentLogTruncatedMarker))
                   (runes message)) @ deploymentLogTruncatedMarker))"

definition deploymentLogEvent :: "runner_env \<Rightarrow> deployment_log \<Rightarrow> log_event" where
  "deploymentLogEvent env entry =
     \<lparr>ev_ID = log_ID entry, ev_DeploymentID = uuidString env (log_DeploymentID entry),
      ev_Stream = log_Stream entry, ev_Message = log_Message entry, ev_CreatedAt = log_CreatedAt entry\<rparr>"

definition append_log :: "runner_env \<Rightarrow> deployment \<Rightarrow> string \<Rightarrow> string \<Rightarrow> unit run" where
  "append_log env deployment stream message0 =
     (case normalizeDeploymentLogMessage message0 of
        None \<Rightarrow> State_Monad.return ()
      | Some message \<Rightarrow> do {
          r \<leftarrow> db_exec env (AppendDeploymentLog (dep_ID deployment) stream message);
          publish (case r of
              Inr entry \<Rightarrow> deploymentLogEvent env entry
            | Inl _ \<Rightarrow> \<lparr>ev_ID = 0, ev_DeploymentID = uuidString env (dep_ID deployment), ev_Stream = stream,
                         ev_Message = message, ev_CreatedAt = None\<rparr>)
        })"

subsection \<open>Auditing, notifying and failing\<close>

definition deploymentActor :: "deployment \<Rightarrow> string" where
  "deploymentActor deployment =
     (let actor = TrimSpace (text_String (dep_Actor deployment))
      in if dep_Actor deployment \<noteq> None \<and> actor \<noteq> [] then actor else ''system'')"

definition audit ::
  "runner_env \<Rightarrow> deployment \<Rightarrow> deployment_target \<Rightarrow> string \<Rightarrow> (string \<times> json) list \<Rightarrow> unit run" where
  "audit env deployment target action metadata = do {
     _ \<leftarrow> db_exec env (AppendAuditEvent (deploymentActor deployment) action ''deployment''
           (uuidString env (dep_ID deployment)) (tgt_ApplicationName target) (Metadata (Some metadata)));
     State_Monad.return ()
   }"

definition notify :: "runner_env \<Rightarrow> deployment \<Rightarrow> deployment_target \<Rightarrow> string \<Rightarrow> unit run" where
  "notify env deployment target failure = do {
     n \<leftarrow> next_step;
     ev \<leftarrow> State_Monad.return \<lparr>note_DeploymentID = uuidString env (dep_ID deployment),
             note_ApplicationName = tgt_ApplicationName target, note_ServerName = tgt_ServerName target,
             note_Status = dep_Status deployment, note_Trigger = dep_Trigger deployment,
             note_CommitSHA = text_String (tgt_CommitSha target), note_Error = failure\<rparr>;
     State (\<lambda>w. ((), w\<lparr>w_notified := w_notified w @ [ev]\<rparr>));
     (case notifier env n ev of
        None \<Rightarrow> State_Monad.return ()
      | Some err \<Rightarrow> append_log env deployment ''system'' (''Deployment notification failed: '' @ err_text err))
   }"

definition fail :: "runner_env \<Rightarrow> deployment \<Rightarrow> string \<Rightarrow> go_error \<Rightarrow> deployment run" where
  "fail env deployment label err = do {
     append_log env deployment ''stderr'' (label @ '': '' @ err_text err);
     r \<leftarrow> db_exec env (UpdateDeploymentStatus (dep_ID deployment) ''failed'');
     State_Monad.return (case r of Inl _ \<Rightarrow> deployment\<lparr>dep_Status := ''failed''\<rparr> | Inr failed \<Rightarrow> failed)
   }"

subsection \<open>References and scopes\<close>

definition deploymentVersion :: "deployment_target \<Rightarrow> pg_text" where
  "deploymentVersion target =
     (if tgt_ImageDigest target \<noteq> None \<and> TrimSpace (text_String (tgt_ImageDigest target)) \<noteq> []
        then Some (TrimSpace (text_String (tgt_ImageDigest target)))
      else if tgt_ImageRef target \<noteq> None \<and> TrimSpace (text_String (tgt_ImageRef target)) \<noteq> []
        then Some (TrimSpace (text_String (tgt_ImageRef target)))
      else tgt_CommitSha target)"

definition runtimeScope :: "deployment_target \<Rightarrow> runtime_scope" where
  "runtimeScope target =
     \<lparr>scope_ApplicationName = tgt_ApplicationName target,
      scope_Project = TrimSpace (text_String (tgt_DopplerProject target)),
      scope_Config = TrimSpace (text_String (tgt_DopplerConfig target))\<rparr>"

definition slotRollbackRef :: "deployment_target \<Rightarrow> string" where
  "slotRollbackRef target =
     (if deploymentImageRef target \<noteq> [] then deploymentImageRef target
      else TrimSpace (text_String (tgt_CommitSha target)))"

definition blueGreenSlotTracked :: "deployment_target \<Rightarrow> bool" where
  "blueGreenSlotTracked target \<longleftrightarrow> slotRollbackRef target \<noteq> []"

definition wrap :: "string \<Rightarrow> go_error \<Rightarrow> go_error" where
  "wrap prefix err = Errorf (prefix @ '': '' @ err_text err)"

subsection \<open>Compose services and runtime variables\<close>

definition service_rows :: "string \<Rightarrow> (string \<times> json) list list option" where
  "service_rows raw =
     (case decode_json raw of
        None \<Rightarrow> None
      | Some j \<Rightarrow> (case array_items j of None \<Rightarrow> None | Some items \<Rightarrow> all_some (map object_members items)))"

definition runtimeConfigVariables :: "runner_env \<Rightarrow> service_runtime_config \<Rightarrow> go_error + runtime_variable list" where
  "runtimeConfigVariables env config =
     (case (case service_rows (cfg_Variables config) of
              None \<Rightarrow> None
            | Some rows \<Rightarrow> all_some (map (\<lambda>kvs. case (string_field ''key'' kvs [], string_field ''value'' kvs []) of
                                (Some k, Some v) \<Rightarrow> Some (runtime_var k v) | _ \<Rightarrow> None) rows)) of
        None \<Rightarrow> Inl (json_error env (cfg_Variables config))
      | Some variables \<Rightarrow> Inr variables)"

definition deploymentComposeServiceNames :: "string \<Rightarrow> string list" where
  "deploymentComposeServiceNames raw =
     (case (case service_rows raw of
              None \<Rightarrow> None | Some rows \<Rightarrow> all_some (map (\<lambda>kvs. string_field ''name'' kvs []) rows)) of
        None \<Rightarrow> []
      | Some names \<Rightarrow> filter (\<lambda>n. n \<noteq> []) names)"

fun singleton_names :: "(string \<times> string) list \<Rightarrow> string list \<Rightarrow> go_error + string list" where
  "singleton_names [] names = Inr (sort names)"
| "singleton_names ((name, mode0) # services) names =
     (let mode = TrimSpace mode0 in
      if mode = [] \<or> mode = ''follow_stack'' then singleton_names services names
      else if mode \<noteq> ''singleton''
        then Inl (Errorf (''compose service '' @ Quote name @ '' has invalid execution mode '' @ Quote mode))
      else if \<not> valid_service_name name
        then Inl (Errorf (''compose service runtime target '' @ Quote name @ '' is invalid''))
      else singleton_names services (if name \<in> set names then names else names @ [name]))"

definition singletonComposeServiceNames :: "runner_env \<Rightarrow> string \<Rightarrow> go_error + string list" where
  "singletonComposeServiceNames env raw =
     (if raw = [] then Inr []
      else case (case service_rows raw of
              None \<Rightarrow> None
            | Some rows \<Rightarrow> all_some (map (\<lambda>kvs. case (string_field ''name'' kvs [], string_field ''execution_mode'' kvs []) of
                                (Some n, Some m) \<Rightarrow> Some (n, m) | _ \<Rightarrow> None) rows)) of
        None \<Rightarrow> Inl (wrap ''decode compose service execution modes'' (json_error env raw))
      | Some services \<Rightarrow> singleton_names services [])"

definition RuntimeVariables ::
  "(nat \<Rightarrow> runtime_scope \<Rightarrow> go_error + runtime_variable list) \<Rightarrow> runtime_scope \<Rightarrow> (go_error + runtime_variable list) run" where
  "RuntimeVariables source scope = do { n \<leftarrow> next_step; State_Monad.return (source n scope) }"

definition deploymentRuntimeVariables :: "runner_env \<Rightarrow> deployment_target \<Rightarrow> (go_error + runtime_variable list) run" where
  "deploymentRuntimeVariables env target = do {
     r \<leftarrow> db_exec env (ListProjectRuntimeVariablesForApplication (tgt_ApplicationID target));
     (case r of
        Inl err \<Rightarrow> State_Monad.return (Inl (wrap ''load project runtime variables'' err))
      | Inr projectVariables \<Rightarrow>
          let variables = map (\<lambda>v. runtime_var (pvar_Key v) (pvar_Value v)) projectVariables in
          case runtime_source env of
            None \<Rightarrow> State_Monad.return (Inr variables)
          | Some source \<Rightarrow> do {
              d \<leftarrow> RuntimeVariables source (runtimeScope target);
              State_Monad.return (case d of
                  Inl err \<Rightarrow> Inl (wrap ''sync runtime variables'' err)
                | Inr dopplerVariables \<Rightarrow> Inr (mergeRuntimeVariables variables dopplerVariables))
            })
   }"

definition stackRuntimeConfigName :: string where
  "stackRuntimeConfigName = ''__stack__''"

text \<open>The variables that Doppler adds to those of one configuration, when it names a project and a config.\<close>

definition doppler_merge ::
  "runner_env \<Rightarrow> service_runtime_config \<Rightarrow> string \<Rightarrow> string \<Rightarrow> runtime_variable list \<Rightarrow> (go_error + runtime_variable list) run" where
  "doppler_merge env config name what variables =
     (case (runtime_source env, cfg_DopplerProject config, cfg_DopplerConfig config) of
        (Some source, Some p, Some c) \<Rightarrow> do {
          d \<leftarrow> RuntimeVariables source
            \<lparr>scope_ApplicationName = name, scope_Project = TrimSpace p, scope_Config = TrimSpace c\<rparr>;
          State_Monad.return (case d of
              Inl err \<Rightarrow> Inl (wrap (''sync runtime variables for '' @ what) err)
            | Inr dopplerVariables \<Rightarrow> Inr (mergeRuntimeVariables variables dopplerVariables))
        }
      | _ \<Rightarrow> State_Monad.return (Inr variables))"

fun stack_variables ::
  "runner_env \<Rightarrow> deployment_target \<Rightarrow> runtime_variable list \<Rightarrow> service_runtime_config list \<Rightarrow>
   runtime_variable list \<Rightarrow> (go_error + runtime_variable list) run" where
  "stack_variables env target shared [] stack = State_Monad.return (Inr stack)"
| "stack_variables env target shared (config # configs) stack =
     (if cfg_ComposeService config \<noteq> stackRuntimeConfigName then stack_variables env target shared configs stack
      else case runtimeConfigVariables env config of
        Inl err \<Rightarrow> State_Monad.return (Inl (wrap ''decode stack runtime variables'' err))
      | Inr variables \<Rightarrow> do {
          r \<leftarrow> doppler_merge env config (tgt_ApplicationName target @ ''/stack'') ''stack''
                 (mergeRuntimeVariables shared variables);
          (case r of
             Inl err \<Rightarrow> State_Monad.return (Inl err)
           | Inr stack' \<Rightarrow> stack_variables env target shared configs stack')
        })"

fun service_variables_loop ::
  "runner_env \<Rightarrow> deployment_target \<Rightarrow> runtime_variable list \<Rightarrow> service_runtime_config list \<Rightarrow>
   service_variables \<Rightarrow> (go_error + service_variables) run" where
  "service_variables_loop env target stack [] services = State_Monad.return (Inr services)"
| "service_variables_loop env target stack (config # configs) services =
     (if cfg_ComposeService config = stackRuntimeConfigName then service_variables_loop env target stack configs services
      else case runtimeConfigVariables env config of
        Inl err \<Rightarrow> State_Monad.return (Inl (wrap (''decode runtime variables for compose service '' @ cfg_ComposeService config) err))
      | Inr direct \<Rightarrow> do {
          r \<leftarrow> doppler_merge env config (tgt_ApplicationName target @ ''/'' @ cfg_ComposeService config)
                 (''compose service '' @ cfg_ComposeService config) (mergeRuntimeVariables stack direct);
          (case r of
             Inl err \<Rightarrow> State_Monad.return (Inl err)
           | Inr variables \<Rightarrow> service_variables_loop env target stack configs
               (AList.update (cfg_ComposeService config) variables services))
        })"

definition deploymentServiceRuntimeVariables ::
  "runner_env \<Rightarrow> deployment_target \<Rightarrow> runtime_variable list \<Rightarrow> (go_error + service_variables) run" where
  "deploymentServiceRuntimeVariables env target shared = do {
     c \<leftarrow> db_exec env (ListApplicationServiceRuntimeConfigs (tgt_ApplicationID target));
     (case c of
        Inl err \<Rightarrow> State_Monad.return (Inl (wrap ''load compose service runtime configuration'' err))
      | Inr configs \<Rightarrow> do {
          s \<leftarrow> stack_variables env target shared configs shared;
          (case s of
             Inl err \<Rightarrow> State_Monad.return (Inl err)
           | Inr stack \<Rightarrow> service_variables_loop env target stack configs
               (foldl (\<lambda>m name. AList.update name stack m) []
                  (deploymentComposeServiceNames (tgt_ComposeServices target))))
        })
   }"

subsection \<open>Results of steps\<close>

text \<open>\<open>if err != nil { return err }\<close> after a step.\<close>

definition bindE :: "(go_error + 'a) run \<Rightarrow> ('a \<Rightarrow> (go_error + 'b) run) \<Rightarrow> (go_error + 'b) run" where
  "bindE m f = do {
     r \<leftarrow> m;
     (case r of Inl err \<Rightarrow> State_Monad.return (Inl err) | Inr x \<Rightarrow> f x)
   }"

definition failE :: "go_error \<Rightarrow> (go_error + 'a) run" where
  "failE err = State_Monad.return (Inl err)"

definition okE :: "'a \<Rightarrow> (go_error + 'a) run" where
  "okE x = State_Monad.return (Inr x)"

definition mapE :: "(go_error \<Rightarrow> go_error) \<Rightarrow> (go_error + 'a) run \<Rightarrow> (go_error + 'a) run" where
  "mapE g m = do { r \<leftarrow> m; State_Monad.return (case r of Inl err \<Rightarrow> Inl (g err) | Inr x \<Rightarrow> Inr x) }"

definition logE :: "runner_env \<Rightarrow> deployment \<Rightarrow> string \<Rightarrow> string \<Rightarrow> (go_error + unit) run" where
  "logE env deployment stream message = do { append_log env deployment stream message; okE () }"

subsection \<open>Source commits\<close>

definition maxCommitMessageLength :: nat where
  "maxCommitMessageLength = 500"

definition commit_message :: "string \<times> string \<times> bool \<Rightarrow> string" where
  "commit_message parts =
     (case parts of (_, rest, found) \<Rightarrow>
        if \<not> found then []
        else let message = TrimSpace rest in
          if \<not> ValidString message \<or> HasControlCharacter message then []
          else if maxCommitMessageLength < length (runes message)
            then encode_runes (take maxCommitMessageLength (runes message)) else message)"

definition resolveSourceCommit ::
  "runner_env \<Rightarrow> deployment \<Rightarrow> deployment_target \<Rightarrow> ssh_client \<Rightarrow> (go_error + deployment_target) run" where
  "resolveSourceCommit env deployment target client = do {
     r \<leftarrow> Run_cmd env client (''cd '' @ ShellQuote (tgt_RemoteDirectory target) @ '' && git log -1 --format=''
            @ [CHR 0x27] @ ''%H%n%s'' @ [CHR 0x27]);
     (case r of
        (_, Some err) \<Rightarrow> failE (wrap ''resolve source commit'' err)
      | (output, None) \<Rightarrow>
          let parts = Cut (TrimRight output [CHR 0x0D, CHR 0x0A]) (CHR 0x0A); commit = TrimSpace (fst parts) in
          if \<not> (length commit = 40 \<and> list_all is_hex_char commit)
            then failE (Errorf ''resolve source commit: git returned an invalid SHA'')
          else bindE (mapE (wrap ''record source commit'')
                  (db_exec env (SetDeploymentCommitSHA (dep_ID deployment) commit (commit_message parts)))) (\<lambda>pinned.
               bindE (logE env deployment ''system'' (''Source commit: '' @ take 12 commit)) (\<lambda>_.
               okE (target\<lparr>tgt_CommitSha := dep_CommitSha pinned\<rparr>))))
   }"

definition sourceAuthorizationHeaderFor :: "runner_env \<Rightarrow> deployment_target \<Rightarrow> string \<Rightarrow> (go_error + string) run" where
  "sourceAuthorizationHeaderFor env target ref =
     (case source_auth env of
        None \<Rightarrow> okE []
      | Some source \<Rightarrow>
          if \<not> shouldSyncRepository target ref then okE []
          else do {
            n \<leftarrow> next_step;
            State_Monad.return (case source n (tgt_RepositoryConnectorID target) (text_String (tgt_RepositoryUrl target)) of
                Inl err \<Rightarrow> Inl (wrap ''authenticate source repository'' err)
              | Inr header \<Rightarrow> Inr header)
          })"

subsection \<open>Clients, colors and ports\<close>

definition deploymentSSHClient :: "runner_env \<Rightarrow> deployment_target \<Rightarrow> go_error + ssh_client" where
  "deploymentSSHClient env target =
     (if tgt_ConnectionMode target = ''tailscale_ssh'' then
        (if local_host env (tgt_Hostname target) then Inr (LocalDockerHost (tgt_SshUser target))
         else Inr (TailscaleSSH (tgt_Hostname target) (tgt_SshPort target) (tgt_SshUser target)))
      else case ssh_signer env (tgt_Hostname target) (tgt_SshPort target) (tgt_SshUser target)
             (text_String (tgt_SshKeyPath target)) of
        Some err \<Rightarrow> Inl err
      | None \<Rightarrow> Inr (DirectSSH (tgt_Hostname target) (tgt_SshPort target) (tgt_SshUser target)))"

definition nextDeploymentColors :: "runner_env \<Rightarrow> deployment_target \<Rightarrow> (go_error + (string \<times> string)) run" where
  "nextDeploymentColors env target =
     (if tgt_Strategy target \<noteq> ''blue_green'' then okE ([], [])
      else do {
        r \<leftarrow> db_exec env (GetActiveDeploymentSlot (tgt_ApplicationID target) (tgt_ServerID target));
        (case r of
           Inl ErrNoRows \<Rightarrow> okE (''blue'', [])
         | Inl err \<Rightarrow> failE (wrap ''load active deployment slot'' err)
         | Inr slot \<Rightarrow> if slot_Color slot = ''blue'' then okE (''green'', ''blue'') else okE (''blue'', ''green''))
      })"

definition blueGreenPorts :: "runner_env \<Rightarrow> deployment_target \<Rightarrow> (go_error + blue_green_ports) run" where
  "blueGreenPorts env target =
     (if tgt_Strategy target \<noteq> ''blue_green'' then okE no_ports
      else bindE (mapE (wrap ''load proxy route ports'')
             (db_exec env (ListProxyRouteTargetsForApplication (tgt_ApplicationID target) (tgt_ServerID target))))
           (\<lambda>routes. State_Monad.return (routePorts routes)))"

definition colorPort :: "string \<Rightarrow> blue_green_ports \<Rightarrow> string" where
  "colorPort color ports =
     (if color = ''green'' then port_or (ports_green ports) ''3102'' else port_or (ports_blue ports) ''3101'')"

definition shellQuoteColorURL :: "string \<Rightarrow> string \<Rightarrow> blue_green_ports \<Rightarrow> string" where
  "shellQuoteColorURL healthCheckURL color ports =
     ShellQuote (ReplaceAll (ReplaceAll healthCheckURL ''{color}'' color) ''{port}'' (colorPort color ports))"

definition checkColorHealth ::
  "runner_env \<Rightarrow> deployment_target \<Rightarrow> ssh_client \<Rightarrow> string \<Rightarrow> (go_error + unit) run" where
  "checkColorHealth env target client color =
     (if tgt_Strategy target \<noteq> ''blue_green'' then okE ()
      else let healthCheckURL = TrimSpace (text_String (tgt_HealthCheckUrl target)) in
        if tgt_HealthCheckUrl target = None \<or> healthCheckURL = []
          then failE (Errorf ''blue_green deployments require a health_check_url'')
        else bindE (blueGreenPorts env target) (\<lambda>ports. do {
          r \<leftarrow> Run_cmd env client (''curl -fsS --retry 3 --retry-delay 1 ''
                 @ shellQuoteColorURL (deploymentHealthCheckURL target healthCheckURL) color ports @ '' >/dev/null'');
          (case r of
             (_, None) \<Rightarrow> okE ()
           | (output, Some err) \<Rightarrow>
               if TrimSpace output \<noteq> []
               then failE (Errorf (''rollback health check failed: '' @ err_text err @ '': '' @ TrimSpace output))
               else failE (wrap ''rollback health check failed'' err))
        }))"

subsection \<open>Singleton services\<close>

definition allComposeServicesRunning :: "string \<Rightarrow> string list \<Rightarrow> bool" where
  "allComposeServicesRunning output services = list_all (\<lambda>s. s \<in> set (Fields output)) services"

text \<open>One attempt to stop or start the services of a color: the error is collected, not returned.\<close>

definition restore_one ::
  "runner_env \<Rightarrow> deployment_target \<Rightarrow> ssh_client \<Rightarrow> remote_step_options \<Rightarrow> string \<Rightarrow> string \<Rightarrow> string list run" where
  "restore_one env target client options action color =
     (if color = [] then State_Monad.return []
      else do {
        r \<leftarrow> Run_cmd env client (fixedColorComposeServiceCommand target options color action (singletonServices options));
        State_Monad.return (case snd r of None \<Rightarrow> [] | Some err \<Rightarrow> [action @ '' '' @ color @ '': '' @ err_text err])
      })"

definition restoreSingletonServices ::
  "runner_env \<Rightarrow> deployment_target \<Rightarrow> ssh_client \<Rightarrow> string \<Rightarrow> string \<Rightarrow> remote_step_options \<Rightarrow> (go_error + unit) run" where
  "restoreSingletonServices env target client fromColor toColor options =
     (if singletonServices options = [] \<or> tgt_Strategy target \<noteq> ''blue_green'' then okE ()
      else do {
        e1 \<leftarrow> restore_one env target client options ''stop'' fromColor;
        e2 \<leftarrow> restore_one env target client options ''start'' toColor;
        (if e1 @ e2 = [] then okE () else failE (Errorf (Join (e1 @ e2) ''; '')))
      })"

definition verify_singletons ::
  "runner_env \<Rightarrow> deployment_target \<Rightarrow> ssh_client \<Rightarrow> string \<Rightarrow> string \<Rightarrow> remote_step_options \<Rightarrow> (go_error + unit) run" where
  "verify_singletons env target client fromColor toColor options = do {
     r \<leftarrow> Run_cmd env client (fixedColorComposeServiceCommand target options toColor
            ''ps --status running --services'' (singletonServices options));
     (if snd r = None \<and> allComposeServicesRunning (fst r) (singletonServices options) then okE ()
      else do {
        restoreErr \<leftarrow> restoreSingletonServices env target client toColor fromColor options;
        (let err = (case snd r of Some e \<Rightarrow> e | None \<Rightarrow> Errorf ''one or more singleton services did not stay running'')
         in case restoreErr of
              Inl re \<Rightarrow> failE (Errorf (''verify singleton services for '' @ toColor @ '': '' @ err_text err
                                       @ ''; restore: '' @ err_text re))
            | Inr _ \<Rightarrow> failE (wrap (''verify singleton services for '' @ toColor) err))
      })
   }"

definition start_singletons ::
  "runner_env \<Rightarrow> deployment_target \<Rightarrow> ssh_client \<Rightarrow> string \<Rightarrow> string \<Rightarrow> remote_step_options \<Rightarrow> (go_error + unit) run" where
  "start_singletons env target client fromColor toColor options = do {
     r \<leftarrow> Run_cmd env client (fixedColorComposeServiceCommand target options toColor ''start'' (singletonServices options));
     (case snd r of
        Some err \<Rightarrow> do {
          restoreErr \<leftarrow> restoreSingletonServices env target client toColor fromColor options;
          (let message = ''start singleton services for '' @ toColor @ '': '' @ err_text err @ '': '' @ TrimSpace (fst r)
           in case restoreErr of
                Inl re \<Rightarrow> failE (Errorf (message @ ''; restore: '' @ err_text re))
              | Inr _ \<Rightarrow> failE (Errorf message))
        }
      | None \<Rightarrow> verify_singletons env target client fromColor toColor options)
   }"

definition switchSingletonServices ::
  "runner_env \<Rightarrow> deployment \<Rightarrow> deployment_target \<Rightarrow> ssh_client \<Rightarrow> string \<Rightarrow> string \<Rightarrow> remote_step_options \<Rightarrow> (go_error + unit) run" where
  "switchSingletonServices env deployment target client fromColor toColor options =
     (if singletonServices options = [] \<or> tgt_Strategy target \<noteq> ''blue_green'' then okE ()
      else bindE (logE env deployment ''system'' (''Switching singleton services to '' @ toColor)) (\<lambda>_.
        if fromColor = [] then start_singletons env target client fromColor toColor options
        else do {
          r \<leftarrow> Run_cmd env client (fixedColorComposeServiceCommand target options fromColor ''stop'' (singletonServices options));
          (case snd r of
             Some err \<Rightarrow> do {
               _ \<leftarrow> Run_cmd env client (fixedColorComposeServiceCommand target options fromColor ''start'' (singletonServices options));
               failE (Errorf (''stop singleton services for '' @ fromColor @ '': '' @ err_text err @ '': '' @ TrimSpace (fst r)))
             }
           | None \<Rightarrow> start_singletons env target client fromColor toColor options)
        }))"

subsection \<open>Proxy routes\<close>

record prepared_route =
  pr_route :: route_target
  pr_upstream :: string
  pr_command :: string
  pr_rollback :: string

definition proxyRouteUpstream :: "route_target \<Rightarrow> string \<Rightarrow> go_error + string" where
  "proxyRouteUpstream route color =
     (if color = ''blue'' \<and> rt_BlueUpstreamUrl route \<noteq> None \<and> TrimSpace (text_String (rt_BlueUpstreamUrl route)) \<noteq> []
        then Inr (TrimSpace (text_String (rt_BlueUpstreamUrl route)))
      else if color = ''green'' \<and> rt_GreenUpstreamUrl route \<noteq> None \<and> TrimSpace (text_String (rt_GreenUpstreamUrl route)) \<noteq> []
        then Inr (TrimSpace (text_String (rt_GreenUpstreamUrl route)))
      else if color = [] then Inr (rt_UpstreamUrl route)
      else Inl (Errorf (color @ ''_upstream_url is required'')))"

definition route_command :: "runner_env \<Rightarrow> route_target \<Rightarrow> string \<Rightarrow> (go_error + string) run" where
  "route_command env route upstream = do {
     n \<leftarrow> next_step;
     State_Monad.return (BuildCommand (lookup_ip env n)
       \<lparr>pt_Domain = rt_Domain route, pt_Upstream = upstream, pt_TLSEnabled = rt_TlsEnabled route,
        pt_ProxyType = rt_ProxyType route\<rparr>)
   }"

definition prepareProxyRoute :: "runner_env \<Rightarrow> route_target \<Rightarrow> string \<Rightarrow> (go_error + prepared_route) run" where
  "prepareProxyRoute env route color =
     bindE (State_Monad.return (proxyRouteUpstream route color)) (\<lambda>upstream.
     bindE (route_command env route upstream) (\<lambda>cmd.
     bindE (route_command env route (rt_UpstreamUrl route)) (\<lambda>rollbackCommand.
     okE \<lparr>pr_route = route, pr_upstream = upstream, pr_command = cmd, pr_rollback = rollbackCommand\<rparr>)))"

fun prepare_routes :: "runner_env \<Rightarrow> string \<Rightarrow> route_target list \<Rightarrow> (go_error + prepared_route list) run" where
  "prepare_routes env color [] = okE []"
| "prepare_routes env color (route # routes) = do {
     r \<leftarrow> prepareProxyRoute env route color;
     (case r of
        Inl err \<Rightarrow> do {
          _ \<leftarrow> db_exec env (MarkProxyRouteFailed (rt_ID route));
          failE (wrap (''prepare proxy route '' @ rt_Domain route) err)
        }
      | Inr item \<Rightarrow> bindE (prepare_routes env color routes) (\<lambda>items. okE (item # items)))
   }"

text \<open>The loop of \<open>rollbackProxyRoutes\<close> counts down, so it is given the applied routes in reverse order.\<close>

fun rollback_loop :: "runner_env \<Rightarrow> ssh_client \<Rightarrow> prepared_route list \<Rightarrow> unit run" where
  "rollback_loop env client [] = State_Monad.return ()"
| "rollback_loop env client (item # items) = do {
     _ \<leftarrow> Run_cmd env client (pr_rollback item);
     rollback_loop env client items
   }"

definition rollbackProxyRoutes :: "runner_env \<Rightarrow> ssh_client \<Rightarrow> prepared_route list \<Rightarrow> unit run" where
  "rollbackProxyRoutes env client applied = rollback_loop env client (rev applied)"

fun apply_routes ::
  "runner_env \<Rightarrow> deployment \<Rightarrow> ssh_client \<Rightarrow> prepared_route list \<Rightarrow> prepared_route list \<Rightarrow> (go_error + unit) run" where
  "apply_routes env deployment client [] applied = okE ()"
| "apply_routes env deployment client (item # items) applied = do {
     append_log env deployment ''system'' (''Applying proxy route '' @ rt_Domain (pr_route item));
     r \<leftarrow> Run_cmd env client (pr_command item);
     (if TrimSpace (fst r) \<noteq> [] then append_log env deployment ''stdout'' (fst r) else State_Monad.return ());
     (case snd r of
        Some err \<Rightarrow> do {
          _ \<leftarrow> db_exec env (MarkProxyRouteFailed (rt_ID (pr_route item)));
          rollbackProxyRoutes env client applied;
          failE (wrap (''apply proxy route '' @ rt_Domain (pr_route item)) err)
        }
      | None \<Rightarrow> apply_routes env deployment client items (applied @ [item]))
   }"

definition record_promoted :: "runner_env \<Rightarrow> ssh_client \<Rightarrow> prepared_route list \<Rightarrow> (go_error + unit) run" where
  "record_promoted env client prepared =
     (if prepared = [] then okE ()
      else do {
        r \<leftarrow> db_exec env (PromoteProxyRoutes (map (rt_ID \<circ> pr_route) prepared) (map pr_upstream prepared));
        (case r of
           Inr promoted \<Rightarrow>
             if length promoted = length prepared then okE ()
             else do {
               rollbackProxyRoutes env client prepared;
               failE (Errorf (''record promoted proxy routes: updated '' @ FormatNat (length promoted) @ '' of ''
                 @ FormatNat (length prepared) @ '' routes''))
             }
         | Inl err \<Rightarrow> do {
             rollbackProxyRoutes env client prepared;
             failE (wrap ''record promoted proxy routes'' err)
           })
      })"

definition applyProxyRoutes ::
  "runner_env \<Rightarrow> deployment \<Rightarrow> deployment_target \<Rightarrow> ssh_client \<Rightarrow> string \<Rightarrow> (go_error + unit) run" where
  "applyProxyRoutes env deployment target client color =
     (if tgt_ProxyType target = ''none'' then okE ()
      else bindE (mapE (wrap ''load proxy routes'')
             (db_exec env (ListProxyRouteTargetsForApplication (tgt_ApplicationID target) (tgt_ServerID target)))) (\<lambda>routes.
           bindE (prepare_routes env color routes) (\<lambda>prepared.
           bindE (apply_routes env deployment client prepared []) (\<lambda>_.
           record_promoted env client prepared))))"

subsection \<open>Slots\<close>

definition upsertSlot ::
  "runner_env \<Rightarrow> deployment \<Rightarrow> deployment_target \<Rightarrow> string \<Rightarrow> string \<Rightarrow> (go_error + unit) run" where
  "upsertSlot env deployment target color status = do {
     n \<leftarrow> next_step;
     r \<leftarrow> db_exec env (UpsertDeploymentSlot (fresh_ids env n)
            \<lparr>us_ApplicationID = tgt_ApplicationID target, us_ServerID = tgt_ServerID target, us_Color = color,
             us_DeploymentID = dep_ID deployment, us_ImageRef = slotRollbackRef target,
             us_ImageDigest = tgt_ImageDigest target, us_Status = status\<rparr>);
     (case r of Inl err \<Rightarrow> failE (wrap ''record deployment slot'' err) | Inr _ \<Rightarrow> okE ())
   }"

text \<open>What follows an error of the proxy routes or of the activation, in deployments and in rollbacks.\<close>

definition restore_after ::
  "runner_env \<Rightarrow> deployment_target \<Rightarrow> ssh_client \<Rightarrow> string \<Rightarrow> string \<Rightarrow> remote_step_options \<Rightarrow> go_error \<Rightarrow> (go_error + unit) run" where
  "restore_after env target client fromColor toColor options err = do {
     restoreErr \<leftarrow> restoreSingletonServices env target client fromColor toColor options;
     (case restoreErr of
        Inl re \<Rightarrow> failE (Errorf (err_text err @ ''; restore singleton services: '' @ err_text re))
      | Inr _ \<Rightarrow> failE err)
   }"

definition activate_or_restore ::
  "runner_env \<Rightarrow> deployment \<Rightarrow> deployment_target \<Rightarrow> ssh_client \<Rightarrow> string \<Rightarrow> string \<Rightarrow> remote_step_options \<Rightarrow> string \<Rightarrow> (go_error + unit) run" where
  "activate_or_restore env deployment target client toColor fromColor options what = do {
     r \<leftarrow> db_exec env (ActivateDeploymentSlot (tgt_ApplicationID target) (tgt_ServerID target) toColor);
     (case r of
        Inr _ \<Rightarrow> okE ()
      | Inl err \<Rightarrow> do {
          _ \<leftarrow> (if fromColor \<noteq> [] then applyProxyRoutes env deployment target client fromColor else okE ());
          _ \<leftarrow> restoreSingletonServices env target client toColor fromColor options;
          failE (wrap what err)
        })
   }"

subsection \<open>Rolling back\<close>

definition load_rollback_slot :: "runner_env \<Rightarrow> deployment_target \<Rightarrow> (go_error + deployment_slot) run" where
  "load_rollback_slot env target = do {
     r \<leftarrow> db_exec env (GetStandbyDeploymentSlot (tgt_ApplicationID target) (tgt_ServerID target));
     (case r of
        Inl ErrNoRows \<Rightarrow> failE (Errorf ''no standby blue-green slot is available for rollback'')
      | Inl err \<Rightarrow> failE (wrap ''load rollback slot'' err)
      | Inr slot \<Rightarrow> okE slot)
   }"

definition rollback_singletons ::
  "runner_env \<Rightarrow> deployment \<Rightarrow> deployment_target \<Rightarrow> ssh_client \<Rightarrow> string \<Rightarrow> string list \<Rightarrow>
   (go_error + (string \<times> remote_step_options)) run" where
  "rollback_singletons env deployment target client color singletons =
     (if singletons = [] then okE ([], no_options)
      else bindE (mapE (wrap ''load active deployment slot'')
             (db_exec env (GetActiveDeploymentSlot (tgt_ApplicationID target) (tgt_ServerID target)))) (\<lambda>activeSlot.
           bindE (blueGreenPorts env target) (\<lambda>ports.
           let options = no_options\<lparr>bluePort := ports_blue ports, greenPort := ports_green ports,
                 portVariables := ports_variables ports, serviceVariables := map (\<lambda>s. (s, [])) singletons,
                 singletonServices := singletons\<rparr>
           in bindE (switchSingletonServices env deployment target client (slot_Color activeSlot) color options) (\<lambda>_.
              okE (slot_Color activeSlot, options)))))"

definition rollback :: "runner_env \<Rightarrow> deployment \<Rightarrow> deployment_target \<Rightarrow> ssh_client \<Rightarrow> (go_error + unit) run" where
  "rollback env deployment target client =
     bindE (load_rollback_slot env target) (\<lambda>slot.
     bindE (logE env deployment ''system'' (''Rolling back traffic to '' @ slot_Color slot)) (\<lambda>_.
     bindE (checkColorHealth env target client (slot_Color slot)) (\<lambda>_.
     bindE (State_Monad.return (singletonComposeServiceNames env (tgt_ComposeServices target))) (\<lambda>singletons.
     bindE (rollback_singletons env deployment target client (slot_Color slot) singletons) (\<lambda>(activeColor, options). do {
       r \<leftarrow> applyProxyRoutes env deployment target client (slot_Color slot);
       (case r of
          Inl err \<Rightarrow> restore_after env target client (slot_Color slot) activeColor options err
        | Inr _ \<Rightarrow> activate_or_restore env deployment target client (slot_Color slot) activeColor options
                    ''mark rollback slot active'')
     })))))"

subsection \<open>Deploying\<close>

fun run_steps ::
  "runner_env \<Rightarrow> deployment \<Rightarrow> ssh_client \<Rightarrow> remote_step list \<Rightarrow> deployment_target \<Rightarrow>
   (go_error option \<times> deployment_target) run" where
  "run_steps env deployment client [] target = State_Monad.return (None, target)"
| "run_steps env deployment client (s # steps) target = do {
     append_log env deployment ''system'' (step_label s);
     r \<leftarrow> (if step_input s = [] then Run_cmd env client (step_command s)
          else RunWithInput env client (step_command s) (step_input s));
     (if TrimSpace (fst r) \<noteq> [] then append_log env deployment ''stdout'' (fst r) else State_Monad.return ());
     (case snd r of
        Some err \<Rightarrow> State_Monad.return (Some (wrap (step_label s) err), target)
      | None \<Rightarrow>
          if resolvesCommit s then do {
            c \<leftarrow> resolveSourceCommit env deployment target client;
            (case c of
               Inl err \<Rightarrow> State_Monad.return (Some err, target)
             | Inr target' \<Rightarrow> run_steps env deployment client steps target')
          } else run_steps env deployment client steps target)
   }"

text \<open>The plan of a deployment: everything that is decided before the first command runs.\<close>

definition plan_deployment ::
  "runner_env \<Rightarrow> deployment \<Rightarrow> deployment_target \<Rightarrow>
   (go_error + (string \<times> string \<times> remote_step_options \<times> remote_step list)) run" where
  "plan_deployment env deployment target =
     bindE (deploymentRuntimeVariables env target) (\<lambda>variables.
     bindE (deploymentServiceRuntimeVariables env target variables) (\<lambda>services.
     bindE (if variables \<noteq> [] \<or> services \<noteq> []
            then logE env deployment ''system'' (''Runtime variables synced: ''
                   @ FormatNat (validRuntimeVariableCount variables) @ '' shared, '' @ FormatNat (length services)
                   @ '' service environments'')
            else okE ()) (\<lambda>_.
     bindE (nextDeploymentColors env target) (\<lambda>(nextColor, currentColor).
     bindE (State_Monad.return (singletonComposeServiceNames env (tgt_ComposeServices target))) (\<lambda>names.
     let singletons = (if tgt_Strategy target \<noteq> ''blue_green'' then [] else names) in
     bindE (blueGreenPorts env target) (\<lambda>ports.
     bindE (sourceAuthorizationHeaderFor env target (text_String (dep_ImageRef deployment))) (\<lambda>header.
     let options = \<lparr>targetColor = nextColor, imageRef = text_String (dep_ImageRef deployment),
           bluePort = ports_blue ports, greenPort = ports_green ports, portVariables = ports_variables ports,
           serviceVariables = services, sourceAuthorizationHeader = header, singletonServices = singletons\<rparr> in
     bindE (State_Monad.return (remoteSteps target variables [options])) (\<lambda>steps.
     okE (nextColor, currentColor, options, steps)))))))))"

definition promote_deployment ::
  "runner_env \<Rightarrow> deployment \<Rightarrow> deployment_target \<Rightarrow> ssh_client \<Rightarrow> string \<Rightarrow> string \<Rightarrow> remote_step_options \<Rightarrow> (go_error + unit) run" where
  "promote_deployment env deployment target client nextColor currentColor options =
     (let tracked = tgt_Strategy target = ''blue_green'' \<and> blueGreenSlotTracked target in
      bindE (if tracked then upsertSlot env deployment target nextColor ''standby'' else okE ()) (\<lambda>_.
      bindE (switchSingletonServices env deployment target client currentColor nextColor options) (\<lambda>_. do {
        r \<leftarrow> applyProxyRoutes env deployment target client nextColor;
        (case r of
           Inl err \<Rightarrow> restore_after env target client nextColor currentColor options err
         | Inr _ \<Rightarrow>
             if tracked then activate_or_restore env deployment target client nextColor currentColor options
                               ''mark active deployment slot''
             else okE ())
      })))"

definition error_of :: "(go_error + 'a) run \<Rightarrow> deployment_target \<Rightarrow> (go_error option \<times> deployment_target) run" where
  "error_of m target = do {
     r \<leftarrow> m;
     State_Monad.return (case r of Inl err \<Rightarrow> (Some err, target) | Inr _ \<Rightarrow> (None, target))
   }"

text \<open>The target is passed by reference: the caller sees the commit that was resolved, also on errors.\<close>

definition deploy :: "runner_env \<Rightarrow> deployment \<Rightarrow> deployment_target \<Rightarrow> (go_error option \<times> deployment_target) run" where
  "deploy env deployment target =
     (if tgt_ConnectionMode target \<noteq> ''tailscale_ssh''
         \<and> (tgt_SshKeyPath target = None \<or> TrimSpace (text_String (tgt_SshKeyPath target)) = [])
      then State_Monad.return (Some (Errorf (''server '' @ tgt_ServerName target @ '' has no ssh key path configured'')), target)
      else case deploymentSSHClient env target of
        Inl err \<Rightarrow> State_Monad.return (Some (wrap ''prepare ssh client'' err), target)
      | Inr client \<Rightarrow> do {
          append_log env deployment ''system'' (''Connecting to '' @ tgt_SshUser target @ ''@'' @ tgt_Hostname target);
          append_log env deployment ''system'' (''Strategy: '' @ tgt_Strategy target);
          (if dep_Trigger deployment = ''rollback'' then error_of (rollback env deployment target client) target
           else do {
             p \<leftarrow> plan_deployment env deployment target;
             (case p of
                Inl err \<Rightarrow> State_Monad.return (Some err, target)
              | Inr (nextColor, currentColor, options, steps) \<Rightarrow> do {
                  r \<leftarrow> run_steps env deployment client steps target;
                  (case r of
                     (Some err, target') \<Rightarrow> State_Monad.return (Some err, target')
                   | (None, target') \<Rightarrow>
                       error_of (promote_deployment env deployment target' client nextColor currentColor options) target')
                })
           })
        })"

subsection \<open>Running\<close>

definition complete :: "runner_env \<Rightarrow> deployment \<Rightarrow> deployment_target \<Rightarrow> unit run" where
  "complete env deployment target = do {
     r \<leftarrow> db_exec env (UpdateDeploymentStatus (dep_ID deployment) ''succeeded'');
     (case r of
        Inl err \<Rightarrow> do {
          append_log env deployment ''stderr'' (''mark deployment succeeded: '' @ err_text err);
          notify env deployment target (''mark deployment succeeded: '' @ err_text err)
        }
      | Inr completed \<Rightarrow> do {
          _ \<leftarrow> db_exec env (UpdateApplicationStatus (tgt_ApplicationID target) ''healthy'' (deploymentVersion target));
          (if dep_Trigger deployment \<noteq> ''rollback'' then do {
             m \<leftarrow> db_exec env (MarkApplicationConfigurationDeployed (tgt_ApplicationID target)
                    (tgt_ConfigurationRevision target) (tgt_ProjectConfigurationRevision target));
             (case m of
                Inl err \<Rightarrow> append_log env deployment ''stderr'' (''mark deployed configuration: '' @ err_text err)
              | Inr _ \<Rightarrow> State_Monad.return ())
           } else State_Monad.return ());
          append_log env deployment ''system'' ''Deployment completed'';
          audit env completed target ''deployment.succeeded'' [(''status'', JStr ''succeeded'')];
          notify env completed target []
        })
   }"

definition run_started :: "runner_env \<Rightarrow> deployment \<Rightarrow> unit run" where
  "run_started env deployment = do {
     append_log env deployment ''system'' ''Deployment picked up by runner'';
     t \<leftarrow> db_exec env (GetDeploymentTarget (dep_ID deployment));
     (case t of
        Inl err \<Rightarrow> do { _ \<leftarrow> fail env deployment ''load deployment target'' err; State_Monad.return () }
      | Inr target \<Rightarrow> do {
          audit env deployment target ''deployment.running'' [(''status'', JStr ''running''),
            (''trigger'', JStr (dep_Trigger deployment)), (''strategy'', JStr (dep_Strategy deployment))];
          _ \<leftarrow> db_exec env (UpdateApplicationStatus (tgt_ApplicationID target) ''deploying'' (deploymentVersion target));
          d \<leftarrow> deploy env deployment target;
          (case d of
             (Some err, target') \<Rightarrow> do {
               failed \<leftarrow> fail env deployment ''remote deployment failed'' err;
               audit env failed target' ''deployment.failed'' [(''status'', JStr ''failed''), (''error'', JStr (err_text err))];
               _ \<leftarrow> db_exec env (UpdateApplicationStatus (tgt_ApplicationID target') ''failed'' None);
               notify env failed target' (err_text err)
             }
           | (None, target') \<Rightarrow> complete env deployment target')
        })
   }"

definition Run :: "runner_env \<Rightarrow> deployment \<Rightarrow> unit run" where
  "Run env deployment = do {
     r \<leftarrow> db_exec env (StartQueuedDeployment (dep_ID deployment));
     (case r of
        Inl ErrNoRows \<Rightarrow> append_log env deployment ''system'' ''Deployment is no longer queued; skipping''
      | Inl err \<Rightarrow> append_log env deployment ''stderr'' (''mark deployment running: '' @ err_text err)
      | Inr running \<Rightarrow> run_started env running)
   }"

end
