(* ===== verification/Store_Invariants.thy ===== *)
theory Store_Invariants
  imports Store
begin

text \<open>
  What the statements keep true of the tables. The database enforces the constraints on single rows;
  shown here is that the statements never run into them, and that they keep what no constraint
  enforces: one active slot for an application on a server, and log lines in increasing order.
\<close>

subsection \<open>Valid tables\<close>

definition deployments_ok :: "deployment list \<Rightarrow> bool" where
  "deployments_ok ds \<longleftrightarrow>
     distinct (map dep_ID ds) \<and> None \<notin> set (map dep_ID ds) \<and> list_all status_check ds \<and> one_in_progress ds"

definition slot_key :: "deployment_slot \<Rightarrow> pg_uuid \<times> pg_uuid \<times> string" where
  "slot_key s = (slot_ApplicationID s, slot_ServerID s, slot_Color s)"

definition slot_place :: "deployment_slot \<Rightarrow> pg_uuid \<times> pg_uuid" where
  "slot_place s = (slot_ApplicationID s, slot_ServerID s)"

definition slot_active :: "deployment_slot \<Rightarrow> bool" where
  "slot_active s \<longleftrightarrow> slot_Status s = ''active''"

definition slots_ok :: "deployment_slot list \<Rightarrow> bool" where
  "slots_ok ss \<longleftrightarrow>
     distinct (map slot_key ss)
     \<and> list_all (\<lambda>s. slot_ApplicationID s \<noteq> None \<and> slot_ServerID s \<noteq> None) ss
     \<and> distinct (map slot_place (filter slot_active ss))"

definition logs_ok :: "deployment_log list \<Rightarrow> bool" where
  "logs_ok ls \<longleftrightarrow> sorted_wrt (<) (map log_ID ls) \<and> list_all (\<lambda>l. log_check (log_Stream l) (log_Message l) = None) ls"

definition store_ok :: "store \<Rightarrow> bool" where
  "store_ok db \<longleftrightarrow> deployments_ok (deployments db) \<and> slots_ok (slots db) \<and> logs_ok (deployment_logs db)"

subsection \<open>Statements that keep a property of the tables\<close>

definition stmt_keeps :: "(store \<Rightarrow> bool) \<Rightarrow> 'a stmt \<Rightarrow> bool" where
  "stmt_keeps I q \<longleftrightarrow> (\<forall>db x db'. I db \<longrightarrow> q db = Inr (x, db') \<longrightarrow> I db')"

named_theorems stmt_keeps_rules

lemma stmt_keepsI: "(\<And>db x db'. I db \<Longrightarrow> q db = Inr (x, db') \<Longrightarrow> I db') \<Longrightarrow> stmt_keeps I q"
  by (auto simp: stmt_keeps_def)

lemma stmt_keepsD: "q db = Inr (x, db') \<Longrightarrow> I db \<Longrightarrow> stmt_keeps I q \<Longrightarrow> I db'"
  by (auto simp: stmt_keeps_def)

declare try_bind_eq_Inr_iff [simp]

lemma one_row_Inr: "one_row rows = Inr r \<longleftrightarrow> (\<exists>rs. rows = r # rs)"
  by (cases rows) (auto simp: one_row_def)

lemma one_row_Inl: "one_row rows = Inl err \<longleftrightarrow> rows = [] \<and> err = ErrNoRows"
  by (cases rows) (auto simp: one_row_def)

lemma read_only_keeps [stmt_keeps_rules]:
  "stmt_keeps I (GetDeployment i)"
  "stmt_keeps I (GetDeploymentTarget i)"
  "stmt_keeps I (GetApplication i)"
  "stmt_keeps I (GetActiveDeploymentSlot app srv)"
  "stmt_keeps I (GetStandbyDeploymentSlot app srv)"
  "stmt_keeps I (ListApplicationServiceRuntimeConfigs i)"
  "stmt_keeps I (ListProjectRuntimeVariablesForApplication i)"
  "stmt_keeps I (ListProxyRouteTargetsForApplication app srv)"
  "stmt_keeps I (GetProxyRouteTarget i)"
  "stmt_keeps I (ListQueuedDeploymentsForRecovery limit)"
  "stmt_keeps I (ListDeploymentLogsAfter i lastID limit)"
  "stmt_keeps I (ListRecentDeploymentLogs i limit)"
  by (auto intro!: stmt_keepsI simp: GetDeployment_def GetDeploymentTarget_def GetApplication_def
      GetActiveDeploymentSlot_def GetStandbyDeploymentSlot_def latest_slot_def
      ListApplicationServiceRuntimeConfigs_def ListProjectRuntimeVariablesForApplication_def
      ListProxyRouteTargetsForApplication_def GetProxyRouteTarget_def ListQueuedDeploymentsForRecovery_def
      ListDeploymentLogsAfter_def ListRecentDeploymentLogs_def Let_def)

lemma update_rows_simps [simp]:
  "length (update_rows p f rows) = length rows"
  "update_rows p f [] = []"
  "set (update_rows p f rows) = (\<lambda>r. if p r then f r else r) ` set rows"
  by (simp_all add: update_rows_def)

lemma map_update_rows:
  "(\<And>r. p r \<Longrightarrow> g (f r) = g r) \<Longrightarrow> map g (update_rows p f rows) = map g rows"
  by (auto simp: update_rows_def)

lemma update_deployment_Inr:
  "update_deployment p f db = Inr (x, db') \<Longrightarrow>
   db' = db\<lparr>deployments := update_rows p f (deployments db)\<rparr>
   \<and> deployments_violation (deployments db') = None \<and> (\<exists>d\<in>set (deployments db). p d \<and> x = f d)"
proof -
  assume a: "update_deployment p f db = Inr (x, db')"
  then obtain d rest where d: "filter p (deployments db) = d # rest"
    by (auto simp: update_deployment_def one_row_Inr)
  then have "d \<in> set (deployments db)" "p d" by (auto simp: filter_eq_Cons_iff)
  then show ?thesis using a d by (auto simp: update_deployment_def one_row_def Let_def try_bind_def split: option.splits)
qed

lemma deployments_violation_None:
  "deployments_violation ds = None \<longleftrightarrow> list_all status_check ds \<and> one_in_progress ds"
  by (auto simp: deployments_violation_def)

subsection \<open>Statements on deployments keep the tables valid\<close>

lemma update_deployment_ok:
  assumes "store_ok db" and u: "update_deployment p f db = Inr (x, db')" and f: "\<And>d. dep_ID (f d) = dep_ID d"
  shows "store_ok db'"
proof -
  have db': "db' = db\<lparr>deployments := update_rows p f (deployments db)\<rparr>"
    and none: "deployments_violation (deployments db') = None"
    using update_deployment_Inr [OF u] by auto
  have "map dep_ID (deployments db') = map dep_ID (deployments db)"
    unfolding db' by (simp add: map_update_rows f)
  moreover have "slots db' = slots db" "deployment_logs db' = deployment_logs db"
    unfolding db' by simp_all
  ultimately show ?thesis
    using assms(1) none by (simp only: store_ok_def deployments_ok_def deployments_violation_None simp_thms)
qed

lemma deployment_updates_ok [stmt_keeps_rules]:
  "stmt_keeps store_ok (StartQueuedDeployment i)"
  "stmt_keeps store_ok (UpdateDeploymentStatus i status)"
  "stmt_keeps store_ok (CancelQueuedDeployment i)"
  "stmt_keeps store_ok (SetDeploymentCommitSHA i commit message)"
  unfolding stmt_keeps_def StartQueuedDeployment_def UpdateDeploymentStatus_def CancelQueuedDeployment_def
    SetDeploymentCommitSHA_def
  by (intro allI impI, erule (1) update_deployment_ok, simp)+

lemma CreateDeployment_Inr:
  assumes "CreateDeployment new_id snapshot arg db = Inr (d, db')"
  shows "db' = db\<lparr>deployments := deployments db @ [d]\<rparr>" "dep_ID d = Some new_id" "dep_Status d = ''queued''"
    "dep_StartedAt d = None" "dep_FinishedAt d = None"
    "\<forall>e\<in>set (deployments db). in_progress e \<longrightarrow> dep_ApplicationID e \<noteq> dep_ApplicationID d"
    "\<forall>e\<in>set (deployments db). dep_ID e \<noteq> Some new_id"
  using assms by (auto simp: CreateDeployment_def Let_def split: list.splits if_splits)

lemma CreateDeployment_ok [stmt_keeps_rules]: "stmt_keeps store_ok (CreateDeployment new_id snapshot arg)"
proof (rule stmt_keepsI)
  fix db d db'
  assume ok: "store_ok db" and c: "CreateDeployment new_id snapshot arg db = Inr (d, db')"
  note facts = CreateDeployment_Inr [OF c]
  have "deployments_ok (deployments db @ [d])"
    using ok facts by (auto simp: store_ok_def deployments_ok_def status_check_def one_in_progress_def in_progress_def)
  then show "store_ok db'" using ok facts(1) by (simp add: store_ok_def)
qed

lemma distinct_map_filter_filter:
  "distinct (map g (filter p xs)) \<Longrightarrow> distinct (map g (filter p (filter q xs)))"
  by (induction xs) auto

lemma filter_fail_running:
  "filter in_progress (update_rows (\<lambda>d. dep_Status d = ''running'') (fail_running t) ds)
     = filter in_progress (filter (\<lambda>d. dep_Status d \<noteq> ''running'') ds)"
  by (induction ds) (simp_all add: update_rows_def in_progress_def fail_running_def)

lemma FailRunning_ok [stmt_keeps_rules]: "stmt_keeps store_ok FailRunningDeploymentsForRecovery"
proof (rule stmt_keepsI)
  fix db x db'
  assume ok: "store_ok db" and f: "FailRunningDeploymentsForRecovery db = Inr (x, db')"
  let ?ds = "update_rows (\<lambda>d. dep_Status d = ''running'') (fail_running (now db)) (deployments db)"
  have ids: "map dep_ID ?ds = map dep_ID (deployments db)" by (simp add: map_update_rows fail_running_def)
  have checks: "list_all status_check ?ds"
    using ok by (auto simp: store_ok_def deployments_ok_def list_all_iff status_check_def fail_running_def
        terminal_def now_def)
  have "filter in_progress ?ds = filter in_progress (filter (\<lambda>d. dep_Status d \<noteq> ''running'') (deployments db))"
    by (rule filter_fail_running)
  then have "one_in_progress ?ds"
    using ok distinct_map_filter_filter [of dep_ApplicationID in_progress "deployments db"]
    by (simp only: store_ok_def deployments_ok_def one_in_progress_def simp_thms)
  with ids checks ok have "deployments_ok ?ds" by (simp only: store_ok_def deployments_ok_def simp_thms)
  then show "store_ok db'"
    using ok f by (auto simp: FailRunningDeploymentsForRecovery_def Let_def store_ok_def)
qed

subsection \<open>Statements that do not touch deployments\<close>

lemma AppendDeploymentLog_Inr:
  "AppendDeploymentLog i stream message db = Inr (entry, db') \<Longrightarrow>
   db' = db\<lparr>deployment_logs := deployment_logs db @ [entry]\<rparr> \<and> log_ID entry = next_log_id db
   \<and> log_DeploymentID entry = i \<and> log_check (log_Stream entry) (log_Message entry) = None
   \<and> log_Stream entry = stream \<and> log_Message entry = message"
  by (auto simp: AppendDeploymentLog_def Let_def split: option.splits if_splits)

lemma foldl_max_ge: "a \<le> foldl max a xs \<and> (x \<in> set xs \<longrightarrow> x \<le> foldl max a xs)" for a x :: nat
proof (induction xs arbitrary: a)
  case (Cons y ys)
  have IH: "max a y \<le> foldl max (max a y) ys" "x \<in> set ys \<longrightarrow> x \<le> foldl max (max a y) ys"
    using Cons.IH [of "max a y"] by blast+
  from IH(1) have "a \<le> foldl max (max a y) ys" "y \<le> foldl max (max a y) ys" by simp_all
  then show ?case using IH(2) by auto
qed simp

lemma next_log_id_fresh: "l \<in> set (deployment_logs db) \<Longrightarrow> log_ID l < next_log_id db"
  using foldl_max_ge [of 0 "map log_ID (deployment_logs db)" "log_ID l"] by (auto simp: next_log_id_def less_Suc_eq_le)

lemma AppendDeploymentLog_ok [stmt_keeps_rules]: "stmt_keeps store_ok (AppendDeploymentLog i stream message)"
  by (rule stmt_keepsI, drule AppendDeploymentLog_Inr)
     (auto simp: store_ok_def logs_ok_def sorted_wrt_append next_log_id_fresh)

text \<open>The tables that the lifecycle of deployments depends on, and the statements that leave them alone.\<close>

definition core :: "store \<Rightarrow> deployment list \<times> deployment_slot list \<times> deployment_log list" where
  "core db = (deployments db, slots db, deployment_logs db)"

definition frames :: "'a stmt \<Rightarrow> bool" where
  "frames q \<longleftrightarrow> (\<forall>db x db'. q db = Inr (x, db') \<longrightarrow> core db' = core db)"

lemma frames_keeps: "frames q \<Longrightarrow> (\<And>db db'. core db' = core db \<Longrightarrow> I db \<Longrightarrow> I db') \<Longrightarrow> stmt_keeps I q"
  unfolding frames_def stmt_keeps_def by blast

lemma update_application_frames: "update_application p f db = Inr (x, db') \<Longrightarrow> core db' = core db"
  by (auto simp: update_application_def core_def)

lemma update_route_frames: "update_route p f db = Inr (x, db') \<Longrightarrow> core db' = core db"
  by (auto simp: update_route_def core_def)

lemma other_tables_frame:
  "frames (AppendAuditEvent actor action target_type target_id target_name metadata)"
  "frames (UpdateApplicationStatus i status version)"
  "frames (MarkApplicationConfigurationDeployed i revision proj_revision)"
  "frames (MarkProxyRouteApplied i)"
  "frames (MarkProxyRouteFailed i)"
  "frames (PromoteProxyRoutes ids upstreams)"
  "frames (CreateBuildRun new_id b)"
  "frames (CompleteBuildRun co)"
proof -
  show "frames (AppendAuditEvent actor action target_type target_id target_name metadata)"
    by (simp add: frames_def AppendAuditEvent_def Let_def core_def)
  show "frames (UpdateApplicationStatus i status version)"
    unfolding frames_def UpdateApplicationStatus_def by (blast intro: update_application_frames)
  show "frames (MarkApplicationConfigurationDeployed i revision proj_revision)"
    unfolding frames_def MarkApplicationConfigurationDeployed_def by (blast intro: update_application_frames)
  show "frames (MarkProxyRouteApplied i)"
    unfolding frames_def MarkProxyRouteApplied_def by (blast intro: update_route_frames)
  show "frames (MarkProxyRouteFailed i)"
    unfolding frames_def MarkProxyRouteFailed_def by (blast intro: update_route_frames)
  show "frames (PromoteProxyRoutes ids upstreams)"
    by (simp add: frames_def PromoteProxyRoutes_def Let_def core_def)
  show "frames (CreateBuildRun new_id b)"
    by (simp add: frames_def CreateBuildRun_def Let_def core_def split: option.splits)
  show "frames (CompleteBuildRun co)"
    by (auto simp: frames_def CompleteBuildRun_def Let_def core_def try_bind_eq_Inr_iff split: option.splits)
qed

lemma store_ok_core: "core db' = core db \<Longrightarrow> store_ok db \<Longrightarrow> store_ok db'"
  by (simp add: core_def store_ok_def)

lemma frames_ok: "frames q \<Longrightarrow> stmt_keeps store_ok q"
  by (erule frames_keeps) (rule store_ok_core)

lemmas other_tables_ok [stmt_keeps_rules] = other_tables_frame [THEN frames_ok]

subsection \<open>Statements on slots\<close>

lemma distinct_places_iff:
  assumes "distinct (map k xs)"
  shows "distinct (map g (filter P xs)) \<longleftrightarrow>
    (\<forall>x\<in>set xs. \<forall>y\<in>set xs. P x \<longrightarrow> P y \<longrightarrow> g x = g y \<longrightarrow> k x = k y)"
proof -
  have "distinct xs" and k: "\<And>x y. x \<in> set xs \<Longrightarrow> y \<in> set xs \<Longrightarrow> k x = k y \<longleftrightarrow> x = y"
    using assms by (auto simp: distinct_map inj_on_def)
  then have "distinct (map g (filter P xs)) \<longleftrightarrow> inj_on g (set (filter P xs))" by (simp add: distinct_map)
  also have "\<dots> \<longleftrightarrow> (\<forall>x\<in>set xs. \<forall>y\<in>set xs. P x \<longrightarrow> P y \<longrightarrow> g x = g y \<longrightarrow> x = y)"
    unfolding inj_on_def set_filter by blast
  also have "\<dots> \<longleftrightarrow> (\<forall>x\<in>set xs. \<forall>y\<in>set xs. P x \<longrightarrow> P y \<longrightarrow> g x = g y \<longrightarrow> k x = k y)"
    using k by blast
  finally show ?thesis .
qed

lemma slot_key_place: "slot_place r = slot_place r' \<Longrightarrow> slot_Color r = slot_Color r' \<Longrightarrow> slot_key r = slot_key r'"
  by (simp add: slot_place_def slot_key_def)

lemma switchable_activate:
  "slot_key (activate t color s) = slot_key s" "slot_place (activate t color s) = slot_place s"
  "slot_active (activate t color s) \<longleftrightarrow> slot_Color s = color"
  by (auto simp: slot_key_def slot_place_def slot_active_def activate_def)

text \<open>A switch leaves one active slot, whatever was active before.\<close>

lemma activated_slots_ok:
  assumes ok: "slots_ok ss"
  shows "slots_ok (update_rows (switchable app srv) (activate t color) ss)" (is "slots_ok ?ss")
proof -
  have keys: "map slot_key ?ss = map slot_key ss"
    by (rule map_update_rows) (rule switchable_activate)
  then have dk: "distinct (map slot_key ?ss)" using ok by (simp add: slots_ok_def)
  have nn: "list_all (\<lambda>s. slot_ApplicationID s \<noteq> None \<and> slot_ServerID s \<noteq> None) ?ss"
    using ok by (auto simp: slots_ok_def list_all_iff activate_def)
  have "distinct (map slot_key ss)" "distinct (map slot_place (filter slot_active ss))"
    using ok by (simp_all add: slots_ok_def)
  then have all: "\<forall>r\<in>set ss. \<forall>r'\<in>set ss. slot_active r \<longrightarrow> slot_active r' \<longrightarrow>
      slot_place r = slot_place r' \<longrightarrow> slot_key r = slot_key r'"
    by (simp only: distinct_places_iff [where k = slot_key])
  have uniq: "\<And>r r'. r \<in> set ss \<Longrightarrow> r' \<in> set ss \<Longrightarrow> slot_active r \<Longrightarrow> slot_active r' \<Longrightarrow>
      slot_place r = slot_place r' \<Longrightarrow> slot_key r = slot_key r'"
    using all by blast
  have mixed: "switchable app srv r'" if "switchable app srv r" "slot_active r'" "slot_place r = slot_place r'" for r r'
    using that by (auto simp: switchable_def slot_at_def slot_place_def slot_active_def)
  define g where "g r = (if switchable app srv r then activate t color r else r)" for r
  have g: "slot_key (g r) = slot_key r" "slot_place (g r) = slot_place r"
    "slot_active (g r) \<longleftrightarrow> (if switchable app srv r then slot_Color r = color else slot_active r)" for r
    by (simp_all add: g_def switchable_activate)
  have one: "slot_key r = slot_key r'"
    if rs: "r \<in> set ss" "r' \<in> set ss" and act: "slot_active (g r)" "slot_active (g r')" and place: "slot_place r = slot_place r'" for r r'
  proof (cases "switchable app srv r = switchable app srv r'")
    case True
    then consider "slot_Color r = slot_Color r'" | "slot_active r" "slot_active r'"
      using act unfolding g by (cases "switchable app srv r") simp_all
    then show ?thesis using uniq [OF rs] place slot_key_place [OF place] by cases blast+
  next
    case False
    then have "switchable app srv r \<and> slot_active r' \<or> switchable app srv r' \<and> slot_active r"
      using act unfolding g by (cases "switchable app srv r") simp_all
    then show ?thesis using mixed [of r r'] mixed [of r' r] place False by (metis (no_types))
  qed
  have ss: "set ?ss = g ` set ss" by (auto simp: g_def)
  have "slot_key x = slot_key y"
    if xy: "x \<in> set ?ss" "y \<in> set ?ss" and act: "slot_active x" "slot_active y" "slot_place x = slot_place y" for x y
  proof -
    obtain r r' where "r \<in> set ss" "x = g r" "r' \<in> set ss" "y = g r'" using xy unfolding ss by blast
    then show ?thesis using one [of r r'] act by (simp only: g(1,2))
  qed
  then have "distinct (map slot_place (filter slot_active ?ss))"
    unfolding distinct_places_iff [OF dk] by blast
  with dk nn show ?thesis by (simp add: slots_ok_def)
qed

lemma ActivateDeploymentSlot_ok [stmt_keeps_rules]: "stmt_keeps store_ok (ActivateDeploymentSlot app srv color)"
  by (rule stmt_keepsI) (auto simp: ActivateDeploymentSlot_def store_ok_def activated_slots_ok)

lemma UpsertDeploymentSlot_ok [stmt_keeps_rules]:
  assumes "us_Status arg \<noteq> ''active''"
  shows "stmt_keeps store_ok (UpsertDeploymentSlot new_id arg)"
proof (rule stmt_keepsI)
  fix db x db'
  assume ok: "store_ok db" and u: "UpsertDeploymentSlot new_id arg db = Inr (x, db')"
  define same where "same = (\<lambda>s. slot_at (us_ApplicationID arg) (us_ServerID arg) s \<and> slot_Color s = us_Color arg)"
  define assign where "assign = (\<lambda>s::deployment_slot. s\<lparr>slot_DeploymentID := us_DeploymentID arg, slot_ImageRef := us_ImageRef arg,
                       slot_ImageDigest := us_ImageDigest arg, slot_Status := us_Status arg,
                       slot_PromotedAt := None, slot_UpdatedAt := now db\<rparr>)"
  have sok: "slots_ok (slots db)" using ok by (simp add: store_ok_def)
  have chk: "slot_params_check arg = None" using u by (auto simp: UpsertDeploymentSlot_def Let_def split: option.splits)
  then have args: "us_ApplicationID arg \<noteq> None" "us_ServerID arg \<noteq> None"
    by (auto simp: slot_params_check_def split: if_splits)
  have keys: "slot_key (assign s) = slot_key s" "\<not> slot_active (assign s)" "slot_place (assign s) = slot_place s" for s
    using assms by (auto simp: assign_def slot_key_def slot_active_def slot_place_def)
  consider (update) "db' = db\<lparr>slots := update_rows same assign (slots db)\<rparr>"
    | (insert) "filter same (slots db) = []" "db' = db\<lparr>slots := slots db @ [x]\<rparr>" "slot_key x = (us_ApplicationID arg, us_ServerID arg, us_Color arg)"
        "\<not> slot_active x"
    using u assms chk by (auto simp: UpsertDeploymentSlot_def Let_def same_def [symmetric] assign_def [symmetric]
        slot_key_def slot_active_def split: list.splits if_splits)
  then have "slots_ok (slots db')"
  proof cases
    case update
    have m: "map slot_key (update_rows same assign (slots db)) = map slot_key (slots db)"
      by (simp add: map_update_rows keys)
    have "filter slot_active (update_rows same assign ss) = filter slot_active (filter (\<lambda>s. \<not> same s) ss)" for ss
      by (induction ss) (auto simp: update_rows_def keys)
    then have "distinct (map slot_place (filter slot_active (update_rows same assign (slots db))))"
      using sok distinct_map_filter_filter [of slot_place slot_active] by (simp only: slots_ok_def simp_thms)
    then show ?thesis
      using sok m update by (auto simp: slots_ok_def list_all_iff assign_def)
  next
    case insert
    then have "slot_key x \<notin> slot_key ` set (slots db)"
      using args by (auto simp: slot_key_def same_def slot_at_def sql_eq_def filter_empty_conv)
    then show ?thesis using sok insert args by (auto simp: slots_ok_def slot_key_def)
  qed
  then show "store_ok db'"
    using ok u chk by (auto simp: store_ok_def UpsertDeploymentSlot_def Let_def split: list.splits if_splits)
qed

subsection \<open>Statements that cannot fail\<close>

lemma in_progress_update_rows:
  assumes "\<And>d. dep_ApplicationID (f d) = dep_ApplicationID d" "\<And>d. p d \<Longrightarrow> in_progress (f d) \<Longrightarrow> in_progress d"
  shows "dep_ApplicationID ` set (filter in_progress (update_rows p f ds)) \<subseteq> dep_ApplicationID ` set (filter in_progress ds)"
    and "one_in_progress ds \<Longrightarrow> one_in_progress (update_rows p f ds)"
proof -
  show sub: "dep_ApplicationID ` set (filter in_progress (update_rows p f ds)) \<subseteq> dep_ApplicationID ` set (filter in_progress ds)" for ds
  proof
    fix a assume "a \<in> dep_ApplicationID ` set (filter in_progress (update_rows p f ds))"
    then obtain d where "d \<in> set ds" "in_progress (if p d then f d else d)" "a = dep_ApplicationID (if p d then f d else d)"
      by auto
    then show "a \<in> dep_ApplicationID ` set (filter in_progress ds)"
      using assms [of d] by (cases "p d") auto
  qed
  show "one_in_progress ds \<Longrightarrow> one_in_progress (update_rows p f ds)"
  proof (induction ds)
    case (Cons d ds)
    then have IH: "one_in_progress (update_rows p f ds)" by (auto simp: one_in_progress_def split: if_splits)
    define e where "e = (if p d then f d else d)"
    have e: "update_rows p f (d # ds) = e # update_rows p f ds" by (simp add: e_def update_rows_def)
    have "in_progress e \<Longrightarrow> in_progress d \<and> dep_ApplicationID e = dep_ApplicationID d"
      using assms by (cases "p d") (auto simp: e_def)
    moreover have "in_progress d \<Longrightarrow> dep_ApplicationID d \<notin> dep_ApplicationID ` set (filter in_progress ds)"
      using Cons.prems by (simp add: one_in_progress_def)
    ultimately have "in_progress e \<Longrightarrow> dep_ApplicationID e \<notin> dep_ApplicationID ` set (filter in_progress (update_rows p f ds))"
      using sub [of ds] by auto
    with IH show ?case by (simp add: e one_in_progress_def del: update_rows_simps)
  qed (simp add: one_in_progress_def)
qed

lemma update_deployment_total:
  assumes ok: "store_ok db" and d: "d \<in> set (deployments db)" "p d"
    and checks: "\<And>d. p d \<Longrightarrow> status_check d \<Longrightarrow> status_check (f d)"
    and app: "\<And>d. dep_ApplicationID (f d) = dep_ApplicationID d" "\<And>d. p d \<Longrightarrow> in_progress (f d) \<Longrightarrow> in_progress d"
  obtains x where "x \<in> set (deployments db)" "p x"
    "update_deployment p f db = Inr (f x, db\<lparr>deployments := update_rows p f (deployments db)\<rparr>)"
proof -
  have "filter p (deployments db) \<noteq> []" using d by (auto simp: filter_empty_conv)
  then obtain x rest where x: "filter p (deployments db) = x # rest" by (cases "filter p (deployments db)") auto
  have "x \<in> set (filter p (deployments db))" by (simp add: x)
  then have px: "x \<in> set (deployments db)" "p x" by simp_all
  have "list_all status_check (update_rows p f (deployments db))"
    using ok checks by (auto simp: store_ok_def deployments_ok_def list_all_iff)
  moreover have "one_in_progress (update_rows p f (deployments db))"
    using ok app in_progress_update_rows(2) by (auto simp: store_ok_def deployments_ok_def)
  ultimately have "deployments_violation (update_rows p f (deployments db)) = None"
    by (simp add: deployments_violation_None)
  then have "update_deployment p f db = Inr (f x, db\<lparr>deployments := update_rows p f (deployments db)\<rparr>)"
    by (simp add: update_deployment_def one_row_def x try_bind_def Let_def)
  with px that show thesis by blast
qed

text \<open>The row of a deployment, and the statements that move it through its lifecycle.\<close>

definition deployment_is :: "store \<Rightarrow> string \<Rightarrow> deployment \<Rightarrow> bool" where
  "deployment_is db i d \<longleftrightarrow> d \<in> set (deployments db) \<and> dep_ID d = Some i"

lemma deployment_is_unique: "store_ok db \<Longrightarrow> deployment_is db i d \<Longrightarrow> deployment_is db i e \<Longrightarrow> d = e"
  by (auto simp: store_ok_def deployments_ok_def deployment_is_def distinct_map inj_on_def)

lemma sql_eq_Some [simp]: "sql_eq x (Some i) \<longleftrightarrow> x = Some i"
  by (auto simp: sql_eq_def)

lemma update_deployment_row:
  assumes ok: "store_ok db" and d: "deployment_is db i d" "p d" and p: "\<And>e. p e \<Longrightarrow> dep_ID e = Some i"
    and checks: "\<And>d. p d \<Longrightarrow> status_check d \<Longrightarrow> status_check (f d)" and f: "\<And>d. dep_ID (f d) = dep_ID d"
    and app: "\<And>d. dep_ApplicationID (f d) = dep_ApplicationID d" "\<And>d. p d \<Longrightarrow> in_progress (f d) \<Longrightarrow> in_progress d"
  shows "\<exists>db'. update_deployment p f db = Inr (f d, db') \<and> deployment_is db' i (f d) \<and> store_ok db'"
proof -
  have dd: "d \<in> set (deployments db)" "dep_ID d = Some i" using d by (simp_all add: deployment_is_def)
  obtain x where x: "x \<in> set (deployments db)" "p x"
    "update_deployment p f db = Inr (f x, db\<lparr>deployments := update_rows p f (deployments db)\<rparr>)"
    using update_deployment_total [where p = p and f = f, OF ok dd(1) d(2) checks app] by blast
  have "deployment_is db i x" using x p by (simp add: deployment_is_def)
  with ok d have "x = d" using deployment_is_unique by blast
  then have u: "update_deployment p f db = Inr (f d, db\<lparr>deployments := update_rows p f (deployments db)\<rparr>)"
    using x by simp
  moreover have "deployment_is (db\<lparr>deployments := update_rows p f (deployments db)\<rparr>) i (f d)"
    using dd d(2) f by (auto simp: deployment_is_def intro!: image_eqI [of _ _ d])
  ultimately show ?thesis using update_deployment_ok [OF ok u f] by blast
qed

lemma start_queued_row:
  assumes "store_ok db" "deployment_is db i d" "dep_Status d = ''queued''"
  shows "\<exists>e db'. StartQueuedDeployment (Some i) db = Inr (e, db') \<and> deployment_is db' i e \<and> store_ok db'
    \<and> dep_Status e = ''running'' \<and> dep_Trigger e = dep_Trigger d"
proof -
  note r = update_deployment_row [OF assms(1,2), where p = "\<lambda>d. sql_eq (dep_ID d) (Some i) \<and> dep_Status d = ''queued''"
      and f = "\<lambda>d. d\<lparr>dep_Status := ''running'', dep_StartedAt := (if dep_StartedAt d = None then now db else dep_StartedAt d)\<rparr>"]
  show ?thesis unfolding StartQueuedDeployment_def
    using r assms by (force simp: deployment_is_def status_check_def now_def in_progress_def terminal_def)
qed

lemma finish_row:
  assumes "store_ok db" "deployment_is db i d" "terminal status"
  shows "\<exists>e db'. UpdateDeploymentStatus (Some i) status db = Inr (e, db') \<and> deployment_is db' i e \<and> store_ok db'
    \<and> dep_Status e = status \<and> dep_FinishedAt e = now db \<and> dep_Trigger e = dep_Trigger d"
proof -
  note r = update_deployment_row [OF assms(1,2), where p = "\<lambda>d. sql_eq (dep_ID d) (Some i)"
      and f = "\<lambda>d. d\<lparr>dep_Status := status,
               dep_StartedAt := (if dep_StartedAt d = None \<and> status = ''running'' then now db else dep_StartedAt d),
               dep_FinishedAt := (if terminal status then now db else dep_FinishedAt d)\<rparr>"]
  show ?thesis unfolding UpdateDeploymentStatus_def
    using r assms by (force simp: deployment_is_def status_check_def now_def in_progress_def terminal_def)
qed

end
