(* ===== verification/Go_Json_Proofs.thy ===== *)
theory Go_Json_Proofs
  imports Go_Json Go_Utf8
begin

text \<open>
  What \<^verbatim>\<open>json.Marshal\<close> writes, \<^verbatim>\<open>json.Unmarshal\<close> reads back: for strings of any content that is UTF-8, and
  for nested values. The fuel that \<open>decode_json\<close> gives the parser is enough.
\<close>

subsection \<open>Well-formed sequences\<close>

definition ill_formed :: "chunk \<Rightarrow> bool" where
  "ill_formed k \<longleftrightarrow> fst k = rune_error \<and> length (snd k) = 1"

lemma decode_rune_prefix:
  assumes "decode_rune s = (r, n)" "s \<noteq> []" "\<not> (r = rune_error \<and> n = 1)"
  shows "decode_rune (take n s @ t) = (r, n)" "n \<le> length s" "128 \<le> r \<Longrightarrow> \<forall>c\<in>set (take n s). 128 \<le> byte c"
    "r < 128 \<Longrightarrow> n = 1 \<and> r = byte (hd s)"
proof -
  obtain c0 cs where s: "s = c0 # cs" using assms(2) by (cases s) auto
  have cont: "continuation b \<Longrightarrow> 128 \<le> b" "second_byte_ok b0 b \<Longrightarrow> 128 \<le> b" for b b0
    by (auto simp: continuation_def second_byte_ok_def split: if_splits)
  have low: "r < 128 \<Longrightarrow> byte c0 < 128" using decode_rune_high [of c0 cs] assms(1) s by (metis fst_conv not_le)
  show "decode_rune (take n s @ t) = (r, n)" "n \<le> length s" "128 \<le> r \<Longrightarrow> \<forall>c\<in>set (take n s). 128 \<le> byte c"
    using assms(1,3) unfolding s
    by (auto simp: decode_rune.simps Let_def cont split: if_splits list.splits)
  show "r < 128 \<Longrightarrow> n = 1 \<and> r = byte (hd s)" using low assms(1) by (auto simp: s)
qed

lemma digit_64: "(c::nat) < 64 \<Longrightarrow> (q * 64 + c) div 64 = q \<and> (q * 64 + c) mod 64 = c"
  by simp

text \<open>A well-formed sequence is the encoding of its code point.\<close>

lemma canonical_two:
  assumes "2 \<le> a" "a < 32" "b < 64"
  shows "encode_rune (a * 64 + b) = [char_of (0xC0 + a), char_of (0x80 + b)]"
  using digit_64 [OF assms(3), of a] assms by (simp add: encode_rune_def)

lemma canonical_three:
  assumes "a < 16" "b < 64" "c < 64" "a = 0 \<longrightarrow> 32 \<le> b" "a = 13 \<longrightarrow> b \<le> 31"
  shows "encode_rune (a * 4096 + b * 64 + c) = [char_of (0xE0 + a), char_of (0x80 + b), char_of (0x80 + c)]"
proof -
  define r where "r = a * 4096 + b * 64 + c"
  have r: "r = (a * 64 + b) * 64 + c" by (simp add: r_def)
  have q: "r div 64 = a * 64 + b" "r mod 64 = c" unfolding r using digit_64 [OF assms(3)] by blast+
  have "r div 4096 = r div 64 div 64" by (simp add: div_mult2_eq [symmetric])
  then have d: "r div 4096 = a" "r div 64 mod 64 = b" using q digit_64 [OF assms(2), of a] by simp_all
  have big: "\<not> r < 128" "\<not> r < 2048" "r < 65536"
    using assms unfolding r_def by linarith+
  have surrogate: "\<not> (55296 \<le> r \<and> r \<le> 57343)"
  proof -
    consider "a \<le> 12" | "a = 13" "b \<le> 31" | "14 \<le> a" using assms(5) by linarith
    then show ?thesis using assms(2,3) unfolding r_def by cases linarith+
  qed
  with big show ?thesis unfolding r_def [symmetric] encode_rune_def d q(2) by auto
qed

lemma canonical_four:
  assumes "a < 5" "b < 64" "c < 64" "d < 64" "a = 0 \<longrightarrow> 16 \<le> b" "a = 4 \<longrightarrow> b \<le> 15"
  shows "encode_rune (a * 262144 + b * 4096 + c * 64 + d)
    = [char_of (0xF0 + a), char_of (0x80 + b), char_of (0x80 + c), char_of (0x80 + d)]"
proof -
  define r where "r = a * 262144 + b * 4096 + c * 64 + d"
  have r: "r = ((a * 64 + b) * 64 + c) * 64 + d" by (simp add: r_def)
  have q1: "r div 64 = (a * 64 + b) * 64 + c" "r mod 64 = d" unfolding r using digit_64 [OF assms(4)] by blast+
  then have q2: "r div 64 div 64 = a * 64 + b" "r div 64 mod 64 = c" unfolding q1 using digit_64 [OF assms(3)] by blast+
  have "r div 4096 = r div 64 div 64" "r div 262144 = r div 64 div 64 div 64" by (simp_all add: div_mult2_eq [symmetric])
  then have e: "r div 4096 mod 64 = b" "r div 262144 = a" using q2 digit_64 [OF assms(2), of a] by simp_all
  have big: "\<not> r < 128" "\<not> r < 2048" "\<not> r < 65536" "\<not> 1114111 < r" "\<not> r \<le> 57343"
    using assms unfolding r_def by linarith+
  then show ?thesis unfolding r_def [symmetric] encode_rune_def e q1(2) q2(2) by simp
qed

lemma decode_rune_canonical:
  assumes "decode_rune s = (r, n)" "s \<noteq> []" "\<not> (r = rune_error \<and> n = 1)"
  shows "take n s = encode_rune r"
proof -
  obtain c0 cs where s: "s = c0 # cs" using assms(2) by (cases s) auto
  consider (one) "byte c0 < 128"
    | (two) c1 cs1 where "cs = c1 # cs1" "0xC2 \<le> byte c0" "byte c0 \<le> 0xDF" "continuation (byte c1)"
    | (three) c1 c2 cs2 where "cs = c1 # c2 # cs2" "0xE0 \<le> byte c0" "byte c0 \<le> 0xEF"
        "second_byte_ok (byte c0) (byte c1)" "continuation (byte c2)"
    | (four) c1 c2 c3 cs3 where "cs = c1 # c2 # c3 # cs3" "0xF0 \<le> byte c0" "byte c0 \<le> 0xF4"
        "second_byte_ok (byte c0) (byte c1)" "continuation (byte c2)" "continuation (byte c3)"
    using assms(1,3) unfolding s by (auto simp: decode_rune.simps Let_def split: if_splits list.splits)
  then show ?thesis
  proof cases
    case one
    then show ?thesis using assms(1) by (auto simp: s)
  next
    case two
    have "encode_rune ((byte c0 - 0xC0) * 64 + (byte c1 - 0x80)) = [char_of (0xC0 + (byte c0 - 0xC0)), char_of (0x80 + (byte c1 - 0x80))]"
      using two by (intro canonical_two) (auto simp: continuation_def)
    then show ?thesis using assms(1) two by (auto simp: s decode_rune.simps continuation_def)
  next
    case three
    have "encode_rune ((byte c0 - 0xE0) * 4096 + (byte c1 - 0x80) * 64 + (byte c2 - 0x80))
        = [char_of (0xE0 + (byte c0 - 0xE0)), char_of (0x80 + (byte c1 - 0x80)), char_of (0x80 + (byte c2 - 0x80))]"
      using three by (intro canonical_three) (auto simp: continuation_def second_byte_ok_def split: if_splits)
    moreover have "128 \<le> byte c1" using three by (auto simp: continuation_def second_byte_ok_def split: if_splits)
    ultimately show ?thesis using assms(1) three by (auto simp: s decode_rune.simps continuation_def)
  next
    case four
    have "encode_rune ((byte c0 - 0xF0) * 262144 + (byte c1 - 0x80) * 4096 + (byte c2 - 0x80) * 64 + (byte c3 - 0x80))
        = [char_of (0xF0 + (byte c0 - 0xF0)), char_of (0x80 + (byte c1 - 0x80)), char_of (0x80 + (byte c2 - 0x80)),
           char_of (0x80 + (byte c3 - 0x80))]"
      using four by (intro canonical_four) (auto simp: continuation_def second_byte_ok_def split: if_splits)
    moreover have "128 \<le> byte c1" using four by (auto simp: continuation_def second_byte_ok_def split: if_splits)
    ultimately show ?thesis using assms(1) four by (auto simp: s decode_rune.simps continuation_def)
  qed
qed

lemma chunk_canonical: "k \<in> set (chunks s) \<Longrightarrow> \<not> ill_formed k \<Longrightarrow> snd k = encode_rune (fst k) \<and> scalar (fst k) = fst k"
proof (induction s rule: chunks.induct)
  case (2 c cs)
  obtain r n where d: "decode_rune (c # cs) = (r, n)" by (metis surj_pair)
  show ?case
  proof (cases "k = (r, take n (c # cs))")
    case True
    have n: "1 \<le> n" using decode_rune_width [of "c # cs"] d by simp
    have good: "\<not> (r = rune_error \<and> n = 1)" using "2.prems"(2) True n by (auto simp: ill_formed_def)
    have "take n (c # cs) = encode_rune r" using decode_rune_canonical [OF d _ good] by simp
    moreover have "decode_rune (take n (c # cs) @ []) = (r, n)" using decode_rune_prefix(1) [OF d _ good] by blast
    ultimately show ?thesis using decode_encode [of r "[]"] True by simp
  next
    case False
    then have "k \<in> set (chunks (drop n (c # cs)))" using "2.prems"(1) d by (auto simp: chunks.simps(2) Let_def)
    then show ?thesis using "2.IH" [OF refl] "2.prems"(2) d by simp
  qed
qed simp

subsection \<open>Strings\<close>

definition text_char :: "char \<Rightarrow> bool" where
  "text_char c \<longleftrightarrow> 32 \<le> byte c \<and> c \<noteq> CHR 0x22 \<and> c \<noteq> backslash"

lemma string_body_text:
  "list_all text_char p \<Longrightarrow> string_body (p @ u) = map_option (\<lambda>(b, r). (p @ b, r)) (string_body u)"
proof (induction p)
  case Nil
  then show ?case by (cases "string_body u") auto
next
  case (Cons c p)
  then show ?case by (cases "string_body u") (auto simp: text_char_def)
qed

lemma string_body_escape:
  "list_all text_char p \<Longrightarrow>
   string_body (backslash # d # p @ u) = map_option (\<lambda>(b, r). (backslash # d # p @ b, r)) (string_body u)"
  by (cases "string_body u") (auto simp: string_body_text)

text \<open>The bytes that a chunk is read back as: those it had, or U+FFFD.\<close>

definition clean :: "chunk \<Rightarrow> string" where
  "clean k = (if ill_formed k then encode_rune rune_error else snd k)"

definition short_escapes :: "(nat \<times> char) list" where
  "short_escapes = [(0x22, CHR 0x22), (0x5C, backslash), (8, CHR ''b''), (12, CHR ''f''), (10, CHR ''n''), (13, CHR ''r''), (9, CHR ''t'')]"

definition long_escape :: "nat \<Rightarrow> bool" where
  "long_escape r \<longleftrightarrow> r < 32 \<or> r = 0x3C \<or> r = 0x3E \<or> r = 0x26 \<or> r = 0x2028 \<or> r = 0x2029"

lemma char_of_escapes:
  "char_of (0x22::nat) = CHR 0x22" "char_of (0x5C::nat) = backslash" "char_of (8::nat) = CHR 0x08"
  "char_of (12::nat) = CHR 0x0C" "char_of (10::nat) = CHR 0x0A" "char_of (13::nat) = CHR 0x0D"
  "char_of (9::nat) = CHR 0x09"
  by code_simp+

lemma json_escape_cases:
  obtains (bad) "ill_formed k" "json_escape k = backslash # CHR ''u'' # ''fffd''"
  | (short) d where "(fst k, d) \<in> set short_escapes" "\<not> ill_formed k" "json_escape k = [backslash, d]"
  | (long) "long_escape (fst k)" "\<not> ill_formed k" "json_escape k = backslash # CHR ''u'' # hex_digits 4 (fst k)"
  | (plain) "\<not> ill_formed k" "json_escape k = snd k" "32 \<le> fst k" "fst k \<noteq> 0x22" "fst k \<noteq> 0x5C"
proof -
  show thesis
  proof (cases "ill_formed k")
    case True
    then show thesis using bad by (simp add: json_escape_def ill_formed_def Let_def)
  next
    case False
    then have ne: "\<not> (fst k = rune_error \<and> length (snd k) = 1)" by (simp add: ill_formed_def)
    show thesis
    proof (cases "\<exists>d. (fst k, d) \<in> set short_escapes")
      case True
      then obtain d where d: "(fst k, d) \<in> set short_escapes" ..
      then have "fst k = 0x22 \<and> d = CHR 0x22 \<or> fst k = 0x5C \<and> d = backslash \<or> fst k = 8 \<and> d = CHR ''b''
          \<or> fst k = 12 \<and> d = CHR ''f'' \<or> fst k = 10 \<and> d = CHR ''n'' \<or> fst k = 13 \<and> d = CHR ''r'' \<or> fst k = 9 \<and> d = CHR ''t''"
        by (simp add: short_escapes_def)
      then have "json_escape k = [backslash, d]"
        by (elim disjE conjE) (simp_all add: json_escape_def rune_error_def char_of_escapes)
      with d False show thesis by (rule short)
    next
      case False2: False
      then have f: "fst k \<noteq> 0x22" "fst k \<noteq> 0x5C" "fst k \<noteq> 8" "fst k \<noteq> 12" "fst k \<noteq> 10" "fst k \<noteq> 13" "fst k \<noteq> 9"
        by (auto simp: short_escapes_def)
      show thesis
      proof (cases "long_escape (fst k)")
        case True
        then consider "fst k < 32 \<or> fst k = byte (CHR ''<'') \<or> fst k = byte (CHR ''>'') \<or> fst k = byte (CHR ''&'')"
          | "fst k = 0x2028 \<or> fst k = 0x2029"
          unfolding long_escape_def by fastforce
        moreover have "fst k \<noteq> rune_error" using True by (auto simp: long_escape_def rune_error_def)
        ultimately have "json_escape k = backslash # CHR ''u'' # hex_digits 4 (fst k)"
          unfolding json_escape_def Let_def using f by cases simp_all
        with True False show thesis by (rule long)
      next
        case False3: False
        then have "json_escape k = snd k" "32 \<le> fst k"
          using ne f by (auto simp: json_escape_def Let_def long_escape_def)
        with False f show thesis by (intro plain) auto
      qed
    qed
  qed
qed

lemma list_all_digits: "list_all text_char (hex_digits 4 r)" if "long_escape r"
proof -
  have "list_all (\<lambda>r. list_all text_char (hex_digits 4 r)) ([0..<32] @ [0x3C, 0x3E, 0x26, 0x2028, 0x2029])" by code_simp
  then show ?thesis using that by (auto simp: long_escape_def list_all_iff)
qed

lemma hex4_digits: "hex4 (hex_digits 4 r @ u) = Some (r, u)" if "long_escape r"
proof -
  have "list_all (\<lambda>r. length (hex_digits 4 r) = 4 \<and> hex4 (hex_digits 4 r) = Some (r, []))
    ([0..<32] @ [0x3C, 0x3E, 0x26, 0x2028, 0x2029])" by code_simp
  then have "length (hex_digits 4 r) = 4" "hex4 (hex_digits 4 r) = Some (r, [])"
    using that by (auto simp: long_escape_def list_all_iff)
  then show ?thesis by (auto simp: hex4_def split: if_splits)
qed

lemma string_body_json_escape:
  assumes "k \<in> set (chunks s)"
  shows "string_body (json_escape k @ u) = map_option (\<lambda>(b, r). (json_escape k @ b, r)) (string_body u)"
proof (cases rule: json_escape_cases [of k])
  case bad
  have "list_all text_char ''fffd''" by code_simp
  then show ?thesis using string_body_escape [of "''fffd''" "CHR ''u''" u] by (simp add: bad)
next
  case (short d)
  then show ?thesis using string_body_escape [of "[]" d u] by simp
next
  case long
  then show ?thesis using string_body_escape [OF list_all_digits [OF long(1)], of "CHR ''u''" u] by simp
next
  case plain
  have "list_all text_char (snd k)"
  proof (cases "fst k < 128")
    case True
    then obtain c where "k = (byte c, [c])" using chunk_below_128 [OF assms] by blast
    then show ?thesis using plain by (auto simp: text_char_def)
  next
    case False
    have "snd k = encode_rune (fst k)" using chunk_canonical [OF assms plain(1)] by simp
    then have "128 \<le> byte c" if "c \<in> set (snd k)" for c
      using encode_rune_bytes [of c "fst k"] that False by auto
    then show ?thesis by (force simp: text_char_def list_all_iff)
  qed
  then show ?thesis using plain by (simp add: string_body_text)
qed

lemma unescape_json_escape:
  assumes "k \<in> set (chunks s)"
  shows "unescape_body (Suc n) (json_escape k @ u) = map_option ((@) (clean k)) (unescape_body n u)"
proof (cases rule: json_escape_cases [of k])
  case bad
  have "hex4 (''fffd'' @ u) = Some (0xFFFD, u)"
  proof -
    have "hex4 ''fffd'' = Some (0xFFFD, [])" by code_simp
    then show ?thesis by (auto simp: hex4_def split: if_splits)
  qed
  then show ?thesis using bad by (simp add: clean_def rune_error_def)
next
  case (short d)
  have "fst k < 128" using short(1) by (auto simp: short_escapes_def)
  then obtain c where c: "k = (byte c, [c])" using chunk_below_128 [OF assms] by blast
  have "(byte c, d) \<in> set short_escapes" using short(1) c by simp
  then have "d \<noteq> CHR ''u'' \<and> simple_escape d = Some (char_of (byte c))"
    unfolding short_escapes_def by (elim set_ConsD [elim_format] disjE) (auto simp: simple_escape_def char_of_escapes)
  then show ?thesis using short(2,3) c by (simp add: clean_def) (metis append_Cons append_Nil)
next
  case long
  have "snd k = encode_rune (fst k)" using chunk_canonical [OF assms long(2)] by simp
  moreover have "\<not> (0xD800 \<le> fst k \<and> fst k < 0xE000)" using long(1) by (auto simp: long_escape_def)
  ultimately show ?thesis using long hex4_digits [OF long(1), of u] by (auto simp: clean_def)
next
  case plain
  have k: "snd k = encode_rune (fst k)" "scalar (fst k) = fst k" using chunk_canonical [OF assms plain(1)] by simp_all
  obtain c cs where c: "snd k = c # cs" using k(1) by (cases "snd k") (auto simp: encode_rune_def split: if_splits)
  have "c \<noteq> backslash"
  proof
    assume "c = backslash"
    then have "backslash \<in> set (encode_rune (fst k))" using k(1) c by (metis list.set_intros(1))
    then have "backslash = char_of (fst k)" "fst k < 128" using encode_rune_bytes by fastforce+
    then have "byte backslash = fst k" by (simp only: byte_char_of)
    then show False using plain(5) by simp
  qed
  moreover have "decode_rune (snd k @ u) = (fst k, length (snd k))" using decode_encode [of "fst k" u] k by simp
  moreover have "\<not> (fst k = rune_error \<and> length (snd k) = 1)" using plain(1) by (simp add: ill_formed_def)
  ultimately show ?thesis using plain(1,2) c by (auto simp: clean_def Let_def)
qed

declare unescape_body.simps(2) [simp del]

lemma string_body_escapes:
  "set ks \<subseteq> set (chunks s) \<Longrightarrow>
   string_body (concat (map json_escape ks) @ CHR 0x22 # rest) = Some (concat (map json_escape ks), rest)"
proof (induction ks)
  case (Cons k ks)
  then show ?case using string_body_json_escape [of k s "concat (map json_escape ks) @ CHR 0x22 # rest"] by simp
qed simp

lemma json_escape_not_Nil: "k \<in> set (chunks s) \<Longrightarrow> json_escape k \<noteq> []"
  using chunks_nonempty by (cases rule: json_escape_cases [of k]) auto

lemma unescape_escapes:
  "set ks \<subseteq> set (chunks s) \<Longrightarrow> length (concat (map json_escape ks)) \<le> n \<Longrightarrow>
   unescape_body n (concat (map json_escape ks)) = Some (concat (map clean ks))"
proof (induction ks arbitrary: n)
  case Nil
  then show ?case by (cases n) (simp_all add: unescape_body.simps(2))
next
  case (Cons k ks)
  have k: "k \<in> set (chunks s)" using Cons.prems by simp
  then have "json_escape k \<noteq> []" by (rule json_escape_not_Nil)
  then obtain m where m: "n = Suc m" "length (concat (map json_escape ks)) \<le> m"
    using Cons.prems(2) by (cases n; cases "json_escape k") auto
  show ?case using Cons.IH [OF _ m(2)] Cons.prems(1) by (simp add: m(1) unescape_json_escape [OF k])
qed

text \<open>A string is read back with every ill-formed byte replaced by U+FFFD.\<close>

lemma parse_json_string:
  "parse_string (concat (map json_escape (chunks s)) @ CHR 0x22 # rest) = Some (concat (map clean (chunks s)), rest)"
  by (simp add: parse_string_def string_body_escapes [of _ s] unescape_escapes [of _ s])

lemma clean_valid: "ValidString s \<Longrightarrow> concat (map clean (chunks s)) = s"
proof -
  assume "ValidString s"
  then have "map clean (chunks s) = map snd (chunks s)"
    by (auto simp: ValidString_def clean_def ill_formed_def list_all_iff)
  then have "concat (map clean (chunks s)) = chunk_bytes (chunks s)" by (simp only:)
  then show ?thesis by simp
qed

lemma parse_valid_string:
  "ValidString s \<Longrightarrow> parse_string (concat (map json_escape (chunks s)) @ CHR 0x22 # rest) = Some (s, rest)"
  by (simp add: parse_json_string clean_valid)

subsection \<open>Values\<close>

text \<open>The values whose strings are UTF-8 and whose numbers are natural: what the program marshals itself.\<close>

definition natural_text :: "string \<Rightarrow> bool" where
  "natural_text n \<longleftrightarrow> n \<noteq> [] \<and> list_all is_digit n \<and> (HasPrefix n ''0'' \<longrightarrow> n = ''0'')"

fun plain_json :: "json \<Rightarrow> bool" where
  "plain_json (JNum n) = natural_text n"
| "plain_json (JStr s) = ValidString s"
| "plain_json (JArr vs) = list_all plain_json vs"
| "plain_json (JObj kvs) = list_all (\<lambda>(k, v). ValidString k \<and> plain_json v) kvs"
| "plain_json _ = True"

lemma skip_ws_id: "c \<notin> {CHR '' '', CHR 0x09, CHR 0x0A, CHR 0x0D} \<Longrightarrow> skip_ws (c # s) = c # s"
  by (simp add: skip_ws_def)

text \<open>What may follow a value: a number ends where no further digit, point or exponent can.\<close>

definition value_ends :: "string \<Rightarrow> bool" where
  "value_ends rest \<longleftrightarrow> (case rest of [] \<Rightarrow> True | c # _ \<Rightarrow> c \<in> {CHR '','', CHR '']'', CHR ''}''})"

lemma value_ends_simps [simp]:
  "value_ends []" "value_ends (CHR '','' # s)" "value_ends (CHR '']'' # s)" "value_ends (CHR ''}'' # s)"
  by (simp_all add: value_ends_def)

lemma natural_starts: "natural_text n \<Longrightarrow> \<exists>c s. n = c # s \<and> is_digit c"
  by (cases n) (auto simp: natural_text_def)

lemma digit_not_delimiter:
  "is_digit c \<Longrightarrow> c \<notin> {CHR '' '', CHR 0x09, CHR 0x0A, CHR 0x0D, CHR '']'', CHR ''}'', CHR ''n'', CHR ''t'', CHR ''f'', CHR 0x22, CHR ''['', CHR ''{'', CHR ''-''}"
  by (auto simp: is_digit_def)

lemma parse_natural:
  assumes "natural_text n" "value_ends rest"
  shows "parse_number (n @ rest) = Some (n, rest)"
proof -
  obtain c s where n: "n = c # s" "is_digit c" using natural_starts [OF assms(1)] by blast
  have digits: "takeWhile is_digit (n @ rest) = n" "dropWhile is_digit (n @ rest) = rest"
    using assms by (auto simp: natural_text_def value_ends_def list_all_iff is_digit_def takeWhile_append dropWhile_append
        split: list.splits)
  have no_sign: "\<not> HasPrefix (n @ rest) ''-''" using n by (auto simp: is_digit_def)
  have rest: "\<not> HasPrefix rest ''.''" "\<not> HasPrefix rest ''e''" "\<not> HasPrefix rest ''E''"
    using assms(2) by (auto simp: value_ends_def split: list.splits)
  have int: "(if HasPrefix (n @ rest) ''0'' then (''0'', tl (n @ rest)) else span_digits (n @ rest)) = (n, rest)"
  proof (cases "c = CHR ''0''")
    case True
    then have "n = ''0''" using assms(1) n(1) by (simp add: natural_text_def)
    then show ?thesis by simp
  next
    case False
    then have "\<not> HasPrefix (n @ rest) ''0''" using n(1) by simp
    then show ?thesis using digits by (simp add: span_digits_def)
  qed
  have "n \<noteq> []" using n(1) by simp
  then show ?thesis unfolding parse_number_def Let_def
    by (simp only: no_sign rest int if_False list.size(3) drop_0 fst_conv snd_conv simp_thms) simp
qed

lemma Marshal_starts:
  "plain_json v \<Longrightarrow> \<exists>c s. Marshal v = c # s \<and> c \<notin> {CHR '' '', CHR 0x09, CHR 0x0A, CHR 0x0D, CHR '']'', CHR ''}''}"
  by (cases v) (auto simp: json_string_def dest!: natural_starts dest: digit_not_delimiter)

lemma parse_elements_Marshal:
  assumes "\<And>v n rest. v \<in> set vs \<Longrightarrow> length (Marshal v) < n \<Longrightarrow> value_ends rest \<Longrightarrow> parse_value n (Marshal v @ rest) = Some (v, rest)"
    and "vs \<noteq> []" "length (Join (map Marshal vs) '','') + 1 < n"
  shows "parse_elements n (Join (map Marshal vs) '','' @ CHR '']'' # rest) = Some (vs, rest)"
  using assms
proof (induction vs arbitrary: n)
  case (Cons v vs)
  obtain m where n: "n = Suc m" using Cons.prems(3) by (cases n) auto
  have v: "length (Marshal v) < k \<Longrightarrow> value_ends r \<Longrightarrow> parse_value k (Marshal v @ r) = Some (v, r)" for k r
    using Cons.prems(1) by simp
  show ?case
  proof (cases vs)
    case Nil
    then show ?thesis using Cons.prems(3) v [of m "CHR '']'' # rest"] by (simp add: n skip_ws_id)
  next
    case (Cons w ws)
    have IH: "parse_elements m (Join (map Marshal vs) '','' @ CHR '']'' # rest) = Some (vs, rest)"
      using Cons.IH [of m] Cons.prems Cons by (simp add: n)
    show ?thesis using Cons.prems(3) IH v [of m "CHR '','' # Join (map Marshal vs) '','' @ CHR '']'' # rest"]
      by (simp add: n Cons skip_ws_id)
  qed
qed simp

definition member_text :: "string \<times> json \<Rightarrow> string" where
  "member_text kv = json_string (fst kv) @ '':'' @ Marshal (snd kv)"

lemma Marshal_JObj: "Marshal (JObj kvs) = ''{'' @ Join (map member_text kvs) '','' @ ''}''"
proof -
  have "map (\<lambda>(k, v). json_string k @ '':'' @ Marshal v) kvs = map member_text kvs"
    by (auto simp: member_text_def)
  then show ?thesis by (simp only: Marshal.simps)
qed

lemma parse_members_Marshal:
  assumes "\<And>k v n rest. (k, v) \<in> set kvs \<Longrightarrow> length (Marshal v) < n \<Longrightarrow> value_ends rest \<Longrightarrow> parse_value n (Marshal v @ rest) = Some (v, rest)"
    and "\<And>k v. (k, v) \<in> set kvs \<Longrightarrow> ValidString k"
    and "kvs \<noteq> []" "length (Join (map member_text kvs) '','') + 1 < n"
  shows "parse_members n (Join (map member_text kvs) '','' @ CHR ''}'' # rest) = Some (kvs, rest)"
  using assms
proof (induction kvs arbitrary: n)
  case (Cons kv kvs)
  obtain k v where kv: "kv = (k, v)" by (cases kv)
  obtain m where n: "n = Suc m" using Cons.prems(4) by (cases n) auto
  have v: "length (Marshal v) < j \<Longrightarrow> value_ends r \<Longrightarrow> parse_value j (Marshal v @ r) = Some (v, r)" for j r
    using Cons.prems(1) [of k v] kv by simp
  have k: "parse_string (concat (map json_escape (chunks k)) @ CHR 0x22 # r) = Some (k, r)" for r
    using Cons.prems(2) [of k v] kv by (intro parse_valid_string) simp
  show ?case
  proof (cases kvs)
    case Nil
    then show ?thesis using Cons.prems(4) v [of m "CHR ''}'' # rest"] k
      by (simp add: n kv member_text_def json_string_def skip_ws_id)
  next
    case (Cons w ws)
    have IH: "parse_members m (Join (map member_text kvs) '','' @ CHR ''}'' # rest) = Some (kvs, rest)"
    proof (rule Cons.IH)
      show "parse_value j (Marshal v @ r) = Some (v, r)" if "(k, v) \<in> set kvs" "length (Marshal v) < j" "value_ends r" for k v j r
        using Cons.prems(1) [of k v j r] that by simp
      show "ValidString k" if "(k, v) \<in> set kvs" for k v using Cons.prems(2) [of k v] that by simp
    qed (use Cons Cons.prems(4) n in auto)
    have join: "Join (map member_text (kv # kvs)) '','' = CHR 0x22 # concat (map json_escape (chunks k))
        @ CHR 0x22 # CHR '':'' # Marshal v @ CHR '','' # Join (map member_text kvs) '',''"
      by (simp add: Cons kv member_text_def [of "(k, v)"] json_string_def)
    have "length (Marshal v) < m" using Cons.prems(4) unfolding join n by simp
    then show ?thesis using IH v [of m "CHR '','' # Join (map member_text kvs) '','' @ CHR ''}'' # rest"] k
      unfolding join by (simp add: n kv skip_ws_id)
  qed
qed simp

lemma parse_value_starts:
  "c \<notin> {CHR '' '', CHR 0x09, CHR 0x0A, CHR 0x0D, CHR ''n'', CHR ''t'', CHR ''f''} \<Longrightarrow>
   parse_value (Suc n) (c # t) =
     (if c = CHR 0x22 then map_option (\<lambda>(v, r). (JStr v, r)) (parse_string t)
      else if c = CHR ''['' then
        (if HasPrefix (skip_ws t) '']'' then Some (JArr [], tl (skip_ws t))
         else map_option (\<lambda>(vs, r). (JArr vs, r)) (parse_elements n t))
      else if c = CHR ''{'' then
        (if HasPrefix (skip_ws t) ''}'' then Some (JObj [], tl (skip_ws t))
         else map_option (\<lambda>(kvs, r). (JObj kvs, r)) (parse_members n t))
      else map_option (\<lambda>(v, r). (JNum v, r)) (parse_number (c # t)))"
  by (simp add: skip_ws_id Let_def)

declare parse_value.simps(2) [simp del]

lemma Join_starts: "w # ws \<noteq> [] \<Longrightarrow> w = c # s \<Longrightarrow> \<exists>t. Join (w # ws) sep = c # t"
  by (cases ws) auto

lemma parse_value_Marshal:
  "plain_json v \<Longrightarrow> length (Marshal v) < n \<Longrightarrow> value_ends rest \<Longrightarrow> parse_value n (Marshal v @ rest) = Some (v, rest)"
proof (induction v arbitrary: n rest rule: json.induct)
  case (JNum t)
  then obtain m where "n = Suc m" by (cases n) auto
  moreover obtain c s where "t = c # s" "is_digit c" using natural_starts [of t] JNum by auto
  ultimately show ?case using JNum digit_not_delimiter [of c] parse_natural [of t rest]
    by (auto simp: parse_value_starts)
next
  case (JStr s)
  then obtain m where "n = Suc m" by (cases n) auto
  then show ?case using JStr by (simp add: json_string_def parse_value_starts parse_valid_string)
next
  case (JArr vs)
  then obtain m where n: "n = Suc m" by (cases n) auto
  show ?case
  proof (cases vs)
    case Nil
    then show ?thesis by (simp add: n parse_value_starts skip_ws_id)
  next
    case (Cons w ws)
    have "parse_elements m (Join (map Marshal vs) '','' @ CHR '']'' # rest) = Some (vs, rest)"
    proof (rule parse_elements_Marshal)
      show "parse_value k (Marshal v @ r) = Some (v, r)" if "v \<in> set vs" "length (Marshal v) < k" "value_ends r" for v k r
        using JArr.IH that JArr.prems(1) by (auto simp: list_all_iff)
    qed (use JArr.prems(2) Cons n in auto)
    moreover obtain c s where "Marshal w = c # s" "c \<notin> {CHR '' '', CHR 0x09, CHR 0x0A, CHR 0x0D, CHR '']'', CHR ''}''}"
      using Marshal_starts [of w] JArr.prems(1) Cons by auto
    moreover from this obtain t where "Join (map Marshal vs) '','' = c # t"
      using Join_starts [of "Marshal w" "map Marshal ws" c s] Cons by auto
    ultimately show ?thesis by (simp add: n parse_value_starts skip_ws_id)
  qed
next
  case (JObj kvs)
  then obtain m where n: "n = Suc m" by (cases n) auto
  show ?case
  proof (cases kvs)
    case Nil
    then show ?thesis by (simp add: n parse_value_starts skip_ws_id)
  next
    case (Cons w ws)
    have "parse_members m (Join (map member_text kvs) '','' @ CHR ''}'' # rest) = Some (kvs, rest)"
    proof (rule parse_members_Marshal)
      show "parse_value j (Marshal v @ r) = Some (v, r)" if "(k, v) \<in> set kvs" "length (Marshal v) < j" "value_ends r" for k v j r
        using JObj.IH that JObj.prems(1) by (force simp: list_all_iff)
      show "ValidString k" if "(k, v) \<in> set kvs" for k v
        using JObj.prems(1) that by (auto simp: list_all_iff)
    qed (use JObj.prems(2) Cons n in \<open>auto simp: Marshal_JObj simp del: Marshal.simps\<close>)
    moreover obtain t where "Join (map member_text kvs) '','' = CHR 0x22 # t"
      using Join_starts [of "member_text w" "map member_text ws" "CHR 0x22"] Cons
      by (auto simp: member_text_def json_string_def)
    ultimately show ?thesis by (simp add: n Marshal_JObj parse_value_starts skip_ws_id del: Marshal.simps)
  qed
qed (auto simp: parse_value.simps skip_ws_id split: if_splits elim!: less_natE)

text \<open>What the program marshals (objects, arrays and strings of any UTF-8 text), it reads back
  unchanged: no string can break out of its quotes.\<close>

theorem Marshal_roundtrip: "plain_json v \<Longrightarrow> decode_json (Marshal v) = Some v"
  using parse_value_Marshal [of v "Suc (length (Marshal v))" "[]"] by (simp add: decode_json_def skip_ws_def)

end
