(* ===== verification/Store_Configuration.thy ===== *)
theory Store_Configuration
  imports Store_Invariants Go_Json_Proofs
begin

text \<open>
  The configuration of an application as the database sees it: the SQL function
  \<open>application_configuration_state\<close> of the migrations, the snapshot that \<open>CreateDeployment\<close> stores with a
  deployment, and the queries that compare the two to find out whether an application must be deployed
  again. A column of type \<open>jsonb\<close> holds its text; the spacing and the order of members in it, which the
  database chooses, are not observed. The text of a UUID is a parameter.
\<close>

subsection \<open>The configuration state\<close>

definition text_json :: "pg_text \<Rightarrow> json" where
  "text_json v = (case v of None \<Rightarrow> JNull | Some t \<Rightarrow> JStr t)"

definition uuid_json :: "(string \<Rightarrow> string) \<Rightarrow> pg_uuid \<Rightarrow> json" where
  "uuid_json uuid i = text_json (map_option uuid i)"

definition jsonb_column :: "string \<Rightarrow> json" where
  "jsonb_column t = (case decode_json t of None \<Rightarrow> JNull | Some v \<Rightarrow> v)"

definition application_json :: "(string \<Rightarrow> string) \<Rightarrow> application \<Rightarrow> json" where
  "application_json uuid a = JObj
     [(''environment_id'', uuid_json uuid (app_EnvironmentID a)), (''server_id'', uuid_json uuid (app_ServerID a)),
      (''name'', JStr (app_Name a)), (''repository_url'', text_json (app_RepositoryUrl a)), (''branch'', JStr (app_Branch a)),
      (''compose_path'', JStr (app_ComposePath a)), (''remote_directory'', JStr (app_RemoteDirectory a)),
      (''health_check_url'', text_json (app_HealthCheckUrl a)), (''doppler_project'', text_json (app_DopplerProject a)),
      (''doppler_config'', text_json (app_DopplerConfig a)), (''compose_services'', jsonb_column (app_ComposeServices a))]"

definition variable_json :: "project_runtime_variable \<Rightarrow> json" where
  "variable_json v = JObj [(''key'', JStr (pvar_Key v)), (''value'', JStr (pvar_Value v))]"

definition service_config_json :: "service_runtime_config \<Rightarrow> json" where
  "service_config_json c = JObj
     [(''compose_service'', JStr (cfg_ComposeService c)), (''doppler_project'', text_json (cfg_DopplerProject c)),
      (''doppler_config'', text_json (cfg_DopplerConfig c)), (''variables'', jsonb_column (cfg_Variables c))]"

definition configuration_state_of :: "(string \<Rightarrow> string) \<Rightarrow> store \<Rightarrow> application \<Rightarrow> environment \<Rightarrow> json" where
  "configuration_state_of uuid db a e = JObj
     [(''application'', application_json uuid a),
      (''project_variables'', JArr (map variable_json (sort_key (\<lambda>v. collation db (pvar_Key v))
         (filter (\<lambda>v. sql_eq (pvar_ProjectID v) (env_ProjectID e)) (project_variables db))))),
      (''service_runtime_configs'', JArr (map service_config_json (sort_key (\<lambda>c. collation db (cfg_ComposeService c))
         (filter (\<lambda>c. sql_eq (cfg_ApplicationID c) (app_ID a)) (service_configs db)))))]"

definition application_configuration_state :: "(string \<Rightarrow> string) \<Rightarrow> store \<Rightarrow> pg_uuid \<Rightarrow> json option" where
  "application_configuration_state uuid db i =
     (case [(a, e). a \<leftarrow> applications db, sql_eq (app_ID a) i, e \<leftarrow> environments db, sql_eq (env_ID e) (app_EnvironmentID a)] of
        [] \<Rightarrow> None
      | (a, e) # _ \<Rightarrow> Some (configuration_state_of uuid db a e))"

text \<open>The object that \<open>CreateDeployment\<close> builds for the row that it inserts.\<close>

definition snapshot_json :: "(string \<Rightarrow> string) \<Rightarrow> store \<Rightarrow> application \<Rightarrow> project \<Rightarrow> json" where
  "snapshot_json uuid db a p = JObj
     [(''application_revision'', JNum (FormatInt (app_ConfigurationRevision a))),
      (''project_revision'', JNum (FormatInt (proj_ConfigurationRevision p))),
      (''repository_url'', text_json (app_RepositoryUrl a)), (''branch'', JStr (app_Branch a)),
      (''compose_path'', JStr (app_ComposePath a)), (''health_check_url'', text_json (app_HealthCheckUrl a)),
      (''doppler_project'', text_json (app_DopplerProject a)), (''doppler_config'', text_json (app_DopplerConfig a)),
      (''configuration_state'', (case application_configuration_state uuid db (app_ID a) of None \<Rightarrow> JNull | Some st \<Rightarrow> st))]"

definition application_rows :: "store \<Rightarrow> (application \<times> environment \<times> project) list" where
  "application_rows db =
     [(a, e, p). a \<leftarrow> applications db, e \<leftarrow> environments db, sql_eq (env_ID e) (app_EnvironmentID a),
                 p \<leftarrow> projects db, sql_eq (proj_ID p) (env_ProjectID e)]"

definition configuration_snapshot :: "(string \<Rightarrow> string) \<Rightarrow> store \<Rightarrow> pg_uuid \<Rightarrow> string" where
  "configuration_snapshot uuid db i =
     (case filter (\<lambda>(a, e, p). sql_eq (app_ID a) i) (application_rows db) of
        [] \<Rightarrow> []
      | (a, e, p) # _ \<Rightarrow> Marshal (snapshot_json uuid db a p))"

definition create_deployment :: "(string \<Rightarrow> string) \<Rightarrow> string \<Rightarrow> create_deployment_params \<Rightarrow> deployment stmt" where
  "create_deployment uuid new_id arg db =
     CreateDeployment new_id (configuration_snapshot uuid db (cd_ApplicationID arg)) arg db"

lemma create_deployment_keeps:
  "(\<And>snapshot. stmt_keeps I (CreateDeployment new_id snapshot arg)) \<Longrightarrow> stmt_keeps I (create_deployment uuid new_id arg)"
  unfolding stmt_keeps_def create_deployment_def by blast

subsection \<open>Candidates\<close>

definition succeeded_for :: "application \<Rightarrow> deployment \<Rightarrow> bool" where
  "succeeded_for a d \<longleftrightarrow> sql_eq (dep_ApplicationID d) (app_ID a) \<and> dep_Status d = ''succeeded''"

definition active_slot_for :: "application \<Rightarrow> deployment \<Rightarrow> deployment_slot \<Rightarrow> bool" where
  "active_slot_for a d s \<longleftrightarrow> sql_eq (slot_DeploymentID s) (dep_ID d) \<and> sql_eq (slot_ApplicationID s) (app_ID a)
     \<and> sql_eq (slot_ServerID s) (app_ServerID a) \<and> slot_Status s = ''active''"

definition newest_first :: "pg_time \<Rightarrow> int" where
  "newest_first t = (case t of None \<Rightarrow> 1 | Some n \<Rightarrow> - int n)"

definition slots_for :: "store \<Rightarrow> application \<Rightarrow> deployment \<Rightarrow> deployment_slot option list" where
  "slots_for db a d =
     (case filter (active_slot_for a d) (slots db) of [] \<Rightarrow> [None] | ss \<Rightarrow> map Some ss)"

definition active_deployment :: "store \<Rightarrow> application \<Rightarrow> deployment option" where
  "active_deployment db a =
     (case sort_key (\<lambda>(d, s). if s = None then 1 else (0 :: nat))
        (sort_key (\<lambda>(d, s). case s of None \<Rightarrow> 1 | Some slot \<Rightarrow> newest_first (slot_UpdatedAt slot))
          (sort_key (\<lambda>(d, s). newest_first (dep_CreatedAt d))
            [(d, s). d \<leftarrow> filter (succeeded_for a) (deployments db), s \<leftarrow> slots_for db a d])) of
        [] \<Rightarrow> None
      | (d, s) # _ \<Rightarrow> Some d)"

definition stored_state :: "deployment \<Rightarrow> json option" where
  "stored_state d =
     (case decode_json (dep_ConfigurationSnapshot d) of
        Some (JObj kvs) \<Rightarrow> map_of kvs ''configuration_state''
      | _ \<Rightarrow> None)"

definition redeploy_required :: "(string \<Rightarrow> string) \<Rightarrow> store \<Rightarrow> application \<Rightarrow> project \<Rightarrow> bool" where
  "redeploy_required uuid db a p \<longleftrightarrow>
     list_ex (succeeded_for a) (deployments db) \<and>
     (case Option.bind (active_deployment db a) stored_state of
        Some st \<Rightarrow> application_configuration_state uuid db (app_ID a) \<noteq> Some st
      | None \<Rightarrow> app_DeployedConfigurationRevision a < app_ConfigurationRevision a
          \<or> app_DeployedProjectConfigurationRevision a < proj_ConfigurationRevision p)"

definition deployment_in_progress :: "store \<Rightarrow> pg_uuid \<Rightarrow> bool" where
  "deployment_in_progress db i \<longleftrightarrow> list_ex (\<lambda>d. sql_eq (dep_ApplicationID d) i \<and> in_progress d) (deployments db)"

record redeploy_candidate =
  rc_ApplicationID :: pg_uuid
  rc_ApplicationName :: string
  rc_RedeployRequired :: "bool option"
  rc_DeploymentInProgress :: bool
  rc_SourceDeploymentID :: pg_uuid
  rc_SourceCommitSha :: pg_text
  rc_SourceImageRef :: pg_text
  rc_SourceImageDigest :: pg_text
  rc_SourceRepositoryUrl :: pg_text
  rc_SourceBranch :: pg_text

definition candidate_of :: "(string \<Rightarrow> string) \<Rightarrow> store \<Rightarrow> application \<Rightarrow> project \<Rightarrow> redeploy_candidate" where
  "candidate_of uuid db a p =
     (let source = active_deployment db a in
      \<lparr>rc_ApplicationID = app_ID a, rc_ApplicationName = app_Name a,
       rc_RedeployRequired = Some (redeploy_required uuid db a p),
       rc_DeploymentInProgress = deployment_in_progress db (app_ID a),
       rc_SourceDeploymentID = Option.bind source dep_ID, rc_SourceCommitSha = Option.bind source dep_CommitSha,
       rc_SourceImageRef = Option.bind source dep_ImageRef, rc_SourceImageDigest = Option.bind source dep_ImageDigest,
       rc_SourceRepositoryUrl = Option.bind source dep_SourceRepositoryUrl,
       rc_SourceBranch = Option.bind source dep_SourceBranch\<rparr>)"

definition GetApplicationConfigurationRedeployCandidate :: "(string \<Rightarrow> string) \<Rightarrow> pg_uuid \<Rightarrow> redeploy_candidate stmt" where
  "GetApplicationConfigurationRedeployCandidate uuid i db =
     try_bind (one_row [candidate_of uuid db a p. (a, e, p) \<leftarrow> application_rows db, sql_eq (app_ID a) i]) (\<lambda>c. Inr (c, db))"

text \<open>The rows of the query for a project do not carry whether a redeployment is required: they all are.\<close>

definition ListProjectConfigurationRedeployCandidates :: "(string \<Rightarrow> string) \<Rightarrow> pg_uuid \<Rightarrow> redeploy_candidate list stmt" where
  "ListProjectConfigurationRedeployCandidates uuid project_id db =
     Inr (sort_key (\<lambda>c. collation db (rc_ApplicationName c)) (sort_key (\<lambda>c. case rc_ApplicationID c of None \<Rightarrow> [] | Some i \<Rightarrow> i)
       [candidate_of uuid db a p. (a, e, p) \<leftarrow> application_rows db, sql_eq (env_ProjectID e) project_id, redeploy_required uuid db a p]), db)"

definition GetApplicationForUpdate :: "pg_uuid \<Rightarrow> application stmt" where
  "GetApplicationForUpdate i db =
     try_bind (one_row (filter (\<lambda>a. sql_eq (app_ID a) i) (applications db))) (\<lambda>a. Inr (a, db))"

definition GetProject :: "pg_uuid \<Rightarrow> project stmt" where
  "GetProject i db = try_bind (one_row (filter (\<lambda>p. sql_eq (proj_ID p) i) (projects db))) (\<lambda>p. Inr (p, db))"

lemma configuration_read_only:
  "GetApplicationConfigurationRedeployCandidate uuid i db = Inr (c, db') \<Longrightarrow> db' = db"
  "ListProjectConfigurationRedeployCandidates uuid i db = Inr (cs, db') \<Longrightarrow> db' = db"
  "GetApplicationForUpdate i db = Inr (a, db') \<Longrightarrow> db' = db"
  "GetProject i db = Inr (p, db') \<Longrightarrow> db' = db"
  by (auto simp: GetApplicationConfigurationRedeployCandidate_def ListProjectConfigurationRedeployCandidates_def
      GetApplicationForUpdate_def GetProject_def)

lemma configuration_queries_keep:
  "stmt_keeps I (GetApplicationConfigurationRedeployCandidate uuid i)"
  "stmt_keeps I (ListProjectConfigurationRedeployCandidates uuid i)"
  "stmt_keeps I (GetApplicationForUpdate i)" "stmt_keeps I (GetProject i)"
  by (auto simp: stmt_keeps_def dest: configuration_read_only)

end
