(* ===== verification/Store_Settings.thy ===== *)
theory Store_Settings
  imports Store_Configuration
begin

text \<open>
  The statements of \<^verbatim>\<open>internal/db/core.sql.go\<close> that edit what is deployed: applications, the variables of
  projects, and the runtime configurations of Compose services, with the constraints of the migrations.
\<close>

subsection \<open>Applications\<close>

record create_application_params =
  ca_EnvironmentID :: pg_uuid
  ca_ServerID :: pg_uuid
  ca_Name :: string
  ca_RepositoryUrl :: pg_text
  ca_Branch :: string
  ca_ComposePath :: string
  ca_RemoteDirectory :: string
  ca_Domain :: pg_text
  ca_HealthCheckUrl :: pg_text
  ca_DopplerProject :: pg_text
  ca_DopplerConfig :: pg_text
  ca_GithubAutoDeploy :: bool

text \<open>The parameters of an update: those of a creation, the services, and the row.\<close>

record update_application_params =
  ua_fields :: create_application_params
  ua_ComposeServices :: string
  ua_ID :: pg_uuid

definition btrim :: "string \<Rightarrow> string" where
  "btrim v = Trim v '' ''"

definition is_array :: "json \<Rightarrow> bool" where
  "is_array j \<longleftrightarrow> (case j of JArr _ \<Rightarrow> True | _ \<Rightarrow> False)"

definition no_parent_segment :: "string \<Rightarrow> bool" where
  "no_parent_segment v \<longleftrightarrow> ''..'' \<notin> set (Split v (CHR ''/''))"

definition branch_check :: "string \<Rightarrow> bool" where
  "branch_check v \<longleftrightarrow> v \<noteq> [] \<and> \<not> HasPrefix v ''-'' \<and> \<not> HasPrefix v ''/'' \<and> \<not> HasSuffix v ''/'' \<and> \<not> Contains v ''//''
     \<and> \<not> Contains v ''..'' \<and> \<not> HasSuffix v ''.lock'' \<and> \<not> HasSuffix v ''.''
     \<and> (\<forall>r\<in>set (runes v). r_alnum r \<or> one_of ''._/-'' r)"

definition compose_path_check :: "string \<Rightarrow> bool" where
  "compose_path_check v \<longleftrightarrow> v \<noteq> [] \<and> v \<noteq> ''.'' \<and> \<not> HasPrefix v ''/'' \<and> no_parent_segment v"

definition remote_directory_check :: "string \<Rightarrow> bool" where
  "remote_directory_check v \<longleftrightarrow> v \<noteq> [] \<and> HasPrefix v ''/'' \<and> v \<noteq> ''/'' \<and> \<not> Contains v ''//'' \<and> no_parent_segment v"

definition repository_name :: matcher where
  "repository_name = m_plus (m_set (\<lambda>r. r_alnum r \<or> one_of ''_.-'' r))"

definition repository_url_pattern :: matcher where
  "repository_url_pattern =
     m_alt (m_seq (m_lit ''git@github.com:'') (m_seq repository_name (m_seq (m_lit ''/'') (m_seq repository_name (m_lit ''.git'')))))
       (m_seq (m_lit ''https://github.com/'') (m_seq repository_name (m_seq (m_lit ''/'') (m_seq repository_name (m_opt (m_lit ''.git''))))))"

text \<open>\<open>^https?://[^/@]+@\<close>: user information in the URL.\<close>

definition url_credentials :: "string \<Rightarrow> bool" where
  "url_credentials v \<longleftrightarrow>
     (let rest = (if HasPrefix v ''http://'' then drop 7 v else drop 8 v);
          before = takeWhile (\<lambda>c. c \<noteq> CHR ''/'' \<and> c \<noteq> CHR ''@'') rest in
      before \<noteq> [] \<and> HasPrefix (drop (length before) rest) ''@'')"

definition health_check_url_check :: "string \<Rightarrow> bool" where
  "health_check_url_check v \<longleftrightarrow> btrim v \<noteq> [] \<and> (HasPrefix v ''http://'' \<or> HasPrefix v ''https://'')
     \<and> \<not> HasControlCharacter v \<and> \<not> url_credentials v"

definition doppler_check :: "string \<Rightarrow> bool" where
  "doppler_check v \<longleftrightarrow> btrim v \<noteq> [] \<and> \<not> HasControlCharacter v"

definition application_check :: "create_application_params \<Rightarrow> string option" where
  "application_check arg =
     (if btrim (ca_Name arg) = [] then Some ''applications_name_check''
      else if \<not> opt_all (full_match repository_url_pattern) (ca_RepositoryUrl arg) then Some ''applications_repository_url_check''
      else if \<not> branch_check (btrim (ca_Branch arg)) then Some ''applications_branch_check''
      else if \<not> compose_path_check (btrim (ca_ComposePath arg)) then Some ''applications_compose_path_check''
      else if \<not> remote_directory_check (btrim (ca_RemoteDirectory arg)) then Some ''applications_remote_directory_check''
      else if \<not> opt_all health_check_url_check (ca_HealthCheckUrl arg) then Some ''applications_health_check_url_check''
      else if \<not> opt_all doppler_check (ca_DopplerProject arg) then Some ''applications_doppler_project_check''
      else if \<not> opt_all doppler_check (ca_DopplerConfig arg) then Some ''applications_doppler_config_check''
      else if (ca_DopplerProject arg = None) \<noteq> (ca_DopplerConfig arg = None) then Some ''applications_check''
      else None)"

definition application_texts :: "create_application_params \<Rightarrow> pg_text list" where
  "application_texts arg =
     [Some (ca_Name arg), ca_RepositoryUrl arg, Some (ca_Branch arg), Some (ca_ComposePath arg), Some (ca_RemoteDirectory arg),
      ca_Domain arg, ca_HealthCheckUrl arg, ca_DopplerProject arg, ca_DopplerConfig arg]"

definition application_violation :: "create_application_params \<Rightarrow> store \<Rightarrow> go_error option" where
  "application_violation arg db =
     (if \<not> list_all (opt_all pg_text_ok) (application_texts arg) then Some encoding_error
      else if ca_EnvironmentID arg = None then Some (null_error ''environment_id'')
      else if ca_ServerID arg = None then Some (null_error ''server_id'')
      else case application_check arg of
        Some constraint \<Rightarrow> Some (check_error constraint)
      | None \<Rightarrow>
          if \<not> list_ex (\<lambda>e. env_ID e = ca_EnvironmentID arg) (environments db) then Some (fk_error ''applications_environment_id_fkey'')
          else if \<not> list_ex (\<lambda>s. srv_ID s = ca_ServerID arg) (servers db) then Some (fk_error ''applications_server_id_fkey'')
          else None)"

definition CreateApplication :: "string \<Rightarrow> create_application_params \<Rightarrow> application stmt" where
  "CreateApplication new_id arg db =
     (case application_violation arg db of
        Some err \<Rightarrow> Inl err
      | None \<Rightarrow>
          if \<exists>a\<in>set (applications db). app_ID a = Some new_id then Inl (unique_error ''applications_pkey'')
          else
            let a = \<lparr>app_ID = Some new_id, app_EnvironmentID = ca_EnvironmentID arg, app_ServerID = ca_ServerID arg,
                     app_Name = ca_Name arg, app_RepositoryUrl = ca_RepositoryUrl arg, app_Branch = ca_Branch arg,
                     app_ComposePath = ca_ComposePath arg, app_RemoteDirectory = ca_RemoteDirectory arg, app_Domain = ca_Domain arg,
                     app_HealthCheckUrl = ca_HealthCheckUrl arg, app_DopplerProject = ca_DopplerProject arg,
                     app_DopplerConfig = ca_DopplerConfig arg, app_Status = ''idle'', app_CurrentVersion = None,
                     app_TargetVersion = None, app_CreatedAt = now db, app_UpdatedAt = now db,
                     app_GithubAutoDeploy = ca_GithubAutoDeploy arg, app_ConfigurationRevision = 0,
                     app_DeployedConfigurationRevision = 0, app_DeployedProjectConfigurationRevision = 0,
                     app_ComposeServices = ''[]''\<rparr>
            in Inr (a, db\<lparr>applications := applications db @ [a]\<rparr>))"

text \<open>The columns whose change makes a new revision of the configuration: all but the domain and the automatic deployment.\<close>

definition application_settings :: "application \<Rightarrow> (pg_uuid \<times> pg_uuid \<times> pg_text list) \<times> json" where
  "application_settings a =
     ((app_EnvironmentID a, app_ServerID a,
       [Some (app_Name a), app_RepositoryUrl a, Some (app_Branch a), Some (app_ComposePath a), Some (app_RemoteDirectory a),
        app_HealthCheckUrl a, app_DopplerProject a, app_DopplerConfig a]), jsonb_column (app_ComposeServices a))"

definition set_application :: "update_application_params \<Rightarrow> pg_time \<Rightarrow> application \<Rightarrow> application" where
  "set_application arg t a =
     (let f = ua_fields arg;
          b = a\<lparr>app_EnvironmentID := ca_EnvironmentID f, app_ServerID := ca_ServerID f, app_Name := ca_Name f,
                 app_RepositoryUrl := ca_RepositoryUrl f, app_Branch := ca_Branch f, app_ComposePath := ca_ComposePath f,
                 app_RemoteDirectory := ca_RemoteDirectory f, app_Domain := ca_Domain f, app_HealthCheckUrl := ca_HealthCheckUrl f,
                 app_DopplerProject := ca_DopplerProject f, app_DopplerConfig := ca_DopplerConfig f,
                 app_GithubAutoDeploy := ca_GithubAutoDeploy f, app_ComposeServices := ua_ComposeServices arg, app_UpdatedAt := t\<rparr>
      in b\<lparr>app_ConfigurationRevision := (if application_settings b \<noteq> application_settings a
             then app_ConfigurationRevision a + 1 else app_ConfigurationRevision a)\<rparr>)"

definition UpdateApplication :: "update_application_params \<Rightarrow> application stmt" where
  "UpdateApplication arg db =
     (case decode_json (ua_ComposeServices arg) of
        None \<Rightarrow> Inl (PgError ''22P02'' [] ''invalid input syntax for type json'')
      | Some services \<Rightarrow>
          if \<not> list_ex (\<lambda>a. sql_eq (app_ID a) (ua_ID arg)) (applications db) then Inl ErrNoRows
          else if \<not> is_array services then Inl (check_error ''applications_compose_services_array'')
          else case application_violation (ua_fields arg) db of
            Some err \<Rightarrow> Inl err
          | None \<Rightarrow> update_application (\<lambda>a. sql_eq (app_ID a) (ua_ID arg)) (set_application arg (now db)) db)"

definition GetEnvironment :: "pg_uuid \<Rightarrow> environment stmt" where
  "GetEnvironment i db = try_bind (one_row (filter (\<lambda>e. sql_eq (env_ID e) i) (environments db))) (\<lambda>e. Inr (e, db))"

definition GetServer :: "pg_uuid \<Rightarrow> server stmt" where
  "GetServer i db = try_bind (one_row (filter (\<lambda>s. sql_eq (srv_ID s) i) (servers db))) (\<lambda>s. Inr (s, db))"

definition BumpApplicationConfigurationRevision :: "pg_uuid \<Rightarrow> unit stmt" where
  "BumpApplicationConfigurationRevision i db =
     Inr ((), db\<lparr>applications := update_rows (\<lambda>a. sql_eq (app_ID a) i)
       (\<lambda>a. a\<lparr>app_ConfigurationRevision := app_ConfigurationRevision a + 1, app_UpdatedAt := now db\<rparr>) (applications db)\<rparr>)"

subsection \<open>Variables of projects\<close>

definition GetProjectForUpdate :: "pg_uuid \<Rightarrow> project stmt" where
  "GetProjectForUpdate i db = try_bind (one_row (filter (\<lambda>p. sql_eq (proj_ID p) i) (projects db))) (\<lambda>p. Inr (p, db))"

definition ListProjectRuntimeVariables :: "pg_uuid \<Rightarrow> project_runtime_variable list stmt" where
  "ListProjectRuntimeVariables i db =
     Inr (sort_key (\<lambda>v. collation db (pvar_Key v)) (filter (\<lambda>v. sql_eq (pvar_ProjectID v) i) (project_variables db)), db)"

definition DeleteProjectRuntimeVariables :: "pg_uuid \<Rightarrow> unit stmt" where
  "DeleteProjectRuntimeVariables i db =
     Inr ((), db\<lparr>project_variables := filter (\<lambda>v. \<not> sql_eq (pvar_ProjectID v) i) (project_variables db)\<rparr>)"

definition variable_check :: "string \<Rightarrow> string \<Rightarrow> go_error option" where
  "variable_check key v =
     (if \<not> pg_text_ok key \<or> \<not> pg_text_ok v then Some encoding_error
      else if \<not> full_match (m_seq (m_set (\<lambda>r. r_upper r \<or> r_lower r \<or> r = 95)) (m_star (m_set (\<lambda>r. r_alnum r \<or> r = 95)))) key
        then Some (check_error ''project_runtime_variables_key_check'')
      else if 128 < length (runes key) then Some (check_error ''project_runtime_variables_key_check1'')
      else if 8192 < length (runes v) then Some (check_error ''project_runtime_variables_value_check'')
      else if HasControlCharacter v then Some (check_error ''project_runtime_variables_value_check1'')
      else None)"

definition UpsertProjectRuntimeVariable :: "pg_uuid \<Rightarrow> string \<Rightarrow> string \<Rightarrow> project_runtime_variable stmt" where
  "UpsertProjectRuntimeVariable i key v db =
     (case variable_check key v of
        Some err \<Rightarrow> Inl err
      | None \<Rightarrow>
          if i = None then Inl (null_error ''project_id'')
          else if \<not> list_ex (\<lambda>p. proj_ID p = i) (projects db) then Inl (fk_error ''project_runtime_variables_project_id_fkey'')
          else
            let same = (\<lambda>x. pvar_ProjectID x = i \<and> pvar_Key x = key) in
            case filter same (project_variables db) of
              old # _ \<Rightarrow>
                (let upd = (\<lambda>x. x\<lparr>pvar_Value := v, pvar_UpdatedAt := now db\<rparr>)
                 in Inr (upd old, db\<lparr>project_variables := update_rows same upd (project_variables db)\<rparr>))
            | [] \<Rightarrow>
                (let x = \<lparr>pvar_ProjectID = i, pvar_Key = key, pvar_Value = v, pvar_CreatedAt = now db, pvar_UpdatedAt = now db\<rparr>
                 in Inr (x, db\<lparr>project_variables := project_variables db @ [x]\<rparr>)))"

definition IncrementProjectConfigurationRevision :: "pg_uuid \<Rightarrow> int stmt" where
  "IncrementProjectConfigurationRevision i db =
     try_bind (one_row (filter (\<lambda>p. sql_eq (proj_ID p) i) (projects db))) (\<lambda>p.
       Inr (proj_ConfigurationRevision p + 1,
         db\<lparr>projects := update_rows (\<lambda>p. sql_eq (proj_ID p) i)
           (\<lambda>p. p\<lparr>proj_ConfigurationRevision := proj_ConfigurationRevision p + 1, proj_UpdatedAt := now db\<rparr>) (projects db)\<rparr>))"

subsection \<open>Runtime configurations of services\<close>

definition config_row :: "pg_uuid \<Rightarrow> string \<Rightarrow> service_runtime_config \<Rightarrow> bool" where
  "config_row i service c \<longleftrightarrow> sql_eq (cfg_ApplicationID c) i \<and> cfg_ComposeService c = service"

definition GetApplicationServiceRuntimeConfig :: "pg_uuid \<Rightarrow> string \<Rightarrow> service_runtime_config stmt" where
  "GetApplicationServiceRuntimeConfig i service db =
     try_bind (one_row (filter (config_row i service) (service_configs db))) (\<lambda>c. Inr (c, db))"

definition DeleteApplicationServiceRuntimeConfig :: "pg_uuid \<Rightarrow> string \<Rightarrow> unit stmt" where
  "DeleteApplicationServiceRuntimeConfig i service db =
     Inr ((), db\<lparr>service_configs := filter (\<lambda>c. \<not> config_row i service c) (service_configs db)\<rparr>)"

definition service_config_check :: "string \<Rightarrow> pg_text \<Rightarrow> pg_text \<Rightarrow> json \<Rightarrow> string option" where
  "service_config_check service doppler_project doppler_config variables =
     (if btrim service = [] \<or> 128 < length (runes service)
         \<or> \<not> full_match (m_plus (m_set (\<lambda>r. r_alnum r \<or> one_of ''_.-'' r))) service
        then Some ''application_service_runtime_configs_compose_service_check''
      else if \<not> opt_all doppler_check doppler_project then Some ''application_service_runtime_configs_doppler_project_check''
      else if \<not> opt_all doppler_check doppler_config then Some ''application_service_runtime_configs_doppler_config_check''
      else if (doppler_project = None) \<noteq> (doppler_config = None) then Some ''application_service_runtime_configs_check''
      else if \<not> is_array variables then Some ''application_service_runtime_configs_variables_check''
      else None)"

definition UpsertApplicationServiceRuntimeConfig ::
  "pg_uuid \<Rightarrow> string \<Rightarrow> pg_text \<Rightarrow> pg_text \<Rightarrow> string \<Rightarrow> service_runtime_config stmt" where
  "UpsertApplicationServiceRuntimeConfig i service doppler_project doppler_config variables db =
     (if \<not> list_all (opt_all pg_text_ok) [Some service, doppler_project, doppler_config] then Inl encoding_error
      else case decode_json variables of
        None \<Rightarrow> Inl (PgError ''22P02'' [] ''invalid input syntax for type json'')
      | Some vs \<Rightarrow>
          (case service_config_check service doppler_project doppler_config vs of
             Some constraint \<Rightarrow> Inl (check_error constraint)
           | None \<Rightarrow>
               if i = None then Inl (null_error ''application_id'')
               else if \<not> list_ex (\<lambda>a. app_ID a = i) (applications db)
                 then Inl (fk_error ''application_service_runtime_configs_application_id_fkey'')
               else (case filter (config_row i service) (service_configs db) of
                  old # _ \<Rightarrow>
                    (let upd = (\<lambda>c. c\<lparr>cfg_DopplerProject := doppler_project, cfg_DopplerConfig := doppler_config,
                                     cfg_Variables := variables, cfg_UpdatedAt := now db\<rparr>)
                     in Inr (upd old, db\<lparr>service_configs := update_rows (config_row i service) upd (service_configs db)\<rparr>))
                | [] \<Rightarrow>
                    (let c = \<lparr>cfg_ApplicationID = i, cfg_ComposeService = service, cfg_DopplerProject = doppler_project,
                              cfg_DopplerConfig = doppler_config, cfg_Variables = variables, cfg_CreatedAt = now db, cfg_UpdatedAt = now db\<rparr>
                     in Inr (c, db\<lparr>service_configs := service_configs db @ [c]\<rparr>)))))"

lemma settings_read_only:
  "stmt_keeps I (GetEnvironment i)" "stmt_keeps I (GetServer i)" "stmt_keeps I (GetProjectForUpdate i)"
  "stmt_keeps I (ListProjectRuntimeVariables i)" "stmt_keeps I (GetApplicationServiceRuntimeConfig i service)"
  by (auto simp: stmt_keeps_def GetEnvironment_def GetServer_def GetProjectForUpdate_def ListProjectRuntimeVariables_def
      GetApplicationServiceRuntimeConfig_def)

text \<open>None of these statements touches deployments, slots or logs.\<close>

lemma settings_frame:
  "frames (CreateApplication new_id ca)" "frames (UpdateApplication ua)" "frames (BumpApplicationConfigurationRevision i)"
  "frames (DeleteProjectRuntimeVariables i)" "frames (UpsertProjectRuntimeVariable i key v)"
  "frames (IncrementProjectConfigurationRevision i)" "frames (DeleteApplicationServiceRuntimeConfig i service)"
  "frames (UpsertApplicationServiceRuntimeConfig i service dp dc vars)"
  by (auto simp: frames_def core_def CreateApplication_def UpdateApplication_def BumpApplicationConfigurationRevision_def
      DeleteProjectRuntimeVariables_def UpsertProjectRuntimeVariable_def IncrementProjectConfigurationRevision_def
      DeleteApplicationServiceRuntimeConfig_def UpsertApplicationServiceRuntimeConfig_def update_application_def Let_def
      split: option.splits list.splits if_splits)

lemmas settings_ok [stmt_keeps_rules] = settings_frame [THEN frames_ok]

end
