(* ===== verification/Store_Places.thy ===== *)
theory Store_Places
  imports Store_Settings
begin

text \<open>
  The statements of \<^verbatim>\<open>internal/db/core.sql.go\<close> that edit where and for whom is deployed: projects, environments and
  proxy routes, and the removal of applications with all that belongs to them.
\<close>

subsection \<open>Projects\<close>

record project_params =
  pp_Name :: string
  pp_Slug :: string
  pp_Description :: string

definition slug_check :: matcher where
  "slug_check = (let c = m_set (\<lambda>r. r_lower r \<or> r_digit r) in
     m_alt (m_seq c (m_seq (m_star (m_set (\<lambda>r. r_lower r \<or> r_digit r \<or> r = 45))) c)) c)"

definition project_check :: "project_params \<Rightarrow> go_error option" where
  "project_check arg =
     (if \<not> pg_text_ok (pp_Name arg) \<or> \<not> pg_text_ok (pp_Slug arg) \<or> \<not> pg_text_ok (pp_Description arg) then Some encoding_error
      else if btrim (pp_Name arg) = [] then Some (check_error ''projects_name_check'')
      else if \<not> full_match slug_check (pp_Slug arg) then Some (check_error ''projects_slug_check'')
      else if HasControlCharacter (pp_Name arg) \<or> HasControlCharacter (pp_Description arg) then Some (check_error ''projects_check'')
      else None)"

text \<open>The statement creates the project together with its environment for production.\<close>

definition CreateProjectWithDefaultEnvironments :: "string \<Rightarrow> string \<Rightarrow> project_params \<Rightarrow> project stmt" where
  "CreateProjectWithDefaultEnvironments new_id new_env_id arg db =
     (case project_check arg of
        Some err \<Rightarrow> Inl err
      | None \<Rightarrow>
          if list_ex (\<lambda>p. proj_Slug p = pp_Slug arg) (projects db) then Inl (unique_error ''projects_slug_key'')
          else if list_ex (\<lambda>p. proj_ID p = Some new_id) (projects db) then Inl (unique_error ''projects_pkey'')
          else if list_ex (\<lambda>e. env_ID e = Some new_env_id) (environments db) then Inl (unique_error ''environments_pkey'')
          else
            let p = \<lparr>proj_ID = Some new_id, proj_Name = pp_Name arg, proj_Slug = pp_Slug arg, proj_Description = pp_Description arg,
                     proj_CreatedAt = now db, proj_UpdatedAt = now db, proj_DefaultRegistryID = None,
                     proj_RepositoryConnectorID = None, proj_RepositoryFullName = None, proj_RepositoryBranch = None,
                     proj_ConfigurationRevision = 0\<rparr>;
                e = \<lparr>env_ID = Some new_env_id, env_ProjectID = Some new_id, env_Name = ''Production'', env_Slug = ''production'',
                     env_Kind = ''production'', env_IsEphemeral = False, env_PullRequestNumber = None, env_Branch = None,
                     env_ExpiresAt = None, env_CreatedAt = now db, env_UpdatedAt = now db\<rparr>
            in Inr (p, db\<lparr>projects := projects db @ [p], environments := environments db @ [e]\<rparr>))"

definition update_project :: "pg_uuid \<Rightarrow> (project \<Rightarrow> project) \<Rightarrow> project stmt" where
  "update_project i f db =
     try_bind (one_row (filter (\<lambda>p. sql_eq (proj_ID p) i) (projects db))) (\<lambda>p.
       Inr (f p, db\<lparr>projects := update_rows (\<lambda>p. sql_eq (proj_ID p) i) f (projects db)\<rparr>))"

definition UpdateProject :: "pg_uuid \<Rightarrow> project_params \<Rightarrow> project stmt" where
  "UpdateProject i arg db =
     (if \<not> pg_text_ok (pp_Name arg) \<or> \<not> pg_text_ok (pp_Slug arg) \<or> \<not> pg_text_ok (pp_Description arg) then Inl encoding_error
      else if \<not> list_ex (\<lambda>p. sql_eq (proj_ID p) i) (projects db) then Inl ErrNoRows
      else case project_check arg of
        Some err \<Rightarrow> Inl err
      | None \<Rightarrow>
          if list_ex (\<lambda>p. \<not> sql_eq (proj_ID p) i \<and> proj_Slug p = pp_Slug arg) (projects db)
            then Inl (unique_error ''projects_slug_key'')
          else update_project i (\<lambda>p. p\<lparr>proj_Name := pp_Name arg, proj_Slug := pp_Slug arg, proj_Description := pp_Description arg,
                                       proj_UpdatedAt := now db\<rparr>) db)"

definition repository_check :: "pg_text \<Rightarrow> pg_text \<Rightarrow> string option" where
  "repository_check name branch =
     (if \<not> opt_all (full_match (m_seq repository_name (m_seq (m_lit ''/'') repository_name))) name
        then Some ''projects_repository_full_name_check''
      else if \<not> opt_all branch_check branch then Some ''projects_repository_branch_check''
      else if (name = None) \<noteq> (branch = None) then Some ''projects_repository_scope_check''
      else None)"

definition UpdateProjectRepository :: "pg_uuid \<Rightarrow> pg_text \<Rightarrow> pg_text \<Rightarrow> pg_uuid \<Rightarrow> project stmt" where
  "UpdateProjectRepository connector name branch i db =
     (if \<not> opt_all pg_text_ok name \<or> \<not> opt_all pg_text_ok branch then Inl encoding_error
      else if \<not> list_ex (\<lambda>p. sql_eq (proj_ID p) i) (projects db) then Inl ErrNoRows
      else case repository_check name branch of
        Some constraint \<Rightarrow> Inl (check_error constraint)
      | None \<Rightarrow>
          if connector \<noteq> None \<and> \<not> list_ex (\<lambda>c. acc_ID c = connector) (connector_accounts db)
            then Inl (fk_error ''projects_repository_connector_id_fkey'')
          else update_project i (\<lambda>p. p\<lparr>proj_RepositoryConnectorID := connector, proj_RepositoryFullName := name,
                                       proj_RepositoryBranch := branch, proj_UpdatedAt := now db\<rparr>) db)"

text \<open>
  The rows of applications that \<open>ListApplications\<close> joins, with their projects: what the handlers read of it. The
  other columns (names of the server, the environment and the registry) are left out.
\<close>

definition ListApplications :: "(application \<times> project) list stmt" where
  "ListApplications db =
     Inr ([(a, p). a \<leftarrow> sort_key (\<lambda>a. collation db (app_Name a)) (applications db), list_ex (\<lambda>s. sql_eq (srv_ID s) (app_ServerID a)) (servers db),
           e \<leftarrow> environments db, sql_eq (env_ID e) (app_EnvironmentID a),
           p \<leftarrow> projects db, sql_eq (proj_ID p) (env_ProjectID e)], db)"

text \<open>Environments and variables go with their project; an environment that still has applications restricts the deletion.\<close>

definition DeleteProject :: "pg_uuid \<Rightarrow> unit stmt" where
  "DeleteProject i db =
     (if list_ex (\<lambda>a. list_ex (\<lambda>e. sql_eq (env_ProjectID e) i \<and> sql_eq (env_ID e) (app_EnvironmentID a)) (environments db)) (applications db)
        then Inl (fk_error ''applications_environment_id_fkey'')
      else Inr ((), db\<lparr>projects := filter (\<lambda>p. \<not> sql_eq (proj_ID p) i) (projects db),
                        environments := filter (\<lambda>e. \<not> sql_eq (env_ProjectID e) i) (environments db),
                        project_variables := filter (\<lambda>v. \<not> sql_eq (pvar_ProjectID v) i) (project_variables db)\<rparr>))"

subsection \<open>Environments\<close>

record environment_params =
  ep_ProjectID :: pg_uuid
  ep_Name :: string
  ep_Slug :: string
  ep_Kind :: string
  ep_IsEphemeral :: bool
  ep_PullRequestNumber :: pg_int4
  ep_Branch :: pg_text
  ep_ExpiresAt :: pg_time

definition environment_check :: "environment_params \<Rightarrow> go_error option" where
  "environment_check arg =
     (if \<not> list_all (opt_all pg_text_ok) [Some (ep_Name arg), Some (ep_Slug arg), Some (ep_Kind arg), ep_Branch arg] then Some encoding_error
      else if ep_ProjectID arg = None then Some (null_error ''project_id'')
      else if ep_Kind arg \<notin> {''production'', ''development'', ''preview''} then Some (check_error ''environments_kind_check'')
      else if btrim (ep_Name arg) = [] then Some (check_error ''environments_name_check'')
      else if \<not> full_match slug_check (ep_Slug arg) then Some (check_error ''environments_slug_check'')
      else if HasControlCharacter (ep_Name arg) \<or> HasControlCharacter (text_String (ep_Branch arg))
        then Some (check_error ''environments_check'')
      else if (ep_Kind arg = ''preview'') \<noteq> ep_IsEphemeral arg then Some (check_error ''environments_check1'')
      else if \<not> opt_all (\<lambda>n. 0 < n) (ep_PullRequestNumber arg) then Some (check_error ''environments_pull_request_number_check'')
      else None)"

definition CreateEnvironment :: "string \<Rightarrow> environment_params \<Rightarrow> environment stmt" where
  "CreateEnvironment new_id arg db =
     (case environment_check arg of
        Some err \<Rightarrow> Inl err
      | None \<Rightarrow>
          if list_ex (\<lambda>e. env_ID e = Some new_id) (environments db) then Inl (unique_error ''environments_pkey'')
          else if list_ex (\<lambda>e. env_ProjectID e = ep_ProjectID arg \<and> env_Slug e = ep_Slug arg) (environments db)
            then Inl (unique_error ''environments_project_id_slug_key'')
          else if \<not> list_ex (\<lambda>p. proj_ID p = ep_ProjectID arg) (projects db) then Inl (fk_error ''environments_project_id_fkey'')
          else
            let e = \<lparr>env_ID = Some new_id, env_ProjectID = ep_ProjectID arg, env_Name = ep_Name arg, env_Slug = ep_Slug arg,
                     env_Kind = ep_Kind arg, env_IsEphemeral = ep_IsEphemeral arg, env_PullRequestNumber = ep_PullRequestNumber arg,
                     env_Branch = ep_Branch arg, env_ExpiresAt = ep_ExpiresAt arg, env_CreatedAt = now db, env_UpdatedAt = now db\<rparr>
            in Inr (e, db\<lparr>environments := environments db @ [e]\<rparr>))"

definition DeleteEnvironment :: "pg_uuid \<Rightarrow> pg_uuid stmt" where
  "DeleteEnvironment i db =
     (let p = (\<lambda>e. sql_eq (env_ID e) i \<and> \<not> list_ex (\<lambda>a. sql_eq (app_EnvironmentID a) (env_ID e)) (applications db)) in
      try_bind (one_row (filter p (environments db))) (\<lambda>e.
        Inr (env_ID e, db\<lparr>environments := filter (\<lambda>e. \<not> p e) (environments db)\<rparr>)))"

subsection \<open>Proxy routes\<close>

record create_route_params =
  cr_ServerID :: pg_uuid
  cr_ApplicationID :: pg_uuid
  cr_Domain :: string
  cr_UpstreamUrl :: string
  cr_TlsEnabled :: bool
  cr_BlueUpstreamUrl :: pg_text
  cr_GreenUpstreamUrl :: pg_text
  cr_ComposeService :: pg_text
  cr_ContainerPort :: pg_int4
  cr_PortVariable :: pg_text

definition domain_check :: "string \<Rightarrow> bool" where
  "domain_check v \<longleftrightarrow> length (runes v) \<le> 253 \<and> full_match (m_plus (m_set (\<lambda>r. r_lower r \<or> r_digit r \<or> one_of ''.-'' r))) v
     \<and> \<not> Contains v ''..'' \<and> list_all (\<lambda>l. \<not> HasPrefix l ''-'' \<and> \<not> HasSuffix l ''-'') (Split v (CHR ''.''))"

text \<open>An origin: \<open>^https?://[^/?#]+/?$\<close>, without control characters and user information.\<close>

definition origin_check :: "string \<Rightarrow> bool" where
  "origin_check v \<longleftrightarrow>
     full_match (m_seq (m_lit ''http'') (m_seq (m_opt (m_lit ''s'')) (m_seq (m_lit ''://'')
       (m_seq (m_plus (m_set (\<lambda>r. \<not> one_of ''/?#'' r))) (m_opt (m_lit ''/'')))))) v
     \<and> \<not> HasControlCharacter v \<and> \<not> url_credentials v"

definition compose_service_check :: "string \<Rightarrow> bool" where
  "compose_service_check v \<longleftrightarrow> length (runes v) \<le> 128 \<and> full_match (m_plus (m_set (\<lambda>r. r_alnum r \<or> one_of ''_.-'' r))) v"

definition port_variable_check :: "string \<Rightarrow> bool" where
  "port_variable_check v \<longleftrightarrow> length (runes v) \<le> 128
     \<and> full_match (m_seq (m_set (\<lambda>r. r_upper r \<or> r = 95)) (m_star (m_set (\<lambda>r. r_upper r \<or> r_digit r \<or> r = 95)))) v"

definition route_check :: "create_route_params \<Rightarrow> go_error option" where
  "route_check arg =
     (if \<not> list_all (opt_all pg_text_ok) [Some (cr_Domain arg), Some (cr_UpstreamUrl arg), cr_BlueUpstreamUrl arg,
             cr_GreenUpstreamUrl arg, cr_ComposeService arg, cr_PortVariable arg] then Some encoding_error
      else if cr_ServerID arg = None then Some (null_error ''server_id'')
      else if \<not> domain_check (cr_Domain arg) then Some (check_error ''proxy_routes_domain_check'')
      else if \<not> origin_check (cr_UpstreamUrl arg) then Some (check_error ''proxy_routes_upstream_url_check'')
      else if \<not> opt_all origin_check (cr_BlueUpstreamUrl arg) then Some (check_error ''proxy_routes_blue_upstream_origin_url'')
      else if \<not> opt_all origin_check (cr_GreenUpstreamUrl arg) then Some (check_error ''proxy_routes_green_upstream_origin_url'')
      else if \<not> opt_all compose_service_check (cr_ComposeService arg) then Some (check_error ''proxy_routes_compose_service_valid'')
      else if \<not> opt_all (\<lambda>n. 1 \<le> n \<and> n \<le> 65535) (cr_ContainerPort arg) then Some (check_error ''proxy_routes_container_port_valid'')
      else if \<not> opt_all port_variable_check (cr_PortVariable arg) then Some (check_error ''proxy_routes_port_variable_valid'')
      else None)"

text \<open>A route of the same domain on the same server is replaced.\<close>

definition set_route :: "create_route_params \<Rightarrow> pg_time \<Rightarrow> proxy_route \<Rightarrow> proxy_route" where
  "set_route arg t r =
     r\<lparr>route_ApplicationID := cr_ApplicationID arg, route_UpstreamUrl := cr_UpstreamUrl arg, route_TlsEnabled := cr_TlsEnabled arg,
       route_BlueUpstreamUrl := cr_BlueUpstreamUrl arg, route_GreenUpstreamUrl := cr_GreenUpstreamUrl arg,
       route_ComposeService := cr_ComposeService arg, route_ContainerPort := cr_ContainerPort arg,
       route_PortVariable := cr_PortVariable arg, route_Status := ''pending'', route_UpdatedAt := t\<rparr>"

definition new_route :: "string \<Rightarrow> create_route_params \<Rightarrow> pg_time \<Rightarrow> proxy_route" where
  "new_route new_id arg t =
     \<lparr>route_ID = Some new_id, route_ServerID = cr_ServerID arg, route_ApplicationID = cr_ApplicationID arg, route_Domain = cr_Domain arg,
      route_UpstreamUrl = cr_UpstreamUrl arg, route_TlsEnabled = cr_TlsEnabled arg, route_Status = ''pending'',
      route_LastAppliedAt = None, route_CreatedAt = t, route_UpdatedAt = t, route_BlueUpstreamUrl = cr_BlueUpstreamUrl arg,
      route_GreenUpstreamUrl = cr_GreenUpstreamUrl arg, route_ComposeService = cr_ComposeService arg,
      route_ContainerPort = cr_ContainerPort arg, route_PortVariable = cr_PortVariable arg\<rparr>"

definition CreateProxyRoute :: "string \<Rightarrow> create_route_params \<Rightarrow> proxy_route stmt" where
  "CreateProxyRoute new_id arg db =
     (case route_check arg of
        Some err \<Rightarrow> Inl err
      | None \<Rightarrow>
          if \<not> list_ex (\<lambda>s. srv_ID s = cr_ServerID arg) (servers db) then Inl (fk_error ''proxy_routes_server_id_fkey'')
          else if cr_ApplicationID arg \<noteq> None \<and> \<not> list_ex (\<lambda>a. app_ID a = cr_ApplicationID arg) (applications db)
            then Inl (fk_error ''proxy_routes_application_id_fkey'')
          else
            let same = (\<lambda>r. route_ServerID r = cr_ServerID arg \<and> route_Domain r = cr_Domain arg) in
            (case filter same (proxy_routes db) of
               old # _ \<Rightarrow> Inr (set_route arg (now db) old,
                 db\<lparr>proxy_routes := update_rows same (set_route arg (now db)) (proxy_routes db)\<rparr>)
             | [] \<Rightarrow>
                 if list_ex (\<lambda>r. route_ID r = Some new_id) (proxy_routes db) then Inl (unique_error ''proxy_routes_pkey'')
                 else Inr (new_route new_id arg (now db), db\<lparr>proxy_routes := proxy_routes db @ [new_route new_id arg (now db)]\<rparr>)))"

definition DeleteProxyRoute :: "pg_uuid \<Rightarrow> unit stmt" where
  "DeleteProxyRoute i db = Inr ((), db\<lparr>proxy_routes := filter (\<lambda>r. \<not> sql_eq (route_ID r) i) (proxy_routes db)\<rparr>)"

subsection \<open>Removal of an application\<close>

record deletion_state =
  ds_HasDeployments :: bool
  ds_DeploymentInProgress :: bool

definition GetApplicationDeletionState :: "pg_uuid \<Rightarrow> deletion_state stmt" where
  "GetApplicationDeletionState i db =
     (let ds = filter (\<lambda>d. sql_eq (dep_ApplicationID d) i) (deployments db) in
      Inr (\<lparr>ds_HasDeployments = (ds \<noteq> []), ds_DeploymentInProgress = list_ex (\<lambda>d. dep_Status d \<in> {''queued'', ''running''}) ds\<rparr>, db))"

text \<open>
  Deployments, slots and runtime configurations go with the application, log lines with their deployment; routes
  and builds lose the reference to the application, and slots of other applications that to a deployment.
\<close>

definition DeleteApplication :: "pg_uuid \<Rightarrow> unit stmt" where
  "DeleteApplication i db =
     (let gone = filter (\<lambda>d. sql_eq (dep_ApplicationID d) i) (deployments db);
          of_gone = (\<lambda>j. list_ex (\<lambda>d. sql_eq (dep_ID d) j) gone) in
      Inr ((), db\<lparr>applications := filter (\<lambda>a. \<not> sql_eq (app_ID a) i) (applications db),
                   deployments := filter (\<lambda>d. \<not> sql_eq (dep_ApplicationID d) i) (deployments db),
                   deployment_logs := filter (\<lambda>l. \<not> of_gone (log_DeploymentID l)) (deployment_logs db),
                   slots := update_rows (\<lambda>s. of_gone (slot_DeploymentID s)) (\<lambda>s. s\<lparr>slot_DeploymentID := None\<rparr>)
                     (filter (\<lambda>s. \<not> sql_eq (slot_ApplicationID s) i) (slots db)),
                   service_configs := filter (\<lambda>c. \<not> sql_eq (cfg_ApplicationID c) i) (service_configs db),
                   proxy_routes := update_rows (\<lambda>r. sql_eq (route_ApplicationID r) i) (\<lambda>r. r\<lparr>route_ApplicationID := None\<rparr>) (proxy_routes db),
                   build_runs := update_rows (\<lambda>b. sql_eq (build_ApplicationID b) i) (\<lambda>b. b\<lparr>build_ApplicationID := None\<rparr>) (build_runs db)\<rparr>))"

subsection \<open>What the statements keep\<close>

lemma places_read_only:
  "stmt_keeps I ListApplications" "stmt_keeps I (GetApplicationDeletionState i)"
  by (auto simp: stmt_keeps_def ListApplications_def GetApplicationDeletionState_def Let_def)

lemma places_frame:
  "frames (CreateProjectWithDefaultEnvironments new_id env_id pp)" "frames (UpdateProject i pp)"
  "frames (UpdateProjectRepository conn name branch i)" "frames (DeleteProject i)"
  "frames (CreateEnvironment new_id ep)" "frames (DeleteEnvironment i)"
  "frames (CreateProxyRoute new_id cr)" "frames (DeleteProxyRoute i)"
  by (auto simp: frames_def core_def CreateProjectWithDefaultEnvironments_def UpdateProject_def UpdateProjectRepository_def
      update_project_def DeleteProject_def CreateEnvironment_def DeleteEnvironment_def CreateProxyRoute_def DeleteProxyRoute_def Let_def
      split: option.splits list.splits if_splits)

lemmas places_ok [stmt_keeps_rules] = places_frame [THEN frames_ok]

end
