(* ===== verification/Sample_Data.thy ===== *)
theory Sample_Data
  imports Store
begin

text \<open>
  A small database on which the theorems with hypotheses are instantiated: one application on one
  server, deployed blue-green, with the blue slot active and a queued deployment.
\<close>

definition sample_application :: application where
  "sample_application =
     \<lparr>app_ID = Some ''a1'', app_EnvironmentID = Some ''e1'', app_ServerID = Some ''s1'', app_Name = ''shop'',
      app_RepositoryUrl = None, app_Branch = ''main'', app_ComposePath = ''compose.yml'',
      app_RemoteDirectory = ''/opt/shop'', app_Domain = None,
      app_HealthCheckUrl = Some ''http://127.0.0.1:{port}/{color}'', app_DopplerProject = None,
      app_DopplerConfig = None, app_Status = ''idle'', app_CurrentVersion = None, app_TargetVersion = None,
      app_CreatedAt = Some 1, app_UpdatedAt = Some 1, app_GithubAutoDeploy = False, app_ConfigurationRevision = 1,
      app_DeployedConfigurationRevision = 0, app_DeployedProjectConfigurationRevision = 0,
      app_ComposeServices = []\<rparr>"

definition sample_environment :: environment where
  "sample_environment =
     \<lparr>env_ID = Some ''e1'', env_ProjectID = Some ''p1'', env_Name = ''prod'', env_Slug = ''prod'', env_Kind = ''production'',
      env_IsEphemeral = False, env_PullRequestNumber = None, env_Branch = None, env_ExpiresAt = None,
      env_CreatedAt = Some 1, env_UpdatedAt = Some 1\<rparr>"

definition sample_project :: project where
  "sample_project =
     \<lparr>proj_ID = Some ''p1'', proj_Name = ''Shop'', proj_Slug = ''shop'', proj_Description = [], proj_CreatedAt = Some 1,
      proj_UpdatedAt = Some 1, proj_DefaultRegistryID = None, proj_RepositoryConnectorID = None,
      proj_RepositoryFullName = None, proj_RepositoryBranch = None, proj_ConfigurationRevision = 1\<rparr>"

definition sample_server :: server where
  "sample_server =
     \<lparr>srv_ID = Some ''s1'', srv_Name = ''web'', srv_Hostname = ''web.internal'', srv_SshUser = ''deploy'',
      srv_SshPort = 22, srv_SshKeyPath = Some ''/keys/web'', srv_ConnectionMode = ''ssh'', srv_ProxyType = ''none'',
      srv_Status = ''healthy''\<rparr>"

definition sample_deployment :: deployment where
  "sample_deployment =
     \<lparr>dep_ID = Some ''d1'', dep_ApplicationID = Some ''a1'', dep_ServerID = Some ''s1'', dep_Trigger = ''manual'',
      dep_Strategy = ''blue_green'', dep_Status = ''queued'', dep_CommitSha = None, dep_Actor = None,
      dep_StartedAt = None, dep_FinishedAt = None, dep_CreatedAt = Some 2, dep_ImageRef = None,
      dep_ImageDigest = None, dep_SourceRepositoryUrl = None, dep_SourceBranch = None, dep_CommitMessage = None,
      dep_ConfigurationSnapshot = ''{}''\<rparr>"

definition sample_slot :: "string \<Rightarrow> string \<Rightarrow> deployment_slot" where
  "sample_slot color status =
     \<lparr>slot_ID = Some color, slot_ApplicationID = Some ''a1'', slot_ServerID = Some ''s1'', slot_Color = color,
      slot_DeploymentID = Some ''d1'', slot_ImageRef = ''registry/shop:1'', slot_ImageDigest = None,
      slot_Status = status, slot_PromotedAt = Some 2, slot_CreatedAt = Some 1, slot_UpdatedAt = Some 2\<rparr>"

definition sample_db :: store where
  "sample_db =
     \<lparr>deployments = [sample_deployment], deployment_logs = [],
      slots = [sample_slot ''blue'' ''active'', sample_slot ''green'' ''standby''],
      applications = [sample_application], environments = [sample_environment], projects = [sample_project],
      servers = [sample_server], proxy_routes = [], project_variables = [], service_configs = [],
      audit_events = [], build_runs = [], connector_accounts = [], dev_users = [], clock = 5, collation = (\<lambda>s. s)\<rparr>"

lemmas sample_defs = sample_application_def sample_environment_def sample_project_def sample_server_def
  sample_deployment_def sample_slot_def sample_db_def

end
