(* ===== verification/Lifecycle.thy ===== *)
theory Lifecycle
  imports Store_Places Sample_Data
begin

text \<open>
  The deployments table as a state machine. Several workers, the HTTP handlers and the recovery at the
  start of the server run statements against one database in any order; a step is one statement of any
  of them, and an execution is any sequence of steps.
\<close>

inductive db_step :: "store \<Rightarrow> store \<Rightarrow> bool" where
  tick: "db_step db (db\<lparr>clock := clock db + n\<rparr>)"
| create: "CreateDeployment new_id snapshot arg db = Inr (d, db') \<Longrightarrow> db_step db db'"
| start: "StartQueuedDeployment i db = Inr (d, db') \<Longrightarrow> db_step db db'"
| cancel: "CancelQueuedDeployment i db = Inr (d, db') \<Longrightarrow> db_step db db'"
| finish: "UpdateDeploymentStatus i status db = Inr (d, db') \<Longrightarrow> terminal status \<Longrightarrow> db_step db db'"
| commit: "SetDeploymentCommitSHA i sha message db = Inr (d, db') \<Longrightarrow> db_step db db'"
| recover: "FailRunningDeploymentsForRecovery db = Inr (ds, db') \<Longrightarrow> db_step db db'"
| log: "AppendDeploymentLog i stream message db = Inr (l, db') \<Longrightarrow> db_step db db'"
| audit: "AppendAuditEvent actor action target_type target_id target_name metadata db = Inr (ev, db') \<Longrightarrow> db_step db db'"
| app_status: "UpdateApplicationStatus i status version db = Inr (a, db') \<Longrightarrow> db_step db db'"
| app_config: "MarkApplicationConfigurationDeployed i revision proj_revision db = Inr (a, db') \<Longrightarrow> db_step db db'"
| slot_record: "UpsertDeploymentSlot new_id slot_arg db = Inr (s, db') \<Longrightarrow> us_Status slot_arg = ''standby'' \<Longrightarrow> db_step db db'"
| slot_activate: "ActivateDeploymentSlot app srv color db = Inr (ss, db') \<Longrightarrow> db_step db db'"
| route_applied: "MarkProxyRouteApplied i db = Inr (r, db') \<Longrightarrow> db_step db db'"
| route_failed: "MarkProxyRouteFailed i db = Inr (r, db') \<Longrightarrow> db_step db db'"
| routes_promoted: "PromoteProxyRoutes ids upstreams db = Inr (rs, db') \<Longrightarrow> db_step db db'"
| build_create: "CreateBuildRun new_id build_arg db = Inr (b, db') \<Longrightarrow> db_step db db'"
| build_complete: "CompleteBuildRun co db = Inr (b, db') \<Longrightarrow> db_step db db'"
| app_create: "CreateApplication new_id ca db = Inr (a, db') \<Longrightarrow> db_step db db'"
| app_update: "UpdateApplication ua db = Inr (a, db') \<Longrightarrow> db_step db db'"
| app_bump: "BumpApplicationConfigurationRevision i db = Inr (u, db') \<Longrightarrow> db_step db db'"
| variables_delete: "DeleteProjectRuntimeVariables i db = Inr (u, db') \<Longrightarrow> db_step db db'"
| variable_upsert: "UpsertProjectRuntimeVariable i key v db = Inr (x, db') \<Longrightarrow> db_step db db'"
| project_bump: "IncrementProjectConfigurationRevision i db = Inr (n, db') \<Longrightarrow> db_step db db'"
| service_delete: "DeleteApplicationServiceRuntimeConfig i service db = Inr (u, db') \<Longrightarrow> db_step db db'"
| service_upsert: "UpsertApplicationServiceRuntimeConfig i service dp dc vars db = Inr (c, db') \<Longrightarrow> db_step db db'"
| project_create: "CreateProjectWithDefaultEnvironments new_id env_id pp db = Inr (p, db') \<Longrightarrow> db_step db db'"
| project_update: "UpdateProject i pp db = Inr (p, db') \<Longrightarrow> db_step db db'"
| project_repository: "UpdateProjectRepository conn name branch i db = Inr (p, db') \<Longrightarrow> db_step db db'"
| project_delete: "DeleteProject i db = Inr (u, db') \<Longrightarrow> db_step db db'"
| environment_create: "CreateEnvironment new_id ep db = Inr (e, db') \<Longrightarrow> db_step db db'"
| environment_delete: "DeleteEnvironment i db = Inr (j, db') \<Longrightarrow> db_step db db'"
| route_create: "CreateProxyRoute new_id cr db = Inr (r, db') \<Longrightarrow> db_step db db'"
| route_delete: "DeleteProxyRoute i db = Inr (u, db') \<Longrightarrow> db_step db db'"

abbreviation db_run :: "store \<Rightarrow> store \<Rightarrow> bool" where
  "db_run \<equiv> db_step\<^sup>*\<^sup>*"

lemma store_ok_clock: "store_ok db \<Longrightarrow> store_ok (db\<lparr>clock := t\<rparr>)"
  by (simp add: store_ok_def)

lemma db_step_ok: "db_step db db' \<Longrightarrow> store_ok db \<Longrightarrow> store_ok db'"
proof (induction rule: db_step.induct)
  case (tick db n)
  then show ?case by (rule store_ok_clock)
next
  case (slot_record new_id slot_arg db s db')
  then show ?case using UpsertDeploymentSlot_ok [of slot_arg new_id] by (simp add: stmt_keeps_def)
qed (erule stmt_keepsD, assumption, rule stmt_keeps_rules)+

lemma db_run_ok: "db_run db db' \<Longrightarrow> store_ok db \<Longrightarrow> store_ok db'"
  by (induction rule: rtranclp_induct) (auto intro: db_step_ok)

subsection \<open>Transitions of one deployment\<close>

inductive status_move :: "string \<Rightarrow> string \<Rightarrow> bool" where
  stay: "status_move s s"
| picked_up: "status_move ''queued'' ''running''"
| cancelled: "status_move ''queued'' ''cancelled''"
| finished: "terminal t \<Longrightarrow> status_move s t"

inductive_simps status_move_simps: "status_move s t"

text \<open>A row keeps its application and its snapshot of the configuration.\<close>

definition row_move :: "deployment \<Rightarrow> deployment \<Rightarrow> bool" where
  "row_move d e \<longleftrightarrow> status_move (dep_Status d) (dep_Status e) \<and> dep_ApplicationID e = dep_ApplicationID d
     \<and> dep_ConfigurationSnapshot e = dep_ConfigurationSnapshot d"

lemma row_stays: "row_move d d"
  by (simp add: row_move_def stay)

lemma update_deployment_move:
  assumes u: "update_deployment p f db = Inr (x, db')" and "deployment_is db i d"
    and "\<And>d. dep_ID (f d) = dep_ID d" and "\<And>d. p d \<Longrightarrow> row_move d (f d)"
  shows "\<exists>e. deployment_is db' i e \<and> row_move d e"
proof -
  have "deployments db' = update_rows p f (deployments db)" using update_deployment_Inr [OF u] by simp
  then have "deployment_is db' i (if p d then f d else d)"
    using assms(2,3) by (auto simp: deployment_is_def)
  then show ?thesis using assms(4) row_stays by (metis (full_types))
qed

lemma frames_move:
  "q db = Inr (x, db') \<Longrightarrow> deployment_is db i d \<Longrightarrow> frames q \<Longrightarrow> \<exists>e. deployment_is db' i e \<and> row_move d e"
  by (auto simp: frames_def core_def deployment_is_def intro: row_stays)

lemma same_deployments_move:
  "deployments db' = deployments db \<Longrightarrow> deployment_is db i d \<Longrightarrow> \<exists>e. deployment_is db' i e \<and> row_move d e"
  by (auto simp: deployment_is_def intro: row_stays)

lemma FailRunning_move:
  "FailRunningDeploymentsForRecovery db = Inr (ds, db') \<Longrightarrow> deployment_is db i d \<Longrightarrow> \<exists>e. deployment_is db' i e \<and> row_move d e"
proof -
  assume a: "FailRunningDeploymentsForRecovery db = Inr (ds, db')" and d: "deployment_is db i d"
  let ?e = "if dep_Status d = ''running'' then fail_running (now db) d else d"
  have "deployment_is db' i ?e"
    using a d by (auto simp: FailRunningDeploymentsForRecovery_def Let_def deployment_is_def fail_running_def)
  moreover have "row_move d ?e"
    by (auto simp: row_move_def status_move_simps fail_running_def terminal_def)
  ultimately show ?thesis by blast
qed

lemma db_step_row: "db_step db db' \<Longrightarrow> deployment_is db i d \<Longrightarrow> \<exists>e. deployment_is db' i e \<and> row_move d e"
proof (induction rule: db_step.induct)
  case (create new_id snapshot arg db x db')
  then show ?case using CreateDeployment_Inr(1) [OF create(1)] by (auto simp: deployment_is_def intro: row_stays)
next
  case (start j db x db')
  then show ?case unfolding StartQueuedDeployment_def
    by (elim update_deployment_move) (auto simp: row_move_def intro: picked_up)
next
  case (cancel j db x db')
  then show ?case unfolding CancelQueuedDeployment_def
    by (elim update_deployment_move) (auto simp: row_move_def intro: cancelled)
next
  case (finish j status db x db')
  then show ?case unfolding UpdateDeploymentStatus_def
    by (elim update_deployment_move) (auto simp: row_move_def intro: finished)
next
  case (commit j sha message db x db')
  then show ?case unfolding SetDeploymentCommitSHA_def
    by (elim update_deployment_move) (auto simp: row_move_def intro: stay)
next
  case (recover db ds db')
  then show ?case by (rule FailRunning_move)
next
  case (log j stream message db l db')
  then show ?case by (intro same_deployments_move) (auto dest: AppendDeploymentLog_Inr)
next
  case (slot_record new_id arg db s db')
  then show ?case
    by (intro same_deployments_move)
       (auto simp: UpsertDeploymentSlot_def Let_def split: option.splits list.splits if_splits)
next
  case (slot_activate app srv color db ss db')
  then show ?case by (intro same_deployments_move) (auto simp: ActivateDeploymentSlot_def)
next
  case (tick db n)
  then show ?case by (intro same_deployments_move) simp_all
qed (erule frames_move, assumption, rule other_tables_frame settings_frame places_frame)+

lemma db_step_move:
  "db_step db db' \<Longrightarrow> deployment_is db i d \<Longrightarrow> \<exists>e. deployment_is db' i e \<and> status_move (dep_Status d) (dep_Status e)"
  using db_step_row [of db db' i d] by (auto simp: row_move_def)

lemma db_run_snapshot:
  assumes "db_run db db'" "deployment_is db i d"
  shows "\<exists>e. deployment_is db' i e \<and> dep_ApplicationID e = dep_ApplicationID d
    \<and> dep_ConfigurationSnapshot e = dep_ConfigurationSnapshot d"
  using assms(1)
proof (induction rule: rtranclp_induct)
  case base
  then show ?case using assms(2) by blast
next
  case (step db1 db2)
  then show ?case using db_step_row [OF step.hyps(2)] unfolding row_move_def by metis
qed

lemma db_run_move_invariant:
  assumes "db_run db db'" "deployment_is db i d" "P (dep_Status d)"
    and P: "\<And>s t. P s \<Longrightarrow> status_move s t \<Longrightarrow> P t"
  shows "\<exists>e. deployment_is db' i e \<and> P (dep_Status e)"
  using assms(1)
proof (induction rule: rtranclp_induct)
  case base
  then show ?case using assms(2,3) by blast
next
  case (step db1 db2)
  then obtain e where "deployment_is db1 i e" "P (dep_Status e)" by blast
  with db_step_move [OF step.hyps(2)] P show ?case by blast
qed

lemma started_not_queued:
  assumes "store_ok db" "StartQueuedDeployment (Some i) db = Inr (d, db')"
  shows "deployment_is db' i d" "dep_Status d = ''running''" "store_ok db'"
proof -
  have q: "\<exists>e\<in>set (deployments db). (dep_ID e = Some i \<and> dep_Status e = ''queued'')"
    using update_deployment_Inr [OF assms(2) [unfolded StartQueuedDeployment_def]] by auto
  then obtain e where "deployment_is db i e" "dep_Status e = ''queued''" by (auto simp: deployment_is_def)
  from start_queued_row [OF assms(1) this] show "deployment_is db' i d" "dep_Status d = ''running''" "store_ok db'"
    using assms(2) by auto
qed

lemma start_not_queued:
  assumes "store_ok db" "deployment_is db i d" "dep_Status d \<noteq> ''queued''"
  shows "StartQueuedDeployment (Some i) db = Inl ErrNoRows"
proof -
  have "filter (\<lambda>d. sql_eq (dep_ID d) (Some i) \<and> dep_Status d = ''queued'') (deployments db) = []"
    using assms deployment_is_unique [OF assms(1,2)] unfolding filter_empty_conv
    by (metis deployment_is_def sql_eq_Some)
  then show ?thesis by (simp add: StartQueuedDeployment_def update_deployment_def one_row_def try_bind_def)
qed

lemma sample_db_ok: "store_ok sample_db"
  by code_simp

lemma sample_started: "\<exists>d db1. StartQueuedDeployment (Some ''d1'') sample_db = Inr (d, db1) \<and> db_run sample_db db1"
proof -
  have "deployment_is sample_db ''d1'' sample_deployment" "dep_Status sample_deployment = ''queued''" by code_simp+
  from start_queued_row [OF sample_db_ok this] show ?thesis by (blast intro: db_step.start r_into_rtranclp)
qed

subsection \<open>Properties of every execution\<close>

text \<open>C3. Whatever statements the workers, the handlers and the recovery interleave, the tables stay
  valid: an application never has two deployments in progress, statuses and time stamps agree, an
  application never has two active slots on a server, and log lines are numbered in increasing order.\<close>

theorem executions_keep_tables_valid:
  assumes "store_ok db" "db_run db db'"
  shows "one_in_progress (deployments db') \<and> list_all status_check (deployments db')
    \<and> distinct (map slot_place (filter slot_active (slots db')))
    \<and> sorted_wrt (<) (map log_ID (deployment_logs db'))"
  using db_run_ok [OF assms(2,1)] by (simp_all add: store_ok_def deployments_ok_def slots_ok_def logs_ok_def)

theorem executions_keep_tables_valid_witness:
  "\<exists>d db1. StartQueuedDeployment (Some ''d1'') sample_db = Inr (d, db1) \<and> one_in_progress (deployments db1)
     \<and> distinct (map slot_place (filter slot_active (slots db1)))"
proof -
  obtain d db1 where "StartQueuedDeployment (Some ''d1'') sample_db = Inr (d, db1)" "db_run sample_db db1"
    using sample_started by blast
  then show ?thesis using executions_keep_tables_valid [OF sample_db_ok] by blast
qed

text \<open>C4. A deployment is started at most once: after one worker has started it, every further attempt
  finds no queued row, whatever happened in between.\<close>

theorem started_at_most_once:
  assumes "store_ok db" "StartQueuedDeployment (Some i) db = Inr (d, db1)" "db_run db1 db2"
  shows "StartQueuedDeployment (Some i) db2 = Inl ErrNoRows"
proof -
  note s = started_not_queued [OF assms(1,2)]
  have "\<exists>e. deployment_is db2 i e \<and> dep_Status e \<noteq> ''queued''"
    by (rule db_run_move_invariant [OF assms(3) s(1), where P = "\<lambda>t. t \<noteq> ''queued''"])
       (auto simp: s(2) status_move_simps terminal_def)
  with start_not_queued [OF db_run_ok [OF assms(3) s(3)]] show ?thesis by blast
qed

theorem started_at_most_once_witness:
  "\<exists>d db1. StartQueuedDeployment (Some ''d1'') sample_db = Inr (d, db1)
     \<and> StartQueuedDeployment (Some ''d1'') (db1\<lparr>clock := clock db1 + 1\<rparr>) = Inl ErrNoRows"
proof -
  obtain d db1 where s: "StartQueuedDeployment (Some ''d1'') sample_db = Inr (d, db1)"
    using sample_started by blast
  have "db_run db1 (db1\<lparr>clock := clock db1 + 1\<rparr>)" by (rule r_into_rtranclp, rule db_step.tick)
  from started_at_most_once [OF sample_db_ok s this] s show ?thesis by blast
qed


lemma cancel_row:
  assumes "store_ok db" "deployment_is db i d" "dep_Status d = ''queued''"
  shows "\<exists>e db'. CancelQueuedDeployment (Some i) db = Inr (e, db') \<and> deployment_is db' i e \<and> dep_Status e = ''cancelled''"
proof -
  note r = update_deployment_row [OF assms(1,2), where p = "\<lambda>d. sql_eq (dep_ID d) (Some i) \<and> dep_Status d = ''queued''"
      and f = "\<lambda>d. d\<lparr>dep_Status := ''cancelled'', dep_FinishedAt := now db\<rparr>"]
  show ?thesis unfolding CancelQueuedDeployment_def
    using r assms by (force simp: deployment_is_def status_check_def now_def in_progress_def terminal_def)
qed


subsection \<open>Recovery and switching\<close>

lemma fail_running_rows:
  "\<exists>failed db'. FailRunningDeploymentsForRecovery db = Inr (failed, db')
     \<and> filter (\<lambda>d. dep_Status d = ''running'') (deployments db') = []
     \<and> map dep_ID failed = map dep_ID (filter (\<lambda>d. dep_Status d = ''running'') (deployments db))
     \<and> list_all (\<lambda>d. dep_Status d = ''failed'' \<and> dep_FinishedAt d = now db \<and> d \<in> set (deployments db')) failed
     \<and> filter (\<lambda>d. dep_Status d = ''queued'') (deployments db') = filter (\<lambda>d. dep_Status d = ''queued'') (deployments db)"
proof -
  have "filter (\<lambda>d. dep_Status d = ''queued'') (update_rows (\<lambda>d. dep_Status d = ''running'') (fail_running t) ds)
      = filter (\<lambda>d. dep_Status d = ''queued'') ds" for t ds
    by (induction ds) (auto simp: update_rows_def fail_running_def)
  then show ?thesis
    by (auto simp: FailRunningDeploymentsForRecovery_def Let_def fail_running_def list_all_iff filter_empty_conv)
qed

text \<open>The recovery at the start of the server leaves no deployment running, and returns exactly
  the rows that were, each now failed at the time of the recovery.\<close>

theorem recovery_fails_all_running:
  "\<exists>failed db'. FailRunningDeploymentsForRecovery db = Inr (failed, db')
     \<and> filter (\<lambda>d. dep_Status d = ''running'') (deployments db') = []
     \<and> map dep_ID failed = map dep_ID (filter (\<lambda>d. dep_Status d = ''running'') (deployments db))
     \<and> list_all (\<lambda>d. dep_Status d = ''failed'' \<and> dep_FinishedAt d = now db \<and> d \<in> set (deployments db')) failed
     \<and> filter (\<lambda>d. dep_Status d = ''queued'') (deployments db') = filter (\<lambda>d. dep_Status d = ''queued'') (deployments db)"
  by (rule fail_running_rows)

lemma latest_slot_cases:
  obtains (found) s where "latest_slot status app srv db = Inr (s, db)" "s \<in> set (slots db)" "slot_at app srv s"
      "slot_Status s = status"
  | (none) "latest_slot status app srv db = Inl ErrNoRows"
      "\<And>s. s \<in> set (slots db) \<Longrightarrow> slot_at app srv s \<Longrightarrow> slot_Status s \<noteq> status"
proof -
  define l where "l = rev (sort_key (\<lambda>s. case slot_UpdatedAt s of None \<Rightarrow> 0 | Some t \<Rightarrow> t)
      (filter (\<lambda>s. slot_at app srv s \<and> slot_Status s = status) (slots db)))"
  have set: "set l = {s \<in> set (slots db). slot_at app srv s \<and> slot_Status s = status}" by (simp add: l_def)
  have q: "latest_slot status app srv db = try_bind (one_row l) (\<lambda>s. Inr (s, db))" by (simp add: latest_slot_def l_def)
  show thesis
  proof (cases l)
    case Nil
    then show thesis using none set by (auto simp: q one_row_def try_bind_def)
  next
    case (Cons s rest)
    then have "s \<in> set l" by simp
    then show thesis using found [of s] Cons unfolding set by (simp add: q one_row_def try_bind_def)
  qed
qed

lemma switchable_slot_at: "slot_at app srv (activate t color s) \<longleftrightarrow> slot_at app srv s"
  by (simp add: activate_def slot_at_def)

text \<open>Which color a slot has after a switch, by its status.\<close>

lemma activated_color:
  assumes "ActivateDeploymentSlot app srv color db = Inr (ss, db')" "s \<in> set (slots db')" "slot_at app srv s"
  shows "slot_Status s = ''active'' \<Longrightarrow> slot_Color s = color" "slot_Status s = ''standby'' \<Longrightarrow> slot_Color s \<noteq> color"
proof -
  have "s \<in> (\<lambda>r. if switchable app srv r then activate (now db) color r else r) ` set (slots db)"
    using assms(1,2) by (auto simp: ActivateDeploymentSlot_def)
  then obtain r where r: "s = (if switchable app srv r then activate (now db) color r else r)" by blast
  have "slot_at app srv r" using assms(3) by (auto simp: r switchable_slot_at split: if_splits)
  then show "slot_Status s = ''active'' \<Longrightarrow> slot_Color s = color" "slot_Status s = ''standby'' \<Longrightarrow> slot_Color s \<noteq> color"
    using assms(3) by (auto simp: r switchable_def activate_def split: if_splits)
qed

text \<open>After a switch to a color that has a slot, that color is the active one, and the slot that a
  rollback would use has the other color.\<close>

theorem switch_selects_color:
  assumes "s \<in> set (slots db)" "switchable app srv s" "slot_Color s = color"
  shows "\<exists>ss db' active. ActivateDeploymentSlot app srv color db = Inr (ss, db')
    \<and> GetActiveDeploymentSlot app srv db' = Inr (active, db') \<and> slot_Color active = color
    \<and> (case GetStandbyDeploymentSlot app srv db' of
         Inl err \<Rightarrow> err = ErrNoRows | Inr (standby, _) \<Rightarrow> slot_Color standby \<noteq> color)"
proof -
  obtain ss db' where a: "ActivateDeploymentSlot app srv color db = Inr (ss, db')"
    by (simp add: ActivateDeploymentSlot_def)
  have mem: "activate (now db) color s \<in> set (slots db')"
    using a assms(1,2) by (force simp: ActivateDeploymentSlot_def)
  have at: "slot_at app srv (activate (now db) color s)" "slot_Status (activate (now db) color s) = ''active''"
    using assms(2,3) by (simp add: switchable_slot_at switchable_def, simp add: activate_def)
  obtain s' where s': "latest_slot ''active'' app srv db' = Inr (s', db')" "slot_Color s' = color"
  proof (cases rule: latest_slot_cases [of "''active''" app srv db'])
    case (found s')
    then show thesis using that activated_color(1) [OF a] by blast
  next
    case none
    then show thesis using mem at by blast
  qed
  have "case GetStandbyDeploymentSlot app srv db' of
      Inl err \<Rightarrow> err = ErrNoRows | Inr (standby, _) \<Rightarrow> slot_Color standby \<noteq> color"
  proof (cases rule: latest_slot_cases [of "''standby''" app srv db'])
    case (found s')
    then show ?thesis using activated_color(2) [OF a] by (simp add: GetStandbyDeploymentSlot_def)
  next
    case none
    then show ?thesis by (simp add: GetStandbyDeploymentSlot_def)
  qed
  then show ?thesis using a s' by (auto simp: GetActiveDeploymentSlot_def)
qed

theorem switch_selects_color_witness:
  "\<exists>ss db' active. ActivateDeploymentSlot (Some ''a1'') (Some ''s1'') ''green'' sample_db = Inr (ss, db')
    \<and> GetActiveDeploymentSlot (Some ''a1'') (Some ''s1'') db' = Inr (active, db') \<and> slot_Color active = ''green''"
proof -
  have "sample_slot ''green'' ''standby'' \<in> set (slots sample_db)"
    "switchable (Some ''a1'') (Some ''s1'') (sample_slot ''green'' ''standby'')"
    "slot_Color (sample_slot ''green'' ''standby'') = ''green''"
    by (simp_all add: sample_db_def, simp_all add: sample_slot_def switchable_def slot_at_def)
  from switch_selects_color [OF this] show ?thesis by blast
qed

end
