(* ===== verification/Runner_Invariants.thy ===== *)
theory Runner_Invariants
  imports Runner Lifecycle
begin

text \<open>
  What the runner does to the database, proved once for any property of the tables that its statements
  keep. The interface between the runner and the database is the locale \<open>deploy_statements\<close>: the
  statements that a deployment in progress runs; \<open>run_statements\<close> adds those that start and end it.
\<close>

subsection \<open>Programs that keep a property\<close>

definition keeps :: "(store \<Rightarrow> bool) \<Rightarrow> 'a run \<Rightarrow> bool" where
  "keeps I m \<longleftrightarrow> (\<forall>w. I (w_store w) \<longrightarrow> I (w_store (snd (run_state m w))))"

named_theorems keeps_rules

lemma keepsD: "keeps I m \<Longrightarrow> I (w_store w) \<Longrightarrow> I (w_store (snd (run_state m w)))"
  by (simp add: keeps_def)

lemma keeps_return [keeps_rules]: "keeps I (State_Monad.return x)"
  by (simp add: keeps_def State_Monad.return_def)

lemma keeps_bind [keeps_rules]: "keeps I m \<Longrightarrow> (\<And>x. keeps I (f x)) \<Longrightarrow> keeps I (State_Monad.bind m f)"
  by (auto simp: keeps_def State_Monad.bind_def split: prod.splits)

lemma keeps_let [keeps_rules]: "keeps I (f t) \<Longrightarrow> keeps I (Let t f)"
  by simp

lemma keeps_if [keeps_rules]: "(b \<Longrightarrow> keeps I m) \<Longrightarrow> (\<not> b \<Longrightarrow> keeps I n) \<Longrightarrow> keeps I (if b then m else n)"
  by simp

lemma keeps_option [keeps_rules]:
  "keeps I m \<Longrightarrow> (\<And>x. keeps I (f x)) \<Longrightarrow> keeps I (case r of None \<Rightarrow> m | Some x \<Rightarrow> f x)"
  by (cases r) simp_all

lemma keeps_sum [keeps_rules]:
  "(\<And>x. keeps I (f x)) \<Longrightarrow> (\<And>y. keeps I (g y)) \<Longrightarrow> keeps I (case r of Inl x \<Rightarrow> f x | Inr y \<Rightarrow> g y)"
  by (cases r) simp_all

lemma keeps_prod [keeps_rules]: "(\<And>x y. keeps I (f x y)) \<Longrightarrow> keeps I (case r of (x, y) \<Rightarrow> f x y)"
  by (cases r) simp

lemma keeps_error [keeps_rules]:
  "keeps I m \<Longrightarrow> (\<And>x y z. keeps I (f x y z)) \<Longrightarrow> (\<And>s. keeps I (g s)) \<Longrightarrow>
   keeps I (case err of ErrNoRows \<Rightarrow> m | PgError x y z \<Rightarrow> f x y z | Errorf s \<Rightarrow> g s)"
  by (cases err) simp_all

lemma keeps_no_database [keeps_rules]:
  "keeps I next_step" "keeps I (RunWithInput env client cmd inp)" "keeps I (publish ev)"
  "keeps I (State (\<lambda>w. (x, w\<lparr>w_notified := f w\<rparr>)))"
  by (simp_all add: keeps_def next_step_def RunWithInput_def publish_def State_Monad.bind_def)

lemma keeps_results [keeps_rules]:
  "keeps I (okE x)" "keeps I (failE err)"
  "keeps I m \<Longrightarrow> (\<And>x. keeps I (f x)) \<Longrightarrow> keeps I (bindE m f)"
  "keeps I m \<Longrightarrow> keeps I (mapE g m)"
  unfolding okE_def failE_def bindE_def mapE_def by (intro keeps_rules; assumption?)+

lemma db_exec_keeps:
  assumes "\<And>db n. I db \<Longrightarrow> I (db\<lparr>clock := clock db + n\<rparr>)" "stmt_keeps I q"
  shows "keeps I (db_exec env q)"
proof -
  have "I (w_store (snd (run_state (db_exec env q) w)))" if "I (w_store w)" for w
  proof -
    let ?db = "(w_store w)\<lparr>clock := clock (w_store w) + db_ticks env (w_steps w)\<rparr>"
    have db: "I ?db" using assms(1) that .
    show ?thesis
    proof (cases "q ?db")
      case (Inl err)
      then show ?thesis using db
        by (simp add: db_exec_def next_step_def State_Monad.bind_def Let_def split: db_outcome.splits)
    next
      case (Inr r)
      obtain x db' where r: "r = (x, db')" by (cases r)
      then have "I db'" using assms(2) db Inr by (auto simp: stmt_keeps_def)
      then show ?thesis using db Inr r
        by (simp add: db_exec_def next_step_def State_Monad.bind_def Let_def split: db_outcome.splits)
    qed
  qed
  then show ?thesis by (simp add: keeps_def)
qed

subsection \<open>The statements of a deployment in progress\<close>

locale deploy_statements =
  fixes I :: "store \<Rightarrow> bool"
  assumes clock_advances: "I db \<Longrightarrow> I (db\<lparr>clock := clock db + n\<rparr>)"
    and commits: "stmt_keeps I (SetDeploymentCommitSHA i sha message)"
    and logs: "stmt_keeps I (AppendDeploymentLog i stream message)"
    and audits: "stmt_keeps I (AppendAuditEvent actor action target_type target_id target_name metadata)"
    and app_statuses: "stmt_keeps I (UpdateApplicationStatus i status version)"
    and app_configs: "stmt_keeps I (MarkApplicationConfigurationDeployed i revision proj_revision)"
    and slot_records: "us_Status arg = ''standby'' \<Longrightarrow> stmt_keeps I (UpsertDeploymentSlot new_id arg)"
    and slot_switches: "stmt_keeps I (ActivateDeploymentSlot app srv color)"
    and route_failures: "stmt_keeps I (MarkProxyRouteFailed i)"
    and promotions: "stmt_keeps I (PromoteProxyRoutes ids upstreams)"
begin

lemmas statement_rules = commits logs audits app_statuses app_configs slot_records slot_switches
  route_failures promotions read_only_keeps

lemma db_exec_statement: "stmt_keeps I q \<Longrightarrow> keeps I (db_exec env q)"
  by (rule db_exec_keeps) (rule clock_advances)

lemmas step_rules = keeps_rules db_exec_statement statement_rules

lemma append_log_keeps: "keeps I (append_log env deployment stream message)"
  unfolding append_log_def by (intro step_rules)

lemma reporting_keeps:
  "keeps I (logE env deployment stream message)"
  "keeps I (Runner.audit env deployment target action metadata)"
  "keeps I (notify env deployment target failure)"
  unfolding logE_def Runner.audit_def notify_def by (intro step_rules append_log_keeps)+

lemmas report_rules = step_rules append_log_keeps reporting_keeps

lemma variables_keep:
  "keeps I (RuntimeVariables source scope)"
  "keeps I (deploymentRuntimeVariables env target)"
  "keeps I (doppler_merge env config name what variables)"
  unfolding RuntimeVariables_def deploymentRuntimeVariables_def doppler_merge_def by (intro report_rules)+

lemma stack_variables_keep: "keeps I (stack_variables env target shared configs stack)"
  by (induction configs arbitrary: stack) (auto intro!: report_rules variables_keep)

lemma service_variables_keep: "keeps I (service_variables_loop env target stack configs services)"
  by (induction configs arbitrary: services) (auto intro!: report_rules variables_keep)

lemma deploymentServiceRuntimeVariables_keeps: "keeps I (deploymentServiceRuntimeVariables env target shared)"
  unfolding deploymentServiceRuntimeVariables_def
  by (intro report_rules stack_variables_keep service_variables_keep)

lemma planning_keeps:
  "keeps I (resolveSourceCommit env deployment target client)"
  "keeps I (sourceAuthorizationHeaderFor env target ref)"
  "keeps I (nextDeploymentColors env target)"
  "keeps I (blueGreenPorts env target)"
  "keeps I (route_command env route upstream)"
  unfolding resolveSourceCommit_def sourceAuthorizationHeaderFor_def nextDeploymentColors_def blueGreenPorts_def
    route_command_def
  by (intro report_rules)+

lemma checkColorHealth_keeps: "keeps I (checkColorHealth env target client color)"
  unfolding checkColorHealth_def by (intro report_rules planning_keeps)

lemma restoreSingletonServices_keeps: "keeps I (restoreSingletonServices env target client fromColor toColor options)"
  unfolding restoreSingletonServices_def restore_one_def by (intro report_rules)

lemma switchSingletonServices_keeps:
  "keeps I (switchSingletonServices env deployment target client fromColor toColor options)"
  unfolding switchSingletonServices_def start_singletons_def verify_singletons_def
  by (intro report_rules restoreSingletonServices_keeps)

lemma prepare_routes_keep: "keeps I (prepare_routes env color routes)"
  by (induction routes) (auto intro!: report_rules planning_keeps simp: prepareProxyRoute_def)

lemma rollbackProxyRoutes_keeps: "keeps I (rollbackProxyRoutes env client applied)"
proof -
  have "keeps I (rollback_loop env client items)" for items
    by (induction items) (auto intro!: report_rules)
  then show ?thesis by (simp add: rollbackProxyRoutes_def)
qed

lemma apply_routes_keep: "keeps I (apply_routes env deployment client items applied)"
  by (induction items arbitrary: applied) (auto intro!: report_rules rollbackProxyRoutes_keeps)

lemma applyProxyRoutes_keeps: "keeps I (applyProxyRoutes env deployment target client color)"
  unfolding applyProxyRoutes_def record_promoted_def
  by (intro report_rules prepare_routes_keep apply_routes_keep rollbackProxyRoutes_keeps)

lemma upsertSlot_keeps: "keeps I (upsertSlot env deployment target color ''standby'')"
  unfolding upsertSlot_def by (intro report_rules) simp

lemmas promotion_rules = report_rules restoreSingletonServices_keeps switchSingletonServices_keeps
  applyProxyRoutes_keeps upsertSlot_keeps checkColorHealth_keeps planning_keeps

lemma restore_after_keeps: "keeps I (restore_after env target client fromColor toColor options err)"
  unfolding restore_after_def by (intro promotion_rules)

lemma activate_or_restore_keeps: "keeps I (activate_or_restore env deployment target client toColor fromColor options what)"
  unfolding activate_or_restore_def by (intro promotion_rules)

lemma rollback_keeps: "keeps I (rollback env deployment target client)"
  unfolding rollback_def load_rollback_slot_def rollback_singletons_def
  by (intro promotion_rules restore_after_keeps activate_or_restore_keeps)

lemma run_steps_keep: "keeps I (run_steps env deployment client steps target)"
  by (induction steps arbitrary: target) (auto intro!: promotion_rules)

lemma plan_keeps: "keeps I (plan_deployment env deployment target)"
  unfolding plan_deployment_def
  by (intro promotion_rules variables_keep deploymentServiceRuntimeVariables_keeps)

lemma promote_keeps: "keeps I (promote_deployment env deployment target client nextColor currentColor options)"
  unfolding promote_deployment_def by (intro promotion_rules restore_after_keeps activate_or_restore_keeps)

lemma deploy_keeps: "keeps I (deploy env deployment target)"
  unfolding deploy_def error_of_def
  by (intro promotion_rules rollback_keeps plan_keeps run_steps_keep promote_keeps)

end

subsection \<open>The statements of a whole run\<close>

locale run_statements = deploy_statements +
  assumes starts: "stmt_keeps I (StartQueuedDeployment i)"
    and finishes: "terminal status \<Longrightarrow> stmt_keeps I (UpdateDeploymentStatus i status)"
begin

lemma fail_keeps: "keeps I (fail env deployment label err)"
  unfolding fail_def by (intro report_rules finishes) (simp add: terminal_def)

lemma complete_keeps: "keeps I (complete env deployment target)"
  unfolding complete_def by (intro report_rules finishes) (simp_all add: terminal_def)

lemma run_started_keeps: "keeps I (run_started env deployment)"
  unfolding run_started_def by (intro report_rules fail_keeps deploy_keeps complete_keeps)

theorem Run_keeps: "keeps I (Run env deployment)"
  unfolding Run_def by (intro report_rules starts run_started_keeps)

end

text \<open>Every step of the runner is a step of the state machine of the tables.\<close>

lemma reach_step: "(\<And>db x db'. q db = Inr (x, db') \<Longrightarrow> db_step db db') \<Longrightarrow> stmt_keeps (db_run db0) q"
  by (auto simp: stmt_keeps_def intro: rtranclp.rtrancl_into_rtrancl)

interpretation reach: run_statements "db_run db0" for db0
  by unfold_locales
     (auto intro: reach_step db_step.intros rtranclp.rtrancl_into_rtrancl)

text \<open>A deployment in progress leaves the lifecycle of every deployment alone.\<close>

definition lifecycle :: "deployment \<Rightarrow> pg_uuid \<times> pg_uuid \<times> string \<times> pg_time \<times> pg_time" where
  "lifecycle d = (dep_ID d, dep_ApplicationID d, dep_Status d, dep_StartedAt d, dep_FinishedAt d)"

lemma frames_deployments: "frames q \<Longrightarrow> (\<And>db db'. deployments db' = deployments db \<Longrightarrow> I db \<Longrightarrow> I db') \<Longrightarrow> stmt_keeps I q"
  by (erule frames_keeps) (simp add: core_def)

lemma same_deployments_keeps:
  "(\<And>db x db'. q db = Inr (x, db') \<Longrightarrow> deployments db' = deployments db) \<Longrightarrow>
   (\<And>db db'. deployments db' = deployments db \<Longrightarrow> I db \<Longrightarrow> I db') \<Longrightarrow> stmt_keeps I q"
  unfolding stmt_keeps_def by blast

lemma slot_statements_deployments:
  "UpsertDeploymentSlot new_id arg db = Inr (s, db') \<Longrightarrow> deployments db' = deployments db"
  "ActivateDeploymentSlot app srv color db = Inr (ss, db') \<Longrightarrow> deployments db' = deployments db"
  "AppendDeploymentLog i stream message db = Inr (l, db') \<Longrightarrow> deployments db' = deployments db"
  by (auto simp: UpsertDeploymentSlot_def ActivateDeploymentSlot_def Let_def dest!: AppendDeploymentLog_Inr
      split: option.splits list.splits if_splits)

lemma commit_lifecycle:
  "SetDeploymentCommitSHA i sha message db = Inr (d, db') \<Longrightarrow>
   map lifecycle (deployments db') = map lifecycle (deployments db)"
  unfolding SetDeploymentCommitSHA_def
  by (drule update_deployment_Inr) (auto simp: map_update_rows lifecycle_def)

interpretation fixed: deploy_statements "\<lambda>db. map lifecycle (deployments db) = L" for L
proof unfold_locales
  show "stmt_keeps (\<lambda>db. map lifecycle (deployments db) = L) (SetDeploymentCommitSHA i sha message)" for i sha message
    by (auto intro!: stmt_keepsI dest: commit_lifecycle)
qed (auto intro!: other_tables_frame [THEN frames_deployments]
    intro: same_deployments_keeps [OF slot_statements_deployments(1)]
      same_deployments_keeps [OF slot_statements_deployments(2)]
      same_deployments_keeps [OF slot_statements_deployments(3)])

subsection \<open>Properties of the runner\<close>

text \<open>C2. Whatever fails, and however the answers of the database are lost, what a run does to the tables
  is an execution of the state machine: the runner refines the specification of the lifecycle.\<close>

theorem Run_is_execution: "db_run (w_store w) (w_store (snd (run_state (Run env deployment) w)))"
  by (rule keepsD [OF reach.Run_keeps]) simp

text \<open>Between the start and the end, deploying (or rolling back) leaves the status and the time stamps of
  every deployment alone, whatever the servers and the database answer.\<close>

theorem deploy_keeps_lifecycles:
  "map lifecycle (deployments (w_store (snd (run_state (deploy env deployment target) w))))
     = map lifecycle (deployments (w_store w))"
  by (rule keepsD [OF fixed.deploy_keeps]) simp

end
