(* ===== verification/Runner_Outcome.thy ===== *)
theory Runner_Outcome
  imports Runner_Invariants
begin

text \<open>
  How a run of the runner ends: which status the deployment has, what was executed on the server, and
  what is undone when a step fails.
\<close>

subsection \<open>A sample environment\<close>

definition sample_env :: runner_env where
  "sample_env =
     \<lparr>db_outcomes = (\<lambda>_. Served), db_ticks = (\<lambda>_. 1), fresh_ids = FormatNat, ssh_answers = (\<lambda>_ _ _ _. ([], None)),
      ssh_signer = (\<lambda>_ _ _ _. None), local_host = (\<lambda>_. False), lookup_ip = (\<lambda>_ _. Some []), runtime_source = None,
      source_auth = None, notifier = (\<lambda>_ _. None), uuid_text = (\<lambda>s. s), json_error = (\<lambda>_. Errorf ''invalid JSON'')\<rparr>"

definition sample_world :: world where
  "sample_world = \<lparr>w_store = sample_db, w_steps = 0, w_remote = [], w_published = [], w_notified = []\<rparr>"

definition sample_client :: ssh_client where
  "sample_client = DirectSSH ''web.internal'' 22 ''deploy''"

subsection \<open>Reading the state monad\<close>

lemma run_bind: "run_state (State_Monad.bind m f) w = run_state (f (fst (run_state m w))) (snd (run_state m w))"
  by (simp add: State_Monad.bind_def split: prod.splits)

declare State_Monad.run_state_bind [simp del] State_Monad.bind_assoc [simp del]

lemma run_bindE: "run_state (bindE m f) w =
    (case fst (run_state m w) of Inl err \<Rightarrow> (Inl err, snd (run_state m w)) | Inr x \<Rightarrow> run_state (f x) (snd (run_state m w)))"
  by (auto simp: bindE_def run_bind split: sum.splits)

lemma run_okE [simp]: "run_state (okE x) w = (Inr x, w)"
  by (simp add: okE_def)

lemma run_failE [simp]: "run_state (failE err) w = (Inl err, w)"
  by (simp add: failE_def)

subsection \<open>Programs that lead from one property of the tables to another\<close>

definition leads :: "(store \<Rightarrow> bool) \<Rightarrow> 'a run \<Rightarrow> (store \<Rightarrow> bool) \<Rightarrow> bool" where
  "leads P m Q \<longleftrightarrow> (\<forall>w. P (w_store w) \<longrightarrow> Q (w_store (snd (run_state m w))))"

lemma leads_keeps: "keeps I m \<Longrightarrow> leads I m I"
  by (simp add: keeps_def leads_def)

lemma leads_bind: "leads P m R \<Longrightarrow> (\<And>x. leads R (f x) Q) \<Longrightarrow> leads P (State_Monad.bind m f) Q"
  by (auto simp: leads_def run_bind split: prod.splits)

lemma leads_return: "leads P (State_Monad.return x) P"
  by (simp add: leads_def)

lemma leads_sum:
  "(\<And>x. leads P (f x) Q) \<Longrightarrow> (\<And>y. leads P (g y) Q) \<Longrightarrow> leads P (case r of Inl x \<Rightarrow> f x | Inr y \<Rightarrow> g y) Q"
  by (cases r) simp_all

lemma leads_option: "leads P m Q \<Longrightarrow> (\<And>x. leads P (f x) Q) \<Longrightarrow> leads P (case r of None \<Rightarrow> m | Some x \<Rightarrow> f x) Q"
  by (cases r) simp_all

lemma leads_prod: "(\<And>x y. leads P (f x y) Q) \<Longrightarrow> leads P (case r of (x, y) \<Rightarrow> f x y) Q"
  by (cases r) simp

lemma leads_weaken: "leads P m Q \<Longrightarrow> (\<And>db. Q db \<Longrightarrow> Q' db) \<Longrightarrow> leads P m Q'"
  by (auto simp: leads_def)

subsection \<open>The row of the deployment\<close>

definition row_status :: "string \<Rightarrow> string \<Rightarrow> store \<Rightarrow> bool" where
  "row_status i s db \<longleftrightarrow> store_ok db \<and> (\<exists>d. deployment_is db i d \<and> dep_Status d = s)"

lemma row_status_lifecycle:
  assumes "map lifecycle (deployments db') = map lifecycle (deployments db)" "store_ok db'" "row_status i s db"
  shows "row_status i s db'"
proof -
  obtain d where d: "d \<in> set (deployments db)" "dep_ID d = Some i" "dep_Status d = s"
    using assms(3) by (auto simp: row_status_def deployment_is_def)
  then have "lifecycle d \<in> set (map lifecycle (deployments db'))" unfolding assms(1) by simp
  then obtain e where "e \<in> set (deployments db')" "lifecycle e = lifecycle d" by auto
  then show ?thesis using assms(2) d by (auto simp: row_status_def deployment_is_def lifecycle_def)
qed

interpretation row: deploy_statements "row_status i s" for i s
proof unfold_locales
  have lift: "stmt_keeps (row_status i s) q"
    if "stmt_keeps store_ok q" "\<And>L. stmt_keeps (\<lambda>db. map lifecycle (deployments db) = L) q" for q :: "'x stmt"
  proof (rule stmt_keepsI)
    fix db x db' assume r: "row_status i s db" and q: "q db = Inr (x, db')"
    have "store_ok db'" using stmt_keepsD [OF q _ that(1)] r by (simp add: row_status_def)
    moreover have "map lifecycle (deployments db') = map lifecycle (deployments db)"
      using stmt_keepsD [OF q _ that(2)] by blast
    ultimately show "row_status i s db'" using row_status_lifecycle r by blast
  qed
  show "row_status i s (db\<lparr>clock := clock db + n\<rparr>)" if "row_status i s db" for db n
    using that by (simp add: row_status_def store_ok_clock deployment_is_def)
  show "stmt_keeps (row_status i s) (SetDeploymentCommitSHA j sha message)" for j sha message
    by (rule lift [OF deployment_updates_ok(4) fixed.commits])
  show "stmt_keeps (row_status i s) (AppendDeploymentLog j stream message)" for j stream message
    by (rule lift [OF AppendDeploymentLog_ok fixed.logs])
  show "stmt_keeps (row_status i s) (AppendAuditEvent actor action target_type target_id target_name metadata)"
    for actor action target_type target_id target_name metadata
    by (rule lift [OF other_tables_ok(1) fixed.audits])
  show "stmt_keeps (row_status i s) (UpdateApplicationStatus j status version)" for j status version
    by (rule lift [OF other_tables_ok(2) fixed.app_statuses])
  show "stmt_keeps (row_status i s) (MarkApplicationConfigurationDeployed j revision proj_revision)" for j revision proj_revision
    by (rule lift [OF other_tables_ok(3) fixed.app_configs])
  show "stmt_keeps (row_status i s) (UpsertDeploymentSlot new_id arg)" if "us_Status arg = ''standby''" for arg new_id
    by (rule lift [OF UpsertDeploymentSlot_ok fixed.slot_records]) (simp_all add: that)
  show "stmt_keeps (row_status i s) (ActivateDeploymentSlot app srv color)" for app srv color
    by (rule lift [OF ActivateDeploymentSlot_ok fixed.slot_switches])
  show "stmt_keeps (row_status i s) (MarkProxyRouteFailed j)" for j
    by (rule lift [OF other_tables_ok(5) fixed.route_failures])
  show "stmt_keeps (row_status i s) (PromoteProxyRoutes ids upstreams)" for ids upstreams
    by (rule lift [OF other_tables_ok(6) fixed.promotions])
qed

subsection \<open>A served database\<close>

definition served :: "runner_env \<Rightarrow> bool" where
  "served env \<longleftrightarrow> db_outcomes env = (\<lambda>_. Served)"

definition ticked :: "runner_env \<Rightarrow> world \<Rightarrow> store" where
  "ticked env w = (w_store w)\<lparr>clock := clock (w_store w) + db_ticks env (w_steps w)\<rparr>"

lemma db_exec_served:
  assumes "served env"
  shows "run_state (db_exec env q) w =
    (case q (ticked env w) of
       Inl err \<Rightarrow> (Inl err, w\<lparr>w_steps := Suc (w_steps w), w_store := ticked env w\<rparr>)
     | Inr (x, db') \<Rightarrow> (Inr x, w\<lparr>w_steps := Suc (w_steps w), w_store := db'\<rparr>))"
  using assms by (simp add: db_exec_def next_step_def run_bind served_def ticked_def Let_def split: sum.splits prod.splits)

lemma row_status_ticked: "row_status i s (w_store w) \<Longrightarrow> row_status i s (ticked env w)"
  unfolding ticked_def by (rule row.clock_advances)

lemma finish_leads:
  assumes "served env" "terminal t"
  shows "leads (row_status i s) (db_exec env (UpdateDeploymentStatus (Some i) t)) (row_status i t)"
  unfolding leads_def
proof (intro allI impI)
  fix w :: world assume "row_status i s (w_store w)"
  then have "row_status i s (ticked env w)" by (rule row_status_ticked)
  then obtain d where "store_ok (ticked env w)" "deployment_is (ticked env w) i d" by (auto simp: row_status_def)
  from finish_row [OF this assms(2)] obtain e db' where
    "UpdateDeploymentStatus (Some i) t (ticked env w) = Inr (e, db')" "row_status i t db'"
    by (auto simp: row_status_def)
  then show "row_status i t (w_store (snd (run_state (db_exec env (UpdateDeploymentStatus (Some i) t)) w)))"
    by (simp add: db_exec_served [OF assms(1)])
qed

lemma fail_leads:
  assumes "served env" "dep_ID deployment = Some i"
  shows "leads (row_status i s) (fail env deployment label err) (row_status i ''failed'')"
  unfolding fail_def assms(2)
  by (rule leads_bind [OF leads_keeps [OF row.append_log_keeps]],
      rule leads_bind [OF finish_leads [OF assms(1)]], simp add: terminal_def, rule leads_return)

lemma update_succeeded_ok:
  assumes "served env" "row_status i s (w_store w)"
  shows "\<exists>e w'. run_state (db_exec env (UpdateDeploymentStatus (Some i) ''succeeded'')) w = (Inr e, w')
    \<and> row_status i ''succeeded'' (w_store w') \<and> dep_Status e = ''succeeded''"
proof -
  obtain d where d: "store_ok (ticked env w)" "deployment_is (ticked env w) i d"
    using row_status_ticked [OF assms(2)] by (auto simp: row_status_def)
  have "terminal ''succeeded''" by (simp add: terminal_def)
  from finish_row [OF d this] show ?thesis
    by (auto simp: db_exec_served [OF assms(1)] row_status_def)
qed

lemma complete_leads:
  assumes "served env" "dep_ID deployment = Some i"
  shows "leads (row_status i s) (complete env deployment target) (row_status i ''succeeded'')"
  unfolding leads_def
proof (intro allI impI)
  fix w :: world assume "row_status i s (w_store w)"
  from update_succeeded_ok [OF assms(1) this] obtain e w' where
    u: "run_state (db_exec env (UpdateDeploymentStatus (Some i) ''succeeded'')) w = (Inr e, w')"
       "row_status i ''succeeded'' (w_store w')" by blast
  define rest where "rest e = do {
          _ \<leftarrow> db_exec env (UpdateApplicationStatus (tgt_ApplicationID target) ''healthy'' (deploymentVersion target));
          (if dep_Trigger deployment \<noteq> ''rollback'' then do {
             m \<leftarrow> db_exec env (MarkApplicationConfigurationDeployed (tgt_ApplicationID target)
                    (tgt_ConfigurationRevision target) (tgt_ProjectConfigurationRevision target));
             (case m of
                Inl err \<Rightarrow> append_log env deployment ''stderr'' (''mark deployed configuration: '' @ err_text err)
              | Inr _ \<Rightarrow> State_Monad.return ())
           } else State_Monad.return ());
          append_log env deployment ''system'' ''Deployment completed'';
          Runner.audit env e target ''deployment.succeeded'' [(''status'', JStr ''succeeded'')];
          notify env e target []
        }" for e
  have "keeps (row_status i ''succeeded'') (rest e)" unfolding rest_def by (intro row.report_rules)
  moreover have "run_state (complete env deployment target) w = run_state (rest e) w'"
    by (simp only: complete_def run_bind [where m = "db_exec env (UpdateDeploymentStatus _ _)"] assms(2) u(1) rest_def
        fst_conv snd_conv prod.case sum.case)
  ultimately show "row_status i ''succeeded'' (w_store (snd (run_state (complete env deployment target) w)))"
    using u(2) by (simp add: keepsD)
qed

lemma run_started_leads:
  assumes "served env" "dep_ID deployment = Some i"
  shows "leads (row_status i ''running'') (run_started env deployment)
    (\<lambda>db. row_status i ''succeeded'' db \<or> row_status i ''failed'' db)"
proof -
  let ?Q = "\<lambda>db. row_status i ''succeeded'' db \<or> row_status i ''failed'' db"
  have failed: "leads (row_status i s) (fail env deployment label err) (row_status i ''failed'')" for s label err
    by (rule fail_leads [OF assms])
  have after: "leads (row_status i ''failed'') m ?Q" if "keeps (row_status i ''failed'') m" for m :: "unit run"
    by (rule leads_weaken [OF leads_keeps [OF that]]) simp
  have completed: "leads (row_status i ''running'') (complete env deployment target) ?Q" for target
    by (rule leads_weaken [OF complete_leads [OF assms]]) simp
  show ?thesis
    unfolding run_started_def
    by (intro leads_bind [OF leads_keeps, OF row.append_log_keeps] leads_sum leads_prod leads_option
        leads_bind [OF leads_keeps, OF row.db_exec_statement, OF read_only_keeps(2)]
        leads_bind [OF failed] after completed row.report_rules
        leads_bind [OF leads_keeps, OF row.reporting_keeps(2)]
        leads_bind [OF leads_keeps, OF row.db_exec_statement, OF row.app_statuses]
        leads_bind [OF leads_keeps, OF row.deploy_keeps])
qed

lemma Run_terminal:
  assumes "served env" "dep_ID deployment = Some i" "row_status i ''queued'' (w_store w)"
  shows "\<exists>t. (t = ''succeeded'' \<or> t = ''failed'') \<and> row_status i t (w_store (snd (run_state (Run env deployment) w)))"
proof -
  obtain d where d: "store_ok (ticked env w)" "deployment_is (ticked env w) i d" "dep_Status d = ''queued''"
    using row_status_ticked [OF assms(3)] by (auto simp: row_status_def)
  from start_queued_row [OF this] obtain e db' where
    e: "StartQueuedDeployment (Some i) (ticked env w) = Inr (e, db')" "deployment_is db' i e" "row_status i ''running'' db'"
    by (auto simp: row_status_def)
  have "run_state (Run env deployment) w
      = run_state (run_started env e) (w\<lparr>w_steps := Suc (w_steps w), w_store := db'\<rparr>)"
    by (simp add: Run_def run_bind db_exec_served [OF assms(1)] assms(2) e(1))
  moreover have "leads (row_status i ''running'') (run_started env e)
      (\<lambda>db. row_status i ''succeeded'' db \<or> row_status i ''failed'' db)"
    using e(2) by (intro run_started_leads assms(1)) (simp add: deployment_is_def)
  then have "row_status i ''running'' (w_store (w\<lparr>w_steps := Suc (w_steps w), w_store := db'\<rparr>)) \<longrightarrow>
      (\<exists>t. (t = ''succeeded'' \<or> t = ''failed'') \<and>
        row_status i t (w_store (snd (run_state (run_started env e) (w\<lparr>w_steps := Suc (w_steps w), w_store := db'\<rparr>)))))"
    unfolding leads_def by blast
  ultimately show ?thesis using e(3) by simp
qed

text \<open>C1. Once a worker has picked up a queued deployment, the deployment ends as succeeded or failed,
  whatever the servers, the secret store and the notifier answer, as long as the database serves the
  statements; the tables stay valid throughout.\<close>

theorem Run_reaches_terminal_status:
  assumes "served env" "dep_ID deployment = Some i" "row_status i ''queued'' (w_store w)"
  shows "\<exists>t. (t = ''succeeded'' \<or> t = ''failed'') \<and> row_status i t (w_store (snd (run_state (Run env deployment) w)))"
  by (rule Run_terminal [OF assms])

theorem Run_reaches_terminal_status_witness:
  "\<exists>t. (t = ''succeeded'' \<or> t = ''failed'')
     \<and> row_status ''d1'' t (w_store (snd (run_state (Run sample_env sample_deployment) sample_world)))"
proof -
  have "deployment_is sample_db ''d1'' sample_deployment" "dep_Status sample_deployment = ''queued''" by code_simp+
  then have "row_status ''d1'' ''queued'' (w_store sample_world)"
    using sample_db_ok by (auto simp: row_status_def sample_world_def)
  moreover have "served sample_env" by (simp add: served_def sample_env_def)
  moreover have "dep_ID sample_deployment = Some ''d1''" by (simp add: sample_deployment_def)
  ultimately show ?thesis using Run_reaches_terminal_status by blast
qed

subsection \<open>Runs that do nothing\<close>

lemma db_exec_frame:
  "w_remote (snd (run_state (db_exec env q) w)) = w_remote w"
  "w_notified (snd (run_state (db_exec env q) w)) = w_notified w"
  by (auto simp: db_exec_def next_step_def run_bind Let_def split: db_outcome.splits sum.splits)

lemma append_log_frame:
  "w_remote (snd (run_state (append_log env deployment stream message) w)) = w_remote w"
  "w_notified (snd (run_state (append_log env deployment stream message) w)) = w_notified w"
  by (auto simp: append_log_def run_bind publish_def split: option.splits prod.splits)
     (metis db_exec_frame snd_conv)+

lemma start_none_queued:
  "(\<And>d. deployment_is db i d \<Longrightarrow> dep_Status d \<noteq> ''queued'') \<Longrightarrow> StartQueuedDeployment (Some i) db = Inl ErrNoRows"
  by (auto simp: StartQueuedDeployment_def update_deployment_def one_row_def try_bind_def deployment_is_def
      filter_empty_conv split: list.splits)

lemma db_exec_error:
  assumes "q (ticked env w) = Inl err"
  shows "\<exists>e. run_state (db_exec env q) w = (Inl e, w\<lparr>w_steps := Suc (w_steps w), w_store := ticked env w\<rparr>)"
  using assms by (auto simp: db_exec_def next_step_def run_bind ticked_def Let_def split: db_outcome.splits)

text \<open>A run of a deployment that is not queued (it was cancelled, or another worker has it) executes
  nothing on any server, sends no notification and changes no deployment, whatever the database
  answers.\<close>

theorem Run_skips_unless_queued:
  assumes "dep_ID deployment = Some i" "\<And>d. deployment_is (w_store w) i d \<Longrightarrow> dep_Status d \<noteq> ''queued''"
  shows "let w' = snd (run_state (Run env deployment) w) in
    w_remote w' = w_remote w \<and> w_notified w' = w_notified w
    \<and> map lifecycle (deployments (w_store w')) = map lifecycle (deployments (w_store w))"
proof -
  have "StartQueuedDeployment (Some i) (ticked env w) = Inl ErrNoRows"
    using assms(2) by (intro start_none_queued) (simp add: ticked_def deployment_is_def)
  from db_exec_error [where q = "StartQueuedDeployment (Some i)", OF this] obtain e where
    e: "run_state (db_exec env (StartQueuedDeployment (Some i))) w = (Inl e, w\<lparr>w_steps := Suc (w_steps w), w_store := ticked env w\<rparr>)"
    by blast
  let ?w = "w\<lparr>w_steps := Suc (w_steps w), w_store := ticked env w\<rparr>"
  obtain stream message where
    "run_state (Run env deployment) w = run_state (append_log env deployment stream message) ?w"
    unfolding Run_def by (cases e) (simp_all add: run_bind assms(1) e)
  moreover have "map lifecycle (deployments (w_store (snd (run_state (append_log env deployment stream message) ?w))))
      = map lifecycle (deployments (w_store ?w))"
    by (rule keepsD [OF fixed.append_log_keeps]) simp
  ultimately show ?thesis by (simp add: append_log_frame ticked_def)
qed

theorem Run_skips_unless_queued_witness:
  "w_remote (snd (run_state (Run sample_env (sample_deployment\<lparr>dep_ID := Some ''d2''\<rparr>)) sample_world)) = []"
proof -
  have "dep_ID (sample_deployment\<lparr>dep_ID := Some ''d2''\<rparr>) = Some ''d2''" by simp
  moreover have "\<And>d. deployment_is (w_store sample_world) ''d2'' d \<Longrightarrow> dep_Status d \<noteq> ''queued''"
    by (auto simp: deployment_is_def sample_world_def sample_db_def sample_deployment_def)
  ultimately show ?thesis
    using Run_skips_unless_queued [of "sample_deployment\<lparr>dep_ID := Some ''d2''\<rparr>" "''d2''" sample_world sample_env]
    by (simp add: Let_def sample_world_def)
qed

subsection \<open>Commands that were executed\<close>

abbreviation issued :: "ssh_client \<Rightarrow> string list \<Rightarrow> (ssh_client \<times> string \<times> string) list" where
  "issued client cmds \<equiv> map (\<lambda>cmd. (client, cmd, [])) cmds"

lemma run_cmd:
  "run_state (RunWithInput env client cmd inp) w =
    (ssh_answers env (w_steps w) client cmd inp,
     w\<lparr>w_steps := Suc (w_steps w), w_remote := w_remote w @ [(client, cmd, inp)]\<rparr>)"
  by (simp add: RunWithInput_def next_step_def run_bind)

lemma rollback_loop_trace:
  "w_remote (snd (run_state (rollback_loop env client items) w)) = w_remote w @ issued client (map pr_rollback items)"
  by (induction items arbitrary: w) (simp_all add: run_bind run_cmd)

lemma rollbackProxyRoutes_trace:
  "w_remote (snd (run_state (rollbackProxyRoutes env client applied) w))
     = w_remote w @ issued client (map pr_rollback (rev applied))"
  by (simp add: rollbackProxyRoutes_def rollback_loop_trace)

text \<open>What \<open>apply_routes\<close> has executed when it returns: all commands, or the commands up to the one that
  failed followed by the rollbacks of the others in reverse order.\<close>

definition routes_trace ::
  "ssh_client \<Rightarrow> prepared_route list \<Rightarrow> prepared_route list \<Rightarrow> go_error + unit \<Rightarrow> (ssh_client \<times> string \<times> string) list \<Rightarrow> bool" where
  "routes_trace client applied items r cmds \<longleftrightarrow>
     (case r of
        Inr _ \<Rightarrow> cmds = issued client (map pr_command items)
      | Inl _ \<Rightarrow> \<exists>ok bad rest. items = ok @ bad # rest
          \<and> cmds = issued client (map pr_command (ok @ [bad]) @ map pr_rollback (rev (applied @ ok))))"

lemma routes_trace_Cons:
  "routes_trace client (applied @ [item]) items r cmds \<Longrightarrow>
   routes_trace client applied (item # items) r ((client, pr_command item, []) # cmds)"
proof (cases r)
  case (Inl err)
  assume "routes_trace client (applied @ [item]) items r cmds"
  then obtain ok bad rest where "items = ok @ bad # rest"
    "cmds = issued client (map pr_command (ok @ [bad]) @ map pr_rollback (rev (applied @ [item] @ ok)))"
    by (auto simp: routes_trace_def Inl)
  then show ?thesis unfolding routes_trace_def Inl sum.case
    by (intro exI [of _ "item # ok"] exI [of _ bad] exI [of _ rest]) simp
qed (simp add: routes_trace_def)

lemma maybe_log_frame:
  "w_remote (snd (run_state (if b then append_log env deployment stream message else State_Monad.return ()) w)) = w_remote w"
  by (simp add: append_log_frame)

lemma apply_routes_trace:
  "\<exists>cmds. w_remote (snd (run_state (apply_routes env deployment client items applied) w)) = w_remote w @ cmds
     \<and> routes_trace client applied items (fst (run_state (apply_routes env deployment client items applied) w)) cmds"
proof (induction items arbitrary: applied w)
  case Nil
  then show ?case by (simp add: routes_trace_def)
next
  case (Cons item items)
  define w1 where "w1 = snd (run_state (append_log env deployment ''system'' (''Applying proxy route '' @ rt_Domain (pr_route item))) w)"
  obtain out err w2 where w2: "run_state (RunWithInput env client (pr_command item) []) w1 = ((out, err), w2)"
    by (metis surj_pair)
  define w3 where "w3 = snd (run_state (if TrimSpace out \<noteq> [] then append_log env deployment ''stdout'' out else State_Monad.return ()) w2)"
  have w1r: "w_remote w1 = w_remote w" by (simp add: w1_def append_log_frame)
  have w2r: "w_remote w2 = w_remote w @ [(client, pr_command item, [])]" using w2 w1r by (simp add: run_cmd) auto
  have w3r: "w_remote w3 = w_remote w @ [(client, pr_command item, [])]" unfolding w3_def maybe_log_frame w2r ..
  have unfolded: "run_state (apply_routes env deployment client (item # items) applied) w = run_state
     (case err of
        Some err \<Rightarrow> do {
          _ \<leftarrow> db_exec env (MarkProxyRouteFailed (rt_ID (pr_route item)));
          rollbackProxyRoutes env client applied;
          failE (wrap (''apply proxy route '' @ rt_Domain (pr_route item)) err)
        }
      | None \<Rightarrow> apply_routes env deployment client items (applied @ [item])) w3"
    by (simp only: apply_routes.simps run_bind w1_def [symmetric] w2 fst_conv snd_conv w3_def)
  show ?case
  proof (cases err)
    case None
    obtain cmds where "w_remote (snd (run_state (apply_routes env deployment client items (applied @ [item])) w3)) = w_remote w3 @ cmds"
      "routes_trace client (applied @ [item]) items (fst (run_state (apply_routes env deployment client items (applied @ [item])) w3)) cmds"
      using Cons.IH by blast
    then show ?thesis unfolding unfolded None option.case
      by (intro exI [of _ "(client, pr_command item, []) # cmds"] conjI routes_trace_Cons) (simp_all add: w3r)
  next
    case (Some e)
    obtain r w4 where w4: "run_state (db_exec env (MarkProxyRouteFailed (rt_ID (pr_route item)))) w3 = (r, w4)" by (metis surj_pair)
    have "w_remote w4 = w_remote w3" using w4 db_exec_frame(1) by (metis snd_conv)
    moreover have "routes_trace client applied (item # items) (Inl err')
        ((client, pr_command item, []) # issued client (map pr_rollback (rev applied)))" for err'
      unfolding routes_trace_def sum.case by (intro exI [of _ "[]"] exI [of _ item] exI [of _ items]) simp
    ultimately show ?thesis unfolding unfolded Some option.case
      by (intro exI [of _ "(client, pr_command item, []) # issued client (map pr_rollback (rev applied))"] conjI)
         (simp_all add: run_bind w4 rollbackProxyRoutes_trace w3r)
  qed
qed

lemma record_promoted_trace:
  "case fst (run_state (record_promoted env client prepared) w) of
     Inr _ \<Rightarrow> w_remote (snd (run_state (record_promoted env client prepared) w)) = w_remote w
   | Inl _ \<Rightarrow> w_remote (snd (run_state (record_promoted env client prepared) w))
               = w_remote w @ issued client (map pr_rollback (rev prepared))"
proof (cases "prepared = []")
  case False
  define p where "p = run_state (db_exec env (PromoteProxyRoutes (map (rt_ID \<circ> pr_route) prepared) (map pr_upstream prepared))) w"
  have "w_remote (snd p) = w_remote w" by (simp add: p_def db_exec_frame)
  then show ?thesis using False
    by (auto simp: record_promoted_def run_bind p_def [symmetric] rollbackProxyRoutes_trace split: sum.splits)
qed (simp add: record_promoted_def)

lemma route_command_remote: "w_remote (snd (run_state (route_command env route upstream) w)) = w_remote w"
  by (simp add: route_command_def next_step_def run_bind)

lemma prepare_routes_remote: "w_remote (snd (run_state (prepare_routes env color routes) w)) = w_remote w"
proof (induction routes arbitrary: w)
  case (Cons route routes)
  have "w_remote (snd (run_state (prepareProxyRoute env route color) w)) = w_remote w"
    by (auto simp: prepareProxyRoute_def run_bindE route_command_remote split: sum.splits)
  then show ?case using Cons.IH
    by (auto simp: run_bind run_bindE db_exec_frame split: sum.splits)
qed simp

definition switched_or_back :: "ssh_client \<Rightarrow> world \<Rightarrow> (go_error + unit) \<times> world \<Rightarrow> bool" where
  "switched_or_back client w p \<longleftrightarrow> (\<exists>(switched :: prepared_route list) failed. length failed \<le> 1
     \<and> (let (r, w') = p in w_remote w' = w_remote w @ issued client (map pr_command (switched @ failed))
          @ (case r of Inl _ \<Rightarrow> issued client (map pr_rollback (rev switched)) | Inr _ \<Rightarrow> [])
        \<and> (isl r \<or> failed = [])))"

lemma switched_or_backI:
  fixes switched failed :: "prepared_route list"
  assumes "w_remote (snd p) = w_remote w @ issued client (map pr_command (switched @ failed))
       @ (case fst p of Inl _ \<Rightarrow> issued client (map pr_rollback (rev switched)) | Inr _ \<Rightarrow> [])"
    and "length failed \<le> 1" "isl (fst p) \<or> failed = []"
  shows "switched_or_back client w p"
  using assms unfolding switched_or_back_def by (cases p, intro exI [of _ switched] exI [of _ failed]) simp

lemma switched_or_back_quiet: "w_remote (snd p) = w_remote w \<Longrightarrow> switched_or_back client w p"
  unfolding switched_or_back_def by (intro exI [of _ "[]"]) (cases p; auto split: sum.splits)

lemma switched_or_back_applied:
  "switched_or_back client w
     (run_state (bindE (apply_routes env deployment client prepared []) (\<lambda>_. record_promoted env client prepared)) w)"
proof -
  define a where "a = run_state (apply_routes env deployment client prepared []) w"
  obtain cmds where a: "w_remote (snd a) = w_remote w @ cmds" "routes_trace client [] prepared (fst a) cmds"
    using apply_routes_trace unfolding a_def by blast
  show ?thesis
  proof (cases "fst a")
    case (Inl err)
    obtain ok bad rest where "prepared = ok @ bad # rest"
      and c: "cmds = issued client (map pr_command (ok @ [bad]) @ map pr_rollback (rev ([] @ ok)))"
      using a(2) unfolding routes_trace_def Inl sum.case by blast
    show ?thesis
      by (rule switched_or_backI [where switched = ok and failed = "[bad]"])
         (simp_all add: run_bindE a_def [symmetric] a(1) Inl c)
  next
    case (Inr u)
    have "cmds = issued client (map pr_command prepared)" using a(2) Inr by (simp add: routes_trace_def)
    then show ?thesis using a(1) Inr record_promoted_trace [of env client prepared "snd a"]
      by (intro switched_or_backI [where switched = prepared and failed = "[]"])
         (auto simp: run_bindE a_def [symmetric] split: prod.splits sum.splits)
  qed
qed


subsection \<open>Singleton services\<close>

abbreviation singleton_command :: "deployment_target \<Rightarrow> remote_step_options \<Rightarrow> string \<Rightarrow> string \<Rightarrow> string" where
  "singleton_command target options color action \<equiv>
     fixedColorComposeServiceCommand target options color action (singletonServices options)"

lemma restore_one_trace:
  "w_remote (snd (run_state (restore_one env target client options action color) w))
     = w_remote w @ (if color = [] then [] else issued client [singleton_command target options color action])"
  by (simp add: restore_one_def run_bind run_cmd)

lemma restoreSingletonServices_trace:
  assumes "singletonServices options \<noteq> []" "tgt_Strategy target = ''blue_green''"
  shows "w_remote (snd (run_state (restoreSingletonServices env target client fromColor toColor options) w))
     = w_remote w @ (if fromColor = [] then [] else issued client [singleton_command target options fromColor ''stop''])
         @ (if toColor = [] then [] else issued client [singleton_command target options toColor ''start''])"
  using assms by (simp add: restoreSingletonServices_def run_bind restore_one_trace)

definition switch_commands :: "deployment_target \<Rightarrow> remote_step_options \<Rightarrow> string \<Rightarrow> string \<Rightarrow> bool \<Rightarrow> string list list" where
  "switch_commands target options fromColor toColor ok =
     (let cmd = singleton_command target options in
      if ok then [[cmd fromColor ''stop'', cmd toColor ''start'', cmd toColor ''ps --status running --services'']]
      else [[cmd fromColor ''stop'', cmd fromColor ''start''],
            [cmd fromColor ''stop'', cmd toColor ''start'', cmd toColor ''stop'', cmd fromColor ''start''],
            [cmd fromColor ''stop'', cmd toColor ''start'', cmd toColor ''ps --status running --services'',
             cmd toColor ''stop'', cmd fromColor ''start'']])"

lemma verify_singletons_trace:
  assumes "singletonServices options \<noteq> []" "tgt_Strategy target = ''blue_green''" "fromColor \<noteq> []" "toColor \<noteq> []"
  shows "let (r, w') = run_state (verify_singletons env target client fromColor toColor options) w;
             cmd = singleton_command target options in
    w_remote w' = w_remote w @ issued client (cmd toColor ''ps --status running --services'' #
      (if isl r then [cmd toColor ''stop'', cmd fromColor ''start''] else []))"
  using assms
  by (auto simp: verify_singletons_def run_bind run_cmd restoreSingletonServices_trace Let_def
      split: sum.splits prod.splits)

lemma start_singletons_trace:
  assumes "singletonServices options \<noteq> []" "tgt_Strategy target = ''blue_green''" "fromColor \<noteq> []" "toColor \<noteq> []"
  shows "let (r, w') = run_state (start_singletons env target client fromColor toColor options) w;
             cmd = singleton_command target options; ps = cmd toColor ''ps --status running --services'' in
    if isl r then
      w_remote w' = w_remote w @ issued client [cmd toColor ''start'', cmd toColor ''stop'', cmd fromColor ''start'']
      \<or> w_remote w' = w_remote w @ issued client [cmd toColor ''start'', ps, cmd toColor ''stop'', cmd fromColor ''start'']
    else w_remote w' = w_remote w @ issued client [cmd toColor ''start'', ps]"
proof -
  let ?cmd = "singleton_command target options"
  define w1 where "w1 = w\<lparr>w_steps := Suc (w_steps w), w_remote := w_remote w @ [(client, ?cmd toColor ''start'', [])]\<rparr>"
  obtain out err where a: "ssh_answers env (w_steps w) client (?cmd toColor ''start'') [] = (out, err)" by (metis surj_pair)
  show ?thesis
  proof (cases err)
    case None
    then have "run_state (start_singletons env target client fromColor toColor options) w
        = run_state (verify_singletons env target client fromColor toColor options) w1"
      by (simp add: start_singletons_def run_bind run_cmd a w1_def)
    then show ?thesis using verify_singletons_trace [OF assms, of env client w1]
      by (auto simp: Let_def w1_def split: prod.splits if_splits)
  next
    case (Some e)
    then show ?thesis using assms
      by (auto simp: start_singletons_def run_bind run_cmd a Let_def restoreSingletonServices_trace
          split: sum.splits prod.splits)
  qed
qed

text \<open>C8. Switching the singleton services from one color to the other stops the old color before it
  starts the new one, so they never overlap by its own doing, and verifies that they run. On every
  error the old color is started again as the last command, after the new color has been stopped if
  it was started.\<close>

theorem switchSingletonServices_commands:
  assumes "singletonServices options \<noteq> []" "tgt_Strategy target = ''blue_green''" "fromColor \<noteq> []" "toColor \<noteq> []"
  shows "let (r, w') = run_state (switchSingletonServices env deployment target client fromColor toColor options) w in
    \<exists>cmds\<in>set (switch_commands target options fromColor toColor (\<not> isl r)). w_remote w' = w_remote w @ issued client cmds"
proof -
  let ?cmd = "singleton_command target options"
  define w1 where "w1 = snd (run_state (append_log env deployment ''system'' (''Switching singleton services to '' @ toColor)) w)"
  have w1: "w_remote w1 = w_remote w" by (simp add: w1_def append_log_frame)
  obtain out err where a: "ssh_answers env (w_steps w1) client (?cmd fromColor ''stop'') [] = (out, err)" by (metis surj_pair)
  define w2 where "w2 = w1\<lparr>w_steps := Suc (w_steps w1), w_remote := w_remote w1 @ [(client, ?cmd fromColor ''stop'', [])]\<rparr>"
  have first: "run_state (switchSingletonServices env deployment target client fromColor toColor options) w = run_state
      (case err of
         Some err \<Rightarrow> do {
           _ \<leftarrow> Run_cmd env client (?cmd fromColor ''start'');
           failE (Errorf (''stop singleton services for '' @ fromColor @ '': '' @ err_text err @ '': '' @ TrimSpace out))
         }
       | None \<Rightarrow> start_singletons env target client fromColor toColor options) w2"
    using assms by (simp add: switchSingletonServices_def logE_def run_bindE run_bind w1_def [symmetric] run_cmd a w2_def
        del: append.simps split: option.split)
  show ?thesis
  proof (cases err)
    case None
    have "w_remote w2 = w_remote w @ [(client, ?cmd fromColor ''stop'', [])]" by (simp add: w2_def w1)
    then show ?thesis using start_singletons_trace [OF assms, of env client w2]
      unfolding first None option.case by (auto simp: Let_def switch_commands_def split: prod.splits if_splits)
  next
    case (Some e)
    then show ?thesis unfolding first Some option.case
      by (simp add: run_bind run_cmd w2_def w1 switch_commands_def)
  qed
qed

theorem switchSingletonServices_commands_witness:
  "let target = target_of (sample_deployment\<lparr>dep_Strategy := ''blue_green''\<rparr>) sample_application sample_project sample_server;
       (r, w') = run_state (switchSingletonServices sample_env sample_deployment target sample_client ''blue'' ''green''
                   (no_options\<lparr>singletonServices := [''cron'']\<rparr>)) sample_world in
    \<exists>cmds. w_remote w' = issued sample_client cmds \<and> 2 \<le> length cmds"
proof -
  let ?target = "target_of (sample_deployment\<lparr>dep_Strategy := ''blue_green''\<rparr>) sample_application sample_project sample_server"
  let ?options = "no_options\<lparr>singletonServices := [''cron'']\<rparr>"
  have "singletonServices ?options \<noteq> []" "tgt_Strategy ?target = ''blue_green''" "''blue'' \<noteq> []" "''green'' \<noteq> []"
    by (simp_all add: target_of_def)
  note t = switchSingletonServices_commands [OF this, of sample_env sample_deployment sample_client sample_world]
  have "cmds \<in> set (switch_commands ?target ?options ''blue'' ''green'' ok) \<Longrightarrow> 2 \<le> length cmds" for cmds ok
    by (auto simp: switch_commands_def Let_def split: if_splits)
  with t show ?thesis by (fastforce simp: Let_def sample_world_def split: prod.splits)
qed

subsection \<open>Colors and log lines\<close>

text \<open>A deployment is prepared in a color that is not the active one, and the color it is told to
  replace is the active one.\<close>

theorem nextDeploymentColors_avoids_active:
  assumes "served env" "fst (run_state (nextDeploymentColors env target) w) = Inr (nextColor, currentColor)"
    "tgt_Strategy target = ''blue_green''"
    "GetActiveDeploymentSlot (tgt_ApplicationID target) (tgt_ServerID target) (ticked env w) = Inr (slot, db')"
    "slot_Color slot = ''blue'' \<or> slot_Color slot = ''green''"
  shows "nextColor \<noteq> slot_Color slot \<and> currentColor = slot_Color slot \<and> (nextColor = ''blue'' \<or> nextColor = ''green'')"
proof -
  define r where "r = run_state (db_exec env (GetActiveDeploymentSlot (tgt_ApplicationID target) (tgt_ServerID target))) w"
  have "fst r = Inr slot" by (simp add: r_def db_exec_served [OF assms(1)] assms(4))
  then have "(nextColor, currentColor) = (if slot_Color slot = ''blue'' then (''green'', ''blue'') else (''blue'', ''green''))"
    using assms(2,3) by (simp add: nextDeploymentColors_def run_bind r_def [symmetric] split: if_splits)
  then show ?thesis using assms(5) by (cases "slot_Color slot = ''blue''") simp_all
qed

theorem nextDeploymentColors_avoids_active_witness:
  "fst (run_state (nextDeploymentColors sample_env
     (target_of sample_deployment sample_application sample_project sample_server)) sample_world) = Inr (''green'', ''blue'')
   \<and> ''green'' \<noteq> slot_Color (sample_slot ''blue'' ''active'')"
proof -
  let ?t = "target_of sample_deployment sample_application sample_project sample_server"
  have r: "fst (run_state (nextDeploymentColors sample_env ?t) sample_world) = Inr (''green'', ''blue'')" by code_simp
  have "served sample_env" by (simp add: served_def sample_env_def)
  moreover have "tgt_Strategy ?t = ''blue_green''" by (simp add: target_of_def sample_deployment_def)
  moreover have "GetActiveDeploymentSlot (tgt_ApplicationID ?t) (tgt_ServerID ?t) (ticked sample_env sample_world)
      = Inr (sample_slot ''blue'' ''active'', ticked sample_env sample_world)"
    by (simp add: GetActiveDeploymentSlot_def latest_slot_def one_row_def try_bind_def ticked_def sample_world_def
        sample_defs slot_at_def target_of_def)
  moreover have "slot_Color (sample_slot ''blue'' ''active'') = ''blue'' \<or> slot_Color (sample_slot ''blue'' ''active'') = ''green''"
    by (simp add: sample_slot_def)
  ultimately show ?thesis using nextDeploymentColors_avoids_active [OF _ r] r by blast
qed

lemma runes_marker: "length (chunks deploymentLogTruncatedMarker) = 15" "ascii deploymentLogTruncatedMarker"
  by code_simp+

lemma trim_spaces: "Trim message '' '' = [] \<Longrightarrow> TrimSpace message = []"
proof -
  assume "Trim message '' '' = []"
  then have spaces: "\<forall>c\<in>set message. c = CHR '' ''" by (simp add: Trim_def trim_list_eq_Nil_iff)
  have "byte c = 32" if "c \<in> set message" for c
    unfolding bspec [OF spaces that] by simp
  then have "ascii message" "\<forall>c\<in>set message. IsSpace (byte c)"
    by (simp_all add: ascii_def IsSpace_def)
  then show ?thesis by (simp add: TrimSpace_ascii trim_list_eq_Nil_iff)
qed

lemma truncated_message_ok:
  assumes "pg_text_ok message"
  shows "pg_text_ok (encode_runes (take n (runes message)) @ deploymentLogTruncatedMarker)"
proof -
  have "0 \<notin> set (runes message)"
    using assms by (intro runes_no_zero) (simp add: pg_text_ok_def)
  then have "0 \<notin> set (take n (runes message))" by (metis in_set_takeD)
  then have "CHR 0x00 \<notin> set (encode_runes (take n (runes message)))" by (rule encode_runes_no_NUL)
  moreover have "CHR 0x00 \<notin> set deploymentLogTruncatedMarker" by code_simp
  ultimately show ?thesis
    by (simp add: pg_text_ok_def ValidString_encode_runes ValidString_ascii runes_marker)
qed

text \<open>Every message that the runner writes to the log is accepted by the table: it is not blank, at
  most 32768 characters long after redaction and truncation, and truncation never cuts a character in
  half. Text that PostgreSQL cannot store is the only reason for a line to be dropped.\<close>

theorem normalized_message_accepted:
  assumes "normalizeDeploymentLogMessage message = Some message'" "pg_text_ok (RedactSensitiveText message)"
    "stream = ''stdout'' \<or> stream = ''stderr'' \<or> stream = ''system''"
  shows "log_check stream message' = None \<and> length (runes message') \<le> maxDeploymentLogMessageLength"
proof -
  let ?m = "RedactSensitiveText message"
  have "TrimSpace ?m \<noteq> []" using assms(1) by (auto simp: normalizeDeploymentLogMessage_def Let_def split: if_splits)
  then have ne: "Trim ?m '' '' \<noteq> []" using trim_spaces by blast
  show ?thesis
  proof (cases "length (runes ?m) \<le> maxDeploymentLogMessageLength")
    case True
    then have "message' = ?m" using assms(1) by (simp add: normalizeDeploymentLogMessage_def Let_def split: if_splits)
    then show ?thesis using True ne assms(2,3) by (auto simp: log_check_def maxDeploymentLogMessageLength_def)
  next
    case False
    define body where "body = encode_runes (take 32753 (runes ?m))"
    have m: "message' = body @ deploymentLogTruncatedMarker"
      using assms(1) False by (simp add: normalizeDeploymentLogMessage_def Let_def runes_marker body_def
          maxDeploymentLogMessageLength_def split: if_splits)
    have "length (runes message') \<le> 32768"
      unfolding m body_def length_runes_encode_runes by (simp add: runes_marker)
    moreover have "Trim message' '' '' \<noteq> []"
      unfolding m by (auto simp: Trim_def trim_list_eq_Nil_iff deploymentLogTruncatedMarker_def)
    ultimately show ?thesis
      using truncated_message_ok [OF assms(2), of 32753] assms(3)
      by (auto simp: log_check_def maxDeploymentLogMessageLength_def m body_def)
  qed
qed

theorem normalized_message_accepted_witness:
  "normalizeDeploymentLogMessage ''deploying'' = Some ''deploying'' \<and> log_check ''system'' ''deploying'' = None"
proof -
  have n: "normalizeDeploymentLogMessage ''deploying'' = Some ''deploying''" by code_simp
  have "pg_text_ok (RedactSensitiveText ''deploying'')" by code_simp
  from normalized_message_accepted [OF n this, of "''system''"] n show ?thesis by simp
qed

subsection \<open>The steps of a deployment\<close>

text \<open>The trace of a list of steps that all succeeded, and the command that resolves the commit.\<close>

fun steps_executed :: "runner_env \<Rightarrow> ssh_client \<Rightarrow> string \<Rightarrow> remote_step list \<Rightarrow> (ssh_client \<times> string \<times> string) list \<Rightarrow> bool" where
  "steps_executed env client commit_cmd [] cmds \<longleftrightarrow> cmds = []"
| "steps_executed env client commit_cmd (s # steps) cmds \<longleftrightarrow>
     (\<exists>n rest. snd (ssh_answers env n client (step_command s) (step_input s)) = None
       \<and> cmds = (client, step_command s, step_input s) # (if resolvesCommit s then [(client, commit_cmd, [])] else []) @ rest
       \<and> steps_executed env client commit_cmd steps rest)"

definition commit_command :: "deployment_target \<Rightarrow> string" where
  "commit_command target = ''cd '' @ ShellQuote (tgt_RemoteDirectory target) @ '' && git log -1 --format=''
            @ [CHR 0x27] @ ''%H%n%s'' @ [CHR 0x27]"

lemma resolveSourceCommit_trace:
  "w_remote (snd (run_state (resolveSourceCommit env deployment target client) w)) = w_remote w @ [(client, commit_command target, [])]"
  "fst (run_state (resolveSourceCommit env deployment target client) w) = Inr target' \<Longrightarrow>
     tgt_RemoteDirectory target' = tgt_RemoteDirectory target"
  by (auto simp: resolveSourceCommit_def commit_command_def run_bind run_bindE run_cmd mapE_def logE_def db_exec_frame
      append_log_frame Let_def split: prod.splits sum.splits option.splits if_splits)

lemma run_steps_first:
  "\<exists>n w1. w_remote w1 = w_remote w @ [(client, step_command s, step_input s)]
     \<and> run_state (run_steps env deployment client (s # steps) target) w = run_state
     (case snd (ssh_answers env n client (step_command s) (step_input s)) of
        Some err \<Rightarrow> State_Monad.return (Some (wrap (step_label s) err), target)
      | None \<Rightarrow>
          if resolvesCommit s then do {
            c \<leftarrow> resolveSourceCommit env deployment target client;
            (case c of
               Inl err \<Rightarrow> State_Monad.return (Some err, target)
             | Inr target' \<Rightarrow> run_steps env deployment client steps target')
          } else run_steps env deployment client steps target) w1"
proof -
  define w1 where "w1 = snd (run_state (append_log env deployment ''system'' (step_label s)) w)"
  obtain out err where a: "ssh_answers env (w_steps w1) client (step_command s) (step_input s) = (out, err)" by (metis surj_pair)
  define w2 where "w2 = w1\<lparr>w_steps := Suc (w_steps w1), w_remote := w_remote w1 @ [(client, step_command s, step_input s)]\<rparr>"
  define w3 where "w3 = snd (run_state (if TrimSpace out \<noteq> [] then append_log env deployment ''stdout'' out else State_Monad.return ()) w2)"
  have cmd: "run_state (if step_input s = [] then Run_cmd env client (step_command s)
        else RunWithInput env client (step_command s) (step_input s)) w1 = ((out, err), w2)"
    by (cases "step_input s = []") (simp_all add: run_cmd a [symmetric] w2_def)
  have "w_remote w3 = w_remote w @ [(client, step_command s, step_input s)]"
    unfolding w3_def maybe_log_frame by (simp add: w2_def w1_def append_log_frame)
  then show ?thesis
    by (intro exI [of _ "w_steps w1"] exI [of _ w3] conjI)
       (simp_all only: run_steps.simps run_bind w1_def [symmetric] cmd fst_conv snd_conv w3_def a)
qed

lemma run_steps_next:
  assumes "fst (run_state (run_steps env deployment client (s # steps) target) w) = (None, target')"
  shows "\<exists>n target1 w1. snd (ssh_answers env n client (step_command s) (step_input s)) = None
    \<and> commit_command target1 = commit_command target
    \<and> w_remote w1 = w_remote w @ (client, step_command s, step_input s) # (if resolvesCommit s then [(client, commit_command target, [])] else [])
    \<and> run_state (run_steps env deployment client (s # steps) target) w = run_state (run_steps env deployment client steps target1) w1"
proof -
  obtain n w1 where w1: "w_remote w1 = w_remote w @ [(client, step_command s, step_input s)]"
    and run: "run_state (run_steps env deployment client (s # steps) target) w = run_state
     (case snd (ssh_answers env n client (step_command s) (step_input s)) of
        Some err \<Rightarrow> State_Monad.return (Some (wrap (step_label s) err), target)
      | None \<Rightarrow>
          if resolvesCommit s then do {
            c \<leftarrow> resolveSourceCommit env deployment target client;
            (case c of
               Inl err \<Rightarrow> State_Monad.return (Some err, target)
             | Inr target' \<Rightarrow> run_steps env deployment client steps target')
          } else run_steps env deployment client steps target) w1"
    using run_steps_first by metis
  have none: "snd (ssh_answers env n client (step_command s) (step_input s)) = None"
    using assms unfolding run by (cases "snd (ssh_answers env n client (step_command s) (step_input s))") simp_all
  show ?thesis
  proof (cases "resolvesCommit s")
    case False
    then show ?thesis using none w1 unfolding run by auto
  next
    case True
    define c where "c = run_state (resolveSourceCommit env deployment target client) w1"
    obtain target1 where c1: "fst c = Inr target1"
      using assms True none unfolding run by (cases "fst c") (simp_all add: run_bind c_def [symmetric])
    have "commit_command target1 = commit_command target"
      using resolveSourceCommit_trace(2) [of env deployment target client w1 target1] c1 by (simp add: c_def commit_command_def)
    moreover have "w_remote (snd c) = w_remote w1 @ [(client, commit_command target, [])]" by (simp add: c_def resolveSourceCommit_trace)
    ultimately show ?thesis using none True w1 c1 unfolding run
      by (intro exI [of _ n] exI [of _ target1] exI [of _ "snd c"]) (simp add: run_bind c_def [symmetric])
  qed
qed

text \<open>C9. A deployment goes on past its commands only when every one of them succeeded: the steps were
  executed in order, with the source commit resolved where a step asks for it, and none was skipped.\<close>

theorem run_steps_all_succeeded:
  assumes "fst (run_state (run_steps env deployment client steps target) w) = (None, target')"
  shows "\<exists>cmds. w_remote (snd (run_state (run_steps env deployment client steps target) w)) = w_remote w @ cmds
    \<and> steps_executed env client (commit_command target) steps cmds"
  using assms
proof (induction steps arbitrary: target w)
  case (Cons s steps)
  from run_steps_next [OF Cons.prems] obtain n target1 w1 where
    executed: "snd (ssh_answers env n client (step_command s) (step_input s)) = None" "commit_command target1 = commit_command target"
    "w_remote w1 = w_remote w @ (client, step_command s, step_input s) # (if resolvesCommit s then [(client, commit_command target, [])] else [])"
    and run: "run_state (run_steps env deployment client (s # steps) target) w = run_state (run_steps env deployment client steps target1) w1"
    by blast
  from Cons.IH [OF Cons.prems [unfolded run]] obtain cmds where
    "w_remote (snd (run_state (run_steps env deployment client steps target1) w1)) = w_remote w1 @ cmds"
    "steps_executed env client (commit_command target) steps cmds" unfolding executed(2) by blast
  then show ?case unfolding run using executed(1,3)
    by (intro exI [of _ "(client, step_command s, step_input s) # (if resolvesCommit s then [(client, commit_command target, [])] else []) @ cmds"])
       auto
qed simp

theorem run_steps_all_succeeded_witness:
  "let steps = [step ''Listing'' ''ls'']; w' = snd (run_state (run_steps sample_env sample_deployment sample_client steps
       (target_of sample_deployment sample_application sample_project sample_server)) sample_world) in
   \<exists>cmds. w_remote w' = cmds \<and> length cmds = 1"
proof -
  let ?t = "target_of sample_deployment sample_application sample_project sample_server"
  have "\<exists>t. fst (run_state (run_steps sample_env sample_deployment sample_client [step ''Listing'' ''ls''] ?t) sample_world) = (None, t)"
    by (auto simp: run_bind step_def run_cmd sample_env_def split: option.splits)
  then obtain t where "fst (run_state (run_steps sample_env sample_deployment sample_client [step ''Listing'' ''ls''] ?t) sample_world) = (None, t)" ..
  from run_steps_all_succeeded [OF this] show ?thesis
    by (auto simp: step_def sample_world_def Let_def)
qed

subsection \<open>A rollback that is not undone\<close>

lemma db_exec_refused:
  "db_outcomes env (w_steps w) = Refused err \<Longrightarrow>
   run_state (db_exec env q) w = (Inl err, w\<lparr>w_steps := Suc (w_steps w), w_store := ticked env w\<rparr>)"
  by (simp add: db_exec_def next_step_def run_bind ticked_def Let_def)

text \<open>C39. When the activation of the slot fails at the end of a rollback of an application without singleton
  services, nothing is undone: the proxy keeps sending the traffic to the color that was rolled back
  to, in the commands that were executed and in the table of routes, although the table of slots still
  has the other color active. The error path restores the routes only when it has loaded the active
  color, and a rollback loads it only for singleton services.\<close>

theorem rollback_failed_activation_not_undone:
  assumes "singletonComposeServiceNames env (tgt_ComposeServices target) = Inr []"
    and slot: "fst (run_state (load_rollback_slot env target) w) = Inr slot"
    and w2: "w2 = snd (run_state (logE env deployment ''system'' (''Rolling back traffic to '' @ slot_Color slot))
                       (snd (run_state (load_rollback_slot env target) w)))"
    and health: "fst (run_state (checkColorHealth env target client (slot_Color slot)) w2) = Inr ()"
    and w3: "w3 = snd (run_state (checkColorHealth env target client (slot_Color slot)) w2)"
    and routes: "fst (run_state (applyProxyRoutes env deployment target client (slot_Color slot)) w3) = Inr ()"
    and w4: "w4 = snd (run_state (applyProxyRoutes env deployment target client (slot_Color slot)) w3)"
    and refused: "db_outcomes env (w_steps w4) = Refused err"
  shows "let (r, w') = run_state (rollback env deployment target client) w in
    isl r \<and> w_remote w' = w_remote w4 \<and> proxy_routes (w_store w') = proxy_routes (w_store w4)
    \<and> slots (w_store w') = slots (w_store w4)"
proof -
  have log: "fst (run_state (logE env deployment stream message) w0) = Inr ()" for stream message w0
    by (simp add: logE_def run_bind)
  have "run_state (rollback env deployment target client) w
      = (Inl (wrap ''mark rollback slot active'' err), w4\<lparr>w_steps := Suc (w_steps w4), w_store := ticked env w4\<rparr>)"
    unfolding rollback_def run_bindE slot sum.case log w2 [symmetric] health w3 [symmetric] State_Monad.run_state_return assms(1)
      rollback_singletons_def run_okE fst_conv snd_conv if_P [OF refl] prod.case
    by (simp add: run_bind routes w4 [symmetric] activate_or_restore_def db_exec_refused [OF refused]
        restoreSingletonServices_def no_options_def)
  then show ?thesis by (simp add: ticked_def)
qed

definition refused_activation_env :: runner_env where
  "refused_activation_env = sample_env\<lparr>db_outcomes := (\<lambda>n. if n = 4 then Refused (Errorf ''connection lost'') else Served)\<rparr>"

theorem rollback_failed_activation_not_undone_witness:
  "let (r, w') = run_state (rollback refused_activation_env sample_deployment
      (target_of sample_deployment sample_application sample_project sample_server) sample_client) sample_world in isl r"
proof -
  let ?e = refused_activation_env
  let ?t = "target_of sample_deployment sample_application sample_project sample_server"
  have 1: "singletonComposeServiceNames ?e (tgt_ComposeServices ?t) = Inr []" by code_simp
  have 2: "fst (run_state (load_rollback_slot ?e ?t) sample_world) = Inr (sample_slot ''green'' ''standby'')" by code_simp
  define w2 where "w2 = snd (run_state (logE ?e sample_deployment ''system'' (''Rolling back traffic to ''
      @ slot_Color (sample_slot ''green'' ''standby''))) (snd (run_state (load_rollback_slot ?e ?t) sample_world)))"
  define w3 where "w3 = snd (run_state (checkColorHealth ?e ?t sample_client (slot_Color (sample_slot ''green'' ''standby''))) w2)"
  define w4 where "w4 = snd (run_state (applyProxyRoutes ?e sample_deployment ?t sample_client (slot_Color (sample_slot ''green'' ''standby''))) w3)"
  have 3: "fst (run_state (checkColorHealth ?e ?t sample_client (slot_Color (sample_slot ''green'' ''standby''))) w2) = Inr ()"
    unfolding w2_def by code_simp
  have 4: "fst (run_state (applyProxyRoutes ?e sample_deployment ?t sample_client (slot_Color (sample_slot ''green'' ''standby''))) w3) = Inr ()"
    by (simp add: applyProxyRoutes_def target_of_def sample_server_def)
  have "w_steps w4 = 4" unfolding w4_def w3_def w2_def by code_simp
  then have 5: "db_outcomes ?e (w_steps w4) = Refused (Errorf ''connection lost'')" by (simp add: refused_activation_env_def)
  show ?thesis
    using rollback_failed_activation_not_undone [OF 1 2 w2_def 3 w3_def 4 w4_def 5] by (auto split: prod.splits)
qed

end
