(* ===== verification/Queue.thy ===== *)
theory Queue
  imports Runner_Outcome Go_Json_Proofs
begin

text \<open>
  The file \<^verbatim>\<open>internal/deployments/queue.go\<close>: deployments wait in a Redis list, a worker pops them and hands
  them to the runner, and a server that starts recovers what the previous one left behind. The list is
  part of the state; whether a push is carried out, and what a blocking pop answers, are parameters.
\<close>

subsection \<open>Payloads\<close>

record queuePayload =
  payload_DeploymentID :: string

definition encodeDeployment :: "runner_env \<Rightarrow> deployment \<Rightarrow> go_error + string" where
  "encodeDeployment env deployment =
     (let i = uuidString env (dep_ID deployment) in
      if i = [] then Inl (Errorf ''deployment id is required'')
      else Inr (Marshal (JObj [(''deployment_id'', JStr i)])))"

text \<open>The fields of the structure; a key it does not have is an error.\<close>

definition payload_of :: "json \<Rightarrow> queuePayload option" where
  "payload_of j =
     (case object_members j of
        None \<Rightarrow> None
      | Some kvs \<Rightarrow>
          if list_all (\<lambda>(k, _). fold_key k = fold_key ''deployment_id'') kvs
          then map_option (\<lambda>i. \<lparr>payload_DeploymentID = i\<rparr>) (string_field ''deployment_id'' kvs []) else None)"

definition decodePayload :: "runner_env \<Rightarrow> string \<Rightarrow> go_error + queuePayload" where
  "decodePayload env encoded =
     (case parse_value (Suc (length encoded)) encoded of
        None \<Rightarrow> Inl (json_error env encoded)
      | Some (j, rest) \<Rightarrow>
          (case payload_of j of
             None \<Rightarrow> Inl (json_error env encoded)
           | Some payload \<Rightarrow>
               if skip_ws rest = [] then
                 (let i = TrimSpace (payload_DeploymentID payload) in
                  if i = [] then Inl (Errorf ''deployment_id is required'')
                  else Inr (payload\<lparr>payload_DeploymentID := i\<rparr>))
               else case parse_value (Suc (length rest)) rest of
                 None \<Rightarrow> Inl (json_error env rest)
               | Some (v, _) \<Rightarrow>
                   if v = JNull \<or> v = JObj [] then Inl (Errorf ''queue payload must contain one JSON object'')
                   else Inl (json_error env rest)))"

subsection \<open>The system\<close>

datatype push_outcome = Pushed | PushRefused go_error | PushLost go_error

datatype pop_answer = PopItem | PopNil | PopCanceled | PopFailed go_error

record queue_env =
  q_runner :: runner_env
  q_parse_uuid :: "string \<Rightarrow> go_error + string"
  q_pushes :: "nat \<Rightarrow> push_outcome"

record system =
  sys_world :: world
  sys_queue :: "string list"
  sys_pushes :: nat

type_synonym 'a sys_run = "(system, 'a) state"

definition on_world :: "'a run \<Rightarrow> 'a sys_run" where
  "on_world m = State (\<lambda>s. let r = run_state m (sys_world s) in (fst r, s\<lparr>sys_world := snd r\<rparr>))"

text \<open>\<open>RPush\<close>: the item can be in the list although the answer is lost.\<close>

definition RPush :: "queue_env \<Rightarrow> string \<Rightarrow> go_error option sys_run" where
  "RPush q item = State (\<lambda>s.
     let s' = s\<lparr>sys_pushes := Suc (sys_pushes s)\<rparr>; pushed = s'\<lparr>sys_queue := sys_queue s @ [item]\<rparr> in
     case q_pushes q (sys_pushes s) of
       Pushed \<Rightarrow> (None, pushed)
     | PushLost err \<Rightarrow> (Some err, pushed)
     | PushRefused err \<Rightarrow> (Some err, s'))"

definition Enqueue :: "queue_env \<Rightarrow> deployment \<Rightarrow> go_error option sys_run" where
  "Enqueue q deployment =
     (case encodeDeployment (q_runner q) deployment of
        Inl err \<Rightarrow> State_Monad.return (Some err)
      | Inr payload \<Rightarrow> RPush q payload)"

subsection \<open>Recovery\<close>

definition defaultRecoveryLimit :: int where
  "defaultRecoveryLimit = 100"

definition interruptedDeploymentLogMessage :: string where
  "interruptedDeploymentLogMessage = ''Deployment was interrupted by server restart; marked failed''"

text \<open>The loop over the queued deployments: how many were enqueued, and the error that ended it.\<close>

fun enqueue_all :: "queue_env \<Rightarrow> nat \<Rightarrow> deployment list \<Rightarrow> (nat \<times> go_error option) sys_run" where
  "enqueue_all q index [] = State_Monad.return (index, None)"
| "enqueue_all q index (d # ds) = do {
     r \<leftarrow> Enqueue q d;
     (case r of
        Some err \<Rightarrow> State_Monad.return (index, Some err)
      | None \<Rightarrow> enqueue_all q (Suc index) ds)
   }"

definition recoverQueued :: "queue_env \<Rightarrow> int \<Rightarrow> (nat \<times> go_error option) sys_run" where
  "recoverQueued q limit0 =
     (let limit = (if limit0 \<le> 0 then defaultRecoveryLimit else limit0) in do {
        r \<leftarrow> on_world (db_exec (q_runner q) (ListQueuedDeploymentsForRecovery limit));
        (case r of
           Inl err \<Rightarrow> State_Monad.return (0, Some err)
         | Inr ds \<Rightarrow> enqueue_all q 0 ds)
      })"

definition RecoverQueued :: "queue_env \<Rightarrow> int \<Rightarrow> (nat \<times> go_error option) sys_run" where
  "RecoverQueued q limit = recoverQueued q (if limit \<le> 0 then defaultRecoveryLimit else limit)"

fun log_interrupted :: "queue_env \<Rightarrow> deployment list \<Rightarrow> go_error option sys_run" where
  "log_interrupted q [] = State_Monad.return None"
| "log_interrupted q (d # ds) = do {
     r \<leftarrow> on_world (db_exec (q_runner q) (AppendDeploymentLog (dep_ID d) ''system'' interruptedDeploymentLogMessage));
     (case r of
        Inl err \<Rightarrow> State_Monad.return (Some err)
      | Inr _ \<Rightarrow> log_interrupted q ds)
   }"

definition recoverInterrupted :: "queue_env \<Rightarrow> (nat \<times> go_error option) sys_run" where
  "recoverInterrupted q = do {
     r \<leftarrow> on_world (db_exec (q_runner q) FailRunningDeploymentsForRecovery);
     (case r of
        Inl err \<Rightarrow> State_Monad.return (0, Some err)
      | Inr ds \<Rightarrow> do {
          e \<leftarrow> log_interrupted q ds;
          State_Monad.return (length ds, e)
        })
   }"

definition RecoverInterrupted :: "queue_env \<Rightarrow> (nat \<times> go_error option) sys_run" where
  "RecoverInterrupted q = recoverInterrupted q"

subsection \<open>The worker\<close>

definition shouldRunDeployment :: "string \<Rightarrow> bool" where
  "shouldRunDeployment status \<longleftrightarrow> status = ''queued''"

definition handle :: "queue_env \<Rightarrow> string \<Rightarrow> go_error option sys_run" where
  "handle q encoded =
     (case decodePayload (q_runner q) encoded of
        Inl err \<Rightarrow> State_Monad.return (Some err)
      | Inr payload \<Rightarrow>
          (case PgUUID (q_parse_uuid q) (payload_DeploymentID payload) of
             Inl err \<Rightarrow> State_Monad.return (Some err)
           | Inr deploymentID \<Rightarrow> do {
               r \<leftarrow> on_world (db_exec (q_runner q) (GetDeployment deploymentID));
               (case r of
                  Inl err \<Rightarrow> State_Monad.return (Some err)
                | Inr deployment \<Rightarrow>
                    if \<not> shouldRunDeployment (dep_Status deployment) then State_Monad.return None
                    else do { on_world (Run (q_runner q) deployment); State_Monad.return None })
             }))"

text \<open>
  The loop of the worker, over the answers of the blocking pop: an item is the head of the list, and a
  list that is empty times out. The loop only ends when the context is cancelled; the result says
  whether it did.
\<close>

fun work :: "queue_env \<Rightarrow> pop_answer list \<Rightarrow> bool sys_run" where
  "work q [] = State_Monad.return False"
| "work q (PopCanceled # answers) = State_Monad.return True"
| "work q (PopNil # answers) = work q answers"
| "work q (PopFailed err # answers) = work q answers"
| "work q (PopItem # answers) = do {
     item \<leftarrow> State (\<lambda>s. case sys_queue s of [] \<Rightarrow> (None, s) | x # xs \<Rightarrow> (Some x, s\<lparr>sys_queue := xs\<rparr>));
     (case item of
        None \<Rightarrow> work q answers
      | Some encoded \<Rightarrow> do { _ \<leftarrow> handle q encoded; work q answers })
   }"

end
