(* ===== verification/Queue_Proofs.thy ===== *)
theory Queue_Proofs
  imports Queue
begin

text \<open>
  The queue loses nothing and runs nothing twice: payloads are read back as they were written, a queued
  deployment that is popped is run to its end, popping it again does nothing, and a restart puts every
  deployment into a state that the queue can continue from.
\<close>

subsection \<open>Programs on the system\<close>

lemma run_on_world: "run_state (on_world m) s = (fst (run_state m (sys_world s)), s\<lparr>sys_world := snd (run_state m (sys_world s))\<rparr>)"
  by (simp add: on_world_def Let_def)

abbreviation sys_store :: "system \<Rightarrow> store" where
  "sys_store s \<equiv> w_store (sys_world s)"

definition sys_keeps :: "(store \<Rightarrow> bool) \<Rightarrow> 'a sys_run \<Rightarrow> bool" where
  "sys_keeps I m \<longleftrightarrow> (\<forall>s. I (sys_store s) \<longrightarrow> I (sys_store (snd (run_state m s))))"

named_theorems sys_keeps_rules

lemma sys_keepsD: "sys_keeps I m \<Longrightarrow> I (sys_store s) \<Longrightarrow> I (sys_store (snd (run_state m s)))"
  by (simp add: sys_keeps_def)

lemma sys_keeps_basic [sys_keeps_rules]:
  "sys_keeps I (State_Monad.return x)"
  "keeps I m \<Longrightarrow> sys_keeps I (on_world m)"
  "sys_keeps I (RPush q item)"
  by (auto simp: sys_keeps_def run_on_world keeps_def RPush_def Let_def split: push_outcome.splits)

lemma sys_keeps_bind [sys_keeps_rules]: "sys_keeps I m \<Longrightarrow> (\<And>x. sys_keeps I (f x)) \<Longrightarrow> sys_keeps I (State_Monad.bind m f)"
  by (simp add: sys_keeps_def run_bind)

lemma sys_keeps_cases [sys_keeps_rules]:
  "\<And>f g r. (\<And>x. sys_keeps I (f x)) \<Longrightarrow> (\<And>y. sys_keeps I (g y)) \<Longrightarrow> sys_keeps I (case r of Inl x \<Rightarrow> f x | Inr y \<Rightarrow> g y)"
  "\<And>m f r. sys_keeps I m \<Longrightarrow> (\<And>x. sys_keeps I (f x)) \<Longrightarrow> sys_keeps I (case r of None \<Rightarrow> m | Some x \<Rightarrow> f x)"
  "\<And>m n b. sys_keeps I m \<Longrightarrow> sys_keeps I n \<Longrightarrow> sys_keeps I (if b then m else n)"
  by (auto split: sum.splits option.splits)

text \<open>A worker does what a run does: its steps are those of the state machine of the tables.\<close>

lemma handle_keeps: "sys_keeps (db_run db0) (handle q encoded)"
  unfolding handle_def
  by (intro sys_keeps_rules reach.Run_keeps reach.db_exec_statement read_only_keeps)

lemma work_keeps: "sys_keeps (db_run db0) (work q answers)"
proof (induction q answers rule: work.induct)
  case (5 q answers)
  have "sys_keeps (db_run db0) (State (\<lambda>s. case sys_queue s of [] \<Rightarrow> (None, s) | x # xs \<Rightarrow> (Some x, s\<lparr>sys_queue := xs\<rparr>)))"
    by (auto simp: sys_keeps_def split: list.splits)
  then show ?case using 5 by (auto intro!: sys_keeps_rules handle_keeps)
qed (auto intro: sys_keeps_rules)

text \<open>However long a worker runs, whatever Redis, the database and the servers answer, what it does to
  the tables is an execution of the state machine, so every invariant of the executions holds.\<close>

theorem work_is_execution: "db_run (sys_store s) (sys_store (snd (run_state (work q answers) s)))"
  by (rule sys_keepsD [OF work_keeps]) simp

subsection \<open>Payloads\<close>

lemma ascii_literal_ValidString: "ValidString ''deployment_id''"
  by code_simp

lemma decode_encoded:
  assumes "uuidString env (dep_ID deployment) = i" "i \<noteq> []" "ValidString i" "TrimSpace i = i"
  shows "\<exists>item. encodeDeployment env deployment = Inr item \<and> decodePayload env item = Inr \<lparr>payload_DeploymentID = i\<rparr>"
proof -
  let ?j = "JObj [(''deployment_id'', JStr i)]"
  have "plain_json ?j" using assms(3) ascii_literal_ValidString by simp
  then have "parse_value (Suc (length (Marshal ?j))) (Marshal ?j) = Some (?j, [])"
    using parse_value_Marshal [of ?j "Suc (length (Marshal ?j))" "[]"] by simp
  moreover have "payload_of ?j = Some \<lparr>payload_DeploymentID = i\<rparr>" by (simp add: payload_of_def object_members_def)
  ultimately have "decodePayload env (Marshal ?j) = Inr \<lparr>payload_DeploymentID = i\<rparr>"
    using assms(2,4) by (simp add: decodePayload_def skip_ws_def del: Marshal.simps)
  then show ?thesis using assms(1,2) by (simp add: encodeDeployment_def del: Marshal.simps)
qed

text \<open>The worker reads from the queue the identifier that was enqueued.\<close>

theorem payload_roundtrip:
  assumes "uuidString env (dep_ID deployment) = i" "i \<noteq> []" "ValidString i" "TrimSpace i = i"
  shows "case encodeDeployment env deployment of
           Inl _ \<Rightarrow> False | Inr item \<Rightarrow> decodePayload env item = Inr \<lparr>payload_DeploymentID = i\<rparr>"
  using decode_encoded [OF assms] by auto

theorem payload_roundtrip_witness:
  "case encodeDeployment sample_env sample_deployment of
     Inl _ \<Rightarrow> False | Inr item \<Rightarrow> decodePayload sample_env item = Inr \<lparr>payload_DeploymentID = ''d1''\<rparr>"
  by (rule payload_roundtrip) code_simp+

subsection \<open>Handling an item\<close>

text \<open>An item of the queue that stands for a deployment.\<close>

definition item_for :: "queue_env \<Rightarrow> string \<Rightarrow> string \<Rightarrow> bool" where
  "item_for q i item \<longleftrightarrow>
     (\<exists>t. decodePayload (q_runner q) item = Inr \<lparr>payload_DeploymentID = t\<rparr> \<and> q_parse_uuid q t = Inr i)"

lemma GetDeployment_row:
  assumes "store_ok db" "deployment_is db i d"
  shows "GetDeployment (Some i) db = Inr (d, db)"
proof -
  have "d \<in> set (filter (\<lambda>d. sql_eq (dep_ID d) (Some i)) (deployments db))" using assms(2) by (simp add: deployment_is_def)
  then obtain e rest where e: "filter (\<lambda>d. sql_eq (dep_ID d) (Some i)) (deployments db) = e # rest"
    by (cases "filter (\<lambda>d. sql_eq (dep_ID d) (Some i)) (deployments db)") (auto simp: filter_empty_conv)
  have "e \<in> set (filter (\<lambda>d. sql_eq (dep_ID d) (Some i)) (deployments db))" by (simp only: e list.set_intros)
  then have "deployment_is db i e" by (simp add: deployment_is_def)
  then have "e = d" using deployment_is_unique assms by blast
  then show ?thesis unfolding GetDeployment_def e one_row_def by simp
qed

lemma handle_item:
  assumes "item_for q i item" "served (q_runner q)" "row_status i t (sys_store s)"
  shows "\<exists>d w1. row_status i t (w_store w1) \<and> w_remote w1 = w_remote (sys_world s) \<and> dep_ID d = Some i \<and> dep_Status d = t
    \<and> run_state (handle q item) s =
        (if t = ''queued'' then (None, s\<lparr>sys_world := snd (run_state (Run (q_runner q) d) w1)\<rparr>)
         else (None, s\<lparr>sys_world := w1\<rparr>))"
proof -
  let ?env = "q_runner q" and ?w = "sys_world s"
  obtain idtext where idtext: "decodePayload ?env item = Inr \<lparr>payload_DeploymentID = idtext\<rparr>" "q_parse_uuid q idtext = Inr i"
    using assms(1) by (auto simp: item_for_def)
  have ticked: "row_status i t (ticked ?env ?w)" using assms(3) by (rule row_status_ticked)
  then obtain d where d: "deployment_is (ticked ?env ?w) i d" "dep_Status d = t" "store_ok (ticked ?env ?w)"
    by (auto simp: row_status_def)
  define w1 where "w1 = ?w\<lparr>w_steps := Suc (w_steps ?w), w_store := ticked ?env ?w\<rparr>"
  have g: "run_state (db_exec ?env (GetDeployment (Some i))) ?w = (Inr d, w1)"
    by (simp add: db_exec_served [OF assms(2)] GetDeployment_row [OF d(3,1)] w1_def)
  have "run_state (handle q item) s = (if t = ''queued'' then (None, s\<lparr>sys_world := snd (run_state (Run ?env d) w1)\<rparr>)
      else (None, s\<lparr>sys_world := w1\<rparr>))"
    using d(2) by (simp add: handle_def idtext PgUUID_def run_bind run_on_world g shouldRunDeployment_def)
  moreover have "row_status i t (w_store w1)" "w_remote w1 = w_remote ?w" using ticked by (simp_all add: w1_def)
  moreover have "dep_ID d = Some i" using d(1) by (simp add: deployment_is_def)
  ultimately show ?thesis using d(2) by blast
qed

text \<open>An item can be in the queue twice, for instance after a recovery: for a deployment that is no
  longer queued, handling it executes nothing on any server and changes no deployment.\<close>

lemma duplicate_item_harmless:
  assumes "item_for q i item" "served (q_runner q)" "row_status i t (sys_store s)" "t \<noteq> ''queued''"
  shows "let s' = snd (run_state (handle q item) s) in
    w_remote (sys_world s') = w_remote (sys_world s) \<and> row_status i t (sys_store s')"
  using handle_item [OF assms(1-3)] assms(4) by auto

subsection \<open>Witnesses for the queue\<close>

definition sample_queue :: queue_env where
  "sample_queue = \<lparr>q_runner = sample_env, q_parse_uuid = Inr, q_pushes = (\<lambda>_. Pushed)\<rparr>"

definition sample_item :: string where
  "sample_item = Marshal (JObj [(''deployment_id'', JStr ''d1'')])"

definition sample_system :: system where
  "sample_system = \<lparr>sys_world = sample_world, sys_queue = [sample_item], sys_pushes = 0\<rparr>"

lemma sample_queue_facts:
  "item_for sample_queue ''d1'' sample_item" "served (q_runner sample_queue)"
  "row_status ''d1'' ''queued'' (sys_store sample_system)" "sys_queue sample_system = sample_item # []"
proof -
  have "encodeDeployment sample_env sample_deployment = Inr sample_item" by code_simp
  moreover have "\<exists>item. encodeDeployment sample_env sample_deployment = Inr item \<and> decodePayload sample_env item = Inr \<lparr>payload_DeploymentID = ''d1''\<rparr>"
    by (rule decode_encoded) code_simp+
  ultimately show "item_for sample_queue ''d1'' sample_item" by (simp add: item_for_def sample_queue_def)
  show "served (q_runner sample_queue)" by (simp add: served_def sample_queue_def sample_env_def)
  have "deployment_is sample_db ''d1'' sample_deployment" "dep_Status sample_deployment = ''queued''" by code_simp+
  then show "row_status ''d1'' ''queued'' (sys_store sample_system)"
    using sample_db_ok by (auto simp: row_status_def sample_system_def sample_world_def)
  show "sys_queue sample_system = sample_item # []" by (simp add: sample_system_def)
qed

subsection \<open>Recovery\<close>

lemma log_interrupted_deployments:
  "deployments (sys_store (snd (run_state (log_interrupted q ds) s))) = deployments (sys_store s)"
proof (induction ds arbitrary: s)
  case (Cons d ds)
  have "keeps (\<lambda>db. deployments db = deployments (sys_store s))
      (db_exec (q_runner q) (AppendDeploymentLog (dep_ID d) ''system'' interruptedDeploymentLogMessage))"
    by (rule db_exec_keeps) (auto simp: stmt_keeps_def dest: slot_statements_deployments(3))
  from keepsD [OF this, of "sys_world s"]
  have "deployments (sys_store (s\<lparr>sys_world := snd (run_state (db_exec (q_runner q)
      (AppendDeploymentLog (dep_ID d) ''system'' interruptedDeploymentLogMessage)) (sys_world s))\<rparr>)) = deployments (sys_store s)" by simp
  then show ?case using Cons.IH by (auto simp: run_bind run_on_world split: sum.splits)
qed simp

text \<open>C10. After the recovery of interrupted deployments no deployment is running, the queued ones are
  untouched, and the count that is reported is that of the interrupted ones; an error while writing
  their log lines changes none of this.\<close>

theorem recoverInterrupted_none_running:
  assumes "served (q_runner q)"
  shows "let (r, s') = run_state (RecoverInterrupted q) s; ds = deployments (sys_store s) in
    fst r = length (filter (\<lambda>d. dep_Status d = ''running'') ds)
    \<and> filter (\<lambda>d. dep_Status d = ''running'') (deployments (sys_store s')) = []
    \<and> filter (\<lambda>d. dep_Status d = ''queued'') (deployments (sys_store s')) = filter (\<lambda>d. dep_Status d = ''queued'') ds"
proof -
  let ?w = "sys_world s"
  obtain failed db' where f: "FailRunningDeploymentsForRecovery (ticked (q_runner q) ?w) = Inr (failed, db')"
    "filter (\<lambda>d. dep_Status d = ''running'') (deployments db') = []"
    "map dep_ID failed = map dep_ID (filter (\<lambda>d. dep_Status d = ''running'') (deployments (sys_store s)))"
    "filter (\<lambda>d. dep_Status d = ''queued'') (deployments db') = filter (\<lambda>d. dep_Status d = ''queued'') (deployments (sys_store s))"
    using fail_running_rows [of "ticked (q_runner q) ?w"] by (auto simp: ticked_def)
  have "length failed = length (filter (\<lambda>d. dep_Status d = ''running'') (deployments (sys_store s)))"
    using arg_cong [OF f(3), of length] by simp
  then show ?thesis
    using f by (simp add: RecoverInterrupted_def recoverInterrupted_def run_bind run_on_world db_exec_served [OF assms]
        log_interrupted_deployments Let_def)
qed

theorem recoverInterrupted_none_running_witness:
  "filter (\<lambda>d. dep_Status d = ''running'') (deployments (sys_store (snd (run_state (RecoverInterrupted sample_queue) sample_system)))) = []"
  using recoverInterrupted_none_running [OF sample_queue_facts(2), of sample_system] by (auto simp: Let_def split: prod.splits)

text \<open>The pushes of a recovery: the items of the deployments up to the one that failed, which may be in the
  list all the same.\<close>

definition item_of :: "queue_env \<Rightarrow> deployment \<Rightarrow> string" where
  "item_of q d = (case encodeDeployment (q_runner q) d of Inl _ \<Rightarrow> [] | Inr item \<Rightarrow> item)"

lemma Enqueue_queue:
  "run_state (Enqueue q d) s = (r, s') \<Longrightarrow>
   if r = None then sys_queue s' = sys_queue s @ [item_of q d]
   else sys_queue s' = sys_queue s \<or> sys_queue s' = sys_queue s @ [item_of q d]"
  by (auto simp: Enqueue_def item_of_def RPush_def Let_def split: sum.splits push_outcome.splits)

lemma enqueue_all_queue:
  "run_state (enqueue_all q index ds) s = ((k, e), s') \<Longrightarrow>
   \<exists>extra. length extra \<le> 1 \<and> index \<le> k \<and> sys_queue s' = sys_queue s @ map (item_of q) (take (k - index) ds) @ extra
     \<and> (e = None \<longrightarrow> k = index + length ds \<and> extra = [])"
proof (induction ds arbitrary: index s)
  case Nil
  then show ?case by simp
next
  case (Cons d ds)
  obtain r s1 where s1: "run_state (Enqueue q d) s = (r, s1)" by (metis surj_pair)
  note E = Enqueue_queue [OF s1]
  show ?case
  proof (cases r)
    case None
    then have "run_state (enqueue_all q (Suc index) ds) s1 = ((k, e), s')" using Cons.prems s1 by (simp add: run_bind)
    from Cons.IH [OF this] obtain extra where x: "length extra \<le> 1" "Suc index \<le> k"
      "sys_queue s' = sys_queue s1 @ map (item_of q) (take (k - Suc index) ds) @ extra"
      "e = None \<longrightarrow> k = Suc index + length ds \<and> extra = []" by blast
    have "k - index = Suc (k - Suc index)" using x(2) by simp
    then have "take (k - index) (d # ds) = d # take (k - Suc index) ds" by simp
    then show ?thesis using x E None by (intro exI [of _ extra]) auto
  next
    case (Some err)
    then have "k = index" "e = Some err" "s' = s1" using Cons.prems s1 by (simp_all add: run_bind)
    then show ?thesis using E Some by (auto intro: exI [of _ "[item_of q d]"])
  qed
qed

text \<open>The recovery of queued deployments pushes the oldest ones, in the order in which they were created
  and at most as many as the limit; the count that is reported is that of the pushes that succeeded.\<close>

theorem recoverQueued_pushes_oldest:
  assumes "served (q_runner q)" "run_state (RecoverQueued q limit) s = ((k, e), s')"
  shows "\<exists>ds extra. sys_queue s' = sys_queue s @ map (item_of q) (take k ds) @ extra \<and> length extra \<le> 1
    \<and> (e = None \<longrightarrow> k = length ds \<and> extra = [])
    \<and> ds = take (nat (if limit \<le> 0 then 100 else limit))
             (sort_key (\<lambda>d. case dep_CreatedAt d of None \<Rightarrow> 0 | Some t \<Rightarrow> t)
                (filter (\<lambda>d. dep_Status d = ''queued'') (deployments (sys_store s))))"
proof -
  define ds where "ds = take (nat (if limit \<le> 0 then 100 else limit))
             (sort_key (\<lambda>d. case dep_CreatedAt d of None \<Rightarrow> 0 | Some t \<Rightarrow> t)
                (filter (\<lambda>d. dep_Status d = ''queued'') (deployments (sys_store s))))"
  define s1 where "s1 = s\<lparr>sys_world := (sys_world s)\<lparr>w_steps := Suc (w_steps (sys_world s)), w_store := ticked (q_runner q) (sys_world s)\<rparr>\<rparr>"
  have "run_state (enqueue_all q 0 ds) s1 = ((k, e), s')"
    using assms(2) by (auto simp: RecoverQueued_def recoverQueued_def defaultRecoveryLimit_def run_bind run_on_world
        db_exec_served [OF assms(1)] ListQueuedDeploymentsForRecovery_def ds_def s1_def ticked_def Let_def split: if_splits)
  from enqueue_all_queue [OF this] show ?thesis unfolding ds_def [symmetric] by (auto simp: s1_def)
qed

theorem recoverQueued_pushes_oldest_witness:
  "\<exists>k e s'. run_state (RecoverQueued sample_queue 0) sample_system = ((k, e), s') \<and> (\<exists>ds extra.
     sys_queue s' = sys_queue sample_system @ map (item_of sample_queue) (take k ds) @ extra \<and> length ds \<le> 100)"
proof -
  obtain k e s' where r: "run_state (RecoverQueued sample_queue 0) sample_system = ((k, e), s')" by (metis surj_pair)
  from recoverQueued_pushes_oldest [OF sample_queue_facts(2) r] r show ?thesis by fastforce
qed

end
