(* ===== verification/Queue_Drain.thy ===== *)
theory Queue_Drain
  imports Queue_Proofs
begin

text \<open>
  Composition of the queue and the runner: a run touches the row of its own deployment only, so a
  worker that empties the queue ends every deployment that waits in it, in whatever order the items
  came and whatever other items, duplicates or garbage are among them.
\<close>

subsection \<open>A run and the rows of the other deployments\<close>

lemma update_other_row:
  assumes "update_deployment p f db = Inr (x, db')" "deployment_is db i d" "\<not> p d"
  shows "deployment_is db' i d"
  using update_deployment_Inr [OF assms(1)] assms(2,3) by (auto simp: deployment_is_def update_rows_def intro!: image_eqI [of _ _ d])

lemma other_row_keeps:
  assumes "stmt_keeps store_ok q" "\<And>db. q db = update_deployment p (f db) db" "\<And>d. dep_ID d = Some i \<Longrightarrow> \<not> p d"
  shows "stmt_keeps (row_status i s) q"
proof (rule stmt_keepsI)
  fix db x db' assume r: "row_status i s db" and q: "q db = Inr (x, db')"
  obtain d where d: "deployment_is db i d" "dep_Status d = s" using r by (auto simp: row_status_def)
  have "deployment_is db' i d"
    using d(1) assms(3) by (intro update_other_row [OF q [unfolded assms(2)]]) (auto simp: deployment_is_def)
  moreover have "store_ok db'" using stmt_keepsD [OF q _ assms(1)] r by (simp add: row_status_def)
  ultimately show "row_status i s db'" using d(2) by (auto simp: row_status_def)
qed

lemma other_row_statements:
  assumes "j \<noteq> Some i"
  shows "stmt_keeps (row_status i s) (StartQueuedDeployment j)" "stmt_keeps (row_status i s) (UpdateDeploymentStatus j t)"
  using assms by (rule_tac other_row_keeps [OF deployment_updates_ok(1) StartQueuedDeployment_def],
      auto simp: sql_eq_def, rule_tac other_row_keeps [OF deployment_updates_ok(2) UpdateDeploymentStatus_def], auto simp: sql_eq_def)

lemma started_row: "StartQueuedDeployment j db = Inr (d, db') \<Longrightarrow> dep_ID d = j"
  unfolding StartQueuedDeployment_def by (drule update_deployment_Inr) (auto simp: sql_eq_def)

lemma Run_other:
  assumes "served env" "dep_ID deployment \<noteq> Some i"
  shows "keeps (row_status i s) (Run env deployment)"
proof -
  have update: "keeps (row_status i s) (db_exec env (UpdateDeploymentStatus j t))" if "j \<noteq> Some i" for j t
    by (intro row.db_exec_statement other_row_statements that)
  have failed: "keeps (row_status i s) (fail env d label err)" if "dep_ID d \<noteq> Some i" for d label err
    unfolding fail_def by (intro row.report_rules update that)
  have completed: "keeps (row_status i s) (complete env d target)" if "dep_ID d \<noteq> Some i" for d target
    unfolding complete_def by (intro row.report_rules update that)
  have started: "keeps (row_status i s) (run_started env d)" if "dep_ID d \<noteq> Some i" for d
    unfolding run_started_def by (intro row.report_rules failed completed row.deploy_keeps that)
  have start: "keeps (row_status i s) (db_exec env (StartQueuedDeployment (dep_ID deployment)))"
    by (intro row.db_exec_statement other_row_statements assms(2))
  show ?thesis unfolding keeps_def
  proof (intro allI impI)
    fix w :: world assume w: "row_status i s (w_store w)"
    obtain r w1 where r: "run_state (db_exec env (StartQueuedDeployment (dep_ID deployment))) w = (r, w1)" by (metis surj_pair)
    have w1: "row_status i s (w_store w1)" using keepsD [OF start, of w] w r by simp
    show "row_status i s (w_store (snd (run_state (Run env deployment) w)))"
    proof (cases r)
      case (Inl err)
      have "keeps (row_status i s) (append_log env deployment stream message)" for stream message
        by (rule row.append_log_keeps)
      then show ?thesis using r Inl w1 by (auto simp: Run_def run_bind keepsD split: go_error.splits)
    next
      case (Inr d)
      have "dep_ID d = dep_ID deployment"
        using r Inr by (auto simp: db_exec_served [OF assms(1)] dest: started_row split: sum.splits prod.splits)
      then show ?thesis using r Inr w1 assms(2) started [of d] by (simp add: Run_def run_bind keepsD)
    qed
  qed
qed

subsection \<open>Emptying the queue\<close>

definition ended :: "string \<Rightarrow> store \<Rightarrow> bool" where
  "ended i db \<longleftrightarrow> (\<exists>t. terminal t \<and> row_status i t db)"

text \<open>Any item at all leaves a deployment that waits or has ended waiting or ended.\<close>

lemma handle_any:
  assumes "served (q_runner q)"
  shows "row_status i ''queued'' (sys_store s) \<Longrightarrow>
      row_status i ''queued'' (sys_store (snd (run_state (handle q item) s))) \<or> ended i (sys_store (snd (run_state (handle q item) s)))"
    and "ended i (sys_store s) \<Longrightarrow> ended i (sys_store (snd (run_state (handle q item) s)))"
proof -
  have other: "row_status i t (sys_store (snd (run_state (handle q item) s)))"
    if t: "row_status i t (sys_store s)" "\<not> item_for q i item" for t
  proof (cases "decodePayload (q_runner q) item")
    case (Inr payload)
    show ?thesis
    proof (cases "PgUUID (q_parse_uuid q) (payload_DeploymentID payload)")
      case Inl' : (Inl err)
      then show ?thesis using Inr t by (simp add: handle_def)
    next
      case Inr' : (Inr j)
      have j: "j \<noteq> Some i" using t(2) Inr Inr' by (cases payload) (auto simp: item_for_def PgUUID_def split: sum.splits)
      obtain r w1 where r: "run_state (db_exec (q_runner q) (GetDeployment j)) (sys_world s) = (r, w1)" by (metis surj_pair)
      have w1: "row_status i t (w_store w1)"
        using keepsD [OF row.db_exec_statement [OF read_only_keeps(1)], of i t "sys_world s"] t(1) r by (metis snd_conv)
      have "dep_ID d \<noteq> Some i" if "r = Inr d" for d
        using r that j by (auto simp: db_exec_served [OF assms] GetDeployment_def sql_eq_def one_row_Inr
            filter_eq_Cons_iff split: sum.splits prod.splits)
      then have "keeps (row_status i t) (Run (q_runner q) d)" if "r = Inr d" for d using Run_other [OF assms] that by blast
      then show ?thesis using Inr Inr' r w1
        by (auto simp: handle_def run_bind run_on_world keepsD split: sum.splits)
    qed
  qed (use t in \<open>simp add: handle_def\<close>)
  show "row_status i ''queued'' (sys_store (snd (run_state (handle q item) s))) \<or> ended i (sys_store (snd (run_state (handle q item) s)))"
    if t: "row_status i ''queued'' (sys_store s)"
  proof (cases "item_for q i item")
    case True
    from handle_item [OF this assms t] obtain d w1 where d: "row_status i ''queued'' (w_store w1)" "dep_ID d = Some i"
      "run_state (handle q item) s = (None, s\<lparr>sys_world := snd (run_state (Run (q_runner q) d) w1)\<rparr>)" by auto
    then show ?thesis using Run_terminal [OF assms d(2,1)] by (auto simp: ended_def terminal_def)
  qed (use other t in blast)
  show "ended i (sys_store (snd (run_state (handle q item) s)))" if e: "ended i (sys_store s)"
  proof -
    obtain t where t: "terminal t" "row_status i t (sys_store s)" using e by (auto simp: ended_def)
    show ?thesis
    proof (cases "item_for q i item")
      case True
      have "t \<noteq> ''queued''" using t(1) by (auto simp: terminal_def)
      with handle_item [OF True assms t(2)] obtain w1 where
        "row_status i t (w_store w1)" "run_state (handle q item) s = (None, s\<lparr>sys_world := w1\<rparr>)" by auto
      then show ?thesis using t(1) unfolding ended_def by auto
    qed (use other t in \<open>auto simp: ended_def\<close>)
  qed
qed

lemma handle_queue: "sys_queue (snd (run_state (handle q item) s)) = sys_queue s"
  by (auto simp: handle_def run_bind run_on_world split: sum.splits)

lemma work_pop:
  "sys_queue s = item # items \<Longrightarrow>
   run_state (work q (PopItem # answers)) s = run_state (work q answers) (snd (run_state (handle q item) (s\<lparr>sys_queue := items\<rparr>)))"
  by (simp add: run_bind)

lemma drained:
  assumes "served (q_runner q)"
  shows "sys_queue s = items \<Longrightarrow>
    ended i (sys_store s) \<or> row_status i ''queued'' (sys_store s) \<and> list_ex (item_for q i) items \<Longrightarrow>
    ended i (sys_store (snd (run_state (work q (replicate (length items) PopItem)) s)))
    \<and> sys_queue (snd (run_state (work q (replicate (length items) PopItem)) s)) = []"
proof (induction items arbitrary: s)
  case (Cons item items)
  let ?s = "s\<lparr>sys_queue := items\<rparr>" and ?s' = "snd (run_state (handle q item) (s\<lparr>sys_queue := items\<rparr>))"
  have queue: "sys_queue ?s' = items" by (simp add: handle_queue)
  have "ended i (sys_store ?s') \<or> row_status i ''queued'' (sys_store ?s') \<and> list_ex (item_for q i) items"
  proof (cases "ended i (sys_store s)")
    case True
    then show ?thesis using handle_any(2) [OF assms, of i ?s item] by simp
  next
    case False
    then have t: "row_status i ''queued'' (sys_store ?s)" and ex: "item_for q i item \<or> list_ex (item_for q i) items"
      using Cons.prems(2) by simp_all
    have "ended i (sys_store ?s')" if "item_for q i item"
    proof -
      from handle_item [OF that assms t] obtain d w1 where d: "row_status i ''queued'' (w_store w1)" "dep_ID d = Some i"
        "run_state (handle q item) ?s = (None, ?s\<lparr>sys_world := snd (run_state (Run (q_runner q) d) w1)\<rparr>)" by auto
      then show ?thesis using Run_terminal [OF assms d(2,1)] by (auto simp: ended_def terminal_def)
    qed
    then show ?thesis using handle_any(1) [OF assms t, of item] ex by blast
  qed
  from Cons.IH [OF queue this] show ?case using work_pop [OF Cons.prems(1)] by simp
qed simp

text \<open>A worker that empties the queue has ended every deployment that waited in it: each queued deployment
  with an item in the queue has reached a terminal status, whatever else is in the queue and
  whatever the servers answer.\<close>

theorem drained_deployment_ends:
  assumes "served (q_runner q)" "row_status i ''queued'' (sys_store s)" "list_ex (item_for q i) (sys_queue s)"
  shows "let s' = snd (run_state (work q (replicate (length (sys_queue s)) PopItem)) s) in
    sys_queue s' = [] \<and> ended i (sys_store s')"
  using drained [OF assms(1) refl, of i s] assms(2,3) by (simp add: Let_def)

text \<open>A queue with an unreadable item and a duplicate.\<close>

theorem drained_deployment_ends_witness:
  "let s = sample_system\<lparr>sys_queue := [''{'', sample_item, sample_item]\<rparr>;
       s' = snd (run_state (work sample_queue (replicate 3 PopItem)) s) in
   sys_queue s' = [] \<and> ended ''d1'' (sys_store s')"
  using drained_deployment_ends [of sample_queue "''d1''" "sample_system\<lparr>sys_queue := [''{'', sample_item, sample_item]\<rparr>"]
    sample_queue_facts by (simp add: numeral_3_eq_3)

end
