(* ===== verification/Remote_Steps_Proofs.thy ===== *)
theory Remote_Steps_Proofs
  imports Remote_Steps "HOL-Library.Multiset"
begin

text \<open>
  What is proved of the remote steps: environment values survive quoting, merged variables follow the
  precedence of their sources, ports are digits, the shell interprets only fixed program text in the
  commands of a deployment, paths stay inside the directory of the application, and the names of
  Compose projects are well formed.
\<close>

subsection \<open>A sample target\<close>

definition sample_target :: deployment_target where
  "sample_target =
     \<lparr>tgt_DeploymentID = Some ''d1'', tgt_Strategy = ''blue_green'', tgt_CommitSha = None, tgt_ImageRef = None,
      tgt_ImageDigest = None, tgt_ApplicationID = Some ''a1'', tgt_ApplicationName = ''Shop API'',
      tgt_RepositoryUrl = Some ''https://example.com/shop.git'', tgt_Branch = ''main'',
      tgt_ComposePath = ''deploy/compose.yml'', tgt_RemoteDirectory = ''/opt/shop'',
      tgt_Domain = None, tgt_HealthCheckUrl = Some ''http://127.0.0.1:{port}/{color}'', tgt_DopplerProject = None,
      tgt_DopplerConfig = None, tgt_ComposeServices = [], tgt_ConfigurationRevision = 1,
      tgt_ProjectConfigurationRevision = 1, tgt_RepositoryConnectorID = None, tgt_ServerID = Some ''s1'',
      tgt_ServerName = ''web'', tgt_Hostname = ''web.internal'', tgt_SshUser = ''deploy'', tgt_SshPort = 22,
      tgt_SshKeyPath = Some ''/keys/web'', tgt_ConnectionMode = ''ssh'', tgt_ProxyType = ''caddy''\<rparr>"

subsection \<open>Environment files\<close>

text \<open>What \<open>quoteEnvValue\<close> makes of one byte.\<close>

definition env_escape :: "char \<Rightarrow> string" where
  "env_escape c =
     (if c = CHR 0x0A then [backslash, CHR ''n'']
      else if c = CHR 0x0D then []
      else if c = backslash \<or> c = CHR 0x22 \<or> c = CHR ''$'' \<or> c = CHR 0x60 then [backslash, c]
      else [c])"

lemma ReplaceAll_concat_map:
  "ReplaceAll (concat (map f s)) [c] new = concat (map (\<lambda>d. ReplaceAll (f d) [c] new) s)"
  by (induction s) (simp_all add: ReplaceAll_single)

lemma quoteEnvValue_escape: "quoteEnvValue v = CHR 0x22 # concat (map env_escape v) @ [CHR 0x22]"
proof -
  have "ReplaceAll v [backslash] [backslash, backslash] = concat (map (\<lambda>d. if d = backslash then [backslash, backslash] else [d]) v)"
    by (simp add: ReplaceAll_single)
  then show ?thesis
    unfolding quoteEnvValue_def Let_def
    by (simp add: ReplaceAll_concat_map) (induction v, auto simp: env_escape_def ReplaceAll_single)
qed

text \<open>
  How a reader of environment files takes a value in double quotes back: a backslash escapes one of
  the special characters or stands for a line break, a bare dollar sign (which starts a substitution)
  or line break has no reading, and the closing quote ends the value.
\<close>

fun env_unquote_body :: "string \<Rightarrow> string option" where
  "env_unquote_body [] = None"
| "env_unquote_body (c # s) =
     (if c = CHR 0x22 then (if s = [] then Some [] else None)
      else if c = CHR ''$'' \<or> c = CHR 0x0A then None
      else if c = backslash then
        (case s of
           [] \<Rightarrow> None
         | d # t \<Rightarrow>
             if d = CHR ''n'' then map_option (Cons (CHR 0x0A)) (env_unquote_body t)
             else if d \<in> {backslash, CHR 0x22, CHR ''$'', CHR 0x60} then map_option (Cons d) (env_unquote_body t)
             else None)
      else map_option (Cons c) (env_unquote_body s))"

definition env_unquote :: "string \<Rightarrow> string option" where
  "env_unquote s = (case s of [] \<Rightarrow> None | c # t \<Rightarrow> if c = CHR 0x22 then env_unquote_body t else None)"

lemma unq_body: "env_unquote_body (concat (map env_escape v) @ [CHR 0x22]) = Some (filter (\<lambda>c. c \<noteq> CHR 0x0D) v)"
  by (induction v) (auto simp: env_escape_def)

text \<open>C35. Reading back an environment value that the program wrote gives the value, except that carriage
  returns are dropped: no value can end its quotes, start a substitution or add a line.\<close>

theorem quoteEnvValue_roundtrip: "env_unquote (quoteEnvValue v) = Some (filter (\<lambda>c. c \<noteq> CHR 0x0D) v)"
  by (simp add: env_unquote_def quoteEnvValue_escape unq_body)

subsection \<open>Merging variables\<close>

lemma map_of_by_key: "map_of (by_key vs m) k = (case find (\<lambda>v. rv_Key v = k) (rev vs) of Some v \<Rightarrow> Some v | None \<Rightarrow> map_of m k)"
  unfolding by_key_def
  by (induction vs arbitrary: m rule: rev_induct) (auto simp: AList.update_conv' split: option.splits)

lemma distinct_by_key: "distinct (map fst m) \<Longrightarrow> distinct (map fst (by_key vs m))"
  unfolding by_key_def by (induction vs arbitrary: m) (auto simp: distinct_update)


definition lookup_var :: "string \<Rightarrow> runtime_variable list \<Rightarrow> runtime_variable option" where
  "lookup_var k vs = find (\<lambda>v. rv_Key v = k) vs"

lemma find_append: "find P (xs @ ys) = (case find P xs of Some x \<Rightarrow> Some x | None \<Rightarrow> find P ys)"
  by (induction xs) auto

lemma merged_map:
  "map_of (by_key d (by_key p [])) k = lookup_var k (rev (p @ d))"
  by (simp add: map_of_by_key lookup_var_def find_append split: option.split)

lemma lookup_var_key: "lookup_var k vs = Some v \<Longrightarrow> rv_Key v = k"
  unfolding lookup_var_def by (auto simp: find_Some_iff)

lemma lookup_var_map:
  assumes "\<And>k. k \<in> set ks \<Longrightarrow> rv_Key (g k) = k"
  shows "lookup_var k (map g ks) = (if k \<in> set ks then Some (g k) else None)"
  using assms unfolding lookup_var_def by (induction ks) auto

lemma merge_props:
  shows "map rv_Key (mergeRuntimeVariables p d) = sort (map fst (by_key d (by_key p [])))"
    and "lookup_var k (mergeRuntimeVariables p d) = lookup_var k (rev (p @ d))"
proof -
  let ?m = "by_key d (by_key p [])"
  have in_keys: "k \<in> set (map fst ?m) \<longleftrightarrow> lookup_var k (rev (p @ d)) \<noteq> None" for k
    using merged_map [of d p k] map_of_eq_None_iff [of ?m k] by simp
  have key: "rv_Key (the (map_of ?m k)) = k" if "k \<in> set (map fst ?m)" for k
    using that in_keys [of k] merged_map [of d p k] lookup_var_key [of k "rev (p @ d)"] by auto
  show "map rv_Key (mergeRuntimeVariables p d) = sort (map fst ?m)"
    unfolding mergeRuntimeVariables_def Let_def by (auto intro!: map_idI simp: key simp del: set_map)
  show "lookup_var k (mergeRuntimeVariables p d) = lookup_var k (rev (p @ d))"
    unfolding mergeRuntimeVariables_def Let_def
    using in_keys [of k] merged_map [of d p k] key by (subst lookup_var_map) (auto simp del: set_map)
qed

text \<open>C36. Merging runtime variables gives one variable per key, sorted by key, and the value of a key is the
  last one of the second list (Doppler), or of the first list (the project) when the second has none.\<close>

theorem mergeRuntimeVariables_last_wins:
  "sorted (map rv_Key (mergeRuntimeVariables p d)) \<and> distinct (map rv_Key (mergeRuntimeVariables p d)) \<and>
   lookup_var k (mergeRuntimeVariables p d) =
     (case lookup_var k (rev d) of Some v \<Rightarrow> Some v | None \<Rightarrow> lookup_var k (rev p))"
  using merge_props distinct_by_key
  by (simp add: lookup_var_def find_append split: option.split)

subsection \<open>Ports\<close>

lemma set_TrimSpace: "set (TrimSpace s) \<subseteq> set s"
proof -
  have "set (TrimSpace s) \<subseteq> \<Union> (set ` snd ` set (chunks s))"
    unfolding TrimSpace_def using set_trim_list [of "\<lambda>k. IsSpace (fst k)" "chunks s"] by auto
  also have "\<dots> = set (chunk_bytes (chunks s))" by (auto simp del: chunk_bytes_chunks)
  finally show ?thesis by simp
qed

definition digits :: "string \<Rightarrow> bool" where
  "digits s = list_all is_digit s"

lemma upstreamPort_digits: "digits (upstreamPort v)"
  by (auto simp: upstreamPort_def digits_def Port_digits split: option.split)

lemma port_or_digits: "digits p \<Longrightarrow> digits d \<Longrightarrow> digits (port_or p d)"
  by (simp add: port_or_def)

lemma digits_literals: "digits ''3101''" "digits ''3102''"
  by (simp_all add: digits_def is_digit_def)

definition port_var_ok :: "compose_port_variable \<Rightarrow> bool" where
  "port_var_ok v \<longleftrightarrow> digits (pv_bluePort v) \<and> pv_bluePort v \<noteq> [] \<and> digits (pv_greenPort v) \<and> pv_greenPort v \<noteq> []"

definition ports_state_ok :: "string \<times> string \<times> (string \<times> compose_port_variable) list \<Rightarrow> bool" where
  "ports_state_ok st \<longleftrightarrow> (case st of (blue, green, seen) \<Rightarrow> digits blue \<and> digits green \<and> (blue = [] \<longleftrightarrow> green = []) \<and>
     distinct (map fst seen) \<and> (\<forall>(n, v)\<in>set seen. pv_name v = n \<and> n \<noteq> [] \<and> port_var_ok v))"

lemma route_port_variable_ports:
  "pv_bluePort (route_port_variable route name blue green) = blue"
  "pv_greenPort (route_port_variable route name blue green) = green"
  by (auto simp: route_port_variable_def Let_def split: option.splits)

lemma route_port_step_ok:
  assumes "route_port_step st route = Inr st'" and "ports_state_ok st"
  shows "ports_state_ok st'"
proof -
  obtain pb pg seen where st: "st = (pb, pg, seen)" by (cases st)
  define b where "b = port_or (upstreamPort (rt_BlueUpstreamUrl route)) ''3101''"
  define g where "g = port_or (upstreamPort (rt_GreenUpstreamUrl route)) ''3102''"
  define n where "n = TrimSpace (text_String (rt_PortVariable route))"
  define v where "v = route_port_variable route n b g"
  have d: "digits b" "digits g" "b \<noteq> []" "g \<noteq> []"
    unfolding b_def g_def
    by (auto simp: port_or_digits upstreamPort_digits digits_literals) (auto simp: port_or_def split: if_splits)
  then have v: "port_var_ok v"
    by (simp add: port_var_ok_def v_def route_port_variable_ports)
  define pair where "pair = (if pb = [] \<or> n = ''DEPLOY_PORT'' then (b, g) else (pb, pg))"
  have pair: "digits (fst pair) \<and> digits (snd pair) \<and> (fst pair = [] \<longleftrightarrow> snd pair = [])"
    using assms(2) d by (auto simp: pair_def st ports_state_ok_def)
  from assms(1) consider "st' = st" | "st' = (fst pair, snd pair, seen)"
    | "st' = (fst pair, snd pair, (pv_name v, v) # seen)" "pv_name v \<noteq> []" "map_of seen (pv_name v) = None"
    unfolding st route_port_step_def Let_def prod.case b_def [symmetric] g_def [symmetric] n_def [symmetric]
      v_def [symmetric] pair_def [symmetric]
    by (simp split: if_split_asm option.split_asm)
  then show ?thesis
    using assms(2) pair v by cases (auto simp: st ports_state_ok_def map_of_eq_None_iff)
qed

lemma route_port_loop_ok:
  "route_port_loop st routes = Inr st' \<Longrightarrow> ports_state_ok st \<Longrightarrow> ports_state_ok st'"
  by (induction routes arbitrary: st) (auto simp: try_bind_eq_Inr_iff dest: route_port_step_ok)

lemma routePorts_ok:
  assumes "routePorts routes = Inr ports"
  shows "digits (ports_blue ports) \<and> ports_blue ports \<noteq> [] \<and> digits (ports_green ports) \<and> ports_green ports \<noteq> []"
    and "\<forall>v\<in>set (ports_variables ports). port_var_ok v"
    and "sorted (map pv_name (ports_variables ports))" and "distinct (map pv_name (ports_variables ports))"
proof -
  from assms obtain blue green seen where l: "route_port_loop ([], [], []) routes = Inr (blue, green, seen)"
    and ports: "ports = \<lparr>ports_blue = (if blue = [] then ''3101'' else blue),
            ports_green = (if blue = [] then ''3102'' else green), ports_variables = sort_key pv_name (map snd seen)\<rparr>"
    by (auto simp: routePorts_def try_bind_eq_Inr_iff)
  have ok: "ports_state_ok (blue, green, seen)"
    using route_port_loop_ok [OF l] by (simp add: ports_state_ok_def digits_def)
  then show "digits (ports_blue ports) \<and> ports_blue ports \<noteq> [] \<and> digits (ports_green ports) \<and> ports_green ports \<noteq> []"
    by (auto simp: ports ports_state_ok_def digits_literals)
  show "\<forall>v\<in>set (ports_variables ports). port_var_ok v"
    using ok by (auto simp: ports ports_state_ok_def)
  show "sorted (map pv_name (ports_variables ports))"
    by (simp add: ports)
  have "map pv_name (map snd seen) = map fst seen"
    using ok by (auto simp: ports_state_ok_def)
  moreover have "distinct (map fst seen)"
    using ok by (simp add: ports_state_ok_def)
  ultimately have "distinct (map pv_name (map snd seen))"
    by (simp only:)
  moreover have "mset (map pv_name (sort_key pv_name (map snd seen))) = mset (map pv_name (map snd seen))"
    by (simp only: mset_map mset_sort)
  ultimately show "distinct (map pv_name (ports_variables ports))"
    by (metis ports mset_eq_imp_distinct_iff blue_green_ports.select_convs(3))
qed

subsection \<open>The programs of a deployment\<close>

text \<open>
  The text that the shells of a deployment interpret: the commands with all quoted values taken out.
  The sets depend on the ports, the names of the port variables and the number of singleton services
  only, never on a directory, path, branch, repository, application name, URL or variable.
\<close>

definition compose_args :: "string set" where
  "compose_args = {''-f '', ''-f  -f ''}"

definition sync_programs :: "string set" where
  "sync_programs =
     {prefix @ ''if [ -d /.git ]; then cd  && git -c safe.directory= fetch --prune origin  && git -c safe.directory= reset --hard && git -c safe.directory= checkout  && git -c safe.directory= reset --hard origin/; else find  -mindepth 1 -maxdepth 1 -exec rm -rf {} + && git clone --branch   ; fi'' @ checkout
      | prefix checkout. prefix \<in> {[], ''IFS= read -r GIT_CONFIG_VALUE_0; export GIT_CONFIG_COUNT=1 GIT_CONFIG_KEY_0=http.extraHeader GIT_CONFIG_VALUE_0 GIT_CONFIG_NOSYSTEM=1 GIT_TERMINAL_PROMPT=0; ''}
          \<and> checkout \<in> {[], '' && cd  && git -c safe.directory= checkout --detach ''}}"

definition rolling_programs :: "string set" where
  "rolling_programs =
     {''cd  && docker compose '' @ args @ '' config --quiet'' | args. args \<in> compose_args}
     \<union> {''cd  && COMPOSE_PROJECT_NAME= docker compose '' @ args @ action
         | args action. args \<in> compose_args \<and> action \<in> {'' build --pull'', '' pull'', '' up -d --remove-orphans''}}"

definition fixed_port_program :: string where
  \<open>fixed_port_program = ''if [ "$color" = "blue" ]; then printf %s ; else printf %s ; fi''\<close>

definition port_assignments :: "string list \<Rightarrow> string" where
  "port_assignments names = concat (map (\<lambda>n. '' '' @ n @ ''=$('' @ fixed_port_program @ '')'') names)"

definition color_programs :: "string \<Rightarrow> string list \<Rightarrow> nat \<Rightarrow> string set" where
  \<open>color_programs select names k =
     {''cd  && printf %s  > .deploy-manager-next-color'',
      ''cd  && color=$(cat .deploy-manager-next-color) && port=$('' @ select
      @ '') && url=$(printf %s  | sed "s/{color}/$color/g" | sed "s/{port}/$port/g") && curl -fsS --retry 10 --retry-delay 2 --retry-all-errors "$url" >/dev/null''}
     \<union> {''cd  && color=$(cat .deploy-manager-next-color) && port=$('' @ select
         @ '') && COMPOSE_PROJECT_NAME=-$color DEPLOY_COLOR=$color DEPLOY_PORT=$port'' @ port_assignments names
         @ '' docker compose '' @ args @ '' '' @ action
         | args action. args \<in> compose_args \<and>
             action \<in> {''config --quiet'', ''build --pull'', ''pull'',
                       ''up -d --remove-orphans'' @ concat (replicate k '' --scale ''),
                       ''up --no-start --no-deps --no-build --force-recreate '' @ replicate (k - 1) (CHR '' '')}}\<close>

definition deployment_programs :: "string \<Rightarrow> string list \<Rightarrow> nat \<Rightarrow> string set" where
  "deployment_programs select names k =
     {''mkdir -p '', ''cd  && umask 077 && printf %s  > '', ''cd  && umask 077 && mkdir -p  && printf %s  > ''}
     \<union> sync_programs \<union> rolling_programs \<union> color_programs select names k"

lemma program_literal_plain: "plain s \<Longrightarrow> shell_program s = Some s"
  using shell_program_plain [of s "[]"] by (simp add: shell_program_Nil)

lemma plain_char_simps [simp]: "plain_char c \<longleftrightarrow> c \<noteq> CHR 0x27 \<and> c \<noteq> CHR 0x22 \<and> c \<noteq> backslash"
  by (simp add: plain_char_def)

lemma program_colorPort:
  assumes "plain (TrimSpace b)" "plain (TrimSpace g)"
  shows "shell_program (colorPortPairCommand b g @ rest) = map_option ((@) (colorPortPairCommand b g)) (shell_program rest)"
proof (rule shell_program_append)
  have p: "plain (port_or (TrimSpace b) ''3101'')" "plain (port_or (TrimSpace g) ''3102'')"
    using assms by (auto simp: port_or_def)
  show "shell_program (colorPortPairCommand b g) = Some (colorPortPairCommand b g)"
    using p unfolding colorPortPairCommand_def Let_def
    by (simp add: shell_program_def sh_scan_double)
qed

lemma program_fixedColorPort:
  "shell_program (fixedColorPortCommand b g @ rest) = map_option ((@) fixed_port_program) (shell_program rest)"
  by (rule shell_program_append)
    (simp add: fixedColorPortCommand_def fixed_port_program_def shell_program_def sh_scan_ShellQuote)

lemma runes_class_plain:
  assumes "\<And>r. r \<in> set (runes s) \<Longrightarrow> r < 128 \<and> r \<noteq> 0x27 \<and> r \<noteq> 0x22 \<and> r \<noteq> 0x5C"
  shows "plain s"
proof -
  have a: "ascii s" by (rule runes_below_128) (use assms in auto)
  have "plain_char c" if "c \<in> set s" for c
    using assms [of "byte c"] that by (auto simp: runes_ascii [OF a])
  then show ?thesis by (simp add: plain_def list_all_iff)
qed

lemma key_chars:
  "ValidRuntimeVariableKey k \<longleftrightarrow> (\<exists>r rs. runes k = r # rs \<and> (r_upper r \<or> r_lower r \<or> r = 95) \<and> (\<forall>x\<in>set rs. r_alnum x \<or> x = 95))"
  unfolding ValidRuntimeVariableKey_def runtimeVariableKeyPattern_def by (rule full_match_set_star)

lemma key_plain: "ValidRuntimeVariableKey k \<Longrightarrow> plain k"
proof (rule runes_class_plain)
  fix r
  assume "ValidRuntimeVariableKey k" and "r \<in> set (runes k)"
  then have "r_alnum r \<or> r = 95" by (force simp: key_chars class_defs simp del: set_map)
  then show "r < 128 \<and> r \<noteq> 0x27 \<and> r \<noteq> 0x22 \<and> r \<noteq> 0x5C" by (auto simp: class_defs)
qed

lemma program_assignments:
  "shell_program (composePortVariableAssignments vars @ rest) =
     map_option ((@) (port_assignments (map pv_name (filter passed_port vars)))) (shell_program rest)"
  unfolding composePortVariableAssignments_def port_assignments_def map_map comp_def
proof (rule shell_program_concat)
  fix v
  assume "v \<in> set (filter passed_port vars)"
  then show "shell_program ('' '' @ pv_name v @ ''=$('' @ fixedColorPortCommand (pv_bluePort v) (pv_greenPort v) @ '')'')
      = Some ('' '' @ pv_name v @ ''=$('' @ fixed_port_program @ '')'')"
    using key_plain [of "pv_name v"]
    by (simp add: passed_port_def shell_program_plain program_fixedColorPort quoting)
qed

lemma program_composeFiles:
  "\<exists>args\<in>compose_args. \<forall>rest.
     shell_program (composeFileArguments cp sv pv @ rest) = map_option ((@) args) (shell_program rest)"
proof (cases "sv \<noteq> [] \<or> hasManagedComposePorts pv")
  case True
  then have "\<forall>rest. shell_program (composeFileArguments cp sv pv @ rest) = map_option ((@) ''-f  -f '') (shell_program rest)"
    by (intro allI shell_program_append) (simp add: composeFileArguments_def quoting)
  then show ?thesis by (auto simp: compose_args_def)
next
  case False
  then have "\<forall>rest. shell_program (composeFileArguments cp sv pv @ rest) = map_option ((@) ''-f '') (shell_program rest)"
    by (intro allI shell_program_append) (simp add: composeFileArguments_def quoting)
  then show ?thesis by (auto simp: compose_args_def)
qed

lemma program_next_color:
  assumes "plain (TrimSpace (bluePort o1))" "plain (TrimSpace (greenPort o1))" and "shell_program action = Some a"
  shows "\<exists>args\<in>compose_args. shell_program (next_color_command t o1 action) = Some
    (''cd  && color=$(cat .deploy-manager-next-color) && port=$('' @ colorPortCommand o1
         @ '') && COMPOSE_PROJECT_NAME=-$color DEPLOY_COLOR=$color DEPLOY_PORT=$port'' @ port_assignments (map pv_name (filter passed_port (portVariables o1)))
         @ '' docker compose '' @ args @ '' '' @ a)"
proof -
  obtain args where a: "args \<in> compose_args" 
    "\<And>rest. shell_program (composeFileArguments (tgt_ComposePath t) (serviceVariables o1) (portVariables o1) @ rest) = map_option ((@) args) (shell_program rest)"
    using program_composeFiles by blast
  show ?thesis
    by (rule bexI [OF _ a(1)])
      (simp add: next_color_command_def colorPortCommand_def program_colorPort program_assignments quoting assms a(2))
qed

abbreviation port_names :: "remote_step_options \<Rightarrow> string list" where
  "port_names options \<equiv> map pv_name (filter passed_port (portVariables options))"

definition has_program :: "string set \<Rightarrow> remote_step \<Rightarrow> bool" where
  "has_program P s \<longleftrightarrow> (\<exists>program\<in>P. shell_program (step_command s) = Some program)"

lemma has_program_step: "shell_program c = Some p \<Longrightarrow> p \<in> P \<Longrightarrow> has_program P (step l c)"
  by (auto simp: has_program_def step_def)

lemma service_steps_programs:
  assumes "serviceRuntimeSteps target services ports = Inr steps" and "s \<in> set steps"
  shows "has_program (deployment_programs select names k) s"
proof -
  have env: "\<forall>s\<in>set sts. has_program (deployment_programs select names k) s"
    if "service_env_steps target services ns = Inr sts" for ns sts
    using that
  proof (induction ns arbitrary: sts)
    case (Cons n ns)
    have "has_program (deployment_programs select names k) st"
      if "service_env_step target n vs = Inr st" for vs st
      using that
      by (auto simp: service_env_step_def Let_def deployment_programs_def quoting
          intro!: has_program_step split: sum.splits)
    with Cons show ?case
      by (auto simp: try_bind_eq_Inr_iff split: option.splits)
  qed simp
  have "has_program (deployment_programs select names k) (step l (''cd '' @ ShellQuote a @ '' && umask 077 && printf %s ''
                  @ ShellQuote b @ '' > '' @ ShellQuote c))" for l a b c
    by (auto simp: deployment_programs_def quoting intro!: has_program_step)
  with assms env show ?thesis
    by (auto simp: serviceRuntimeSteps_def Let_def try_bind_eq_Inr_iff split: if_splits option.splits)
qed

lemma sync_steps_programs:
  assumes "syncSteps target options = Inr steps" and "s \<in> set steps"
  shows "has_program sync_programs s"
proof -
  let ?dir = "ShellQuote (tgt_RemoteDirectory target)"
  from assms obtain git co where g: "sourceGitCommands ?dir (sourceAuthorizationHeader options) = Inr git"
    and c: "gitCommitCheckout ?dir (deploymentCommit target) = Inr co"
    and s: "step_command s = git_prefix git @ sync_command target git co @ git_suffix git"
    by (auto simp: syncSteps_def Let_def try_bind_eq_Inr_iff split: if_splits)
  from c consider "co = []" | v where "co = '' && cd '' @ ?dir @ '' && git -c safe.directory='' @ ?dir
                @ '' checkout --detach '' @ ShellQuote v"
    by (auto simp: gitCommitCheckout_def Let_def split: if_splits)
  then obtain co' where co': "co' \<in> {[], '' && cd  && git -c safe.directory= checkout --detach ''}" "shell_program co = Some co'"
    by cases (auto simp: quoting)
  have git: "git_fetch git = ''git -c safe.directory='' @ ?dir" "git_clone git = ''git''" "git_suffix git = []"
    and prefix: "git_prefix git \<in> {[], ''IFS= read -r GIT_CONFIG_VALUE_0; export GIT_CONFIG_COUNT=1 GIT_CONFIG_KEY_0=http.extraHeader GIT_CONFIG_VALUE_0 GIT_CONFIG_NOSYSTEM=1 GIT_TERMINAL_PROMPT=0; ''}"
    using g by (auto simp: sourceGitCommands_def Let_def split: if_splits)
  have "shell_program (git_prefix git @ sync_command target git co) = map_option ((@) (git_prefix git)) (shell_program (sync_command target git co))"
    using prefix by (intro shell_program_plain) auto
  moreover have "shell_program (sync_command target git co) = Some (''if [ -d /.git ]; then cd  && git -c safe.directory= fetch --prune origin  && git -c safe.directory= reset --hard && git -c safe.directory= checkout  && git -c safe.directory= reset --hard origin/; else find  -mindepth 1 -maxdepth 1 -exec rm -rf {} + && git clone --branch   ; fi'' @ co')"
    unfolding sync_command_def Let_def by (simp add: git quoting co')
  ultimately show ?thesis
    unfolding has_program_def sync_programs_def s git using prefix co' by auto
qed

lemma rolling_steps_programs: "s \<in> set (rollingSteps target options) \<Longrightarrow> has_program rolling_programs s"
proof -
  assume s: "s \<in> set (rollingSteps target options)"
  obtain args where a: "args \<in> compose_args" "\<And>rest. shell_program (composeFileArguments (tgt_ComposePath target)
      (serviceVariables options) (portVariables options) @ rest) = map_option ((@) args) (shell_program rest)"
    using program_composeFiles by blast
  show ?thesis
    using s a(1) by (auto simp: rollingSteps_def Let_def composeConfigStep_def rolling_programs_def quoting a(2)
        intro!: has_program_step split: if_splits)
qed

lemma program_quoted_list: "shell_program (composeServiceArguments vs) = Some (replicate (length vs - 1) (CHR '' ''))"
proof -
  have "code_text (spaced vs) = replicate (length vs - 1) (CHR '' '')"
    by (induction vs rule: spaced.induct) auto
  then show ?thesis
    by (simp add: composeServiceArguments_def shell_program_def sh_scan_quoted_list)
qed

lemma program_scale: "shell_program (concat (map (\<lambda>service. '' --scale '' @ ShellQuote (service @ ''=0'')) services))
    = Some (concat (replicate (length services) '' --scale ''))"
  using shell_program_concat [of services "\<lambda>service. '' --scale '' @ ShellQuote (service @ ''=0'')" "\<lambda>_. '' --scale ''" "[]"]
  by (simp add: quoting map_replicate_const)

lemma color_steps_programs:
  assumes "plain (TrimSpace (bluePort options))" "plain (TrimSpace (greenPort options))"
    and "s \<in> set (blueGreenSteps target options)"
  shows "has_program (color_programs (colorPortCommand options) (port_names options) (length (singletonServices options))) s"
    (is "has_program ?P s")
proof -
  have compose: "has_program ?P (step l (next_color_command target options action))"
    if "shell_program action = Some a" and "a \<in> {''config --quiet'', ''build --pull'', ''pull'',
       ''up -d --remove-orphans'' @ concat (replicate (length (singletonServices options)) '' --scale ''),
       ''up --no-start --no-deps --no-build --force-recreate '' @ replicate (length (singletonServices options) - 1) (CHR '' '')}" for l action a
  proof -
    from program_next_color [OF assms(1,2) that(1)] obtain args where "args \<in> compose_args"
      "shell_program (next_color_command target options action) = Some
        (''cd  && color=$(cat .deploy-manager-next-color) && port=$('' @ colorPortCommand options
         @ '') && COMPOSE_PROJECT_NAME=-$color DEPLOY_COLOR=$color DEPLOY_PORT=$port'' @ port_assignments (port_names options)
         @ '' docker compose '' @ args @ '' '' @ a)" by blast
    then show ?thesis using that(2) unfolding color_programs_def
      by (intro has_program_step) blast+
  qed
  have select: "has_program ?P (step l (''cd '' @ ShellQuote a @ '' && printf %s '' @ ShellQuote b @ '' > .deploy-manager-next-color''))" for l a b
    by (rule has_program_step [where p = "''cd  && printf %s  > .deploy-manager-next-color''"]) (simp_all add: quoting color_programs_def)
  have health: "has_program ?P (step l (health_command target options))" for l
  proof (rule has_program_step)
    show "shell_program (health_command target options) = Some (''cd  && color=$(cat .deploy-manager-next-color) && port=$('' @ colorPortCommand options
      @ '') && url=$(printf %s  | sed '' @ [CHR 0x22] @ ''s/{color}/$color/g'' @ [CHR 0x22] @ '' | sed '' @ [CHR 0x22] @ ''s/{port}/$port/g'' @ [CHR 0x22] @ '') && curl -fsS --retry 10 --retry-delay 2 --retry-all-errors '' @ [CHR 0x22] @ ''$url'' @ [CHR 0x22] @ '' >/dev/null'')"
      unfolding health_command_def colorPortCommand_def
      by (simp add: program_colorPort assms quoting) (simp add: shell_program_def)
  qed (simp add: color_programs_def)
  have actions: "shell_program ''config --quiet'' = Some ''config --quiet''"
    "shell_program ''build --pull'' = Some ''build --pull''" "shell_program ''pull'' = Some ''pull''"
    by (simp_all add: quoting)
  have up: "shell_program (''up -d --remove-orphans'' @ concat (map (\<lambda>service. '' --scale '' @ ShellQuote (service @ ''=0''))
      (singletonServices options)))
    = Some (''up -d --remove-orphans'' @ concat (replicate (length (singletonServices options)) '' --scale ''))"
    by (simp add: shell_program_plain program_scale del: append_Cons)
  have prep: "shell_program (''up --no-start --no-deps --no-build --force-recreate ''
      @ composeServiceArguments (singletonServices options))
    = Some (''up --no-start --no-deps --no-build --force-recreate '' @ replicate (length (singletonServices options) - 1) (CHR '' ''))"
    by (simp add: shell_program_plain program_quoted_list del: append_Cons)
  have "\<forall>s\<in>set (blueGreenSteps target options). has_program ?P s"
    unfolding blueGreenSteps_def
    using select health compose [OF actions(1)] compose [OF actions(2)] compose [OF actions(3)] compose [OF up] compose [OF prep]
    by (simp del: append_Cons)
  with assms(3) show ?thesis by blast
qed

lemma digits_plain: "digits s \<Longrightarrow> plain s"
  by (auto simp: digits_def plain_def list_all_iff is_digit_def)

lemma digits_TrimSpace: "digits s \<Longrightarrow> digits (TrimSpace s)"
  using set_TrimSpace [of s] by (auto simp: digits_def list_all_iff)

text \<open>The options a plan is made with, after the image reference has been filled in.\<close>

definition planned_options :: "deployment_target \<Rightarrow> remote_step_options list \<Rightarrow> remote_step_options" where
  "planned_options target options =
     (let opts0 = resolveRemoteStepOptions target options
      in if imageRef opts0 = [] then opts0
         else opts0\<lparr>serviceVariables :=
                map (\<lambda>(service, scoped). (service, mergeRuntimeVariables scoped (appendArtifactVariables [] target opts0)))
                  (serviceVariables opts0)\<rparr>)"

lemma planned_options_ports:
  "bluePort (planned_options target (o1 # os)) = bluePort o1"
  "greenPort (planned_options target (o1 # os)) = greenPort o1"
  "portVariables (planned_options target (o1 # os)) = portVariables o1"
  "singletonServices (planned_options target (o1 # os)) = singletonServices o1"
  by (simp_all add: planned_options_def resolveRemoteStepOptions_def Let_def)

lemma remoteSteps_shape:
  assumes "remoteSteps target variables options = Inr steps"
  obtains sync envFile svc where "validateRemoteTarget target = None"
    and "syncSteps target (planned_options target options) = Inr sync"
    and "serviceRuntimeSteps target (serviceVariables (planned_options target options))
           (portVariables (planned_options target options)) = Inr svc"
    and "steps = step ''Preparing remote directory'' (''mkdir -p '' @ ShellQuote (tgt_RemoteDirectory target))
        # sync @ step ''Writing runtime environment''
           (''cd '' @ ShellQuote (tgt_RemoteDirectory target) @ '' && umask 077 && printf %s '' @ ShellQuote envFile
            @ '' > '' @ ShellQuote (PathJoin [PathDir (tgt_ComposePath target), ''.env'']))
        # svc @ (if tgt_Strategy target = ''blue_green'' then blueGreenSteps target (planned_options target options)
                 else rollingSteps target (planned_options target options))"
proof -
  from assms have v: "validateRemoteTarget target = None"
    by (auto simp: remoteSteps_def split: option.splits)
  show thesis
    using assms v that
    unfolding remoteSteps_def planned_options_def Let_def
    by (simp only: option.case) (auto simp: try_bind_eq_Inr_iff simp del: append_Cons)
qed

text \<open>C5. No value of a deployment is ever interpreted by the shell: when the ports come from the proxy routes,
  every step that is planned has a reading, and the text the shell interprets is one of a fixed set of
  programs that depends on the ports, the names of the port variables and the number of
  singleton services only.\<close>

theorem remoteSteps_no_injection:
  assumes "remoteSteps target variables [options\<lparr>bluePort := ports_blue ports, greenPort := ports_green ports,
      portVariables := ports_variables ports\<rparr>] = Inr steps"
    and "ports = no_ports \<or> routePorts routes = Inr ports"
    and "s \<in> set steps"
  shows "\<exists>program\<in>deployment_programs (colorPortPairCommand (ports_blue ports) (ports_green ports))
      (map pv_name (filter passed_port (ports_variables ports))) (length (singletonServices options)).
    shell_program (step_command s) = Some program"
proof -
  let ?P = "deployment_programs (colorPortPairCommand (ports_blue ports) (ports_green ports))
      (map pv_name (filter passed_port (ports_variables ports))) (length (singletonServices options))"
  define o1 where "o1 = planned_options target [options\<lparr>bluePort := ports_blue ports,
      greenPort := ports_green ports, portVariables := ports_variables ports\<rparr>]"
  have o1: "bluePort o1 = ports_blue ports" "greenPort o1 = ports_green ports"
    "portVariables o1 = ports_variables ports" "singletonServices o1 = singletonServices options"
    by (simp_all add: o1_def planned_options_ports)
  have "digits (ports_blue ports) \<and> digits (ports_green ports)"
    using assms(2) routePorts_ok(1) by (auto simp: no_ports_def digits_def)
  then have plain: "plain (TrimSpace (bluePort o1))" "plain (TrimSpace (greenPort o1))"
    by (auto simp: o1 intro: digits_plain digits_TrimSpace)
  have writes: "has_program ?P (step l (''cd '' @ ShellQuote a @ '' && umask 077 && printf %s '' @ ShellQuote b
      @ '' > '' @ ShellQuote c))" for l a b c
    by (auto simp: deployment_programs_def quoting intro!: has_program_step)
  have mkdir: "has_program ?P (step l (''mkdir -p '' @ ShellQuote a))" for l a
    by (auto simp: deployment_programs_def quoting intro!: has_program_step)
  have color: "has_program ?P s" if "s \<in> set (blueGreenSteps target o1)"
    using color_steps_programs [OF plain that]
    by (auto simp: has_program_def deployment_programs_def o1 colorPortCommand_def)
  have rolling: "has_program ?P s" if "s \<in> set (rollingSteps target o1)"
    using rolling_steps_programs [OF that] by (auto simp: has_program_def deployment_programs_def)
  have sync: "has_program ?P s" if "s \<in> set sync" "syncSteps target o1 = Inr sync" for sync
    using sync_steps_programs [OF that(2,1)] by (auto simp: has_program_def deployment_programs_def)
  from assms(1) have "has_program ?P s"
  proof (rule remoteSteps_shape, fold o1_def)
    fix sync envFile svc
    assume "syncSteps target o1 = Inr sync"
      and "serviceRuntimeSteps target (serviceVariables o1) (portVariables o1) = Inr svc"
      and "steps = step ''Preparing remote directory'' (''mkdir -p '' @ ShellQuote (tgt_RemoteDirectory target))
        # sync @ step ''Writing runtime environment''
           (''cd '' @ ShellQuote (tgt_RemoteDirectory target) @ '' && umask 077 && printf %s '' @ ShellQuote envFile
            @ '' > '' @ ShellQuote (PathJoin [PathDir (tgt_ComposePath target), ''.env'']))
        # svc @ (if tgt_Strategy target = ''blue_green'' then blueGreenSteps target o1 else rollingSteps target o1)"
    with assms(3) sync service_steps_programs color rolling writes mkdir show "has_program ?P s"
      by (auto simp del: append_Cons split: if_splits)
  qed
  then show ?thesis by (simp add: has_program_def)
qed

theorem remoteSteps_no_injection_witness:
  "\<exists>steps. remoteSteps sample_target [] [no_options\<lparr>bluePort := ''3101'', greenPort := ''3102'', portVariables := []\<rparr>]
      = Inr steps \<and> steps \<noteq> [] \<and>
    (\<exists>program\<in>deployment_programs (colorPortPairCommand ''3101'' ''3102'') [] 0.
      shell_program (step_command (last steps)) = Some program)"
proof -
  let ?ports = "\<lparr>ports_blue = ''3101'', ports_green = ''3102'', ports_variables = []\<rparr>"
  let ?o = "no_options\<lparr>bluePort := ''3101'', greenPort := ''3102'', portVariables := []\<rparr>"
  have "\<not> isl (remoteSteps sample_target [] [?o])" by code_simp
  then obtain steps where steps: "remoteSteps sample_target [] [?o] = Inr steps"
    by (cases "remoteSteps sample_target [] [?o]") auto
  have ne: "steps \<noteq> []" using steps by (rule remoteSteps_shape) simp
  have "remoteSteps sample_target [] [no_options\<lparr>bluePort := ports_blue ?ports, greenPort := ports_green ?ports,
      portVariables := ports_variables ?ports\<rparr>] = Inr steps" using steps by simp
  moreover have "?ports = no_ports \<or> routePorts [] = Inr ?ports" by (simp add: routePorts_def)
  ultimately have "\<exists>program\<in>deployment_programs (colorPortPairCommand (ports_blue ?ports) (ports_green ?ports))
      (map pv_name (filter passed_port (ports_variables ?ports))) (length (singletonServices no_options)).
    shell_program (step_command (last steps)) = Some program"
    using ne by (intro remoteSteps_no_injection [where routes = "[]"]) auto
  with steps ne show ?thesis by (auto simp: no_options_def)
qed

subsection \<open>Paths\<close>

lemma clean_segments_no_parent:
  "''..'' \<notin> set ws \<Longrightarrow> clean_segments rooted out ws = rev out @ filter (\<lambda>w. w \<noteq> [] \<and> w \<noteq> ''.'') ws"
  by (induction ws arbitrary: out) auto

lemma Split_append: "Split (s @ c # t) c = Split s c @ Split t c"
proof (induction s)
  case (Cons d s)
  obtain w ws where "Split s c = w # ws" using Split_not_Nil [of s c] by (meson neq_Nil_conv)
  with Cons show ?case by auto
qed simp

definition path_segments :: "string \<Rightarrow> string list" where
  "path_segments p = filter (\<lambda>w. w \<noteq> [] \<and> w \<noteq> ''.'') (Split p (CHR ''/''))"

lemma Clean_abs: "IsAbs p \<Longrightarrow> ''..'' \<notin> set (Split p (CHR ''/'')) \<Longrightarrow> Clean p = CHR ''/'' # Join (path_segments p) ''/''"
  by (simp add: Clean_def Let_def clean_segments_no_parent path_segments_def)

lemma Clean_rel: "\<not> IsAbs p \<Longrightarrow> ''..'' \<notin> set (Split p (CHR ''/'')) \<Longrightarrow> Clean p = (if path_segments p = [] then ''.'' else Join (path_segments p) ''/'')"
  by (simp add: Clean_def Let_def clean_segments_no_parent path_segments_def)

text \<open>A target that passes validation confines the deployment to its directory: the directory is not the
  root, and the Compose file lies below it, in the cleaned path, however the two paths are written.\<close>

theorem remote_paths_confined:
  assumes "validateRemoteTarget target = None"
  shows "\<exists>segs. Clean (TrimSpace (tgt_RemoteDirectory target)) \<noteq> ''/'' \<and> segs \<noteq> [] \<and> ''..'' \<notin> set segs \<and>
    PathJoin [TrimSpace (tgt_RemoteDirectory target), TrimSpace (tgt_ComposePath target)]
      = Clean (TrimSpace (tgt_RemoteDirectory target)) @ ''/'' @ Join segs ''/''"
proof -
  define dir where "dir = TrimSpace (tgt_RemoteDirectory target)"
  define cfile where "cfile = TrimSpace (tgt_ComposePath target)"
  from assms(1) have dir: "dir \<noteq> []" "IsAbs dir" "Clean dir \<noteq> ''/''" "''..'' \<notin> set (Split dir (CHR ''/''))"
    and vf: "ValidateComposePath (tgt_ComposePath target) = None"
    by (auto simp: validateRemoteTarget_def Let_def dir_def split: if_splits option.splits)
  from vf have f: "cfile \<noteq> []" "\<not> IsAbs cfile" "''..'' \<notin> set (Split cfile (CHR ''/''))" "Clean cfile \<noteq> ''.''"
    by (auto simp: ValidateComposePath_def Let_def cfile_def split: if_splits)
  have seg: "path_segments (dir @ CHR ''/'' # cfile) = path_segments dir @ path_segments cfile"
    by (simp add: path_segments_def Split_append)
  have nf: "path_segments cfile \<noteq> []" using f Clean_rel [of cfile] by auto
  have nd: "path_segments dir \<noteq> []" using dir Clean_abs [of dir] by auto
  have "PathJoin [dir, cfile] = Clean (dir @ CHR ''/'' # cfile)"
    using dir f by (simp add: PathJoin_def Let_def)
  also have "\<dots> = CHR ''/'' # Join (path_segments dir @ path_segments cfile) ''/''"
    using dir f by (subst Clean_abs) (auto simp: IsAbs_def HasPrefix_iff Split_append seg)
  also have "\<dots> = Clean dir @ ''/'' @ Join (path_segments cfile) ''/''"
    using nd nf dir by (simp add: Join_append Clean_abs)
  finally show ?thesis
    using nf f dir unfolding dir_def [symmetric] cfile_def [symmetric]
    by (intro exI [of _ "path_segments cfile"]) (auto simp: path_segments_def)
qed

theorem remote_paths_confined_witness:
  "\<exists>segs. Clean ''/opt/shop'' \<noteq> ''/'' \<and> segs \<noteq> [] \<and> ''..'' \<notin> set segs \<and>
    PathJoin [''/opt/shop'', ''deploy/compose.yml''] = Clean ''/opt/shop'' @ ''/'' @ Join segs ''/''"
proof -
  have valid: "validateRemoteTarget sample_target = None" by code_simp
  have "TrimSpace (tgt_RemoteDirectory sample_target) = ''/opt/shop''"
    "TrimSpace (tgt_ComposePath sample_target) = ''deploy/compose.yml''" by code_simp+
  with remote_paths_confined [OF valid] show ?thesis by (simp only:)
qed

subsection \<open>Names of projects and port variables\<close>

lemma digits_rev_length: "2 \<le> b \<Longrightarrow> n < b ^ Suc k \<Longrightarrow> length (digits_rev b n) \<le> Suc k"
proof (induction k arbitrary: n)
  case 0
  then show ?case by (simp add: digits_rev.simps)
next
  case (Suc k)
  then have "n div b < b ^ Suc k" by (simp add: less_mult_imp_div_less mult.commute)
  with Suc show ?case by (subst digits_rev.simps) auto
qed

lemma digit_char_class: "d < 16 \<Longrightarrow> r_digit (byte (digit_char d)) \<or> r_lower (byte (digit_char d))"
  by (auto simp: digit_char_def class_defs of_char_of)

lemma digit_char_upper_class: "d < 16 \<Longrightarrow> r_digit (byte (digit_char_upper d)) \<or> r_upper (byte (digit_char_upper d))"
  by (auto simp: digit_char_upper_def class_defs of_char_of)

lemma hex8_length: "n < 2 ^ 32 \<Longrightarrow> length (hex8 n) = 8" "n < 2 ^ 32 \<Longrightarrow> length (hex8_upper n) = 8"
  using digits_rev_length [of 16 n 7] by (auto simp: hex8_def hex8_upper_def pad_left_def)

lemma hex8_chars: "c \<in> set (hex8 n) \<Longrightarrow> r_digit (byte c) \<or> r_lower (byte c)"
  using digit_char_class digits_rev_less [of 16 _ n]
  by (fastforce simp: hex8_def pad_left_def r_digit_def)

lemma hex8_upper_chars: "c \<in> set (hex8_upper n) \<Longrightarrow> r_digit (byte c) \<or> r_upper (byte c)"
  using digit_char_upper_class digits_rev_less [of 16 _ n]
  by (fastforce simp: hex8_upper_def pad_left_def r_digit_def)

definition slug_char :: "char \<Rightarrow> bool" where
  "slug_char c \<longleftrightarrow> r_lower (byte c) \<or> r_digit (byte c)"

lemma dash_not_slug: "\<not> slug_char (CHR ''-'')"
  by (simp add: slug_char_def class_defs)

lemma Trim_ends: "Trim s cs \<noteq> [] \<Longrightarrow> hd (Trim s cs) \<notin> set cs \<and> last (Trim s cs) \<notin> set cs"
  unfolding Trim_def using trim_list_ends by blast

lemma set_Trim: "set (Trim s cs) \<subseteq> set s"
  unfolding Trim_def by (rule set_trim_list)

lemma length_Trim: "length (Trim s cs) \<le> length s"
  unfolding Trim_def trim_list_def
  by (metis length_dropWhile_le length_rev le_trans)

text \<open>The name of a Compose project is well formed for every application name: not empty, at most 48 bytes,
  made of lower case letters, digits and inner hyphens, also when the name is shortened and a hash is
  appended.\<close>

theorem projectSlug_wellformed:
  "projectSlug name \<noteq> [] \<and> length (projectSlug name) \<le> 48 \<and>
   (\<forall>c\<in>set (projectSlug name). slug_char c \<or> c = CHR ''-'') \<and>
   slug_char (hd (projectSlug name)) \<and> slug_char (last (projectSlug name))"
proof -
  define v where "v = Trim (ReplaceAllStringFunc projectSlugPattern (\<lambda>_. ''-'') (ToLower (TrimSpace name))) ''-''"
  have vc: "slug_char c \<or> c = CHR ''-''" if "c \<in> set v" for c
  proof -
    from that set_Trim have "c \<in> set (ReplaceAllStringFunc projectSlugPattern (\<lambda>_. ''-'') (ToLower (TrimSpace name)))"
      unfolding v_def by blast
    moreover have "r < 128" if "\<not> \<not> (r_lower r \<or> r_digit r)" for r
      using that by (auto simp: class_defs)
    ultimately show ?thesis
      using class_replacement_chars [where P = "\<lambda>r. \<not> (r_lower r \<or> r_digit r)"]
      by (fastforce simp: projectSlugPattern_def slug_char_def)
  qed
  have v_trim: "hd v \<noteq> CHR ''-'' \<and> last v \<noteq> CHR ''-''" if "v \<noteq> []"
    using that Trim_ends [of _ "''-''"] unfolding v_def by fastforce
  have v_ends: "slug_char (hd v) \<and> slug_char (last v)" if "v \<noteq> []"
    using that v_trim vc [OF hd_in_set] vc [OF last_in_set] by blast
  define suffix where "suffix = hex8 (hashProjectName name)"
  have suffix: "length suffix = 8" "\<And>c. c \<in> set suffix \<Longrightarrow> slug_char c"
    unfolding suffix_def hashProjectName_def
    using hex8_length(1) [OF fnv32a_bound] by (auto simp: slug_char_def dest: hex8_chars)
  have s_ne: "suffix \<noteq> []" using suffix(1) by auto
  have s_ends: "slug_char (hd suffix)" "slug_char (last suffix)"
    using suffix(2) hd_in_set [OF s_ne] last_in_set [OF s_ne] by blast+
  define prefix where "prefix = Trim (take 39 v) ''-''"
  have pc: "slug_char c \<or> c = CHR ''-''" if "c \<in> set prefix" for c
    using that vc set_Trim [of "take 39 v" "''-''"] unfolding prefix_def by (auto dest: in_set_takeD)
  have "hd prefix \<noteq> CHR ''-''" if "prefix \<noteq> []"
    using that Trim_ends [of "take 39 v" "''-''"] unfolding prefix_def by fastforce
  then have p_ends: "slug_char (hd prefix)" if "prefix \<noteq> []"
    using that pc [OF hd_in_set] by blast
  have p_len: "length prefix \<le> 39" using length_Trim [of "take 39 v"] unfolding prefix_def by fastforce
  have eq: "projectSlug name = (if v = [] then ''deploy-manager-app'' else if 48 < length v
      then (if prefix = [] then suffix else prefix @ ''-'' @ suffix) else v)"
    by (simp add: projectSlug_def Let_def v_def [symmetric] suffix_def [symmetric] suffix(1) prefix_def
        maxComposeProjectSlugLength_def)
  show ?thesis
    unfolding eq using vc v_ends suffix s_ne s_ends pc p_ends p_len
    by (auto simp: slug_char_def class_defs)
qed

theorem projectSlug_wellformed_witness:
  "projectSlug ''My App!'' = ''my-app'' \<and> length (projectSlug ''My App!'') \<le> 48 \<and>
   slug_char (last (projectSlug ''My App!'')) \<and> (slug_char (CHR ''y'') \<or> CHR ''y'' = CHR ''-'')"
proof -
  have eq: "projectSlug ''My App!'' = ''my-app''" by code_simp
  then have "CHR ''y'' \<in> set (projectSlug ''My App!'')" by simp
  with eq projectSlug_wellformed [of "''My App!''"] show ?thesis by blast
qed


subsection \<open>Managed port variables\<close>

definition key_char :: "char \<Rightarrow> bool" where
  "key_char c \<longleftrightarrow> r_alnum (byte c) \<or> c = CHR ''_''"

lemma key_char_byte: "key_char c \<Longrightarrow> r_alnum (byte c) \<or> byte c = 95"
  by (auto simp: key_char_def)

lemma key_char_valid:
  assumes "list_all key_char s" and "s \<noteq> []" and "\<not> r_digit (byte (hd s))"
  shows "ValidRuntimeVariableKey s"
proof -
  have a: "ascii s"
    using assms(1) by (auto simp: ascii_def list_all_iff key_char_def class_defs)
  obtain c cs where s: "s = c # cs" using assms(2) by (cases s) auto
  have r: "runes s = byte c # map byte cs" using a s by (simp add: runes_ascii)
  have c: "r_upper (byte c) \<or> r_lower (byte c) \<or> byte c = 95"
    using assms(1,3) s by (auto simp: key_char_def r_alnum_def)
  have "list_all key_char cs" using assms(1) s by simp
  then have cs: "\<forall>x\<in>set (map byte cs). r_alnum x \<or> x = 95"
    using key_char_byte by (simp add: list_all_iff)
  show ?thesis unfolding key_chars r using c cs by (intro exI conjI) (rule refl)
qed

lemma FormatNat_digits: "c \<in> set (FormatNat n) \<Longrightarrow> r_digit (byte c)"
proof -
  assume "c \<in> set (FormatNat n)"
  then obtain d where "d \<in> set (digits_rev 10 n)" "c = digit_char d"
    by (auto simp: FormatNat_def)
  with digits_rev_less [of 10 d n] show ?thesis
    by (simp add: digit_char_def class_defs of_char_of)
qed

text \<open>The variable that carries the port of a managed service is a valid environment key for every service
  name, so the commands never leave it out although the generated override requires it.\<close>

theorem managedComposePortName_valid:
  assumes "0 \<le> port"
  shows "ValidRuntimeVariableKey (managedComposePortName service port)"
proof (rule key_char_valid)
  have "key_char c" if "c \<in> set (Trim (take 48 (map port_name_char (runes (ToUpper service)))) ''_'')" for c
  proof -
    from that set_Trim have "c \<in> port_name_char ` set (runes (ToUpper service))"
      by (fastforce dest: in_set_takeD)
    then show ?thesis
      by (auto simp: port_name_char_def key_char_def class_defs of_char_of)
  qed
  moreover have "key_char c" if "c \<in> set (FormatInt port)" for c
    using that assms FormatNat_digits by (auto simp: FormatInt_def key_char_def r_alnum_def)
  moreover have "key_char c" if "c \<in> set (hex8_upper (hashProjectName service))" for c
    using that hex8_upper_chars by (auto simp: key_char_def r_alnum_def)
  ultimately show "list_all key_char (managedComposePortName service port)"
    by (auto simp: managedComposePortName_def list_all_iff) (auto simp: key_char_def class_defs)
qed (simp_all add: managedComposePortName_def class_defs)

theorem managedComposePortName_valid_witness:
  "ValidRuntimeVariableKey (managedComposePortName ''api-v2.worker'' 8080)"
  by (rule managedComposePortName_valid) simp

text \<open>The name of the blue project of one application can be the name of the project of another: the slugs
  of different applications are not separated from the suffixes of the colors.\<close>

theorem projectSlug_collision:
  "projectSlug ''Shop Blue'' = projectSlug ''shop'' @ ''-blue'' \<and> projectSlug ''shop api'' = projectSlug ''Shop-API''"
proof -
  have "projectSlug ''Shop Blue'' = ''shop-blue''" "projectSlug ''shop'' = ''shop''"
    "projectSlug ''shop api'' = ''shop-api''" "projectSlug ''Shop-API'' = ''shop-api''" by code_simp+
  then show ?thesis by simp
qed

end
