(* ===== verification/Http_Base.thy ===== *)
theory Http_Base
  imports Queue_Proofs Store_Configuration
begin

text \<open>
  What the handlers of \<^verbatim>\<open>internal/httpapi\<close> share: requests and replies (\<^verbatim>\<open>responses.go\<close>), identifiers and
  optional text (\<^verbatim>\<open>ids.go\<close>), the actor of a request and the audit trail (\<^verbatim>\<open>audit.go\<close>). A handler is a
  program on the system of the queue; a reply is a status with either an error text or a body, which is
  the value that the source hands to the JSON encoder.
\<close>

lemma FormatNat_nonempty: "FormatNat n \<noteq> []"
  unfolding FormatNat_def by (subst digits_rev.simps) simp

subsection \<open>Requests and replies\<close>

record http_request =
  req_Method :: string
  req_Host :: string
  req_RemoteAddr :: string
  req_header :: "string \<Rightarrow> string"
  req_cookie :: "string \<Rightarrow> string option"
  req_param :: "string \<Rightarrow> string"
  req_query :: "string \<Rightarrow> string"
  req_body :: string

datatype http_error =
    ValidationError string
  | NotFoundError string
  | BodyTooLarge
  | Internal go_error

fun http_error_text :: "http_error \<Rightarrow> string" where
  "http_error_text (ValidationError s) = s"
| "http_error_text (NotFoundError s) = s"
| "http_error_text BodyTooLarge = ''http: request body too large''"
| "http_error_text (Internal err) = err_text err"

type_synonym 'b reply = "nat \<times> (string + 'b)"

definition writeJSON :: "nat \<Rightarrow> 'b \<Rightarrow> 'b reply" where
  "writeJSON status body = (status, Inr body)"

text \<open>An unexpected error is logged by the server; the client is told nothing about it.\<close>

fun writeError :: "http_error \<Rightarrow> 'b reply" where
  "writeError (ValidationError s) = (400, Inl s)"
| "writeError (NotFoundError s) = (404, Inl s)"
| "writeError BodyTooLarge = (400, Inl (http_error_text BodyTooLarge))"
| "writeError (Internal err) = (500, Inl ''internal server error'')"

subsection \<open>Identifiers and optional text\<close>

record http_env =
  h_queue :: queue_env
  h_url_error :: "string \<Rightarrow> string"

abbreviation h_runner :: "http_env \<Rightarrow> runner_env" where
  "h_runner h \<equiv> q_runner (h_queue h)"

definition parseUUIDParam :: "http_env \<Rightarrow> http_request \<Rightarrow> string \<Rightarrow> http_error + pg_uuid" where
  "parseUUIDParam h r name =
     (case PgUUID (q_parse_uuid (h_queue h)) (req_param r name) of
        Inl _ \<Rightarrow> Inl (ValidationError (''invalid '' @ name))
      | Inr i \<Rightarrow> Inr i)"

definition blankTextAsNull :: "pg_text \<Rightarrow> pg_text" where
  "blankTextAsNull v = (if TrimSpace (text_String v) = [] then None else v)"

definition blankStringAsText :: "string \<Rightarrow> pg_text" where
  "blankStringAsText v = (if TrimSpace v = [] then None else Some (TrimSpace v))"

subsection \<open>Remote addresses\<close>

definition index_of :: "char \<Rightarrow> string \<Rightarrow> nat option" where
  "index_of c s = (let n = length (takeWhile (\<lambda>d. d \<noteq> c) s) in if n < length s then Some n else None)"

definition last_index_of :: "char \<Rightarrow> string \<Rightarrow> nat option" where
  "last_index_of c s = map_option (\<lambda>n. length s - Suc n) (index_of c (rev s))"

text \<open>\<^verbatim>\<open>net.SplitHostPort\<close>: \<open>None\<close> is an error.\<close>

definition SplitHostPort :: "string \<Rightarrow> (string \<times> string) option" where
  "SplitHostPort hostport =
     (case last_index_of (CHR '':'') hostport of
        None \<Rightarrow> None
      | Some i \<Rightarrow>
          if hd hostport = CHR ''['' then
            (case index_of (CHR '']'') hostport of
               None \<Rightarrow> None
             | Some e \<Rightarrow>
                 if Suc e \<noteq> i \<or> CHR ''['' \<in> set (drop 1 hostport) \<or> CHR '']'' \<in> set (drop (Suc e) hostport) then None
                 else Some (drop 1 (take e hostport), drop (Suc i) hostport))
          else if CHR '':'' \<in> set (take i hostport) \<or> CHR ''['' \<in> set hostport \<or> CHR '']'' \<in> set hostport then None
          else Some (take i hostport, drop (Suc i) hostport))"

definition auditIdentityField :: "string \<Rightarrow> string \<Rightarrow> string" where
  "auditIdentityField v fallback = IdentityField v fallback"

definition normalizeAuditActor :: "string \<Rightarrow> string" where
  "normalizeAuditActor v = auditIdentityField v []"

definition normalizeRemoteActor :: "string \<Rightarrow> string" where
  "normalizeRemoteActor remoteAddr =
     (case SplitHostPort remoteAddr of
        Some (host, _) \<Rightarrow> normalizeAuditActor host
      | None \<Rightarrow> normalizeAuditActor remoteAddr)"

definition auditActor :: "http_request \<Rightarrow> string" where
  "auditActor r =
     (let delivery = normalizeAuditActor (req_header r ''X-GitHub-Delivery'') in
      if delivery \<noteq> [] then delivery
      else if req_RemoteAddr r \<noteq> [] then normalizeRemoteActor (req_RemoteAddr r)
      else ''system'')"

subsection \<open>Statements and the audit trail\<close>

type_synonym 'b handler = "'b reply sys_run"

definition serve :: "http_env \<Rightarrow> 'a stmt \<Rightarrow> (go_error + 'a) sys_run" where
  "serve h q = on_world (db_exec (h_runner h) q)"

definition http_audit ::
  "http_env \<Rightarrow> http_request \<Rightarrow> string \<Rightarrow> string \<Rightarrow> string \<Rightarrow> string \<Rightarrow> (string \<times> json) list \<Rightarrow> unit sys_run" where
  "http_audit h r action targetType targetID targetName metadata = do {
     _ \<leftarrow> serve h (AppendAuditEvent (auditActor r) (auditIdentityField action ''unknown'')
           (auditIdentityField targetType ''unknown'') (auditIdentityField targetID ''unknown'')
           (auditIdentityField targetName ''unknown'') (Metadata (Some metadata)));
     State_Monad.return ()
   }"

definition id_text :: "http_env \<Rightarrow> pg_uuid \<Rightarrow> string" where
  "id_text h i = uuidString (h_runner h) i"

text \<open>A handler that goes on with the value of a statement or of a check, or replies with the error.\<close>

definition or_error :: "http_error + 'a \<Rightarrow> ('a \<Rightarrow> 'b handler) \<Rightarrow> 'b handler" where
  "or_error r f = (case r of Inl err \<Rightarrow> State_Monad.return (writeError err) | Inr x \<Rightarrow> f x)"

definition map_error :: "('e \<Rightarrow> 'f) \<Rightarrow> 'e + 'a \<Rightarrow> 'f + 'a" where
  "map_error f r = (case r of Inl err \<Rightarrow> Inl (f err) | Inr x \<Rightarrow> Inr x)"

definition applicationLookupError :: "string \<Rightarrow> go_error \<Rightarrow> http_error" where
  "applicationLookupError message err = (if err = ErrNoRows then NotFoundError message else Internal err)"

text \<open>The bounds of the limits in queries: a positive 32 bit integer, capped.\<close>

definition query_limit :: "int \<Rightarrow> int \<Rightarrow> string \<Rightarrow> string \<Rightarrow> http_error + int" where
  "query_limit default_limit max_limit what v0 =
     (let v = TrimSpace v0 in
      if v = [] then Inr default_limit
      else case ParseInt v 32 of
        None \<Rightarrow> Inl (ValidationError (what @ '' limit must be a positive integer''))
      | Some limit \<Rightarrow>
          if limit < 1 then Inl (ValidationError (what @ '' limit must be a positive integer''))
          else if max_limit < limit then Inr max_limit else Inr limit)"

definition auditEventLimit :: "string \<Rightarrow> http_error + int" where
  "auditEventLimit v = query_limit 100 500 ''audit event'' v"

lemma query_limit_range:
  assumes "query_limit d m what v = Inr n" "1 \<le> d" "d \<le> m"
  shows "1 \<le> n \<and> n \<le> m"
  using assms by (auto simp: query_limit_def Let_def split: if_splits option.splits)

subsection \<open>The statements of the handlers\<close>

text \<open>
  The interface between the handlers and the database: besides the statements of a run, those that
  create and cancel deployments and that record builds and applied routes. The handlers are verified
  once, for any property of the tables that these statements keep.
\<close>

locale http_statements = run_statements +
  assumes creates: "stmt_keeps I (CreateDeployment new_id snapshot arg)"
    and cancels: "stmt_keeps I (CancelQueuedDeployment i)"
    and recovers: "stmt_keeps I FailRunningDeploymentsForRecovery"
    and applied: "stmt_keeps I (MarkProxyRouteApplied i)"
    and builds: "stmt_keeps I (CreateBuildRun new_id build)"
    and build_ends: "stmt_keeps I (CompleteBuildRun co)"
begin

lemmas snapshots = create_deployment_keeps [OF creates]

lemmas http_rules = creates snapshots cancels recovers applied builds build_ends starts statement_rules

lemma serve_keeps: "stmt_keeps I q \<Longrightarrow> sys_keeps I (serve h q)"
  unfolding serve_def by (intro sys_keeps_rules db_exec_statement)

lemma serve_finish: "terminal status \<Longrightarrow> sys_keeps I (serve h (UpdateDeploymentStatus i status))"
  by (intro serve_keeps finishes)

lemma http_audit_keeps: "sys_keeps I (http_audit h r action targetType targetID targetName metadata)"
  unfolding http_audit_def by (intro sys_keeps_rules serve_keeps http_rules)

lemma or_error_keeps: "(\<And>x. sys_keeps I (f x)) \<Longrightarrow> sys_keeps I (or_error r f)"
  unfolding or_error_def by (intro sys_keeps_rules)

lemma next_step_keeps: "sys_keeps I (on_world next_step)"
  by (intro sys_keeps_rules keeps_rules)

lemma Enqueue_keeps: "sys_keeps I (Enqueue q d)"
  unfolding Enqueue_def by (intro sys_keeps_rules)

lemmas handler_rules = sys_keeps_rules http_audit_keeps or_error_keeps next_step_keeps Enqueue_keeps
  serve_keeps http_rules

end

interpretation http: http_statements "db_run db0" for db0
  by unfold_locales (auto intro: reach_step db_step.intros)

end
