(* ===== verification/Http_Deployments.thy ===== *)
theory Http_Deployments
  imports Http_Base
begin

text \<open>
  The file \<^verbatim>\<open>internal/httpapi/deployments.go\<close>: the handlers that create, cancel, retry and roll back
  deployments, with the validation of what clients send. Decoding the JSON body into the parameters
  of the statement goes through the unmarshalers of the database driver; the decoded parameters, or the
  error, are an argument of the handler.
\<close>

subsection \<open>Validation\<close>

definition deploymentInProgressMessage :: string where
  "deploymentInProgressMessage = ''application already has a queued or running deployment''"

definition imageDigestPattern :: matcher where
  "imageDigestPattern = m_seq (m_lit ''sha256:'') (m_times 64 (m_set (\<lambda>r. r_digit r \<or> 97 \<le> r \<and> r \<le> 102)))"

definition imageRefPattern :: matcher where
  "imageRefPattern = m_seq (m_set r_alnum) (m_upto 511 (m_set (\<lambda>r. r_alnum r \<or> one_of ''._:/@-'' r)))"

definition deploymentHistoryLimit :: "string \<Rightarrow> http_error + int" where
  "deploymentHistoryLimit v = query_limit 100 500 ''deployment history'' v"

definition validDeploymentTrigger :: "string \<Rightarrow> bool" where
  "validDeploymentTrigger trigger \<longleftrightarrow>
     trigger \<in> {''manual'', ''github_push'', ''connector_sync'', ''retry'', ''rollback''}"

definition validImageRef :: "string \<Rightarrow> bool" where
  "validImageRef v0 \<longleftrightarrow>
     (let v = TrimSpace v0 in v \<noteq> [] \<and> length v \<le> 512 \<and> full_match imageRefPattern v)"

definition validDeploymentStrategy :: "string \<Rightarrow> bool" where
  "validDeploymentStrategy strategy \<longleftrightarrow> strategy = ''blue_green''"

definition trim_text :: "pg_text \<Rightarrow> pg_text" where
  "trim_text v = map_option TrimSpace v"

definition normalizeCreateDeployment :: "create_deployment_params \<Rightarrow> http_error + create_deployment_params" where
  "normalizeCreateDeployment input0 =
     (let trigger = TrimSpace (cd_Trigger input0);
          strategy = TrimSpace (cd_Strategy input0);
          input = input0\<lparr>cd_Trigger := (if trigger = [] then ''manual'' else trigger),
                          cd_Strategy := (if strategy = [] then ''blue_green'' else strategy),
                          cd_CommitSha := blankTextAsNull (trim_text (cd_CommitSha input0)),
                          cd_ImageRef := blankTextAsNull (cd_ImageRef input0),
                          cd_ImageDigest := blankTextAsNull (cd_ImageDigest input0),
                          cd_Actor := blankTextAsNull (trim_text (cd_Actor input0))\<rparr> in
      if cd_ApplicationID input = None then Inl (ValidationError ''application_id is required'')
      else if \<not> validDeploymentTrigger (cd_Trigger input)
        then Inl (ValidationError ''deployment trigger must be manual, github_push, connector_sync, retry, or rollback'')
      else if \<not> validDeploymentStrategy (cd_Strategy input)
        then Inl (ValidationError ''deployment strategy must be blue_green'')
      else if \<not> opt_all ValidCommitSHA (cd_CommitSha input)
        then Inl (ValidationError ''commit_sha must be a 7 to 40 character hexadecimal SHA'')
      else if \<not> opt_all validImageRef (cd_ImageRef input)
        then Inl (ValidationError ''image_ref must be a non-empty image reference without whitespace or control characters'')
      else if \<not> opt_all (full_match imageDigestPattern) (cd_ImageDigest input)
        then Inl (ValidationError ''image_digest must be a sha256 digest'')
      else if \<not> opt_all (\<lambda>v. \<not> ContainsAny v [CHR 0x0D, CHR 0x0A, CHR 0x09]) (cd_Actor input)
        then Inl (ValidationError ''actor cannot contain control characters'')
      else Inr input)"

text \<open>From \<^verbatim>\<open>applications.go\<close>.\<close>

definition validateHealthCheckURL :: "http_env \<Rightarrow> string \<Rightarrow> string option" where
  "validateHealthCheckURL h v0 =
     (if ContainsAny v0 [CHR 0x0D, CHR 0x0A, CHR 0x09] then Some ''health_check_url cannot contain control characters''
      else let v = ReplaceAll (ReplaceAll v0 ''{color}'' ''blue'') ''{port}'' ''3101'' in
      case Parse v of
        None \<Rightarrow> Some (h_url_error h v)
      | Some u \<Rightarrow>
          if url_Scheme u \<noteq> ''http'' \<and> url_Scheme u \<noteq> ''https'' then Some ''health_check_url must use http or https''
          else if url_Host u = [] then Some ''health_check_url must include a host''
          else if url_HasUser u then Some ''health_check_url cannot include credentials''
          else None)"

definition validateBlueGreenHealthCheck :: "http_env \<Rightarrow> pg_text \<Rightarrow> http_error option" where
  "validateBlueGreenHealthCheck h healthCheckURL =
     (case healthCheckURL of
        Some v \<Rightarrow>
          if Contains v ''{color}'' \<and> Contains v ''{port}''
          then map_option ValidationError (validateHealthCheckURL h v)
          else Some (ValidationError ''blue_green deployments require a health_check_url with {color} and {port}'')
      | None \<Rightarrow> Some (ValidationError ''blue_green deployments require a health_check_url with {color} and {port}''))"

definition validateDeploymentSource :: "application \<Rightarrow> pg_text \<Rightarrow> http_error option" where
  "validateDeploymentSource app ref =
     (if ref \<noteq> None \<and> TrimSpace (text_String ref) \<noteq> [] then None
      else if app_RepositoryUrl app \<noteq> None \<and> TrimSpace (text_String (app_RepositoryUrl app)) \<noteq> []
              \<and> TrimSpace (app_ComposePath app) \<noteq> [] then None
      else Some (ValidationError
        ''deployment requires an image_ref or a repository_url with compose_path so it can be built''))"

definition validateBlueGreenDeploymentTarget :: "http_env \<Rightarrow> application \<Rightarrow> http_error option" where
  "validateBlueGreenDeploymentTarget h app = validateBlueGreenHealthCheck h (app_HealthCheckUrl app)"

definition createDeploymentError :: "go_error \<Rightarrow> http_error" where
  "createDeploymentError err =
     (if err = ErrNoRows then NotFoundError ''application not found''
      else case err of
        PgError code constraint _ \<Rightarrow>
          if code = ''23505'' \<and> constraint = ''deployments_one_in_progress_per_application''
          then ValidationError deploymentInProgressMessage else Internal err
      | _ \<Rightarrow> Internal err)"

definition isDeploymentInProgressError :: "http_error \<Rightarrow> bool" where
  "isDeploymentInProgressError err \<longleftrightarrow> err = ValidationError deploymentInProgressMessage"

definition retryDeploymentInput :: "deployment \<Rightarrow> string \<Rightarrow> http_error + create_deployment_params" where
  "retryDeploymentInput source actor =
     (if dep_Status source \<noteq> ''failed'' \<and> dep_Status source \<noteq> ''cancelled''
        then Inl (ValidationError ''only failed or cancelled deployments can be retried'')
      else normalizeCreateDeployment
        \<lparr>cd_Trigger = ''retry'', cd_Strategy = ''blue_green'', cd_CommitSha = dep_CommitSha source,
         cd_ImageRef = dep_ImageRef source, cd_ImageDigest = dep_ImageDigest source,
         cd_Actor = blankStringAsText actor, cd_ApplicationID = dep_ApplicationID source\<rparr>)"

subsection \<open>Audit metadata\<close>

definition deploymentCancelMetadata :: "deployment \<Rightarrow> string \<Rightarrow> (string \<times> json) list" where
  "deploymentCancelMetadata d actor =
     [(''status'', JStr (dep_Status d))] @
     (if auditIdentityField actor [] \<noteq> [] then [(''actor'', JStr (auditIdentityField actor []))] else [])"

definition deploymentQueueMetadata :: "deployment \<Rightarrow> (string \<times> json) list" where
  "deploymentQueueMetadata d =
     [(''strategy'', JStr (dep_Strategy d)), (''trigger'', JStr (dep_Trigger d))] @
     (case dep_CommitSha d of Some c \<Rightarrow> [(''commit_sha'', JStr c)] | None \<Rightarrow> []) @
     (case dep_Actor d of Some a \<Rightarrow> [(''actor'', JStr a)] | None \<Rightarrow> [])"

definition deploymentQueueFailureMetadata :: "deployment \<Rightarrow> go_error \<Rightarrow> (string \<times> json) list" where
  "deploymentQueueFailureMetadata d cause =
     deploymentQueueMetadata d @ [(''status'', JStr ''failed''), (''error'', JStr (err_text cause))]"

definition deploymentRetryMetadata :: "http_env \<Rightarrow> deployment \<Rightarrow> deployment \<Rightarrow> (string \<times> json) list" where
  "deploymentRetryMetadata h source d =
     deploymentQueueMetadata d @
     [(''source_deployment_id'', JStr (id_text h (dep_ID source))), (''source_status'', JStr (dep_Status source))]"

definition deploymentRetryFailureMetadata :: "http_env \<Rightarrow> deployment \<Rightarrow> deployment \<Rightarrow> go_error \<Rightarrow> (string \<times> json) list" where
  "deploymentRetryFailureMetadata h source d cause =
     deploymentRetryMetadata h source d @ [(''status'', JStr ''failed''), (''error'', JStr (err_text cause))]"

subsection \<open>Enqueueing\<close>

definition markDeploymentEnqueueFailed :: "http_env \<Rightarrow> deployment \<Rightarrow> go_error \<Rightarrow> go_error sys_run" where
  "markDeploymentEnqueueFailed h d cause = do {
     r \<leftarrow> serve h (UpdateDeploymentStatus (dep_ID d) ''failed'');
     State_Monad.return (case r of
         Inl updateErr \<Rightarrow> Errorf (''enqueue deployment: '' @ err_text cause @ ''; mark failed: '' @ err_text updateErr)
       | Inr _ \<Rightarrow> wrap ''enqueue deployment'' cause)
   }"

definition enqueueDeployment :: "http_env \<Rightarrow> deployment \<Rightarrow> go_error option sys_run" where
  "enqueueDeployment h d = do {
     e \<leftarrow> Enqueue (h_queue h) d;
     (case e of
        None \<Rightarrow> State_Monad.return None
      | Some err \<Rightarrow> do { err' \<leftarrow> markDeploymentEnqueueFailed h d err; State_Monad.return (Some err') })
   }"

definition create_deployment_row :: "http_env \<Rightarrow> create_deployment_params \<Rightarrow> (go_error + deployment) sys_run" where
  "create_deployment_row h input = do {
     n \<leftarrow> on_world next_step;
     serve h (create_deployment (uuid_text (h_runner h)) (fresh_ids (h_runner h) n) input)
   }"

subsection \<open>Handlers\<close>

definition validateDeploymentTarget :: "http_env \<Rightarrow> pg_uuid \<Rightarrow> string \<Rightarrow> pg_text \<Rightarrow> http_error option sys_run" where
  "validateDeploymentTarget h appID strategy ref =
     (if strategy \<noteq> ''blue_green''
        then State_Monad.return (Some (ValidationError ''deployment strategy must be blue_green''))
      else do {
        r \<leftarrow> serve h (GetApplication appID);
        State_Monad.return (case r of
            Inl err \<Rightarrow> Some (createDeploymentError err)
          | Inr app \<Rightarrow>
              (case validateDeploymentSource app ref of
                 Some err \<Rightarrow> Some err
               | None \<Rightarrow> validateBlueGreenDeploymentTarget h app))
      })"

text \<open>
  The end that the handlers share: check the target, create the row, enqueue it, and report both ways.
  What is reported is given by the arguments.
\<close>

definition create_and_enqueue ::
  "http_env \<Rightarrow> http_request \<Rightarrow> create_deployment_params \<Rightarrow>
   (deployment \<Rightarrow> go_error \<Rightarrow> unit sys_run) \<Rightarrow> (deployment \<Rightarrow> unit sys_run) \<Rightarrow> deployment handler" where
  "create_and_enqueue h r input failed queued = do {
     invalid \<leftarrow> validateDeploymentTarget h (cd_ApplicationID input) (cd_Strategy input) (cd_ImageRef input);
     (case invalid of
        Some err \<Rightarrow> State_Monad.return (writeError err)
      | None \<Rightarrow> do {
          c \<leftarrow> create_deployment_row h input;
          or_error (map_error createDeploymentError c) (\<lambda>d. do {
            e \<leftarrow> enqueueDeployment h d;
            (case e of
               Some err \<Rightarrow> do { failed d err; State_Monad.return (writeError (Internal err)) }
             | None \<Rightarrow> do { queued d; State_Monad.return (writeJSON 202 d) })
          })
        })
   }"

definition createDeployment :: "http_env \<Rightarrow> http_request \<Rightarrow> http_error + create_deployment_params \<Rightarrow> deployment handler" where
  "createDeployment h r decoded =
     or_error decoded (\<lambda>input0. or_error (normalizeCreateDeployment input0) (\<lambda>input.
       create_and_enqueue h r input
         (\<lambda>d err. http_audit h r ''deployment.queue_failed'' ''deployment'' (id_text h (dep_ID d))
            (id_text h (dep_ApplicationID d)) (deploymentQueueFailureMetadata d err))
         (\<lambda>d. http_audit h r ''deployment.queue'' ''deployment'' (id_text h (dep_ID d))
            (id_text h (dep_ApplicationID d)) (deploymentQueueMetadata d))))"

definition cancelDeployment :: "http_env \<Rightarrow> http_request \<Rightarrow> deployment handler" where
  "cancelDeployment h r =
     or_error (parseUUIDParam h r ''deploymentID'') (\<lambda>i. do {
       c \<leftarrow> serve h (CancelQueuedDeployment i);
       (case c of
          Inl err \<Rightarrow> State_Monad.return (writeError
            (if err = ErrNoRows then ValidationError ''only queued deployments can be cancelled'' else Internal err))
        | Inr d \<Rightarrow> do {
            http_audit h r ''deployment.cancel'' ''deployment'' (id_text h (dep_ID d))
              (id_text h (dep_ApplicationID d)) (deploymentCancelMetadata d (auditActor r));
            State_Monad.return (writeJSON 200 d)
          })
     })"

definition retryDeployment :: "http_env \<Rightarrow> http_request \<Rightarrow> deployment handler" where
  "retryDeployment h r =
     or_error (parseUUIDParam h r ''deploymentID'') (\<lambda>i. do {
       g \<leftarrow> serve h (GetDeployment i);
       or_error (map_error (applicationLookupError ''deployment not found'') g) (\<lambda>source.
         or_error (retryDeploymentInput source (auditActor r)) (\<lambda>input.
           create_and_enqueue h r input
             (\<lambda>d err. http_audit h r ''deployment.retry_queue_failed'' ''deployment'' (id_text h (dep_ID d))
                (id_text h (dep_ApplicationID d)) (deploymentRetryFailureMetadata h source d err))
             (\<lambda>d. http_audit h r ''deployment.retry'' ''deployment'' (id_text h (dep_ID d))
                (id_text h (dep_ApplicationID d)) (deploymentRetryMetadata h source d))))
     })"

definition rollback_input :: "application \<Rightarrow> deployment_slot \<Rightarrow> string \<Rightarrow> create_deployment_params" where
  "rollback_input app slot actor =
     \<lparr>cd_Trigger = ''rollback'', cd_Strategy = ''blue_green'', cd_CommitSha = None,
      cd_ImageRef = Some (slot_ImageRef slot), cd_ImageDigest = slot_ImageDigest slot,
      cd_Actor = blankStringAsText actor, cd_ApplicationID = app_ID app\<rparr>"

definition rollbackApplication :: "http_env \<Rightarrow> http_request \<Rightarrow> deployment handler" where
  "rollbackApplication h r =
     or_error (parseUUIDParam h r ''applicationID'') (\<lambda>i. do {
       g \<leftarrow> serve h (GetApplication i);
       or_error (map_error createDeploymentError g) (\<lambda>app. do {
         s \<leftarrow> serve h (GetStandbyDeploymentSlot (app_ID app) (app_ServerID app));
         (case s of
            Inl err \<Rightarrow> State_Monad.return (writeError
              (if err = ErrNoRows then ValidationError ''no standby blue-green slot is available for rollback''
               else Internal err))
          | Inr slot \<Rightarrow>
              or_error (normalizeCreateDeployment (rollback_input app slot (auditActor r))) (\<lambda>input.
                create_and_enqueue h r input
                  (\<lambda>d err. http_audit h r ''deployment.rollback_queue_failed'' ''deployment'' (id_text h (dep_ID d))
                     (id_text h (dep_ApplicationID d)) (deploymentQueueFailureMetadata d err))
                  (\<lambda>d. http_audit h r ''deployment.rollback'' ''deployment'' (id_text h (dep_ID d)) (app_Name app)
                     [(''application_id'', JStr (id_text h (app_ID app))), (''target_color'', JStr (slot_Color slot)),
                      (''image_ref'', JStr (slot_ImageRef slot))])))
       })
     })"

end
