(* ===== verification/Http_Deployments_Proofs.thy ===== *)
theory Http_Deployments_Proofs
  imports Http_Deployments
begin

text \<open>
  The handlers of deployments: what they do to the tables is an execution of the lifecycle, a reply
  says whether a deployment has been queued, and what passes validation is accepted by the table.
\<close>

subsection \<open>Executions\<close>

context http_statements
begin

lemma enqueueDeployment_keeps: "sys_keeps I (enqueueDeployment h d)"
  unfolding enqueueDeployment_def markDeploymentEnqueueFailed_def
  by (intro handler_rules serve_finish) (simp add: terminal_def)

lemma create_deployment_row_keeps: "sys_keeps I (create_deployment_row h input)"
  unfolding create_deployment_row_def by (intro handler_rules)

lemma validateDeploymentTarget_keeps: "sys_keeps I (validateDeploymentTarget h i strategy ref)"
  unfolding validateDeploymentTarget_def by (intro handler_rules)

lemma create_and_enqueue_keeps:
  assumes "\<And>d err. sys_keeps I (failed d err)" "\<And>d. sys_keeps I (queued d)"
  shows "sys_keeps I (create_and_enqueue h r input failed queued)"
  unfolding create_and_enqueue_def
  by (intro handler_rules validateDeploymentTarget_keeps create_deployment_row_keeps enqueueDeployment_keeps assms)

lemma deployment_handlers_keep:
  "sys_keeps I (createDeployment h r decoded)"
  "sys_keeps I (cancelDeployment h r)"
  "sys_keeps I (retryDeployment h r)"
  "sys_keeps I (rollbackApplication h r)"
  unfolding createDeployment_def cancelDeployment_def retryDeployment_def rollbackApplication_def
  by (intro handler_rules create_and_enqueue_keeps)+

end

interpretation http_ok: http_statements store_ok
  by unfold_locales (auto intro: store_ok_clock stmt_keeps_rules UpsertDeploymentSlot_ok)

subsection \<open>Replies and the queue\<close>

text \<open>Programs that leave the deployments and the queue alone.\<close>

definition quiet :: "'a sys_run \<Rightarrow> bool" where
  "quiet m \<longleftrightarrow> (\<forall>s. deployments (sys_store (snd (run_state m s))) = deployments (sys_store s)
     \<and> sys_queue (snd (run_state m s)) = sys_queue s)"

named_theorems quiet_rules

lemma quietD:
  assumes "quiet m" "run_state m s = (x, s')"
  shows "deployments (sys_store s') = deployments (sys_store s)" "sys_queue s' = sys_queue s"
  using assms unfolding quiet_def by (metis snd_conv)+

lemma quiet_basic [quiet_rules]:
  "quiet (State_Monad.return x)" "quiet (on_world next_step)"
  by (simp_all add: quiet_def run_on_world next_step_def)

lemma quiet_bind [quiet_rules]: "quiet m \<Longrightarrow> (\<And>x. quiet (f x)) \<Longrightarrow> quiet (State_Monad.bind m f)"
  by (simp add: quiet_def run_bind)

lemma quiet_if [quiet_rules]: "quiet m \<Longrightarrow> quiet n \<Longrightarrow> quiet (if b then m else n)"
  by simp

lemma quiet_serve [quiet_rules]:
  assumes "\<And>db x db'. q db = Inr (x, db') \<Longrightarrow> deployments db' = deployments db"
  shows "quiet (serve h q)"
proof -
  have "keeps (\<lambda>db. deployments db = D) (db_exec (h_runner h) q)" for D
    by (rule db_exec_keeps) (auto intro!: stmt_keepsI dest: assms)
  then show ?thesis unfolding quiet_def serve_def run_on_world keeps_def by simp
qed

lemma quiet_http_audit [quiet_rules]: "quiet (http_audit h r action targetType targetID targetName metadata)"
  unfolding http_audit_def by (intro quiet_rules) (auto simp: AppendAuditEvent_def Let_def)

lemma quiet_validateDeploymentTarget [quiet_rules]: "quiet (validateDeploymentTarget h i strategy ref)"
  unfolding validateDeploymentTarget_def
  by (intro quiet_rules) (auto simp: GetApplication_def try_bind_eq_Inr_iff)

lemma run_serve:
  assumes "served (h_runner h)" "run_state (serve h q) s = (c, s')"
  shows "sys_queue s' = sys_queue s"
    "case q (ticked (h_runner h) (sys_world s)) of
       Inl err \<Rightarrow> c = Inl err \<and> sys_store s' = ticked (h_runner h) (sys_world s)
     | Inr (x, db') \<Rightarrow> c = Inr x \<and> sys_store s' = db'"
  using assms(2) by (auto simp: serve_def run_on_world db_exec_served [OF assms(1)] split: sum.splits prod.splits)

lemma ticked_deployments [simp]: "deployments (ticked env w) = deployments (w_store w)"
  by (simp add: ticked_def)

lemma ticked_ok: "store_ok (w_store w) \<Longrightarrow> store_ok (ticked env w)"
  unfolding ticked_def by (rule store_ok_clock)

lemma create_deployment_row_result:
  assumes "served (h_runner h)" "store_ok (sys_store s)" "run_state (create_deployment_row h input) s = (c, s')"
  shows "sys_queue s' = sys_queue s \<and> store_ok (sys_store s') \<and>
    (case c of Inl err \<Rightarrow> deployments (sys_store s') = deployments (sys_store s)
     | Inr d \<Rightarrow> deployments (sys_store s') = deployments (sys_store s) @ [d] \<and> dep_Status d = ''queued''
         \<and> (\<exists>i. dep_ID d = Some i) \<and> (\<forall>e\<in>set (deployments (sys_store s)). dep_ID e \<noteq> dep_ID d))"
proof -
  define s1 n where "s1 = snd (run_state (on_world next_step) s)" and "n = w_steps (sys_world s)"
  let ?q = "create_deployment (uuid_text (h_runner h)) (fresh_ids (h_runner h) n) input"
  have s1: "sys_store s1 = sys_store s" "sys_queue s1 = sys_queue s"
    by (simp_all add: s1_def run_on_world next_step_def)
  have run: "run_state (serve h ?q) s1 = (c, s')"
    using assms(3) by (simp add: create_deployment_row_def run_bind s1_def n_def) (simp add: run_on_world next_step_def)
  note res = run_serve [OF assms(1) run]
  have ok: "store_ok (ticked (h_runner h) (sys_world s1))" using assms(2) s1 by (simp add: ticked_ok)
  show ?thesis
  proof (cases "?q (ticked (h_runner h) (sys_world s1))")
    case (Inl err)
    then show ?thesis using res ok s1 by simp
  next
    case (Inr r)
    obtain d db' where r: "r = (d, db')" by (cases r)
    note c = Inr [unfolded r]
    have "store_ok db'" using stmt_keepsD [OF c ok create_deployment_keeps [OF CreateDeployment_ok]] .
    then show ?thesis using res s1 c CreateDeployment_Inr [OF c [unfolded create_deployment_def]] by simp
  qed
qed

lemma mark_failed_rows:
  assumes "served (h_runner h)" "store_ok (sys_store s)" "deployments (sys_store s) = ds @ [d]" "dep_ID d = Some i"
    and others: "\<forall>e\<in>set ds. dep_ID e \<noteq> dep_ID d"
    and run: "run_state (markDeploymentEnqueueFailed h d err) s = (e, s')"
  shows "sys_queue s' = sys_queue s \<and> (\<exists>f. deployments (sys_store s') = ds @ [f] \<and> dep_ID f = dep_ID d \<and> dep_Status f = ''failed'')"
proof -
  let ?db = "ticked (h_runner h) (sys_world s)"
  obtain c s1 where c: "run_state (serve h (UpdateDeploymentStatus (dep_ID d) ''failed'')) s = (c, s1)" by (metis surj_pair)
  have s': "s' = s1" using run c by (simp add: markDeploymentEnqueueFailed_def run_bind)
  have "deployment_is ?db i d" using assms(3,4) by (simp add: deployment_is_def)
  from finish_row [OF ticked_ok [OF assms(2)] this, of "''failed''"] obtain f db' where
    f: "UpdateDeploymentStatus (dep_ID d) ''failed'' ?db = Inr (f, db')" by (auto simp: terminal_def assms(4))
  have "deployments db' = update_rows (\<lambda>d. sql_eq (dep_ID d) (Some i)) (\<lambda>d. d\<lparr>dep_Status := ''failed'',
      dep_StartedAt := dep_StartedAt d, dep_FinishedAt := now ?db\<rparr>) (ds @ [d])"
    using update_deployment_Inr [OF f [unfolded UpdateDeploymentStatus_def]] assms(3,4) by (simp add: terminal_def)
  moreover have "update_rows (\<lambda>d. sql_eq (dep_ID d) (Some i)) g ds = ds" for g
    using others assms(4) by (auto simp: update_rows_def sql_eq_def intro: map_idI)
  ultimately have "deployments db' = ds @ [d\<lparr>dep_Status := ''failed'', dep_StartedAt := dep_StartedAt d, dep_FinishedAt := now ?db\<rparr>]"
    using assms(4) by (simp add: update_rows_def sql_eq_def)
  then show ?thesis using run_serve [OF assms(1) c] f s' by simp
qed

text \<open>What a reply says about the queue and the rows of the deployments.\<close>

definition queued_rows :: "system \<Rightarrow> deployment list" where
  "queued_rows s = filter (\<lambda>d. dep_Status d = ''queued'') (deployments (sys_store s))"

definition truthful :: "http_env \<Rightarrow> system \<Rightarrow> deployment reply \<Rightarrow> system \<Rightarrow> bool" where
  "truthful h s reply s' \<longleftrightarrow>
     (case snd reply of
        Inr d \<Rightarrow> fst reply = 202 \<and> queued_rows s' = queued_rows s @ [d]
                 \<and> sys_queue s' = sys_queue s @ [item_of (h_queue h) d]
      | Inl _ \<Rightarrow> 400 \<le> fst reply \<and> queued_rows s' = queued_rows s)"

lemma quiet_truthful:
  assumes "quiet m" "run_state m s1 = (x, s2)" "truthful h s reply s1"
  shows "truthful h s reply s2"
  using assms(3) quietD [OF assms(1,2)] by (auto simp: truthful_def queued_rows_def split: sum.splits)

lemma error_truthful: "queued_rows s' = queued_rows s \<Longrightarrow> truthful h s (writeError err) s'"
  by (cases err) (auto simp: truthful_def)

lemma enqueue_truthful:
  assumes served: "served (h_runner h)" and ok: "store_ok (sys_store s1)"
    and rows: "deployments (sys_store s1) = deployments (sys_store s) @ [d]" "sys_queue s1 = sys_queue s"
      "dep_Status d = ''queued''" "dep_ID d = Some i" "\<forall>e\<in>set (deployments (sys_store s)). dep_ID e \<noteq> dep_ID d"
    and run: "run_state (enqueueDeployment h d) s1 = (e, s2)"
  shows "truthful h s (case e of Some err \<Rightarrow> writeError (Internal err) | None \<Rightarrow> writeJSON 202 d) s2"
proof -
  obtain r s3 where r: "run_state (Enqueue (h_queue h) d) s1 = (r, s3)" by (metis surj_pair)
  have "sys_keeps (\<lambda>db. db = sys_store s1) (Enqueue (h_queue h) d)"
    unfolding Enqueue_def by (intro sys_keeps_rules)
  then have same: "sys_store s3 = sys_store s1" using r unfolding sys_keeps_def by (metis snd_conv)
  show ?thesis
  proof (cases r)
    case None
    then have "e = None" "s2 = s3" using run r by (simp_all add: enqueueDeployment_def run_bind)
    then show ?thesis using Enqueue_queue [OF r] None same rows by (simp add: truthful_def writeJSON_def queued_rows_def)
  next
    case (Some err)
    obtain err' s4 where m: "run_state (markDeploymentEnqueueFailed h d err) s3 = (err', s4)" by (metis surj_pair)
    then have e: "e = Some err'" "s2 = s4" using Some run r by (simp_all add: enqueueDeployment_def run_bind)
    from mark_failed_rows [OF served _ _ rows(4) rows(5) m] ok same rows(1)
    have "queued_rows s4 = queued_rows s" by (auto simp: queued_rows_def)
    then show ?thesis using e by (simp add: error_truthful del: writeError.simps)
  qed
qed

lemma create_and_enqueue_truthful:
  assumes served: "served (h_runner h)" and ok: "store_ok (sys_store s)"
    and reports: "\<And>d err. quiet (failed d err)" "\<And>d. quiet (queued d)"
    and run: "run_state (create_and_enqueue h r input failed queued) s = (reply, s')"
  shows "truthful h s reply s'"
proof -
  obtain invalid s1 where v: "run_state (validateDeploymentTarget h (cd_ApplicationID input) (cd_Strategy input) (cd_ImageRef input)) s = (invalid, s1)"
    by (metis surj_pair)
  note q1 = quietD [OF quiet_validateDeploymentTarget v]
  have ok1: "store_ok (sys_store s1)"
    using sys_keepsD [OF http_ok.validateDeploymentTarget_keeps, of s] ok v by (metis snd_conv)
  show ?thesis
  proof (cases invalid)
    case (Some err)
    then show ?thesis using run v q1 by (auto simp: create_and_enqueue_def run_bind queued_rows_def intro!: error_truthful)
  next
    case None
    obtain c s2 where c: "run_state (create_deployment_row h input) s1 = (c, s2)" by (metis surj_pair)
    note row = create_deployment_row_result [OF served ok1 c]
    show ?thesis
    proof (cases c)
      case (Inl err)
      then show ?thesis using run v None c row q1
        by (auto simp: create_and_enqueue_def run_bind or_error_def map_error_def queued_rows_def intro!: error_truthful)
    next
      case (Inr d)
      obtain e s3 where e: "run_state (enqueueDeployment h d) s2 = (e, s3)" by (metis surj_pair)
      let ?report = "case e of Some err \<Rightarrow> failed d err | None \<Rightarrow> queued d"
      have s': "reply = (case e of Some err \<Rightarrow> writeError (Internal err) | None \<Rightarrow> writeJSON 202 d)"
          "s' = snd (run_state ?report s3)"
        using run v None c Inr e
        by (auto simp: create_and_enqueue_def run_bind or_error_def map_error_def split: option.splits)
      obtain i where i: "dep_ID d = Some i" using row Inr by auto
      have "truthful h s reply s3"
        unfolding s' using row Inr q1 by (intro enqueue_truthful [OF served _ _ _ _ i _ e]) auto
      moreover have "quiet ?report" using reports by (auto split: option.splits)
      ultimately show ?thesis unfolding s'(2) by (metis prod.collapse quiet_truthful)
    qed
  qed
qed

lemma truthful_from:
  "truthful h s1 reply s' \<Longrightarrow> queued_rows s1 = queued_rows s \<Longrightarrow> sys_queue s1 = sys_queue s \<Longrightarrow> truthful h s reply s'"
  by (auto simp: truthful_def split: sum.splits)

text \<open>Handlers whose replies are truthful, by their structure.\<close>

definition answers :: "http_env \<Rightarrow> deployment handler \<Rightarrow> bool" where
  "answers h m \<longleftrightarrow> (\<forall>s reply s'. store_ok (sys_store s) \<longrightarrow> run_state m s = (reply, s') \<longrightarrow> truthful h s reply s')"

named_theorems answers_rules

lemma answers_error [answers_rules]: "answers h (State_Monad.return (writeError err))"
  by (auto simp: answers_def intro!: error_truthful simp del: writeError.simps)

lemma answers_or_error [answers_rules]: "(\<And>x. answers h (f x)) \<Longrightarrow> answers h (or_error r f)"
  unfolding or_error_def by (cases r) (auto intro: answers_rules)

lemma answers_sum [answers_rules]:
  "(\<And>x. answers h (f x)) \<Longrightarrow> (\<And>y. answers h (g y)) \<Longrightarrow> answers h (case r of Inl x \<Rightarrow> f x | Inr y \<Rightarrow> g y)"
  by (cases r) auto

lemma answers_read [answers_rules]:
  assumes "stmt_keeps store_ok q" "quiet (serve h' q)" "\<And>x. answers h (f x)"
  shows "answers h (State_Monad.bind (serve h' q) f)"
  unfolding answers_def
proof (intro allI impI)
  fix s reply s' assume ok: "store_ok (sys_store s)" and run: "run_state (State_Monad.bind (serve h' q) f) s = (reply, s')"
  obtain x s1 where x: "run_state (serve h' q) s = (x, s1)" by (metis surj_pair)
  have "store_ok (sys_store s1)" using sys_keepsD [OF http_ok.serve_keeps [OF assms(1)], of s] ok x by (metis snd_conv)
  moreover have "run_state (f x) s1 = (reply, s')" using run x by (simp add: run_bind)
  ultimately have "truthful h s1 reply s'" using assms(3) unfolding answers_def by blast
  then show "truthful h s reply s'" using quietD [OF assms(2) x] by (auto intro: truthful_from simp: queued_rows_def)
qed

lemma answers_create [answers_rules]:
  "served (h_runner h) \<Longrightarrow> (\<And>d err. quiet (failed d err)) \<Longrightarrow> (\<And>d. quiet (queued d)) \<Longrightarrow>
   answers h (create_and_enqueue h r input failed queued)"
  unfolding answers_def using create_and_enqueue_truthful by blast

lemma quiet_read_only [quiet_rules]:
  "quiet (serve h (GetApplication i))" "quiet (serve h (GetDeployment i))"
  "quiet (serve h (GetStandbyDeploymentSlot app srv))"
  by (rule quiet_serve; auto simp: GetApplication_def GetDeployment_def GetStandbyDeploymentSlot_def latest_slot_def)+

lemma requests_answer:
  assumes "served (h_runner h)"
  shows "answers h (createDeployment h r decoded)" "answers h (retryDeployment h r)" "answers h (rollbackApplication h r)"
  unfolding createDeployment_def retryDeployment_def rollbackApplication_def
  by (intro answers_rules quiet_rules read_only_keeps assms)+


definition sample_http :: http_env where
  "sample_http = \<lparr>h_queue = sample_queue, h_url_error = (\<lambda>_. ''invalid URL'')\<rparr>"

definition sample_request :: http_request where
  "sample_request = \<lparr>req_Method = ''POST'', req_Host = ''deploy.example'', req_RemoteAddr = ''10.0.0.7:5012'',
     req_header = (\<lambda>_. []), req_cookie = (\<lambda>_. None), req_param = (\<lambda>_. ''a1''), req_query = (\<lambda>_. []), req_body = []\<rparr>"

definition sample_params :: create_deployment_params where
  "sample_params = \<lparr>cd_Trigger = [], cd_Strategy = [], cd_CommitSha = None, cd_ImageRef = Some ''registry/shop:2'',
     cd_ImageDigest = None, cd_Actor = None, cd_ApplicationID = Some ''a1''\<rparr>"

definition idle_system :: system where
  "idle_system = \<lparr>sys_world = sample_world\<lparr>w_store := sample_db\<lparr>deployments := []\<rparr>\<rparr>, sys_queue = [], sys_pushes = 0\<rparr>"


lemma sample_request_checks:
  "normalizeCreateDeployment sample_params = Inr (sample_params\<lparr>cd_Trigger := ''manual'', cd_Strategy := ''blue_green''\<rparr>)"
  "validateDeploymentSource sample_application (cd_ImageRef sample_params) = None"
  "validateBlueGreenDeploymentTarget sample_http sample_application = None"
  "deployment_params_check (sample_params\<lparr>cd_Trigger := ''manual'', cd_Strategy := ''blue_green''\<rparr>) = None"
  by code_simp+

lemmas sample_run_simps = run_bind serve_def run_on_world next_step_def db_exec_served served_def ticked_def
  sample_http_def sample_queue_def sample_env_def sample_world_def sql_eq_def one_row_def create_deployment_def

lemma sample_request_accepted:
  "\<exists>d n. fst (run_state (createDeployment sample_http sample_request (Inr sample_params)) idle_system) = (202, Inr d)
     \<and> dep_ID d = Some (FormatNat n)"
proof -
  let ?input = "sample_params\<lparr>cd_Trigger := ''manual'', cd_Strategy := ''blue_green''\<rparr>"
  obtain v s1 where v: "run_state (validateDeploymentTarget sample_http (cd_ApplicationID ?input) (cd_Strategy ?input)
      (cd_ImageRef ?input)) idle_system = (v, s1)" by (metis surj_pair)
  have v_None: "v = None" and s1: "sys_store s1 = (sample_db\<lparr>deployments := []\<rparr>)\<lparr>clock := 6\<rparr>"
    using v sample_request_checks(2,3)
    by (auto simp: validateDeploymentTarget_def sample_run_simps GetApplication_def idle_system_def sample_db_def
        sample_application_def sample_params_def)
  obtain c s2 where c: "run_state (create_deployment_row sample_http ?input) s1 = (c, s2)" by (metis surj_pair)
  obtain d where d: "c = Inr d" "dep_ID d = Some (FormatNat (w_steps (sys_world s1)))"
    using c s1 sample_request_checks(4)
    by (auto simp: create_deployment_row_def sample_run_simps CreateDeployment_def sample_db_def sample_application_def
        sample_environment_def sample_project_def sample_params_def Let_def)
  have e: "fst (run_state (enqueueDeployment sample_http d) s2) = None"
    using d(2) FormatNat_nonempty
    by (simp add: enqueueDeployment_def Enqueue_def encodeDeployment_def uuidString_def UUIDString_def RPush_def
        sample_run_simps Let_def)
  then have "fst (run_state (createDeployment sample_http sample_request (Inr sample_params)) idle_system) = (202, Inr d)"
    using v v_None c d(1) sample_request_checks(1)
    by (simp add: createDeployment_def or_error_def map_error_def create_and_enqueue_def run_bind writeJSON_def)
  then show ?thesis using d(2) by blast
qed


subsection \<open>Validation\<close>

lemma full_match_image_ref:
  "full_match imageRefPattern v \<longleftrightarrow>
     (\<exists>r rs. runes v = r # rs \<and> length rs \<le> 511 \<and> r_alnum r \<and> (\<forall>x\<in>set rs. r_alnum x \<or> one_of ''._:/@-'' x))"
  by (cases "chunks v") (auto simp: imageRefPattern_def full_match_leaves leaves_set_seq leaves_upto)

text \<open>Text whose characters are visible ASCII is storable, and has no spaces and no control characters.\<close>

lemma visible_text:
  assumes "\<And>r. r \<in> set (runes v) \<Longrightarrow> 33 \<le> r \<and> r \<le> 126"
  shows "pg_text_ok v" "r \<in> set (runes v) \<Longrightarrow> \<not> IsSpace r \<and> \<not> IsControl r" "v \<noteq> [] \<Longrightarrow> Trim v '' '' \<noteq> []"
proof -
  have a: "ascii v" by (rule runes_below_128) (use assms in force)
  have bytes: "33 \<le> byte c" if "c \<in> set v" for c using assms [of "byte c"] that by (simp add: runes_ascii [OF a])
  show "pg_text_ok v" using ValidString_ascii [OF a] bytes by (force simp: pg_text_ok_def)
  show "\<not> IsSpace r \<and> \<not> IsControl r" if "r \<in> set (runes v)"
    using assms [OF that] by (auto simp: IsSpace_ascii IsControl_def)
  show "Trim v '' '' \<noteq> []" if "v \<noteq> []"
    using that bytes by (cases v) (force simp: Trim_def trim_list_eq_Nil_iff)+
qed

lemma image_ref_safe:
  assumes "validImageRef v" "TrimSpace v = v"
  shows "pg_text_ok v" "Trim v '' '' \<noteq> []" "length (runes v) \<le> 512" "\<forall>r\<in>set (runes v). \<not> IsSpace r \<and> \<not> IsControl r"
proof -
  have m: "full_match imageRefPattern v" using assms by (simp add: validImageRef_def Let_def)
  then have "r_alnum r \<or> one_of ''._:/@-'' r" if "r \<in> set (runes v)" for r
    using that unfolding full_match_image_ref by (metis set_ConsD)
  then have vis: "33 \<le> r \<and> r \<le> 126" if "r \<in> set (runes v)" for r
    using that by (fastforce simp: class_defs)
  have ne: "v \<noteq> []" using m by (auto simp: full_match_image_ref)
  note visible = visible_text [OF vis]
  show "pg_text_ok v" "Trim v '' '' \<noteq> []" "\<forall>r\<in>set (runes v). \<not> IsSpace r \<and> \<not> IsControl r"
    using visible ne by blast+
  show "length (runes v) \<le> 512" using m by (auto simp: full_match_image_ref)
qed

lemma leaves_lit: "leaves (m_seq (m_lit cs) f) (b, ks) rest \<Longrightarrow>
    \<exists>b' ks'. map fst ks = map byte cs @ map fst ks' \<and> leaves f (b', ks') rest"
proof (induction cs arbitrary: b ks)
  case Nil
  then show ?case by (auto simp: leaves_def m_seq_def)
next
  case (Cons c cs)
  then show ?case by (cases ks) (fastforce simp: leaves_def m_seq_def m_set_simps split: if_splits)+
qed

lemma digest_text:
  assumes "full_match imageDigestPattern v"
  shows "pg_text_ok v"
proof (rule visible_text(1))
  fix r assume r: "r \<in> set (runes v)"
  from assms leaves_lit obtain b' ks' where ks': "runes v = map byte ''sha256:'' @ map fst ks'"
    "leaves (m_times 64 (m_set (\<lambda>r. r_digit r \<or> 97 \<le> r \<and> r \<le> 102))) (b', ks') []"
    unfolding imageDigestPattern_def full_match_leaves by blast
  then have "\<forall>k\<in>set ks'. r_digit (fst k) \<or> 97 \<le> fst k \<and> fst k \<le> 102" by (auto simp: leaves_times)
  then show "33 \<le> r \<and> r \<le> 126" using r ks'(1) by (auto simp: class_defs)
qed

lemma commit_text:
  assumes "ValidCommitSHA v" "TrimSpace v = v"
  shows "pg_text_ok v" "full_match (m_between 7 40 (m_set r_hex)) v"
proof -
  show m: "full_match (m_between 7 40 (m_set r_hex)) v"
    using assms by (simp add: ValidCommitSHA_def gitCommitSHAPattern_def)
  have "33 \<le> r \<and> r \<le> 126" if "r \<in> set (runes v)" for r
    using m that unfolding full_match_between [of 7 40, simplified] by (fastforce simp: class_defs)
  then show "pg_text_ok v" by (rule visible_text(1))
qed

lemma trimmed_text: "opt_all (\<lambda>v. TrimSpace v = v) (blankTextAsNull (trim_text x))"
  by (cases x) (simp_all add: opt_all_def blankTextAsNull_def trim_text_def TrimSpace_idem)

text \<open>Whatever passes validation is accepted by the table, if the image reference has no white space
  around it and the actor is storable text without control characters.\<close>

theorem normalized_params_accepted:
  assumes "normalizeCreateDeployment input = Inr params"
    and "opt_all (\<lambda>v. TrimSpace v = v) (cd_ImageRef params)"
    and "opt_all (\<lambda>v. pg_text_ok v \<and> \<not> HasControlCharacter v) (cd_Actor params)"
  shows "deployment_params_check params = None"
proof -
  note n = assms(1) [unfolded normalizeCreateDeployment_def Let_def]
  have trimmed: "opt_all (\<lambda>v. TrimSpace v = v) (cd_CommitSha params)"
    using n by (auto simp: trimmed_text split: if_splits)
  have valid: "cd_Trigger params \<in> {''manual'', ''github_push'', ''connector_sync'', ''retry'', ''rollback''}"
    "cd_Strategy params = ''blue_green''" "opt_all ValidCommitSHA (cd_CommitSha params)"
    "opt_all validImageRef (cd_ImageRef params)" "opt_all (full_match imageDigestPattern) (cd_ImageDigest params)"
    using n by (auto simp: validDeploymentTrigger_def validDeploymentStrategy_def split: if_splits)
  have commit: "opt_all pg_text_ok (cd_CommitSha params)" "opt_all (full_match (m_between 7 40 (m_set r_hex))) (cd_CommitSha params)"
    using trimmed valid(3) commit_text by (auto simp: opt_all_def split: option.splits)
  have image: "opt_all pg_text_ok (cd_ImageRef params)" "opt_all (\<lambda>v. Trim v '' '' \<noteq> [] \<and> length (runes v) \<le> 512
      \<and> (\<forall>r\<in>set (runes v). \<not> IsSpace r \<and> \<not> IsControl r)) (cd_ImageRef params)"
    using valid(4) assms(2) image_ref_safe unfolding opt_all_def by (fastforce split: option.splits)+
  have digest: "opt_all pg_text_ok (cd_ImageDigest params)" "opt_all (full_match sha256_pattern) (cd_ImageDigest params)"
    using valid(5) digest_text by (auto simp: opt_all_def imageDigestPattern_def sha256_pattern_def split: option.splits)
  have actor: "opt_all pg_text_ok (cd_Actor params)" "opt_all (\<lambda>v. \<not> HasControlCharacter v) (cd_Actor params)"
    using assms(3) by (auto simp: opt_all_def split: option.splits)
  show ?thesis unfolding deployment_params_check_def using valid(1,2) commit image digest actor by simp
qed

theorem normalized_params_accepted_witness:
  "normalizeCreateDeployment sample_params = Inr (sample_params\<lparr>cd_Trigger := ''manual'', cd_Strategy := ''blue_green''\<rparr>)
   \<and> deployment_params_check (sample_params\<lparr>cd_Trigger := ''manual'', cd_Strategy := ''blue_green''\<rparr>) = None"
proof -
  have "TrimSpace ''registry/shop:2'' = ''registry/shop:2''" by code_simp
  then show ?thesis
    using normalized_params_accepted [OF sample_request_checks(1)] sample_request_checks(1)
    by (simp add: opt_all_def sample_params_def)
qed


text \<open>The two checks differ: an image reference with a space at its end passes validation, although the
  message of the validation excludes white space, and is refused by the table, so that the client is told
  of an internal error instead of its mistake.\<close>

theorem image_ref_whitespace_gap:
  "let input = sample_params\<lparr>cd_ImageRef := Some ''registry/shop:2 ''\<rparr> in
   \<exists>params err. normalizeCreateDeployment input = Inr params \<and> deployment_params_check params = Some err
     \<and> writeError (createDeploymentError err) = ((500, Inl ''internal server error'') :: deployment reply)"
proof -
  let ?input = "sample_params\<lparr>cd_ImageRef := Some ''registry/shop:2 ''\<rparr>"
  let ?params = "?input\<lparr>cd_Trigger := ''manual'', cd_Strategy := ''blue_green''\<rparr>"
  have "normalizeCreateDeployment ?input = Inr ?params" by code_simp
  moreover have "deployment_params_check ?params = Some (check_error ''deployments_image_ref_safe'')" by code_simp
  ultimately show ?thesis by (auto simp: createDeploymentError_def check_error_def)
qed

subsection \<open>A push whose answer is lost\<close>

definition sample_accepted :: create_deployment_params where
  "sample_accepted = sample_params\<lparr>cd_Trigger := ''manual'', cd_Strategy := ''blue_green''\<rparr>"

definition create_stmt :: "string \<Rightarrow> store \<Rightarrow> store" where
  "create_stmt i db = (case CreateDeployment i ''{}'' sample_accepted db of Inl _ \<Rightarrow> db | Inr (_, db') \<Rightarrow> db')"

definition start_stmt :: "string \<Rightarrow> store \<Rightarrow> store" where
  "start_stmt i db = (case StartQueuedDeployment (Some i) db of Inl _ \<Rightarrow> db | Inr (_, db') \<Rightarrow> db')"

text \<open>Marking a deployment as failed after a push that was carried out although its answer was lost takes
  the deployment away from the worker that runs it: once a worker has started it, the handler that
  reports the failure of the push makes room for a second deployment of the same application, which
  another worker starts while the first one is still executing its commands.\<close>

theorem lost_push_allows_overlap:
  "let s1 = idle_system\<lparr>sys_world := sample_world\<lparr>w_store := start_stmt ''n1'' (create_stmt ''n1'' (sys_store idle_system))\<rparr>\<rparr> in
   \<exists>d1. deployment_is (sys_store s1) ''n1'' d1 \<and> dep_Status d1 = ''running''
     \<and> (let s2 = snd (run_state (markDeploymentEnqueueFailed sample_http d1 (Errorf ''i/o timeout'')) s1) in
        \<exists>d2. deployment_is (start_stmt ''n2'' (create_stmt ''n2'' (sys_store s2))) ''n2'' d2 \<and> dep_Status d2 = ''running''
          \<and> dep_ApplicationID d2 = dep_ApplicationID d1)"
proof -
  let ?s1 = "idle_system\<lparr>sys_world := sample_world\<lparr>w_store := start_stmt ''n1'' (create_stmt ''n1'' (sys_store idle_system))\<rparr>\<rparr>"
  let ?d1 = "hd (deployments (sys_store ?s1))"
  let ?db = "start_stmt ''n2'' (create_stmt ''n2'' (sys_store (snd (run_state
      (markDeploymentEnqueueFailed sample_http ?d1 (Errorf ''i/o timeout'')) ?s1))))"
  have "deployment_is (sys_store ?s1) ''n1'' ?d1" "dep_Status ?d1 = ''running''" by code_simp+
  moreover have "deployment_is ?db ''n2'' (last (deployments ?db))" "dep_Status (last (deployments ?db)) = ''running''"
    "dep_ApplicationID (last (deployments ?db)) = dep_ApplicationID ?d1" by code_simp+
  ultimately show ?thesis unfolding Let_def by blast
qed

end
