(* ===== verification/Log_Bus.thy ===== *)
theory Log_Bus
  imports Runner Go_Json_Proofs "HOL-Library.Sublist"
begin

text \<open>
  The file \<^verbatim>\<open>internal/deployments/logbus.go\<close>: log events on their way to the clients that watch a
  deployment. Without Redis the bus is a table of buffered channels; its operations run under the
  mutex, so each is one step of a state machine, interleaved with the receivers in any order. With
  Redis the payload travels as JSON through a channel of the server.
\<close>

subsection \<open>Channels\<close>

text \<open>
  A channel keeps its buffer, and for the proofs what its receiver took, what was sent for its
  deployment since it was made, and how often the buffer was full.
\<close>

record log_channel =
  ch_deployment :: string
  ch_buffer :: "log_event list"
  ch_closed :: bool
  ch_received :: "log_event list"
  ch_offered :: "log_event list"
  ch_dropped :: nat

record log_bus =
  bus_subscribers :: "(string \<times> nat list) list"
  bus_channels :: "log_channel list"

definition channelCapacity :: nat where
  "channelCapacity = 32"

definition NewLogBus :: log_bus where
  "NewLogBus = \<lparr>bus_subscribers = [], bus_channels = []\<rparr>"

definition subscribers_of :: "log_bus \<Rightarrow> string \<Rightarrow> nat list" where
  "subscribers_of bus deploymentID = (case map_of (bus_subscribers bus) deploymentID of None \<Rightarrow> [] | Some chs \<Rightarrow> chs)"

text \<open>A send that does not block: the event is dropped when the buffer is full. On a closed channel it panics.\<close>

definition try_send :: "log_event \<Rightarrow> log_channel \<Rightarrow> log_channel option" where
  "try_send ev ch =
     (if ch_closed ch then None
      else Some (if length (ch_buffer ch) < channelCapacity
                 then ch\<lparr>ch_buffer := ch_buffer ch @ [ev], ch_offered := ch_offered ch @ [ev]\<rparr>
                 else ch\<lparr>ch_offered := ch_offered ch @ [ev], ch_dropped := Suc (ch_dropped ch)\<rparr>))"

fun send_all :: "log_event \<Rightarrow> nat list \<Rightarrow> log_channel list \<Rightarrow> log_channel list option" where
  "send_all ev [] chans = Some chans"
| "send_all ev (i # is) chans =
     (case try_send ev (chans ! i) of None \<Rightarrow> None | Some ch \<Rightarrow> send_all ev is (chans[i := ch]))"

text \<open>\<open>None\<close> is a panic.\<close>

definition Publish :: "log_event \<Rightarrow> log_bus \<Rightarrow> log_bus option" where
  "Publish ev bus =
     map_option (\<lambda>chans. bus\<lparr>bus_channels := chans\<rparr>)
       (send_all ev (subscribers_of bus (ev_DeploymentID ev)) (bus_channels bus))"

definition subscribeLocal :: "string \<Rightarrow> log_bus \<Rightarrow> nat \<times> log_bus" where
  "subscribeLocal deploymentID bus =
     (let i = length (bus_channels bus);
          ch = \<lparr>ch_deployment = deploymentID, ch_buffer = [], ch_closed = False, ch_received = [], ch_offered = [],
                ch_dropped = 0\<rparr>
      in (i, bus\<lparr>bus_subscribers := AList.update deploymentID (subscribers_of bus deploymentID @ [i]) (bus_subscribers bus),
                bus_channels := bus_channels bus @ [ch]\<rparr>))"

text \<open>The goroutine of a subscription, when its context is done.\<close>

definition unsubscribe :: "nat \<Rightarrow> log_bus \<Rightarrow> log_bus" where
  "unsubscribe i bus =
     (let ch = bus_channels bus ! i;
          rest = filter (\<lambda>j. j \<noteq> i) (subscribers_of bus (ch_deployment ch))
      in bus\<lparr>bus_subscribers := (if rest = [] then AList.delete (ch_deployment ch) (bus_subscribers bus)
                                 else AList.update (ch_deployment ch) rest (bus_subscribers bus)),
             bus_channels := (bus_channels bus)[i := ch\<lparr>ch_closed := True\<rparr>]\<rparr>)"

text \<open>A receive: an event of the buffer, or the end once the channel is closed and empty.\<close>

definition receive :: "nat \<Rightarrow> log_bus \<Rightarrow> (log_event option \<times> log_bus) option" where
  "receive i bus =
     (let ch = bus_channels bus ! i in
      case ch_buffer ch of
        ev # rest \<Rightarrow> Some (Some ev, bus\<lparr>bus_channels := (bus_channels bus)
                                 [i := ch\<lparr>ch_buffer := rest, ch_received := ch_received ch @ [ev]\<rparr>]\<rparr>)
      | [] \<Rightarrow> if ch_closed ch then Some (None, bus) else None)"

subsection \<open>The bus over Redis\<close>

definition logChannel :: "string \<Rightarrow> string" where
  "logChannel deploymentID = ''deployments:'' @ deploymentID @ '':logs''"

definition shouldDeliverLogEvent :: "string \<Rightarrow> log_event \<Rightarrow> bool" where
  "shouldDeliverLogEvent deploymentID ev \<longleftrightarrow> ev_DeploymentID ev = deploymentID"

text \<open>
  The messages that arrive on the channel of a deployment, in order: a payload that is not the JSON of
  an event, or one of another deployment, is skipped. The decoder of the event goes through the time
  type of the database driver and is an argument.
\<close>

definition subscribeRedis :: "(string \<Rightarrow> log_event option) \<Rightarrow> string \<Rightarrow> string list \<Rightarrow> log_event list" where
  "subscribeRedis decode deploymentID payloads =
     filter (shouldDeliverLogEvent deploymentID) (List.map_filter decode payloads)"

subsection \<open>The state machine\<close>

inductive bus_step :: "log_bus \<Rightarrow> log_bus \<Rightarrow> bool" where
  publish: "Publish ev bus = Some bus' \<Longrightarrow> bus_step bus bus'"
| subscribe: "subscribeLocal deploymentID bus = (i, bus') \<Longrightarrow> bus_step bus bus'"
| cancel: "i < length (bus_channels bus) \<Longrightarrow> \<not> ch_closed (bus_channels bus ! i) \<Longrightarrow> bus_step bus (unsubscribe i bus)"
| receive: "i < length (bus_channels bus) \<Longrightarrow> receive i bus = Some (e, bus') \<Longrightarrow> bus_step bus bus'"

abbreviation bus_reachable :: "log_bus \<Rightarrow> bool" where
  "bus_reachable bus \<equiv> bus_step\<^sup>*\<^sup>* NewLogBus bus"

text \<open>
  The invariant: the table lists exactly the open channels, under their deployment and once; a buffer
  holds at most 32 events; what a receiver took and what it still finds are part of what was offered.
\<close>

definition channel_ok :: "log_channel \<Rightarrow> bool" where
  "channel_ok ch \<longleftrightarrow> length (ch_buffer ch) \<le> channelCapacity
     \<and> subseq (ch_received ch @ ch_buffer ch) (ch_offered ch)
     \<and> length (ch_offered ch) = length (ch_received ch @ ch_buffer ch) + ch_dropped ch
     \<and> list_all (\<lambda>ev. ev_DeploymentID ev = ch_deployment ch) (ch_offered ch)"

definition bus_ok :: "log_bus \<Rightarrow> bool" where
  "bus_ok bus \<longleftrightarrow> list_all channel_ok (bus_channels bus)
     \<and> distinct (map fst (bus_subscribers bus))
     \<and> (\<forall>d i. i \<in> set (subscribers_of bus d) \<longleftrightarrow>
          i < length (bus_channels bus) \<and> \<not> ch_closed (bus_channels bus ! i) \<and> ch_deployment (bus_channels bus ! i) = d)
     \<and> (\<forall>d. distinct (subscribers_of bus d))"

subsection \<open>The invariant holds\<close>

lemma list_all_update: "list_all P xs \<Longrightarrow> P x \<Longrightarrow> list_all P (xs[i := x])"
  using set_update_subset_insert [of xs i x] by (auto simp: list_all_iff)

lemma bus_ok_subscribers:
  "bus_ok bus \<Longrightarrow> i \<in> set (subscribers_of bus d) \<longleftrightarrow>
     i < length (bus_channels bus) \<and> \<not> ch_closed (bus_channels bus ! i) \<and> ch_deployment (bus_channels bus ! i) = d"
  by (simp add: bus_ok_def)

lemma bus_ok_channels: "bus_ok bus \<Longrightarrow> list_all channel_ok (bus_channels bus)"
  by (simp add: bus_ok_def)

lemma send_all_result:
  assumes "distinct is" "\<And>i. i \<in> set is \<Longrightarrow> i < length chans \<and> \<not> ch_closed (chans ! i)"
  shows "\<exists>chans'. send_all ev is chans = Some chans' \<and> length chans' = length chans
    \<and> (\<forall>j<length chans. chans' ! j = (if j \<in> set is then the (try_send ev (chans ! j)) else chans ! j))"
  using assms
proof (induction "is" arbitrary: chans)
  case (Cons i "is")
  obtain ch where ch: "try_send ev (chans ! i) = Some ch" using Cons.prems(2) [of i] by (simp add: try_send_def)
  have "j < length (chans[i := ch]) \<and> \<not> ch_closed (chans[i := ch] ! j)" if "j \<in> set is" for j
    using that Cons.prems by (auto simp: nth_list_update)
  from Cons.IH [OF _ this] Cons.prems(1) obtain chans' where
    c: "send_all ev is (chans[i := ch]) = Some chans'" "length chans' = length chans"
    "\<forall>j<length chans. chans' ! j = (if j \<in> set is then the (try_send ev (chans[i := ch] ! j)) else chans[i := ch] ! j)"
    by auto
  then show ?case using Cons.prems ch by (auto simp: nth_list_update)
qed simp

lemma try_send_ok:
  assumes "channel_ok ch" "try_send ev ch = Some ch'" "ev_DeploymentID ev = ch_deployment ch"
  shows "channel_ok ch' \<and> ch_closed ch' = ch_closed ch \<and> ch_deployment ch' = ch_deployment ch"
proof -
  have sub: "subseq (ch_received ch @ ch_buffer ch) (ch_offered ch)" using assms(1) by (simp add: channel_ok_def)
  from list_emb_append_mono [OF this, of "[ev]" "[ev]"]
  have "subseq (ch_received ch @ ch_buffer ch @ [ev]) (ch_offered ch @ [ev])" by simp
  moreover have "subseq (ch_received ch @ ch_buffer ch) (ch_offered ch @ [ev])" using sub by (rule list_emb_prefix)
  ultimately show ?thesis using assms by (auto simp: try_send_def channel_ok_def split: if_splits)
qed

lemma receive_ok:
  assumes "channel_ok ch" "ch_buffer ch = ev # rest"
  shows "channel_ok (ch\<lparr>ch_buffer := rest, ch_received := ch_received ch @ [ev]\<rparr>)"
  using assms by (auto simp: channel_ok_def)

lemma Publish_result:
  assumes "bus_ok bus"
  shows "\<exists>chans. Publish ev bus = Some (bus\<lparr>bus_channels := chans\<rparr>) \<and> length chans = length (bus_channels bus)
    \<and> (\<forall>j<length chans. chans ! j = (if \<not> ch_closed (bus_channels bus ! j) \<and> ch_deployment (bus_channels bus ! j) = ev_DeploymentID ev
         then the (try_send ev (bus_channels bus ! j)) else bus_channels bus ! j))"
proof -
  let ?is = "subscribers_of bus (ev_DeploymentID ev)" and ?chans = "bus_channels bus"
  have mem: "i \<in> set ?is \<longleftrightarrow> i < length ?chans \<and> \<not> ch_closed (?chans ! i) \<and> ch_deployment (?chans ! i) = ev_DeploymentID ev" for i
    using bus_ok_subscribers [OF assms] .
  have "distinct ?is" using assms unfolding bus_ok_def by blast
  from send_all_result [OF this, of ?chans ev] mem obtain chans where
    "send_all ev ?is ?chans = Some chans" "length chans = length ?chans"
    "\<forall>j<length ?chans. chans ! j = (if j \<in> set ?is then the (try_send ev (?chans ! j)) else ?chans ! j)"
    by blast
  then show ?thesis using mem by (auto simp: Publish_def)
qed

lemma Publish_ok:
  assumes ok: "bus_ok bus" and p: "Publish ev bus = Some bus'"
  shows "bus_ok bus'"
proof -
  obtain chans where bus': "bus' = bus\<lparr>bus_channels := chans\<rparr>" and len: "length chans = length (bus_channels bus)"
    and nth: "\<And>j. j < length chans \<Longrightarrow> chans ! j = (if \<not> ch_closed (bus_channels bus ! j)
        \<and> ch_deployment (bus_channels bus ! j) = ev_DeploymentID ev
        then the (try_send ev (bus_channels bus ! j)) else bus_channels bus ! j)"
    using Publish_result [OF ok, of ev] p by auto
  have chan: "channel_ok (chans ! j) \<and> ch_closed (chans ! j) = ch_closed (bus_channels bus ! j)
      \<and> ch_deployment (chans ! j) = ch_deployment (bus_channels bus ! j)" if "j < length chans" for j
  proof -
    have "channel_ok (bus_channels bus ! j)" using ok that len by (auto simp: bus_ok_def list_all_length)
    note sent = try_send_ok [OF this, of ev]
    show ?thesis
    proof (cases "\<not> ch_closed (bus_channels bus ! j) \<and> ch_deployment (bus_channels bus ! j) = ev_DeploymentID ev")
      case True
      then obtain ch where ch: "try_send ev (bus_channels bus ! j) = Some ch" by (simp add: try_send_def)
      then have "chans ! j = ch" using nth [OF that] True by simp
      then show ?thesis using sent [OF ch] True by simp
    next
      case False
      then have "chans ! j = bus_channels bus ! j" unfolding nth [OF that] by (rule if_not_P)
      then show ?thesis using \<open>channel_ok (bus_channels bus ! j)\<close> by simp
    qed
  qed
  have subs: "subscribers_of bus' d = subscribers_of bus d" for d by (simp add: bus' subscribers_of_def)
  have "list_all channel_ok (bus_channels bus')" using chan by (simp add: bus' list_all_length)
  moreover have "i \<in> set (subscribers_of bus d) \<longleftrightarrow> i < length (bus_channels bus')
      \<and> \<not> ch_closed (bus_channels bus' ! i) \<and> ch_deployment (bus_channels bus' ! i) = d" for d i
  proof (cases "i < length chans")
    case True
    then show ?thesis unfolding bus_ok_subscribers [OF ok] using chan [OF True] len by (simp add: bus')
  next
    case False
    then show ?thesis unfolding bus_ok_subscribers [OF ok] using len by (simp add: bus')
  qed
  moreover have "distinct (map fst (bus_subscribers bus'))" "\<forall>d. distinct (subscribers_of bus d)"
    using ok by (simp_all add: bus_ok_def bus')
  ultimately show ?thesis unfolding bus_ok_def subs by blast
qed

lemma subscribers_of_update:
  "subscribers_of (bus\<lparr>bus_subscribers := AList.update k v (bus_subscribers bus), bus_channels := chans\<rparr>) d
     = (if d = k then v else subscribers_of bus d)"
  by (simp add: subscribers_of_def update_conv)

lemma subscribers_of_delete:
  "subscribers_of (bus\<lparr>bus_subscribers := AList.delete k (bus_subscribers bus), bus_channels := chans\<rparr>) d
     = (if d = k then [] else subscribers_of bus d)"
  by (simp add: subscribers_of_def delete_conv)

lemma subscribeLocal_ok:
  assumes ok: "bus_ok bus" and s: "subscribeLocal deploymentID bus = (i, bus')"
  shows "bus_ok bus'"
proof -
  let ?n = "length (bus_channels bus)"
  obtain ch where ch: "bus_channels bus' = bus_channels bus @ [ch]" "channel_ok ch" "\<not> ch_closed ch" "ch_deployment ch = deploymentID"
    using s by (auto simp: subscribeLocal_def Let_def channel_ok_def)
  have subs: "subscribers_of bus' d = (if d = deploymentID then subscribers_of bus d @ [?n] else subscribers_of bus d)" for d
    using s by (auto simp: subscribeLocal_def Let_def subscribers_of_update)
  have mem: "i \<in> set (subscribers_of bus d) \<longleftrightarrow> i < ?n \<and> \<not> ch_closed (bus_channels bus ! i) \<and> ch_deployment (bus_channels bus ! i) = d" for d i
    using bus_ok_subscribers [OF ok] .
  have "j \<in> set (subscribers_of bus' d) \<longleftrightarrow> j < length (bus_channels bus') \<and> \<not> ch_closed (bus_channels bus' ! j)
      \<and> ch_deployment (bus_channels bus' ! j) = d" for d j
    using ch mem [of j d] by (auto simp: subs nth_append less_Suc_eq)
  moreover have "list_all channel_ok (bus_channels bus')" using ok ch by (simp add: bus_ok_def)
  moreover have "distinct (subscribers_of bus' d)" for d using ok mem [of ?n d] by (auto simp: subs bus_ok_def)
  moreover have "distinct (map fst (bus_subscribers bus'))"
    using ok s distinct_update by (auto simp: bus_ok_def subscribeLocal_def Let_def)
  ultimately show ?thesis unfolding bus_ok_def by blast
qed

lemma unsubscribe_ok:
  assumes ok: "bus_ok bus" and i: "i < length (bus_channels bus)"
  shows "bus_ok (unsubscribe i bus)"
proof -
  let ?ch = "bus_channels bus ! i" and ?bus = "unsubscribe i bus"
  have chans: "bus_channels ?bus = (bus_channels bus)[i := ?ch\<lparr>ch_closed := True\<rparr>]" by (simp add: unsubscribe_def Let_def)
  have subs: "subscribers_of ?bus d = (if d = ch_deployment ?ch then filter (\<lambda>j. j \<noteq> i) (subscribers_of bus d) else subscribers_of bus d)" for d
    by (simp add: unsubscribe_def Let_def subscribers_of_update subscribers_of_delete)
  have mem: "j \<in> set (subscribers_of bus d) \<longleftrightarrow> j < length (bus_channels bus) \<and> \<not> ch_closed (bus_channels bus ! j)
      \<and> ch_deployment (bus_channels bus ! j) = d" for d j
    using bus_ok_subscribers [OF ok] .
  have "j \<in> set (subscribers_of ?bus d) \<longleftrightarrow> j < length (bus_channels ?bus) \<and> \<not> ch_closed (bus_channels ?bus ! j)
      \<and> ch_deployment (bus_channels ?bus ! j) = d" for d j
    using i mem [of j d] by (auto simp: subs chans nth_list_update)
  moreover have "channel_ok (?ch\<lparr>ch_closed := True\<rparr>)" using ok i by (simp add: bus_ok_def list_all_length channel_ok_def)
  then have "list_all channel_ok (bus_channels ?bus)" unfolding chans by (rule list_all_update [OF bus_ok_channels [OF ok]])
  moreover have "distinct (subscribers_of ?bus d)" for d using ok by (simp add: subs bus_ok_def)
  moreover have "distinct (map fst (bus_subscribers ?bus))"
    using ok distinct_update distinct_delete by (auto simp: bus_ok_def unsubscribe_def Let_def)
  ultimately show ?thesis unfolding bus_ok_def by blast
qed

lemma receive_step_ok:
  assumes ok: "bus_ok bus" and i: "i < length (bus_channels bus)" and r: "receive i bus = Some (e, bus')"
  shows "bus_ok bus'"
proof (cases "ch_buffer (bus_channels bus ! i)")
  case Nil
  then show ?thesis using r ok by (auto simp: receive_def Let_def split: if_splits)
next
  case (Cons ev rest)
  let ?ch = "(bus_channels bus ! i)\<lparr>ch_buffer := rest, ch_received := ch_received (bus_channels bus ! i) @ [ev]\<rparr>"
  have bus': "bus' = bus\<lparr>bus_channels := (bus_channels bus)[i := ?ch]\<rparr>" using Cons r by (simp add: receive_def Let_def)
  have "channel_ok ?ch" using ok i Cons receive_ok by (simp add: bus_ok_def list_all_length)
  then have "list_all channel_ok (bus_channels bus')" using list_all_update [OF bus_ok_channels [OF ok]] by (simp add: bus')
  moreover have "subscribers_of bus' = subscribers_of bus" by (simp add: bus' subscribers_of_def fun_eq_iff)
  moreover have "ch_closed (bus_channels bus' ! j) = ch_closed (bus_channels bus ! j)"
    "ch_deployment (bus_channels bus' ! j) = ch_deployment (bus_channels bus ! j)" for j
    using i by (auto simp: bus' nth_list_update)
  moreover have "length (bus_channels bus') = length (bus_channels bus)" "bus_subscribers bus' = bus_subscribers bus" by (simp_all add: bus')
  ultimately show ?thesis using ok unfolding bus_ok_def by simp
qed

lemma bus_step_ok: "bus_step bus bus' \<Longrightarrow> bus_ok bus \<Longrightarrow> bus_ok bus'"
  by (induction rule: bus_step.induct) (auto intro: Publish_ok subscribeLocal_ok unsubscribe_ok receive_step_ok)

lemma bus_reachable_ok: "bus_reachable bus \<Longrightarrow> bus_ok bus"
proof (induction rule: rtranclp_induct)
  case base
  show ?case by (simp add: bus_ok_def NewLogBus_def subscribers_of_def)
qed (rule bus_step_ok)

subsection \<open>What subscribers see\<close>

text \<open>C30. Publishing never sends on a closed channel, however clients come and go: it always succeeds, and only
  the open channels of the deployment of the event are touched.\<close>

theorem Publish_never_panics:
  assumes "bus_reachable bus"
  shows "\<exists>bus'. Publish ev bus = Some bus' \<and> bus_subscribers bus' = bus_subscribers bus
    \<and> (\<forall>i<length (bus_channels bus). ch_closed (bus_channels bus ! i) \<or> ch_deployment (bus_channels bus ! i) \<noteq> ev_DeploymentID ev
         \<longrightarrow> bus_channels bus' ! i = bus_channels bus ! i)"
  using Publish_result [OF bus_reachable_ok [OF assms], of ev] by auto

text \<open>C31. A client gets events of its own deployment only, in the order in which they were published and each at
  most once; at most 32 wait for it. Unless its buffer was full it misses nothing.\<close>

theorem subscriber_sees_in_order:
  assumes "bus_reachable bus" "ch \<in> set (bus_channels bus)"
  shows "subseq (ch_received ch @ ch_buffer ch) (ch_offered ch) \<and> length (ch_buffer ch) \<le> 32
    \<and> list_all (\<lambda>ev. ev_DeploymentID ev = ch_deployment ch) (ch_received ch @ ch_buffer ch)
    \<and> (ch_dropped ch = 0 \<longrightarrow> ch_received ch @ ch_buffer ch = ch_offered ch)"
proof -
  have ok: "channel_ok ch" using bus_reachable_ok [OF assms(1)] assms(2) by (auto simp: bus_ok_def list_all_iff)
  then have sub: "subseq (ch_received ch @ ch_buffer ch) (ch_offered ch)" by (simp add: channel_ok_def)
  have "set (ch_received ch @ ch_buffer ch) \<subseteq> set (ch_offered ch)" using list_emb_set [OF sub] by blast
  then have "list_all (\<lambda>ev. ev_DeploymentID ev = ch_deployment ch) (ch_received ch @ ch_buffer ch)"
    using ok by (auto simp: channel_ok_def list_all_iff)
  moreover have "ch_received ch @ ch_buffer ch = ch_offered ch" if "ch_dropped ch = 0"
    using sub ok that by (auto simp: channel_ok_def intro!: subseq_same_length)
  ultimately show ?thesis using sub ok by (simp add: channel_ok_def channelCapacity_def)
qed

text \<open>A client subscribes to one deployment, and lines of two deployments are published.\<close>

definition sample_event :: "nat \<Rightarrow> string \<Rightarrow> log_event" where
  "sample_event n d = \<lparr>ev_ID = n, ev_DeploymentID = d, ev_Stream = ''stdout'', ev_Message = ''pulled'', ev_CreatedAt = None\<rparr>"

definition sample_bus :: log_bus where
  "sample_bus = the (Publish (sample_event 2 ''d2'') (the (Publish (sample_event 1 ''d1'') (snd (subscribeLocal ''d1'' NewLogBus)))))"

lemma sample_bus_reachable: "bus_reachable sample_bus"
proof -
  let ?b1 = "snd (subscribeLocal ''d1'' NewLogBus)" and ?b2 = "the (Publish (sample_event 1 ''d1'') (snd (subscribeLocal ''d1'' NewLogBus)))"
  have "bus_step NewLogBus ?b1" by (rule bus_step.subscribe [OF prod.collapse [symmetric]])
  moreover have "bus_step ?b1 ?b2" by (rule bus_step.publish [of "sample_event 1 ''d1''"]) code_simp
  moreover have "bus_step ?b2 sample_bus" by (rule bus_step.publish [of "sample_event 2 ''d2''"]) code_simp
  ultimately show ?thesis by (meson rtranclp.rtrancl_refl rtranclp.rtrancl_into_rtrancl)
qed

theorem Publish_never_panics_witness:
  "\<exists>bus'. Publish (sample_event 3 ''d2'') sample_bus = Some bus' \<and> bus_channels bus' ! 0 = bus_channels sample_bus ! 0"
proof -
  have "length (bus_channels sample_bus) = 1" "ch_deployment (bus_channels sample_bus ! 0) = ''d1''" by code_simp+
  moreover have "ev_DeploymentID (sample_event 3 ''d2'') = ''d2''" "(''d1'' :: string) \<noteq> ''d2''" by (simp_all add: sample_event_def)
  moreover obtain bus' where "Publish (sample_event 3 ''d2'') sample_bus = Some bus'"
    "\<And>i. i < length (bus_channels sample_bus) \<Longrightarrow>
       ch_deployment (bus_channels sample_bus ! i) \<noteq> ev_DeploymentID (sample_event 3 ''d2'') \<Longrightarrow>
       bus_channels bus' ! i = bus_channels sample_bus ! i"
    using Publish_never_panics [OF sample_bus_reachable, of "sample_event 3 ''d2''"] by blast
  ultimately show ?thesis by (metis less_one)
qed

theorem subscriber_sees_in_order_witness:
  "let ch = bus_channels sample_bus ! 0 in ch_received ch @ ch_buffer ch = [sample_event 1 ''d1''] \<and> length (ch_buffer ch) \<le> 32"
proof -
  let ?ch = "bus_channels sample_bus ! 0"
  have "length (bus_channels sample_bus) = 1" by code_simp
  then have "?ch \<in> set (bus_channels sample_bus)" by simp
  from subscriber_sees_in_order [OF sample_bus_reachable this]
  have "length (ch_buffer ?ch) \<le> 32" "ch_dropped ?ch = 0 \<Longrightarrow> ch_received ?ch @ ch_buffer ?ch = ch_offered ?ch" by blast+
  moreover have "ch_dropped ?ch = 0" "ch_offered ?ch = [sample_event 1 ''d1'']" by code_simp+
  ultimately show ?thesis by (simp only: Let_def simp_thms)
qed

end
