(* ===== verification/Log_Stream.thy ===== *)
theory Log_Stream
  imports Log_Bus Http_Base
begin

text \<open>
  The file \<^verbatim>\<open>internal/httpapi/deployment_logs.go\<close> and the event streams of \<^verbatim>\<open>responses.go\<close>: a client that
  watches a deployment first gets the lines that are stored, from the last one it has seen, and then the
  events of the bus. The subscription starts before the lines are read, so that the events overlap
  with them; the last identifier that was sent removes the overlap. Times are rendered by the driver of
  the database and are a parameter.
\<close>

subsection \<open>Event streams\<close>

definition newline :: string where
  "newline = [CHR 0x0A]"

definition writeSSEWithID :: "string \<Rightarrow> string \<Rightarrow> json \<Rightarrow> string" where
  "writeSSEWithID i event payload =
     (if TrimSpace i \<noteq> [] then ''id: '' @ i @ newline else []) @
     ''event: '' @ event @ newline @ ''data: '' @ Marshal payload @ newline @ newline"

definition writeSSE :: "string \<Rightarrow> json \<Rightarrow> string" where
  "writeSSE event payload = writeSSEWithID [] event payload"

definition writeSSEComment :: "string \<Rightarrow> string" where
  "writeSSEComment comment0 =
     (let comment = TrimSpace (ReplaceAll comment0 newline '' '') in
      '': '' @ (if comment = [] then ''keepalive'' else comment) @ newline @ newline)"

subsection \<open>Log lines\<close>

definition maxDeploymentLogHistory :: int where
  "maxDeploymentLogHistory = 500"

definition parseLastEventID :: "string \<Rightarrow> int" where
  "parseLastEventID v = (case ParseInt v 64 of None \<Rightarrow> 0 | Some i \<Rightarrow> if i < 0 then 0 else i)"

definition sseID :: "int \<Rightarrow> string" where
  "sseID i = (if i \<le> 0 then [] else FormatInt i)"

definition advanceLastEventID :: "int \<Rightarrow> int \<Rightarrow> bool \<times> int" where
  "advanceLastEventID lastEventID eventID =
     (if eventID \<le> 0 then (True, lastEventID)
      else if eventID \<le> lastEventID then (False, lastEventID)
      else (True, eventID))"

definition time_json :: "(nat \<Rightarrow> string) \<Rightarrow> pg_time \<Rightarrow> json" where
  "time_json time_text t = (case t of None \<Rightarrow> JNull | Some n \<Rightarrow> JStr (time_text n))"

definition log_json :: "http_env \<Rightarrow> (nat \<Rightarrow> string) \<Rightarrow> deployment_log \<Rightarrow> json" where
  "log_json h time_text l =
     JObj [(''id'', JNum (FormatNat (log_ID l))),
           (''deployment_id'', case log_DeploymentID l of None \<Rightarrow> JNull | Some _ \<Rightarrow> JStr (id_text h (log_DeploymentID l))),
           (''stream'', JStr (log_Stream l)), (''message'', JStr (log_Message l)),
           (''created_at'', time_json time_text (log_CreatedAt l))]"

definition event_json :: "(nat \<Rightarrow> string) \<Rightarrow> log_event \<Rightarrow> json" where
  "event_json time_text ev =
     JObj ((if ev_ID ev = 0 then [] else [(''id'', JNum (FormatNat (ev_ID ev)))]) @
           [(''deployment_id'', JStr (ev_DeploymentID ev)), (''stream'', JStr (ev_Stream ev)),
            (''message'', JStr (ev_Message ev)), (''created_at'', time_json time_text (ev_CreatedAt ev))])"

text \<open>Over Redis an event is published as its JSON, on the channel of its deployment.\<close>

definition PublishRedis :: "(nat \<Rightarrow> string) \<Rightarrow> log_event \<Rightarrow> string \<times> string" where
  "PublishRedis time_text ev = (logChannel (ev_DeploymentID ev), Marshal (event_json time_text ev))"

definition deploymentLookupError :: "go_error \<Rightarrow> http_error" where
  "deploymentLookupError err = (if err = ErrNoRows then NotFoundError ''deployment not found'' else Internal err)"

definition ensureDeploymentExists :: "http_env \<Rightarrow> pg_uuid \<Rightarrow> (http_error + unit) sys_run" where
  "ensureDeploymentExists h i = do {
     g \<leftarrow> serve h (GetDeployment i);
     State_Monad.return (case g of Inl err \<Rightarrow> Inl (deploymentLookupError err) | Inr _ \<Rightarrow> Inr ())
   }"

definition listDeploymentLogs :: "http_env \<Rightarrow> http_request \<Rightarrow> deployment_log list handler" where
  "listDeploymentLogs h r =
     or_error (parseUUIDParam h r ''deploymentID'') (\<lambda>i. do {
       e \<leftarrow> ensureDeploymentExists h i;
       or_error e (\<lambda>_. do {
         l \<leftarrow> serve h (ListRecentDeploymentLogs i maxDeploymentLogHistory);
         or_error (map_error Internal l) (\<lambda>logs. State_Monad.return (writeJSON 200 logs))
       })
     })"

definition log_history :: "pg_uuid \<Rightarrow> int \<Rightarrow> deployment_log list stmt" where
  "log_history i lastEventID =
     (if 0 < lastEventID then ListDeploymentLogsAfter i lastEventID maxDeploymentLogHistory
      else ListRecentDeploymentLogs i maxDeploymentLogHistory)"

definition listDeploymentLogHistory :: "http_env \<Rightarrow> pg_uuid \<Rightarrow> int \<Rightarrow> (go_error + deployment_log list) sys_run" where
  "listDeploymentLogHistory h i lastEventID = serve h (log_history i lastEventID)"

subsection \<open>The stream\<close>

datatype stream_input = Arrived log_event | Heartbeat

text \<open>The lines that are sent: each with its identifier and its JSON.\<close>

fun send_lines :: "int \<Rightarrow> (int \<times> json) list \<Rightarrow> (int \<times> json) list \<times> int" where
  "send_lines lastEventID [] = ([], lastEventID)"
| "send_lines lastEventID ((i, j) # items) =
     (case advanceLastEventID lastEventID i of
        (shouldSend, lastEventID') \<Rightarrow>
          (case send_lines lastEventID' items of
             (sent, final) \<Rightarrow> (if shouldSend then (i, j) # sent else sent, final)))"

definition log_frame :: "int \<times> json \<Rightarrow> string" where
  "log_frame x = writeSSEWithID (sseID (fst x)) ''log'' (snd x)"

fun stream_live :: "(nat \<Rightarrow> string) \<Rightarrow> int \<Rightarrow> stream_input list \<Rightarrow> string list" where
  "stream_live time_text lastEventID [] = []"
| "stream_live time_text lastEventID (Heartbeat # inputs) =
     writeSSEComment ''keepalive'' # stream_live time_text lastEventID inputs"
| "stream_live time_text lastEventID (Arrived ev # inputs) =
     (case send_lines lastEventID [(int (ev_ID ev), event_json time_text ev)] of
        (sent, lastEventID') \<Rightarrow> map log_frame sent @ stream_live time_text lastEventID' inputs)"

text \<open>
  The handler, on the inputs that arrive until the client leaves. A server that cannot flush is refused.
\<close>

definition streamDeploymentLogs ::
  "http_env \<Rightarrow> (nat \<Rightarrow> string) \<Rightarrow> bool \<Rightarrow> http_request \<Rightarrow> stream_input list \<Rightarrow> string list handler" where
  "streamDeploymentLogs h time_text can_flush r inputs =
     or_error (parseUUIDParam h r ''deploymentID'') (\<lambda>i. do {
       e \<leftarrow> ensureDeploymentExists h i;
       or_error e (\<lambda>_.
         if \<not> can_flush then State_Monad.return (writeError (Internal (Errorf ''streaming is not supported'')))
         else do {
           g \<leftarrow> listDeploymentLogHistory h i (parseLastEventID (req_header r ''Last-Event-ID''));
           State_Monad.return (writeJSON 200 (case g of
               Inl err \<Rightarrow> [writeSSE ''error'' (JObj [(''message'', JStr (err_text err))])]
             | Inr history \<Rightarrow>
                 (case send_lines (parseLastEventID (req_header r ''Last-Event-ID''))
                         (map (\<lambda>l. (int (log_ID l), log_json h time_text l)) history) of
                    (sent, lastEventID) \<Rightarrow> map log_frame sent @ stream_live time_text lastEventID inputs)))
         })
     })"

end
