(* ===== verification/Log_Stream_Proofs.thy ===== *)
theory Log_Stream_Proofs
  imports Log_Stream Http_Deployments_Proofs
begin

text \<open>
  Watching the log of a deployment: lines are sent in order and never twice, a client that reconnects
  misses nothing as long as it is at most 500 lines behind, and no text in a line can be taken for
  another event of the stream.
\<close>

subsection \<open>Lines that are sent\<close>

abbreviation sent :: "int \<Rightarrow> (int \<times> json) list \<Rightarrow> (int \<times> json) list" where
  "sent m items \<equiv> fst (send_lines m items)"

abbreviation final :: "int \<Rightarrow> (int \<times> json) list \<Rightarrow> int" where
  "final m items \<equiv> snd (send_lines m items)"

lemma send_lines_Cons [simp]:
  "sent m (x # items) = (if fst (advanceLastEventID m (fst x)) then [x] else []) @ sent (snd (advanceLastEventID m (fst x))) items"
  "final m (x # items) = final (snd (advanceLastEventID m (fst x))) items"
  by (cases x; simp split: prod.splits)+

declare send_lines.simps(2) [simp del]

lemma send_lines_append:
  "sent m (xs @ ys) = sent m xs @ sent (final m xs) ys" "final m (xs @ ys) = final (final m xs) ys"
  by (induction xs arbitrary: m) simp_all

lemma advance_ge: "m \<le> snd (advanceLastEventID m i)"
  by (simp add: advanceLastEventID_def)

lemma final_ge: "m \<le> final m items"
proof (induction items arbitrary: m)
  case (Cons x items)
  show ?case using Cons.IH [of "snd (advanceLastEventID m (fst x))"] advance_ge [of m "fst x"] by simp
qed simp

lemma sent_above: "x \<in> set (sent m items) \<Longrightarrow> fst x \<le> 0 \<or> m < fst x"
proof (induction items arbitrary: m)
  case (Cons y items)
  from Cons.prems consider "x = y" "fst (advanceLastEventID m (fst y))" | "x \<in> set (sent (snd (advanceLastEventID m (fst y))) items)"
    by (auto split: if_splits)
  then show ?case
  proof cases
    case 1
    then show ?thesis by (auto simp: advanceLastEventID_def split: if_splits)
  next
    case 2
    then show ?thesis using Cons.IH [OF 2] advance_ge [of m "fst y"] by linarith
  qed
qed simp

lemma sent_subset: "set (sent m items) \<subseteq> set items"
  by (induction items arbitrary: m) (auto split: if_splits)

lemma send_lines_sorted:
  assumes "sorted_wrt (<) (map fst items)" "\<And>x. x \<in> set items \<Longrightarrow> 0 < fst x" "0 \<le> m"
  shows "sent m items = filter (\<lambda>x. m < fst x) items
    \<and> final m items = (if items = [] then m else max m (fst (last items)))"
  using assms
proof (induction items arbitrary: m)
  case (Cons x items)
  obtain i j where x: "x = (i, j)" by (cases x)
  let ?m = "max m i"
  have i: "0 < i" using Cons.prems(2) [of x] x by simp
  have a: "advanceLastEventID m i = (m < i, ?m)" using i by (auto simp: advanceLastEventID_def)
  have above: "i < fst y" if "y \<in> set items" for y using Cons.prems(1) that x by auto
  have "sent ?m items = filter (\<lambda>y. ?m < fst y) items
      \<and> final ?m items = (if items = [] then ?m else max ?m (fst (last items)))"
    using Cons.prems i by (intro Cons.IH) auto
  moreover have "filter (\<lambda>y. ?m < fst y) items = filter (\<lambda>y. m < fst y) items"
    using above by (auto intro!: filter_cong)
  moreover have "max ?m (fst (last items)) = max m (fst (last items))" if "items \<noteq> []"
    using above [OF last_in_set [OF that]] by simp
  ultimately show ?case using a by (auto simp: x)
qed simp

subsection \<open>Lines and events\<close>

definition lines_of :: "string \<Rightarrow> store \<Rightarrow> deployment_log list" where
  "lines_of i db = filter (\<lambda>l. sql_eq (log_DeploymentID l) (Some i)) (deployment_logs db)"

definition log_item :: "http_env \<Rightarrow> (nat \<Rightarrow> string) \<Rightarrow> deployment_log \<Rightarrow> int \<times> json" where
  "log_item h time_text l = (int (log_ID l), log_json h time_text l)"

definition event_item :: "(nat \<Rightarrow> string) \<Rightarrow> log_event \<Rightarrow> int \<times> json" where
  "event_item time_text ev = (int (ev_ID ev), event_json time_text ev)"

lemma sorted_ids: "store_ok db \<Longrightarrow> sorted_wrt (<) (map log_ID (filter p (deployment_logs db)))"
  by (auto simp: store_ok_def logs_ok_def sorted_wrt_map intro: sorted_wrt_filter)

lemma sort_key_ids: "store_ok db \<Longrightarrow> sort_key log_ID (filter p (deployment_logs db)) = filter p (deployment_logs db)"
  using sorted_ids [of db p] by (intro sort_key_id_if_sorted) (auto simp: strict_sorted_iff)

lemma history_after:
  assumes "store_ok db" "0 < m"
  shows "log_history (Some i) m db = Inr (take 500 (filter (\<lambda>l. m < int (log_ID l)) (lines_of i db)), db)"
proof -
  have sorted: "sort_key log_ID (filter (\<lambda>l. sql_eq (log_DeploymentID l) (Some i) \<and> m < int (log_ID l)) (deployment_logs db))
      = filter (\<lambda>l. m < int (log_ID l)) (lines_of i db)"
    unfolding sort_key_ids [OF assms(1)] by (simp add: lines_of_def conj_commute)
  have "log_history (Some i) m db = ListDeploymentLogsAfter (Some i) m maxDeploymentLogHistory db"
    using assms(2) by (simp add: log_history_def)
  then show ?thesis unfolding ListDeploymentLogsAfter_def sorted by (simp add: maxDeploymentLogHistory_def)
qed

lemma history_few:
  assumes "store_ok db" "0 \<le> m" "length (filter (\<lambda>l. m < int (log_ID l)) (lines_of i db)) \<le> 500"
    and "list_all (\<lambda>l. 0 < log_ID l) (lines_of i db)"
  shows "log_history (Some i) m db = Inr (filter (\<lambda>l. m < int (log_ID l)) (lines_of i db), db)"
proof (cases "0 < m")
  case True
  then show ?thesis using history_after [OF assms(1)] assms(3) by simp
next
  case False
  then have m: "m = 0" using assms(2) by simp
  have "filter (\<lambda>l. m < int (log_ID l)) (lines_of i db) = lines_of i db"
    using assms(4) m by (simp add: filter_id_conv list_all_iff)
  then show ?thesis using m assms(3) sort_key_ids [OF assms(1)]
    by (simp add: log_history_def ListRecentDeploymentLogs_def maxDeploymentLogHistory_def lines_of_def Let_def)
qed

lemma strict_sorted_eq:
  fixes xs ys :: "'a :: linorder list"
  assumes "sorted_wrt (<) xs" "sorted_wrt (<) ys" "set xs = set ys"
  shows "xs = ys"
  using assms by (auto intro: strict_sorted_equal)

text \<open>
  Over Redis a subscriber gets exactly the events of its deployment, in order, when the decoder reads
  what was published: the channel names of two deployments differ.
\<close>

lemma logChannel_inj: "logChannel i = logChannel j \<longleftrightarrow> i = j"
  by (simp add: logChannel_def)

lemma redis_delivers:
  assumes "\<And>ev. decode (snd (PublishRedis time_text ev)) = Some ev"
  shows "subscribeRedis decode i (map snd (filter (\<lambda>m. fst m = logChannel i) (map (PublishRedis time_text) evs)))
    = filter (\<lambda>ev. ev_DeploymentID ev = i) evs"
  using assms by (induction evs)
    (auto simp: subscribeRedis_def PublishRedis_def logChannel_inj shouldDeliverLogEvent_def List.map_filter_simps)

text \<open>
  After the history the position is the identifier of the last line: it is not behind any line of before
  and not ahead of any line that comes later.
\<close>

lemma history_position:
  fixes h :: http_env and time_text :: "nat \<Rightarrow> string"
  assumes sorted: "sorted_wrt (<) (map log_ID (old @ new))" and m: "0 \<le> m"
  defines "items \<equiv> map (log_item h time_text) (filter (\<lambda>l. m < int (log_ID l)) old)"
  shows "sent m items = items" "m \<le> final m items"
    "\<And>l. l \<in> set old \<Longrightarrow> int (log_ID l) \<le> final m items"
    "\<And>l. l \<in> set new \<Longrightarrow> m < int (log_ID l) \<Longrightarrow> final m items < int (log_ID l)"
proof -
  let ?H = "filter (\<lambda>l. m < int (log_ID l)) old"
  have sortedH: "sorted_wrt (<) (map log_ID ?H)"
    using sorted unfolding map_append sorted_wrt_append sorted_wrt_map by (blast intro: sorted_wrt_filter)
  then have "sorted_wrt (<) (map fst items)" by (simp add: items_def sorted_wrt_map log_item_def)
  moreover have "0 < fst x" if "x \<in> set items" for x using that m by (auto simp: items_def log_item_def)
  ultimately have sent: "sent m items = filter (\<lambda>x. m < fst x) items"
      "final m items = (if items = [] then m else max m (fst (last items)))" using send_lines_sorted [of items m] m by blast+
  show "sent m items = items" unfolding sent(1) by (auto simp: items_def log_item_def filter_id_conv)
  show f_ge: "m \<le> final m items" by (rule final_ge)
  show "int (log_ID l) \<le> final m items" if l: "l \<in> set old" for l
  proof (cases "m < int (log_ID l)")
    case True
    then have "l \<in> set ?H" using l by simp
    moreover then have "log_ID l \<le> log_ID (last ?H)" using sortedH
      by (cases ?H rule: rev_cases) (auto simp: sorted_wrt_append simp del: filter.simps)
    moreover have "?H \<noteq> []" using \<open>l \<in> set ?H\<close> by (metis empty_iff list.set(1))
    ultimately show ?thesis using sent(2) by (auto simp: items_def last_map log_item_def simp del: filter.simps)
  qed (use f_ge in simp)
  show "final m items < int (log_ID l)" if l: "l \<in> set new" "m < int (log_ID l)" for l
  proof (cases "?H = []")
    case True
    then show ?thesis using l(2) sent(2) by (simp add: items_def)
  next
    case False
    then have "last ?H \<in> set old" using last_in_set by (metis filter_is_subset subsetD)
    then have "log_ID (last ?H) < log_ID l" using sorted l(1) by (auto simp: sorted_wrt_append)
    then show ?thesis using False l(2) sent(2) by (simp add: items_def last_map log_item_def)
  qed
qed

text \<open>The events that come after a position are the new lines.\<close>

lemma events_after:
  assumes "sorted_wrt (<) (map log_ID (old @ new))" "sorted_wrt (<) ids"
    and "set ids \<subseteq> set (map log_ID (old @ new))" "set (map log_ID new) \<subseteq> set ids" "m \<le> f"
    and "\<And>l. l \<in> set old \<Longrightarrow> int (log_ID l) \<le> f" "\<And>l. l \<in> set new \<Longrightarrow> m < int (log_ID l) \<Longrightarrow> f < int (log_ID l)"
  shows "filter (\<lambda>k. f < int k) ids = map log_ID (filter (\<lambda>l. m < int (log_ID l)) new)"
proof (rule strict_sorted_eq)
  show "sorted_wrt (<) (filter (\<lambda>k. f < int k) ids)" using assms(2) by (rule sorted_wrt_filter)
  show "sorted_wrt (<) (map log_ID (filter (\<lambda>l. m < int (log_ID l)) new))"
    using assms(1) unfolding map_append sorted_wrt_append sorted_wrt_map by (blast intro: sorted_wrt_filter)
  show "set (filter (\<lambda>k. f < int k) ids) = set (map log_ID (filter (\<lambda>l. m < int (log_ID l)) new))" (is "?A = ?B")
  proof
    show "?A \<subseteq> ?B"
    proof
      fix k assume "k \<in> ?A"
      then obtain l where l: "l \<in> set (old @ new)" "k = log_ID l" "f < int k" using assms(3) by auto
      then have "l \<in> set new" using assms(6) [of l] by fastforce
      then show "k \<in> ?B" using l assms(5) by auto
    qed
    show "?B \<subseteq> ?A" using assms(4,7) by auto
  qed
qed


definition sample_line :: "nat \<Rightarrow> deployment_log" where
  "sample_line n = \<lparr>log_ID = n, log_DeploymentID = Some ''d1'', log_Stream = ''stdout'', log_Message = ''pulled'', log_CreatedAt = Some 6\<rparr>"


text \<open>A client that reconnects more than 500 lines behind loses lines for good: once an event newer than the
  first line that did not fit into the history has been sent, that line is never sent.\<close>

theorem stream_gap_beyond_history:
  assumes ok: "store_ok db" and m: "0 < m" and history: "log_history (Some i) m db = Inr (history, db1)"
    and far: "500 < length (filter (\<lambda>l. m < int (log_ID l)) (lines_of i db))"
    and missed: "missed = filter (\<lambda>l. m < int (log_ID l)) (lines_of i db) ! 500"
    and newer: "int (log_ID missed) < fst ev"
  shows "int (log_ID missed) \<notin> set (map fst (fst (send_lines m (map (log_item h time_text) history @ ev # later))))"
proof -
  let ?ls = "filter (\<lambda>l. m < int (log_ID l)) (lines_of i db)" and ?H = "map (log_item h time_text) history"
  have H: "history = take 500 ?ls" using history history_after [OF ok m] by auto
  have sorted: "sorted_wrt (<) (map log_ID ?ls)" unfolding lines_of_def filter_filter by (rule sorted_ids [OF ok])
  have "log_ID l < log_ID missed" if mem: "l \<in> set history" for l
  proof -
    have "\<exists>k<length (take 500 ?ls). take 500 ?ls ! k = l" using mem unfolding H in_set_conv_nth .
    then obtain k where k: "k < length (take 500 ?ls)" "take 500 ?ls ! k = l" by (elim exE conjE)
    then have "k < 500" "?ls ! k = l" using far by simp_all
    moreover have "map log_ID ?ls ! k < map log_ID ?ls ! 500"
      using sorted_wrt_nth_less [OF sorted, of k 500] \<open>k < 500\<close> far by simp
    ultimately show ?thesis using far missed by simp
  qed
  then have old: "int (log_ID missed) \<notin> set (map fst (sent m ?H))"
    using sent_subset [of m ?H] by (fastforce simp: log_item_def)
  have pos: "0 < int (log_ID missed)" using far missed m nth_mem [of 500 ?ls] by auto
  define f where "f = snd (advanceLastEventID (final m ?H) (fst ev))"
  have f: "int (log_ID missed) \<le> f" "fst ev \<le> f" using newer pos by (auto simp: f_def advanceLastEventID_def)
  have "int (log_ID missed) \<notin> set (map fst (sent f later))"
    using sent_above [of _ f later] f(1) pos by fastforce
  then show ?thesis using old newer by (auto simp: send_lines_append f_def)
qed

lemma sample_line_ids: "log_ID (sample_line n) = n" "log_DeploymentID (sample_line n) = Some ''d1''"
  by (simp_all add: sample_line_def)

theorem stream_gap_beyond_history_witness:
  "\<exists>db history. log_history (Some ''d1'') 1 db = Inr (history, db) \<and> length history = 500
     \<and> 502 \<notin> set (map fst (fst (send_lines 1 (map (log_item sample_http (\<lambda>_. [])) history
         @ [event_item (\<lambda>_. []) (sample_event 503 ''d1'')]))))"
proof -
  obtain N :: nat where N: "N = 502" by blast
  define db where "db = sample_db\<lparr>deployment_logs := map sample_line [1..<Suc N]\<rparr>"
  have "log_check ''stdout'' ''pulled'' = None" by code_simp
  then have "logs_ok (map sample_line [1..<Suc N])"
    by (simp add: logs_ok_def o_def sample_line_def list_all_iff del: upt_Suc)
  moreover have "store_ok sample_db" by code_simp
  ultimately have ok: "store_ok db" by (simp add: store_ok_def db_def del: upt_Suc)
  have big: "2 + 500 < Suc N" using N by simp
  then have "[1..<Suc N] = 1 # [Suc 1..<Suc N]" by (intro upt_conv_Cons) simp
  then have "[1..<Suc N] = 1 # [2..<Suc N]" by (simp only: Suc_1)
  moreover have "filter (\<lambda>n. (1 :: int) < int n) [2..<Suc N] = [2..<Suc N]" by (auto simp: filter_id_conv)
  ultimately have "filter (\<lambda>n. (1 :: int) < int n) [1..<Suc N] = [2..<Suc N]" by (simp del: upt_Suc)
  then have lines: "filter (\<lambda>l. (1 :: int) < int (log_ID l)) (lines_of ''d1'' db) = map sample_line [2..<Suc N]"
    unfolding lines_of_def db_def by (simp add: filter_map o_def sample_line_ids sql_eq_def del: upt_Suc)
  let ?history = "take 500 (map sample_line [2..<Suc N])" and ?ev = "event_item (\<lambda>_. []) (sample_event 503 ''d1'')"
  have h: "log_history (Some ''d1'') 1 db = Inr (?history, db)" using history_after [OF ok, of 1 "''d1''"] lines by simp
  have len: "length (map sample_line [2..<Suc N]) = Suc N - 2" by (simp only: length_map length_upt)
  have nth: "map sample_line [2..<Suc N] ! 500 = sample_line 502"
    using nth_upt [OF big] len big by (simp del: upt_Suc)
  have far: "500 < length (filter (\<lambda>l. (1 :: int) < int (log_ID l)) (lines_of ''d1'' db))"
    unfolding lines len using big by simp
  have "502 \<notin> set (map fst (fst (send_lines 1 (map (log_item sample_http (\<lambda>_. [])) ?history @ [?ev]))))"
    using stream_gap_beyond_history [OF ok _ h far refl, of ?ev sample_http "\<lambda>_. []" "[]"]
    unfolding lines nth by (simp add: sample_line_ids event_item_def sample_event_def del: upt_Suc)
  moreover have "length ?history = 500" unfolding length_take len using big by simp
  ultimately show ?thesis using h by blast
qed

subsection \<open>What a client reads\<close>

text \<open>
  How a browser reads an event stream: lines end with a line feed, a carriage return or both; a field is
  a name, a colon and a value after an optional space; an empty line ends an event that has data.
\<close>

fun event_lines :: "string \<Rightarrow> string \<Rightarrow> string list" where
  "event_lines acc [] = []"
| "event_lines acc (c # s) =
     (if c = CHR 0x0A then acc # event_lines [] s
      else if c = CHR 0x0D then acc # event_lines [] (if HasPrefix s newline then tl s else s)
      else event_lines (acc @ [c]) s)"

definition field_value :: "string \<Rightarrow> string" where
  "field_value l = (let v = drop 1 (dropWhile (\<lambda>c. c \<noteq> CHR '':'') l) in if HasPrefix v '' '' then tl v else v)"

fun read_events :: "string \<Rightarrow> string \<Rightarrow> string list \<Rightarrow> string list \<Rightarrow> (string \<times> string \<times> string) list" where
  "read_events i e ds [] = []"
| "read_events i e ds (l # ls) =
     (let name = takeWhile (\<lambda>c. c \<noteq> CHR '':'') l in
      if l = [] then (if ds = [] then [] else [(i, if e = [] then ''message'' else e, Join ds newline)]) @ read_events i [] [] ls
      else if name = ''id'' then read_events (field_value l) e ds ls
      else if name = ''event'' then read_events i (field_value l) ds ls
      else if name = ''data'' then read_events i e (ds @ [field_value l]) ls
      else read_events i e ds ls)"

definition unbroken :: "string \<Rightarrow> bool" where
  "unbroken s \<longleftrightarrow> (\<forall>c\<in>set s. 32 \<le> byte c)"

lemma unbroken_simps [simp]:
  "unbroken []" "unbroken (c # s) \<longleftrightarrow> 32 \<le> byte c \<and> unbroken s" "unbroken (s @ t) \<longleftrightarrow> unbroken s \<and> unbroken t"
  by (auto simp: unbroken_def)

lemma event_lines_line: "unbroken l \<Longrightarrow> event_lines acc (l @ CHR 0x0A # s) = (acc @ l) # event_lines [] s"
  by (induction l arbitrary: acc) auto

lemma read_field:
  assumes "\<forall>c\<in>set name. c \<noteq> CHR '':''"
  shows "takeWhile (\<lambda>c. c \<noteq> CHR '':'') (name @ '': '' @ v) = name" "field_value (name @ '': '' @ v) = v"
proof -
  have "takeWhile (\<lambda>c. c \<noteq> CHR '':'') (name @ '': '' @ v) = name"
    "dropWhile (\<lambda>c. c \<noteq> CHR '':'') (name @ '': '' @ v) = '': '' @ v"
    using assms by (simp_all add: takeWhile_append2 dropWhile_append2)
  then show "takeWhile (\<lambda>c. c \<noteq> CHR '':'') (name @ '': '' @ v) = name" "field_value (name @ '': '' @ v) = v"
    by (simp_all add: field_value_def)
qed

lemma read_frame:
  assumes "unbroken i" "unbroken event" "event \<noteq> []" "unbroken (Marshal payload)"
  shows "read_events i0 [] [] (event_lines [] (writeSSEWithID i event payload @ rest))
    = (if TrimSpace i \<noteq> [] then i else i0, event, Marshal payload)
      # read_events (if TrimSpace i \<noteq> [] then i else i0) [] [] (event_lines [] rest)"
proof -
  let ?i = "if TrimSpace i \<noteq> [] then i else i0"
  have line: "event_lines [] ((name @ '': '' @ v) @ CHR 0x0A # s) = (name @ '': '' @ v) # event_lines [] s"
    if "unbroken name" "unbroken v" for name v s
    using that event_lines_line [of "name @ '': '' @ v" "[]" s] by simp
  have "event_lines [] (writeSSEWithID i event payload @ rest)
      = (if TrimSpace i \<noteq> [] then [''id'' @ '': '' @ i] else [])
        @ [''event'' @ '': '' @ event, ''data'' @ '': '' @ Marshal payload, []] @ event_lines [] rest"
    using line [of "''id''" i] line [of "''event''" event] line [of "''data''" "Marshal payload"] assms
    by (simp add: writeSSEWithID_def newline_def)
  moreover have "field_value (''id'' @ '': '' @ i) = i" "field_value (''event'' @ '': '' @ event) = event"
    "field_value (''data'' @ '': '' @ Marshal payload) = Marshal payload"
    using read_field(2) [of "''id''"] read_field(2) [of "''event''"] read_field(2) [of "''data''"] by simp_all
  ultimately show ?thesis using assms(3) by (simp add: Let_def)
qed

lemma digit_char_visible: "n < 16 \<Longrightarrow> 32 \<le> byte (digit_char n)"
  by (auto simp: digit_char_def byte_char_of)

lemma unbroken_FormatNat: "unbroken (FormatNat n)"
  using digits_rev_less [of 10 _ n] digit_char_visible by (fastforce simp: unbroken_def FormatNat_def)

lemma TrimSpace_FormatNat: "TrimSpace (FormatNat n) = FormatNat n"
proof (rule TrimSpace_no_space)
  show "\<not> IsSpace r" if "r \<in> set (runes (FormatNat n))" for r
    using that digits_rev_less [of 10 _ n] unfolding runes_ascii [OF ascii_FormatNat]
    by (fastforce simp: FormatNat_def digit_char_def byte_char_of IsSpace_ascii)
qed

lemma unbroken_hex: "unbroken (hex_digits k r)"
  using digits_rev_less [of 16 _ r] digit_char_visible
  by (fastforce simp: unbroken_def hex_digits_def pad_left_def)

lemma chunk_visible:
  assumes "k \<in> set (chunks s)" "\<not> (fst k = rune_error \<and> length (snd k) = 1)" "32 \<le> fst k"
  shows "unbroken (snd k)"
proof -
  have "snd k = encode_rune (fst k)" using chunk_canonical [OF assms(1)] assms(2) by (simp add: ill_formed_def)
  then show ?thesis using encode_rune_bytes [of _ "fst k"] assms(3) by (fastforce simp: unbroken_def byte_char_of)
qed

lemma unbroken_json_escape: "k \<in> set (chunks s) \<Longrightarrow> unbroken (json_escape k)"
  using unbroken_hex chunk_visible [of k s] by (auto simp: json_escape_def Let_def byte_char_of)

lemma unbroken_json_string: "unbroken (json_string s)"
  using unbroken_json_escape [of _ s] by (auto simp: json_string_def) (auto simp: unbroken_def)

lemma unbroken_lines:
  "unbroken (Marshal (log_json h time_text l))" "unbroken (Marshal (event_json time_text ev))"
  by (simp_all add: log_json_def event_json_def time_json_def unbroken_json_string unbroken_FormatNat split: option.splits)

text \<open>C29. A client reads from the stream exactly the lines that were sent, with their identifiers, whatever text
  the commands of a deployment print: no message can break the frame of its event or forge another.\<close>

theorem stream_read_back:
  assumes "\<And>x. x \<in> set items \<Longrightarrow> 0 < fst x"
    and "set items \<subseteq> range (log_item h time_text) \<union> range (event_item time_text)"
  shows "read_events i [] [] (event_lines [] (concat (map log_frame items)))
    = map (\<lambda>x. (FormatInt (fst x), ''log'', Marshal (snd x))) items"
  using assms
proof (induction items arbitrary: i)
  case (Cons x items)
  have pos: "0 < fst x" using Cons.prems(1) by simp
  have "unbroken (Marshal (snd x))"
    using Cons.prems(2) unbroken_lines by (auto simp: log_item_def event_item_def)
  moreover have digits: "unbroken (sseID (fst x))" using pos unbroken_FormatNat by (simp add: sseID_def FormatInt_def)
  moreover have "TrimSpace (sseID (fst x)) \<noteq> []"
    using pos TrimSpace_FormatNat by (simp add: sseID_def FormatInt_def FormatNat_nonempty)
  ultimately have "read_events i [] [] (event_lines [] (log_frame x @ concat (map log_frame items)))
      = (FormatInt (fst x), ''log'', Marshal (snd x)) # read_events (FormatInt (fst x)) [] [] (event_lines [] (concat (map log_frame items)))"
    using read_frame [of "sseID (fst x)" "''log''" "snd x"] pos by (simp add: log_frame_def sseID_def)
  then show ?case using Cons.IH Cons.prems by simp
qed simp

theorem stream_read_back_witness:
  "read_events [] [] [] (event_lines [] (concat (map log_frame
       [event_item (\<lambda>_. []) ((sample_event 7 ''d1'')\<lparr>ev_Message := [CHR 0x0A, CHR 0x0A] @ ''id: 9''\<rparr>)])))
   = [(''7'', ''log'', Marshal (event_json (\<lambda>_. []) ((sample_event 7 ''d1'')\<lparr>ev_Message := [CHR 0x0A, CHR 0x0A] @ ''id: 9''\<rparr>)))]"
proof -
  let ?ev = "(sample_event 7 ''d1'')\<lparr>ev_Message := [CHR 0x0A, CHR 0x0A] @ ''id: 9''\<rparr>"
  have fst: "fst (event_item (\<lambda>_. []) ?ev) = 7" "snd (event_item (\<lambda>_. []) ?ev) = event_json (\<lambda>_. []) ?ev"
    by (simp_all add: event_item_def sample_event_def)
  have "0 < fst x" if "x \<in> set [event_item (\<lambda>_. []) ?ev]" for x using that fst(1) by simp
  moreover have "set [event_item (\<lambda>_. []) ?ev] \<subseteq> range (log_item sample_http (\<lambda>_. [])) \<union> range (event_item (\<lambda>_. []))" by simp
  ultimately have "read_events [] [] [] (event_lines [] (concat (map log_frame [event_item (\<lambda>_. []) ?ev])))
      = [(FormatInt 7, ''log'', Marshal (event_json (\<lambda>_. []) ?ev))]"
    using stream_read_back [of "[event_item (\<lambda>_. []) ?ev]" sample_http "\<lambda>_. []" "[]"] by (simp only: list.map fst)
  moreover have "FormatInt 7 = ''7''" by code_simp
  ultimately show ?thesis by (simp only:)
qed

end
