(* ===== verification/Http_Guards.thy ===== *)
theory Http_Guards
  imports Http_Base
begin

text \<open>
  What stands before the handlers of \<^verbatim>\<open>internal/httpapi\<close>: the cache that recognizes repeated webhook
  deliveries (\<^verbatim>\<open>replay_cache.go\<close>), the rate limiter (\<^verbatim>\<open>rate_limit.go\<close>), the bearer token and the session
  cookie (\<^verbatim>\<open>auth.go\<close>) and the check of the origin (\<^verbatim>\<open>security.go\<close>). The cache and the limiter hold a lock
  during each operation, so that requests are served one after the other.
\<close>

subsection \<open>The replay cache\<close>

record replayCache =
  rc_limit :: int
  rc_seen :: "string set"
  rc_order :: "string list"

definition newReplayCache :: "int \<Rightarrow> replayCache" where
  "newReplayCache limit = \<lparr>rc_limit = (if limit < 1 then 1 else limit), rc_seen = {}, rc_order = []\<rparr>"

definition Seen :: "replayCache \<Rightarrow> string \<Rightarrow> bool \<times> replayCache" where
  "Seen c value0 =
     (let v = TrimSpace value0 in
      if v = [] then (False, c)
      else if v \<in> rc_seen c then (True, c)
      else let order = rc_order c @ [v]; c' = c\<lparr>rc_seen := insert v (rc_seen c), rc_order := order\<rparr>
           in (False, if rc_limit c < int (length order)
                      then c'\<lparr>rc_order := tl order, rc_seen := rc_seen c' - {hd order}\<rparr> else c'))"

subsection \<open>The rate limiter\<close>

text \<open>Times are nanoseconds. A client without a window has the zero time, which any window is past.\<close>

record rateWindow =
  rw_start :: int
  rw_count :: int

definition rate_step :: "int \<Rightarrow> int \<Rightarrow> int \<Rightarrow> rateWindow option \<Rightarrow> bool \<times> rateWindow" where
  "rate_step maxRequests window t stored =
     (let current = (case stored of
                       None \<Rightarrow> \<lparr>rw_start = t, rw_count = 0\<rparr>
                     | Some c \<Rightarrow> if window \<le> t - rw_start c then \<lparr>rw_start = t, rw_count = 0\<rparr> else c);
          counted = current\<lparr>rw_count := rw_count current + 1\<rparr>
      in (rw_count counted \<le> maxRequests, counted))"

definition rateLimit :: "int \<Rightarrow> int \<Rightarrow> string \<Rightarrow> int \<Rightarrow> (string \<Rightarrow> rateWindow option) \<Rightarrow> bool \<times> (string \<Rightarrow> rateWindow option)" where
  "rateLimit maxRequests window key t clients =
     (case rate_step maxRequests window t (clients key) of (allowed, w) \<Rightarrow> (allowed, clients(key \<mapsto> w)))"

text \<open>\<^verbatim>\<open>net.ParseIP\<close> and the text of the address, with the longest run of zero groups shortened.\<close>

definition dotted :: "nat \<Rightarrow> nat \<Rightarrow> nat \<Rightarrow> nat \<Rightarrow> string" where
  "dotted a b c d = Join (map FormatNat [a, b, c, d]) ''.''"

definition zero_run :: "nat list \<Rightarrow> nat \<Rightarrow> nat" where
  "zero_run gs i = length (takeWhile (\<lambda>g. g = 0) (drop i gs))"

definition longest_zeros :: "nat list \<Rightarrow> nat \<times> nat" where
  "longest_zeros gs = foldl (\<lambda>(s, n) i. if n < zero_run gs i then (i, zero_run gs i) else (s, n)) (0, 0) [0..<length gs]"

definition hex_group :: "nat \<Rightarrow> string" where
  "hex_group g = map digit_char (rev (digits_rev 16 g))"

definition v6_text :: "nat list \<Rightarrow> string" where
  "v6_text gs =
     (case longest_zeros gs of (s, n) \<Rightarrow>
        if n < 2 then Join (map hex_group gs) '':''
        else Join (map hex_group (take s gs)) '':'' @ ''::'' @ Join (map hex_group (drop (s + n) gs)) '':'')"

definition ParseIP_String :: "string \<Rightarrow> string option" where
  "ParseIP_String s =
     (case ParseAddr s of
        None \<Rightarrow> None
      | Some (V4 a b c d) \<Rightarrow> Some (dotted a b c d)
      | Some (V6 gs zone) \<Rightarrow>
          if zone \<noteq> [] then None
          else (case unmap_v4 (V6 gs zone) of V4 a b c d \<Rightarrow> Some (dotted a b c d) | V6 _ _ \<Rightarrow> Some (v6_text gs)))"

definition clientKey :: "http_request \<Rightarrow> string" where
  "clientKey r =
     (case ParseIP_String (req_RemoteAddr r) of
        Some ip \<Rightarrow> ip
      | None \<Rightarrow> (case SplitHostPort (req_RemoteAddr r) of Some (host, _) \<Rightarrow> host | None \<Rightarrow> req_RemoteAddr r))"

subsection \<open>Authentication\<close>

record auth_config =
  auth_Token :: string
  auth_Disabled :: bool

definition sessionCookieName :: string where
  "sessionCookieName = ''dm_session''"

definition sameHostOrigin :: "string \<Rightarrow> string \<Rightarrow> bool" where
  "sameHostOrigin origin host =
     EqualFold (TrimSpace (TrimPrefix (TrimPrefix origin ''http://'') ''https://'')) host"

definition validBearerToken :: "string \<Rightarrow> string \<Rightarrow> bool" where
  "validBearerToken header expected \<longleftrightarrow>
     HasPrefix header ''Bearer ''
     \<and> (let presented = TrimSpace (TrimPrefix header ''Bearer '') in presented \<noteq> [] \<and> presented = expected)"

definition validSessionCookie :: "http_request \<Rightarrow> string \<Rightarrow> bool" where
  "validSessionCookie r expected \<longleftrightarrow>
     (case req_cookie r sessionCookieName of None \<Rightarrow> False | Some v \<Rightarrow> v \<noteq> [] \<and> v = expected)"

definition validSessionRequest :: "http_request \<Rightarrow> string \<Rightarrow> bool" where
  "validSessionRequest r expected \<longleftrightarrow>
     validSessionCookie r expected
     \<and> (req_Method r \<in> {''GET'', ''HEAD'', ''OPTIONS''}
        \<or> (let origin = TrimSpace (req_header r ''Origin'')
           in HasPrefix (ToLower origin) ''https://'' \<and> sameHostOrigin origin (req_Host r)))"

text \<open>The middleware lets a request through to the next handler, or answers \<open>401\<close>.\<close>

definition requireAuth :: "string \<Rightarrow> http_request \<Rightarrow> 'b handler \<Rightarrow> 'b handler" where
  "requireAuth token r next_handler =
     (if \<not> validBearerToken (req_header r ''Authorization'') token \<and> \<not> validSessionRequest r token
      then State_Monad.return (401, Inl ''unauthorized'') else next_handler)"

record http_cookie =
  cookie_Name :: string
  cookie_Value :: string
  cookie_MaxAge :: int
  cookie_HttpOnly :: bool
  cookie_Secure :: bool

definition sessionCookie :: "bool \<Rightarrow> auth_config \<Rightarrow> string \<Rightarrow> int \<Rightarrow> http_cookie" where
  "sessionCookie tls auth v maxAge =
     \<lparr>cookie_Name = sessionCookieName, cookie_Value = v, cookie_MaxAge = maxAge, cookie_HttpOnly = True,
      cookie_Secure = (\<not> auth_Disabled auth \<or> tls)\<rparr>"

text \<open>The decoded token of the body, or \<open>None\<close> for a body that is not JSON.\<close>

definition login :: "bool \<Rightarrow> auth_config \<Rightarrow> string option \<Rightarrow> http_cookie reply" where
  "login tls auth body =
     (case body of
        None \<Rightarrow> (400, Inl ''invalid request body'')
      | Some token \<Rightarrow>
          if \<not> auth_Disabled auth \<and> token \<noteq> auth_Token auth then (401, Inl ''invalid token'')
          else (204, Inr (sessionCookie tls auth (auth_Token auth) (30 * 24 * 60 * 60))))"

definition logout :: "bool \<Rightarrow> auth_config \<Rightarrow> http_cookie reply" where
  "logout tls auth = (204, Inr (sessionCookie tls auth [] (- 1)))"

definition session :: "auth_config \<Rightarrow> http_request \<Rightarrow> bool" where
  "session auth r \<longleftrightarrow>
     auth_Disabled auth \<or> validBearerToken (req_header r ''Authorization'') (auth_Token auth)
     \<or> validSessionCookie r (auth_Token auth)"

end
