(* ===== verification/Http_Guards_Proofs.thy ===== *)
theory Http_Guards_Proofs
  imports Http_Guards
begin

text \<open>
  The replay cache recognizes a delivery until as many others as it holds have been accepted, the rate
  limiter bounds what a client can do in any interval, and authentication fails closed.
\<close>

subsection \<open>The replay cache\<close>

definition deliveries :: "replayCache \<Rightarrow> string list \<Rightarrow> replayCache" where
  "deliveries c vs = foldl (\<lambda>c v. snd (Seen c v)) c vs"

fun accepted :: "replayCache \<Rightarrow> string list \<Rightarrow> nat" where
  "accepted c [] = 0"
| "accepted c (v # vs) = (if \<not> fst (Seen c v) \<and> TrimSpace v \<noteq> [] then 1 else 0) + accepted (snd (Seen c v)) vs"

definition cache_ok :: "replayCache \<Rightarrow> bool" where
  "cache_ok c \<longleftrightarrow> rc_seen c = set (rc_order c) \<and> distinct (rc_order c) \<and> int (length (rc_order c)) \<le> rc_limit c \<and> 1 \<le> rc_limit c"

lemma Seen_fresh:
  assumes "cache_ok c" "TrimSpace v \<noteq> []" "TrimSpace v \<notin> rc_seen c"
  shows "Seen c v = (False, snd (Seen c v))" "rc_limit (snd (Seen c v)) = rc_limit c"
    "rc_order (snd (Seen c v)) = (if int (length (rc_order c)) = rc_limit c then tl (rc_order c @ [TrimSpace v]) else rc_order c @ [TrimSpace v])"
    "cache_ok (snd (Seen c v))"
proof -
  show "Seen c v = (False, snd (Seen c v))" "rc_limit (snd (Seen c v)) = rc_limit c"
    using assms by (auto simp: Seen_def Let_def)
  show "rc_order (snd (Seen c v)) = (if int (length (rc_order c)) = rc_limit c then tl (rc_order c @ [TrimSpace v]) else rc_order c @ [TrimSpace v])"
    using assms by (auto simp: Seen_def Let_def cache_ok_def)
  show "cache_ok (snd (Seen c v))"
    using assms by (cases "rc_order c") (auto simp: Seen_def Let_def cache_ok_def)
qed

lemma Seen_known: "TrimSpace v = [] \<or> TrimSpace v \<in> rc_seen c \<Longrightarrow> snd (Seen c v) = c"
  by (auto simp: Seen_def Let_def)

lemma fst_Seen: "fst (Seen c v) \<longleftrightarrow> TrimSpace v \<noteq> [] \<and> TrimSpace v \<in> rc_seen c"
  by (auto simp: Seen_def Let_def)

lemma Seen_ok: "cache_ok c \<Longrightarrow> cache_ok (snd (Seen c v))"
  using Seen_fresh(4) Seen_known by metis

lemma deliveries_ok: "cache_ok c \<Longrightarrow> cache_ok (deliveries c vs)"
  unfolding deliveries_def by (induction vs arbitrary: c) (auto intro: Seen_ok)

lemma newReplayCache_ok: "cache_ok (newReplayCache limit)"
  by (simp add: newReplayCache_def cache_ok_def)

lemma still_recognized:
  assumes "cache_ok c" "rc_order c = pre @ v # post" "int (length post) + int (accepted c vs) < rc_limit c"
  shows "v \<in> rc_seen (deliveries c vs)"
  using assms
proof (induction vs arbitrary: c pre post)
  case Nil
  then show ?case by (simp add: deliveries_def cache_ok_def)
next
  case (Cons x vs)
  have step: "deliveries c (x # vs) = deliveries (snd (Seen c x)) vs" by (simp add: deliveries_def)
  show ?case
  proof (cases "TrimSpace x = [] \<or> TrimSpace x \<in> rc_seen c")
    case True
    then show ?thesis using Cons Seen_known [OF True] fst_Seen [of c x] unfolding step by auto
  next
    case False
    note fresh = Seen_fresh [OF Cons.prems(1), of x]
    have acc: "accepted c (x # vs) = Suc (accepted (snd (Seen c x)) vs)" using False by (simp add: fst_Seen)
    have len: "int (length pre) + int (length post) + 1 \<le> rc_limit c" using Cons.prems(1,2) by (simp add: cache_ok_def)
    obtain pre' where "rc_order (snd (Seen c x)) = pre' @ v # (post @ [TrimSpace x])"
    proof (cases "int (length (rc_order c)) = rc_limit c")
      case True
      then have "pre \<noteq> []" using Cons.prems(2,3) acc by auto
      then show ?thesis using that [of "tl pre"] fresh(3) False True Cons.prems(2) by (cases pre) auto
    qed (use that [of pre] fresh(3) False Cons.prems(2) in auto)
    then show ?thesis unfolding step
      using False Cons.prems(3) acc fresh(2,4) by (intro Cons.IH) auto
  qed
qed

text \<open>C32. A webhook delivery that was accepted is recognized when it arrives again, until as many other
  deliveries have been accepted as the cache holds; and a delivery is only taken for a repetition of
  one that arrived before. The cache never holds more than its limit.\<close>

theorem replay_recognized:
  assumes "c = deliveries (newReplayCache limit) before" "TrimSpace v \<noteq> []"
  shows "(\<not> fst (Seen c v) \<and> int (accepted (snd (Seen c v)) vs) < max 1 limit
      \<longrightarrow> fst (Seen (deliveries (snd (Seen c v)) vs) v))
    \<and> (fst (Seen c v) \<longrightarrow> TrimSpace v \<in> TrimSpace ` set before) \<and> int (length (rc_order c)) \<le> max 1 limit"
proof -
  have ok: "cache_ok c" unfolding assms(1) by (intro deliveries_ok newReplayCache_ok)
  have limit: "rc_limit (deliveries c' vs) = rc_limit c'" for c' vs
  proof (induction vs arbitrary: c')
    case (Cons x vs)
    have "rc_limit (snd (Seen c' x)) = rc_limit c'" by (auto simp: Seen_def Let_def)
    then show ?case using Cons.IH by (simp add: deliveries_def)
  qed (simp add: deliveries_def)
  then have lim: "rc_limit c = max 1 limit" by (auto simp: assms(1) newReplayCache_def)
  have "rc_seen (deliveries c' vs) \<subseteq> rc_seen c' \<union> TrimSpace ` set vs" for c' vs
  proof (induction vs arbitrary: c')
    case (Cons x vs)
    have "rc_seen (snd (Seen c' x)) \<subseteq> insert (TrimSpace x) (rc_seen c')" by (auto simp: Seen_def Let_def)
    then show ?case using Cons.IH [of "snd (Seen c' x)"] by (auto simp: deliveries_def)
  qed (simp add: deliveries_def)
  from this [of "newReplayCache limit" before] have "rc_seen c \<subseteq> TrimSpace ` set before"
    by (auto simp: assms(1) newReplayCache_def)
  moreover have "fst (Seen (deliveries (snd (Seen c v)) vs) v)"
    if "\<not> fst (Seen c v)" "int (accepted (snd (Seen c v)) vs) < max 1 limit"
  proof -
    have new: "TrimSpace v \<notin> rc_seen c" using that(1) assms(2) by (simp add: fst_Seen)
    note fresh = Seen_fresh [OF ok assms(2) new]
    have "\<exists>pre. rc_order (snd (Seen c v)) = pre @ TrimSpace v # []" using fresh(3) ok by (cases "rc_order c") (auto simp: cache_ok_def)
    then obtain pre where "rc_order (snd (Seen c v)) = pre @ TrimSpace v # []" by blast
    from still_recognized [OF fresh(4) this, of vs] have "TrimSpace v \<in> rc_seen (deliveries (snd (Seen c v)) vs)"
      using that(2) lim fresh(2) by simp
    then show ?thesis using assms(2) by (simp add: fst_Seen)
  qed
  ultimately show ?thesis using ok lim by (auto simp: fst_Seen cache_ok_def)
qed

theorem replay_recognized_witness:
  "let c = snd (Seen (deliveries (newReplayCache 2) [''a'']) ''b'') in
   fst (Seen (deliveries c [''c'']) ''b'') \<and> int (length (rc_order (deliveries (newReplayCache 2) [''a'']))) \<le> max 1 2"
proof -
  have "TrimSpace ''b'' \<noteq> []" "\<not> fst (Seen (deliveries (newReplayCache 2) [''a'']) ''b'')"
    "int (accepted (snd (Seen (deliveries (newReplayCache 2) [''a'']) ''b'')) [''c'']) < max 1 2" by code_simp+
  then show ?thesis using replay_recognized [OF refl, of "''b''" 2 "[''a'']" "[''c'']"] by (simp only: Let_def simp_thms)
qed

subsection \<open>The rate limiter\<close>

text \<open>The decisions on a sequence of requests, and those on the requests of one client.\<close>

fun decisions :: "int \<Rightarrow> int \<Rightarrow> (string \<Rightarrow> rateWindow option) \<Rightarrow> (string \<times> int) list \<Rightarrow> (string \<times> int \<times> bool) list" where
  "decisions maxRequests window clients [] = []"
| "decisions maxRequests window clients ((key, t) # reqs) =
     (case rateLimit maxRequests window key t clients of
        (allowed, clients') \<Rightarrow> (key, t, allowed) # decisions maxRequests window clients' reqs)"

fun client_decisions :: "int \<Rightarrow> int \<Rightarrow> rateWindow option \<Rightarrow> int list \<Rightarrow> (int \<times> bool) list" where
  "client_decisions maxRequests window stored [] = []"
| "client_decisions maxRequests window stored (t # ts) =
     (case rate_step maxRequests window t stored of
        (allowed, w) \<Rightarrow> (t, allowed) # client_decisions maxRequests window (Some w) ts)"

lemma decisions_of_client:
  "map snd (filter (\<lambda>d. fst d = key) (decisions maxRequests window clients reqs))
   = client_decisions maxRequests window (clients key) (map snd (filter (\<lambda>r. fst r = key) reqs))"
  by (induction reqs arbitrary: clients) (auto simp: rateLimit_def split: prod.splits)

abbreviation allowed_before :: "int \<Rightarrow> (int \<times> bool) list \<Rightarrow> nat" where
  "allowed_before b ds \<equiv> length (filter (\<lambda>d. snd d \<and> fst d < b) ds)"

lemma allowed_times: "d \<in> set (client_decisions n w stored ts) \<Longrightarrow> fst d \<in> set ts"
  by (induction ts arbitrary: stored) (auto split: prod.splits)

lemma none_before: "(\<And>t. t \<in> set ts \<Longrightarrow> b \<le> t) \<Longrightarrow> allowed_before b (client_decisions n w stored ts) = 0"
  using allowed_times [of _ n w stored ts] by (fastforce simp: filter_empty_conv)

lemma within_window:
  assumes "sorted ts" "\<And>t. t \<in> set ts \<Longrightarrow> rw_start c \<le> t" "b \<le> rw_start c + w" "0 \<le> rw_count c"
  shows "allowed_before b (client_decisions n w (Some c) ts) \<le> nat (n - rw_count c)"
  using assms
proof (induction ts arbitrary: c)
  case (Cons t ts)
  show ?case
  proof (cases "t < rw_start c + w")
    case True
    let ?c = "c\<lparr>rw_count := rw_count c + 1\<rparr>"
    have "allowed_before b (client_decisions n w (Some ?c) ts) \<le> nat (n - rw_count ?c)"
      using Cons.prems by (intro Cons.IH) auto
    then show ?thesis using True by (auto simp: rate_step_def Let_def)
  next
    case False
    then have "allowed_before b (client_decisions n w (Some c) (t # ts)) = 0"
      using Cons.prems by (intro none_before) auto
    then show ?thesis by linarith
  qed
qed simp

lemma two_windows:
  assumes "sorted ts" "\<And>t. t \<in> set ts \<Longrightarrow> rw_start c \<le> t" "b \<le> rw_start c + 2 * w" "0 \<le> rw_count c"
  shows "allowed_before b (client_decisions n w (Some c) ts) \<le> nat (n - rw_count c) + nat n"
  using assms
proof (induction ts arbitrary: c)
  case (Cons t ts)
  show ?case
  proof (cases "t < rw_start c + w")
    case True
    let ?c = "c\<lparr>rw_count := rw_count c + 1\<rparr>"
    have "allowed_before b (client_decisions n w (Some ?c) ts) \<le> nat (n - rw_count ?c) + nat n"
      using Cons.prems by (intro Cons.IH) auto
    then show ?thesis using True by (auto simp: rate_step_def Let_def)
  next
    case False
    let ?c = "\<lparr>rw_start = t, rw_count = 1\<rparr>"
    have "allowed_before b (client_decisions n w (Some ?c) ts) \<le> nat (n - rw_count ?c)"
      using Cons.prems False by (intro within_window) auto
    then show ?thesis using False by (auto simp: rate_step_def Let_def)
  qed
qed simp

lemma client_bound:
  assumes "sorted ts" "0 < w" "case stored of None \<Rightarrow> True | Some c \<Rightarrow> 0 \<le> rw_count c \<and> (\<forall>t\<in>set ts. rw_start c \<le> t)"
  shows "length (filter (\<lambda>d. snd d \<and> a \<le> fst d \<and> fst d < a + w) (client_decisions n w stored ts)) \<le> 2 * nat n"
  using assms
proof (induction ts arbitrary: stored)
  case (Cons t ts)
  obtain al c where step: "rate_step n w t stored = (al, c)" by (metis surj_pair)
  have c: "0 \<le> rw_count c" "rw_start c \<le> t"
    using step Cons.prems(3) by (auto simp: rate_step_def Let_def split: option.splits if_splits)
  show ?case
  proof (cases "t < a")
    case True
    have "length (filter (\<lambda>d. snd d \<and> a \<le> fst d \<and> fst d < a + w) (client_decisions n w (Some c) ts)) \<le> 2 * nat n"
      using Cons.prems c by (intro Cons.IH) auto
    then show ?thesis using True step by simp
  next
    case False
    have "a \<le> fst d" if "d \<in> set (client_decisions n w stored (t # ts))" for d
      using allowed_times [OF that] Cons.prems(1) False by auto
    then have same: "length (filter (\<lambda>d. snd d \<and> a \<le> fst d \<and> fst d < a + w) (client_decisions n w stored (t # ts)))
        = allowed_before (a + w) (client_decisions n w stored (t # ts))"
      by (intro arg_cong [of _ _ length] filter_cong refl) blast
    show ?thesis
    proof (cases "\<exists>c0. stored = Some c0 \<and> t < rw_start c0 + w")
      case True
      then obtain c0 where c0: "stored = Some c0" "t < rw_start c0 + w" by blast
      have "allowed_before (a + w) (client_decisions n w stored (t # ts)) \<le> nat (n - rw_count c0) + nat n"
        unfolding c0(1) using Cons.prems c0 False by (intro two_windows) auto
      then show ?thesis using same Cons.prems(3) c0(1) by (auto simp: nat_diff_distrib')
    next
      case fresh: False
      then have c_new: "c = \<lparr>rw_start = t, rw_count = 1\<rparr>" "al = (1 \<le> n)"
        using step by (auto simp: rate_step_def Let_def split: option.splits if_splits)
      have "allowed_before (a + w) (client_decisions n w (Some c) ts) \<le> nat (n - rw_count c)"
        using Cons.prems(1) False c_new by (intro within_window) auto
      then show ?thesis using same step c_new by (auto split: if_splits)
    qed
  qed
qed simp

text \<open>C33. In any interval as long as the window, no client gets more than twice the limit through, however the
  requests of clients interleave; the factor two is the price of windows that start with a request.\<close>

theorem rate_limit_bound:
  assumes "sorted (map snd reqs)" "0 < window"
  shows "length (filter (\<lambda>(k, t, allowed). k = key \<and> allowed \<and> a \<le> t \<and> t < a + window)
      (decisions maxRequests window (\<lambda>_. None) reqs)) \<le> 2 * nat maxRequests"
proof -
  let ?ds = "decisions maxRequests window (\<lambda>_. None) reqs"
  let ?p = "\<lambda>d. snd d \<and> a \<le> fst d \<and> fst d < a + window"
  have "filter (\<lambda>(k, t, allowed). k = key \<and> allowed \<and> a \<le> t \<and> t < a + window) ?ds
      = filter (\<lambda>d. ?p (snd d)) (filter (\<lambda>d. fst d = key) ?ds)"
    unfolding filter_filter by (intro filter_cong refl) (auto split: prod.splits)
  then have "length (filter (\<lambda>(k, t, allowed). k = key \<and> allowed \<and> a \<le> t \<and> t < a + window) ?ds)
      = length (filter ?p (map snd (filter (\<lambda>d. fst d = key) ?ds)))" by (simp add: filter_map o_def)
  also have "\<dots> \<le> 2 * nat maxRequests"
    unfolding decisions_of_client using assms by (intro client_bound) (auto simp: sorted_map intro: sorted_wrt_filter)
  finally show ?thesis .
qed

theorem rate_limit_bound_witness:
  "length (filter (\<lambda>(k, t, allowed). k = ''10.0.0.7'' \<and> allowed \<and> 9 \<le> t \<and> t < 9 + 10)
      (decisions 1 10 (\<lambda>_. None) [(''10.0.0.7'', 9), (''10.0.0.8'', 9), (''10.0.0.7'', 10), (''10.0.0.7'', 12)])) \<le> 2"
  using rate_limit_bound [of "[(''10.0.0.7'', 9), (''10.0.0.8'', 9), (''10.0.0.7'', 10), (''10.0.0.7'', 12)]" 10
      "''10.0.0.7''" 9 1] by simp

subsection \<open>Authentication\<close>

text \<open>With no token configured nobody gets through.\<close>

lemma requireAuth_no_token: "requireAuth [] r handler = State_Monad.return (401, Inl ''unauthorized'')"
  by (auto simp: requireAuth_def validBearerToken_def validSessionRequest_def validSessionCookie_def Let_def split: option.splits)

text \<open>The cookie of a login opens a session, and that of a logout does not.\<close>

lemma login_session:
  assumes "login tls auth (Some (auth_Token auth)) = (204, Inr cookie)" "auth_Token auth \<noteq> []"
    "req_cookie r (cookie_Name cookie) = Some (cookie_Value cookie)" "req_Method r = ''GET''"
  shows "session auth r" "requireAuth (auth_Token auth) r handler = handler"
  using assms by (auto simp: login_def session_def requireAuth_def validSessionRequest_def validSessionCookie_def
      sessionCookie_def split: option.splits)

lemma logout_session:
  assumes "logout tls auth = (204, Inr cookie)" "req_cookie r sessionCookieName = Some (cookie_Value cookie)"
  shows "\<not> validSessionCookie r (auth_Token auth)"
  using assms by (auto simp: logout_def validSessionCookie_def sessionCookie_def)

end
