(* ===== verification/Go_Json_Fields.thy ===== *)
theory Go_Json_Fields
  imports Go_Json_Proofs
begin

text \<open>
  More of decoding JSON into Go structures: fields that are booleans, structures and slices. A value of
  another type is an error, null leaves a field alone. When a key is repeated, a nested structure gets
  the members of all its values in turn, and a slice the elements of the last one.
\<close>

fun bool_field :: "string \<Rightarrow> (string \<times> json) list \<Rightarrow> bool \<Rightarrow> bool option" where
  "bool_field name [] v = Some v"
| "bool_field name ((k, j) # kvs) v =
     (if fold_key k = fold_key name then
        (case j of
           JBool b \<Rightarrow> bool_field name kvs b
         | JNull \<Rightarrow> bool_field name kvs v
         | _ \<Rightarrow> None)
      else bool_field name kvs v)"

fun struct_field :: "string \<Rightarrow> (string \<times> json) list \<Rightarrow> (string \<times> json) list \<Rightarrow> (string \<times> json) list option" where
  "struct_field name [] ms = Some ms"
| "struct_field name ((k, j) # kvs) ms =
     (if fold_key k = fold_key name then
        (case object_members j of
           None \<Rightarrow> None
         | Some ms' \<Rightarrow> struct_field name kvs (ms @ ms'))
      else struct_field name kvs ms)"

fun slice_field :: "string \<Rightarrow> (string \<times> json) list \<Rightarrow> json list \<Rightarrow> json list option" where
  "slice_field name [] vs = Some vs"
| "slice_field name ((k, j) # kvs) vs =
     (if fold_key k = fold_key name then
        (case array_items j of
           None \<Rightarrow> None
         | Some vs' \<Rightarrow> slice_field name kvs vs')
      else slice_field name kvs vs)"

fun json_text :: "json \<Rightarrow> string option" where
  "json_text (JStr s) = Some s"
| "json_text JNull = Some []"
| "json_text _ = None"

text \<open>Numbers in fields of type \<open>int64\<close>; and a slice of structures as the whole document.\<close>

fun int64_field :: "string \<Rightarrow> (string \<times> json) list \<Rightarrow> int \<Rightarrow> int option" where
  "int64_field name [] v = Some v"
| "int64_field name ((k, j) # kvs) v =
     (if fold_key k = fold_key name then
        (case j of
           JNum n \<Rightarrow> Option.bind (ParseInt n 64) (int64_field name kvs)
         | JNull \<Rightarrow> int64_field name kvs v
         | _ \<Rightarrow> None)
      else int64_field name kvs v)"

definition decode_structs :: "((string \<times> json) list \<Rightarrow> 'a option) \<Rightarrow> json \<Rightarrow> 'a list option" where
  "decode_structs dec j =
     Option.bind (array_items j) (\<lambda>vs.
     Option.bind (all_some (map object_members vs)) (\<lambda>objects. all_some (map dec objects)))"

definition strings_field :: "string \<Rightarrow> (string \<times> json) list \<Rightarrow> string list option" where
  "strings_field name kvs = Option.bind (slice_field name kvs []) (\<lambda>vs. all_some (map json_text vs))"

definition structs_field :: "string \<Rightarrow> (string \<times> json) list \<Rightarrow> (string \<times> json) list list option" where
  "structs_field name kvs = Option.bind (slice_field name kvs []) (\<lambda>vs. all_some (map object_members vs))"

lemma all_some_map_Some [simp]: "all_some (map (\<lambda>x. Some (f x)) xs) = Some (map f xs)"
  by (induction xs) simp_all

lemma all_some_texts [simp]: "all_some (map (json_text \<circ> JStr) xs) = Some xs"
  by (induction xs) simp_all

lemma all_some_length: "all_some xs = Some ys \<Longrightarrow> length ys = length xs"
  by (induction xs arbitrary: ys rule: all_some.induct) auto

lemma all_some_nth: "all_some xs = Some ys \<Longrightarrow> n < length xs \<Longrightarrow> xs ! n = Some (ys ! n)"
  by (induction xs arbitrary: ys n rule: all_some.induct) (auto simp: nth_Cons split: nat.splits)

end
