(* ===== verification/Go_Sha256.thy ===== *)
theory Go_Sha256
  imports Go_Strings "HOL-Library.Word"
begin

text \<open>
  The packages \<^verbatim>\<open>crypto/sha256\<close>, \<^verbatim>\<open>crypto/hmac\<close> and \<^verbatim>\<open>encoding/hex\<close> of Go, as far as the signatures of webhooks use
  them: SHA-256 on 32-bit words, the keyed hash of RFC 2104, and hexadecimal text.
\<close>

unbundle bit_operations_syntax

type_synonym word32 = "32 word"

subsection \<open>SHA-256\<close>

definition round_constants :: "word32 list" where
  "round_constants = [
    1116352408, 1899447441, 3049323471, 3921009573, 961987163, 1508970993, 2453635748, 2870763221,
    3624381080, 310598401, 607225278, 1426881987, 1925078388, 2162078206, 2614888103, 3248222580,
    3835390401, 4022224774, 264347078, 604807628, 770255983, 1249150122, 1555081692, 1996064986,
    2554220882, 2821834349, 2952996808, 3210313671, 3336571891, 3584528711, 113926993, 338241895,
    666307205, 773529912, 1294757372, 1396182291, 1695183700, 1986661051, 2177026350, 2456956037,
    2730485921, 2820302411, 3259730800, 3345764771, 3516065817, 3600352804, 4094571909, 275423344,
    430227734, 506948616, 659060556, 883997877, 958139571, 1322822218, 1537002063, 1747873779,
    1955562222, 2024104815, 2227730452, 2361852424, 2428436474, 2756734187, 3204031479, 3329325298]"

definition initial_hash :: "word32 list" where
  "initial_hash = [1779033703, 3144134277, 1013904242, 2773480762,
    1359893119, 2600822924, 528734635, 1541459225]"

fun be_words :: "string \<Rightarrow> word32 list" where
  "be_words (a # b # c # d # s) =
     of_nat (byte a * 16777216 + byte b * 65536 + byte c * 256 + byte d) # be_words s"
| "be_words _ = []"

definition word_bytes :: "word32 \<Rightarrow> string" where
  "word_bytes w = map (\<lambda>k. char_of (unat w div 256 ^ k)) [3, 2, 1, 0]"

definition length_bytes :: "nat \<Rightarrow> string" where
  "length_bytes n = map (\<lambda>k. char_of (8 * n div 256 ^ k)) [7, 6, 5, 4, 3, 2, 1, 0]"

definition padded :: "string \<Rightarrow> string" where
  "padded s = s @ [CHR 0x80] @ replicate ((119 - length s mod 64) mod 64) (CHR 0x00) @ length_bytes (length s)"

text \<open>The message schedule, kept in reverse: the next word depends on those 2, 7, 15 and 16 places back.\<close>

fun extend_schedule :: "nat \<Rightarrow> word32 list \<Rightarrow> word32 list" where
  "extend_schedule 0 ws = ws"
| "extend_schedule (Suc n) ws =
     (let x = ws ! 1; y = ws ! 14;
          s1 = word_rotr 17 x XOR word_rotr 19 x XOR drop_bit 10 x;
          s0 = word_rotr 7 y XOR word_rotr 18 y XOR drop_bit 3 y
      in extend_schedule n ((s1 + ws ! 6 + s0 + ws ! 15) # ws))"

definition sha_round :: "word32 list \<Rightarrow> word32 \<times> word32 \<Rightarrow> word32 list" where
  "sha_round st kw =
     (case st of
        [a, b, c, d, e, f, g, h] \<Rightarrow>
          (let t1 = h + (word_rotr 6 e XOR word_rotr 11 e XOR word_rotr 25 e) + ((e AND f) XOR (NOT e AND g)) + fst kw + snd kw;
               t2 = (word_rotr 2 a XOR word_rotr 13 a XOR word_rotr 22 a) + ((a AND b) XOR (a AND c) XOR (b AND c))
           in [t1 + t2, a, b, c, d + t1, e, f, g])
      | _ \<Rightarrow> st)"

definition compress :: "word32 list \<Rightarrow> word32 list \<Rightarrow> word32 list" where
  "compress st block =
     map2 (+) st (foldl sha_round st (zip round_constants (rev (extend_schedule 48 (rev block)))))"

fun hash_blocks :: "nat \<Rightarrow> word32 list \<Rightarrow> word32 list \<Rightarrow> word32 list" where
  "hash_blocks 0 st ws = st"
| "hash_blocks (Suc n) st ws = hash_blocks n (compress st (take 16 ws)) (drop 16 ws)"

definition Sum256 :: "string \<Rightarrow> string" where
  "Sum256 s =
     (let ws = be_words (padded s) in concat (map word_bytes (hash_blocks (length ws div 16) initial_hash ws)))"

subsection \<open>The keyed hash\<close>

definition block_key :: "string \<Rightarrow> string" where
  "block_key key = (let k = (if 64 < length key then Sum256 key else key) in k @ replicate (64 - length k) (CHR 0x00))"

definition xor_byte :: "nat \<Rightarrow> char \<Rightarrow> char" where
  "xor_byte n c = char_of (n XOR byte c)"

definition hmac_sha256 :: "string \<Rightarrow> string \<Rightarrow> string" where
  "hmac_sha256 key message =
     (let k = block_key key in Sum256 (map (xor_byte 0x5c) k @ Sum256 (map (xor_byte 0x36) k @ message)))"

subsection \<open>Hexadecimal text\<close>

definition hex_value :: "char \<Rightarrow> nat option" where
  "hex_value c =
     (let n = byte c in
      if 48 \<le> n \<and> n \<le> 57 then Some (n - 48)
      else if 97 \<le> n \<and> n \<le> 102 then Some (n - 87)
      else if 65 \<le> n \<and> n \<le> 70 then Some (n - 55)
      else None)"

fun hex_DecodeString :: "string \<Rightarrow> string option" where
  "hex_DecodeString [] = Some []"
| "hex_DecodeString [c] = None"
| "hex_DecodeString (c # d # s) =
     (case (hex_value c, hex_value d) of
        (Some x, Some y) \<Rightarrow> map_option (Cons (char_of (16 * x + y))) (hex_DecodeString s)
      | _ \<Rightarrow> None)"

definition hex_EncodeToString :: "string \<Rightarrow> string" where
  "hex_EncodeToString s = concat (map (\<lambda>c. [digit_char (byte c div 16), digit_char (byte c mod 16)]) s)"

subsection \<open>Lengths and round trips\<close>

lemma length_compress: "length st = 8 \<Longrightarrow> length (compress st block) \<le> 8"
  by (simp add: compress_def)

lemma length_sha_round [simp]: "length (sha_round st kw) = length st"
  by (auto simp: sha_round_def Let_def split: list.splits)

lemma length_foldl_round [simp]: "length (foldl sha_round st kws) = length st"
  by (induction kws arbitrary: st) simp_all

lemma length_hash_blocks [simp]: "length (hash_blocks n st ws) = length st"
  by (induction n arbitrary: st ws) (simp_all add: compress_def)

text \<open>The padded message is a whole number of blocks of 64 bytes, with at least nine bytes of padding.\<close>

lemma length_padded: "64 dvd length (padded s)" "length s + 9 \<le> length (padded s)"
proof -
  define m q where "m = length s mod 64" and "q = length s div 64"
  have s: "length s = 64 * q + m" "m < 64" by (simp_all add: m_def q_def)
  have "(119 - m) mod 64 = (if m \<le> 55 then 55 - m else 119 - m)"
    using s(2) mod_if [of "119 - m" 64] by auto
  then have "length (padded s) = (if m \<le> 55 then 64 * (q + 1) else 64 * (q + 2))"
    using s by (auto simp: padded_def length_bytes_def)
  then show "64 dvd length (padded s)" by (metis dvd_triv_left)
  show "length s + 9 \<le> length (padded s)" by (simp add: padded_def length_bytes_def)
qed

lemma length_Sum256 [simp]: "length (Sum256 s) = 32"
proof -
  have "length (concat (map word_bytes ws)) = 4 * length ws" for ws
    by (induction ws) (simp_all add: word_bytes_def)
  then show ?thesis by (simp add: Sum256_def Let_def initial_hash_def)
qed

lemma length_hmac_sha256 [simp]: "length (hmac_sha256 key message) = 32"
  by (simp add: hmac_sha256_def Let_def)

lemma hex_value_digit: "n < 16 \<Longrightarrow> hex_value (digit_char n) = Some n"
  by (auto simp: hex_value_def digit_char_def byte_char_of)

lemma hex_decode_encode: "hex_DecodeString (hex_EncodeToString s) = Some s"
proof (induction s)
  case (Cons c s)
  have "byte c < 256" by (rule byte_less)
  then have "byte c div 16 < 16" by linarith
  then show ?case using Cons
    by (simp add: hex_EncodeToString_def hex_value_digit char_of_byte)
qed (simp add: hex_EncodeToString_def)

end
