(* ===== verification/Github_Hook.thy ===== *)
theory Github_Hook
  imports Go_Json_Fields Go_Sha256 Go_Regexp String_Util
begin

text \<open>
  The package \<^verbatim>\<open>internal/githubhook\<close>: reading the push event of a GitHub webhook and checking its signature.
\<close>

subsection \<open>The payload\<close>

record push_commit =
  pc_Added :: "string list"
  pc_Modified :: "string list"
  pc_Removed :: "string list"

record push_payload =
  pp_Ref :: string
  pp_After :: string
  pp_Deleted :: bool
  pp_FullName :: string
  pp_HTMLURL :: string
  pp_CloneURL :: string
  pp_SSHURL :: string
  pp_PusherName :: string
  pp_SenderLogin :: string
  pp_Commits :: "push_commit list"

definition decode_commit :: "(string \<times> json) list \<Rightarrow> push_commit option" where
  "decode_commit kvs =
     Option.bind (strings_field ''added'' kvs) (\<lambda>added.
     Option.bind (strings_field ''modified'' kvs) (\<lambda>modified.
     Option.bind (strings_field ''removed'' kvs) (\<lambda>removed.
       Some \<lparr>pc_Added = added, pc_Modified = modified, pc_Removed = removed\<rparr>)))"

definition decode_push :: "json \<Rightarrow> push_payload option" where
  "decode_push j =
     Option.bind (object_members j) (\<lambda>kvs.
     Option.bind (string_field ''ref'' kvs []) (\<lambda>ref.
     Option.bind (string_field ''after'' kvs []) (\<lambda>after.
     Option.bind (bool_field ''deleted'' kvs False) (\<lambda>deleted.
     Option.bind (struct_field ''repository'' kvs []) (\<lambda>repository.
     Option.bind (string_field ''full_name'' repository []) (\<lambda>full_name.
     Option.bind (string_field ''html_url'' repository []) (\<lambda>html_url.
     Option.bind (string_field ''clone_url'' repository []) (\<lambda>clone_url.
     Option.bind (string_field ''ssh_url'' repository []) (\<lambda>ssh_url.
     Option.bind (struct_field ''pusher'' kvs []) (\<lambda>pusher.
     Option.bind (string_field ''name'' pusher []) (\<lambda>pusher_name.
     Option.bind (struct_field ''sender'' kvs []) (\<lambda>sender.
     Option.bind (string_field ''login'' sender []) (\<lambda>sender_login.
     Option.bind (structs_field ''commits'' kvs) (\<lambda>commits.
     Option.bind (all_some (map decode_commit commits)) (\<lambda>commits.
       Some \<lparr>pp_Ref = ref, pp_After = after, pp_Deleted = deleted, pp_FullName = full_name, pp_HTMLURL = html_url,
             pp_CloneURL = clone_url, pp_SSHURL = ssh_url, pp_PusherName = pusher_name, pp_SenderLogin = sender_login,
             pp_Commits = commits\<rparr>)))))))))))))))"

record push =
  push_Branch :: string
  push_CommitSHA :: string
  push_Actor :: string
  push_Deleted :: bool
  push_Repositories :: "string list"
  push_ChangedPaths :: "string list"

subsection \<open>Names of repositories\<close>

definition r_name :: "nat \<Rightarrow> bool" where
  "r_name r \<longleftrightarrow> r_alnum r \<or> one_of ''_.-'' r"

definition owner_and_name :: matcher where
  "owner_and_name = m_seqs [m_plus (m_set r_name), m_lit ''/'', m_plus (m_set r_name)]"

definition githubFullNamePattern :: matcher where
  "githubFullNamePattern = owner_and_name"

definition githubRemotePattern :: matcher where
  "githubRemotePattern =
     m_alt (m_seqs [m_lit ''git@github.com:'', owner_and_name, m_lit ''.git''])
           (m_seqs [m_lit ''https://github.com/'', owner_and_name, m_opt (m_lit ''.git'')])"

definition validGitHubFullName :: "string \<Rightarrow> bool" where
  "validGitHubFullName v \<longleftrightarrow> full_match githubFullNamePattern v"

text \<open>The set of the aliases seen so far is the set of the list.\<close>

definition appendGitHubAlias :: "string list \<Rightarrow> string \<Rightarrow> string list" where
  "appendGitHubAlias aliases v =
     (if \<not> full_match githubRemotePattern v then aliases
      else if v \<in> set aliases then aliases
      else aliases @ [v])"

definition repositoryAliases :: "push_payload \<Rightarrow> string list" where
  "repositoryAliases payload =
     (let fullName = TrimSpace (pp_FullName payload);
          aliases = (if validGitHubFullName fullName then
                       foldl appendGitHubAlias [] [''git@github.com:'' @ fullName @ ''.git'', ''https://github.com/'' @ fullName,
                         ''https://github.com/'' @ fullName @ ''.git'']
                     else [])
      in foldl appendGitHubAlias aliases (map TrimSpace [pp_SSHURL payload, pp_CloneURL payload, pp_HTMLURL payload]))"

subsection \<open>Reading a push\<close>

fun add_paths :: "string list \<Rightarrow> string list \<Rightarrow> string list" where
  "add_paths paths [] = paths"
| "add_paths paths (v # vs) =
     (let t = TrimSpace v in
      if t = [] then add_paths paths vs
      else if t \<in> set paths then add_paths paths vs
      else add_paths (paths @ [t]) vs)"

definition changedPaths :: "push_payload \<Rightarrow> string list" where
  "changedPaths payload =
     foldl (\<lambda>paths c. foldl add_paths paths [pc_Added c, pc_Modified c, pc_Removed c]) [] (pp_Commits payload)"

text \<open>The text of the errors of the JSON decoder is a parameter.\<close>

definition ParsePush :: "(string \<Rightarrow> go_error) \<Rightarrow> string \<Rightarrow> go_error + push" where
  "ParsePush json_err body =
     (case Option.bind (decode_json body) decode_push of
        None \<Rightarrow> Inl (json_err body)
      | Some payload \<Rightarrow>
          (let branch = TrimSpace (TrimPrefix (pp_Ref payload) ''refs/heads/'');
               repositories = repositoryAliases payload;
               login = TrimSpace (pp_SenderLogin payload)
           in if branch = [] \<or> branch = pp_Ref payload then Inl (Errorf ''push ref must be a branch'')
              else if repositories = [] then Inl (Errorf ''repository is required'')
              else Inr \<lparr>push_Branch = branch, push_CommitSHA = TrimSpace (pp_After payload),
                     push_Actor = (if login = [] then TrimSpace (pp_PusherName payload) else login),
                     push_Deleted = pp_Deleted payload, push_Repositories = repositories,
                     push_ChangedPaths = changedPaths payload\<rparr>))"

subsection \<open>Signatures\<close>

definition VerifySignature :: "string \<Rightarrow> string \<Rightarrow> string \<Rightarrow> bool" where
  "VerifySignature secret0 body signature0 \<longleftrightarrow>
     (let secret = TrimSpace secret0; signature = TrimSpace signature0 in
      if secret = [] \<or> signature = [] then False
      else if \<not> HasPrefix signature ''sha256='' then False
      else (let expected = hmac_sha256 secret body in
            case hex_DecodeString (TrimPrefix signature ''sha256='') of
              None \<Rightarrow> False
            | Some actual \<Rightarrow> actual = expected))"

end
