(* ===== verification/Github_Connector.thy ===== *)
theory Github_Connector
  imports Go_Json_Fields Go_Regexp String_Util
begin

text \<open>
  The file \<^verbatim>\<open>internal/githubconnector/connector.go\<close>: the configuration of a GitHub connector, a JSON document that
  names repositories and how they are built, and the credentials that follow from it; with the status of
  credentials from \<^verbatim>\<open>internal/connectors\<close>.
\<close>

subsection \<open>Credentials\<close>

record credential_permission =
  perm_ResourceType :: string
  perm_ResourceName :: string
  perm_Permission :: string
  perm_Source :: string

record credential_usage =
  usage_UsedByType :: string
  usage_UsedByName :: string
  usage_Context :: string

record credential_inventory =
  inv_Name :: string
  inv_Provider :: string
  inv_ExternalRef :: string
  inv_Type :: string
  inv_Status :: string
  inv_Permissions :: "credential_permission list"
  inv_Usages :: "credential_usage list"

definition NormalizeCredentialStatus :: "string \<Rightarrow> string option" where
  "NormalizeCredentialStatus status0 =
     (let status = TrimSpace status0 in
      if status = [] then Some ''active''
      else if status \<in> {''active'', ''rotating'', ''revoked'', ''unknown''} then Some status
      else None)"

subsection \<open>Repositories\<close>

record gh_repository =
  repo_InstallationID :: string
  repo_ApplicationID :: string
  repo_ApplicationName :: string
  repo_RepositoryID :: string
  repo_Repository :: string
  repo_Branch :: string
  repo_WorkflowID :: string
  repo_BuildContext :: string
  repo_Dockerfile :: string
  repo_ImageRef :: string
  repo_BuildMatrix :: string
  repo_Runner :: string
  repo_PathFilters :: "string list"
  repo_CredentialName :: string
  repo_ExternalRef :: string
  repo_CredentialType :: string
  repo_Status :: string
  repo_Permissions :: "string list"
  repo_Usages :: "credential_usage list"

record gh_config =
  cfg_InstallationID :: string
  cfg_Repositories :: "gh_repository list"

definition DefaultBuildWorkflowID :: string where
  "DefaultBuildWorkflowID = ''deploy-manager-build.yml''"

definition decode_usage :: "(string \<times> json) list \<Rightarrow> credential_usage option" where
  "decode_usage kvs =
     Option.bind (string_field ''used_by_type'' kvs []) (\<lambda>used_by_type.
     Option.bind (string_field ''used_by_name'' kvs []) (\<lambda>used_by_name.
     Option.bind (string_field ''usage_context'' kvs []) (\<lambda>usage_context.
       Some \<lparr>usage_UsedByType = used_by_type, usage_UsedByName = used_by_name, usage_Context = usage_context\<rparr>)))"

definition decode_repository :: "(string \<times> json) list \<Rightarrow> gh_repository option" where
  "decode_repository kvs =
     Option.bind (string_field ''installation_id'' kvs []) (\<lambda>installation_id.
     Option.bind (string_field ''application_id'' kvs []) (\<lambda>application_id.
     Option.bind (string_field ''application_name'' kvs []) (\<lambda>application_name.
     Option.bind (string_field ''repository_id'' kvs []) (\<lambda>repository_id.
     Option.bind (string_field ''repository'' kvs []) (\<lambda>repository.
     Option.bind (string_field ''branch'' kvs []) (\<lambda>branch.
     Option.bind (string_field ''workflow_id'' kvs []) (\<lambda>workflow_id.
     Option.bind (string_field ''build_context'' kvs []) (\<lambda>build_context.
     Option.bind (string_field ''dockerfile'' kvs []) (\<lambda>dockerfile.
     Option.bind (string_field ''image_ref'' kvs []) (\<lambda>image_ref.
     Option.bind (string_field ''build_matrix'' kvs []) (\<lambda>build_matrix.
     Option.bind (string_field ''runner'' kvs []) (\<lambda>runner.
     Option.bind (strings_field ''path_filters'' kvs) (\<lambda>path_filters.
     Option.bind (string_field ''credential_name'' kvs []) (\<lambda>credential_name.
     Option.bind (string_field ''external_ref'' kvs []) (\<lambda>external_ref.
     Option.bind (string_field ''credential_type'' kvs []) (\<lambda>credential_type.
     Option.bind (string_field ''status'' kvs []) (\<lambda>status.
     Option.bind (strings_field ''permissions'' kvs) (\<lambda>permissions.
     Option.bind (structs_field ''usages'' kvs) (\<lambda>usages.
     Option.bind (all_some (map decode_usage usages)) (\<lambda>usages.
       Some \<lparr>repo_InstallationID = installation_id, repo_ApplicationID = application_id,
             repo_ApplicationName = application_name, repo_RepositoryID = repository_id, repo_Repository = repository,
             repo_Branch = branch, repo_WorkflowID = workflow_id, repo_BuildContext = build_context,
             repo_Dockerfile = dockerfile, repo_ImageRef = image_ref, repo_BuildMatrix = build_matrix,
             repo_Runner = runner, repo_PathFilters = path_filters, repo_CredentialName = credential_name,
             repo_ExternalRef = external_ref, repo_CredentialType = credential_type, repo_Status = status,
             repo_Permissions = permissions, repo_Usages = usages\<rparr>))))))))))))))))))))"

definition decode_config :: "json \<Rightarrow> gh_config option" where
  "decode_config j =
     Option.bind (object_members j) (\<lambda>kvs.
     Option.bind (string_field ''installation_id'' kvs []) (\<lambda>installation_id.
     Option.bind (structs_field ''repositories'' kvs) (\<lambda>repositories.
     Option.bind (all_some (map decode_repository repositories)) (\<lambda>repositories.
       Some \<lparr>cfg_InstallationID = installation_id, cfg_Repositories = repositories\<rparr>))))"

subsection \<open>Validation\<close>

definition repositoryPattern :: matcher where
  "repositoryPattern =
     m_seqs [m_plus (m_set (\<lambda>r. r_alnum r \<or> one_of ''_.-'' r)), m_lit ''/'', m_plus (m_set (\<lambda>r. r_alnum r \<or> one_of ''_.-'' r))]"

definition branchPattern :: matcher where
  "branchPattern = m_seq (m_set r_alnum) (m_upto 255 (m_set (\<lambda>r. r_alnum r \<or> one_of ''._/-'' r)))"

definition numericIDPattern :: matcher where
  "numericIDPattern = m_plus (m_set r_digit)"

definition uuidPattern :: matcher where
  "uuidPattern = m_seqs [m_times 8 (m_set r_hex), m_lit ''-'', m_times 4 (m_set r_hex), m_lit ''-'', m_times 4 (m_set r_hex),
     m_lit ''-'', m_times 4 (m_set r_hex), m_lit ''-'', m_times 12 (m_set r_hex)]"

text \<open>The ASCII classes \<open>[:space:]\<close> and \<open>[:cntrl:]\<close>.\<close>

definition connectorImageRefPattern :: matcher where
  "connectorImageRefPattern = m_between 1 512 (m_set (\<lambda>r. \<not> (9 \<le> r \<and> r \<le> 13 \<or> r = 32) \<and> \<not> (r < 32 \<or> r = 127)))"

definition line_breaks :: string where
  "line_breaks = [CHR 0x0D, CHR 0x0A, CHR 0x09]"

definition validRepository :: "string \<Rightarrow> bool" where
  "validRepository v \<longleftrightarrow> full_match repositoryPattern v"

definition validBranch :: "string \<Rightarrow> bool" where
  "validBranch v \<longleftrightarrow> full_match branchPattern v \<and> \<not> Contains v ''..'' \<and> \<not> Contains v ''//''"

definition validNumericID :: "string \<Rightarrow> bool" where
  "validNumericID v \<longleftrightarrow> full_match numericIDPattern v"

definition validUUID :: "string \<Rightarrow> bool" where
  "validUUID v \<longleftrightarrow> full_match uuidPattern v"

definition validWorkflowID :: "string \<Rightarrow> bool" where
  "validWorkflowID v \<longleftrightarrow> v \<noteq> [] \<and> \<not> ContainsAny v ([CHR ''/'', backslash] @ line_breaks)"

definition validBuildPath :: "string \<Rightarrow> bool" where
  "validBuildPath v \<longleftrightarrow> v \<noteq> [] \<and> \<not> ContainsAny v line_breaks \<and> \<not> Contains v ''..''"

definition connector_validImageRef :: "string \<Rightarrow> bool" where
  "connector_validImageRef v \<longleftrightarrow> full_match connectorImageRefPattern v"

definition validBuildMatrix :: "string \<Rightarrow> bool" where
  "validBuildMatrix v \<longleftrightarrow> v \<noteq> [] \<and> length v \<le> 8192 \<and> \<not> ContainsAny v line_breaks"

definition validRunner :: "string \<Rightarrow> bool" where
  "validRunner v \<longleftrightarrow> v \<noteq> [] \<and> \<not> ContainsAny v line_breaks"

definition githubAppExternalRef :: "gh_repository \<Rightarrow> string" where
  "githubAppExternalRef r =
     (if repo_InstallationID r \<noteq> [] then ''github-app:'' @ repo_InstallationID r @ '':'' @ repo_Repository r
      else ''github-app:'' @ repo_Repository r)"

definition normalizePathFilters :: "string list \<Rightarrow> string list" where
  "normalizePathFilters vs = first_seen [] (filter (\<lambda>v. v \<noteq> []) (map (\<lambda>v. Trim (TrimSpace v) ''/'') vs))"

subsection \<open>Normalization\<close>

definition trim_repository :: "gh_repository \<Rightarrow> gh_repository" where
  "trim_repository r =
     r\<lparr>repo_Repository := TrimSpace (repo_Repository r), repo_InstallationID := TrimSpace (repo_InstallationID r),
       repo_ApplicationID := TrimSpace (repo_ApplicationID r), repo_ApplicationName := TrimSpace (repo_ApplicationName r),
       repo_RepositoryID := TrimSpace (repo_RepositoryID r), repo_Branch := TrimSpace (repo_Branch r),
       repo_WorkflowID := TrimSpace (repo_WorkflowID r), repo_BuildContext := TrimSpace (repo_BuildContext r),
       repo_Dockerfile := TrimSpace (repo_Dockerfile r), repo_ImageRef := TrimSpace (repo_ImageRef r),
       repo_BuildMatrix := TrimSpace (repo_BuildMatrix r), repo_Runner := TrimSpace (repo_Runner r),
       repo_CredentialName := TrimSpace (repo_CredentialName r), repo_ExternalRef := TrimSpace (repo_ExternalRef r),
       repo_CredentialType := TrimSpace (repo_CredentialType r),
       repo_PathFilters := normalizePathFilters (repo_PathFilters r)\<rparr>"

definition or_default :: "string \<Rightarrow> string \<Rightarrow> string" where
  "or_default v d = (if v = [] then d else v)"

definition default_repository :: "gh_repository \<Rightarrow> gh_repository" where
  "default_repository r =
     r\<lparr>repo_Branch := or_default (repo_Branch r) ''main'',
       repo_WorkflowID := or_default (repo_WorkflowID r) DefaultBuildWorkflowID,
       repo_BuildContext := or_default (repo_BuildContext r) ''.'',
       repo_Dockerfile := or_default (repo_Dockerfile r) ''Dockerfile'',
       repo_CredentialName := or_default (repo_CredentialName r) (repo_Repository r @ '' GitHub App''),
       repo_ExternalRef := or_default (repo_ExternalRef r) (githubAppExternalRef r)\<rparr>"

definition check_repository :: "gh_repository \<Rightarrow> go_error option" where
  "check_repository r =
     (if repo_Repository r = [] \<or> repo_CredentialName r = [] \<or> repo_ExternalRef r = [] then Some (Errorf ''repository is required'')
      else if \<not> validRepository (repo_Repository r) then Some (Errorf ''repository must be owner/name'')
      else if repo_InstallationID r \<noteq> [] \<and> \<not> validNumericID (repo_InstallationID r)
        then Some (Errorf ''installation_id must be numeric'')
      else if repo_RepositoryID r \<noteq> [] \<and> \<not> validNumericID (repo_RepositoryID r)
        then Some (Errorf ''repository_id must be numeric'')
      else if repo_ApplicationID r \<noteq> [] \<and> \<not> validUUID (repo_ApplicationID r) then Some (Errorf ''application_id must be a uuid'')
      else if \<not> validBranch (repo_Branch r) then Some (Errorf ''branch contains unsupported characters'')
      else if \<not> validWorkflowID (repo_WorkflowID r)
        then Some (Errorf ''workflow_id must be a workflow file name or numeric id'')
      else if \<not> validBuildPath (repo_BuildContext r) then Some (Errorf ''build_context contains unsupported characters'')
      else if \<not> validBuildPath (repo_Dockerfile r) then Some (Errorf ''dockerfile contains unsupported characters'')
      else if repo_ImageRef r \<noteq> [] \<and> \<not> connector_validImageRef (repo_ImageRef r)
        then Some (Errorf ''image_ref must not contain whitespace or control characters'')
      else if repo_BuildMatrix r \<noteq> [] \<and> \<not> validBuildMatrix (repo_BuildMatrix r)
        then Some (Errorf ''build_matrix must be a compact JSON string without control characters'')
      else if repo_Runner r \<noteq> [] \<and> \<not> validRunner (repo_Runner r) then Some (Errorf ''runner contains unsupported characters'')
      else if \<not> list_all validBuildPath (repo_PathFilters r)
        then Some (Errorf ''path_filters contains unsupported characters'')
      else None)"

definition normalizeRepository :: "gh_repository \<Rightarrow> go_error + gh_repository" where
  "normalizeRepository input =
     (let r = default_repository (trim_repository input) in
      case NormalizeCredentialStatus (repo_Status r) of
        None \<Rightarrow> Inl (Errorf ''credential status must be active, rotating, revoked, or unknown'')
      | Some status \<Rightarrow>
          (let r' = r\<lparr>repo_Status := status, repo_CredentialType := or_default (repo_CredentialType r) ''github_app_installation''\<rparr> in
           case check_repository r' of Some err \<Rightarrow> Inl err | None \<Rightarrow> Inr r'))"

definition with_installation :: "string \<Rightarrow> gh_repository \<Rightarrow> gh_repository" where
  "with_installation i r = (if repo_InstallationID r = [] then r\<lparr>repo_InstallationID := i\<rparr> else r)"

definition ParseConfig :: "(string \<Rightarrow> go_error) \<Rightarrow> string \<Rightarrow> go_error + gh_config" where
  "ParseConfig json_err raw =
     (case Option.bind (decode_json raw) decode_config of
        None \<Rightarrow> Inl (Errorf (''parse github connector config: '' @ err_text (json_err raw)))
      | Some cfg \<Rightarrow>
          (let i = TrimSpace (cfg_InstallationID cfg) in
           if i \<noteq> [] \<and> \<not> validNumericID i then Inl (Errorf ''installation_id must be numeric'')
           else try_bind (try_map (\<lambda>r. normalizeRepository (with_installation i r)) (cfg_Repositories cfg)) (\<lambda>rs.
             Inr \<lparr>cfg_InstallationID = i, cfg_Repositories = rs\<rparr>)))"

definition repositoryKey :: "gh_repository \<Rightarrow> string" where
  "repositoryKey r =
     Join [ToLower (repo_Repository r), repo_Branch r, ToLower (repo_ApplicationID r), ToLower (repo_ApplicationName r),
           Join (repo_PathFilters r) '',''] ''#''"

fun unique_repositories :: "string list \<Rightarrow> gh_repository list \<Rightarrow> gh_repository list" where
  "unique_repositories seen [] = []"
| "unique_repositories seen (r # rs) =
     (if repositoryKey r \<in> set seen then unique_repositories seen rs
      else r # unique_repositories (repositoryKey r # seen) rs)"

definition RepositoriesFromConfig :: "(string \<Rightarrow> go_error) \<Rightarrow> string \<Rightarrow> go_error + gh_repository list" where
  "RepositoriesFromConfig json_err raw =
     try_bind (ParseConfig json_err raw) (\<lambda>cfg.
       if cfg_Repositories cfg = [] then Inl (Errorf ''github connector config requires repositories'')
       else try_bind (try_map (\<lambda>r. normalizeRepository (with_installation (cfg_InstallationID cfg) r)) (cfg_Repositories cfg)) (\<lambda>rs.
         let unique = unique_repositories [] rs in
         if unique = [] then Inl (Errorf ''github connector config requires repositories'') else Inr unique))"

subsection \<open>The inventory of credentials\<close>

definition repository_permissions :: "gh_repository \<Rightarrow> credential_permission list" where
  "repository_permissions r =
     map (\<lambda>p. \<lparr>perm_ResourceType = ''repository'', perm_ResourceName = repo_Repository r, perm_Permission = p, perm_Source = ''github''\<rparr>)
       (filter (\<lambda>p. p \<noteq> []) (map TrimSpace (repo_Permissions r)))"

definition trim_usage :: "credential_usage \<Rightarrow> credential_usage" where
  "trim_usage u = \<lparr>usage_UsedByType = TrimSpace (usage_UsedByType u), usage_UsedByName = TrimSpace (usage_UsedByName u),
     usage_Context = TrimSpace (usage_Context u)\<rparr>"

definition repository_usages :: "gh_repository \<Rightarrow> credential_usage list" where
  "repository_usages r =
     (let usages = filter (\<lambda>u. usage_UsedByType u \<noteq> [] \<and> usage_UsedByName u \<noteq> [] \<and> usage_Context u \<noteq> [])
                     (map trim_usage (repo_Usages r))
      in if usages = [] then [\<lparr>usage_UsedByType = ''repository'', usage_UsedByName = repo_Repository r,
                usage_Context = ''repository access for deployment builds''\<rparr>]
         else usages)"

definition toCredentialInventory :: "gh_repository \<Rightarrow> credential_inventory" where
  "toCredentialInventory r =
     \<lparr>inv_Name = repo_CredentialName r, inv_Provider = ''github'', inv_ExternalRef = repo_ExternalRef r,
      inv_Type = repo_CredentialType r, inv_Status = repo_Status r,
      inv_Permissions = repository_permissions r, inv_Usages = repository_usages r\<rparr>"

definition SyncCredentials :: "(string \<Rightarrow> go_error) \<Rightarrow> string \<Rightarrow> go_error + credential_inventory list" where
  "SyncCredentials json_err raw =
     try_bind (RepositoriesFromConfig json_err raw) (\<lambda>rs. Inr (map toCredentialInventory rs))"

end
