(* ===== verification/Go_Encoding.thy ===== *)
theory Go_Encoding
  imports Go_Strings
begin

text \<open>
  \<^verbatim>\<open>encoding/base64\<close> (the standard and the URL alphabet) and the escaping functions of \<^verbatim>\<open>net/url\<close>, with
  the facts the clients rely on: decoding inverts encoding, and an escaped segment has no character that
  ends a segment, a path or a query.
\<close>

subsection \<open>Base64\<close>

definition b64_char :: "char \<Rightarrow> char \<Rightarrow> nat \<Rightarrow> char" where
  "b64_char c62 c63 n =
     (if n < 26 then char_of (65 + n) else if n < 52 then char_of (71 + n) else if n < 62 then char_of (n - 4)
      else if n = 62 then c62 else c63)"

definition b64_std :: "nat \<Rightarrow> char" where
  "b64_std = b64_char (CHR ''+'') (CHR ''/'')"

definition b64_url :: "nat \<Rightarrow> char" where
  "b64_url = b64_char (CHR ''-'') (CHR ''_'')"

fun b64_encode :: "(nat \<Rightarrow> char) \<Rightarrow> bool \<Rightarrow> string \<Rightarrow> string" where
  "b64_encode tab pad [] = []"
| "b64_encode tab pad [a] =
     [tab (byte a div 4), tab (byte a mod 4 * 16)] @ (if pad then ''=='' else [])"
| "b64_encode tab pad [a, b] =
     [tab (byte a div 4), tab (byte a mod 4 * 16 + byte b div 16), tab (byte b mod 16 * 4)] @ (if pad then ''='' else [])"
| "b64_encode tab pad (a # b # c # s) =
     [tab (byte a div 4), tab (byte a mod 4 * 16 + byte b div 16),
      tab (byte b mod 16 * 4 + byte c div 64), tab (byte c mod 64)] @ b64_encode tab pad s"

definition StdEncoding_EncodeToString :: "string \<Rightarrow> string" where
  "StdEncoding_EncodeToString = b64_encode b64_std True"

definition RawURLEncoding_EncodeToString :: "string \<Rightarrow> string" where
  "RawURLEncoding_EncodeToString = b64_encode b64_url False"

definition b64_value :: "char \<Rightarrow> nat option" where
  "b64_value c =
     (let n = byte c in
      if 65 \<le> n \<and> n \<le> 90 then Some (n - 65) else if 97 \<le> n \<and> n \<le> 122 then Some (n - 71)
      else if 48 \<le> n \<and> n \<le> 57 then Some (n + 4) else if c = CHR ''+'' then Some 62
      else if c = CHR ''/'' then Some 63 else None)"

text \<open>The decoder skips line ends; the last quantum is padded.\<close>

fun b64_quanta :: "string \<Rightarrow> string option" where
  "b64_quanta [] = Some []"
| "b64_quanta (a # b # c # d # s) =
     (case (b64_value a, b64_value b) of
        (Some x, Some y) \<Rightarrow>
          if s = [] \<and> c = CHR ''='' \<and> d = CHR ''='' then Some [char_of (x * 4 + y div 16)]
          else (case b64_value c of
             None \<Rightarrow> None
           | Some z \<Rightarrow>
               if s = [] \<and> d = CHR ''='' then Some [char_of (x * 4 + y div 16), char_of (y mod 16 * 16 + z div 4)]
               else (case b64_value d of
                  None \<Rightarrow> None
                | Some w \<Rightarrow>
                    map_option (\<lambda>r. char_of (x * 4 + y div 16) # char_of (y mod 16 * 16 + z div 4) # char_of (z mod 4 * 64 + w) # r)
                      (b64_quanta s)))
      | _ \<Rightarrow> None)"
| "b64_quanta _ = None"

definition StdEncoding_DecodeString :: "string \<Rightarrow> string option" where
  "StdEncoding_DecodeString s = b64_quanta (filter (\<lambda>c. c \<noteq> CHR 0x0A \<and> c \<noteq> CHR 0x0D) s)"

lemma b64_value_std: "n < 64 \<Longrightarrow> b64_value (b64_std n) = Some n"
  by (auto simp: b64_value_def b64_std_def b64_char_def byte_char_of Let_def)

lemma b64_std_chars: "n < 64 \<Longrightarrow> b64_std n \<noteq> CHR ''='' \<and> b64_std n \<noteq> CHR 0x0A \<and> b64_std n \<noteq> CHR 0x0D"
proof -
  assume "n < 64"
  moreover have "b64_value (CHR ''='') = None" "b64_value (CHR 0x0A) = None" "b64_value (CHR 0x0D) = None"
    by (simp_all add: b64_value_def)
  ultimately show ?thesis using b64_value_std by (metis option.distinct(1))
qed

lemma sextets:
  "byte a div 4 < 64" "byte a mod 4 * 16 < 64" "byte a mod 4 * 16 + byte b div 16 < 64"
  "byte b mod 16 * 4 < 64" "byte b mod 16 * 4 + byte c div 64 < 64" "byte c mod 64 < 64"
proof -
  have "byte a div 4 < 64" "byte b div 16 < 16" "byte c div 64 < 4" "byte a mod 4 < 4" "byte b mod 16 < 16"
    using byte_less [of a] byte_less [of b] byte_less [of c] by (simp_all add: less_mult_imp_div_less)
  then show "byte a div 4 < 64" "byte a mod 4 * 16 < 64" "byte a mod 4 * 16 + byte b div 16 < 64"
    "byte b mod 16 * 4 < 64" "byte b mod 16 * 4 + byte c div 64 < 64" "byte c mod 64 < 64" by linarith+
qed

lemma carry: "y < m \<Longrightarrow> (x * m + y) div m = x" "y < m \<Longrightarrow> (x * m + y) mod m = y" for x y m :: nat
  by simp_all

lemma octets:
  "byte a div 4 * 4 + (byte a mod 4 * 16 + byte b div 16) div 16 = byte a"
  "byte a div 4 * 4 + byte a mod 4 * 16 div 16 = byte a"
  "(byte a mod 4 * 16 + byte b div 16) mod 16 * 16 + (byte b mod 16 * 4 + byte c div 64) div 4 = byte b"
  "(byte a mod 4 * 16 + byte b div 16) mod 16 * 16 + byte b mod 16 * 4 div 4 = byte b"
  "(byte b mod 16 * 4 + byte c div 64) mod 4 * 64 + byte c mod 64 = byte c"
proof -
  have b: "byte b div 16 < 16" and c: "byte c div 64 < 4"
    using byte_less [of b] byte_less [of c] by (simp_all add: less_mult_imp_div_less)
  show "byte a div 4 * 4 + (byte a mod 4 * 16 + byte b div 16) div 16 = byte a"
    "(byte a mod 4 * 16 + byte b div 16) mod 16 * 16 + (byte b mod 16 * 4 + byte c div 64) div 4 = byte b"
    "(byte a mod 4 * 16 + byte b div 16) mod 16 * 16 + byte b mod 16 * 4 div 4 = byte b"
    "(byte b mod 16 * 4 + byte c div 64) mod 4 * 64 + byte c mod 64 = byte c"
    by (simp_all only: carry [OF b] carry [OF c] div_mult_mod_eq nonzero_mult_div_cancel_right zero_neq_numeral not_False_eq_True)
  show "byte a div 4 * 4 + byte a mod 4 * 16 div 16 = byte a" by simp
qed

lemma b64_quanta_encode: "b64_quanta (b64_encode b64_std True s) = Some s"
  by (induction b64_std True s rule: b64_encode.induct)
    (simp_all only: b64_encode.simps b64_quanta.simps append.simps if_True b64_value_std sextets b64_std_chars octets
      option.case prod.case char_of_char option.map HOL.simp_thms if_False refl)

lemma b64_encode_clean: "c \<in> set (b64_encode b64_std True s) \<Longrightarrow> c \<noteq> CHR 0x0A \<and> c \<noteq> CHR 0x0D"
  by (induction b64_std True s rule: b64_encode.induct) (auto simp: sextets b64_std_chars)

lemma base64_roundtrip: "StdEncoding_DecodeString (StdEncoding_EncodeToString s) = Some s"
  using b64_encode_clean
  by (simp add: StdEncoding_DecodeString_def StdEncoding_EncodeToString_def b64_quanta_encode filter_id_conv cong: filter_cong)

subsection \<open>Escaping of paths and queries\<close>

definition percent :: "char \<Rightarrow> string" where
  "percent c = [CHR ''%'', digit_char_upper (byte c div 16), digit_char_upper (byte c mod 16)]"

definition unreserved :: "char \<Rightarrow> bool" where
  "unreserved c \<longleftrightarrow> 48 \<le> byte c \<and> byte c \<le> 57 \<or> 65 \<le> byte c \<and> byte c \<le> 90 \<or> 97 \<le> byte c \<and> byte c \<le> 122 \<or> c \<in> set ''-_.~''"

definition PathEscape :: "string \<Rightarrow> string" where
  "PathEscape s = concat (map (\<lambda>c. if unreserved c \<or> c \<in> set ''$&+=:@'' then [c] else percent c) s)"

definition QueryEscape :: "string \<Rightarrow> string" where
  "QueryEscape s = concat (map (\<lambda>c. if c = CHR '' '' then ''+'' else if unreserved c then [c] else percent c) s)"

definition path_safe :: "char \<Rightarrow> bool" where
  "path_safe c \<longleftrightarrow> c \<noteq> CHR ''/'' \<and> c \<noteq> CHR ''?'' \<and> c \<noteq> CHR ''#'' \<and> 32 < byte c \<and> byte c < 127"

lemma digit_char_upper_safe: "n < 16 \<Longrightarrow> path_safe (digit_char_upper n)"
proof -
  have "list_all (\<lambda>n. path_safe (digit_char_upper n)) [0..<16]" by code_simp
  then show "n < 16 \<Longrightarrow> path_safe (digit_char_upper n)" by (simp add: list_all_iff)
qed

lemma percent_safe: "c \<in> set (percent d) \<Longrightarrow> path_safe c"
proof -
  have "byte d div 16 < 16" "byte d mod 16 < 16" using byte_less [of d] by (simp_all add: less_mult_imp_div_less)
  moreover have "path_safe (CHR ''%'')" by code_simp
  ultimately show "c \<in> set (percent d) \<Longrightarrow> path_safe c" by (auto simp: percent_def digit_char_upper_safe)
qed

lemma unreserved_safe: "unreserved c \<or> c \<in> set ''$&+=:@'' \<Longrightarrow> path_safe c"
  by (auto simp: unreserved_def path_safe_def)

lemma PathEscape_safe: "c \<in> set (PathEscape s) \<Longrightarrow> path_safe c"
  using unreserved_safe percent_safe by (auto simp: PathEscape_def split: if_splits)

lemma QueryEscape_safe: "c \<in> set (QueryEscape s) \<Longrightarrow> path_safe c"
proof -
  have "path_safe (CHR ''+'')" by code_simp
  then show "c \<in> set (QueryEscape s) \<Longrightarrow> path_safe c"
    using unreserved_safe percent_safe by (auto simp: QueryEscape_def split: if_splits)
qed

end
