(* ===== verification/Github_App.thy ===== *)
theory Github_App
  imports Db_Models Github_Connector Go_Encoding Go_Sha256 "HOL-Library.State_Monad"
begin

text \<open>
  The file \<^verbatim>\<open>internal/githubconnector/app_client.go\<close>: the client of the API of GitHub for a GitHub App. A
  call is a program on the list of the requests sent so far; the answers of the HTTP client (of
  \<^verbatim>\<open>net/http\<close>, redirects included), the clock, the RSA signature and the texts of the errors of Go's
  packages are parameters of the client.
\<close>

subsection \<open>Requests and answers\<close>

record client_request =
  creq_Method :: string
  creq_URL :: string
  creq_Header :: "(string \<times> string) list"
  creq_Body :: "string option"

record client_response =
  cres_StatusCode :: int
  cres_Status :: string
  cres_header :: "string \<Rightarrow> string"
  cres_body :: "go_error + string"

record app_client =
  ac_appID :: string
  ac_baseURL :: string
  ac_sign :: "string \<Rightarrow> go_error + string"
  ac_now :: "nat \<Rightarrow> int"
  ac_do :: "nat \<Rightarrow> client_request \<Rightarrow> go_error + client_response"
  ac_url_error :: "string \<Rightarrow> go_error"
  ac_json_error :: "string \<Rightarrow> go_error"
  ac_base64_error :: "string \<Rightarrow> go_error"

type_synonym 'a api_run = "(client_request list, 'a) state"

definition api_then :: "(go_error + 'a) api_run \<Rightarrow> ('a \<Rightarrow> (go_error + 'b) api_run) \<Rightarrow> (go_error + 'b) api_run" where
  "api_then m f = do { r \<leftarrow> m; (case r of Inl err \<Rightarrow> State_Monad.return (Inl err) | Inr x \<Rightarrow> f x) }"

definition api_fail :: "string \<Rightarrow> (go_error + 'a) api_run" where
  "api_fail message = State_Monad.return (Inl (Errorf message))"

record app_repository =
  arepo_ID :: int
  arepo_FullName :: string
  arepo_DefaultBranch :: string
  arepo_CloneURL :: string
  arepo_HTMLURL :: string

record repository_content =
  cont_Name :: string
  cont_Path :: string
  cont_Type :: string

record repository_commit =
  comm_SHA :: string
  comm_Message :: string
  comm_AuthorName :: string
  comm_AuthorLogin :: string
  comm_AuthorAvatarURL :: string
  comm_HTMLURL :: string

record repository_file =
  file_Type :: string
  file_Encoding :: string
  file_Content :: string

definition decode_app_repository :: "(string \<times> json) list \<Rightarrow> app_repository option" where
  "decode_app_repository kvs =
     Option.bind (int64_field ''id'' kvs 0) (\<lambda>i.
     Option.bind (string_field ''full_name'' kvs []) (\<lambda>full_name.
     Option.bind (string_field ''default_branch'' kvs []) (\<lambda>default_branch.
     Option.bind (string_field ''clone_url'' kvs []) (\<lambda>clone_url.
     Option.bind (string_field ''html_url'' kvs []) (\<lambda>html_url.
       Some \<lparr>arepo_ID = i, arepo_FullName = full_name, arepo_DefaultBranch = default_branch, arepo_CloneURL = clone_url,
             arepo_HTMLURL = html_url\<rparr>)))))"

definition decode_installation_page :: "json \<Rightarrow> app_repository list option" where
  "decode_installation_page j =
     Option.bind (object_members j) (\<lambda>kvs.
     Option.bind (structs_field ''repositories'' kvs) (\<lambda>repositories. all_some (map decode_app_repository repositories)))"

definition decode_content :: "(string \<times> json) list \<Rightarrow> repository_content option" where
  "decode_content kvs =
     Option.bind (string_field ''name'' kvs []) (\<lambda>name.
     Option.bind (string_field ''path'' kvs []) (\<lambda>path.
     Option.bind (string_field ''type'' kvs []) (\<lambda>type.
       Some \<lparr>cont_Name = name, cont_Path = path, cont_Type = type\<rparr>)))"

definition decode_file :: "json \<Rightarrow> repository_file option" where
  "decode_file j =
     Option.bind (object_members j) (\<lambda>kvs.
     Option.bind (string_field ''type'' kvs []) (\<lambda>type.
     Option.bind (string_field ''encoding'' kvs []) (\<lambda>encoding.
     Option.bind (string_field ''content'' kvs []) (\<lambda>content.
       Some \<lparr>file_Type = type, file_Encoding = encoding, file_Content = content\<rparr>))))"

definition decode_branch_page :: "json \<Rightarrow> string list option" where
  "decode_branch_page j = map_option (filter (\<lambda>n. n \<noteq> [])) (decode_structs (\<lambda>kvs. string_field ''name'' kvs []) j)"

definition commit_title :: "string \<Rightarrow> string" where
  "commit_title message = TrimSpace (hd (Split (ReplaceAll message [CHR 0x0D, CHR 0x0A] [CHR 0x0A]) (CHR 0x0A)))"

definition decode_api_commit :: "json \<Rightarrow> repository_commit option" where
  "decode_api_commit j =
     Option.bind (object_members j) (\<lambda>kvs.
     Option.bind (string_field ''sha'' kvs []) (\<lambda>sha.
     Option.bind (string_field ''html_url'' kvs []) (\<lambda>html_url.
     Option.bind (struct_field ''commit'' kvs []) (\<lambda>commit.
     Option.bind (string_field ''message'' commit []) (\<lambda>message.
     Option.bind (struct_field ''author'' commit []) (\<lambda>commit_author.
     Option.bind (string_field ''name'' commit_author []) (\<lambda>author_name.
     Option.bind (struct_field ''author'' kvs []) (\<lambda>author.
     Option.bind (string_field ''login'' author []) (\<lambda>login.
     Option.bind (string_field ''avatar_url'' author []) (\<lambda>avatar_url.
       Some \<lparr>comm_SHA = sha, comm_Message = commit_title message, comm_AuthorName = TrimSpace author_name,
             comm_AuthorLogin = TrimSpace login, comm_AuthorAvatarURL = TrimSpace avatar_url,
             comm_HTMLURL = TrimSpace html_url\<rparr>))))))))))"

definition decode_token :: "json \<Rightarrow> string option" where
  "decode_token j = Option.bind (object_members j) (\<lambda>kvs. string_field ''token'' kvs [])"

subsection \<open>Sending\<close>

definition defaultGitHubAPIURL :: string where
  "defaultGitHubAPIURL = ''https://api.github.com''"

text \<open>
  \<open>decodeGitHubResponse\<close> for a destination with the given decoder and zero value. When the caller wants no
  result (a nil destination), the decoder accepts nothing, but an empty body is no error.
\<close>

definition decodeGitHubResponse :: "app_client \<Rightarrow> (json \<Rightarrow> 'a option) \<Rightarrow> 'a \<Rightarrow> client_response \<Rightarrow> go_error + 'a" where
  "decodeGitHubResponse c dec zero response =
     try_bind (cres_body response) (\<lambda>whole.
       let body = take 1048576 whole in
       if cres_StatusCode response < 200 \<or> 300 \<le> cres_StatusCode response then
         (if TrimSpace body \<noteq> [] then Inl (Errorf (''github api returned '' @ cres_Status response @ '': '' @ TrimSpace body))
          else Inl (Errorf (''github api returned '' @ cres_Status response)))
       else if TrimSpace body = [] then Inr zero
       else case Option.bind (decode_json body) dec of
         None \<Rightarrow> Inl (Errorf (''decode github api response: '' @ err_text (ac_json_error c body)))
       | Some v \<Rightarrow> Inr v)"

definition common_headers :: "string \<Rightarrow> (string \<times> string) list" where
  "common_headers bearer =
     [(''Authorization'', ''Bearer '' @ bearer), (''Accept'', ''application/vnd.github+json''),
      (''X-GitHub-Api-Version'', ''2022-11-28'')]"

text \<open>\<open>http.NewRequest\<close> fails when the text is not a URL; then nothing is sent.\<close>

definition send :: "app_client \<Rightarrow> client_request \<Rightarrow> (go_error + client_response) api_run" where
  "send c request =
     (case Parse (creq_URL request) of
        None \<Rightarrow> State_Monad.return (Inl (ac_url_error c (creq_URL request)))
      | Some _ \<Rightarrow> State (\<lambda>sent.
          (case ac_do c (length sent) request of
             Inl err \<Rightarrow> Inl (Errorf (''call github api: '' @ err_text err))
           | Inr response \<Rightarrow> Inr response, sent @ [request])))"

definition postJSONBody ::
  "app_client \<Rightarrow> (json \<Rightarrow> 'a option) \<Rightarrow> 'a \<Rightarrow> string \<Rightarrow> string \<Rightarrow> json option \<Rightarrow> (go_error + 'a) api_run" where
  "postJSONBody c dec zero path bearer body =
     api_then (send c \<lparr>creq_Method = ''POST'', creq_URL = ac_baseURL c @ path,
         creq_Header = (if body \<noteq> None then [(''Content-Type'', ''application/json'')] else []) @ common_headers bearer,
         creq_Body = map_option Marshal body\<rparr>)
       (\<lambda>response. State_Monad.return (decodeGitHubResponse c dec zero response))"

definition next_rel :: string where
  "next_rel = ''rel='' @ [CHR 0x22] @ ''next'' @ [CHR 0x22]"

fun next_page :: "string list \<Rightarrow> string" where
  "next_page [] = []"
| "next_page (part0 # parts) =
     (let part = TrimSpace part0;
          start = length (takeWhile (\<lambda>c. c \<noteq> CHR ''<'') part);
          stop = length (takeWhile (\<lambda>c. c \<noteq> CHR ''>'') part);
          target = take (stop - Suc start) (drop (Suc start) part)
      in if \<not> Contains part next_rel then next_page parts
         else if start = length part \<or> stop = length part \<or> stop \<le> start then next_page parts
         else if HasPrefix target defaultGitHubAPIURL then TrimPrefix target defaultGitHubAPIURL
         else next_page parts)"

definition nextGitHubPage :: "string \<Rightarrow> string" where
  "nextGitHubPage linkHeader = next_page (Split linkHeader (CHR '',''))"

definition getJSON ::
  "app_client \<Rightarrow> (json \<Rightarrow> 'a option) \<Rightarrow> 'a \<Rightarrow> string \<Rightarrow> string \<Rightarrow> (go_error + 'a \<times> string) api_run" where
  "getJSON c dec zero path token =
     api_then (send c \<lparr>creq_Method = ''GET'', creq_URL = ac_baseURL c @ path, creq_Header = common_headers token, creq_Body = None\<rparr>)
       (\<lambda>response. State_Monad.return (try_bind (decodeGitHubResponse c dec zero response) (\<lambda>v.
          Inr (v, nextGitHubPage (cres_header response ''Link'')))))"

subsection \<open>Tokens\<close>

definition encodeSegment :: "json \<Rightarrow> string" where
  "encodeSegment v = RawURLEncoding_EncodeToString (Marshal v)"

definition jwt :: "app_client \<Rightarrow> int \<Rightarrow> go_error + string" where
  "jwt c t =
     (let header = encodeSegment (JObj [(''alg'', JStr ''RS256''), (''typ'', JStr ''JWT'')]);
          claims = encodeSegment (JObj [(''exp'', JNum (FormatInt (t + 540))), (''iat'', JNum (FormatInt (t - 60))),
            (''iss'', JStr (ac_appID c))]);
          signingInput = header @ ''.'' @ claims
      in case ac_sign c (Sum256 signingInput) of
           Inl err \<Rightarrow> Inl (Errorf (''sign github app jwt: '' @ err_text err))
         | Inr signature \<Rightarrow> Inr (signingInput @ ''.'' @ RawURLEncoding_EncodeToString signature))"

definition createInstallationToken :: "app_client \<Rightarrow> string \<Rightarrow> json option \<Rightarrow> (go_error + string) api_run" where
  "createInstallationToken c installationID scope = do {
     n \<leftarrow> State (\<lambda>sent. (length sent, sent));
     api_then (State_Monad.return (jwt c (ac_now c n))) (\<lambda>bearer.
       api_then (postJSONBody c decode_token [] (''/app/installations/'' @ installationID @ ''/access_tokens'') bearer scope)
         (\<lambda>token.
           if TrimSpace token = [] then api_fail ''github installation token response was empty''
           else State_Monad.return (Inr token)))
   }"

definition installationToken :: "app_client \<Rightarrow> string \<Rightarrow> (go_error + string) api_run" where
  "installationToken c installationID = createInstallationToken c installationID None"

definition InstallationToken :: "app_client \<Rightarrow> string \<Rightarrow> string \<Rightarrow> (go_error + string) api_run" where
  "InstallationToken c installationID0 repositoryID0 =
     (let installationID = TrimSpace installationID0; repositoryID = TrimSpace repositoryID0 in
      if \<not> validNumericID installationID then api_fail ''installation_id must be numeric''
      else if \<not> validNumericID repositoryID then api_fail ''repository_id must be numeric''
      else case ParseInt repositoryID 64 of
        None \<Rightarrow> api_fail ''repository_id must fit in an int64''
      | Some i \<Rightarrow> createInstallationToken c installationID
          (Some (JObj [(''repository_ids'', JArr [JNum (FormatInt i)]),
                       (''permissions'', JObj [(''contents'', JStr ''read'')])])))"

subsection \<open>Calls\<close>

text \<open>
  The loop over the pages of a listing, which ends when a page has no successor. Whether it does is up to
  the server: \<open>None\<close> is a loop that does not end.
\<close>

partial_function (option) pages ::
  "app_client \<Rightarrow> (json \<Rightarrow> 'a list option) \<Rightarrow> string \<Rightarrow> string \<Rightarrow> client_request list \<Rightarrow>
   ((go_error + 'a list) \<times> client_request list) option" where
  "pages c dec token path sent =
     (if path = [] then Some (Inr [], sent)
      else case run_state (getJSON c dec [] path token) sent of
        (Inl err, sent') \<Rightarrow> Some (Inl err, sent')
      | (Inr (items, successor), sent') \<Rightarrow>
          Option.bind (pages c dec token successor sent') (\<lambda>(r, sent'').
            Some (try_bind r (\<lambda>others. Inr (items @ others)), sent'')))"

definition with_token ::
  "app_client \<Rightarrow> string \<Rightarrow> client_request list \<Rightarrow>
   (string \<Rightarrow> client_request list \<Rightarrow> ((go_error + 'a) \<times> client_request list) option) \<Rightarrow>
   ((go_error + 'a) \<times> client_request list) option" where
  "with_token c installationID sent f =
     (case run_state (installationToken c installationID) sent of
        (Inl err, sent') \<Rightarrow> Some (Inl err, sent')
      | (Inr token, sent') \<Rightarrow> f token sent')"

definition ListInstallationRepositories ::
  "app_client \<Rightarrow> string \<Rightarrow> client_request list \<Rightarrow> ((go_error + app_repository list) \<times> client_request list) option" where
  "ListInstallationRepositories c installationID0 sent =
     (let installationID = TrimSpace installationID0 in
      if \<not> validNumericID installationID then Some (Inl (Errorf ''installation_id must be numeric''), sent)
      else with_token c installationID sent (\<lambda>token sent'.
        pages c decode_installation_page token ''/installation/repositories?per_page=100'' sent'))"

definition ListRepositoryBranches ::
  "app_client \<Rightarrow> string \<Rightarrow> string \<Rightarrow> client_request list \<Rightarrow> ((go_error + string list) \<times> client_request list) option" where
  "ListRepositoryBranches c installationID0 repository0 sent =
     (let installationID = TrimSpace installationID0; repository = TrimSpace repository0 in
      if \<not> validNumericID installationID then Some (Inl (Errorf ''installation_id must be numeric''), sent)
      else if \<not> validRepository repository then Some (Inl (Errorf ''repository must be owner/name''), sent)
      else with_token c installationID sent (\<lambda>token sent'.
        pages c decode_branch_page token (''/repos/'' @ repository @ ''/branches?per_page=100'') sent'))"

definition DispatchWorkflow ::
  "app_client \<Rightarrow> string \<Rightarrow> string \<Rightarrow> string \<Rightarrow> string \<Rightarrow> (string \<times> string) list \<Rightarrow> (go_error + unit) api_run" where
  "DispatchWorkflow c installationID0 repository0 workflowID0 ref0 inputs =
     (let installationID = TrimSpace installationID0; repository = TrimSpace repository0;
          workflowID = TrimSpace workflowID0; ref = TrimSpace ref0 in
      if \<not> validNumericID installationID then api_fail ''installation_id must be numeric''
      else if \<not> validRepository repository then api_fail ''repository must be owner/name''
      else if workflowID = [] \<or> ContainsAny workflowID ([CHR ''/'', backslash] @ line_breaks)
        then api_fail ''workflow_id must be a workflow file name or numeric id''
      else if \<not> validBranch ref then api_fail ''ref contains unsupported characters''
      else api_then (installationToken c installationID) (\<lambda>token.
        postJSONBody c (\<lambda>_. None) () (''/repos/'' @ repository @ ''/actions/workflows/'' @ PathEscape workflowID @ ''/dispatches'')
          token (Some (JObj ([(''ref'', JStr ref)] @
            (if inputs = [] then [] else [(''inputs'', JObj (map (\<lambda>(k, v). (k, JStr v)) (sort_key fst inputs)))]))))))"

definition ListRepositoryContents ::
  "app_client \<Rightarrow> string \<Rightarrow> string \<Rightarrow> string \<Rightarrow> string \<Rightarrow> (go_error + repository_content list) api_run" where
  "ListRepositoryContents c installationID0 repository0 dir0 ref0 =
     (let installationID = TrimSpace installationID0; repository = TrimSpace repository0;
          dir = Trim (TrimSpace dir0) ''/''; ref = TrimSpace ref0 in
      if \<not> validNumericID installationID then api_fail ''installation_id must be numeric''
      else if \<not> validRepository repository then api_fail ''repository must be owner/name''
      else if ContainsAny dir line_breaks \<or> Contains dir ''..'' then api_fail ''dir contains unsupported characters''
      else if ref \<noteq> [] \<and> \<not> validBranch ref then api_fail ''ref contains unsupported characters''
      else api_then (installationToken c installationID) (\<lambda>token.
        api_then (getJSON c (decode_structs decode_content) []
            (''/repos/'' @ repository @ ''/contents'' @ (if dir \<noteq> [] then ''/'' @ PathEscape dir else []) @
             (if ref \<noteq> [] then ''?ref='' @ QueryEscape ref else [])) token)
          (\<lambda>(contents, _). State_Monad.return (Inr contents))))"

definition GetRepositoryFile :: "app_client \<Rightarrow> string \<Rightarrow> string \<Rightarrow> string \<Rightarrow> string \<Rightarrow> (go_error + string) api_run" where
  "GetRepositoryFile c installationID0 repository0 filePath0 ref0 =
     (let installationID = TrimSpace installationID0; repository = TrimSpace repository0;
          filePath = Trim (TrimSpace filePath0) ''/''; ref = TrimSpace ref0 in
      if \<not> validNumericID installationID then api_fail ''installation_id must be numeric''
      else if \<not> validRepository repository then api_fail ''repository must be owner/name''
      else if filePath = [] \<or> ContainsAny filePath line_breaks \<or> Contains filePath ''..''
        then api_fail ''file path contains unsupported characters''
      else if ref \<noteq> [] \<and> \<not> validBranch ref then api_fail ''ref contains unsupported characters''
      else api_then (installationToken c installationID) (\<lambda>token.
        api_then (getJSON c decode_file \<lparr>file_Type = [], file_Encoding = [], file_Content = []\<rparr>
            (''/repos/'' @ repository @ ''/contents/'' @ PathEscape filePath @
             (if ref \<noteq> [] then ''?ref='' @ QueryEscape ref else [])) token)
          (\<lambda>(f, _).
            if file_Type f \<noteq> ''file'' \<or> file_Encoding f \<noteq> ''base64'' then api_fail ''github content response was not a base64 file''
            else case StdEncoding_DecodeString (ReplaceAll (file_Content f) [CHR 0x0A] []) of
              None \<Rightarrow> api_fail (''decode github file content: '' @ err_text (ac_base64_error c (file_Content f)))
            | Some content \<Rightarrow> State_Monad.return (Inr content))))"

definition GetRepositoryCommit :: "app_client \<Rightarrow> string \<Rightarrow> string \<Rightarrow> string \<Rightarrow> (go_error + repository_commit) api_run" where
  "GetRepositoryCommit c installationID0 repository0 ref0 =
     (let installationID = TrimSpace installationID0; repository = TrimSpace repository0; ref = TrimSpace ref0 in
      if \<not> validNumericID installationID then api_fail ''installation_id must be numeric''
      else if \<not> validRepository repository then api_fail ''repository must be owner/name''
      else if \<not> validBranch ref then api_fail ''ref contains unsupported characters''
      else api_then (installationToken c installationID) (\<lambda>token.
        api_then (getJSON c decode_api_commit
            \<lparr>comm_SHA = [], comm_Message = [], comm_AuthorName = [], comm_AuthorLogin = [], comm_AuthorAvatarURL = [], comm_HTMLURL = []\<rparr>
            (''/repos/'' @ repository @ ''/commits/'' @ PathEscape ref) token)
          (\<lambda>(commit, _). State_Monad.return (Inr commit))))"

subsection \<open>Credentials for sources\<close>

text \<open>
  The file \<^verbatim>\<open>internal/githubconnector/source_authenticator.go\<close>: the header with which Git fetches from a
  repository of a connector. The lookup of the account is an argument.
\<close>

definition httpsGitHubRepository :: "string \<Rightarrow> string option" where
  "httpsGitHubRepository sourceURL =
     (case Parse (TrimSpace sourceURL) of
        None \<Rightarrow> None
      | Some u \<Rightarrow>
          if url_Scheme u \<noteq> ''https'' \<or> \<not> EqualFold (url_Host u) ''github.com'' \<or> url_HasUser u \<or> url_RawQuery u \<noteq> []
             \<or> url_Fragment u \<noteq> [] then None
          else let repository = TrimSuffix (Trim (url_Path u) ''/'') ''.git'' in
            if validRepository repository then Some repository else None)"

definition authorizes :: "string \<Rightarrow> gh_repository \<Rightarrow> bool" where
  "authorizes repository configured \<longleftrightarrow>
     EqualFold (repo_Repository configured) repository \<and> repo_InstallationID configured \<noteq> [] \<and> repo_RepositoryID configured \<noteq> []"

definition AuthorizationHeader ::
  "(pg_uuid \<Rightarrow> go_error + connector_account) \<Rightarrow> app_client option \<Rightarrow> pg_uuid \<Rightarrow> string \<Rightarrow> (go_error + string) api_run" where
  "AuthorizationHeader accounts app connectorID sourceURL =
     (case (httpsGitHubRepository sourceURL, connectorID, app) of
        (Some repository, Some _, Some c) \<Rightarrow>
          (case accounts connectorID of
             Inl err \<Rightarrow> api_fail (''load github connector: '' @ err_text err)
           | Inr account \<Rightarrow>
               if \<not> acc_Enabled account \<or> \<not> EqualFold (acc_Provider account) ''github'' then State_Monad.return (Inr [])
               else case ParseConfig (ac_json_error c) (acc_Config account) of
                 Inl err \<Rightarrow> api_fail (''parse enabled github connector '' @ Quote (acc_Name account) @ '': '' @ err_text err)
               | Inr cfg \<Rightarrow>
                   (case filter (authorizes repository) (cfg_Repositories cfg) of
                      [] \<Rightarrow> State_Monad.return (Inr [])
                    | configured # _ \<Rightarrow> do {
                        t \<leftarrow> InstallationToken c (repo_InstallationID configured) (repo_RepositoryID configured);
                        (case t of
                           Inl err \<Rightarrow> api_fail (''create github installation token: '' @ err_text err)
                         | Inr token \<Rightarrow> State_Monad.return
                             (Inr (''Authorization: Basic '' @ StdEncoding_EncodeToString (''x-access-token:'' @ token))))
                      }))
      | _ \<Rightarrow> State_Monad.return (Inr []))"

subsection \<open>Making a client\<close>

text \<open>
  \<open>NewAppClient\<close> on the parts that read a key: a PEM block from text, and the two formats of its bytes. A
  PKCS 8 block may hold a key that is not RSA.
\<close>

datatype 'k pkcs8_key = RSA_Key 'k | Other_Key

definition parsePrivateKey ::
  "(string \<Rightarrow> string option) \<Rightarrow> (string \<Rightarrow> 'k option) \<Rightarrow> (string \<Rightarrow> go_error + 'k pkcs8_key) \<Rightarrow> string \<Rightarrow> go_error + 'k" where
  "parsePrivateKey pem_Decode parse_pkcs1 parse_pkcs8 value0 =
     (let v = TrimSpace (ReplaceAll value0 [backslash, CHR ''n''] [CHR 0x0A]) in
      if v = [] then Inl (Errorf ''github app private key is required'')
      else case pem_Decode v of
        None \<Rightarrow> Inl (Errorf ''github app private key must be PEM encoded'')
      | Some block \<Rightarrow>
          (case parse_pkcs1 block of
             Some key \<Rightarrow> Inr key
           | None \<Rightarrow>
               (case parse_pkcs8 block of
                  Inl err \<Rightarrow> Inl (Errorf (''parse github app private key: '' @ err_text err))
                | Inr Other_Key \<Rightarrow> Inl (Errorf ''github app private key must be RSA'')
                | Inr (RSA_Key key) \<Rightarrow> Inr key)))"

text \<open>The identifier, the key and the base URL of a new client.\<close>

definition NewAppClient ::
  "(string \<Rightarrow> string option) \<Rightarrow> (string \<Rightarrow> 'k option) \<Rightarrow> (string \<Rightarrow> go_error + 'k pkcs8_key) \<Rightarrow> string \<Rightarrow> string \<Rightarrow>
   go_error + string \<times> 'k \<times> string" where
  "NewAppClient pem_Decode parse_pkcs1 parse_pkcs8 appID0 privateKeyPEM =
     (let appID = TrimSpace appID0 in
      if appID = [] then Inl (Errorf ''github app id is required'')
      else try_bind (parsePrivateKey pem_Decode parse_pkcs1 parse_pkcs8 privateKeyPEM) (\<lambda>key.
        Inr (appID, key, defaultGitHubAPIURL)))"

end
