(* ===== verification/Store_Catalog.thy ===== *)
theory Store_Catalog
  imports Store_Invariants
begin

text \<open>
  Queries of \<^verbatim>\<open>internal/db/core.sql.go\<close> that list what the tables hold for the handlers of webhooks and builds:
  connectors, build runs, and the applications that are deployed automatically. They change nothing.
\<close>

subsection \<open>Connectors and builds\<close>

definition GetConnectorAccount :: "pg_uuid \<Rightarrow> connector_account stmt" where
  "GetConnectorAccount i db =
     try_bind (one_row (filter (\<lambda>a. sql_eq (acc_ID a) i) (connector_accounts db))) (\<lambda>a. Inr (a, db))"

definition ListConnectorAccounts :: "connector_account list stmt" where
  "ListConnectorAccounts db =
     Inr (sort_key (\<lambda>a. collation db (acc_Provider a)) (sort_key (\<lambda>a. collation db (acc_Name a)) (connector_accounts db)), db)"

definition GetBuildRun :: "pg_uuid \<Rightarrow> build_run stmt" where
  "GetBuildRun i db =
     try_bind (one_row (filter (\<lambda>b. sql_eq (build_ID b) i) (build_runs db))) (\<lambda>b. Inr (b, db))"

text \<open>Newest first; a negative limit is an error of the server.\<close>

definition limited :: "int \<Rightarrow> 'r list \<Rightarrow> go_error + 'r list" where
  "limited n rows =
     (if n < 0 then Inl (PgError ''2201W'' [] ''LIMIT must not be negative'') else Inr (take (nat n) rows))"

definition ListBuildRuns :: "int \<Rightarrow> build_run list stmt" where
  "ListBuildRuns n db =
     try_bind (limited n (rev (sort_key (\<lambda>b. case build_CreatedAt b of None \<Rightarrow> 0 | Some t \<Rightarrow> t) (build_runs db))))
       (\<lambda>rows. Inr (rows, db))"

subsection \<open>Applications that are deployed automatically\<close>

record auto_row =
  auto_ID :: pg_uuid
  auto_ServerID :: pg_uuid
  auto_Name :: string
  auto_RepositoryUrl :: pg_text
  auto_Branch :: string
  auto_ComposePath :: string
  auto_HealthCheckUrl :: pg_text

definition auto_row_of :: "application \<Rightarrow> auto_row" where
  "auto_row_of a =
     \<lparr>auto_ID = app_ID a, auto_ServerID = app_ServerID a, auto_Name = app_Name a, auto_RepositoryUrl = app_RepositoryUrl a,
      auto_Branch = app_Branch a, auto_ComposePath = app_ComposePath a, auto_HealthCheckUrl = app_HealthCheckUrl a\<rparr>"

definition ListApplicationsForGitHubPush :: "string \<Rightarrow> string list \<Rightarrow> auto_row list stmt" where
  "ListApplicationsForGitHubPush branch repository_urls db =
     Inr (map auto_row_of (sort_key (\<lambda>a. collation db (app_Name a))
       (filter (\<lambda>a. app_Branch a = branch \<and> (\<exists>u\<in>set repository_urls. app_RepositoryUrl a = Some u) \<and> app_GithubAutoDeploy a)
         (applications db))), db)"

text \<open>
  The operator \<open>LIKE\<close> on code points: a percent sign stands for any text, an underscore for any one code
  point, and a backslash takes the next code point literally.
\<close>

fun like :: "nat list \<Rightarrow> nat list \<Rightarrow> bool" where
  "like [] t \<longleftrightarrow> t = []"
| "like (p # ps) [] \<longleftrightarrow> p = byte (CHR ''%'') \<and> like ps []"
| "like (p # ps) (r # t) \<longleftrightarrow>
     (if p = byte (CHR ''%'') then like ps (r # t) \<or> like (p # ps) t
      else if p = byte (CHR ''_'') then like ps t
      else if p = byte (CHR 0x5C) then (case ps of [] \<Rightarrow> False | q # qs \<Rightarrow> q = r \<and> like qs t)
      else p = r \<and> like ps t)"

definition sql_like :: "pg_text \<Rightarrow> string \<Rightarrow> bool" where
  "sql_like v pattern \<longleftrightarrow> (case v of None \<Rightarrow> False | Some t \<Rightarrow> like (runes pattern) (runes t))"

definition names_repository :: "pg_text \<Rightarrow> string \<Rightarrow> bool" where
  "names_repository url repository \<longleftrightarrow>
     sql_like url (''%/'' @ repository @ ''.git'') \<or> sql_like url (''%/'' @ repository) \<or>
     sql_like url (''%:'' @ repository @ ''.git'') \<or> sql_like url (''%:'' @ repository)"

definition ListApplicationsForBuildComplete :: "string \<Rightarrow> string \<Rightarrow> auto_row list stmt" where
  "ListApplicationsForBuildComplete branch repository db =
     Inr (map auto_row_of (sort_key (\<lambda>a. collation db (app_Name a))
       (filter (\<lambda>a. app_Branch a = branch \<and> app_GithubAutoDeploy a \<and> names_repository (app_RepositoryUrl a) repository)
         (applications db))), db)"

lemma catalog_read_only:
  "stmt_keeps I (GetConnectorAccount i)" "stmt_keeps I ListConnectorAccounts" "stmt_keeps I (GetBuildRun i)"
  "stmt_keeps I (ListBuildRuns n)" "stmt_keeps I (ListApplicationsForGitHubPush branch urls)"
  "stmt_keeps I (ListApplicationsForBuildComplete branch repository)"
  by (auto simp: stmt_keeps_def GetConnectorAccount_def ListConnectorAccounts_def GetBuildRun_def ListBuildRuns_def
      ListApplicationsForGitHubPush_def ListApplicationsForBuildComplete_def try_bind_eq_Inr_iff)

end
