(* ===== verification/Github_Builds.thy ===== *)
theory Github_Builds
  imports Http_Deployments Github_Hook Github_App Store_Catalog "HOL-Library.AList"
begin

text \<open>
  The pure parts of \<^verbatim>\<open>internal/httpapi/github.go\<close> and of the build requests in
  \<^verbatim>\<open>internal/httpapi/github_repositories.go\<close>: which entry of a connector builds an application, whether the
  changed paths of a push concern it, and the request that starts a workflow. A map of inputs is an
  association list.
\<close>

subsection \<open>Entries of a connector\<close>

definition connector_entries :: "(string \<Rightarrow> go_error) \<Rightarrow> string \<Rightarrow> http_error + gh_repository list" where
  "connector_entries json_err raw =
     map_error (\<lambda>err. ValidationError (''github connector config '' @ err_text err)) (RepositoriesFromConfig json_err raw)"

definition githubConnectorRepositories ::
  "(string \<Rightarrow> go_error) \<Rightarrow> string \<Rightarrow> string \<Rightarrow> string \<Rightarrow> http_error + gh_repository list" where
  "githubConnectorRepositories json_err raw repositoryName branch =
     try_bind (connector_entries json_err raw) (\<lambda>repositories.
       let found = filter (\<lambda>r. EqualFold (repo_Repository r) repositoryName \<and> repo_Branch r = branch) repositories in
       if found = [] then Inl (ValidationError ''repository is not connected to this github connector'') else Inr found)"

definition githubConnectorRepositoryAnyBranch ::
  "(string \<Rightarrow> go_error) \<Rightarrow> string \<Rightarrow> string \<Rightarrow> http_error + gh_repository" where
  "githubConnectorRepositoryAnyBranch json_err raw repositoryName =
     try_bind (connector_entries json_err raw) (\<lambda>repositories.
       case filter (\<lambda>r. EqualFold (repo_Repository r) repositoryName) repositories of
         r # _ \<Rightarrow> Inr r
       | [] \<Rightarrow> Inl (ValidationError ''repository is not connected to this github connector''))"

definition githubConnectorRepository ::
  "(string \<Rightarrow> go_error) \<Rightarrow> string \<Rightarrow> string \<Rightarrow> string \<Rightarrow> http_error + gh_repository" where
  "githubConnectorRepository json_err raw repositoryName branch =
     (case githubConnectorRepositories json_err raw repositoryName branch of
        Inr repositories \<Rightarrow> Inr (hd repositories)
      | Inl _ \<Rightarrow>
          try_bind (githubConnectorRepositoryAnyBranch json_err raw repositoryName) (\<lambda>r. Inr (r\<lparr>repo_Branch := branch\<rparr>)))"

definition githubConnectorRepositoryForApplication ::
  "(string \<Rightarrow> go_error) \<Rightarrow> string \<Rightarrow> string \<Rightarrow> string \<Rightarrow> string \<Rightarrow> http_error + gh_repository" where
  "githubConnectorRepositoryForApplication json_err raw repositoryName branch applicationID0 =
     try_bind (githubConnectorRepositories json_err raw repositoryName branch) (\<lambda>repositories.
       let applicationID = TrimSpace applicationID0 in
       if applicationID = [] \<and> length repositories = 1 then Inr (hd repositories)
       else case filter (\<lambda>r. applicationID \<noteq> [] \<and> repo_ApplicationID r = applicationID) repositories of
         r # _ \<Rightarrow> Inr r
       | [] \<Rightarrow>
           if applicationID = []
           then Inl (ValidationError ''application_id is required when a repository has multiple build targets'')
           else Inl (ValidationError ''repository build target is not connected to this application''))"

subsection \<open>Paths\<close>

definition pathFilterMatches :: "string \<Rightarrow> string \<Rightarrow> bool" where
  "pathFilterMatches filter0 changedPath =
     (let filter1 = Trim (TrimSpace filter0) ''/'' in
      if filter1 = [] \<or> changedPath = [] then False
      else let filter = TrimSuffix (TrimSuffix filter1 ''/**'') ''/*'' in
      if filter = [] then True
      else changedPath = filter \<or> HasPrefix changedPath (filter @ ''/''))"

definition repositoryMatchesChangedPaths :: "string list \<Rightarrow> string list \<Rightarrow> bool" where
  "repositoryMatchesChangedPaths filters changed =
     (if filters = [] then True
      else if changed = [] then False
      else list_ex (\<lambda>path. list_ex (\<lambda>f. pathFilterMatches f (Trim (TrimSpace path) ''/'')) filters) changed)"

definition applicationPathFilters :: "string \<Rightarrow> string list" where
  "applicationPathFilters composePath =
     (let root = PathDir (Trim (TrimSpace composePath) ''/'') in if root = ''.'' then [] else [root @ ''/**''])"

definition applicationMatchesChangedPaths :: "auto_row \<Rightarrow> string list \<Rightarrow> bool" where
  "applicationMatchesChangedPaths application changed =
     repositoryMatchesChangedPaths (applicationPathFilters (auto_ComposePath application)) changed"

subsection \<open>The entry that builds an application\<close>

definition repositoryTargetsApplication :: "gh_repository \<Rightarrow> string \<Rightarrow> string \<Rightarrow> bool" where
  "repositoryTargetsApplication repository application_id applicationName =
     (if repo_ApplicationID repository \<noteq> [] then repo_ApplicationID repository = application_id
      else if repo_ApplicationName repository \<noteq> [] then EqualFold (repo_ApplicationName repository) applicationName
      else True)"

definition application_specific :: "gh_repository \<Rightarrow> bool" where
  "application_specific r \<longleftrightarrow> repo_ApplicationID r \<noteq> [] \<or> repo_ApplicationName r \<noteq> []"

text \<open>
  Entries that name the application come first. The result is the entry, if the push concerns it, and
  whether the connector has one at all.
\<close>

definition githubConnectorBuildTarget ::
  "(string \<Rightarrow> go_error) \<Rightarrow> string \<Rightarrow> string \<Rightarrow> string \<Rightarrow> string \<Rightarrow> auto_row \<Rightarrow> string list \<Rightarrow> gh_repository option \<times> bool" where
  "githubConnectorBuildTarget json_err raw repoName branch application_id application changed =
     (case githubConnectorRepositories json_err raw repoName branch of
        Inl _ \<Rightarrow> (None, False)
      | Inr repositories \<Rightarrow>
          (let targets = filter (\<lambda>r. repositoryTargetsApplication r application_id (auto_Name application)) repositories in
           case filter application_specific targets @ filter (\<lambda>r. \<not> application_specific r) targets of
             [] \<Rightarrow> (None, False)
           | r # _ \<Rightarrow>
               let r' = (if repo_PathFilters r = [] \<and> \<not> application_specific r
                         then r\<lparr>repo_PathFilters := applicationPathFilters (auto_ComposePath application)\<rparr> else r)
               in if repositoryMatchesChangedPaths (repo_PathFilters r') changed then (Some r', True) else (None, True)))"

fun githubRepoFromURLs :: "string list \<Rightarrow> string" where
  "githubRepoFromURLs [] = []"
| "githubRepoFromURLs (u0 # us) =
     (let u = TrimSuffix (TrimSpace u0) ''.git'' in
      case LastIndex u (CHR ''/'') of
        None \<Rightarrow> githubRepoFromURLs us
      | Some idx \<Rightarrow>
          if idx = 0 then githubRepoFromURLs us
          else let prefix = take idx u; name = drop (Suc idx) u in
            (case LastIndex prefix (CHR ''/'') of
               Some i \<Rightarrow> drop (Suc i) prefix @ ''/'' @ name
             | None \<Rightarrow>
                 (case LastIndex prefix (CHR '':'') of
                    Some i \<Rightarrow> drop (Suc i) prefix @ ''/'' @ name
                  | None \<Rightarrow> githubRepoFromURLs us)))"

subsection \<open>Requests for builds\<close>

record build_request =
  br_Repository :: string
  br_ApplicationID :: string
  br_Branch :: string
  br_WorkflowID :: string
  br_Inputs :: "(string \<times> string) list"

definition input_of :: "(string \<times> string) list \<Rightarrow> string \<Rightarrow> string" where
  "input_of inputs key = text_String (map_of inputs key)"

definition normalizeGitHubBuildDispatchRequest :: "build_request \<Rightarrow> build_request" where
  "normalizeGitHubBuildDispatchRequest request =
     request\<lparr>br_Repository := TrimSpace (br_Repository request), br_ApplicationID := TrimSpace (br_ApplicationID request),
       br_Branch := or_default (TrimSpace (br_Branch request)) ''main'', br_WorkflowID := TrimSpace (br_WorkflowID request)\<rparr>"

definition addGitHubBuildInput :: "string \<Rightarrow> string \<Rightarrow> (string \<times> string) list \<Rightarrow> (string \<times> string) list" where
  "addGitHubBuildInput key v inputs =
     (if TrimSpace (input_of inputs key) \<noteq> [] \<or> TrimSpace v = [] then inputs else AList.update key (TrimSpace v) inputs)"

definition fillGitHubBuildDefaults :: "build_request \<Rightarrow> gh_repository \<Rightarrow> build_request" where
  "fillGitHubBuildDefaults request repository =
     (let workflow = or_default (or_default (br_WorkflowID request) (repo_WorkflowID repository)) DefaultBuildWorkflowID;
          i1 = addGitHubBuildInput ''image_ref'' (repo_ImageRef repository) (br_Inputs request);
          i2 = addGitHubBuildInput ''build_matrix'' (repo_BuildMatrix repository) i1;
          i3 = (if repo_BuildMatrix repository = []
                then addGitHubBuildInput ''dockerfile'' (repo_Dockerfile repository)
                       (addGitHubBuildInput ''build_context'' (repo_BuildContext repository) i2)
                else i2)
      in request\<lparr>br_WorkflowID := workflow, br_Inputs := addGitHubBuildInput ''runner'' (repo_Runner repository) i3\<rparr>)"

definition expandGitHubBuildInputTemplates :: "(string \<times> string) list \<Rightarrow> string \<Rightarrow> (string \<times> string) list" where
  "expandGitHubBuildInputTemplates inputs commitSHA0 =
     (let commitSHA = TrimSpace commitSHA0; shortSHA = take 12 commitSHA in
      map (\<lambda>(k, v). (k, ReplaceAll (ReplaceAll v ''${COMMIT_SHA}'' commitSHA) ''${SHORT_SHA}'' shortSHA)) inputs)"

definition nullableApplicationID :: "http_env \<Rightarrow> string \<Rightarrow> pg_uuid" where
  "nullableApplicationID h v =
     (case PgUUID (q_parse_uuid (h_queue h)) (TrimSpace v) of Inl _ \<Rightarrow> None | Inr i \<Rightarrow> i)"

definition validateGitHubBuildDispatchRequest :: "http_env \<Rightarrow> build_request \<Rightarrow> http_error option" where
  "validateGitHubBuildDispatchRequest h request =
     (if br_Repository request = [] then Some (ValidationError ''repository is required'')
      else if br_ApplicationID request \<noteq> [] \<and> nullableApplicationID h (br_ApplicationID request) = None
        then Some (ValidationError ''application_id must be a uuid'')
      else if ContainsAny (br_WorkflowID request) ([CHR ''/'', backslash] @ line_breaks)
        then Some (ValidationError ''workflow_id must be a workflow file name or numeric id'')
      else if TrimSpace (input_of (br_Inputs request) ''image_ref'') = []
        then Some (ValidationError ''image_ref is required before a github build can be dispatched'')
      else if list_ex (\<lambda>(k, v). TrimSpace k = [] \<or> ContainsAny (TrimSpace k) line_breaks \<or> ContainsAny v line_breaks) (br_Inputs request)
        then Some (ValidationError ''workflow inputs cannot contain blank keys or control characters'')
      else None)"

definition githubBuildWorkflowInputs :: "http_env \<Rightarrow> (string \<times> string) list \<Rightarrow> build_run \<Rightarrow> (string \<times> string) list" where
  "githubBuildWorkflowInputs h inputs build =
     AList.update ''branch'' (build_Branch build) (AList.update ''repository'' (build_Repository build)
       (AList.update ''deploy_manager_build_id'' (id_text h (build_ID build)) inputs))"

definition buildErrorMessage :: "go_error \<Rightarrow> string" where
  "buildErrorMessage err = take 512 (err_text err)"

definition githubPushBuildRequest :: "gh_repository \<Rightarrow> push \<Rightarrow> build_request" where
  "githubPushBuildRequest repo p =
     (let inputs = (if TrimSpace (push_CommitSHA p) \<noteq> [] then [(''commit_sha'', TrimSpace (push_CommitSHA p))] else []);
          request = fillGitHubBuildDefaults \<lparr>br_Repository = repo_Repository repo, br_ApplicationID = [], br_Branch = repo_Branch repo,
            br_WorkflowID = [], br_Inputs = inputs\<rparr> repo
      in request\<lparr>br_Inputs := expandGitHubBuildInputTemplates (br_Inputs request) (push_CommitSHA p)\<rparr>)"

definition normalizeGitHubEvent :: "string \<Rightarrow> http_error + string" where
  "normalizeGitHubEvent v =
     (if ContainsAny v line_breaks then Inl (ValidationError ''github event header cannot contain control characters'')
      else let event = ToLower (TrimSpace v) in
        if event = [] then Inl (ValidationError ''github event header is required'') else Inr event)"

definition validateGitHubPushBranch :: "string \<Rightarrow> go_error option" where
  "validateGitHubPushBranch branch = ValidateGitRefName branch"

end
