(* ===== verification/Http_Github.thy ===== *)
theory Http_Github
  imports Github_Builds Http_Guards
begin

text \<open>
  The webhook of \<^verbatim>\<open>internal/httpapi/github.go\<close> and the dispatch of builds on request from
  \<^verbatim>\<open>internal/httpapi/github_repositories.go\<close>. A push either starts a workflow that builds an image, or queues
  a deployment that builds on the server, for each application that is deployed automatically.
\<close>

text \<open>The GitHub App, if one is configured, is the client as it finds the API at each step.\<close>

record github_env =
  g_http :: http_env
  g_Secret :: string
  g_App :: "(nat \<Rightarrow> app_client) option"
  g_json_error :: "string \<Rightarrow> go_error"

datatype webhook_body =
    Duplicate_Delivery
  | Status_Ok
  | Ignored_Event string
  | Branch_Deleted string string
  | Push_Handled string string nat "deployment list" "build_run list" "(string \<times> string) list"

subsection \<open>Dispatching a workflow\<close>

definition dispatch_workflow ::
  "(nat \<Rightarrow> app_client) \<Rightarrow> string \<Rightarrow> string \<Rightarrow> string \<Rightarrow> string \<Rightarrow> (string \<times> string) list \<Rightarrow> go_error option sys_run" where
  "dispatch_workflow app installationID repository workflowID ref inputs = do {
     n \<leftarrow> on_world next_step;
     State_Monad.return (case fst (run_state (DispatchWorkflow (app n) installationID repository workflowID ref inputs) []) of
         Inl err \<Rightarrow> Some err | Inr _ \<Rightarrow> None)
   }"

definition create_build_row :: "http_env \<Rightarrow> create_build_params \<Rightarrow> (go_error + build_run) sys_run" where
  "create_build_row h arg = do {
     n \<leftarrow> on_world next_step;
     serve h (CreateBuildRun (fresh_ids (h_runner h) n) arg)
   }"

definition fail_build :: "http_env \<Rightarrow> build_run \<Rightarrow> go_error \<Rightarrow> (go_error + build_run) sys_run" where
  "fail_build h build err =
     serve h (CompleteBuildRun \<lparr>co_ID = build_ID build, co_Status = ''failed'', co_ImageRef = None, co_ImageDigest = None,
       co_ExternalUrl = None, co_ErrorMessage = blankStringAsText (buildErrorMessage err)\<rparr>)"

definition auditGitHubSkip :: "http_env \<Rightarrow> http_request \<Rightarrow> auto_row \<Rightarrow> http_error \<Rightarrow> push \<Rightarrow> unit sys_run" where
  "auditGitHubSkip h r application err p =
     http_audit h r ''github.push_skipped'' ''deployment'' (id_text h (auto_ID application)) (auto_Name application)
       [(''reason'', JStr ''not_deployable''), (''error'', JStr (http_error_text err)), (''branch'', JStr (push_Branch p)),
        (''commit_sha'', JStr (push_CommitSHA p))]"

text \<open>The build of one entry: the row, the workflow, and the row again when the workflow could not be started.\<close>

definition dispatch_build ::
  "github_env \<Rightarrow> (nat \<Rightarrow> app_client) \<Rightarrow> http_request \<Rightarrow> auto_row \<Rightarrow> push \<Rightarrow> connector_account \<Rightarrow> gh_repository \<Rightarrow> build_request \<Rightarrow>
   build_run option sys_run" where
  "dispatch_build g app r application p account repo request = do {
     c \<leftarrow> create_build_row (g_http g) \<lparr>cb_Provider = ''github_actions'', cb_ConnectorID = acc_ID account,
       cb_ApplicationID = auto_ID application, cb_Repository = repo_Repository repo, cb_Branch = repo_Branch repo,
       cb_WorkflowID = br_WorkflowID request, cb_CommitSha = blankStringAsText (push_CommitSHA p)\<rparr>;
     (case c of
        Inl err \<Rightarrow> State_Monad.return None
      | Inr build \<Rightarrow> do {
          e \<leftarrow> dispatch_workflow app (repo_InstallationID repo) (repo_Repository repo) (br_WorkflowID request) (repo_Branch repo)
            (githubBuildWorkflowInputs (g_http g) (br_Inputs request) build);
          (case e of
             Some err \<Rightarrow> do {
               f \<leftarrow> fail_build (g_http g) build err;
               State_Monad.return (Some (case f of Inr failed \<Rightarrow> failed | Inl _ \<Rightarrow> build))
             }
           | None \<Rightarrow> do {
               http_audit (g_http g) r ''github.build_dispatch'' ''build'' (id_text (g_http g) (build_ID build)) (repo_Repository repo)
                 [(''connector_id'', JStr (id_text (g_http g) (acc_ID account))), (''branch'', JStr (push_Branch p)),
                  (''commit_sha'', JStr (push_CommitSHA p)), (''workflow_id'', JStr (br_WorkflowID request))];
               State_Monad.return (Some build)
             })
        })
   }"

text \<open>The connectors in turn. The second component of a result says that the push has been dealt with.\<close>

fun try_accounts ::
  "github_env \<Rightarrow> (nat \<Rightarrow> app_client) \<Rightarrow> http_request \<Rightarrow> auto_row \<Rightarrow> push \<Rightarrow> string \<Rightarrow> bool \<Rightarrow> bool \<Rightarrow> connector_account list \<Rightarrow>
   (build_run option \<times> bool) sys_run" where
  "try_accounts g app r application p repoName hasOwnedTarget sourceMatch [] =
     State_Monad.return (None, \<not> sourceMatch \<and>
       (hasOwnedTarget \<or> \<not> applicationMatchesChangedPaths application (push_ChangedPaths p)))"
| "try_accounts g app r application p repoName hasOwnedTarget sourceMatch (account # accounts) =
     (if acc_Provider account \<noteq> ''github'' \<or> \<not> acc_Enabled account
        then try_accounts g app r application p repoName hasOwnedTarget sourceMatch accounts
      else case githubConnectorBuildTarget (g_json_error g) (acc_Config account) repoName (push_Branch p)
             (id_text (g_http g) (auto_ID application)) application (push_ChangedPaths p) of
        (_, False) \<Rightarrow> try_accounts g app r application p repoName hasOwnedTarget sourceMatch accounts
      | (None, True) \<Rightarrow> try_accounts g app r application p repoName True sourceMatch accounts
      | (Some repo, True) \<Rightarrow>
          (let request = githubPushBuildRequest repo p in
           if repo_InstallationID repo = [] then do {
             auditGitHubSkip (g_http g) r application
               (ValidationError ''github repository requires installation_id before builds can be dispatched'') p;
             State_Monad.return (None, True)
           }
           else if TrimSpace (input_of (br_Inputs request) ''image_ref'') = []
             then try_accounts g app r application p repoName True True accounts
           else case validateGitHubBuildDispatchRequest (g_http g) request of
             Some err \<Rightarrow> do { auditGitHubSkip (g_http g) r application err p; State_Monad.return (None, True) }
           | None \<Rightarrow> do {
               b \<leftarrow> dispatch_build g app r application p account repo request;
               State_Monad.return (b, True)
             }))"

definition tryBuildDispatch :: "github_env \<Rightarrow> http_request \<Rightarrow> auto_row \<Rightarrow> push \<Rightarrow> (build_run option \<times> bool) sys_run" where
  "tryBuildDispatch g r application p =
     (case g_App g of
        None \<Rightarrow> State_Monad.return (None, False)
      | Some app \<Rightarrow> do {
          a \<leftarrow> serve (g_http g) ListConnectorAccounts;
          (case a of
             Inl _ \<Rightarrow> State_Monad.return (None, False)
           | Inr accounts \<Rightarrow>
               let repoName = githubRepoFromURLs (push_Repositories p) in
               if repoName = [] then State_Monad.return (None, False)
               else try_accounts g app r application p repoName False False accounts)
        })"

subsection \<open>The webhook\<close>

definition githubSkipEntry :: "http_env \<Rightarrow> auto_row \<Rightarrow> http_error \<Rightarrow> string \<times> string" where
  "githubSkipEntry h application err = (id_text h (auto_ID application), http_error_text err)"

definition push_params :: "auto_row \<Rightarrow> push \<Rightarrow> create_deployment_params" where
  "push_params application p =
     \<lparr>cd_Trigger = ''github_push'', cd_Strategy = ''blue_green'', cd_CommitSha = blankStringAsText (push_CommitSHA p),
      cd_ImageRef = None, cd_ImageDigest = None, cd_Actor = blankStringAsText (push_Actor p), cd_ApplicationID = auto_ID application\<rparr>"

definition githubQueueFailureMetadata :: "deployment \<Rightarrow> go_error \<Rightarrow> (string \<times> json) list" where
  "githubQueueFailureMetadata d cause = deploymentQueueFailureMetadata d cause @ [(''source'', JStr ''github_push'')]"

text \<open>One application of a push: an error ends the request, otherwise it is queued, built, skipped or left alone.\<close>

datatype push_result =
    Push_Queued deployment
  | Push_Built build_run
  | Push_Skipped http_error
  | Push_Left

definition push_skip :: "github_env \<Rightarrow> http_request \<Rightarrow> auto_row \<Rightarrow> push \<Rightarrow> http_error \<Rightarrow> (http_error + push_result) sys_run" where
  "push_skip g r application p err = do {
     auditGitHubSkip (g_http g) r application err p;
     State_Monad.return (Inr (Push_Skipped err))
   }"

definition push_deploy :: "github_env \<Rightarrow> http_request \<Rightarrow> create_deployment_params \<Rightarrow> (http_error + push_result) sys_run" where
  "push_deploy g r input = do {
     c \<leftarrow> create_deployment_row (g_http g) input;
     (case c of
        Inl err \<Rightarrow> State_Monad.return (Inl (Internal err))
      | Inr d \<Rightarrow> do {
          e \<leftarrow> enqueueDeployment (g_http g) d;
          (case e of
             Some err \<Rightarrow> do {
               http_audit (g_http g) r ''github.queue_failed'' ''deployment'' (id_text (g_http g) (dep_ID d))
                 (id_text (g_http g) (dep_ApplicationID d)) (githubQueueFailureMetadata d err);
               State_Monad.return (Inl (Internal err))
             }
           | None \<Rightarrow> State_Monad.return (Inr (Push_Queued d)))
        })
   }"

definition push_application :: "github_env \<Rightarrow> http_request \<Rightarrow> push \<Rightarrow> auto_row \<Rightarrow> (http_error + push_result) sys_run" where
  "push_application g r p application =
     (case validateBlueGreenHealthCheck (g_http g) (auto_HealthCheckUrl application) of
        Some err \<Rightarrow> push_skip g r application p err
      | None \<Rightarrow> do {
          b \<leftarrow> tryBuildDispatch g r application p;
          (case b of
             (Some build, True) \<Rightarrow> State_Monad.return (Inr (Push_Built build))
           | (None, True) \<Rightarrow> State_Monad.return (Inr Push_Left)
           | (_, False) \<Rightarrow>
               if TrimSpace (auto_ComposePath application) = []
               then push_skip g r application p (ValidationError ''application has no compose_path to build from'')
               else (case normalizeCreateDeployment (push_params application p) of
                 Inl err \<Rightarrow> push_skip g r application p err
               | Inr input \<Rightarrow> push_deploy g r input))
        })"

fun push_applications ::
  "github_env \<Rightarrow> http_request \<Rightarrow> push \<Rightarrow> auto_row list \<Rightarrow> (http_error + (auto_row \<times> push_result) list) sys_run" where
  "push_applications g r p [] = State_Monad.return (Inr [])"
| "push_applications g r p (application # apps) = do {
     o1 \<leftarrow> push_application g r p application;
     (case o1 of
        Inl err \<Rightarrow> State_Monad.return (Inl err)
      | Inr outcome \<Rightarrow> do {
          os \<leftarrow> push_applications g r p apps;
          State_Monad.return (try_bind os (\<lambda>outcomes. Inr ((application, outcome) # outcomes)))
        })
   }"

definition queued_of :: "(auto_row \<times> push_result) list \<Rightarrow> deployment list" where
  "queued_of outcomes = concat (map (\<lambda>(_, oc). case oc of Push_Queued d \<Rightarrow> [d] | _ \<Rightarrow> []) outcomes)"

definition built_of :: "(auto_row \<times> push_result) list \<Rightarrow> build_run list" where
  "built_of outcomes = concat (map (\<lambda>(_, oc). case oc of Push_Built b \<Rightarrow> [b] | _ \<Rightarrow> []) outcomes)"

definition skipped_of :: "http_env \<Rightarrow> (auto_row \<times> push_result) list \<Rightarrow> (string \<times> string) list" where
  "skipped_of h outcomes = concat (map (\<lambda>(a, oc). case oc of Push_Skipped err \<Rightarrow> [githubSkipEntry h a err] | _ \<Rightarrow> []) outcomes)"

definition githubIgnoredPushMetadata :: "push \<Rightarrow> string \<Rightarrow> (string \<times> json) list" where
  "githubIgnoredPushMetadata p reason =
     [(''reason'', JStr reason), (''branch'', JStr (push_Branch p)), (''commit_sha'', JStr (push_CommitSHA p)),
      (''actor'', JStr (push_Actor p))]"

definition handle_push :: "github_env \<Rightarrow> http_request \<Rightarrow> push \<Rightarrow> webhook_body handler" where
  "handle_push g r p =
     (case validateGitHubPushBranch (push_Branch p) of
        Some err \<Rightarrow> State_Monad.return (writeError (ValidationError (err_text err)))
      | None \<Rightarrow>
          if push_CommitSHA p \<noteq> [] \<and> \<not> ValidCommitSHA (push_CommitSHA p)
          then State_Monad.return (writeError (ValidationError ''commit_sha must be a 7 to 40 character hexadecimal SHA''))
          else do {
            a \<leftarrow> serve (g_http g) (ListApplicationsForGitHubPush (push_Branch p) (push_Repositories p));
            or_error (map_error Internal a) (\<lambda>applications. do {
              os \<leftarrow> push_applications g r p applications;
              or_error os (\<lambda>outcomes. do {
                http_audit (g_http g) r ''github.push'' ''deployment'' ''batch'' (push_Branch p)
                  [(''matched'', JNum (FormatNat (length applications))), (''commit_sha'', JStr (push_CommitSHA p))];
                State_Monad.return (writeJSON 202 (Push_Handled (push_Branch p) (push_CommitSHA p) (length applications)
                  (queued_of outcomes) (built_of outcomes) (skipped_of (g_http g) outcomes)))
              })
            })
          })"

definition handle_event :: "github_env \<Rightarrow> http_request \<Rightarrow> webhook_body handler" where
  "handle_event g r =
     or_error (normalizeGitHubEvent (req_header r ''X-GitHub-Event'')) (\<lambda>event.
       if event = ''ping'' then State_Monad.return (writeJSON 200 Status_Ok)
       else if event \<noteq> ''push'' then do {
         http_audit (g_http g) r ''github.event_ignored'' ''webhook'' ''github'' event
           [(''event'', JStr event), (''reason'', JStr ''unsupported_event'')];
         State_Monad.return (writeJSON 202 (Ignored_Event event))
       }
       else case ParsePush (g_json_error g) (req_body r) of
         Inl err \<Rightarrow> State_Monad.return (writeError (ValidationError (err_text err)))
       | Inr p \<Rightarrow>
           if push_Deleted p then do {
             http_audit (g_http g) r ''github.push_ignored'' ''deployment'' ''batch'' (push_Branch p)
               (githubIgnoredPushMetadata p ''branch_deleted'');
             State_Monad.return (writeJSON 202 (Branch_Deleted event (push_Branch p)))
           }
           else handle_push g r p)"

definition githubWebhook :: "github_env \<Rightarrow> replayCache option \<Rightarrow> http_request \<Rightarrow> (webhook_body reply \<times> replayCache option) sys_run" where
  "githubWebhook g replays r =
     (if 2097152 < length (req_body r) then State_Monad.return (writeError BodyTooLarge, replays)
      else if \<not> VerifySignature (g_Secret g) (req_body r) (req_header r ''X-Hub-Signature-256'')
        then State_Monad.return ((401, Inl ''invalid github signature''), replays)
      else case map_option (\<lambda>c. Seen c (req_header r ''X-GitHub-Delivery'')) replays of
        Some (True, c) \<Rightarrow> State_Monad.return (writeJSON 202 Duplicate_Delivery, Some c)
      | s \<Rightarrow> do { reply \<leftarrow> handle_event g r; State_Monad.return (reply, map_option snd s) })"

subsection \<open>Builds on request\<close>

definition resolveGitHubBuildCommit ::
  "(nat \<Rightarrow> app_client) \<Rightarrow> gh_repository \<Rightarrow> (string \<times> string) list \<Rightarrow> (http_error + (string \<times> string) list) sys_run" where
  "resolveGitHubBuildCommit app repository inputs =
     (let sha = TrimSpace (input_of inputs ''commit_sha'') in
      if sha \<noteq> [] then State_Monad.return
        (if ValidCommitSHA sha then Inr (AList.update ''commit_sha'' sha inputs)
         else Inl (ValidationError ''commit_sha must be a 7 to 40 character hexadecimal SHA''))
      else do {
        n \<leftarrow> on_world next_step;
        State_Monad.return
          (case fst (run_state (GetRepositoryCommit (app n) (repo_InstallationID repository) (repo_Repository repository)
                  (repo_Branch repository)) []) of
             Inl err \<Rightarrow> Inl (Internal (wrap ''resolve github branch head'' err))
           | Inr commit \<Rightarrow>
               if ValidCommitSHA (comm_SHA commit) then Inr (AList.update ''commit_sha'' (comm_SHA commit) inputs)
               else Inl (Internal (Errorf ''resolve github branch head: github returned an invalid commit SHA'')))
      })"

text \<open>The end of \<open>dispatchGitHubBuild\<close>, from a valid request on.\<close>

definition start_build ::
  "github_env \<Rightarrow> (nat \<Rightarrow> app_client) \<Rightarrow> http_request \<Rightarrow> connector_account \<Rightarrow> gh_repository \<Rightarrow> build_request \<Rightarrow> build_run handler" where
  "start_build g app r account repository request = do {
     c \<leftarrow> create_build_row (g_http g) \<lparr>cb_Provider = ''github_actions'', cb_ConnectorID = acc_ID account,
       cb_ApplicationID = nullableApplicationID (g_http g) (repo_ApplicationID repository),
       cb_Repository = repo_Repository repository, cb_Branch = repo_Branch repository, cb_WorkflowID = br_WorkflowID request,
       cb_CommitSha = blankStringAsText (input_of (br_Inputs request) ''commit_sha'')\<rparr>;
     or_error (map_error Internal c) (\<lambda>build. do {
       e \<leftarrow> dispatch_workflow app (repo_InstallationID repository) (repo_Repository repository) (br_WorkflowID request)
         (repo_Branch repository) (githubBuildWorkflowInputs (g_http g) (br_Inputs request) build);
       (case e of
          Some err \<Rightarrow> do {
            _ \<leftarrow> fail_build (g_http g) build err;
            State_Monad.return (writeError (Internal err))
          }
        | None \<Rightarrow> do {
            http_audit (g_http g) r ''github.build_dispatch'' ''repository'' (repo_Repository repository) (repo_Branch repository)
              [(''connector_id'', JStr (id_text (g_http g) (acc_ID account))), (''build_id'', JStr (id_text (g_http g) (build_ID build))),
               (''workflow_id'', JStr (br_WorkflowID request)), (''provider'', JStr ''github_actions'')];
            State_Monad.return (writeJSON 202 build)
          })
     })
   }"

definition dispatchGitHubBuild :: "github_env \<Rightarrow> http_request \<Rightarrow> http_error + build_request \<Rightarrow> build_run handler" where
  "dispatchGitHubBuild g r decoded =
     (case g_App g of
        None \<Rightarrow> State_Monad.return (writeError (ValidationError ''github app is not configured''))
      | Some app \<Rightarrow>
          or_error (parseUUIDParam (g_http g) r ''connectorID'') (\<lambda>connectorID. or_error decoded (\<lambda>request0. do {
            a \<leftarrow> serve (g_http g) (GetConnectorAccount connectorID);
            or_error (map_error (applicationLookupError ''connector not found'') a) (\<lambda>account.
              if acc_Provider account \<noteq> ''github'' \<or> \<not> acc_Enabled account
              then State_Monad.return (writeError (ValidationError ''connector must be an enabled github connector''))
              else let request1 = normalizeGitHubBuildDispatchRequest request0 in
                or_error (githubConnectorRepositoryForApplication (g_json_error g) (acc_Config account) (br_Repository request1)
                    (br_Branch request1) (br_ApplicationID request1)) (\<lambda>repository.
                  if repo_InstallationID repository = []
                  then State_Monad.return (writeError
                    (ValidationError ''github repository requires installation_id before builds can be dispatched''))
                  else let request2 = fillGitHubBuildDefaults request1 repository in do {
                    i \<leftarrow> resolveGitHubBuildCommit app repository (br_Inputs request2);
                    or_error i (\<lambda>inputs.
                      let request = request2\<lparr>br_Inputs := expandGitHubBuildInputTemplates inputs (input_of inputs ''commit_sha'')\<rparr> in
                      (case validateGitHubBuildDispatchRequest (g_http g) request of
                         Some err \<Rightarrow> State_Monad.return (writeError err)
                       | None \<Rightarrow> start_build g app r account repository request))
                  }))
          })))"

end
