(* ===== verification/Http_Batch.thy ===== *)
theory Http_Batch
  imports Http_Deployments_Proofs Store_Catalog
begin

text \<open>
  Handlers that queue any number of deployments. What such a program did is the list of the deployments
  it queued: their rows are the new queued rows, in order, and each has its item in the queue. The rules
  follow the structure of programs; a deployment is added by creating a row and pushing its item, and
  nothing else.
\<close>

definition batch :: "http_env \<Rightarrow> system \<Rightarrow> deployment list \<Rightarrow> system \<Rightarrow> bool" where
  "batch h s ds s' \<longleftrightarrow> queued_rows s' = queued_rows s @ ds \<and> set (sys_queue s) \<subseteq> set (sys_queue s') \<and>
     (\<forall>d\<in>set ds. item_of (h_queue h) d \<in> set (sys_queue s'))"

lemma batch_same: "queued_rows s' = queued_rows s \<Longrightarrow> set (sys_queue s) \<subseteq> set (sys_queue s') \<Longrightarrow> batch h s [] s'"
  by (simp add: batch_def)

lemma batch_trans: "batch h s ds s' \<Longrightarrow> batch h s' es s'' \<Longrightarrow> batch h s (ds @ es) s''"
  by (auto simp: batch_def)

definition queues :: "http_env \<Rightarrow> 'a sys_run \<Rightarrow> ('a \<Rightarrow> deployment list \<Rightarrow> bool) \<Rightarrow> bool" where
  "queues h m R \<longleftrightarrow> (\<forall>s. store_ok (sys_store s) \<longrightarrow>
     store_ok (sys_store (snd (run_state m s))) \<and>
     (\<exists>ds. R (fst (run_state m s)) ds \<and> batch h s ds (snd (run_state m s))))"

named_theorems queues_rules

lemma queuesD:
  assumes "queues h m R" "store_ok (sys_store s)" "run_state m s = (x, s')"
  obtains ds where "store_ok (sys_store s')" "R x ds" "batch h s ds s'"
  using assms unfolding queues_def by (metis fst_conv snd_conv)

lemma queues_mono: "queues h m R \<Longrightarrow> (\<And>x ds. R x ds \<Longrightarrow> S x ds) \<Longrightarrow> queues h m S"
  unfolding queues_def by blast

lemma queues_bind:
  assumes "queues h m R" "\<And>x. queues h (f x) (S x)" "\<And>x ds y es. R x ds \<Longrightarrow> S x y es \<Longrightarrow> Q y (ds @ es)"
  shows "queues h (State_Monad.bind m f) Q"
  unfolding queues_def
proof (intro allI impI)
  fix s assume "store_ok (sys_store s)"
  obtain x s1 where m: "run_state m s = (x, s1)" by (metis surj_pair)
  obtain ds where ds: "store_ok (sys_store s1)" "R x ds" "batch h s ds s1" by (rule queuesD [OF assms(1) \<open>store_ok _\<close> m])
  obtain y s2 where f: "run_state (f x) s1 = (y, s2)" by (metis surj_pair)
  obtain es where es: "store_ok (sys_store s2)" "S x y es" "batch h s1 es s2" by (rule queuesD [OF assms(2) ds(1) f])
  have "run_state (State_Monad.bind m f) s = (y, s2)" by (simp add: run_bind m f)
  then show "store_ok (sys_store (snd (run_state (State_Monad.bind m f) s))) \<and>
     (\<exists>ds. Q (fst (run_state (State_Monad.bind m f) s)) ds \<and> batch h s ds (snd (run_state (State_Monad.bind m f) s)))"
    using es(1) assms(3) [OF ds(2) es(2)] batch_trans [OF ds(3) es(3)] by auto
qed

lemma queues_return [queues_rules]: "R x [] \<Longrightarrow> queues h (State_Monad.return x) R"
  by (auto simp: queues_def batch_def)

lemma queues_quiet: "quiet m \<Longrightarrow> sys_keeps store_ok m \<Longrightarrow> (\<And>x. R x []) \<Longrightarrow> queues h m R"
  unfolding queues_def by (metis batch_same order_refl prod.collapse queued_rows_def quietD sys_keepsD)

text \<open>After something that queues nothing the rest decides.\<close>

lemma queues_then [queues_rules]:
  assumes "quiet m" "sys_keeps store_ok m" "\<And>x. queues h (f x) R"
  shows "queues h (State_Monad.bind m f) R"
  using queues_quiet [OF assms(1,2), of "\<lambda>x ds. ds = []"] assms(3)
  by (rule queues_bind [where S = "\<lambda>_. R"]) simp_all

lemma queues_or_error [queues_rules]:
  "(\<And>err. c = Inl err \<Longrightarrow> R (writeError err) []) \<Longrightarrow> (\<And>x. c = Inr x \<Longrightarrow> queues h (f x) R) \<Longrightarrow> queues h (or_error c f) R"
  by (cases c) (auto simp: or_error_def intro: queues_return simp del: writeError.simps)

lemma grows_enqueue: "set (sys_queue s) \<subseteq> set (sys_queue (snd (run_state (enqueueDeployment h d) s)))"
proof -
  obtain r s1 where r: "run_state (Enqueue (h_queue h) d) s = (r, s1)" by (metis surj_pair)
  then have "set (sys_queue s) \<subseteq> set (sys_queue s1)" using Enqueue_queue [OF r] by (auto split: if_splits)
  moreover have "sys_queue (snd (run_state (markDeploymentEnqueueFailed h d err) s1)) = sys_queue s1" for err
    by (simp add: markDeploymentEnqueueFailed_def run_bind serve_def run_on_world split: sum.splits)
  ultimately show ?thesis using r by (auto simp: enqueueDeployment_def run_bind split: option.splits)
qed

text \<open>
  A program that creates at most one row: \<open>p\<close> finds the new deployment in its result. Creating a row and
  pushing its item: the deployment counts when both succeed.
\<close>

definition creates :: "('c \<Rightarrow> deployment option) \<Rightarrow> 'c sys_run \<Rightarrow> bool" where
  "creates p m \<longleftrightarrow> (\<forall>s c s'. store_ok (sys_store s) \<longrightarrow> run_state m s = (c, s') \<longrightarrow>
     sys_queue s' = sys_queue s \<and> store_ok (sys_store s') \<and>
     (case p c of None \<Rightarrow> deployments (sys_store s') = deployments (sys_store s)
      | Some d \<Rightarrow> deployments (sys_store s') = deployments (sys_store s) @ [d] \<and> dep_Status d = ''queued''
          \<and> (\<exists>i. dep_ID d = Some i) \<and> (\<forall>e\<in>set (deployments (sys_store s)). dep_ID e \<noteq> dep_ID d)))"

lemma createsD:
  assumes "creates p m" "store_ok (sys_store s)" "run_state m s = (c, s')"
  shows "sys_queue s' = sys_queue s" "store_ok (sys_store s')"
    "p c = None \<Longrightarrow> deployments (sys_store s') = deployments (sys_store s)"
    "p c = Some d \<Longrightarrow> deployments (sys_store s') = deployments (sys_store s) @ [d] \<and> dep_Status d = ''queued''
       \<and> (\<exists>i. dep_ID d = Some i) \<and> (\<forall>e\<in>set (deployments (sys_store s)). dep_ID e \<noteq> dep_ID d)"
proof -
  have all: "sys_queue s' = sys_queue s \<and> store_ok (sys_store s') \<and>
     (case p c of None \<Rightarrow> deployments (sys_store s') = deployments (sys_store s)
      | Some d \<Rightarrow> deployments (sys_store s') = deployments (sys_store s) @ [d] \<and> dep_Status d = ''queued''
          \<and> (\<exists>i. dep_ID d = Some i) \<and> (\<forall>e\<in>set (deployments (sys_store s)). dep_ID e \<noteq> dep_ID d))"
    using assms unfolding creates_def by blast
  then show "sys_queue s' = sys_queue s" "store_ok (sys_store s')" by simp_all
  show "p c = None \<Longrightarrow> deployments (sys_store s') = deployments (sys_store s)" using all by simp
  assume "p c = Some d"
  then show "deployments (sys_store s') = deployments (sys_store s) @ [d] \<and> dep_Status d = ''queued''
       \<and> (\<exists>i. dep_ID d = Some i) \<and> (\<forall>e\<in>set (deployments (sys_store s)). dep_ID e \<noteq> dep_ID d)" using all by simp
qed

lemma batch_enqueued:
  assumes served: "served (h_runner h)" and ok: "store_ok (sys_store s)" and "creates p m" "run_state m s = (c, s1)" "p c = Some d"
    and e: "run_state (enqueueDeployment h d) s1 = (e, s2)"
  shows "store_ok (sys_store s2)" "batch h s (if e = None then [d] else []) s2"
proof -
  have row: "sys_queue s1 = sys_queue s" "store_ok (sys_store s1)" "deployments (sys_store s1) = deployments (sys_store s) @ [d]"
    "dep_Status d = ''queued''" "\<exists>i. dep_ID d = Some i" "\<forall>e\<in>set (deployments (sys_store s)). dep_ID e \<noteq> dep_ID d"
    using createsD [OF assms(3,2,4)] assms(5) by simp_all
  then obtain i where i: "dep_ID d = Some i" by blast
  have truth: "truthful h s (case e of Some err \<Rightarrow> writeError (Internal err) | None \<Rightarrow> writeJSON 202 d) s2"
    by (rule enqueue_truthful [OF served row(2,3,1,4) i row(6) e])
  show "store_ok (sys_store s2)" using sys_keepsD [OF http_ok.enqueueDeployment_keeps, of s1 h d] row(2) e by simp
  have grows: "set (sys_queue s) \<subseteq> set (sys_queue s2)" using grows_enqueue [of s1 h d] e row(1) by simp
  show "batch h s (if e = None then [d] else []) s2"
    using truth grows by (cases e) (simp_all add: truthful_def writeJSON_def batch_def)
qed

lemma queues_enqueue:
  assumes served: "served (h_runner h)" and m: "creates p m"
    and refused: "\<And>c. p c = None \<Longrightarrow> queues h (rest c) R"
    and enqueues: "\<And>c d. p c = Some d \<Longrightarrow> rest c = do { e \<leftarrow> enqueueDeployment h d; after c d e }"
    and failed: "\<And>c d err. queues h (after c d (Some err)) R"
    and queued: "\<And>c d. quiet (after c d None)" "\<And>c d. sys_keeps store_ok (after c d None)"
      "\<And>c d s. p c = Some d \<Longrightarrow> R (fst (run_state (after c d None) s)) [d]"
  shows "queues h (State_Monad.bind m rest) R"
  unfolding queues_def
proof (intro allI impI)
  fix s assume ok: "store_ok (sys_store s)"
  obtain c s1 where c: "run_state m s = (c, s1)" by (metis surj_pair)
  have "\<exists>ds. store_ok (sys_store (snd (run_state (rest c) s1))) \<and> R (fst (run_state (rest c) s1)) ds \<and> batch h s ds (snd (run_state (rest c) s1))"
  proof (cases "p c")
    case None
    then have same: "sys_queue s1 = sys_queue s" "store_ok (sys_store s1)" "deployments (sys_store s1) = deployments (sys_store s)"
      using createsD(1-3) [OF m ok c] None by simp_all
    obtain x s2 where x: "run_state (rest c) s1 = (x, s2)" by (metis surj_pair)
    obtain ds where "store_ok (sys_store s2)" "R x ds" "batch h s1 ds s2" by (rule queuesD [OF refused [OF None] same(2) x])
    moreover have "batch h s [] s1" using same by (intro batch_same) (simp_all add: queued_rows_def)
    ultimately show ?thesis using x batch_trans [of h s "[]" s1 ds s2] by auto
  next
    case (Some d)
    obtain e s2 where e: "run_state (enqueueDeployment h d) s1 = (e, s2)" by (metis surj_pair)
    note enq = batch_enqueued [OF served ok m c Some e]
    obtain x s3 where x: "run_state (after c d e) s2 = (x, s3)" by (metis surj_pair)
    have "\<exists>ds. store_ok (sys_store s3) \<and> R x ds \<and> batch h s ds s3"
    proof (cases e)
      case None
      have "batch h s [d] s3" using enq(2) None quietD [OF queued(1), of c d s2] x by (simp add: batch_def queued_rows_def)
      moreover have "store_ok (sys_store s3)" using sys_keepsD [OF queued(2), of s2 c d] enq(1) x None by simp
      ultimately show ?thesis using x None queued(3) [OF Some, of s2] by auto
    next
      case (Some err)
      then obtain ds where "store_ok (sys_store s3)" "R x ds" "batch h s2 ds s3" using queuesD [OF failed enq(1), of c d err x s3] x by blast
      then show ?thesis using batch_trans [OF enq(2), of ds s3] Some by auto
    qed
    then show ?thesis using e x by (simp add: enqueues [OF Some] run_bind)
  qed
  then show "store_ok (sys_store (snd (run_state (State_Monad.bind m rest) s))) \<and>
     (\<exists>ds. R (fst (run_state (State_Monad.bind m rest) s)) ds \<and> batch h s ds (snd (run_state (State_Monad.bind m rest) s)))"
    by (simp add: run_bind c)
qed

lemma creates_row: "served (h_runner h) \<Longrightarrow> creates (\<lambda>c. case c of Inl _ \<Rightarrow> None | Inr d \<Rightarrow> Some d) (create_deployment_row h input)"
  unfolding creates_def
proof (intro allI impI)
  fix s c s' assume "served (h_runner h)" "store_ok (sys_store s)" "run_state (create_deployment_row h input) s = (c, s')"
  from create_deployment_row_result [OF this]
  show "sys_queue s' = sys_queue s \<and> store_ok (sys_store s') \<and>
     (case case c of Inl _ \<Rightarrow> None | Inr d \<Rightarrow> Some d of None \<Rightarrow> deployments (sys_store s') = deployments (sys_store s)
      | Some d \<Rightarrow> deployments (sys_store s') = deployments (sys_store s) @ [d] \<and> dep_Status d = ''queued''
          \<and> (\<exists>i. dep_ID d = Some i) \<and> (\<forall>e\<in>set (deployments (sys_store s)). dep_ID e \<noteq> dep_ID d))"
    by (cases c) simp_all
qed

lemma queues_create:
  assumes "served (h_runner h)" "\<And>err. queues h (refused err) R" "\<And>d err. queues h (failed d err) R"
    and "\<And>d. quiet (queued d)" "\<And>d. sys_keeps store_ok (queued d)" "\<And>d s. R (fst (run_state (queued d) s)) [d]"
  shows "queues h (do {
     c \<leftarrow> create_deployment_row h input;
     (case c of
        Inl err \<Rightarrow> refused err
      | Inr d \<Rightarrow> do { e \<leftarrow> enqueueDeployment h d; (case e of Some err \<Rightarrow> failed d err | None \<Rightarrow> queued d) }) }) R"
  by (rule queues_enqueue [OF assms(1) creates_row [OF assms(1)], where after = "\<lambda>c d e. case e of Some err \<Rightarrow> failed d err | None \<Rightarrow> queued d"])
    (use assms(2-6) in \<open>auto split: sum.splits\<close>)

lemma quiet_catalog [quiet_rules]:
  "quiet (serve h (GetConnectorAccount i))" "quiet (serve h ListConnectorAccounts)" "quiet (serve h (GetBuildRun i))"
  "quiet (serve h (ListApplicationsForGitHubPush branch urls))" "quiet (serve h (ListApplicationsForBuildComplete branch repository))"
  "quiet (serve h (CreateBuildRun new_id build))" "quiet (serve h (CompleteBuildRun co))"
  by (rule quiet_serve; auto simp: GetConnectorAccount_def ListConnectorAccounts_def GetBuildRun_def ListApplicationsForGitHubPush_def
      ListApplicationsForBuildComplete_def CreateBuildRun_def CompleteBuildRun_def Let_def try_bind_eq_Inr_iff
      split: option.splits if_splits)+

lemma ok_catalog:
  "sys_keeps store_ok (serve h (GetConnectorAccount i))" "sys_keeps store_ok (serve h ListConnectorAccounts)"
  "sys_keeps store_ok (serve h (GetBuildRun i))" "sys_keeps store_ok (serve h (GetApplication i))"
  "sys_keeps store_ok (serve h (ListApplicationsForGitHubPush branch urls))"
  "sys_keeps store_ok (serve h (ListApplicationsForBuildComplete branch repository))"
  "sys_keeps store_ok (serve h (CreateBuildRun new_id build))" "sys_keeps store_ok (serve h (CompleteBuildRun co))"
  "sys_keeps store_ok (http_audit h r action targetType targetID targetName metadata)"
  by (intro http_ok.serve_keeps catalog_read_only read_only_keeps http_ok.builds http_ok.build_ends http_ok.http_audit_keeps)+

text \<open>A sample build.\<close>

definition sample_build :: build_run where
  "sample_build = \<lparr>build_ID = Some ''a1'', build_Provider = ''github_actions'', build_ConnectorID = None,
     build_ApplicationID = Some ''a1'', build_Repository = ''acme/shop'', build_Branch = ''main'', build_WorkflowID = ''build.yml'',
     build_Status = ''dispatched'', build_CommitSha = Some ''0a1b2c3'', build_ImageRef = None, build_ImageDigest = None,
     build_ExternalUrl = None, build_ErrorMessage = None, build_StartedAt = Some 4, build_CompletedAt = None,
     build_CreatedAt = Some 4, build_UpdatedAt = Some 4\<rparr>"

end
