(* ===== verification/Go_Regexp_Lang.thy ===== *)
theory Go_Regexp_Lang
  imports Go_Regexp String_Util
begin

text \<open>
  The languages of matchers: a matcher without look-around consumes exactly the words of a set of lists of
  code points, whatever comes before and after. The rules compute this set along the structure of a
  pattern, so that matching a whole text is membership of its code points.
\<close>

definition accepts :: "matcher \<Rightarrow> nat list set \<Rightarrow> bool" where
  "accepts f L \<longleftrightarrow> (\<forall>p rest. leaves f p rest \<longleftrightarrow> (\<exists>xs. snd p = xs @ rest \<and> map fst xs \<in> L))"

named_theorems accepts_rules

lemma acceptsI: "(\<And>b ks rest. leaves f (b, ks) rest \<longleftrightarrow> (\<exists>xs. ks = xs @ rest \<and> map fst xs \<in> L)) \<Longrightarrow> accepts f L"
  by (simp add: accepts_def)

lemma acceptsD: "accepts f L \<Longrightarrow> leaves f p rest \<longleftrightarrow> (\<exists>xs. snd p = xs @ rest \<and> map fst xs \<in> L)"
  unfolding accepts_def by blast

lemma full_match_accepts: "accepts f L \<Longrightarrow> full_match f s \<longleftrightarrow> runes s \<in> L"
  by (simp add: full_match_leaves acceptsD)

definition then_words :: "nat list set \<Rightarrow> nat list set \<Rightarrow> nat list set" where
  "then_words A B = {xs @ ys |xs ys. xs \<in> A \<and> ys \<in> B}"

lemma then_wordsI: "xs \<in> A \<Longrightarrow> ys \<in> B \<Longrightarrow> xs @ ys \<in> then_words A B"
  by (auto simp: then_words_def)

lemma accepts_empty [accepts_rules]: "accepts m_empty {[]}"
  by (rule acceptsI) (auto simp: leaves_def m_empty_def)

lemma accepts_set [accepts_rules]: "accepts (m_set P) {[r] |r. P r}"
proof (rule acceptsI)
  fix b ks rest
  show "leaves (m_set P) (b, ks) rest \<longleftrightarrow> (\<exists>xs. ks = xs @ rest \<and> map fst xs \<in> {[r] |r. P r})"
    by (cases ks) (auto simp: leaves_def m_set_simps map_eq_Cons_conv)
qed

lemma leaves_concat:
  assumes "accepts g B"
  shows "(\<exists>b. (b, rest) \<in> set (concat (map g (f p)))) \<longleftrightarrow> (\<exists>mid. leaves f p mid \<and> (\<exists>ys. mid = ys @ rest \<and> map fst ys \<in> B))"
proof -
  have "(\<exists>b. (b, rest) \<in> set (concat (map g (f p)))) \<longleftrightarrow> (\<exists>q\<in>set (f p). leaves g q rest)"
    by (auto simp: leaves_def)
  also have "\<dots> \<longleftrightarrow> (\<exists>b mid. (b, mid) \<in> set (f p) \<and> (\<exists>ys. mid = ys @ rest \<and> map fst ys \<in> B))"
    unfolding acceptsD [OF assms] by (metis prod.collapse snd_conv)
  also have "\<dots> \<longleftrightarrow> (\<exists>mid. leaves f p mid \<and> (\<exists>ys. mid = ys @ rest \<and> map fst ys \<in> B))"
    unfolding leaves_def by blast
  finally show ?thesis .
qed

lemma accepts_concat:
  assumes "accepts f A" "accepts g B" "\<And>p. h p = concat (map g (f p))"
  shows "accepts h (then_words A B)"
proof (rule acceptsI)
  fix b ks rest
  have "leaves h (b, ks) rest \<longleftrightarrow> (\<exists>mid. leaves f (b, ks) mid \<and> (\<exists>ys. mid = ys @ rest \<and> map fst ys \<in> B))"
    using leaves_concat [OF assms(2)] unfolding leaves_def [of h] assms(3) .
  also have "\<dots> \<longleftrightarrow> (\<exists>xs ys. ks = xs @ ys @ rest \<and> map fst xs \<in> A \<and> map fst ys \<in> B)"
    unfolding acceptsD [OF assms(1)] by auto
  also have "\<dots> \<longleftrightarrow> (\<exists>xs. ks = xs @ rest \<and> map fst xs \<in> then_words A B)"
    by (fastforce simp: then_words_def map_eq_append_conv)
  finally show "leaves h (b, ks) rest \<longleftrightarrow> (\<exists>xs. ks = xs @ rest \<and> map fst xs \<in> then_words A B)" .
qed

lemma accepts_seq [accepts_rules]: "accepts f A \<Longrightarrow> accepts g B \<Longrightarrow> accepts (m_seq f g) (then_words A B)"
  by (rule accepts_concat) (simp_all add: m_seq_def)

lemma accepts_seqs [accepts_rules]:
  "accepts (m_seqs []) {[]}"
  "accepts f A \<Longrightarrow> accepts (m_seqs fs) B \<Longrightarrow> accepts (m_seqs (f # fs)) (then_words A B)"
  by (rule acceptsI, auto simp: leaves_def) (rule accepts_concat, simp_all)

lemma accepts_alt [accepts_rules]:
  assumes "accepts f A" "accepts g B"
  shows "accepts (m_alt f g) (A \<union> B)"
proof (rule acceptsI)
  fix b ks rest
  have "leaves (m_alt f g) (b, ks) rest \<longleftrightarrow> leaves f (b, ks) rest \<or> leaves g (b, ks) rest"
    by (auto simp: leaves_def m_alt_def)
  then show "leaves (m_alt f g) (b, ks) rest \<longleftrightarrow> (\<exists>xs. ks = xs @ rest \<and> map fst xs \<in> A \<union> B)"
    unfolding acceptsD [OF assms(1)] acceptsD [OF assms(2)] by auto
qed

lemma accepts_opt [accepts_rules]: "accepts f A \<Longrightarrow> accepts (m_opt f) (A \<union> {[]})"
  unfolding m_opt_def by (intro accepts_rules)

lemma accepts_star [accepts_rules]: "accepts (m_star (m_set P)) {rs. list_all P rs}"
  by (rule acceptsI) (simp add: leaves_star list_all_iff)

lemma accepts_plus [accepts_rules]: "accepts (m_plus (m_set P)) {rs. rs \<noteq> [] \<and> list_all P rs}"
proof -
  have "then_words {[r] |r. P r} {rs. list_all P rs} = {rs. rs \<noteq> [] \<and> list_all P rs}"
    unfolding then_words_def by (auto simp: neq_Nil_conv) (metis append_Cons append_Nil)
  then show ?thesis unfolding m_plus_def using accepts_seq [OF accepts_set accepts_star, of P P] by simp
qed

lemma accepts_lit [accepts_rules]: "accepts (m_lit s) {map byte s}"
proof (induction s)
  case Nil
  then show ?case by (intro acceptsI) (auto simp: leaves_def)
next
  case (Cons c s)
  have "then_words {[r] |r. r = byte c} {map byte s} = {map byte (c # s)}" by (auto simp: then_words_def)
  moreover have "accepts (m_lit (c # s)) (then_words {[r] |r. r = byte c} {map byte s})"
    by (rule accepts_concat [OF accepts_set Cons]) simp
  ultimately show ?case by (simp only:)
qed

lemma accepts_between [accepts_rules]:
  assumes "lo \<le> hi"
  shows "accepts (m_between lo hi (m_set P)) {rs. lo \<le> length rs \<and> length rs \<le> hi \<and> list_all P rs}"
proof -
  have times: "accepts (m_times n (m_set P)) {rs. length rs = n \<and> list_all P rs}" for n
    by (rule acceptsI) (simp add: leaves_times list_all_iff)
  have upto: "accepts (m_upto n (m_set P)) {rs. length rs \<le> n \<and> list_all P rs}" for n
    by (rule acceptsI) (simp add: leaves_upto list_all_iff)
  have "then_words {rs. length rs = lo \<and> list_all P rs} {rs. length rs \<le> hi - lo \<and> list_all P rs}
      = {rs. lo \<le> length rs \<and> length rs \<le> hi \<and> list_all P rs}" (is "?A = ?B")
  proof
    show "?A \<subseteq> ?B" using assms by (auto simp: then_words_def)
    show "?B \<subseteq> ?A"
    proof
      fix rs assume "rs \<in> ?B"
      then have "take lo rs @ drop lo rs \<in> ?A"
        using list_all_append [of P "take lo rs" "drop lo rs"] by (intro then_wordsI) auto
      then show "rs \<in> ?A" by simp
    qed
  qed
  then show ?thesis unfolding m_between_def using accepts_seq [OF times [of lo] upto [of "hi - lo"]] by simp
qed

text \<open>Texts whose code points are ASCII are determined by them.\<close>

lemma map_byte_inject [simp]: "map byte s = map byte t \<longleftrightarrow> s = t"
  by (rule inj_map_eq_map) (auto simp: inj_on_def)

lemma runes_eq_ascii:
  assumes "runes s = map byte t" "ascii t"
  shows "s = t"
proof -
  have "ascii s" by (rule runes_below_128) (use assms in \<open>auto simp: ascii_def\<close>)
  then show ?thesis using assms(1) runes_ascii by simp
qed

end
