(* ===== verification/Github_Hook_Proofs.thy ===== *)
theory Github_Hook_Proofs
  imports Github_Hook Go_Regexp_Lang Go_Utf8
begin

text \<open>
  What the webhook of GitHub accepts: the remotes of repositories, the paths of a push, signatures, and the
  payloads that GitHub sends.
\<close>

subsection \<open>Remotes\<close>

definition name_text :: "string \<Rightarrow> bool" where
  "name_text s \<longleftrightarrow> s \<noteq> [] \<and> list_all (\<lambda>c. r_name (byte c)) s"

definition github_remote :: "string \<Rightarrow> bool" where
  "github_remote v \<longleftrightarrow> (\<exists>own name. name_text own \<and> name_text name
     \<and> (v = ''git@github.com:'' @ own @ ''/'' @ name @ ''.git'' \<or> v = ''https://github.com/'' @ own @ ''/'' @ name))"

lemma r_name_ascii: "r_name r \<Longrightarrow> r < 128"
  by (auto simp: r_name_def r_alnum_def r_lower_def r_upper_def r_digit_def one_of_def)

lemma name_words: "(rs \<noteq> [] \<and> list_all r_name rs) \<longleftrightarrow> (\<exists>s. rs = map byte s \<and> name_text s)"
proof
  assume rs: "rs \<noteq> [] \<and> list_all r_name rs"
  then have "map byte (map char_of rs) = rs"
    by (auto simp: list_all_iff byte_char_of intro!: map_idI dest!: r_name_ascii)
  moreover have "name_text (map char_of rs)"
    using rs r_name_ascii by (fastforce simp: name_text_def list_all_iff byte_char_of)
  ultimately show "\<exists>s. rs = map byte s \<and> name_text s" by metis
qed (auto simp: name_text_def list_all_iff)

lemma name_text_ascii: "name_text s \<Longrightarrow> ascii s"
  by (auto simp: name_text_def ascii_def list_all_iff r_name_ascii)

lemma accepts_owner_and_name:
  "accepts owner_and_name {map byte (own @ ''/'' @ name) |own name. name_text own \<and> name_text name}"
proof -
  have "then_words {rs. rs \<noteq> [] \<and> list_all r_name rs} (then_words {map byte ''/''} (then_words {rs. rs \<noteq> [] \<and> list_all r_name rs} {[]}))
      = {map byte (own @ ''/'' @ name) |own name. name_text own \<and> name_text name}"
    unfolding name_words by (auto simp: then_words_def)
  moreover have "accepts owner_and_name (then_words {rs. rs \<noteq> [] \<and> list_all r_name rs}
      (then_words {map byte ''/''} (then_words {rs. rs \<noteq> [] \<and> list_all r_name rs} {[]})))"
    unfolding owner_and_name_def by (intro accepts_rules)
  ultimately show ?thesis by simp
qed

lemma validGitHubFullName_iff:
  "validGitHubFullName v \<longleftrightarrow> (\<exists>own name. v = own @ ''/'' @ name \<and> name_text own \<and> name_text name)"
proof -
  have "v = own @ ''/'' @ name" if "runes v = map byte (own @ ''/'' @ name)" "name_text own" "name_text name" for own name
    using that by (intro runes_eq_ascii) (auto dest: name_text_ascii)
  moreover have "runes (own @ ''/'' @ name) = map byte (own @ ''/'' @ name)" if "name_text own" "name_text name" for own name
    using that by (intro runes_ascii) (auto dest: name_text_ascii)
  ultimately show ?thesis
    unfolding validGitHubFullName_def githubFullNamePattern_def full_match_accepts [OF accepts_owner_and_name] by blast
qed

lemma name_text_append: "name_text s \<Longrightarrow> name_text (s @ ''.git'')"
  by (auto simp: name_text_def r_name_def one_of_def r_alnum_def r_lower_def)

lemma githubRemotePattern_iff: "full_match githubRemotePattern v \<longleftrightarrow> github_remote v"
proof -
  let ?N = "{map byte (own @ ''/'' @ name) |own name. name_text own \<and> name_text name}"
  let ?S = "then_words {map byte ''git@github.com:''} (then_words ?N (then_words {map byte ''.git''} {[]}))"
  let ?H = "then_words {map byte ''https://github.com/''} (then_words ?N (then_words ({map byte ''.git''} \<union> {[]}) {[]}))"
  have acc: "accepts githubRemotePattern (?S \<union> ?H)"
    unfolding githubRemotePattern_def by (intro accepts_rules accepts_owner_and_name)
  have words: "?S \<union> ?H = {map byte v |v. github_remote v}" (is "?L = ?R")
  proof
    show "?L \<subseteq> ?R"
    proof
      fix rs assume "rs \<in> ?L"
      then obtain own name where n: "name_text own" "name_text name"
        and rs: "rs = map byte (''git@github.com:'' @ own @ ''/'' @ name @ ''.git'')
          \<or> rs = map byte (''https://github.com/'' @ own @ ''/'' @ name)
          \<or> rs = map byte (''https://github.com/'' @ own @ ''/'' @ (name @ ''.git''))"
        by (auto simp: then_words_def)
      then show "rs \<in> ?R" using name_text_append [OF n(2)] unfolding github_remote_def by blast
    qed
    show "?R \<subseteq> ?L"
    proof
      fix rs assume "rs \<in> ?R"
      then obtain own name where n: "name_text own" "name_text name"
        and rs: "rs = map byte ''git@github.com:'' @ map byte (own @ ''/'' @ name) @ map byte ''.git'' @ []
          \<or> rs = map byte ''https://github.com/'' @ map byte (own @ ''/'' @ name) @ [] @ []"
        by (auto simp: github_remote_def)
      have w: "map byte (own @ ''/'' @ name) \<in> ?N" using n by blast
      have "map byte ''git@github.com:'' @ map byte (own @ ''/'' @ name) @ map byte ''.git'' @ [] \<in> ?S"
        "map byte ''https://github.com/'' @ map byte (own @ ''/'' @ name) @ [] @ [] \<in> ?H"
        by (intro then_wordsI singletonI w UnI2)+
      then show "rs \<in> ?L" using rs by blast
    qed
  qed
  have asc: "ascii v" if "github_remote v" for v
    using that by (auto simp: github_remote_def dest: name_text_ascii)
  have "runes v \<in> ?S \<union> ?H \<longleftrightarrow> (\<exists>u. runes v = map byte u \<and> github_remote u \<and> ascii u)"
    unfolding words mem_Collect_eq by (intro iff_exI conj_cong refl iffI conjI asc) (elim conjE, assumption)+
  also have "\<dots> \<longleftrightarrow> github_remote v"
    using runes_eq_ascii [of v] runes_ascii [of v] asc [of v] by blast
  finally show ?thesis unfolding full_match_accepts [OF acc] .
qed

subsection \<open>Lists without repetitions\<close>

lemma first_seen_cong: "set seen = set seen' \<Longrightarrow> first_seen seen xs = first_seen seen' xs"
proof (induction xs arbitrary: seen seen')
  case (Cons x xs)
  have "set (x # seen) = set (x # seen')" using Cons.prems by simp
  from Cons.IH [OF this] Cons.IH [OF Cons.prems] Cons.prems show ?case by simp
qed simp

lemma first_seen_append: "first_seen seen (xs @ ys) = first_seen seen xs @ first_seen (rev xs @ seen) ys"
proof (induction xs arbitrary: seen)
  case (Cons x xs)
  have "first_seen (rev xs @ x # seen) ys = first_seen (rev (x # xs) @ seen) ys" by (rule first_seen_cong) auto
  moreover have "first_seen (rev xs @ seen) ys = first_seen (rev (x # xs) @ seen) ys" if "x \<in> set seen"
    using that by (intro first_seen_cong) auto
  ultimately show ?case using Cons by auto
qed simp

lemma foldl_alias: "foldl appendGitHubAlias as vs = as @ first_seen as (filter github_remote vs)"
proof (induction vs arbitrary: as)
  case (Cons v vs)
  have "first_seen (as @ [v]) xs = first_seen (v # as) xs" for xs by (rule first_seen_cong) auto
  then show ?case using Cons by (simp add: appendGitHubAlias_def githubRemotePattern_iff)
qed simp

text \<open>The aliases of a repository, in order and once each.\<close>

lemma repositoryAliases_eq:
  "repositoryAliases payload = first_seen [] (filter github_remote
     ((let fullName = TrimSpace (pp_FullName payload) in
       if validGitHubFullName fullName then [''git@github.com:'' @ fullName @ ''.git'', ''https://github.com/'' @ fullName,
         ''https://github.com/'' @ fullName @ ''.git''] else [])
      @ map TrimSpace [pp_SSHURL payload, pp_CloneURL payload, pp_HTMLURL payload]))"
proof -
  have app: "foldl appendGitHubAlias (foldl appendGitHubAlias [] xs) ys = first_seen [] (filter github_remote (xs @ ys))" for xs ys
    using foldl_alias [of "[]" "xs @ ys"] by simp
  show ?thesis
  proof (cases "validGitHubFullName (TrimSpace (pp_FullName payload))")
    case True
    then show ?thesis unfolding repositoryAliases_def Let_def if_P [OF True] app by simp
  next
    case False
    then show ?thesis unfolding repositoryAliases_def Let_def if_not_P [OF False] by (simp only: foldl_alias append_Nil)
  qed
qed

lemma add_paths_eq: "add_paths paths vs = paths @ first_seen paths (filter (\<lambda>v. v \<noteq> []) (map TrimSpace vs))"
proof (induction vs arbitrary: paths)
  case (Cons v vs)
  have "first_seen (paths @ [t]) xs = first_seen (t # paths) xs" for t xs by (rule first_seen_cong) auto
  then show ?case using Cons by (simp add: Let_def)
qed simp

text \<open>The changed paths of a push are the trimmed paths of its commits without blanks and repetitions, in the
  order of their first occurrence.\<close>

lemma changedPaths_unique:
  "changedPaths payload = UniqueTrimmed (concat (map (\<lambda>c. pc_Added c @ pc_Modified c @ pc_Removed c) (pp_Commits payload)))"
proof -
  have group: "add_paths (add_paths paths xs) ys = add_paths paths (xs @ ys)" for paths xs ys
  proof -
    have "first_seen (add_paths paths xs) zs = first_seen (rev (filter (\<lambda>v. v \<noteq> []) (map TrimSpace xs)) @ paths) zs" for zs
      by (rule first_seen_cong) (auto simp: add_paths_eq set_first_seen)
    then show ?thesis unfolding add_paths_eq [of "add_paths paths xs"] by (simp add: add_paths_eq first_seen_append)
  qed
  have commits: "foldl (\<lambda>paths c. foldl add_paths paths [pc_Added c, pc_Modified c, pc_Removed c]) paths cs
      = add_paths paths (concat (map (\<lambda>c. pc_Added c @ pc_Modified c @ pc_Removed c) cs))" for paths cs
    by (induction cs arbitrary: paths) (simp_all add: group)
  show ?thesis unfolding changedPaths_def commits UniqueTrimmed_def add_paths_eq by simp
qed

subsection \<open>What a push looks like\<close>

lemma set_UniqueTrimmed: "set (UniqueTrimmed vs) = TrimSpace ` set vs - {[]}"
  by (auto simp: UniqueTrimmed_def set_first_seen)

text \<open>A push that was read has a branch, at least one remote of a repository on GitHub and nothing else as
  remotes, and neither remotes nor changed paths are repeated; when the payload names the repository, all
  three remotes of it are there, so an application finds its repository however its address is written.\<close>

theorem ParsePush_wellformed:
  assumes "ParsePush json_err body = Inr p"
  shows "push_Branch p \<noteq> [] \<and> TrimSpace (push_Branch p) = push_Branch p
    \<and> push_Repositories p \<noteq> [] \<and> list_all github_remote (push_Repositories p) \<and> distinct (push_Repositories p)
    \<and> distinct (push_ChangedPaths p) \<and> [] \<notin> set (push_ChangedPaths p)
    \<and> (\<exists>payload. Option.bind (decode_json body) decode_push = Some payload \<and>
         (validGitHubFullName (TrimSpace (pp_FullName payload)) \<longrightarrow>
          {''git@github.com:'' @ TrimSpace (pp_FullName payload) @ ''.git'', ''https://github.com/'' @ TrimSpace (pp_FullName payload),
           ''https://github.com/'' @ TrimSpace (pp_FullName payload) @ ''.git''} \<subseteq> set (push_Repositories p)))"
proof -
  obtain payload where payload: "Option.bind (decode_json body) decode_push = Some payload"
    and p: "push_Branch p = TrimSpace (TrimPrefix (pp_Ref payload) ''refs/heads/'')" "push_Branch p \<noteq> []"
      "push_Repositories p = repositoryAliases payload" "push_Repositories p \<noteq> []" "push_ChangedPaths p = changedPaths payload"
    using assms by (auto simp: ParsePush_def Let_def split: option.splits if_splits)
  have aliases: "list_all github_remote (push_Repositories p)" "distinct (push_Repositories p)"
    unfolding p(3) repositoryAliases_eq by (simp_all only: list_all_iff set_first_seen set_filter distinct_first_seen) auto
  have paths: "distinct (push_ChangedPaths p)" "[] \<notin> set (push_ChangedPaths p)"
    unfolding p(5) changedPaths_unique by (simp_all add: set_UniqueTrimmed) (simp add: UniqueTrimmed_def distinct_first_seen)
  have "{''git@github.com:'' @ v @ ''.git'', ''https://github.com/'' @ v, ''https://github.com/'' @ v @ ''.git''}
      \<subseteq> Collect github_remote" if full: "validGitHubFullName v" for v
  proof -
    obtain own name where n: "v = own @ ''/'' @ name" "name_text own" "name_text name"
      using full unfolding validGitHubFullName_iff by blast
    then show ?thesis using name_text_append [OF n(3)] unfolding github_remote_def by fastforce
  qed
  from this [of "TrimSpace (pp_FullName payload)"]
  have "validGitHubFullName (TrimSpace (pp_FullName payload)) \<longrightarrow>
      {''git@github.com:'' @ TrimSpace (pp_FullName payload) @ ''.git'', ''https://github.com/'' @ TrimSpace (pp_FullName payload),
       ''https://github.com/'' @ TrimSpace (pp_FullName payload) @ ''.git''} \<subseteq> set (push_Repositories p)"
    unfolding p(3) repositoryAliases_eq set_first_seen set_filter by (auto simp: Let_def)
  then show ?thesis using payload p aliases paths TrimSpace_idem by auto
qed

definition sample_push_json :: json where
  "sample_push_json = JObj [(''ref'', JStr ''refs/heads/main''), (''after'', JStr ''0a1b2c3''), (''deleted'', JBool False),
     (''repository'', JObj [(''full_name'', JStr ''acme/shop''), (''html_url'', JNull)]),
     (''pusher'', JObj [(''name'', JStr ''ann'')]), (''sender'', JObj [(''login'', JStr ''ann-dev'')]),
     (''commits'', JArr [JObj [(''added'', JArr [JStr ''api/a.go'']), (''modified'', JArr [JStr ''api/a.go'', JStr '' ui/b.ts''])]])]"

definition sample_push_payload :: push_payload where
  "sample_push_payload = \<lparr>pp_Ref = ''refs/heads/main'', pp_After = ''0a1b2c3'', pp_Deleted = False, pp_FullName = ''acme/shop'',
     pp_HTMLURL = [], pp_CloneURL = [], pp_SSHURL = [], pp_PusherName = ''ann'', pp_SenderLogin = ''ann-dev'',
     pp_Commits = [\<lparr>pc_Added = [''api/a.go''], pc_Modified = [''api/a.go'', '' ui/b.ts''], pc_Removed = []\<rparr>]\<rparr>"

lemma sample_push_decoded: "Option.bind (decode_json (Marshal sample_push_json)) decode_push = Some sample_push_payload"
proof -
  have "plain_json sample_push_json" by code_simp
  moreover have "decode_push sample_push_json = Some sample_push_payload" by code_simp
  ultimately show ?thesis by (simp add: Marshal_roundtrip)
qed

definition sample_push :: push where
  "sample_push = \<lparr>push_Branch = ''main'', push_CommitSHA = ''0a1b2c3'', push_Actor = ''ann-dev'', push_Deleted = False,
     push_Repositories = [''git@github.com:acme/shop.git'', ''https://github.com/acme/shop'', ''https://github.com/acme/shop.git''],
     push_ChangedPaths = [''api/a.go'', ''ui/b.ts'']\<rparr>"

lemma sample_push_parsed: "ParsePush json_err (Marshal sample_push_json) = Inr sample_push"
proof -
  have "repositoryAliases sample_push_payload = push_Repositories sample_push" by code_simp
  moreover have "changedPaths sample_push_payload = push_ChangedPaths sample_push" by code_simp
  moreover have "TrimSpace (TrimPrefix ''refs/heads/main'' ''refs/heads/'') = ''main''" "TrimSpace ''ann-dev'' = ''ann-dev''"
    "TrimSpace ''0a1b2c3'' = ''0a1b2c3''" by code_simp+
  moreover have "pp_Ref sample_push_payload = ''refs/heads/main''" "pp_After sample_push_payload = ''0a1b2c3''"
    "pp_SenderLogin sample_push_payload = ''ann-dev''" "\<not> pp_Deleted sample_push_payload" by (simp_all add: sample_push_payload_def)
  ultimately show ?thesis
    unfolding ParsePush_def sample_push_decoded by (simp add: Let_def sample_push_def)
qed

theorem ParsePush_wellformed_witness:
  "ParsePush Errorf (Marshal sample_push_json) = Inr sample_push \<and> distinct (push_Repositories sample_push)"
  using ParsePush_wellformed [OF sample_push_parsed] sample_push_parsed by blast

subsection \<open>Signatures\<close>

lemma hex_text_visible: "c \<in> set (hex_EncodeToString s) \<Longrightarrow> byte c < 128 \<and> \<not> IsSpace (byte c)"
proof -
  assume "c \<in> set (hex_EncodeToString s)"
  then obtain d where d: "d \<in> set s" "c = digit_char (byte d div 16) \<or> c = digit_char (byte d mod 16)"
    by (auto simp: hex_EncodeToString_def)
  have "byte d div 16 < 16" using byte_less [of d] by linarith
  moreover have "byte d mod 16 < 16" by simp
  ultimately obtain n where n: "n < 16" "c = digit_char n" using d(2) by blast
  then have "byte c = (if n < 10 then 48 + n else 87 + n)" by (simp add: digit_char_def byte_char_of)
  then show ?thesis using n(1) by (auto simp: IsSpace_ascii)
qed

lemma VerifySignature_digest:
  "VerifySignature secret body s \<longleftrightarrow> TrimSpace secret \<noteq> [] \<and>
     (\<exists>digest. TrimSpace s = ''sha256='' @ digest \<and> hex_DecodeString digest = Some (hmac_sha256 (TrimSpace secret) body))"
proof (cases "HasPrefix (TrimSpace s) ''sha256=''")
  case True
  then obtain d where d: "TrimSpace s = ''sha256='' @ d" using HasPrefix_iff by blast
  then have "TrimPrefix (TrimSpace s) ''sha256='' = d" using True by (simp add: TrimPrefix_def)
  then show ?thesis using True d by (auto simp: VerifySignature_def Let_def split: option.splits)
next
  case False
  then show ?thesis by (auto simp: VerifySignature_def Let_def HasPrefix_iff)
qed

lemma VerifySignature_signed:
  "VerifySignature secret body (''sha256='' @ hex_EncodeToString (hmac_sha256 (TrimSpace secret) body)) \<longleftrightarrow> TrimSpace secret \<noteq> []"
proof -
  have "TrimSpace (''sha256='' @ hex_EncodeToString t) = ''sha256='' @ hex_EncodeToString t" for t
  proof (rule TrimSpace_no_space)
    have a: "ascii (''sha256='' @ hex_EncodeToString t)" using hex_text_visible by (auto simp: ascii_def)
    show "\<not> IsSpace r" if "r \<in> set (runes (''sha256='' @ hex_EncodeToString t))" for r
      using that hex_text_visible unfolding runes_ascii [OF a] by (auto simp: IsSpace_ascii)
  qed
  then show ?thesis unfolding VerifySignature_digest by (simp add: hex_decode_encode)
qed

text \<open>A signature is accepted exactly when the secret is configured and the signature is the prefix followed
  by hexadecimal text of the keyed SHA-256 hash of the body under the secret; in particular the signature
  that GitHub computes is accepted, and no other body or secret fits it unless the hashes agree.\<close>

theorem VerifySignature_iff:
  "(VerifySignature secret body signature \<longleftrightarrow> TrimSpace secret \<noteq> [] \<and>
      (\<exists>digest. TrimSpace signature = ''sha256='' @ digest \<and> hex_DecodeString digest = Some (hmac_sha256 (TrimSpace secret) body)))
   \<and> (VerifySignature secret body (''sha256='' @ hex_EncodeToString (hmac_sha256 (TrimSpace secret) body)) \<longleftrightarrow> TrimSpace secret \<noteq> [])"
  using VerifySignature_digest VerifySignature_signed by blast

end
