(* ===== verification/Http_Github_Proofs.thy ===== *)
theory Http_Github_Proofs
  imports Http_Github Http_Batch Http_Guards_Proofs Github_Hook_Proofs Remote_Steps_Proofs "HOL-Library.Sublist"
begin

text \<open>
  The webhook: what it does to the tables is an execution of the lifecycle, its reply lists exactly the
  deployments it queued, and an unauthenticated or repeated delivery does nothing. A filter selects the
  paths below its directory.
\<close>

declare State_Monad.run_state_bind [simp del] State_Monad.bind_assoc [simp del]

subsection \<open>Path filters\<close>

definition filter_root :: "string \<Rightarrow> string" where
  "filter_root f = TrimSuffix (TrimSuffix (Trim (TrimSpace f) ''/'') ''/**'') ''/*''"

lemma segments_prefix:
  "c = f \<or> HasPrefix c (f @ ''/'') \<longleftrightarrow> prefix (Split f (CHR ''/'')) (Split c (CHR ''/''))"
proof
  assume "c = f \<or> HasPrefix c (f @ ''/'')"
  then show "prefix (Split f (CHR ''/'')) (Split c (CHR ''/''))"
    by (auto simp: HasPrefix_iff Split_append)
next
  assume "prefix (Split f (CHR ''/'')) (Split c (CHR ''/''))"
  then obtain rest where rest: "Split c (CHR ''/'') = Split f (CHR ''/'') @ rest" by (auto simp: prefix_def)
  show "c = f \<or> HasPrefix c (f @ ''/'')"
  proof (cases "rest = []")
    case True
    then have "Join (Split c (CHR ''/'')) ''/'' = Join (Split f (CHR ''/'')) ''/''" using rest by simp
    then show ?thesis by (simp add: Join_Split)
  next
    case False
    then have "Join (Split c (CHR ''/'')) ''/'' = Join (Split f (CHR ''/'')) ''/'' @ ''/'' @ Join rest ''/''"
      using rest by (simp add: Join_append Split_not_Nil)
    then show ?thesis by (simp add: Join_Split HasPrefix_iff)
  qed
qed

text \<open>Path filters by segments: a filter of a repository matches a changed path exactly when the segments of its directory (the
  filter without the slashes around it and without its wildcard at the end) begin the segments of the path, so that \<open>api\<close>
  selects \<open>api/a.go\<close> and never \<open>api-docs/a.go\<close>.\<close>

theorem pathFilterMatches_segments:
  "pathFilterMatches f c \<longleftrightarrow>
     Trim (TrimSpace f) ''/'' \<noteq> [] \<and> c \<noteq> [] \<and>
     (filter_root f = [] \<or> prefix (Split (filter_root f) (CHR ''/'')) (Split c (CHR ''/'')))"
  unfolding pathFilterMatches_def filter_root_def [symmetric] Let_def segments_prefix by simp

subsection \<open>Executions\<close>

context http_statements
begin

lemma create_build_row_keeps: "sys_keeps I (create_build_row h arg)"
  unfolding create_build_row_def by (intro handler_rules)

lemma fail_build_keeps: "sys_keeps I (fail_build h build err)"
  unfolding fail_build_def by (intro handler_rules)

lemma dispatch_workflow_keeps: "sys_keeps I (dispatch_workflow app installationID repository workflowID ref inputs)"
  unfolding dispatch_workflow_def by (intro handler_rules)

lemma auditGitHubSkip_keeps: "sys_keeps I (auditGitHubSkip h r application err p)"
  unfolding auditGitHubSkip_def by (intro handler_rules)

lemmas github_rules = handler_rules create_build_row_keeps fail_build_keeps dispatch_workflow_keeps auditGitHubSkip_keeps
  catalog_read_only

lemma dispatch_build_keeps: "sys_keeps I (dispatch_build g app r application p account repo request)"
  unfolding dispatch_build_def by (intro github_rules)

lemma try_accounts_keeps: "sys_keeps I (try_accounts g app r application p repoName owned source accounts)"
  by (induction accounts arbitrary: owned source)
    (auto simp: Let_def split: prod.split option.split bool.split intro!: github_rules dispatch_build_keeps)

lemma tryBuildDispatch_keeps: "sys_keeps I (tryBuildDispatch g r application p)"
  unfolding tryBuildDispatch_def Let_def by (intro github_rules try_accounts_keeps)

lemma push_application_keeps: "sys_keeps I (push_application g r p application)"
  unfolding push_application_def push_skip_def push_deploy_def
  by (auto split: option.split prod.split bool.split sum.split
      intro!: github_rules tryBuildDispatch_keeps create_deployment_row_keeps enqueueDeployment_keeps)

lemma push_applications_keeps: "sys_keeps I (push_applications g r p apps)"
  by (induction apps) (auto split: sum.split intro!: github_rules push_application_keeps)

lemma handle_push_keeps: "sys_keeps I (handle_push g r p)"
  unfolding handle_push_def by (intro github_rules push_applications_keeps)

lemma handle_event_keeps: "sys_keeps I (handle_event g r)"
  unfolding handle_event_def by (intro github_rules handle_push_keeps)

lemma githubWebhook_keeps: "sys_keeps I (githubWebhook g replays r)"
  unfolding githubWebhook_def
  by (auto split: option.split bool.split prod.split intro!: github_rules handle_event_keeps)

lemma resolveGitHubBuildCommit_keeps: "sys_keeps I (resolveGitHubBuildCommit app repository inputs)"
  unfolding resolveGitHubBuildCommit_def Let_def by (intro github_rules)

lemma start_build_keeps: "sys_keeps I (start_build g app r account repository request)"
  unfolding start_build_def by (intro github_rules)

lemma dispatchGitHubBuild_keeps: "sys_keeps I (dispatchGitHubBuild g r decoded)"
  unfolding dispatchGitHubBuild_def Let_def
  by (intro github_rules resolveGitHubBuildCommit_keeps start_build_keeps)

end

subsection \<open>What is queued\<close>

lemma quiet_builds [quiet_rules]:
  "quiet (create_build_row h arg)" "quiet (fail_build h build err)"
  "quiet (dispatch_workflow app installationID repository workflowID ref inputs)" "quiet (auditGitHubSkip h r application http_err p)"
  unfolding create_build_row_def fail_build_def dispatch_workflow_def auditGitHubSkip_def by (intro quiet_rules)+

lemma quiet_dispatch_build [quiet_rules]: "quiet (dispatch_build g app r application p account repo request)"
  unfolding dispatch_build_def by (auto split: sum.split option.split intro!: quiet_rules)

lemma quiet_try_accounts: "quiet (try_accounts g app r application p repoName owned source accounts)"
  by (induction accounts arbitrary: owned source)
    (auto simp: Let_def split: prod.split option.split bool.split intro!: quiet_rules)

lemma quiet_tryBuildDispatch: "quiet (tryBuildDispatch g r application p)"
  unfolding tryBuildDispatch_def Let_def
  by (auto split: option.split sum.split intro!: quiet_rules quiet_try_accounts)

definition push_queues :: "http_error + push_result \<Rightarrow> deployment list \<Rightarrow> bool" where
  "push_queues x ds \<longleftrightarrow> ds = (case x of Inr (Push_Queued d) \<Rightarrow> [d] | _ \<Rightarrow> [])"

lemma push_skip_queues: "queues h (push_skip g r application p err) push_queues"
  unfolding push_skip_def
  by (intro queues_rules quiet_rules http_ok.auditGitHubSkip_keeps) (simp add: push_queues_def)

lemma push_deploy_queues:
  assumes "served (h_runner (g_http g))"
  shows "queues (g_http g) (push_deploy g r input) push_queues"
  unfolding push_deploy_def
  by (rule queues_create [OF assms])
    (auto intro!: queues_rules quiet_rules sys_keeps_rules http_ok.http_audit_keeps simp: push_queues_def)

lemma push_application_queues:
  assumes "served (h_runner (g_http g))"
  shows "queues (g_http g) (push_application g r p application) push_queues"
  unfolding push_application_def
  by (auto split: option.split prod.split bool.split sum.split
      intro!: queues_rules quiet_tryBuildDispatch http_ok.tryBuildDispatch_keeps push_skip_queues push_deploy_queues assms
      simp: push_queues_def)

definition pushes_queue :: "http_error + (auto_row \<times> push_result) list \<Rightarrow> deployment list \<Rightarrow> bool" where
  "pushes_queue x ds \<longleftrightarrow> (case x of Inr outcomes \<Rightarrow> ds = queued_of outcomes | Inl _ \<Rightarrow> True)"

lemma push_applications_queues:
  assumes "served (h_runner (g_http g))"
  shows "queues (g_http g) (push_applications g r p apps) pushes_queue"
proof (induction apps)
  case Nil
  then show ?case by (auto intro!: queues_rules simp: pushes_queue_def queued_of_def)
next
  case (Cons a apps)
  let ?S = "\<lambda>x y es. case x of Inl _ \<Rightarrow> y = Inl (projl x) | Inr oc \<Rightarrow>
     (case y of Inl _ \<Rightarrow> True | Inr outcomes \<Rightarrow> \<exists>others. outcomes = (a, oc) # others \<and> es = queued_of others)"
  have rest: "queues (g_http g) (do {
          os \<leftarrow> push_applications g r p apps;
          State_Monad.return (try_bind os (\<lambda>outcomes. Inr ((a, oc) # outcomes))) }) (?S (Inr oc))" for oc
    by (rule queues_bind [OF Cons.IH queues_return [where R = "\<lambda>y es. y = try_bind _ _ \<and> es = []"]])
      (auto simp: pushes_queue_def try_bind_def split: sum.splits)
  have step: "queues (g_http g) (case o1 of Inl err \<Rightarrow> State_Monad.return (Inl err) | Inr oc \<Rightarrow> do {
          os \<leftarrow> push_applications g r p apps;
          State_Monad.return (try_bind os (\<lambda>outcomes. Inr ((a, oc) # outcomes))) }) (?S o1)" for o1
    by (cases o1) (use rest in \<open>auto intro: queues_return\<close>)
  show ?case
    unfolding push_applications.simps
    by (rule queues_bind [OF push_application_queues [OF assms] step])
      (auto simp: push_queues_def pushes_queue_def queued_of_def split: sum.splits push_result.splits)
qed

definition reply_queues :: "webhook_body reply \<Rightarrow> deployment list \<Rightarrow> bool" where
  "reply_queues reply ds \<longleftrightarrow>
     (case snd reply of
        Inl _ \<Rightarrow> True
      | Inr (Push_Handled branch sha matched queued builds skipped) \<Rightarrow> fst reply = 202 \<and> ds = queued
      | Inr _ \<Rightarrow> ds = [])"

lemma writeError_text [simp]: "snd (writeError err) \<noteq> Inr x"
  by (cases err) simp_all

lemma reply_error [simp]: "reply_queues (writeError err) ds"
  by (cases err) (simp_all add: reply_queues_def)

lemma handle_push_queues:
  assumes "served (h_runner (g_http g))"
  shows "queues (g_http g) (handle_push g r p) reply_queues"
proof -
  have tail: "queues (g_http g) (or_error os (\<lambda>outcomes. do {
                http_audit (g_http g) r action kind target name metadata;
                State_Monad.return (writeJSON 202 (Push_Handled branch sha matched
                  (queued_of outcomes) (built_of outcomes) (skipped_of (g_http g) outcomes))) }))
      (\<lambda>reply es. case os of Inl err \<Rightarrow> reply = writeError err | Inr outcomes \<Rightarrow> es = [] \<and>
         reply = writeJSON 202 (Push_Handled branch sha matched (queued_of outcomes) (built_of outcomes) (skipped_of (g_http g) outcomes)))"
    for os action kind target name metadata branch sha matched
    by (auto intro!: queues_rules quiet_rules ok_catalog split: sum.splits)
  have body: "queues (g_http g) (do { os \<leftarrow> push_applications g r p apps; or_error os (\<lambda>outcomes. do {
                http_audit (g_http g) r action kind target name metadata;
                State_Monad.return (writeJSON 202 (Push_Handled branch sha matched
                  (queued_of outcomes) (built_of outcomes) (skipped_of (g_http g) outcomes))) }) }) reply_queues"
    for apps action kind target name metadata branch sha matched
    by (rule queues_bind [OF push_applications_queues [OF assms] tail])
      (auto simp: pushes_queue_def reply_queues_def writeJSON_def split: sum.splits simp del: writeError.simps)
  show ?thesis
    unfolding handle_push_def
    by (auto intro!: queues_or_error queues_then queues_return quiet_rules ok_catalog body split: option.split simp del: writeError.simps)
qed

lemma handle_event_queues:
  assumes "served (h_runner (g_http g))"
  shows "queues (g_http g) (handle_event g r) reply_queues"
  unfolding handle_event_def
  by (auto intro!: queues_or_error queues_then queues_return quiet_rules ok_catalog handle_push_queues assms split: sum.split
      simp: reply_queues_def writeJSON_def simp del: writeError.simps)

lemma githubWebhook_queues:
  assumes "served (h_runner (g_http g))"
  shows "queues (g_http g) (githubWebhook g replays r) (\<lambda>x. reply_queues (fst x))"
proof -
  have tail: "queues (g_http g) (do { reply \<leftarrow> handle_event g r; State_Monad.return (reply, c) }) (\<lambda>x. reply_queues (fst x))" for c
    by (rule queues_bind [OF handle_event_queues [OF assms] queues_return [where R = "\<lambda>y es. fst y = _ \<and> es = []"]]) auto
  show ?thesis
    unfolding githubWebhook_def
    by (auto intro!: queues_return tail split: option.split prod.split bool.split simp: reply_queues_def writeJSON_def)
qed

text \<open>C23. Truthful webhook: the reply to an accepted push lists exactly the deployments it queued, in the order of their rows, each with
  its item in the queue; every other reply that is no error comes without a new queued deployment. This holds whatever GitHub
  and Redis answer, as long as the database serves the statements.\<close>

theorem webhook_truthful:
  assumes "served (h_runner (g_http g))" "store_ok (sys_store s)"
    and "run_state (githubWebhook g replays r) s = ((reply, replays'), s')"
  shows "case snd reply of
      Inr (Push_Handled branch sha matched ds builds skipped) \<Rightarrow> fst reply = 202 \<and> queued_rows s' = queued_rows s @ ds
        \<and> (\<forall>d\<in>set ds. item_of (h_queue (g_http g)) d \<in> set (sys_queue s'))
    | Inr _ \<Rightarrow> queued_rows s' = queued_rows s
    | Inl _ \<Rightarrow> \<exists>ds. queued_rows s' = queued_rows s @ ds"
proof -
  obtain ds where "reply_queues reply ds" "batch (g_http g) s ds s'"
    using queuesD [OF githubWebhook_queues [OF assms(1)] assms(2,3)] by auto
  then show ?thesis by (auto simp: reply_queues_def batch_def split: sum.splits webhook_body.splits)
qed

text \<open>A sample: a signed push to a repository with one application.\<close>

definition sample_github :: github_env where
  "sample_github = \<lparr>g_http = sample_http, g_Secret = ''s3cret'', g_App = None, g_json_error = Errorf\<rparr>"

definition push_request :: http_request where
  "push_request = sample_request\<lparr>req_header := (\<lambda>name.
       if name = ''X-Hub-Signature-256'' then ''sha256='' @ hex_EncodeToString (hmac_sha256 ''s3cret'' (Marshal sample_push_json))
       else if name = ''X-GitHub-Event'' then ''push'' else if name = ''X-GitHub-Delivery'' then ''d-1'' else []),
     req_body := Marshal sample_push_json\<rparr>"

definition auto_application :: application where
  "auto_application = sample_application\<lparr>app_RepositoryUrl := Some ''https://github.com/acme/shop.git'', app_GithubAutoDeploy := True\<rparr>"

definition push_system :: system where
  "push_system = idle_system\<lparr>sys_world := sample_world\<lparr>w_store := sample_db\<lparr>deployments := [], applications := [auto_application]\<rparr>\<rparr>\<rparr>"

definition push_input :: create_deployment_params where
  "push_input = \<lparr>cd_Trigger = ''github_push'', cd_Strategy = ''blue_green'', cd_CommitSha = Some ''0a1b2c3'', cd_ImageRef = None,
     cd_ImageDigest = None, cd_Actor = Some ''ann-dev'', cd_ApplicationID = Some ''a1''\<rparr>"

lemma sample_push_checks:
  "length (Marshal sample_push_json) \<le> 2097152" "TrimSpace ''s3cret'' = ''s3cret''"
  "normalizeGitHubEvent ''push'' = Inr ''push''" "validateGitHubPushBranch ''main'' = None" "ValidCommitSHA ''0a1b2c3''"
  "validateBlueGreenHealthCheck sample_http (auto_HealthCheckUrl (auto_row_of auto_application)) = None"
  "TrimSpace (auto_ComposePath (auto_row_of auto_application)) \<noteq> []"
  "normalizeCreateDeployment (push_params (auto_row_of auto_application) sample_push) = Inr push_input"
  "deployment_params_check push_input = None"
  by code_simp+

lemma sample_push_signed: "VerifySignature (g_Secret sample_github) (req_body push_request) (req_header push_request ''X-Hub-Signature-256'')"
  using VerifySignature_signed [of "''s3cret''" "Marshal sample_push_json"] sample_push_checks(2)
  by (simp add: sample_github_def push_request_def)

lemma sample_push_handled:
  "\<exists>d n. fst (fst (run_state (githubWebhook sample_github None push_request) push_system))
     = (202, Inr (Push_Handled ''main'' ''0a1b2c3'' 1 [d] [] [])) \<and> dep_ID d = Some (FormatNat n)"
proof -
  obtain a s1 where a: "run_state (serve sample_http (ListApplicationsForGitHubPush ''main'' (push_Repositories sample_push))) push_system = (a, s1)"
    by (metis surj_pair)
  have a_eq: "a = Inr [auto_row_of auto_application]" and s1: "sys_store s1 = (sample_db\<lparr>deployments := [], applications := [auto_application]\<rparr>)\<lparr>clock := 6\<rparr>"
    using a by (auto simp: sample_run_simps ListApplicationsForGitHubPush_def push_system_def idle_system_def sample_db_def
        auto_application_def sample_application_def sample_push_def)
  obtain c s2 where c: "run_state (create_deployment_row sample_http push_input) s1 = (c, s2)" by (metis surj_pair)
  obtain d where d: "c = Inr d" "dep_ID d = Some (FormatNat (w_steps (sys_world s1)))"
    using c s1 sample_push_checks(9)
    by (auto simp: create_deployment_row_def sample_run_simps CreateDeployment_def sample_db_def auto_application_def sample_application_def
        sample_environment_def sample_project_def push_input_def Let_def)
  have e: "fst (run_state (enqueueDeployment sample_http d) s2) = None"
    using d(2) FormatNat_nonempty
    by (simp add: enqueueDeployment_def Enqueue_def encodeDeployment_def uuidString_def UUIDString_def RPush_def
        sample_run_simps Let_def)
  have app: "fst (run_state (push_application sample_github push_request sample_push (auto_row_of auto_application)) s1) = Inr (Push_Queued d)"
    using sample_push_checks(6-8) c d(1) e
    by (simp add: push_application_def tryBuildDispatch_def push_deploy_def run_bind sample_github_def)
  have "fst (run_state (handle_push sample_github push_request sample_push) push_system)
      = (202, Inr (Push_Handled ''main'' ''0a1b2c3'' 1 [d] [] []))"
    using a a_eq app sample_push_checks(4,5)
    by (simp add: handle_push_def run_bind or_error_def map_error_def writeJSON_def queued_of_def built_of_def skipped_of_def
        sample_push_def sample_github_def)
  then have "fst (run_state (handle_event sample_github push_request) push_system)
      = (202, Inr (Push_Handled ''main'' ''0a1b2c3'' 1 [d] [] []))"
    using sample_push_checks(3) sample_push_parsed
    by (simp add: handle_event_def or_error_def push_request_def) (simp add: sample_push_def sample_github_def)
  then show ?thesis
    using sample_push_signed sample_push_checks(1) d(2) by (auto simp: githubWebhook_def run_bind push_request_def)
qed

theorem webhook_truthful_witness:
  "\<exists>d c s'. run_state (githubWebhook sample_github None push_request) push_system
      = (((202, Inr (Push_Handled ''main'' ''0a1b2c3'' 1 [d] [] [])), c), s')
    \<and> queued_rows s' = [d] \<and> item_of sample_queue d \<in> set (sys_queue s')"
proof -
  obtain d c s' where run: "run_state (githubWebhook sample_github None push_request) push_system
      = (((202, Inr (Push_Handled ''main'' ''0a1b2c3'' 1 [d] [] [])), c), s')"
    using sample_push_handled by (metis prod.collapse)
  have "served (h_runner (g_http sample_github))" by (simp add: served_def sample_run_simps sample_github_def)
  moreover have "store_ok (sys_store push_system)" by code_simp
  ultimately show ?thesis using webhook_truthful [OF _ _ run] run
    by (auto simp: queued_rows_def push_system_def sample_github_def sample_http_def)
qed

subsection \<open>Deliveries without effect\<close>

lemma fresh_delivery:
  assumes "\<not> fst (Seen c (req_header r ''X-GitHub-Delivery''))" "length (req_body r) \<le> 2097152"
    "VerifySignature (g_Secret g) (req_body r) (req_header r ''X-Hub-Signature-256'')"
  shows "run_state (githubWebhook g (Some c) r) s =
    ((fst (run_state (handle_event g r) s), Some (snd (Seen c (req_header r ''X-GitHub-Delivery'')))), snd (run_state (handle_event g r) s))"
  using assms by (cases "Seen c (req_header r ''X-GitHub-Delivery'')") (simp add: githubWebhook_def run_bind)

lemma refused_delivery:
  "2097152 < length (req_body r) \<Longrightarrow> run_state (githubWebhook g replays r) s = ((writeError BodyTooLarge, replays), s)"
  "length (req_body r) \<le> 2097152 \<Longrightarrow> \<not> VerifySignature (g_Secret g) (req_body r) (req_header r ''X-Hub-Signature-256'') \<Longrightarrow>
   run_state (githubWebhook g replays r) s = (((401, Inl ''invalid github signature''), replays), s)"
  unfolding githubWebhook_def by (simp_all only: if_True if_False not_le [symmetric] not_True_eq_False not_False_eq_True run_state_return)

lemma duplicate_delivery:
  assumes "fst (Seen c (req_header r ''X-GitHub-Delivery''))" "length (req_body r) \<le> 2097152"
    "VerifySignature (g_Secret g) (req_body r) (req_header r ''X-Hub-Signature-256'')"
  shows "run_state (githubWebhook g (Some c) r) s = ((writeJSON 202 Duplicate_Delivery, Some c), s)"
proof -
  have "snd (Seen c (req_header r ''X-GitHub-Delivery'')) = c"
    using assms(1) by (intro Seen_known) (simp add: fst_Seen)
  then have "Seen c (req_header r ''X-GitHub-Delivery'') = (True, c)" using assms(1) by (simp add: prod_eq_iff)
  then show ?thesis using assms(2,3) by (simp add: githubWebhook_def)
qed

text \<open>C24. Rejected deliveries: a delivery that is not signed with the secret is refused and a delivery that is in the replay cache is
  answered without being handled; neither changes the tables, the queue or the cache, and nothing is sent to anybody.\<close>

theorem webhook_rejections:
  assumes "\<not> VerifySignature (g_Secret g) (req_body r) (req_header r ''X-Hub-Signature-256'')
    \<or> fst (Seen c (req_header r ''X-GitHub-Delivery''))"
  shows "\<exists>reply. run_state (githubWebhook g (Some c) r) s = ((reply, Some c), s) \<and>
     (reply = writeError BodyTooLarge \<or> reply = (401, Inl ''invalid github signature'') \<or> reply = writeJSON 202 Duplicate_Delivery)"
proof -
  consider (large) "2097152 < length (req_body r)"
    | (unsigned) "length (req_body r) \<le> 2097152" "\<not> VerifySignature (g_Secret g) (req_body r) (req_header r ''X-Hub-Signature-256'')"
    | (seen) "length (req_body r) \<le> 2097152" "VerifySignature (g_Secret g) (req_body r) (req_header r ''X-Hub-Signature-256'')"
      "fst (Seen c (req_header r ''X-GitHub-Delivery''))"
    using assms not_le by blast
  then show ?thesis
  proof cases
    case large
    show ?thesis by (rule exI, rule conjI, rule refused_delivery(1) [OF large], simp only: simp_thms)
  next
    case unsigned
    show ?thesis by (rule exI, rule conjI, rule refused_delivery(2) [OF unsigned], simp only: simp_thms)
  next
    case seen
    show ?thesis by (rule exI, rule conjI, rule duplicate_delivery [OF seen(3,1,2)], simp only: simp_thms)
  qed
qed

theorem webhook_rejections_witness:
  "\<exists>reply. run_state (githubWebhook sample_github (Some (newReplayCache 2)) sample_request) push_system = ((reply, Some (newReplayCache 2)), push_system)
     \<and> fst reply = 401"
proof -
  have unsigned: "\<not> VerifySignature (g_Secret sample_github) (req_body sample_request) (req_header sample_request ''X-Hub-Signature-256'')"
    by code_simp
  obtain reply where "run_state (githubWebhook sample_github (Some (newReplayCache 2)) sample_request) push_system
      = ((reply, Some (newReplayCache 2)), push_system)"
    using webhook_rejections [of sample_github sample_request "newReplayCache 2" push_system] unsigned by blast
  moreover have "fst (fst (run_state (githubWebhook sample_github (Some (newReplayCache 2)) sample_request) push_system))
      = (401, Inl ''invalid github signature'')"
    using unsigned by (simp add: githubWebhook_def sample_request_def)
  ultimately show ?thesis by auto
qed

lemma Seen_then_known:
  assumes "cache_ok c" "TrimSpace v \<noteq> []"
  shows "fst (Seen (snd (Seen c v)) v)"
proof (cases "TrimSpace v \<in> rc_seen c")
  case True
  then show ?thesis using assms by (simp add: fst_Seen Seen_known)
next
  case False
  have "rc_order c = [] \<or> rc_limit c \<noteq> 0" using assms(1) by (simp add: cache_ok_def)
  then have "TrimSpace v \<in> set (rc_order (snd (Seen c v)))"
    unfolding Seen_fresh(3) [OF assms False] using assms(1) by (cases "rc_order c") (auto simp: cache_ok_def)
  then show ?thesis using Seen_fresh(4) [OF assms False] assms(2) by (simp add: fst_Seen cache_ok_def)
qed

text \<open>C40. No second chance: a delivery is entered in the replay cache before it is handled. When its handling fails with an
  internal error, possibly after some of its deployments have been queued, GitHub's redelivery of it is answered as a
  duplicate and changes nothing, so that the remaining applications are never deployed.\<close>

theorem failed_delivery_not_retried:
  assumes "cache_ok c" "TrimSpace (req_header r ''X-GitHub-Delivery'') \<noteq> []"
    and "run_state (githubWebhook g (Some c) r) s = (((500, Inl message), Some c'), s')"
  shows "run_state (githubWebhook g (Some c') r) s'' = ((writeJSON 202 Duplicate_Delivery, Some c'), s'')"
proof -
  have sent: "length (req_body r) \<le> 2097152" "VerifySignature (g_Secret g) (req_body r) (req_header r ''X-Hub-Signature-256'')"
    using assms(3) refused_delivery [of r g "Some c" s] by (force simp: not_le)+
  have "\<not> fst (Seen c (req_header r ''X-GitHub-Delivery''))"
    using duplicate_delivery [OF _ sent] assms(3) by (auto simp: writeJSON_def)
  from fresh_delivery [OF this sent] have "c' = snd (Seen c (req_header r ''X-GitHub-Delivery''))" using assms(3) by simp
  then have "fst (Seen c' (req_header r ''X-GitHub-Delivery''))" using Seen_then_known [OF assms(1,2)] by simp
  from duplicate_delivery [OF this sent] show ?thesis .
qed

definition failing_github :: github_env where
  "failing_github = sample_github\<lparr>g_http := sample_http\<lparr>h_queue := sample_queue\<lparr>q_runner :=
     sample_env\<lparr>db_outcomes := (\<lambda>_. Refused (Errorf ''connection refused''))\<rparr>\<rparr>\<rparr>\<rparr>"

theorem failed_delivery_not_retried_witness:
  "\<exists>c' s'. run_state (githubWebhook failing_github (Some (newReplayCache 2)) push_request) push_system
        = (((500, Inl ''internal server error''), Some c'), s')
     \<and> run_state (githubWebhook failing_github (Some c') push_request) push_system = ((writeJSON 202 Duplicate_Delivery, Some c'), push_system)"
proof -
  let ?list = "serve (g_http failing_github) (ListApplicationsForGitHubPush ''main'' (push_Repositories sample_push))"
  have "fst (run_state ?list push_system) = Inl (Errorf ''connection refused'')"
    by (simp add: serve_def run_on_world db_exec_def run_bind next_step_def failing_github_def Let_def)
  then have "fst (run_state (handle_push failing_github push_request sample_push) push_system) = (500, Inl ''internal server error'')"
    using sample_push_checks(4,5)
    by (simp add: handle_push_def run_bind or_error_def map_error_def sample_push_def)
  moreover have "\<not> push_Deleted sample_push" by (simp add: sample_push_def)
  ultimately have "fst (run_state (handle_event failing_github push_request) push_system) = (500, Inl ''internal server error'')"
    using sample_push_checks(3) sample_push_parsed by (simp add: handle_event_def or_error_def push_request_def)
  moreover have "req_body push_request = Marshal sample_push_json" by (simp add: push_request_def)
  then have sent: "length (req_body push_request) \<le> 2097152" using sample_push_checks(1) by simp
  moreover have signed: "VerifySignature (g_Secret failing_github) (req_body push_request) (req_header push_request ''X-Hub-Signature-256'')"
    using sample_push_signed by (simp add: failing_github_def)
  moreover have "\<not> fst (Seen (newReplayCache 2) v)" for v by (simp add: fst_Seen newReplayCache_def)
  ultimately obtain c' s' where run: "run_state (githubWebhook failing_github (Some (newReplayCache 2)) push_request) push_system
        = (((500, Inl ''internal server error''), Some c'), s')"
    using fresh_delivery [of "newReplayCache 2" push_request failing_github push_system] by auto
  moreover have "TrimSpace ''d-1'' = ''d-1''" by code_simp
  then have "TrimSpace (req_header push_request ''X-GitHub-Delivery'') \<noteq> []" by (simp add: push_request_def)
  ultimately show ?thesis using failed_delivery_not_retried [OF newReplayCache_ok _ run] by blast
qed

subsection \<open>Builds that could not be started\<close>

text \<open>Lost failures: when a workflow cannot be started, its build is marked as failed with the text of the error. GitHub's answers are
  documents of several lines, which the table refuses as a message; the update fails, its error is dropped, and the build stays
  dispatched for good.\<close>

theorem failed_dispatch_not_recorded:
  assumes "served (h_runner h)" "HasControlCharacter (TrimSpace (take 512 (err_text err)))"
    and "run_state (fail_build h build err) s = (result, s')"
  shows "(\<exists>e. result = Inl e) \<and> build_runs (sys_store s') = build_runs (sys_store s)"
proof -
  let ?message = "TrimSpace (take 512 (err_text err))"
  let ?arg = "\<lparr>co_ID = build_ID build, co_Status = ''failed'', co_ImageRef = None, co_ImageDigest = None, co_ExternalUrl = None,
     co_ErrorMessage = blankStringAsText (buildErrorMessage err)\<rparr>"
  have "?message \<noteq> []" using assms(2) by (auto simp: HasControlCharacter_def)
  then have "blankStringAsText (buildErrorMessage err) = Some ?message" by (simp add: blankStringAsText_def buildErrorMessage_def)
  then have "build_result_check ?arg \<noteq> None" using assms(2) by (simp add: build_result_check_def opt_all_def)
  then have "\<exists>e. CompleteBuildRun ?arg db = Inl e" for db
    by (cases "one_row (filter (\<lambda>b. sql_eq (build_ID b) (build_ID build) \<and> build_Status b \<noteq> ''succeeded'') (build_runs db))")
      (auto simp: CompleteBuildRun_def Let_def)
  then obtain e where "CompleteBuildRun ?arg (ticked (h_runner h) (sys_world s)) = Inl e" by blast
  then show ?thesis using run_serve [OF assms(1) assms(3) [unfolded fail_build_def]] by (simp add: ticked_def)
qed

definition not_found_answer :: go_error where
  "not_found_answer = Errorf (''github api returned 404 Not Found: {'' @ [CHR 0x0A] @ ''  message: Not Found'' @ [CHR 0x0A] @ ''}'')"

theorem failed_dispatch_not_recorded_witness:
  "\<exists>e. fst (run_state (fail_build sample_http sample_build not_found_answer) push_system) = Inl e"
proof -
  have "served (h_runner sample_http)" by (simp add: served_def sample_run_simps)
  moreover have "HasControlCharacter (TrimSpace (take 512 (err_text not_found_answer)))" by code_simp
  ultimately show ?thesis using failed_dispatch_not_recorded by (metis prod.collapse)
qed

end
