(* ===== verification/Http_Builds.thy ===== *)
theory Http_Builds
  imports Http_Deployments Store_Catalog
begin

text \<open>
  The file \<^verbatim>\<open>internal/httpapi/builds.go\<close>: the report of a finished build, and the deployments that follow from
  it.
\<close>

record complete_build_request =
  cbr_Status :: string
  cbr_ImageRef :: string
  cbr_ImageDigest :: string
  cbr_ExternalURL :: string
  cbr_ErrorMessage :: string

definition three_breaks :: string where
  "three_breaks = [CHR 0x0D, CHR 0x0A, CHR 0x09]"

definition normalizeCompleteBuildRun :: "pg_uuid \<Rightarrow> complete_build_request \<Rightarrow> http_error + complete_build_params" where
  "normalizeCompleteBuildRun i request =
     (let status0 = TrimSpace (cbr_Status request);
          status = (if status0 = [] then ''succeeded'' else status0);
          image_ref = TrimSpace (cbr_ImageRef request);
          image_digest = TrimSpace (cbr_ImageDigest request);
          external_url = TrimSpace (cbr_ExternalURL request);
          error_message = TrimSpace (cbr_ErrorMessage request) in
      if status \<noteq> ''succeeded'' \<and> status \<noteq> ''failed'' \<and> status \<noteq> ''cancelled''
        then Inl (ValidationError ''build status must be succeeded, failed, or cancelled'')
      else if status = ''succeeded'' \<and> image_ref = []
        then Inl (ValidationError ''image_ref is required when build status is succeeded'')
      else if image_ref \<noteq> [] \<and> \<not> full_match imageRefPattern image_ref
        then Inl (ValidationError ''image_ref must be a non-empty image reference without whitespace or control characters'')
      else if image_digest \<noteq> [] \<and> \<not> full_match imageDigestPattern image_digest
        then Inl (ValidationError ''image_digest must be a sha256 digest'')
      else if external_url \<noteq> [] \<and> (\<not> HasPrefix external_url ''https://'' \<or> ContainsAny external_url three_breaks
              \<or> Contains external_url ''@'')
        then Inl (ValidationError ''external_url must be an https URL without credentials or control characters'')
      else if error_message \<noteq> [] \<and> (512 < length error_message \<or> ContainsAny error_message three_breaks)
        then Inl (ValidationError ''error_message must be 512 characters or fewer without control characters'')
      else Inr \<lparr>co_ID = i, co_Status = status, co_ImageRef = blankStringAsText image_ref,
             co_ImageDigest = blankStringAsText image_digest, co_ExternalUrl = blankStringAsText external_url,
             co_ErrorMessage = blankStringAsText error_message\<rparr>)"

definition buildCompleteDeploymentInput :: "http_env \<Rightarrow> auto_row \<Rightarrow> build_run \<Rightarrow> http_error + create_deployment_params" where
  "buildCompleteDeploymentInput h app build =
     normalizeCreateDeployment \<lparr>cd_Trigger = ''connector_sync'', cd_Strategy = ''blue_green'', cd_CommitSha = build_CommitSha build,
       cd_ImageRef = build_ImageRef build, cd_ImageDigest = build_ImageDigest build,
       cd_Actor = blankStringAsText (''build:'' @ id_text h (build_ID build)), cd_ApplicationID = auto_ID app\<rparr>"

definition buildCompleteApplicationDeploymentInput :: "http_env \<Rightarrow> application \<Rightarrow> build_run \<Rightarrow> http_error + create_deployment_params" where
  "buildCompleteApplicationDeploymentInput h app build =
     normalizeCreateDeployment \<lparr>cd_Trigger = ''connector_sync'', cd_Strategy = ''blue_green'', cd_CommitSha = build_CommitSha build,
       cd_ImageRef = build_ImageRef build, cd_ImageDigest = build_ImageDigest build,
       cd_Actor = blankStringAsText (''build:'' @ id_text h (build_ID build)), cd_ApplicationID = app_ID app\<rparr>"

text \<open>Creating and enqueueing one deployment of a build; the errors are only recorded.\<close>

definition build_deploy :: "http_env \<Rightarrow> http_request \<Rightarrow> build_run \<Rightarrow> string \<Rightarrow> create_deployment_params \<Rightarrow> deployment list sys_run" where
  "build_deploy h r build name input = do {
     c \<leftarrow> create_deployment_row h input;
     (case c of
        Inl _ \<Rightarrow> State_Monad.return []
      | Inr d \<Rightarrow> do {
          e \<leftarrow> enqueueDeployment h d;
          (case e of
             Some err \<Rightarrow> do {
               http_audit h r ''build.auto_deploy_failed'' ''deployment'' (id_text h (dep_ID d)) name
                 [(''build_id'', JStr (id_text h (build_ID build))), (''error'', JStr (err_text err))];
               State_Monad.return []
             }
           | None \<Rightarrow> do {
               http_audit h r ''build.auto_deploy'' ''deployment'' (id_text h (dep_ID d)) name
                 [(''build_id'', JStr (id_text h (build_ID build))), (''image_ref'', JStr (text_String (build_ImageRef build)))];
               State_Monad.return [d]
             })
        })
   }"

fun deploy_built :: "http_env \<Rightarrow> http_request \<Rightarrow> build_run \<Rightarrow> auto_row list \<Rightarrow> deployment list sys_run" where
  "deploy_built h r build [] = State_Monad.return []"
| "deploy_built h r build (app # apps) = do {
     ds \<leftarrow> (case buildCompleteDeploymentInput h app build of
        Inl _ \<Rightarrow> State_Monad.return []
      | Inr input \<Rightarrow>
          if validateBlueGreenHealthCheck h (auto_HealthCheckUrl app) \<noteq> None then State_Monad.return []
          else build_deploy h r build (auto_Name app) input);
     others \<leftarrow> deploy_built h r build apps;
     State_Monad.return (ds @ others)
   }"

definition autoDeployApplication :: "http_env \<Rightarrow> http_request \<Rightarrow> build_run \<Rightarrow> deployment list sys_run" where
  "autoDeployApplication h r build = do {
     g \<leftarrow> serve h (GetApplication (build_ApplicationID build));
     (case g of
        Inl _ \<Rightarrow> State_Monad.return []
      | Inr app \<Rightarrow>
          if \<not> app_GithubAutoDeploy app \<or> validateBlueGreenHealthCheck h (app_HealthCheckUrl app) \<noteq> None
          then State_Monad.return []
          else (case buildCompleteApplicationDeploymentInput h app build of
             Inl _ \<Rightarrow> State_Monad.return []
           | Inr input \<Rightarrow> build_deploy h r build (app_Name app) input))
   }"

definition autoDeploy :: "http_env \<Rightarrow> http_request \<Rightarrow> build_run \<Rightarrow> deployment list sys_run" where
  "autoDeploy h r build =
     (if build_Status build \<noteq> ''succeeded'' \<or> build_ImageRef build = None \<or> TrimSpace (text_String (build_ImageRef build)) = []
      then State_Monad.return []
      else if build_ApplicationID build \<noteq> None then autoDeployApplication h r build
      else do {
        a \<leftarrow> serve h (ListApplicationsForBuildComplete (build_Branch build) (build_Repository build));
        (case a of
           Inl _ \<Rightarrow> State_Monad.return []
         | Inr apps \<Rightarrow> deploy_built h r build apps)
      })"

text \<open>A nil error that reaches \<open>writeError\<close> is answered like an unexpected one.\<close>

definition nil_error :: go_error where
  "nil_error = Errorf ''<nil>''"

definition completeBuildRun ::
  "http_env \<Rightarrow> http_request \<Rightarrow> http_error + complete_build_request \<Rightarrow> (build_run \<times> deployment list) handler" where
  "completeBuildRun h r decoded =
     or_error (parseUUIDParam h r ''buildID'') (\<lambda>buildID. or_error decoded (\<lambda>request.
       or_error (normalizeCompleteBuildRun buildID request) (\<lambda>input. do {
         c \<leftarrow> serve h (CompleteBuildRun input);
         (case c of
            Inl err \<Rightarrow>
              if err = ErrNoRows then do {
                g \<leftarrow> serve h (GetBuildRun buildID);
                State_Monad.return (case g of
                    Inl err' \<Rightarrow> writeError (if err' = ErrNoRows then NotFoundError ''build not found'' else Internal err')
                  | Inr build \<Rightarrow>
                      if build_Status build = ''succeeded'' then writeJSON 200 (build, [])
                      else writeError (Internal nil_error))
              }
              else State_Monad.return (writeError (Internal err))
          | Inr build \<Rightarrow> do {
              http_audit h r ''build.complete'' ''build'' (id_text h (build_ID build)) (build_Repository build)
                [(''provider'', JStr (build_Provider build)), (''status'', JStr (build_Status build)),
                 (''branch'', JStr (build_Branch build)), (''image_ref'', JStr (text_String (build_ImageRef build)))];
              ds \<leftarrow> autoDeploy h r build;
              State_Monad.return (writeJSON 200 (build, ds))
            })
       })))"

definition listBuildRuns :: "http_env \<Rightarrow> http_request \<Rightarrow> build_run list handler" where
  "listBuildRuns h r =
     or_error (deploymentHistoryLimit (req_query r ''limit'')) (\<lambda>limit. do {
       b \<leftarrow> serve h (ListBuildRuns limit);
       or_error (map_error Internal b) (\<lambda>builds. State_Monad.return (writeJSON 200 builds))
     })"

end
