(* ===== verification/Http_Builds_Proofs.thy ===== *)
theory Http_Builds_Proofs
  imports Http_Builds Http_Batch
begin

text \<open>
  The report of a finished build: the reply lists exactly the deployments that were queued, a second report
  of a build that succeeded changes nothing, and what passes validation is accepted by the table.
\<close>

subsection \<open>Executions\<close>

context http_statements
begin

lemma build_deploy_keeps: "sys_keeps I (build_deploy h r build name input)"
  unfolding build_deploy_def by (intro handler_rules create_deployment_row_keeps enqueueDeployment_keeps)

lemma deploy_built_keeps: "sys_keeps I (deploy_built h r build apps)"
  by (induction apps) (auto intro!: handler_rules build_deploy_keeps split: sum.split)

lemma autoDeploy_keeps: "sys_keeps I (autoDeploy h r build)"
  unfolding autoDeploy_def autoDeployApplication_def
  by (intro handler_rules catalog_read_only build_deploy_keeps deploy_built_keeps)

lemma completeBuildRun_keeps: "sys_keeps I (completeBuildRun h r decoded)"
  unfolding completeBuildRun_def by (intro handler_rules catalog_read_only autoDeploy_keeps)

end

subsection \<open>What is queued\<close>

lemma build_deploy_queues:
  assumes "served (h_runner h)"
  shows "queues h (build_deploy h r build name input) (\<lambda>ds' ds. ds = ds')"
  unfolding build_deploy_def
  by (rule queues_create [OF assms])
    (auto intro!: queues_rules quiet_rules sys_keeps_rules ok_catalog simp: run_bind)

lemma deploy_built_queues:
  assumes "served (h_runner h)"
  shows "queues h (deploy_built h r build apps) (\<lambda>ds' ds. ds = ds')"
proof (induction apps)
  case Nil
  then show ?case by (auto intro: queues_return)
next
  case (Cons app apps)
  have first: "queues h (case buildCompleteDeploymentInput h app build of
        Inl _ \<Rightarrow> State_Monad.return []
      | Inr input \<Rightarrow>
          if validateBlueGreenHealthCheck h (auto_HealthCheckUrl app) \<noteq> None then State_Monad.return []
          else build_deploy h r build (auto_Name app) input) (\<lambda>ds' ds. ds = ds')"
    by (auto intro!: queues_return build_deploy_queues assms split: sum.split)
  have rest: "queues h (do { others \<leftarrow> deploy_built h r build apps; State_Monad.return (ds @ others) }) (\<lambda>ds' es. ds' = ds @ es)" for ds
    by (rule queues_bind [OF Cons.IH queues_return [where R = "\<lambda>y es. y = ds @ _ \<and> es = []"]]) auto
  show ?case unfolding deploy_built.simps by (rule queues_bind [OF first rest]) simp
qed

lemma autoDeploy_queues:
  assumes "served (h_runner h)"
  shows "queues h (autoDeploy h r build) (\<lambda>ds' ds. ds = ds')"
  unfolding autoDeploy_def autoDeployApplication_def
  by (auto intro!: queues_return queues_then quiet_rules ok_catalog build_deploy_queues deploy_built_queues assms split: sum.split)

definition completion_queues :: "(build_run \<times> deployment list) reply \<Rightarrow> deployment list \<Rightarrow> bool" where
  "completion_queues reply ds \<longleftrightarrow> (case snd reply of Inl _ \<Rightarrow> ds = [] | Inr (build, ds') \<Rightarrow> fst reply = 200 \<and> ds = ds')"

lemma completion_error: "completion_queues (writeError err) []"
  by (cases err) (simp_all add: completion_queues_def)

lemma completeBuildRun_queues:
  assumes "served (h_runner h)"
  shows "queues h (completeBuildRun h r decoded) completion_queues"
proof -
  have tail: "queues h (do { ds \<leftarrow> autoDeploy h r build; State_Monad.return (writeJSON 200 (build, ds)) }) completion_queues" for build
    by (rule queues_bind [OF autoDeploy_queues [OF assms] queues_return [where R = "\<lambda>y es. y = writeJSON 200 (build, _) \<and> es = []"]])
      (auto simp: completion_queues_def writeJSON_def)
  show ?thesis
    unfolding completeBuildRun_def
    by (auto intro!: queues_or_error queues_then [of "serve h _"] queues_then [of "http_audit h r _ _ _ _ _"] queues_return
        quiet_rules ok_catalog tail completion_error split: sum.split simp del: writeError.simps)
      (auto simp: completion_queues_def writeJSON_def)
qed


text \<open>A sample: the report of a build of an application that is deployed automatically.\<close>

definition built_application :: application where
  "built_application = sample_application\<lparr>app_RepositoryUrl := Some ''https://github.com/acme/shop.git'', app_GithubAutoDeploy := True\<rparr>"

definition build_db :: store where
  "build_db = sample_db\<lparr>deployments := [], applications := [built_application], build_runs := [sample_build]\<rparr>"

definition build_system :: system where
  "build_system = idle_system\<lparr>sys_world := sample_world\<lparr>w_store := build_db\<rparr>\<rparr>"

definition sample_report :: complete_build_request where
  "sample_report = \<lparr>cbr_Status = [], cbr_ImageRef = '' registry/shop:7 '', cbr_ImageDigest = [],
     cbr_ExternalURL = ''https://github.com/acme/shop/actions/runs/7'', cbr_ErrorMessage = []\<rparr>"

definition sample_completion :: complete_build_params where
  "sample_completion = \<lparr>co_ID = Some ''a1'', co_Status = ''succeeded'', co_ImageRef = Some ''registry/shop:7'', co_ImageDigest = None,
     co_ExternalUrl = Some ''https://github.com/acme/shop/actions/runs/7'', co_ErrorMessage = None\<rparr>"

definition completed_build :: build_run where
  "completed_build = sample_build\<lparr>build_Status := ''succeeded'', build_ImageRef := Some ''registry/shop:7'', build_ImageDigest := None,
     build_ExternalUrl := Some ''https://github.com/acme/shop/actions/runs/7'', build_ErrorMessage := None,
     build_CompletedAt := Some 6, build_UpdatedAt := Some 6\<rparr>"

definition build_input :: create_deployment_params where
  "build_input = \<lparr>cd_Trigger = ''connector_sync'', cd_Strategy = ''blue_green'', cd_CommitSha = Some ''0a1b2c3'',
     cd_ImageRef = Some ''registry/shop:7'', cd_ImageDigest = None, cd_Actor = Some ''build:a1'', cd_ApplicationID = Some ''a1''\<rparr>"

lemma sample_report_checks:
  "parseUUIDParam sample_http sample_request ''buildID'' = Inr (Some ''a1'')"
  "normalizeCompleteBuildRun (Some ''a1'') sample_report = Inr sample_completion"
  "build_result_check sample_completion = None"
  "validateBlueGreenHealthCheck sample_http (app_HealthCheckUrl built_application) = None"
  "buildCompleteApplicationDeploymentInput sample_http built_application completed_build = Inr build_input"
  "deployment_params_check build_input = None" "TrimSpace ''registry/shop:7'' \<noteq> []"
  by code_simp+

abbreviation catalog :: "store \<Rightarrow> application list \<times> environment list \<times> project list \<times> deployment list" where
  "catalog db \<equiv> (applications db, environments db, projects db, deployments db)"

lemma serve_catalog:
  assumes "\<And>db x db'. q db = Inr (x, db') \<Longrightarrow> catalog db' = catalog db"
  shows "catalog (sys_store (snd (run_state (serve h q) s))) = catalog (sys_store s)"
proof -
  have "keeps (\<lambda>db. catalog db = D) (db_exec (h_runner h) q)" for D
    by (rule db_exec_keeps) (auto intro!: stmt_keepsI dest: assms)
  then show ?thesis unfolding serve_def run_on_world keeps_def by simp
qed

lemma audit_catalog:
  "catalog (sys_store (snd (run_state (http_audit h r action targetType targetID targetName metadata) s))) = catalog (sys_store s)"
proof -
  have "catalog (sys_store (snd (run_state (serve h (AppendAuditEvent actor action targetType targetID targetName metadata)) s)))
      = catalog (sys_store s)" for actor action targetType targetID targetName metadata
    by (rule serve_catalog) (auto simp: AppendAuditEvent_def Let_def)
  then show ?thesis by (simp add: http_audit_def run_bind)
qed

lemma sample_build_deploy:
  assumes "catalog (sys_store s) = catalog build_db"
  shows "\<exists>d. fst (run_state (build_deploy sample_http r build name build_input) s) = [d]"
proof -
  obtain c s1 where c: "run_state (create_deployment_row sample_http build_input) s = (c, s1)" by (metis surj_pair)
  obtain d where d: "c = Inr d" "dep_ID d = Some (FormatNat (w_steps (sys_world s)))"
    using c assms sample_report_checks(6)
    by (auto simp: create_deployment_row_def sample_run_simps CreateDeployment_def build_db_def sample_db_def built_application_def
        sample_application_def sample_environment_def sample_project_def build_input_def Let_def)
  have "fst (run_state (enqueueDeployment sample_http d) s1) = None"
    using d(2) FormatNat_nonempty
    by (simp add: enqueueDeployment_def Enqueue_def encodeDeployment_def uuidString_def UUIDString_def RPush_def sample_run_simps Let_def)
  then show ?thesis using c d by (simp add: build_deploy_def run_bind)
qed

lemma sample_autoDeploy:
  assumes "catalog (sys_store s) = catalog build_db"
  shows "\<exists>d. fst (run_state (autoDeploy sample_http r completed_build) s) = [d]"
proof -
  obtain g s1 where g: "run_state (serve sample_http (GetApplication (Some ''a1''))) s = (g, s1)" by (metis surj_pair)
  have "g = Inr built_application"
    using g assms by (auto simp: sample_run_simps GetApplication_def build_db_def sample_db_def built_application_def sample_application_def)
  moreover have "catalog (sys_store s1) = catalog build_db"
    using serve_catalog [of "GetApplication (Some ''a1'')" sample_http s] g assms by (simp add: GetApplication_def try_bind_eq_Inr_iff)
  moreover have "app_GithubAutoDeploy built_application" by (simp add: built_application_def)
  moreover have "build_Status completed_build = ''succeeded''" "build_ImageRef completed_build = Some ''registry/shop:7''"
      "build_ApplicationID completed_build = Some ''a1''"
    by (simp_all add: completed_build_def sample_build_def)
  ultimately show ?thesis
    using g sample_report_checks(4,5,7) sample_build_deploy [of s1]
    by (simp add: autoDeploy_def autoDeployApplication_def run_bind text_String_def)
qed

lemma sample_build_deployed:
  "\<exists>d. fst (run_state (completeBuildRun sample_http sample_request (Inr sample_report)) build_system) = (200, Inr (completed_build, [d]))"
proof -
  obtain c s1 where c: "run_state (serve sample_http (CompleteBuildRun sample_completion)) build_system = (c, s1)" by (metis surj_pair)
  have "c = Inr completed_build" and "catalog (sys_store s1) = catalog build_db"
    using c sample_report_checks(3)
    by (auto simp: sample_run_simps CompleteBuildRun_def build_system_def idle_system_def build_db_def sample_db_def sample_build_def
        sample_completion_def completed_build_def update_rows_def Let_def now_def)
  then show ?thesis
    using c sample_report_checks(1,2) sample_autoDeploy audit_catalog
    by (simp add: completeBuildRun_def or_error_def run_bind writeJSON_def)
qed


subsection \<open>Reports that come again\<close>

text \<open>Idempotent completion: a second report of a build that has succeeded, whatever it says, is answered with the build as it is and
  without deployments, and changes no build, no deployment and nothing in the queue.\<close>

theorem completion_idempotent:
  assumes "served (h_runner h)" "parseUUIDParam h r ''buildID'' = Inr i" "normalizeCompleteBuildRun i request = Inr input"
    and "filter (\<lambda>b. sql_eq (build_ID b) i) (build_runs (sys_store s)) = [b]" "build_Status b = ''succeeded''"
    and "run_state (completeBuildRun h r (Inr request)) s = (reply, s')"
  shows "reply = (200, Inr (b, [])) \<and> build_runs (sys_store s') = build_runs (sys_store s)
    \<and> deployments (sys_store s') = deployments (sys_store s) \<and> sys_queue s' = sys_queue s"
proof -
  let ?t = "ticked (h_runner h) (sys_world s)"
  have i: "co_ID input = i" using assms(3) by (auto simp: normalizeCompleteBuildRun_def Let_def split: if_splits)
  have "x = b" if "x \<in> set (build_runs (sys_store s))" "sql_eq (build_ID x) i" for x
    using that arg_cong [OF assms(4), of set] by auto
  then have "filter (\<lambda>b. sql_eq (build_ID b) i \<and> build_Status b \<noteq> ''succeeded'') (build_runs (sys_store s)) = []"
    using assms(5) unfolding filter_empty_conv by metis
  then have none: "CompleteBuildRun input ?t = Inl ErrNoRows"
    by (simp add: CompleteBuildRun_def i one_row_def Let_def ticked_def)
  obtain c s1 where c: "run_state (serve h (CompleteBuildRun input)) s = (c, s1)" by (metis surj_pair)
  note res1 = run_serve [OF assms(1) c] none
  obtain g s2 where g: "run_state (serve h (GetBuildRun i)) s1 = (g, s2)" by (metis surj_pair)
  have "GetBuildRun i (ticked (h_runner h) (sys_world s1)) = Inr (b, ticked (h_runner h) (sys_world s1))"
    using res1 assms(4) by (simp add: GetBuildRun_def one_row_def ticked_def)
  then have res2: "g = Inr b" "sys_store s2 = ticked (h_runner h) (sys_world s1)" "sys_queue s2 = sys_queue s1"
    using run_serve [OF assms(1) g] by simp_all
  have "(reply, s') = (writeJSON 200 (b, []), s2)"
    using assms(2,3,5,6) c g res1 res2 by (simp add: completeBuildRun_def or_error_def run_bind)
  then show ?thesis using res1 res2 by (auto simp: writeJSON_def ticked_def)
qed

definition built_system :: system where
  "built_system = build_system\<lparr>sys_world := sample_world\<lparr>w_store := build_db\<lparr>build_runs := [completed_build]\<rparr>\<rparr>\<rparr>"

theorem completion_idempotent_witness:
  "fst (run_state (completeBuildRun sample_http sample_request (Inr sample_report)) built_system) = (200, Inr (completed_build, []))"
proof -
  obtain reply s' where run: "run_state (completeBuildRun sample_http sample_request (Inr sample_report)) built_system = (reply, s')"
    by (metis surj_pair)
  have "served (h_runner sample_http)" by (simp add: served_def sample_run_simps)
  moreover have "filter (\<lambda>b. sql_eq (build_ID b) (Some ''a1'')) (build_runs (sys_store built_system)) = [completed_build]"
    by (simp add: built_system_def completed_build_def sample_build_def sql_eq_def)
  moreover have "build_Status completed_build = ''succeeded''" by (simp add: completed_build_def)
  ultimately show ?thesis
    using completion_idempotent [OF _ sample_report_checks(1,2) _ _ run] run by simp
qed

subsection \<open>Validation\<close>

lemma TrimSpace_blank_text: "blankStringAsText (TrimSpace v) = (if TrimSpace v = [] then None else Some (TrimSpace v))"
  by (simp add: blankStringAsText_def TrimSpace_idem)

lemma no_at_no_credentials: "\<not> Contains v ''@'' \<Longrightarrow> \<not> has_credentials v"
proof
  assume at: "\<not> Contains v ''@''" and "has_credentials v"
  then have "CHR ''@'' \<in> set (drop (length (takeWhile (\<lambda>c. c \<noteq> CHR ''/'' \<and> c \<noteq> CHR ''@'') (drop 8 v))) (drop 8 v))"
    by (auto simp: has_credentials_def Let_def HasPrefix_iff)
  then have "CHR ''@'' \<in> set v" by (meson in_set_dropD)
  then show False using at by (auto simp: Contains_iff in_set_conv_decomp)
qed

lemma visible_image_ref:
  assumes "full_match imageRefPattern v"
  shows "pg_text_ok v \<and> Trim v '' '' \<noteq> [] \<and> length (runes v) \<le> 512 \<and> no_blanks v"
proof -
  obtain r rs where rs: "runes v = r # rs" "length rs \<le> 511" "r_alnum r" "\<forall>x\<in>set rs. r_alnum x \<or> one_of ''._:/@-'' x"
    using assms unfolding full_match_image_ref by auto
  then have vis: "33 \<le> x \<and> x \<le> 126" if "x \<in> set (runes v)" for x using that by (fastforce simp: class_defs)
  have "v \<noteq> []" using rs(1) by auto
  moreover note visible = visible_text [OF vis]
  moreover have "length (runes v) \<le> 512" using rs(1,2) by simp
  ultimately show ?thesis unfolding no_blanks_def by blast
qed

lemma runes_length: "length (runes v) \<le> length v"
proof -
  have "length ks \<le> length (chunk_bytes ks)" if "\<forall>k\<in>set ks. snd k \<noteq> []" for ks
    using that by (induction ks) (auto simp: Suc_le_eq add_strict_increasing)
  from this [of "chunks v"] show ?thesis using chunks_nonempty by simp
qed

lemma trimmed_not_blank: "TrimSpace v = v \<Longrightarrow> v \<noteq> [] \<Longrightarrow> Trim v '' '' \<noteq> []"
proof
  assume "TrimSpace v = v" "v \<noteq> []" "Trim v '' '' = []"
  then have blank: "\<forall>c\<in>set v. c = CHR '' ''" by (simp add: Trim_def trim_list_eq_Nil_iff)
  have chars: "byte c = 32" if "c \<in> set v" for c using bspec [OF blank that] by simp
  then have "ascii v" by (simp add: ascii_def list_all_iff)
  then have "TrimSpace v = trim_list (\<lambda>c. IsSpace (byte c)) v" by (rule TrimSpace_ascii)
  also have "\<dots> = []" unfolding trim_list_eq_Nil_iff using chars by (simp add: IsSpace_def)
  finally have "TrimSpace v = []" .
  then show False using \<open>TrimSpace v = v\<close> \<open>v \<noteq> []\<close> by simp
qed

text \<open>Accepted reports: what passes the validation of a report is accepted by the constraints of the table, provided the
  link and the message can be stored as text and have no control characters (the validation only excludes line ends and tabs).\<close>

theorem validated_report_accepted:
  assumes "normalizeCompleteBuildRun i request = Inr input"
    and "\<And>v. co_ExternalUrl input = Some v \<or> co_ErrorMessage input = Some v \<Longrightarrow> pg_text_ok v \<and> \<not> HasControlCharacter v"
  shows "build_result_check input = None"
proof -
  have status: "co_Status input \<in> {''succeeded'', ''failed'', ''cancelled''}" "co_Status input = ''succeeded'' \<Longrightarrow> co_ImageRef input \<noteq> None"
    using assms(1) by (auto simp: normalizeCompleteBuildRun_def TrimSpace_blank_text Let_def split: if_splits)
  have ref: "opt_all (full_match imageRefPattern) (co_ImageRef input)"
    and digest: "opt_all (full_match imageDigestPattern) (co_ImageDigest input)"
    and url: "opt_all (\<lambda>v. HasPrefix v ''https://'' \<and> \<not> has_credentials v \<and> v \<noteq> [] \<and> TrimSpace v = v) (co_ExternalUrl input)"
    and message: "opt_all (\<lambda>v. length v \<le> 512 \<and> v \<noteq> [] \<and> TrimSpace v = v) (co_ErrorMessage input)"
    using assms(1) no_at_no_credentials
    by (auto simp: normalizeCompleteBuildRun_def TrimSpace_blank_text opt_all_def TrimSpace_idem Let_def split: if_splits)
  have texts: "list_all (opt_all pg_text_ok) [co_ImageRef input, co_ImageDigest input, co_ExternalUrl input, co_ErrorMessage input]"
    using ref digest visible_image_ref digest_text assms(2) by (auto simp: opt_all_def split: option.splits)
  have "opt_all (\<lambda>v. Trim v '' '' \<noteq> [] \<and> length (runes v) \<le> 512 \<and> no_blanks v) (co_ImageRef input)"
    using ref visible_image_ref by (auto simp: opt_all_def split: option.splits)
  moreover have "opt_all (full_match sha256_pattern) (co_ImageDigest input)"
    using digest by (simp add: imageDigestPattern_def sha256_pattern_def)
  moreover have "opt_all (\<lambda>v. Trim v '' '' \<noteq> [] \<and> HasPrefix v ''https://'' \<and> \<not> HasControlCharacter v \<and> \<not> has_credentials v) (co_ExternalUrl input)"
    using url assms(2) trimmed_not_blank by (auto simp: opt_all_def split: option.splits)
  moreover have "opt_all (\<lambda>v. Trim v '' '' \<noteq> [] \<and> length (runes v) \<le> 512 \<and> \<not> HasControlCharacter v) (co_ErrorMessage input)"
    using message assms(2) trimmed_not_blank le_trans [OF runes_length] by (auto simp: opt_all_def split: option.splits)
  moreover have "co_Status input \<in> {''dispatched'', ''running'', ''succeeded'', ''failed'', ''cancelled''}"
    "\<not> (co_Status input = ''succeeded'' \<and> co_ImageRef input = None)"
    using status by auto
  ultimately show ?thesis using texts by (simp only: build_result_check_def simp_thms if_False not_True_eq_False)
qed

theorem validated_report_accepted_witness: "build_result_check sample_completion = None"
proof (rule validated_report_accepted [OF sample_report_checks(2)])
  have "pg_text_ok ''https://github.com/acme/shop/actions/runs/7''" "\<not> HasControlCharacter ''https://github.com/acme/shop/actions/runs/7''"
    by code_simp+
  then show "pg_text_ok v \<and> \<not> HasControlCharacter v"
    if "co_ExternalUrl sample_completion = Some v \<or> co_ErrorMessage sample_completion = Some v" for v
    using that by (auto simp: sample_completion_def)
qed

text \<open>Underscores are wildcards: the repository of a build is used as a pattern, in which an underscore matches any character, so that a
  finished build of \<open>acme/my_app\<close> also deploys its image to the applications of \<open>acme/my-app\<close>.\<close>

theorem underscore_matches_other_repository:
  "names_repository (Some ''https://github.com/acme/my-app.git'') ''acme/my_app''"
  unfolding names_repository_def sql_like_def by code_simp

end
