(* ===== verification/Github_App_Proofs.thy ===== *)
theory Github_App_Proofs
  imports Github_App
begin

text \<open>
  What the client of the GitHub API sends: where requests go, what a dispatched workflow consists of, and
  that a listing returns the items of all pages.
\<close>

subsection \<open>Where requests go\<close>

definition to_github :: "client_request \<Rightarrow> bool" where
  "to_github q \<longleftrightarrow> (case Parse (creq_URL q) of
     None \<Rightarrow> False
   | Some u \<Rightarrow> url_Scheme u = ''https'' \<and> url_Host u = ''api.github.com'' \<and> \<not> url_HasUser u)"

lemma Cut_prefix: "c \<notin> set p \<Longrightarrow> Cut (p @ s) c = (case Cut s c of (h, t, found) \<Rightarrow> (p @ h, t, found))"
  by (induction p) (auto split: prod.splits)

lemma Cut_slash: "c \<noteq> CHR ''/'' \<Longrightarrow> \<exists>h t found. Cut (CHR ''/'' # s) c = (CHR ''/'' # h, t, found)"
  by (simp split: prod.splits)

lemma api_authority: "parseAuthority ''api.github.com'' = Some (False, ''api.github.com'')"
  by code_simp

lemma getScheme_letters:
  "list_all (\<lambda>c. r_upper (byte c) \<or> r_lower (byte c)) p \<Longrightarrow> seen @ p \<noteq> [] \<Longrightarrow>
   getScheme raw seen (p @ CHR '':'' # s) = Scheme (seen @ p) s"
  by (induction p arbitrary: seen) (auto simp: r_upper_def r_lower_def is_digit_def)

lemma api_scheme: "getScheme raw [] (''https'' @ CHR '':'' # s) = Scheme ''https'' s"
  by (subst getScheme_letters) (simp_all add: r_lower_def)

lemma Parse_api:
  assumes "Parse (defaultGitHubAPIURL @ ''/'' @ s) = Some u"
  shows "url_Scheme u = ''https'' \<and> url_Host u = ''api.github.com'' \<and> \<not> url_HasUser u"
proof -
  obtain h frag found where h: "Cut (defaultGitHubAPIURL @ ''/'' @ s) (CHR ''#'') = (''https://api.github.com/'' @ h, frag, found)"
    using Cut_slash [of "CHR ''#''" s] Cut_prefix [of "CHR ''#''" defaultGitHubAPIURL "''/'' @ s"]
    by (auto simp: defaultGitHubAPIURL_def)
  obtain h' query found' where h': "Cut (''//api.github.com/'' @ h) (CHR ''?'') = (''//api.github.com/'' @ h', query, found')"
    using Cut_slash [of "CHR ''?''" h] Cut_prefix [of "CHR ''?''" "''//api.github.com''" "''/'' @ h"] by auto
  have low: "ToLower ''https'' = ''https''" by code_simp
  have "\<exists>v. parse_url (''https'' @ CHR '':'' # ''//api.github.com/'' @ h) = Some v \<and> (\<exists>f. u = v\<lparr>url_Fragment := f\<rparr>)"
    using assms by (auto simp: Parse_def h [simplified] split: if_splits option.splits) (metis url.surjective url.update_convs(7))+
  then show ?thesis
    unfolding parse_url_def api_scheme
    by (auto simp: h' [simplified] low parse_hierarchy_def api_authority empty_url_def Let_def
        split: if_splits option.splits)
qed

definition api_sends :: "(client_request \<Rightarrow> bool) \<Rightarrow> 'a api_run \<Rightarrow> bool" where
  "api_sends P m \<longleftrightarrow> (\<forall>sent. \<exists>others. snd (run_state m sent) = sent @ others \<and> list_all P others)"

lemma api_sends_return [simp]: "api_sends P (State_Monad.return x)"
  by (simp add: api_sends_def State_Monad.return_def)

lemma api_sends_fail [simp]: "api_sends P (api_fail e)"
  by (simp add: api_fail_def)

lemma api_sends_bind: "api_sends P m \<Longrightarrow> (\<And>x. api_sends P (f x)) \<Longrightarrow> api_sends P (State_Monad.bind m f)"
  unfolding api_sends_def State_Monad.bind_def
  by (auto split: prod.splits) (metis append.assoc list_all_append snd_conv)

lemma api_sends_then: "api_sends P m \<Longrightarrow> (\<And>x. api_sends P (f x)) \<Longrightarrow> api_sends P (api_then m f)"
  unfolding api_then_def by (intro api_sends_bind) (auto split: sum.splits)

lemma api_sends_send: "(Parse (creq_URL q) \<noteq> None \<Longrightarrow> P q) \<Longrightarrow> api_sends P (send c q)"
  by (auto simp: send_def api_sends_def State_Monad.return_def split: option.splits)

lemma api_sends_state: "api_sends P (State (\<lambda>sent. (f sent, sent)))"
  by (simp add: api_sends_def)

lemma send_to_github:
  "ac_baseURL c = defaultGitHubAPIURL \<Longrightarrow> api_sends to_github (send c \<lparr>creq_Method = m, creq_URL = ac_baseURL c @ ''/'' @ s, creq_Header = hs, creq_Body = b\<rparr>)"
  using Parse_api [of s] by (intro api_sends_send) (auto simp: to_github_def)

lemma post_to_github:
  "ac_baseURL c = defaultGitHubAPIURL \<Longrightarrow> api_sends to_github (postJSONBody c dec zero (CHR ''/'' # s) bearer body)"
  using send_to_github [of c _ s] unfolding postJSONBody_def by (intro api_sends_then) auto

lemma get_to_github: "ac_baseURL c = defaultGitHubAPIURL \<Longrightarrow> api_sends to_github (getJSON c dec zero (CHR ''/'' # s) token)"
  using send_to_github [of c _ s] unfolding getJSON_def by (intro api_sends_then) auto

lemma token_to_github: "ac_baseURL c = defaultGitHubAPIURL \<Longrightarrow> api_sends to_github (createInstallationToken c i scope)"
  using post_to_github [of c _ _ "''app/installations/'' @ i @ ''/access_tokens''"]
  unfolding createInstallationToken_def
  by (intro api_sends_bind api_sends_then) (auto simp: api_sends_state)

lemma calls_to_github:
  assumes "ac_baseURL c = defaultGitHubAPIURL"
  shows "api_sends to_github (DispatchWorkflow c inst repository workflow ref inputs)"
    and "api_sends to_github (ListRepositoryContents c inst repository dir ref)"
    and "api_sends to_github (GetRepositoryFile c inst repository file ref)"
    and "api_sends to_github (GetRepositoryCommit c inst repository ref)"
    and "api_sends to_github (InstallationToken c inst repositoryID)"
  using assms
  by (auto simp: DispatchWorkflow_def ListRepositoryContents_def GetRepositoryFile_def GetRepositoryCommit_def InstallationToken_def
      installationToken_def Let_def intro!: api_sends_then token_to_github post_to_github get_to_github split: option.splits)

text \<open>C26. Host confinement: a client made by \<open>NewAppClient\<close> sends the requests of a workflow dispatch, of reading contents,
  files and commits, and of creating tokens to \<open>https://api.github.com\<close> and nowhere else, whatever text its arguments have, so
  that its tokens reach no other host.\<close>

theorem requests_to_github:
  assumes "ac_baseURL c = defaultGitHubAPIURL"
  shows "api_sends to_github (DispatchWorkflow c inst repository workflow ref inputs)
    \<and> api_sends to_github (ListRepositoryContents c inst repository dir ref)
    \<and> api_sends to_github (GetRepositoryFile c inst repository file ref)
    \<and> api_sends to_github (GetRepositoryCommit c inst repository ref)
    \<and> api_sends to_github (InstallationToken c inst repositoryID)"
  using calls_to_github [OF assms] by blast

definition sample_client :: app_client where
  "sample_client = \<lparr>ac_appID = ''7'', ac_baseURL = defaultGitHubAPIURL, ac_sign = (\<lambda>_. Inr ''signature''), ac_now = (\<lambda>_. 1700000000),
     ac_do = (\<lambda>_ _. Inl (Errorf ''timeout'')), ac_url_error = Errorf, ac_json_error = Errorf, ac_base64_error = Errorf\<rparr>"

theorem requests_to_github_witness:
  "api_sends to_github (DispatchWorkflow sample_client ''12'' ''acme/shop'' ''build.yml?x=/../'' ''main'' [])"
  using requests_to_github [of sample_client] by (simp add: sample_client_def)

text \<open>The exception are the listings: a page link is accepted when it merely starts with the text of the API's address, so
  that a link to a host whose name starts with \<open>api.github.com\<close> makes the next request, with the token, go to that host.\<close>

theorem page_link_leaves_github:
  fixes link :: string
  defines "link \<equiv> ''<https://api.github.com.evil.example/x>; '' @ next_rel"
  shows "map_option url_Host (Parse (defaultGitHubAPIURL @ nextGitHubPage link)) = Some ''api.github.com.evil.example''"
  unfolding link_def by code_simp

subsection \<open>Listings\<close>

text \<open>The answers to a listing that starts with the given path when \<open>n\<close> requests have been sent: the items of its pages.\<close>

definition page_request :: "app_client \<Rightarrow> string \<Rightarrow> string \<Rightarrow> client_request" where
  "page_request c path token =
     \<lparr>creq_Method = ''GET'', creq_URL = ac_baseURL c @ path, creq_Header = common_headers token, creq_Body = None\<rparr>"

fun serves_pages :: "app_client \<Rightarrow> (json \<Rightarrow> 'a list option) \<Rightarrow> string \<Rightarrow> string \<Rightarrow> nat \<Rightarrow> 'a list list \<Rightarrow> bool" where
  "serves_pages c dec token path n [] \<longleftrightarrow> path = []"
| "serves_pages c dec token path n (items # pss) \<longleftrightarrow>
     path \<noteq> [] \<and> Parse (ac_baseURL c @ path) \<noteq> None \<and>
     (case ac_do c n (page_request c path token) of
        Inl _ \<Rightarrow> False
      | Inr response \<Rightarrow>
          decodeGitHubResponse c dec [] response = Inr items \<and>
          serves_pages c dec token (nextGitHubPage (cres_header response ''Link'')) (Suc n) pss)"

lemma run_getJSON:
  "run_state (getJSON c dec zero path token) sent =
    (if Parse (ac_baseURL c @ path) = None then (Inl (ac_url_error c (ac_baseURL c @ path)), sent)
     else (case ac_do c (length sent) (page_request c path token) of
        Inl err \<Rightarrow> Inl (Errorf (''call github api: '' @ err_text err))
      | Inr response \<Rightarrow> try_bind (decodeGitHubResponse c dec zero response) (\<lambda>v.
          Inr (v, nextGitHubPage (cres_header response ''Link''))), sent @ [page_request c path token]))"
  unfolding getJSON_def api_then_def send_def page_request_def [symmetric]
  by (auto simp: State_Monad.bind_def State_Monad.return_def page_request_def split: option.splits sum.splits)

lemma pages_of_served: "serves_pages c dec token path (length sent) pss \<Longrightarrow> \<exists>sent'. pages c dec token path sent = Some (Inr (concat pss), sent')"
proof (induction pss arbitrary: path sent)
  case Nil
  then show ?case by (simp add: pages.simps)
next
  case (Cons items pss)
  then obtain response where page: "path \<noteq> []" "Parse (ac_baseURL c @ path) \<noteq> None" "ac_do c (length sent) (page_request c path token) = Inr response"
      "decodeGitHubResponse c dec [] response = Inr items"
    and others: "serves_pages c dec token (nextGitHubPage (cres_header response ''Link'')) (length (sent @ [page_request c path token])) pss"
    by (auto simp: page_request_def split: sum.splits)
  from Cons.IH [OF others] page show ?case
    by (auto simp: pages.simps [of c dec token path] run_getJSON)
qed

lemma served_of_pages:
  "pages c dec token path sent = Some y \<Longrightarrow>
   (\<forall>xs. fst y = Inr xs \<longrightarrow> (\<exists>pss. serves_pages c dec token path (length sent) pss \<and> xs = concat pss))"
proof (erule pages.raw_induct [rotated], intro allI impI)
  fix pages :: "app_client \<Rightarrow> (json \<Rightarrow> 'a list option) \<Rightarrow> string \<Rightarrow> string \<Rightarrow> client_request list \<Rightarrow> ((go_error + 'a list) \<times> client_request list) option"
    and c dec token path sent y xs
  assume IH: "\<And>c dec token path sent y. pages c dec token path sent = Some y \<Longrightarrow>
      \<forall>xs. fst y = Inr xs \<longrightarrow> (\<exists>pss. serves_pages c dec token path (length sent) pss \<and> xs = concat pss)"
    and eq: "(if path = [] then Some (Inr [], sent)
        else case run_state (getJSON c dec [] path token) sent of
             (Inl err, sent') \<Rightarrow> Some (Inl err, sent')
             | (Inr (items, successor), sent') \<Rightarrow>
                 Option.bind (pages c dec token successor sent')
                 (\<lambda>(r, sent''). Some (try_bind r (\<lambda>others. Inr (items @ others)), sent''))) = Some y"
    and xs: "fst y = Inr xs"
  show "\<exists>pss. serves_pages c dec token path (length sent) pss \<and> xs = concat pss"
  proof (cases "path = []")
    case True
    then have "serves_pages c dec token path (length sent) [] \<and> xs = concat []" using eq xs by auto
    then show ?thesis by blast
  next
    case False
    obtain items successor sent' r sent'' others where g: "run_state (getJSON c dec [] path token) sent = (Inr (items, successor), sent')"
      and "pages c dec token successor sent' = Some (r, sent'')" "r = Inr others" and cat: "xs = items @ others"
      using eq xs False by (auto simp: try_bind_eq_Inr_iff bind_eq_Some_conv split: prod.splits sum.splits)
    then obtain pss where pss: "serves_pages c dec token successor (length sent') pss" "others = concat pss" using IH by (metis fst_conv)
    from g cat False pss have "serves_pages c dec token path (length sent) (items # pss) \<and> xs = concat (items # pss)"
      by (auto simp: run_getJSON try_bind_eq_Inr_iff split: if_splits sum.splits)
    then show ?thesis by blast
  qed
qed


end
