(* ===== verification/Github_Connector_Proofs.thy ===== *)
theory Github_Connector_Proofs
  imports Github_Connector Go_Regexp_Lang Go_Utf8
begin

text \<open>
  The configuration of a GitHub connector is normalized twice on its way to the builds: the second pass never
  fails on what the first one accepted, and every repository that comes out is well formed.
\<close>

subsection \<open>Trimming\<close>

lemma trim_list_infix: "\<exists>a b. xs = a @ trim_list p xs @ b"
proof -
  have "xs = takeWhile p xs @ rev (dropWhile p (rev (dropWhile p xs))) @ rev (takeWhile p (rev (dropWhile p xs)))"
    unfolding rev_append [symmetric] takeWhile_dropWhile_id by simp
  then show ?thesis unfolding trim_list_def by blast
qed

lemma TrimSpace_infix: "\<exists>a b. s = a @ TrimSpace s @ b"
proof -
  obtain a b where "chunks s = a @ trim_list (\<lambda>k. IsSpace (fst k)) (chunks s) @ b" using trim_list_infix by blast
  then have "chunk_bytes (chunks s) = chunk_bytes a @ TrimSpace s @ chunk_bytes b"
    unfolding TrimSpace_def by (metis concat_append map_append)
  then show ?thesis by auto
qed

lemma Trim_infix: "\<exists>a b. s = a @ Trim (TrimSpace s) cs @ b"
  using TrimSpace_infix [of s] trim_list_infix [of "TrimSpace s"] unfolding Trim_def by (metis append.assoc)

lemma TrimSpace_visible_ends:
  assumes "ascii s" "s \<noteq> []" "\<not> IsSpace (byte (hd s))" "\<not> IsSpace (byte (last s))"
  shows "TrimSpace s = s"
  unfolding TrimSpace_ascii [OF assms(1)] using assms(2-4) by (intro trim_list_id)

lemma validBuildPath_infix: "validBuildPath (a @ t @ b) \<Longrightarrow> t \<noteq> [] \<Longrightarrow> validBuildPath t"
proof -
  assume v: "validBuildPath (a @ t @ b)" and t: "t \<noteq> []"
  have "Contains (a @ t @ b) p" if "Contains t p" for p
    using that unfolding Contains_iff by (metis append.assoc)
  then show ?thesis using v t by (auto simp: validBuildPath_def ContainsAny_def)
qed

lemma normalizePathFilters_valid:
  assumes "list_all validBuildPath vs"
  shows "list_all validBuildPath (normalizePathFilters vs)"
proof -
  have "validBuildPath (Trim (TrimSpace v) ''/'')" if "v \<in> set vs" "Trim (TrimSpace v) ''/'' \<noteq> []" for v
    using that assms Trim_infix [of v "''/''"] validBuildPath_infix by (metis list_all_iff)
  then show ?thesis by (auto simp: normalizePathFilters_def list_all_iff set_first_seen)
qed

subsection \<open>The second normalization\<close>

lemma repository_chars: "validRepository v \<Longrightarrow> v \<noteq> [] \<and> (\<forall>c\<in>set v. byte c < 128 \<and> \<not> IsSpace (byte c))"
proof -
  assume v: "validRepository v"
  let ?P = "\<lambda>r. r_alnum r \<or> one_of ''_.-'' r"
  have acc: "accepts repositoryPattern (then_words {rs. rs \<noteq> [] \<and> list_all ?P rs} (then_words {map byte ''/''}
      (then_words {rs. rs \<noteq> [] \<and> list_all ?P rs} {[]})))"
    unfolding repositoryPattern_def by (intro accepts_rules)
  obtain xs ys where xy: "runes v = xs @ 47 # ys" "list_all ?P xs" "list_all ?P ys"
    using v unfolding validRepository_def full_match_accepts [OF acc] by (auto simp: then_words_def)
  have "?P r \<or> r = 47" if "r \<in> set (runes v)" for r using that xy by (auto simp: list_all_iff)
  then have r: "r < 128 \<and> \<not> IsSpace r" if "r \<in> set (runes v)" for r
    using that by (fastforce simp: class_defs IsSpace_ascii)
  then have a: "ascii v" using runes_below_128 by blast
  have "runes v \<noteq> []" using xy by simp
  then show ?thesis using r unfolding runes_ascii [OF a] by auto
qed

lemma numeric_chars: "validNumericID v \<Longrightarrow> v \<noteq> [] \<and> (\<forall>c\<in>set v. byte c < 128 \<and> \<not> IsSpace (byte c))"
proof -
  assume v: "validNumericID v"
  then have p: "v \<noteq> []" "\<forall>r\<in>set (runes v). r_digit r"
    by (simp_all add: validNumericID_def numericIDPattern_def full_match_plus)
  then have r: "r < 128 \<and> \<not> IsSpace r" if "r \<in> set (runes v)" for r
    using that by (fastforce simp: class_defs IsSpace_ascii)
  then have a: "ascii v" using runes_below_128 by blast
  show ?thesis using r p(1) unfolding runes_ascii [OF a] by auto
qed

lemma TrimSpace_visible:
  assumes "s \<noteq> []" "\<forall>c\<in>set s. byte c < 128" "\<not> IsSpace (byte (hd s))" "\<not> IsSpace (byte (last s))"
  shows "TrimSpace s = s"
  using assms by (intro TrimSpace_visible_ends) (auto simp: ascii_def)

lemma if_Some_None: "(if b then Some e else x) = None \<longleftrightarrow> \<not> b \<and> x = None"
  by simp

lemma check_repository_None:
  "check_repository r = None \<longleftrightarrow> repo_Repository r \<noteq> [] \<and> repo_CredentialName r \<noteq> [] \<and> repo_ExternalRef r \<noteq> []
     \<and> validRepository (repo_Repository r) \<and> (repo_InstallationID r = [] \<or> validNumericID (repo_InstallationID r))
     \<and> (repo_RepositoryID r = [] \<or> validNumericID (repo_RepositoryID r)) \<and> (repo_ApplicationID r = [] \<or> validUUID (repo_ApplicationID r))
     \<and> validBranch (repo_Branch r) \<and> validWorkflowID (repo_WorkflowID r) \<and> validBuildPath (repo_BuildContext r)
     \<and> validBuildPath (repo_Dockerfile r) \<and> (repo_ImageRef r = [] \<or> connector_validImageRef (repo_ImageRef r))
     \<and> (repo_BuildMatrix r = [] \<or> validBuildMatrix (repo_BuildMatrix r)) \<and> (repo_Runner r = [] \<or> validRunner (repo_Runner r))
     \<and> list_all validBuildPath (repo_PathFilters r)"
  unfolding check_repository_def if_Some_None by (simp only: de_Morgan_conj de_Morgan_disj not_not simp_thms conj_assoc)

definition settled :: "gh_repository \<Rightarrow> bool" where
  "settled r \<longleftrightarrow> trim_repository r = r\<lparr>repo_PathFilters := normalizePathFilters (repo_PathFilters r)\<rparr>
     \<and> default_repository r = r \<and> NormalizeCredentialStatus (repo_Status r) = Some (repo_Status r)
     \<and> repo_CredentialType r \<noteq> [] \<and> check_repository r = None"

lemma settled_again:
  assumes "settled r"
  shows "normalizeRepository r = Inr (r\<lparr>repo_PathFilters := normalizePathFilters (repo_PathFilters r)\<rparr>)"
    and "check_repository (r\<lparr>repo_PathFilters := normalizePathFilters (repo_PathFilters r)\<rparr>) = None"
proof -
  let ?r = "r\<lparr>repo_PathFilters := normalizePathFilters (repo_PathFilters r)\<rparr>"
  have "default_repository ?r = (default_repository r)\<lparr>repo_PathFilters := normalizePathFilters (repo_PathFilters r)\<rparr>"
    by (simp add: default_repository_def githubAppExternalRef_def)
  then have d: "default_repository (trim_repository r) = ?r" using assms by (simp add: settled_def)
  have "list_all validBuildPath (normalizePathFilters (repo_PathFilters r))"
    using assms by (intro normalizePathFilters_valid) (simp add: settled_def check_repository_None)
  then have "check_repository ?r = None" using assms by (simp add: settled_def check_repository_None)
  then show "check_repository ?r = None" "normalizeRepository r = Inr ?r"
    using assms d by (simp_all add: normalizeRepository_def settled_def or_default_def)
qed

lemma literals_trimmed:
  "TrimSpace ''main'' = ''main''" "TrimSpace DefaultBuildWorkflowID = DefaultBuildWorkflowID" "TrimSpace ''.'' = ''.''"
  "TrimSpace ''Dockerfile'' = ''Dockerfile''" "TrimSpace ''github_app_installation'' = ''github_app_installation''"
  by code_simp+

lemma visible_letters: "\<not> IsSpace 103" "\<not> IsSpace 112"
  by code_simp+

lemma credential_name_trimmed:
  assumes "validRepository v"
  shows "TrimSpace (v @ '' GitHub App'') = v @ '' GitHub App''"
  using repository_chars [OF assms] visible_letters by (intro TrimSpace_visible) auto

lemma external_ref_trimmed:
  assumes "validRepository (repo_Repository r)" "repo_InstallationID r = [] \<or> validNumericID (repo_InstallationID r)"
  shows "TrimSpace (githubAppExternalRef r) = githubAppExternalRef r"
  using repository_chars [OF assms(1)] numeric_chars [of "repo_InstallationID r"] assms(2)
    visible_letters by (intro TrimSpace_visible) (auto simp: githubAppExternalRef_def)

lemma status_settled: "NormalizeCredentialStatus s = Some t \<Longrightarrow> NormalizeCredentialStatus t = Some t"
proof -
  assume "NormalizeCredentialStatus s = Some t"
  then have "t = ''active'' \<or> t = ''rotating'' \<or> t = ''revoked'' \<or> t = ''unknown''"
    by (auto simp: NormalizeCredentialStatus_def Let_def split: if_splits)
  moreover have "NormalizeCredentialStatus ''active'' = Some ''active''" "NormalizeCredentialStatus ''rotating'' = Some ''rotating''"
    "NormalizeCredentialStatus ''revoked'' = Some ''revoked''" "NormalizeCredentialStatus ''unknown'' = Some ''unknown''"
    by code_simp+
  ultimately show ?thesis by auto
qed

lemma or_default_trimmed: "TrimSpace d = d \<Longrightarrow> TrimSpace (or_default (TrimSpace v) d) = or_default (TrimSpace v) d"
  by (simp add: or_default_def TrimSpace_idem)

lemma normalized_fields:
  assumes "normalizeRepository r = Inr r1"
  obtains t st where "t = default_repository (trim_repository r)" "NormalizeCredentialStatus (repo_Status t) = Some st"
    "r1 = t\<lparr>repo_Status := st, repo_CredentialType := or_default (repo_CredentialType t) ''github_app_installation''\<rparr>"
    "check_repository r1 = None"
  using assms that by (auto simp: normalizeRepository_def Let_def split: option.splits)

lemma trim_repository_settled:
  assumes "TrimSpace (repo_Repository r) = repo_Repository r"
    "TrimSpace (repo_InstallationID r) = repo_InstallationID r"
    "TrimSpace (repo_ApplicationID r) = repo_ApplicationID r"
    "TrimSpace (repo_ApplicationName r) = repo_ApplicationName r"
    "TrimSpace (repo_RepositoryID r) = repo_RepositoryID r"
    "TrimSpace (repo_Branch r) = repo_Branch r"
    "TrimSpace (repo_WorkflowID r) = repo_WorkflowID r"
    "TrimSpace (repo_BuildContext r) = repo_BuildContext r"
    "TrimSpace (repo_Dockerfile r) = repo_Dockerfile r"
    "TrimSpace (repo_ImageRef r) = repo_ImageRef r"
    "TrimSpace (repo_BuildMatrix r) = repo_BuildMatrix r"
    "TrimSpace (repo_Runner r) = repo_Runner r"
    "TrimSpace (repo_CredentialName r) = repo_CredentialName r"
    "TrimSpace (repo_ExternalRef r) = repo_ExternalRef r"
    "TrimSpace (repo_CredentialType r) = repo_CredentialType r"
  shows "trim_repository r = r\<lparr>repo_PathFilters := normalizePathFilters (repo_PathFilters r)\<rparr>"
  using assms by (cases r) (simp add: trim_repository_def)

lemma default_repository_settled:
  assumes "repo_Branch r \<noteq> []" "repo_WorkflowID r \<noteq> []" "repo_BuildContext r \<noteq> []" "repo_Dockerfile r \<noteq> []"
    "repo_CredentialName r \<noteq> []" "repo_ExternalRef r \<noteq> []"
  shows "default_repository r = r"
  using assms by (cases r) (simp add: default_repository_def or_default_def)

lemma or_default_nonempty: "d \<noteq> [] \<Longrightarrow> or_default v d \<noteq> []"
  by (simp add: or_default_def)

lemma normalized_settled:
  assumes "normalizeRepository r = Inr r1" "i = [] \<or> validNumericID i"
  shows "settled (with_installation i r1)"
proof -
  obtain t st where t: "t = default_repository (trim_repository r)" "NormalizeCredentialStatus (repo_Status t) = Some st"
    and r1: "r1 = t\<lparr>repo_Status := st, repo_CredentialType := or_default (repo_CredentialType t) ''github_app_installation''\<rparr>"
    and ok: "check_repository r1 = None" using normalized_fields [OF assms(1)] by blast
  let ?r = "with_installation i r1"
  note valid = ok [unfolded check_repository_None]
  have repo: "validRepository (repo_Repository r1)" using valid by simp
  have cred: "TrimSpace (repo_CredentialName r1) = repo_CredentialName r1"
    using credential_name_trimmed [OF repo] by (simp add: r1 t(1) default_repository_def trim_repository_def or_default_trimmed)
  have "TrimSpace (githubAppExternalRef (trim_repository r)) = githubAppExternalRef (trim_repository r)"
    using valid by (intro external_ref_trimmed) (simp_all add: r1 t(1) default_repository_def)
  then have ext: "TrimSpace (repo_ExternalRef r1) = repo_ExternalRef r1"
    by (simp add: r1 t(1) default_repository_def trim_repository_def or_default_trimmed githubAppExternalRef_def)
  have inst: "TrimSpace (repo_InstallationID ?r) = repo_InstallationID ?r"
    using assms(2) numeric_chars [of i] TrimSpace_visible [of i]
    by (auto simp: with_installation_def r1 t(1) default_repository_def trim_repository_def TrimSpace_idem)
  have "check_repository ?r = None" using valid assms(2) by (auto simp: check_repository_None with_installation_def)
  moreover have "trim_repository ?r = ?r\<lparr>repo_PathFilters := normalizePathFilters (repo_PathFilters ?r)\<rparr>"
  proof (rule trim_repository_settled)
    show "TrimSpace (repo_CredentialName ?r) = repo_CredentialName ?r" "TrimSpace (repo_ExternalRef ?r) = repo_ExternalRef ?r"
      using cred ext by (simp_all add: with_installation_def)
  qed (use inst in \<open>simp_all add: with_installation_def r1 t(1) default_repository_def trim_repository_def or_default_trimmed
        literals_trimmed TrimSpace_idem\<close>)
  moreover have "default_repository ?r = ?r"
  proof (rule default_repository_settled)
    show "repo_CredentialName ?r \<noteq> []" "repo_ExternalRef ?r \<noteq> []" using valid by (simp_all add: with_installation_def)
  qed (simp_all add: with_installation_def r1 t(1) default_repository_def or_default_nonempty DefaultBuildWorkflowID_def)
  moreover have "NormalizeCredentialStatus (repo_Status ?r) = Some (repo_Status ?r)" "repo_CredentialType ?r \<noteq> []"
    using status_settled [OF t(2)] by (simp_all add: with_installation_def r1 or_default_def)
  ultimately show ?thesis by (simp add: settled_def)
qed

subsection \<open>The repositories of a configuration\<close>

lemma try_map_all: "(\<And>x. x \<in> set xs \<Longrightarrow> f x = Inr (g x)) \<Longrightarrow> try_map f xs = Inr (map g xs)"
  by (induction xs) simp_all

lemma try_map_Inr: "try_map f xs = Inr ys \<Longrightarrow> y \<in> set ys \<Longrightarrow> \<exists>x\<in>set xs. f x = Inr y"
  by (induction xs arbitrary: ys) (auto simp: try_bind_eq_Inr_iff)

lemma unique_repositories_spec:
  "set (unique_repositories seen rs) \<subseteq> set rs"
  "distinct (map repositoryKey (unique_repositories seen rs))
     \<and> set (map repositoryKey (unique_repositories seen rs)) = set (map repositoryKey rs) - set seen"
  by (induction rs arbitrary: seen) auto


definition sample_config_json :: json where
  "sample_config_json = JObj [(''installation_id'', JStr ''42''), (''repositories'', JArr [
     JObj [(''repository'', JStr '' acme/shop''), (''path_filters'', JArr [JStr ''/ api /''])]])]"

definition sample_repository :: gh_repository where
  "sample_repository =
     \<lparr>repo_InstallationID = ''42'', repo_ApplicationID = [], repo_ApplicationName = [], repo_RepositoryID = [],
      repo_Repository = ''acme/shop'', repo_Branch = ''main'', repo_WorkflowID = DefaultBuildWorkflowID, repo_BuildContext = ''.'',
      repo_Dockerfile = ''Dockerfile'', repo_ImageRef = [], repo_BuildMatrix = [], repo_Runner = [], repo_PathFilters = ['' api ''],
      repo_CredentialName = ''acme/shop GitHub App'', repo_ExternalRef = ''github-app:42:acme/shop'',
      repo_CredentialType = ''github_app_installation'', repo_Status = ''active'', repo_Permissions = [], repo_Usages = []\<rparr>"

lemma sample_config_parsed:
  "ParseConfig json_err (Marshal sample_config_json) = Inr \<lparr>cfg_InstallationID = ''42'', cfg_Repositories = [sample_repository]\<rparr>"
proof -
  have "plain_json sample_config_json" by code_simp
  moreover have "\<exists>r. decode_config sample_config_json = Some \<lparr>cfg_InstallationID = ''42'', cfg_Repositories = [r]\<rparr>
      \<and> normalizeRepository (with_installation ''42'' r) = Inr sample_repository"
    by (intro exI [of _ "sample_repository\<lparr>repo_InstallationID := [], repo_Repository := '' acme/shop'', repo_Branch := [], repo_WorkflowID := [],
         repo_BuildContext := [], repo_Dockerfile := [], repo_PathFilters := [''/ api /''], repo_CredentialName := [],
         repo_ExternalRef := [], repo_CredentialType := [], repo_Status := []\<rparr>"] conjI; code_simp)
  moreover have "TrimSpace ''42'' = ''42''" "validNumericID ''42''" by code_simp+
  ultimately show ?thesis by (auto simp: ParseConfig_def Marshal_roundtrip Let_def try_bind_def)
qed


text \<open>Two different build targets of a repository can have the same key, and then the second one is dropped:
  path filters are joined with a comma that a filter may contain itself.\<close>

theorem repositoryKey_collision:
  "let a = sample_repository\<lparr>repo_PathFilters := [''a'', ''b'']\<rparr>; b = sample_repository\<lparr>repo_PathFilters := [''a,b'']\<rparr> in
   check_repository a = None \<and> check_repository b = None \<and> a \<noteq> b \<and> unique_repositories [] [a, b] = [a]"
proof -
  have "check_repository (sample_repository\<lparr>repo_PathFilters := [''a'', ''b'']\<rparr>) = None"
    "check_repository (sample_repository\<lparr>repo_PathFilters := [''a,b'']\<rparr>) = None" by code_simp+
  moreover have "sample_repository\<lparr>repo_PathFilters := [''a'', ''b'']\<rparr> \<noteq> sample_repository\<lparr>repo_PathFilters := [''a,b'']\<rparr>"
    by (simp add: sample_repository_def)
  moreover have "repositoryKey (sample_repository\<lparr>repo_PathFilters := [''a'', ''b'']\<rparr>)
      = repositoryKey (sample_repository\<lparr>repo_PathFilters := [''a,b'']\<rparr>)" by code_simp
  ultimately show ?thesis by (simp add: Let_def)
qed

end
