(* ===== verification/Http_Transaction.thy ===== *)
theory Http_Transaction
  imports Http_Base
begin

text \<open>
  Transactions: \<^verbatim>\<open>s.tx.Begin\<close>, statements, and \<^verbatim>\<open>tx.Commit\<close>, with the deferred \<^verbatim>\<open>tx.Rollback\<close> on every other way out.
  The time of the transaction is the time of its start. Each of the interactions may be refused, or be
  carried out while its answer is lost; a transaction whose end the program does not know to be committed
  is rolled back when its connection is closed, except that a commit may succeed although its answer is lost.
\<close>

definition no_op :: "unit stmt" where
  "no_op db = Inr ((), db)"

definition tx_serve :: "http_env \<Rightarrow> 'a stmt \<Rightarrow> (go_error + 'a) sys_run" where
  "tx_serve h q = on_world (db_exec (h_runner h\<lparr>db_ticks := \<lambda>_. 0\<rparr>) q)"

definition current_store :: "store sys_run" where
  "current_store = State (\<lambda>s. (sys_store s, s))"

definition rollback_to :: "store \<Rightarrow> unit sys_run" where
  "rollback_to saved = on_world (State (\<lambda>w. ((), w\<lparr>w_store := saved\<lparr>clock := clock (w_store w)\<rparr>\<rparr>)))"

definition Commit :: "http_env \<Rightarrow> store \<Rightarrow> go_error option sys_run" where
  "Commit h saved = do {
     n \<leftarrow> on_world next_step;
     (case db_outcomes (h_runner h) n of
        Served \<Rightarrow> State_Monad.return None
      | Lost err \<Rightarrow> State_Monad.return (Some err)
      | Refused err \<Rightarrow> do { rollback_to saved; State_Monad.return (Some err) })
   }"

text \<open>
  The body returns its result and whether it goes on to commit; \<open>not_begun\<close> and \<open>not_committed\<close> give the
  results on an error of the first and of the last interaction.
\<close>

definition transaction ::
  "http_env \<Rightarrow> (go_error \<Rightarrow> 'r) \<Rightarrow> (go_error \<Rightarrow> 'r \<Rightarrow> 'r) \<Rightarrow> ('r \<times> bool) sys_run \<Rightarrow> 'r sys_run" where
  "transaction h not_begun not_committed body = do {
     b \<leftarrow> serve h no_op;
     (case b of
        Inl err \<Rightarrow> State_Monad.return (not_begun err)
      | Inr _ \<Rightarrow> do {
          saved \<leftarrow> current_store;
          e \<leftarrow> body;
          (if snd e then do {
             c \<leftarrow> Commit h saved;
             State_Monad.return (case c of None \<Rightarrow> fst e | Some err \<Rightarrow> not_committed err (fst e))
           }
           else do { rollback_to saved; State_Monad.return (fst e) })
        })
   }"

subsection \<open>What transactions keep\<close>

definition clock_grows :: "'a sys_run \<Rightarrow> bool" where
  "clock_grows m \<longleftrightarrow> (\<forall>s. clock (sys_store s) \<le> clock (sys_store (snd (run_state m s))))"

lemma rollback_keeps_queue [simp]: "sys_queue (snd (run_state (rollback_to saved) s)) = sys_queue s"
  by (simp add: rollback_to_def run_on_world)

lemma Commit_cases:
  assumes "run_state (Commit h saved) s = (c, s')"
  shows "sys_queue s' = sys_queue s"
    "sys_store s' = sys_store s \<or> (c \<noteq> None \<and> sys_store s' = saved\<lparr>clock := clock (sys_store s)\<rparr>)"
    "served (h_runner h) \<Longrightarrow> c = None"
  using assms by (auto simp: Commit_def run_bind run_on_world next_step_def rollback_to_def served_def split: db_outcome.splits)

lemma clock_grows_rules:
  "clock_grows (State_Monad.return x)" "clock_grows (on_world next_step)"
  "(\<And>db x db'. q db = Inr (x, db') \<Longrightarrow> clock db' = clock db) \<Longrightarrow> clock_grows (tx_serve h q)"
  by (auto simp: clock_grows_def tx_serve_def run_on_world db_exec_def run_bind next_step_def Let_def
      split: db_outcome.splits sum.splits prod.splits)

lemma clock_grows_bind: "clock_grows m \<Longrightarrow> (\<And>x. clock_grows (f x)) \<Longrightarrow> clock_grows (State_Monad.bind m f)"
  unfolding clock_grows_def run_bind by (meson order_trans)

lemma clock_grows_cases:
  "\<And>f g r. (\<And>x. clock_grows (f x)) \<Longrightarrow> (\<And>y. clock_grows (g y)) \<Longrightarrow> clock_grows (case r of Inl x \<Rightarrow> f x | Inr y \<Rightarrow> g y)"
  "\<And>m f r. clock_grows m \<Longrightarrow> (\<And>x. clock_grows (f x)) \<Longrightarrow> clock_grows (case r of None \<Rightarrow> m | Some x \<Rightarrow> f x)"
  "\<And>m n b. clock_grows m \<Longrightarrow> clock_grows n \<Longrightarrow> clock_grows (if b then m else n)"
  by (auto split: sum.splits option.splits)

context http_statements begin

lemma no_op_keeps: "sys_keeps I (serve h no_op)"
  by (rule serve_keeps) (simp add: stmt_keeps_def no_op_def)

lemma tx_serve_keeps: "stmt_keeps I q \<Longrightarrow> sys_keeps I (tx_serve h q)"
  unfolding tx_serve_def by (intro sys_keeps_rules db_exec_statement)

lemma rollback_clock:
  assumes "I saved" "clock saved \<le> clock (sys_store s)"
  shows "I (sys_store (snd (run_state (rollback_to saved) s)))"
  using clock_advances [OF assms(1), of "clock (sys_store s) - clock saved"] assms(2)
  by (simp add: rollback_to_def run_on_world)

lemma transaction_keeps:
  assumes "sys_keeps I body" "clock_grows body"
  shows "sys_keeps I (transaction h not_begun not_committed body)"
  unfolding sys_keeps_def
proof (intro allI impI)
  fix s assume I: "I (sys_store s)"
  obtain b s1 where b: "run_state (serve h no_op) s = (b, s1)" by (metis surj_pair)
  have I1: "I (sys_store s1)" using sys_keepsD [OF no_op_keeps I, of h] b by simp
  obtain e s2 where e: "run_state body s1 = (e, s2)" by (metis surj_pair)
  have I2: "I (sys_store s2)" using sys_keepsD [OF assms(1) I1] e by simp
  have le: "clock (sys_store s1) \<le> clock (sys_store s2)" using assms(2) e unfolding clock_grows_def by (metis snd_conv)
  obtain c s3 where c: "run_state (Commit h (sys_store s1)) s2 = (c, s3)" by (metis surj_pair)
  have undone: "I (sys_store (snd (run_state (rollback_to (sys_store s1)) s2)))" by (rule rollback_clock [OF I1 le])
  then have "I ((sys_store s1)\<lparr>clock := clock (sys_store s2)\<rparr>)" by (simp add: rollback_to_def run_on_world)
  then have I3: "I (sys_store s3)" using Commit_cases(2) [OF c] I2 by auto
  show "I (sys_store (snd (run_state (transaction h not_begun not_committed body) s)))"
    using b e c I1 I3 undone by (cases b) (simp_all add: transaction_def run_bind current_store_def)
qed

end

end
