(* ===== verification/Configuration_Redeploy.thy ===== *)
theory Configuration_Redeploy
  imports Http_Transaction Http_Deployments
begin

text \<open>
  The file \<^verbatim>\<open>internal/httpapi/configuration_redeploy.go\<close>: applications whose configuration has changed since
  their active deployment are deployed again, one by one or all of a project, from the source that is
  running unless the source itself was changed.
\<close>

record redeploy_source =
  crs_ApplicationID :: pg_uuid
  crs_ApplicationName :: string
  crs_SourceDeploymentID :: pg_uuid
  crs_CommitSHA :: pg_text
  crs_ImageRef :: pg_text
  crs_ImageDigest :: pg_text
  crs_SourceRepositoryURL :: pg_text
  crs_SourceBranch :: pg_text
  crs_ConfiguredRepositoryURL :: pg_text
  crs_ConfiguredBranch :: string

text \<open>The deployment of a creation is read only after it was created.\<close>

record redeploy_creation =
  crc_source :: redeploy_source
  crc_deployment :: "deployment option"
  crc_skippedReason :: string

record redeploy_result =
  crr_ApplicationID :: string
  crr_ApplicationName :: string
  crr_Status :: string
  crr_Reason :: string
  crr_DeploymentID :: string

record redeploy_response =
  crp_State :: string
  crp_Deployments :: "deployment list"
  crp_Results :: "redeploy_result list"
  crp_Queued :: nat
  crp_Skipped :: nat
  crp_Failed :: nat

subsection \<open>The input of the deployment\<close>

definition configurationRedeploySourceChanged :: "redeploy_source \<Rightarrow> bool" where
  "configurationRedeploySourceChanged source \<longleftrightarrow>
     (let configuredRepository = TrimSpace (text_String (crs_ConfiguredRepositoryURL source));
          sourceRepository = TrimSpace (text_String (crs_SourceRepositoryURL source)) in
      if configuredRepository \<noteq> sourceRepository then True
      else if configuredRepository = [] then False
      else TrimSpace (crs_ConfiguredBranch source) \<noteq> TrimSpace (text_String (crs_SourceBranch source)))"

definition immutableConfigurationImage :: "pg_text \<Rightarrow> pg_text \<Rightarrow> http_error + (pg_text \<times> pg_text)" where
  "immutableConfigurationImage image_ref image_digest =
     (let ref = TrimSpace (text_String image_ref);
          digest = TrimSpace (text_String image_digest);
          (base, refDigest, hasRefDigest) = Cut ref (CHR ''@'') in
      if hasRefDigest \<and> \<not> full_match imageDigestPattern refDigest
        then Inl (ValidationError ''active image reference has an invalid digest'')
      else if digest = [] then Inr (Some ref, None)
      else if digest \<noteq> [] \<and> \<not> full_match imageDigestPattern digest
        then Inl (ValidationError ''active image has an invalid digest'')
      else if hasRefDigest \<and> digest \<noteq> [] \<and> refDigest \<noteq> digest
        then Inl (ValidationError ''active image reference and digest do not match'')
      else if TrimSpace base = [] then Inl (ValidationError ''active image reference is invalid'')
      else let pinned = base @ ''@'' @ digest in
        if \<not> validImageRef pinned then Inl (ValidationError ''active image reference is invalid'')
        else Inr (Some pinned, Some digest))"

definition redeploy_params :: "redeploy_source \<Rightarrow> string \<Rightarrow> pg_text \<Rightarrow> pg_text \<Rightarrow> pg_text \<Rightarrow> create_deployment_params" where
  "redeploy_params source actor commitSHA image_ref image_digest =
     \<lparr>cd_Trigger = ''manual'', cd_Strategy = ''blue_green'', cd_CommitSha = commitSHA, cd_ImageRef = image_ref,
      cd_ImageDigest = image_digest, cd_Actor = blankStringAsText actor, cd_ApplicationID = crs_ApplicationID source\<rparr>"

definition configurationRedeployInput :: "redeploy_source \<Rightarrow> string \<Rightarrow> http_error + create_deployment_params" where
  "configurationRedeployInput source actor =
     (if crs_SourceDeploymentID source = None
        then Inl (ValidationError ''application has no active successful deployment to redeploy'')
      else
        try_bind
          (if configurationRedeploySourceChanged source then Inr (None, None, None)
           else if crs_ImageRef source \<noteq> None \<and> TrimSpace (text_String (crs_ImageRef source)) \<noteq> []
             then try_bind (immutableConfigurationImage (crs_ImageRef source) (crs_ImageDigest source))
               (\<lambda>(image_ref, image_digest). Inr (crs_CommitSHA source, image_ref, image_digest))
           else Inr (crs_CommitSHA source, crs_ImageRef source, crs_ImageDigest source))
          (\<lambda>(commitSHA, image_ref, image_digest).
             try_bind (normalizeCreateDeployment (redeploy_params source actor commitSHA image_ref image_digest)) (\<lambda>input.
               if \<not> configurationRedeploySourceChanged source \<and> cd_CommitSha input = None \<and> cd_ImageRef input = None
                 then Inl (ValidationError ''active deployment does not have a pinned source commit or image'')
               else Inr input)))"

subsection \<open>Creating the deployment\<close>

definition configurationRedeployCurrent :: string where
  "configurationRedeployCurrent = ''configuration_current''"

definition configurationRedeployInProgress :: string where
  "configurationRedeployInProgress = ''deployment_in_progress''"

definition no_source :: redeploy_source where
  "no_source = \<lparr>crs_ApplicationID = None, crs_ApplicationName = [], crs_SourceDeploymentID = None, crs_CommitSHA = None,
     crs_ImageRef = None, crs_ImageDigest = None, crs_SourceRepositoryURL = None, crs_SourceBranch = None,
     crs_ConfiguredRepositoryURL = None, crs_ConfiguredBranch = []\<rparr>"

definition no_creation :: redeploy_creation where
  "no_creation = \<lparr>crc_source = no_source, crc_deployment = None, crc_skippedReason = []\<rparr>"

definition source_of_candidate :: "application \<Rightarrow> redeploy_candidate \<Rightarrow> redeploy_source" where
  "source_of_candidate app candidate =
     \<lparr>crs_ApplicationID = rc_ApplicationID candidate, crs_ApplicationName = rc_ApplicationName candidate,
      crs_SourceDeploymentID = rc_SourceDeploymentID candidate, crs_CommitSHA = rc_SourceCommitSha candidate,
      crs_ImageRef = rc_SourceImageRef candidate, crs_ImageDigest = rc_SourceImageDigest candidate,
      crs_SourceRepositoryURL = rc_SourceRepositoryUrl candidate, crs_SourceBranch = rc_SourceBranch candidate,
      crs_ConfiguredRepositoryURL = app_RepositoryUrl app, crs_ConfiguredBranch = app_Branch app\<rparr>"

text \<open>The checks on the application and its source, in the order of the code.\<close>

definition redeploy_checks :: "http_env \<Rightarrow> application \<Rightarrow> redeploy_source \<Rightarrow> string \<Rightarrow> http_error + create_deployment_params" where
  "redeploy_checks h app source actor =
     try_bind (configurationRedeployInput source actor) (\<lambda>input.
       if cd_Strategy input \<noteq> ''blue_green'' then Inl (ValidationError ''deployment strategy must be blue_green'')
       else case validateDeploymentSource app (cd_ImageRef input) of
         Some err \<Rightarrow> Inl err
       | None \<Rightarrow> (case validateBlueGreenDeploymentTarget h app of Some err \<Rightarrow> Inl err | None \<Rightarrow> Inr input))"

type_synonym creation_result = "redeploy_creation \<times> http_error option"

text \<open>The statements of the transaction; the flag says that it is committed.\<close>

definition redeploy_body :: "http_env \<Rightarrow> pg_uuid \<Rightarrow> string \<Rightarrow> (creation_result \<times> bool) sys_run" where
  "redeploy_body h applicationID actor = do {
     a \<leftarrow> tx_serve h (GetApplicationForUpdate applicationID);
     (case a of
        Inl err \<Rightarrow> State_Monad.return ((no_creation, Some (applicationLookupError ''application not found'' err)), False)
      | Inr app \<Rightarrow> do {
          c \<leftarrow> tx_serve h (GetApplicationConfigurationRedeployCandidate (uuid_text (h_runner h)) applicationID);
          (case c of
             Inl err \<Rightarrow> State_Monad.return ((no_creation, Some (applicationLookupError ''application not found'' err)), False)
           | Inr candidate \<Rightarrow>
               let creation = no_creation\<lparr>crc_source := source_of_candidate app candidate\<rparr> in
               if rc_RedeployRequired candidate \<noteq> Some True
                 then State_Monad.return ((creation\<lparr>crc_skippedReason := configurationRedeployCurrent\<rparr>, None), False)
               else if rc_DeploymentInProgress candidate
                 then State_Monad.return ((creation\<lparr>crc_skippedReason := configurationRedeployInProgress\<rparr>, None), False)
               else (case redeploy_checks h app (crc_source creation) actor of
                  Inl err \<Rightarrow> State_Monad.return ((creation, Some err), False)
                | Inr input \<Rightarrow> do {
                    n \<leftarrow> on_world next_step;
                    d \<leftarrow> tx_serve h (create_deployment (uuid_text (h_runner h)) (fresh_ids (h_runner h) n) input);
                    State_Monad.return (case d of
                        Inl err0 \<Rightarrow>
                          (let err = createDeploymentError err0 in
                           if isDeploymentInProgressError err
                             then ((creation\<lparr>crc_skippedReason := configurationRedeployInProgress\<rparr>, None), False)
                           else ((creation, Some err), False))
                      | Inr deployment \<Rightarrow> ((creation\<lparr>crc_deployment := Some deployment\<rparr>, None), True))
                  }))
        })
   }"

definition createConfigurationRedeployment :: "http_env \<Rightarrow> pg_uuid \<Rightarrow> string \<Rightarrow> creation_result sys_run" where
  "createConfigurationRedeployment h applicationID actor =
     transaction h (\<lambda>err. (no_creation, Some (Internal err))) (\<lambda>err (creation, _). (creation, Some (Internal err)))
       (redeploy_body h applicationID actor)"

subsection \<open>Results\<close>

definition configurationRedeployResultFor ::
  "http_env \<Rightarrow> redeploy_source \<Rightarrow> deployment option \<Rightarrow> string \<Rightarrow> string \<Rightarrow> redeploy_result" where
  "configurationRedeployResultFor h source deployment status reason =
     \<lparr>crr_ApplicationID = id_text h (crs_ApplicationID source), crr_ApplicationName = crs_ApplicationName source,
      crr_Status = status, crr_Reason = reason,
      crr_DeploymentID = (case deployment of None \<Rightarrow> [] | Some d \<Rightarrow> if dep_ID d = None then [] else id_text h (dep_ID d))\<rparr>"

fun count_results :: "redeploy_result list \<Rightarrow> bool \<Rightarrow> redeploy_response \<Rightarrow> bool \<times> redeploy_response" where
  "count_results [] allInProgress response = (allInProgress, response)"
| "count_results (result # results) allInProgress response =
     count_results results (if crr_Reason result \<noteq> configurationRedeployInProgress then False else allInProgress)
       (if crr_Status result = ''queued'' then response\<lparr>crp_Queued := Suc (crp_Queued response)\<rparr>
        else if crr_Status result = ''skipped'' then response\<lparr>crp_Skipped := Suc (crp_Skipped response)\<rparr>
        else response\<lparr>crp_Failed := Suc (crp_Failed response)\<rparr>)"

definition newConfigurationRedeployResponse :: "deployment list \<Rightarrow> redeploy_result list \<Rightarrow> redeploy_response" where
  "newConfigurationRedeployResponse ds results =
     (let (allInProgress, response) = count_results results (results \<noteq> [])
            \<lparr>crp_State = ''current'', crp_Deployments = ds, crp_Results = results, crp_Queued = 0, crp_Skipped = 0, crp_Failed = 0\<rparr> in
      if 0 < crp_Queued response \<and> (0 < crp_Skipped response \<or> 0 < crp_Failed response) then response\<lparr>crp_State := ''partial''\<rparr>
      else if 0 < crp_Queued response then response\<lparr>crp_State := ''queued''\<rparr>
      else if 0 < crp_Failed response then response\<lparr>crp_State := ''failed''\<rparr>
      else if allInProgress then response\<lparr>crp_State := ''in_progress''\<rparr>
      else if 0 < crp_Skipped response then response\<lparr>crp_State := ''skipped''\<rparr>
      else response)"

fun configurationRedeployFailureReason :: "http_error \<Rightarrow> string" where
  "configurationRedeployFailureReason (NotFoundError _) = ''application_not_found''"
| "configurationRedeployFailureReason (ValidationError message) =
     (if Contains message ''active image'' then ''source_not_immutable''
      else if Contains message ''active successful deployment'' \<or> Contains message ''pinned source commit or image''
        then ''source_unavailable''
      else ''invalid_configuration'')"
| "configurationRedeployFailureReason _ = ''creation_failed''"

definition configurationRedeployMetadata :: "http_env \<Rightarrow> redeploy_source \<Rightarrow> deployment \<Rightarrow> (string \<times> json) list" where
  "configurationRedeployMetadata h source d =
     deploymentQueueMetadata d @
     [(''reason'', JStr ''configuration_changed''), (''source_deployment_id'', JStr (id_text h (crs_SourceDeploymentID source))),
      (''source_changed'', JBool (configurationRedeploySourceChanged source))]"

definition configurationRedeployFailureMetadata ::
  "http_env \<Rightarrow> redeploy_source \<Rightarrow> deployment \<Rightarrow> go_error \<Rightarrow> (string \<times> json) list" where
  "configurationRedeployFailureMetadata h source d cause =
     configurationRedeployMetadata h source d @ [(''status'', JStr ''failed''), (''error'', JStr (err_text cause))]"

subsection \<open>Handlers\<close>

definition enqueue_redeployment ::
  "http_env \<Rightarrow> http_request \<Rightarrow> redeploy_source \<Rightarrow> deployment \<Rightarrow> (go_error \<Rightarrow> 'b) \<Rightarrow> 'b \<Rightarrow> 'b sys_run" where
  "enqueue_redeployment h r source d failed queued = do {
     e \<leftarrow> enqueueDeployment h d;
     (case e of
        Some err \<Rightarrow> do {
          http_audit h r ''deployment.configuration_redeploy_queue_failed'' ''deployment'' (id_text h (dep_ID d))
            (crs_ApplicationName source) (configurationRedeployFailureMetadata h source d err);
          State_Monad.return (failed err)
        }
      | None \<Rightarrow> do {
          http_audit h r ''deployment.configuration_redeploy'' ''deployment'' (id_text h (dep_ID d))
            (crs_ApplicationName source) (configurationRedeployMetadata h source d);
          State_Monad.return queued
        })
   }"

definition the_deployment :: "redeploy_creation \<Rightarrow> deployment option" where
  "the_deployment creation = (if crc_skippedReason creation = [] then crc_deployment creation else None)"

text \<open>A creation without error that was not skipped has a deployment, so the last case does not arise.\<close>

definition redeployApplicationConfiguration :: "http_env \<Rightarrow> http_request \<Rightarrow> redeploy_response handler" where
  "redeployApplicationConfiguration h r =
     or_error (parseUUIDParam h r ''applicationID'') (\<lambda>applicationID. do {
       c \<leftarrow> createConfigurationRedeployment h applicationID (auditActor r);
       (case c of
          (creation, Some err) \<Rightarrow> State_Monad.return (writeError err)
        | (creation, None) \<Rightarrow>
            if crc_skippedReason creation = configurationRedeployCurrent
              then State_Monad.return (writeError (ValidationError ''application configuration is already current''))
            else if crc_skippedReason creation = configurationRedeployInProgress
              then State_Monad.return (writeError (ValidationError ''application already has a queued or running deployment''))
            else (case the_deployment creation of
               Some d \<Rightarrow>
                 enqueue_redeployment h r (crc_source creation) d (\<lambda>err. writeError (Internal err))
                   (writeJSON 202 (newConfigurationRedeployResponse [d]
                      [configurationRedeployResultFor h (crc_source creation) (Some d) ''queued'' []]))
             | None \<Rightarrow> State_Monad.return (writeError (Internal (Errorf ''no deployment'')))))
     })"

definition redeploy_candidate_step ::
  "http_env \<Rightarrow> http_request \<Rightarrow> redeploy_candidate \<Rightarrow> (deployment list \<times> redeploy_result list) sys_run" where
  "redeploy_candidate_step h r candidate = do {
     c \<leftarrow> createConfigurationRedeployment h (rc_ApplicationID candidate) (auditActor r);
     (let source0 = crc_source (fst c);
          source = (if crs_ApplicationID source0 = None
                    then source0\<lparr>crs_ApplicationID := rc_ApplicationID candidate, crs_ApplicationName := rc_ApplicationName candidate\<rparr>
                    else source0) in
      case c of
        (creation, Some err) \<Rightarrow> do {
          http_audit h r ''deployment.configuration_redeploy_prepare_failed'' ''application'' (id_text h (crs_ApplicationID source))
            (crs_ApplicationName source)
            [(''reason'', JStr (configurationRedeployFailureReason err)), (''error'', JStr (http_error_text err))];
          State_Monad.return ([], [configurationRedeployResultFor h source None ''failed'' (configurationRedeployFailureReason err)])
        }
      | (creation, None) \<Rightarrow>
          (case the_deployment creation of
             None \<Rightarrow> State_Monad.return ([], [configurationRedeployResultFor h source None ''skipped'' (crc_skippedReason creation)])
           | Some d \<Rightarrow>
               enqueue_redeployment h r source d
                 (\<lambda>err. ([], [configurationRedeployResultFor h source (Some d) ''failed'' ''enqueue_failed'']))
                 ([d], [configurationRedeployResultFor h source (Some d) ''queued'' []])))
   }"

fun redeploy_candidates ::
  "http_env \<Rightarrow> http_request \<Rightarrow> redeploy_candidate list \<Rightarrow> (deployment list \<times> redeploy_result list) sys_run" where
  "redeploy_candidates h r [] = State_Monad.return ([], [])"
| "redeploy_candidates h r (candidate # candidates) = do {
     x \<leftarrow> redeploy_candidate_step h r candidate;
     y \<leftarrow> redeploy_candidates h r candidates;
     State_Monad.return (fst x @ fst y, snd x @ snd y)
   }"

definition redeploy_status :: "redeploy_response \<Rightarrow> nat" where
  "redeploy_status response = (if 0 < crp_Failed response then 207 else if crp_Queued response = 0 then 200 else 202)"

definition redeployProjectConfiguration :: "http_env \<Rightarrow> http_request \<Rightarrow> redeploy_response handler" where
  "redeployProjectConfiguration h r =
     or_error (parseUUIDParam h r ''projectID'') (\<lambda>projectID. do {
       p \<leftarrow> serve h (GetProject projectID);
       or_error (map_error (applicationLookupError ''project not found'') p) (\<lambda>_. do {
         l \<leftarrow> serve h (ListProjectConfigurationRedeployCandidates (uuid_text (h_runner h)) projectID);
         or_error (map_error Internal l) (\<lambda>candidates. do {
           x \<leftarrow> redeploy_candidates h r candidates;
           (let response = newConfigurationRedeployResponse (fst x) (snd x) in
            State_Monad.return (writeJSON (redeploy_status response) response))
         })
       })
     })"

end
