(* ===== verification/Configuration_Redeploy_Proofs.thy ===== *)
theory Configuration_Redeploy_Proofs
  imports Configuration_Redeploy Http_Batch
begin

text \<open>
  What a redeployment after a change of configuration promises: it is required exactly when the
  configuration differs from the one that the active deployment was made with, it runs the source that is
  running unless the source was changed, its transaction creates one row or none, and the reply lists
  exactly the deployments that were queued.
\<close>

declare State_Monad.run_state_bind [simp del] State_Monad.bind_assoc [simp del]

subsection \<open>The handlers and the tables\<close>

context http_statements begin

lemma redeploy_body_keeps: "sys_keeps I (redeploy_body h i actor)"
  unfolding redeploy_body_def Let_def
  by (intro handler_rules tx_serve_keeps configuration_queries_keep)

lemma redeploy_body_clock: "clock_grows (redeploy_body h i actor)"
  unfolding redeploy_body_def Let_def
  by (intro clock_grows_bind clock_grows_cases clock_grows_rules)
    (auto dest: configuration_read_only simp: create_deployment_def dest!: CreateDeployment_Inr(1))

lemma createConfigurationRedeployment_keeps: "sys_keeps I (createConfigurationRedeployment h i actor)"
  unfolding createConfigurationRedeployment_def by (intro transaction_keeps redeploy_body_keeps redeploy_body_clock)

lemma enqueue_redeployment_keeps: "sys_keeps I (enqueue_redeployment h r source d failed queued)"
  unfolding enqueue_redeployment_def by (intro handler_rules enqueueDeployment_keeps)

lemma redeployApplicationConfiguration_keeps: "sys_keeps I (redeployApplicationConfiguration h r)"
  unfolding redeployApplicationConfiguration_def
  by (intro handler_rules createConfigurationRedeployment_keeps)
    (auto split: prod.splits option.splits intro!: handler_rules enqueue_redeployment_keeps)

lemma redeploy_candidates_keep: "sys_keeps I (redeploy_candidates h r cs)"
proof (induction cs)
  case (Cons c cs)
  have "sys_keeps I (redeploy_candidate_step h r c)"
    unfolding redeploy_candidate_step_def Let_def
    by (intro handler_rules createConfigurationRedeployment_keeps)
      (auto split: prod.splits option.splits intro!: handler_rules enqueue_redeployment_keeps)
  then show ?case using Cons by (auto intro!: handler_rules)
qed (auto intro: handler_rules)

lemma redeployProjectConfiguration_keeps: "sys_keeps I (redeployProjectConfiguration h r)"
  unfolding redeployProjectConfiguration_def Let_def
  by (intro handler_rules configuration_queries_keep redeploy_candidates_keep)

end

subsection \<open>The transaction creates one row or none\<close>

definition created :: "creation_result \<Rightarrow> deployment option" where
  "created c = (if snd c = None then the_deployment (fst c) else None)"

lemma tx_serve_served:
  assumes "served (h_runner h)" "run_state (tx_serve h q) s = (c, s')"
  shows "sys_queue s' = sys_queue s" "w_steps (sys_world s') = Suc (w_steps (sys_world s))"
    "case q (sys_store s) of Inl err \<Rightarrow> c = Inl err \<and> sys_store s' = sys_store s | Inr (x, db') \<Rightarrow> c = Inr x \<and> sys_store s' = db'"
  using assms by (auto simp: tx_serve_def run_on_world db_exec_def run_bind next_step_def served_def Let_def split: sum.splits prod.splits)

lemma transaction_served:
  assumes "served (h_runner h)" "run_state (transaction h not_begun not_committed body) s = (r, s')"
  obtains s1 e s2 where "run_state body s1 = (e, s2)" "r = fst e" "sys_queue s1 = sys_queue s"
    "sys_store s1 = ticked (h_runner h) (sys_world s)"
    "sys_queue s' = sys_queue s2" "sys_store s' = (if snd e then sys_store s2 else (sys_store s1)\<lparr>clock := clock (sys_store s2)\<rparr>)"
proof -
  obtain b s1 where b: "run_state (serve h no_op) s = (b, s1)" by (metis surj_pair)
  have s1: "b = Inr ()" "sys_store s1 = ticked (h_runner h) (sys_world s)" "sys_queue s1 = sys_queue s"
    using run_serve [OF assms(1) b] by (simp_all add: no_op_def)
  obtain e s2 where e: "run_state body s1 = (e, s2)" by (metis surj_pair)
  obtain c s3 where c: "run_state (Commit h (sys_store s1)) s2 = (c, s3)" by (metis surj_pair)
  note c' = Commit_cases [OF c]
  have "r = fst e \<and> sys_queue s' = sys_queue s2 \<and> sys_store s' = (if snd e then sys_store s2 else (sys_store s1)\<lparr>clock := clock (sys_store s2)\<rparr>)"
    using assms(2) b s1(1) e c c'(1,2) c'(3) [OF assms(1)]
    by (auto simp: transaction_def run_bind current_store_def rollback_to_def run_on_world split: if_splits)
  then show thesis using that [OF e _ s1(3,2)] by blast
qed

lemma create_in_transaction:
  assumes "served (h_runner h)" "run_state (tx_serve h (create_deployment uuid new_id input)) s = (Inr d, s')"
  shows "deployments (sys_store s') = deployments (sys_store s) @ [d]" "dep_Status d = ''queued''" "dep_ID d = Some new_id"
    "\<forall>e\<in>set (deployments (sys_store s)). dep_ID e \<noteq> dep_ID d"
    "create_deployment uuid new_id input (sys_store s) = Inr (d, sys_store s')"
proof -
  show c: "create_deployment uuid new_id input (sys_store s) = Inr (d, sys_store s')"
    using tx_serve_served(3) [OF assms] by (auto split: sum.splits prod.splits)
  note facts = CreateDeployment_Inr [OF c [unfolded create_deployment_def]]
  show "deployments (sys_store s') = deployments (sys_store s) @ [d]" "dep_Status d = ''queued''" "dep_ID d = Some new_id"
    "\<forall>e\<in>set (deployments (sys_store s)). dep_ID e \<noteq> dep_ID d"
    using facts by simp_all
qed

text \<open>The ways out of the body: an error or a reason to skip, or the row that was created after all checks.\<close>

lemma redeploy_body_result:
  assumes served: "served (h_runner h)" and run: "run_state (redeploy_body h i actor) s = (e, s')"
  obtains
    (no_row) "\<not> snd e" "created (fst e) = None" "sys_queue s' = sys_queue s"
  | (row) app candidate input d new_id where "snd e" "created (fst e) = Some d" "sys_queue s' = sys_queue s"
      "deployments (sys_store s') = deployments (sys_store s) @ [d]" "dep_Status d = ''queued''" "dep_ID d = Some new_id"
      "\<forall>e\<in>set (deployments (sys_store s)). dep_ID e \<noteq> dep_ID d"
      "GetApplicationForUpdate i (sys_store s) = Inr (app, sys_store s)"
      "GetApplicationConfigurationRedeployCandidate (uuid_text (h_runner h)) i (sys_store s) = Inr (candidate, sys_store s)"
      "rc_RedeployRequired candidate = Some True" "\<not> rc_DeploymentInProgress candidate"
      "redeploy_checks h app (source_of_candidate app candidate) actor = Inr input"
      "create_deployment (uuid_text (h_runner h)) new_id input (sys_store s) = Inr (d, sys_store s')"
      "crc_source (fst (fst e)) = source_of_candidate app candidate"
proof -
  obtain a s1 where a: "run_state (tx_serve h (GetApplicationForUpdate i)) s = (a, s1)" by (metis surj_pair)
  note a' = tx_serve_served [OF served a]
  obtain c s2 where c: "run_state (tx_serve h (GetApplicationConfigurationRedeployCandidate (uuid_text (h_runner h)) i)) s1 = (c, s2)"
    by (metis surj_pair)
  note c' = tx_serve_served [OF served c]
  show thesis
  proof (cases "\<exists>app candidate input. a = Inr app \<and> c = Inr candidate \<and> rc_RedeployRequired candidate = Some True
      \<and> \<not> rc_DeploymentInProgress candidate \<and> redeploy_checks h app (source_of_candidate app candidate) actor = Inr input")
    case False
    have "\<not> snd e \<and> created (fst e) = None \<and> sys_queue s' = sys_queue s"
      using run a c a'(1) c'(1) False
      by (auto simp: redeploy_body_def run_bind Let_def created_def the_deployment_def no_creation_def split: sum.splits if_splits)
    then show thesis using no_row by blast
  next
    case True
    then obtain app candidate input where all: "a = Inr app" "c = Inr candidate" "rc_RedeployRequired candidate = Some True"
      "\<not> rc_DeploymentInProgress candidate" "redeploy_checks h app (source_of_candidate app candidate) actor = Inr input" by blast
    have app: "GetApplicationForUpdate i (sys_store s) = Inr (app, sys_store s)" "sys_store s1 = sys_store s"
      using a'(3) all(1) configuration_read_only(3) by (auto split: sum.splits prod.splits)
    have cand: "GetApplicationConfigurationRedeployCandidate (uuid_text (h_runner h)) i (sys_store s) = Inr (candidate, sys_store s)"
      "sys_store s2 = sys_store s"
      using c'(3) all(2) app(2) configuration_read_only(1) by (auto split: sum.splits prod.splits)
    define n s3 where "n = w_steps (sys_world s2)" and "s3 = snd (run_state (on_world next_step) s2)"
    have step: "run_state (on_world next_step) s2 = (n, s3)" "sys_store s3 = sys_store s" "sys_queue s3 = sys_queue s"
      using cand(2) a'(1) c'(1) by (simp_all add: n_def s3_def run_on_world next_step_def)
    obtain d s4 where d: "run_state (tx_serve h (create_deployment (uuid_text (h_runner h)) (fresh_ids (h_runner h) n) input)) s3 = (d, s4)"
      by (metis surj_pair)
    have q4: "sys_queue s4 = sys_queue s" using tx_serve_served(1) [OF served d] step(3) by simp
    have e: "s' = s4" "e = (case d of
        Inl err0 \<Rightarrow> if isDeploymentInProgressError (createDeploymentError err0)
            then ((no_creation\<lparr>crc_source := source_of_candidate app candidate, crc_skippedReason := configurationRedeployInProgress\<rparr>, None), False)
          else ((no_creation\<lparr>crc_source := source_of_candidate app candidate\<rparr>, Some (createDeploymentError err0)), False)
      | Inr deployment \<Rightarrow> ((no_creation\<lparr>crc_source := source_of_candidate app candidate, crc_deployment := Some deployment\<rparr>, None), True))"
      using run a c all step(1) d by (auto simp: redeploy_body_def run_bind Let_def split: sum.splits)
    show thesis
    proof (cases d)
      case (Inl err0)
      then have "\<not> snd e \<and> created (fst e) = None" using e(2)
        by (auto simp: created_def the_deployment_def no_creation_def)
      then show thesis using no_row q4 e(1) by blast
    next
      case (Inr x)
      note facts = create_in_transaction [OF served d [unfolded Inr], unfolded step(2)]
      have "snd e" "created (fst e) = Some x" "crc_source (fst (fst e)) = source_of_candidate app candidate"
        using e(2) Inr by (simp_all add: created_def the_deployment_def no_creation_def)
      then show thesis using row facts q4 app(1) cand(1) all(3-5) e(1) by blast
    qed
  qed
qed

lemma creates_redeployment:
  assumes served: "served (h_runner h)"
  shows "creates created (createConfigurationRedeployment h i actor)"
  unfolding creates_def
proof (intro allI impI)
  fix s c s' assume ok: "store_ok (sys_store s)" and run: "run_state (createConfigurationRedeployment h i actor) s = (c, s')"
  have ok': "store_ok (sys_store s')" using sys_keepsD [OF http_ok.createConfigurationRedeployment_keeps ok, of h i actor] run by simp
  obtain s1 e s2 where e: "run_state (redeploy_body h i actor) s1 = (e, s2)" "c = fst e" "sys_queue s1 = sys_queue s"
    "sys_store s1 = ticked (h_runner h) (sys_world s)" "sys_queue s' = sys_queue s2"
    "sys_store s' = (if snd e then sys_store s2 else (sys_store s1)\<lparr>clock := clock (sys_store s2)\<rparr>)"
    by (rule transaction_served [OF served run [unfolded createConfigurationRedeployment_def]])
  show "sys_queue s' = sys_queue s \<and> store_ok (sys_store s') \<and>
     (case created c of None \<Rightarrow> deployments (sys_store s') = deployments (sys_store s)
      | Some d \<Rightarrow> deployments (sys_store s') = deployments (sys_store s) @ [d] \<and> dep_Status d = ''queued''
          \<and> (\<exists>i. dep_ID d = Some i) \<and> (\<forall>e\<in>set (deployments (sys_store s)). dep_ID e \<noteq> dep_ID d))"
    by (rule redeploy_body_result [OF served e(1)]) (use e(2-6) ok' in auto)
qed

subsection \<open>The reply lists what was queued\<close>

definition with_status :: "string \<Rightarrow> redeploy_result list \<Rightarrow> nat" where
  "with_status status results = length (filter (\<lambda>x. crr_Status x = status) results)"

lemma with_status_append [simp]: "with_status st (xs @ ys) = with_status st xs + with_status st ys"
  by (simp add: with_status_def)

lemma count_results_eq:
  "count_results results b response = (b \<and> list_all (\<lambda>x. crr_Reason x = configurationRedeployInProgress) results,
     response\<lparr>crp_Queued := crp_Queued response + with_status ''queued'' results,
       crp_Skipped := crp_Skipped response + with_status ''skipped'' results,
       crp_Failed := crp_Failed response + length (filter (\<lambda>x. crr_Status x \<notin> {''queued'', ''skipped''}) results)\<rparr>)"
  by (induction results arbitrary: b response) (auto simp: with_status_def)

lemma response_counts:
  fixes ds results
  defines "response \<equiv> newConfigurationRedeployResponse ds results"
  shows "crp_Deployments response = ds" "crp_Results response = results" "crp_Queued response = with_status ''queued'' results"
    "crp_Skipped response = with_status ''skipped'' results"
    "crp_Queued response + crp_Skipped response + crp_Failed response = length results"
proof -
  have "length (filter (\<lambda>x. crr_Status x = ''queued'') results) + length (filter (\<lambda>x. crr_Status x = ''skipped'') results)
      + length (filter (\<lambda>x. crr_Status x \<notin> {''queued'', ''skipped''}) results) = length results"
    by (induction results) auto
  then show "crp_Deployments response = ds" "crp_Results response = results" "crp_Queued response = with_status ''queued'' results"
    "crp_Skipped response = with_status ''skipped'' results"
    "crp_Queued response + crp_Skipped response + crp_Failed response = length results"
    unfolding response_def newConfigurationRedeployResponse_def count_results_eq Let_def by (auto simp: with_status_def)
qed

definition step_lists :: "deployment list \<times> redeploy_result list \<Rightarrow> deployment list \<Rightarrow> bool" where
  "step_lists x ds \<longleftrightarrow> ds = fst x \<and> with_status ''queued'' (snd x) = length ds"

definition redeploy_lists :: "redeploy_response reply \<Rightarrow> deployment list \<Rightarrow> bool" where
  "redeploy_lists reply ds \<longleftrightarrow>
     (case snd reply of
        Inl _ \<Rightarrow> 400 \<le> fst reply \<and> ds = []
      | Inr response \<Rightarrow> crp_Deployments response = ds \<and> crp_Queued response = length ds
          \<and> crp_Queued response + crp_Skipped response + crp_Failed response = length (crp_Results response)
          \<and> fst reply = redeploy_status response)"

lemma error_lists [simp]: "redeploy_lists (writeError err) []"
  by (cases err) (simp_all add: redeploy_lists_def)

lemma response_lists:
  "step_lists x ds \<Longrightarrow> redeploy_lists (writeJSON (redeploy_status (newConfigurationRedeployResponse (fst x) (snd x)))
     (newConfigurationRedeployResponse (fst x) (snd x))) ds"
  using response_counts(5) [of "fst x" "snd x"]
  by (simp add: redeploy_lists_def step_lists_def writeJSON_def response_counts(1-4))

lemma queues_audited:
  "R x [] \<Longrightarrow> queues h (do { http_audit h r action targetType targetID targetName metadata; State_Monad.return x }) R"
  by (intro queues_rules quiet_rules ok_catalog)

lemma queues_redeployment:
  assumes served: "served (h_runner h)" and "\<And>c. created c = None \<Longrightarrow> queues h (rest c) R"
    and "\<And>c d. created c = Some d \<Longrightarrow> rest c = enqueue_redeployment h r (source c) d (failed c d) (queued c d)"
    and "\<And>c d err. R (failed c d err) []" "\<And>c d. created c = Some d \<Longrightarrow> R (queued c d) [d]"
  shows "queues h (State_Monad.bind (createConfigurationRedeployment h i actor) rest) R"
proof (rule queues_enqueue [OF served creates_redeployment [OF served] assms(2)])
  show "rest c = do { e \<leftarrow> enqueueDeployment h d; (case e of
      Some err \<Rightarrow> do { http_audit h r ''deployment.configuration_redeploy_queue_failed'' ''deployment'' (id_text h (dep_ID d))
          (crs_ApplicationName (source c)) (configurationRedeployFailureMetadata h (source c) d err); State_Monad.return (failed c d err) }
    | None \<Rightarrow> do { http_audit h r ''deployment.configuration_redeploy'' ''deployment'' (id_text h (dep_ID d))
          (crs_ApplicationName (source c)) (configurationRedeployMetadata h (source c) d); State_Monad.return (queued c d) }) }"
    if "created c = Some d" for c d
    using assms(3) [OF that] by (simp only: enqueue_redeployment_def)
qed (auto intro!: queues_audited quiet_rules ok_catalog sys_keeps_rules assms(4,5) simp: run_bind)

lemma redeployApplication_queues:
  assumes served: "served (h_runner h)"
  shows "queues h (redeployApplicationConfiguration h r) redeploy_lists"
  unfolding redeployApplicationConfiguration_def
proof (intro queues_or_error)
  show "redeploy_lists (writeError err) []" for err by simp
  show "queues h (do {
       c \<leftarrow> createConfigurationRedeployment h applicationID (auditActor r);
       (case c of
          (creation, Some err) \<Rightarrow> State_Monad.return (writeError err)
        | (creation, None) \<Rightarrow>
            if crc_skippedReason creation = configurationRedeployCurrent
              then State_Monad.return (writeError (ValidationError ''application configuration is already current''))
            else if crc_skippedReason creation = configurationRedeployInProgress
              then State_Monad.return (writeError (ValidationError ''application already has a queued or running deployment''))
            else (case the_deployment creation of
               Some d \<Rightarrow>
                 enqueue_redeployment h r (crc_source creation) d (\<lambda>err. writeError (Internal err))
                   (writeJSON 202 (newConfigurationRedeployResponse [d]
                      [configurationRedeployResultFor h (crc_source creation) (Some d) ''queued'' []]))
             | None \<Rightarrow> State_Monad.return (writeError (Internal (Errorf ''no deployment'')))))
     }) redeploy_lists" for applicationID
  proof (rule queues_redeployment [OF served, where r = r and source = "\<lambda>c. crc_source (fst c)"
        and failed = "\<lambda>c d err. writeError (Internal err)" and queued = "\<lambda>c d. writeJSON 202 (newConfigurationRedeployResponse [d]
          [configurationRedeployResultFor h (crc_source (fst c)) (Some d) ''queued'' []])"], goal_cases)
    case (1 c)
    then show ?case by (cases c) (auto simp: created_def split: option.splits intro!: queues_rules simp del: writeError.simps)
  next
    case (2 c d)
    then show ?case by (cases c)
        (auto simp: created_def the_deployment_def configurationRedeployCurrent_def configurationRedeployInProgress_def split: if_splits)
  next
    case (4 c d)
    have "step_lists ([d], [configurationRedeployResultFor h (crc_source (fst c)) (Some d) ''queued'' []]) [d]"
      by (simp add: step_lists_def with_status_def configurationRedeployResultFor_def)
    from response_lists [OF this] show ?case
      by (simp add: redeploy_status_def newConfigurationRedeployResponse_def configurationRedeployResultFor_def)
  qed (simp_all del: writeError.simps)
qed

lemma redeploy_candidate_step_queues:
  assumes served: "served (h_runner h)"
  shows "queues h (redeploy_candidate_step h r candidate) step_lists"
proof -
  define source where "source c = (let source0 = crc_source (fst (c :: creation_result)) in
      if crs_ApplicationID source0 = None
      then source0\<lparr>crs_ApplicationID := rc_ApplicationID candidate, crs_ApplicationName := rc_ApplicationName candidate\<rparr>
      else source0)" for c
  show ?thesis
    unfolding redeploy_candidate_step_def
  proof (rule queues_redeployment [OF served, where r = r and source = source
        and failed = "\<lambda>c d err. ([], [configurationRedeployResultFor h (source c) (Some d) ''failed'' ''enqueue_failed''])"
        and queued = "\<lambda>c d. ([d], [configurationRedeployResultFor h (source c) (Some d) ''queued'' []])"], goal_cases)
    case (1 c)
    then show ?case
      by (cases c) (auto simp: created_def Let_def step_lists_def with_status_def configurationRedeployResultFor_def
          split: option.splits intro!: queues_rules queues_audited)
  next
    case (2 c d)
    then show ?case by (cases c) (auto simp: created_def source_def Let_def split: if_splits)
  qed (simp_all add: step_lists_def with_status_def configurationRedeployResultFor_def)
qed

lemma redeploy_candidates_queues:
  assumes served: "served (h_runner h)"
  shows "queues h (redeploy_candidates h r candidates) step_lists"
proof (induction candidates)
  case Nil
  then show ?case by (auto simp: step_lists_def with_status_def intro!: queues_rules)
next
  case (Cons c cs)
  have tail: "queues h (do { y \<leftarrow> redeploy_candidates h r cs; State_Monad.return (fst x @ fst y, snd x @ snd y) })
      (\<lambda>z es. fst z = fst x @ es \<and> with_status ''queued'' (snd z) = with_status ''queued'' (snd x) + length es)" for x
    by (rule queues_bind [OF Cons, where S = "\<lambda>y z es. z = (fst x @ fst y, snd x @ snd y) \<and> es = []"])
      (auto simp: step_lists_def intro!: queues_rules)
  show ?case unfolding redeploy_candidates.simps
    by (rule queues_bind [OF redeploy_candidate_step_queues [OF served] tail]) (auto simp: step_lists_def)
qed

lemma quiet_configuration [quiet_rules]:
  "quiet (serve h (GetProject i))" "quiet (serve h (ListProjectConfigurationRedeployCandidates uuid i))"
  by (rule quiet_serve; auto dest: configuration_read_only)+

lemma redeployProject_queues:
  assumes served: "served (h_runner h)"
  shows "queues h (redeployProjectConfiguration h r) redeploy_lists"
proof -
  have respond: "queues h (do { x \<leftarrow> redeploy_candidates h r cs;
      (let response = newConfigurationRedeployResponse (fst x) (snd x) in
       State_Monad.return (writeJSON (redeploy_status response) response)) }) redeploy_lists" for cs
    unfolding Let_def
    by (rule queues_bind [OF redeploy_candidates_queues [OF served], where S = "\<lambda>x y es. es = [] \<and>
          y = writeJSON (redeploy_status (newConfigurationRedeployResponse (fst x) (snd x))) (newConfigurationRedeployResponse (fst x) (snd x))"])
      (auto intro!: queues_rules response_lists)
  show ?thesis unfolding redeployProjectConfiguration_def
    by (intro queues_or_error queues_then quiet_rules http_ok.serve_keeps configuration_queries_keep respond error_lists)
qed

subsection \<open>When a redeployment is required\<close>

lemma create_rows:
  "[(a, e, p). a \<leftarrow> applications db, sql_eq (app_ID a) i, e \<leftarrow> environments db, sql_eq (env_ID e) (app_EnvironmentID a),
               p \<leftarrow> projects db, sql_eq (proj_ID p) (env_ProjectID e)]
   = filter (\<lambda>(a, e, p). sql_eq (app_ID a) i) (application_rows db)"
proof -
  have "concat (map (\<lambda>a. if P a then f a else []) xs) = filter (\<lambda>x. P (fst x)) (concat (map f xs))"
    if "\<And>a x. x \<in> set (f a) \<Longrightarrow> fst x = a" for P and f :: "application \<Rightarrow> (application \<times> environment \<times> project) list" and xs
  proof (induction xs)
    case (Cons a xs)
    have "filter (\<lambda>x. P (fst x)) (f a) = (if P a then f a else [])"
      using that [of _ a] by (force simp: filter_id_conv filter_empty_conv)
    then show ?case using Cons by simp
  qed simp
  from this [of "\<lambda>a. concat (map (\<lambda>e. if sql_eq (env_ID e) (app_EnvironmentID a) then
      concat (map (\<lambda>p. if sql_eq (proj_ID p) (env_ProjectID e) then [(a, e, p)] else []) (projects db)) else []) (environments db))"
      "\<lambda>a. sql_eq (app_ID a) i" "applications db"]
  show ?thesis unfolding application_rows_def by (auto simp: case_prod_unfold split: if_splits)
qed

text \<open>The text of the configuration is UTF-8 and its numbers are natural.\<close>

definition snapshot_plain :: "(string \<Rightarrow> string) \<Rightarrow> store \<Rightarrow> pg_uuid \<Rightarrow> bool" where
  "snapshot_plain uuid db i \<longleftrightarrow>
     list_all (\<lambda>(a, e, p). sql_eq (app_ID a) i \<longrightarrow> plain_json (snapshot_json uuid db a p)) (application_rows db)"

lemma application_rows_state:
  assumes "(a, e, p) \<in> set (application_rows db)"
  shows "app_ID a \<noteq> None \<Longrightarrow> application_configuration_state uuid db (app_ID a) \<noteq> None"
proof -
  assume "app_ID a \<noteq> None"
  then have row: "(a, e) \<in> set [(x, y). x \<leftarrow> applications db, sql_eq (app_ID x) (app_ID a), y \<leftarrow> environments db, sql_eq (env_ID y) (app_EnvironmentID x)]"
    using assms by (auto simp: application_rows_def sql_eq_def split: if_splits)
  show ?thesis unfolding application_configuration_state_def
    by (rule list.exhaust [of "[(x, y). x \<leftarrow> applications db, sql_eq (app_ID x) (app_ID a), y \<leftarrow> environments db, sql_eq (env_ID y) (app_EnvironmentID x)]"])
      (use row in \<open>simp_all only: list.set(1) empty_iff list.case case_prod_unfold option.distinct not_False_eq_True\<close>)
qed

lemma created_snapshot:
  assumes "create_deployment uuid new_id arg db = Inr (d, db1)" "snapshot_plain uuid db (cd_ApplicationID arg)"
  shows "stored_state d = application_configuration_state uuid db (cd_ApplicationID arg)" "stored_state d \<noteq> None"
proof -
  obtain a e p rest where rows: "filter (\<lambda>(a, e, p). sql_eq (app_ID a) (cd_ApplicationID arg)) (application_rows db) = (a, e, p) # rest"
    using assms(1) unfolding create_deployment_def CreateDeployment_def create_rows by (auto split: list.splits)
  then have "(a, e, p) \<in> set (application_rows db)" and i: "sql_eq (app_ID a) (cd_ApplicationID arg)"
    by (auto simp: filter_eq_Cons_iff)
  then have plain: "plain_json (snapshot_json uuid db a p)" using assms(2) by (auto simp: snapshot_plain_def list_all_iff)
  have state: "application_configuration_state uuid db (app_ID a) \<noteq> None"
    using application_rows_state [OF \<open>(a, e, p) \<in> _\<close>] i unfolding sql_eq_def by blast
  have "dep_ConfigurationSnapshot d = configuration_snapshot uuid db (cd_ApplicationID arg)"
    using assms(1) unfolding create_deployment_def CreateDeployment_def Let_def by (auto split: list.splits if_splits)
  also have "\<dots> = Marshal (snapshot_json uuid db a p)" by (simp add: configuration_snapshot_def rows)
  finally have "decode_json (dep_ConfigurationSnapshot d) = Some (snapshot_json uuid db a p)" by (simp add: Marshal_roundtrip [OF plain])
  then have "stored_state d = application_configuration_state uuid db (app_ID a)"
    using state by (auto simp: stored_state_def snapshot_json_def)
  moreover have "app_ID a = cd_ApplicationID arg" using i by (simp add: sql_eq_def)
  ultimately show "stored_state d = application_configuration_state uuid db (cd_ApplicationID arg)" "stored_state d \<noteq> None"
    using state by simp_all
qed

lemma active_deployment_Some:
  assumes "active_deployment db a = Some d"
  shows "d \<in> set (deployments db)" "succeeded_for a d"
proof -
  define rows where "rows = [(d, s). d \<leftarrow> filter (succeeded_for a) (deployments db), s \<leftarrow> slots_for db a d]"
  obtain s rest where "sort_key (\<lambda>(d, s). if s = None then 1 else (0 :: nat))
        (sort_key (\<lambda>(d, s). case s of None \<Rightarrow> 1 | Some slot \<Rightarrow> newest_first (slot_UpdatedAt slot))
          (sort_key (\<lambda>(d, s). newest_first (dep_CreatedAt d)) rows)) = (d, s) # rest"
    using assms unfolding active_deployment_def rows_def by (auto split: list.splits)
  then have "(d, s) \<in> set rows" by (metis list.set_intros(1) set_sort)
  then show "d \<in> set (deployments db)" "succeeded_for a d" by (auto simp: rows_def)
qed

lemma required_iff_changed:
  assumes "create_deployment uuid new_id arg db = Inr (d, db1)" "snapshot_plain uuid db (cd_ApplicationID arg)"
    and "store_ok db" "db_run db1 db'" "active_deployment db' a = Some e" "dep_ID e = Some new_id"
  shows "redeploy_required uuid db' a p \<longleftrightarrow>
    application_configuration_state uuid db' (app_ID a) \<noteq> application_configuration_state uuid db (cd_ApplicationID arg)"
proof -
  note c = assms(1) [unfolded create_deployment_def]
  have ok: "store_ok db1" using stmt_keepsD [OF c assms(3) CreateDeployment_ok] .
  have "deployment_is db1 new_id d" using CreateDeployment_Inr(1,2) [OF c] by (simp add: deployment_is_def)
  then obtain e' where e': "deployment_is db' new_id e'" "dep_ConfigurationSnapshot e' = dep_ConfigurationSnapshot d"
    using db_run_snapshot [OF assms(4)] by blast
  note active = active_deployment_Some [OF assms(5)]
  have "e' = e" using deployment_is_unique [OF db_run_ok [OF assms(4) ok] e'(1)] active(1) assms(6) by (auto simp: deployment_is_def)
  then have "stored_state e = stored_state d" using e'(2) by (simp add: stored_state_def)
  moreover have "list_ex (succeeded_for a) (deployments db')" using active by (auto simp: list_ex_iff)
  ultimately show ?thesis using assms(5) created_snapshot [OF assms(1,2)] by (auto simp: redeploy_required_def)
qed

text \<open>C14. A redeployment is required exactly when the configuration differs from the one that the active
  deployment was created with, whatever ran and was edited in between; an edit that is taken back requires none.\<close>

theorem redeploy_required_iff_changed:
  assumes "create_deployment uuid new_id arg db = Inr (d, db1)" "snapshot_plain uuid db (cd_ApplicationID arg)"
    and "store_ok db" "db_run db1 db'" "active_deployment db' a = Some e" "dep_ID e = Some new_id"
  shows "redeploy_required uuid db' a p \<longleftrightarrow>
    application_configuration_state uuid db' (app_ID a) \<noteq> application_configuration_state uuid db (cd_ApplicationID arg)"
  by (rule required_iff_changed [OF assms])

text \<open>The sample: a deployment is created and succeeds, then a variable of the project is set and removed again.\<close>

definition config_db :: store where
  "config_db = sample_db\<lparr>deployments := []\<rparr>"

definition config_params :: create_deployment_params where
  "config_params = \<lparr>cd_Trigger = ''manual'', cd_Strategy = ''blue_green'', cd_CommitSha = None, cd_ImageRef = Some ''registry/shop:2'',
     cd_ImageDigest = None, cd_Actor = None, cd_ApplicationID = Some ''a1''\<rparr>"

definition run_stmt :: "'a stmt \<Rightarrow> store \<Rightarrow> store" where
  "run_stmt q db = (case q db of Inl _ \<Rightarrow> db | Inr (_, db') \<Rightarrow> db')"

definition config_created :: store where
  "config_created = run_stmt (create_deployment (\<lambda>u. u) ''d9'' config_params) config_db"

definition config_done :: store where
  "config_done = run_stmt (UpdateDeploymentStatus (Some ''d9'') ''succeeded'') config_created"

definition config_edited :: store where
  "config_edited = run_stmt (UpsertProjectRuntimeVariable (Some ''p1'') ''MODE'' ''fast'') config_done"

definition config_reverted :: store where
  "config_reverted = run_stmt (DeleteProjectRuntimeVariables (Some ''p1'')) config_edited"

lemma after_run:
  "db_run db0 db \<Longrightarrow> (\<And>x db'. q db = Inr (x, db') \<Longrightarrow> db_step db db') \<Longrightarrow> db_run db0 (run_stmt q db)"
  by (auto simp: run_stmt_def split: sum.splits intro: rtranclp.rtrancl_into_rtrancl)

lemma sample_edits_run: "db_run config_created config_edited" "db_run config_created config_reverted"
proof -
  have "db_run config_created config_done" unfolding config_done_def
    by (rule after_run) (auto intro: db_step.finish simp: terminal_def)
  then show edited: "db_run config_created config_edited" unfolding config_edited_def
    by (rule after_run) (rule db_step.variable_upsert)
  show "db_run config_created config_reverted" unfolding config_reverted_def
    by (rule after_run [OF edited]) (rule db_step.variables_delete)
qed

lemma sample_configuration:
  "store_ok config_db" "snapshot_plain (\<lambda>u. u) config_db (Some ''a1'')"
  "(case create_deployment (\<lambda>u. u) ''d9'' config_params config_db of Inl _ \<Rightarrow> False | Inr _ \<Rightarrow> True)"
  "map_option dep_ID (active_deployment config_edited sample_application) = Some (Some ''d9'')"
  "map_option dep_ID (active_deployment config_reverted sample_application) = Some (Some ''d9'')"
  "application_configuration_state (\<lambda>u. u) config_edited (Some ''a1'') \<noteq> application_configuration_state (\<lambda>u. u) config_db (Some ''a1'')"
  "application_configuration_state (\<lambda>u. u) config_reverted (Some ''a1'') = application_configuration_state (\<lambda>u. u) config_db (Some ''a1'')"
  by code_simp+

theorem redeploy_required_iff_changed_witness:
  "redeploy_required (\<lambda>u. u) config_edited sample_application sample_project
   \<and> \<not> redeploy_required (\<lambda>u. u) config_reverted sample_application sample_project"
proof -
  obtain d where c: "create_deployment (\<lambda>u. u) ''d9'' config_params config_db = Inr (d, config_created)"
    using sample_configuration(3) by (auto simp: config_created_def run_stmt_def split: sum.splits)
  have plain: "snapshot_plain (\<lambda>u. u) config_db (cd_ApplicationID config_params)"
    and app: "cd_ApplicationID config_params = Some ''a1''" "app_ID sample_application = Some ''a1''"
    using sample_configuration(2) by (simp_all add: config_params_def sample_application_def)
  obtain e e' where "active_deployment config_edited sample_application = Some e" "dep_ID e = Some ''d9''"
    "active_deployment config_reverted sample_application = Some e'" "dep_ID e' = Some ''d9''"
    using sample_configuration(4,5) by auto
  then show ?thesis
    using redeploy_required_iff_changed [OF c plain sample_configuration(1)] sample_edits_run sample_configuration(6,7) app by simp
qed

subsection \<open>Truthful replies\<close>

text \<open>A sample: the active deployment is older than the current revision of the configuration.\<close>

definition redeploy_db :: store where
  "redeploy_db = sample_db\<lparr>deployments := [sample_deployment\<lparr>dep_ID := Some ''d9'', dep_Status := ''succeeded'',
     dep_FinishedAt := Some 3, dep_ImageRef := Some ''registry/shop:2''\<rparr>]\<rparr>"

definition redeploy_system :: system where
  "redeploy_system = idle_system\<lparr>sys_world := (sys_world idle_system)\<lparr>w_store := redeploy_db\<rparr>\<rparr>"

definition redeploy_begun :: system where
  "redeploy_begun = redeploy_system\<lparr>sys_world := (sys_world redeploy_system)\<lparr>w_store := redeploy_db\<lparr>clock := 6\<rparr>, w_steps := 1\<rparr>\<rparr>"

definition sample_candidate :: redeploy_candidate where
  "sample_candidate = candidate_of (\<lambda>u. u) (redeploy_db\<lparr>clock := 6\<rparr>) sample_application sample_project"

definition sample_input :: create_deployment_params where
  "sample_input = \<lparr>cd_Trigger = ''manual'', cd_Strategy = ''blue_green'', cd_CommitSha = None, cd_ImageRef = Some ''registry/shop:2'',
     cd_ImageDigest = None, cd_Actor = Some ''10.0.0.7'', cd_ApplicationID = Some ''a1''\<rparr>"

lemma sample_candidate_facts:
  "rc_RedeployRequired sample_candidate = Some True" "\<not> rc_DeploymentInProgress sample_candidate"
  "redeploy_checks sample_http sample_application (source_of_candidate sample_application sample_candidate) ''10.0.0.7'' = Inr sample_input"
  "application_rows (redeploy_db\<lparr>clock := 6\<rparr>) = [(sample_application, sample_environment, sample_project)]"
  "deployment_params_check sample_input = None" "FormatNat (Suc (Suc (Suc 0))) = ''3''"
  "auditActor sample_request = ''10.0.0.7''"
  "parseUUIDParam sample_http sample_request ''applicationID'' = Inr (Some ''a1'')"
  "store_ok redeploy_db"
  by code_simp+

lemma sample_created:
  "\<exists>d db'. create_deployment (\<lambda>u. u) ''3'' sample_input (redeploy_db\<lparr>clock := 6\<rparr>) = Inr (d, db') \<and> dep_ID d = Some ''3''"
proof -
  have "(case create_deployment (\<lambda>u. u) ''3'' sample_input (redeploy_db\<lparr>clock := 6\<rparr>) of Inl _ \<Rightarrow> False | Inr (d, _) \<Rightarrow> dep_ID d = Some ''3'')"
    by code_simp
  then show ?thesis by (auto split: sum.splits)
qed

lemma sample_body:
  assumes "create_deployment (\<lambda>u. u) ''3'' sample_input (redeploy_db\<lparr>clock := 6\<rparr>) = Inr (d, db')"
  shows "fst (run_state (redeploy_body sample_http (Some ''a1'') ''10.0.0.7'') redeploy_begun)
     = ((no_creation\<lparr>crc_source := source_of_candidate sample_application sample_candidate, crc_deployment := Some d\<rparr>, None), True)"
proof -
  have app: "GetApplicationForUpdate (Some ''a1'') (redeploy_db\<lparr>clock := 6\<rparr>) = Inr (sample_application, redeploy_db\<lparr>clock := 6\<rparr>)"
    by (simp add: GetApplicationForUpdate_def redeploy_db_def sample_db_def sample_application_def one_row_def try_bind_def)
  have cand: "GetApplicationConfigurationRedeployCandidate (\<lambda>u. u) (Some ''a1'') (redeploy_db\<lparr>clock := 6\<rparr>) = Inr (sample_candidate, redeploy_db\<lparr>clock := 6\<rparr>)"
    by (simp add: GetApplicationConfigurationRedeployCandidate_def sample_candidate_facts(4) one_row_def try_bind_def sample_candidate_def)
      (simp add: sample_application_def)
  show ?thesis
    using app cand assms sample_candidate_facts(1-3)
    by (simp add: sample_candidate_facts(6) redeploy_body_def Let_def run_bind tx_serve_def run_on_world db_exec_def next_step_def sample_http_def sample_queue_def sample_env_def
      redeploy_begun_def)
qed

lemma sample_redeployed:
  "\<exists>d s'. run_state (createConfigurationRedeployment sample_http (Some ''a1'') ''10.0.0.7'') redeploy_system
     = ((no_creation\<lparr>crc_source := source_of_candidate sample_application sample_candidate, crc_deployment := Some d\<rparr>, None), s')
     \<and> dep_ID d = Some ''3''"
proof -
  obtain d db' where d: "create_deployment (\<lambda>u. u) ''3'' sample_input (redeploy_db\<lparr>clock := 6\<rparr>) = Inr (d, db')" "dep_ID d = Some ''3''"
    using sample_created by blast
  obtain s2 where run: "run_state (redeploy_body sample_http (Some ''a1'') ''10.0.0.7'') redeploy_begun
     = (((no_creation\<lparr>crc_source := source_of_candidate sample_application sample_candidate, crc_deployment := Some d\<rparr>, None), True), s2)"
    using sample_body [OF d(1)] by (metis prod.collapse)
  have served: "db_outcomes (h_runner sample_http) = (\<lambda>_. Served)" by (simp add: sample_http_def sample_queue_def sample_env_def)
  have b: "run_state (serve sample_http no_op) redeploy_system = (Inr (), redeploy_begun)"
    by (simp add: no_op_def serve_def run_on_world db_exec_def run_bind next_step_def sample_http_def sample_queue_def sample_env_def
      redeploy_system_def redeploy_begun_def idle_system_def sample_world_def redeploy_db_def sample_db_def)
  have "\<exists>s'. run_state (createConfigurationRedeployment sample_http (Some ''a1'') ''10.0.0.7'') redeploy_system
     = ((no_creation\<lparr>crc_source := source_of_candidate sample_application sample_candidate, crc_deployment := Some d\<rparr>, None), s')"
    unfolding createConfigurationRedeployment_def transaction_def
    by (simp add: run_bind b run current_store_def Commit_def run_on_world next_step_def served)
  then show ?thesis using d(2) by blast
qed



subsection \<open>The source of a redeployment\<close>

lemma normalizeCreateDeployment_source:
  assumes "normalizeCreateDeployment input0 = Inr input"
  shows "cd_CommitSha input = blankTextAsNull (trim_text (cd_CommitSha input0))" "cd_ImageRef input = blankTextAsNull (cd_ImageRef input0)"
    "cd_ImageDigest input = blankTextAsNull (cd_ImageDigest input0)"
  using assms unfolding normalizeCreateDeployment_def Let_def by (auto split: if_split_asm)

lemma immutable_image_pinned:
  assumes "immutableConfigurationImage image_ref image_digest = Inr (ref', digest')" "TrimSpace (text_String image_digest) \<noteq> []"
  shows "ref' = Some (fst (Cut (TrimSpace (text_String image_ref)) (CHR ''@'')) @ ''@'' @ TrimSpace (text_String image_digest))"
    "digest' = Some (TrimSpace (text_String image_digest))" "blankTextAsNull ref' = ref'"
  using assms unfolding immutableConfigurationImage_def Let_def
  by (auto simp: blankTextAsNull_def validImageRef_def Let_def split: prod.splits if_split_asm)

text \<open>C19. A redeployment runs what is running: unless the repository or the branch was changed, it has the commit of the
  active deployment, or its image, which is pinned to the digest where one was recorded; there is always one of
  them. After a change of the source it names none of them, and the configured branch is built.\<close>

theorem redeploy_source_pinned:
  assumes "configurationRedeployInput source actor = Inr input"
  shows "if configurationRedeploySourceChanged source
    then cd_CommitSha input = None \<and> cd_ImageRef input = None \<and> cd_ImageDigest input = None
    else cd_CommitSha input = blankTextAsNull (trim_text (crs_CommitSHA source))
      \<and> (cd_CommitSha input \<noteq> None \<or> cd_ImageRef input \<noteq> None)
      \<and> (TrimSpace (text_String (crs_ImageRef source)) \<noteq> [] \<and> TrimSpace (text_String (crs_ImageDigest source)) \<noteq> [] \<longrightarrow>
          cd_ImageRef input = Some (fst (Cut (TrimSpace (text_String (crs_ImageRef source))) (CHR ''@'')) @ ''@''
            @ TrimSpace (text_String (crs_ImageDigest source)))
          \<and> cd_ImageDigest input = Some (TrimSpace (text_String (crs_ImageDigest source))))"
proof (cases "configurationRedeploySourceChanged source")
  case True
  then have "normalizeCreateDeployment (redeploy_params source actor None None None) = Inr input"
    using assms by (auto simp: configurationRedeployInput_def try_bind_eq_Inr_iff split: if_split_asm)
  from normalizeCreateDeployment_source [OF this] show ?thesis
    using True by (simp add: redeploy_params_def blankTextAsNull_def trim_text_def)
next
  case False
  then obtain commit ref digest where n: "normalizeCreateDeployment (redeploy_params source actor commit ref digest) = Inr input"
    and commit: "commit = crs_CommitSHA source" and some: "cd_CommitSha input \<noteq> None \<or> cd_ImageRef input \<noteq> None"
    and image: "crs_ImageRef source \<noteq> None \<and> TrimSpace (text_String (crs_ImageRef source)) \<noteq> [] \<Longrightarrow>
      immutableConfigurationImage (crs_ImageRef source) (crs_ImageDigest source) = Inr (ref, digest)"
    using assms by (auto simp: configurationRedeployInput_def try_bind_eq_Inr_iff split: if_split_asm)
  note fields = normalizeCreateDeployment_source [OF n]
  have "cd_ImageRef input = Some (fst (Cut (TrimSpace (text_String (crs_ImageRef source))) (CHR ''@'')) @ ''@''
            @ TrimSpace (text_String (crs_ImageDigest source)))
        \<and> cd_ImageDigest input = Some (TrimSpace (text_String (crs_ImageDigest source)))"
    if "TrimSpace (text_String (crs_ImageRef source)) \<noteq> []" "TrimSpace (text_String (crs_ImageDigest source)) \<noteq> []"
  proof -
    have "crs_ImageRef source \<noteq> None" using that(1) by (cases "crs_ImageRef source") (simp_all add: text_String_def)
    note pinned = immutable_image_pinned [OF image that(2)]
    show ?thesis using fields(2,3) pinned that \<open>crs_ImageRef source \<noteq> None\<close>
      by (simp add: redeploy_params_def) (simp add: blankTextAsNull_def TrimSpace_idem)
  qed
  then show ?thesis using False some fields(1) commit by (simp add: redeploy_params_def)
qed

definition sample_digest :: string where
  "sample_digest = ''sha256:'' @ replicate 64 (CHR ''a'')"

definition pinned_source :: redeploy_source where
  "pinned_source = no_source\<lparr>crs_ApplicationID := Some ''a1'', crs_SourceDeploymentID := Some ''d9'',
     crs_ImageRef := Some ''registry/shop:2'', crs_ImageDigest := Some sample_digest\<rparr>"

theorem redeploy_source_pinned_witness:
  "\<exists>input. configurationRedeployInput pinned_source ''10.0.0.7'' = Inr input
     \<and> cd_ImageRef input = Some (''registry/shop:2@'' @ sample_digest) \<and> cd_ImageDigest input = Some sample_digest"
proof -
  have "(case configurationRedeployInput pinned_source ''10.0.0.7'' of Inl _ \<Rightarrow> False | Inr _ \<Rightarrow> True)" by code_simp
  then obtain input where i: "configurationRedeployInput pinned_source ''10.0.0.7'' = Inr input" by (auto split: sum.splits)
  have facts: "\<not> configurationRedeploySourceChanged pinned_source" "TrimSpace (text_String (crs_ImageRef pinned_source)) = ''registry/shop:2''"
    "TrimSpace (text_String (crs_ImageDigest pinned_source)) = sample_digest" "sample_digest \<noteq> []"
    "fst (Cut ''registry/shop:2'' (CHR ''@'')) = ''registry/shop:2''" by code_simp+
  from redeploy_source_pinned [OF i] show ?thesis using i facts by simp
qed

end
