(* ===== verification/Credential_Inventory.thy ===== *)
theory Credential_Inventory
  imports Http_Base Github_Connector
begin

text \<open>
  Credentials that connectors report: the inventory of object storage buckets (\<^verbatim>\<open>internal/objectstorage\<close>), the
  recognition of secret material, and the normalization and merging of inventories
  (\<^verbatim>\<open>internal/httpapi/credential_inventory_normalize.go\<close>, \<^verbatim>\<open>connector_validation.go\<close>). Only references to credentials
  are stored, never the credentials.
\<close>

subsection \<open>Numbers in generic JSON values\<close>

text \<open>
  \<open>json.Unmarshal\<close> into an interface converts numbers to \<open>float64\<close> and fails on those that round to infinity:
  the literal is at least \<open>2^1024 - 2^970\<close>.
\<close>

definition decimal_value :: "string \<Rightarrow> nat" where
  "decimal_value s = fold (\<lambda>c n. 10 * n + (byte c - 48)) s 0"

definition float64_overflows :: "string \<Rightarrow> bool" where
  "float64_overflows literal \<longleftrightarrow>
     (let (mantissa0, exponent0) = (case Split (map lower_char literal) (CHR ''e'') of m # e # _ \<Rightarrow> (m, e) | m # _ \<Rightarrow> (m, []) | [] \<Rightarrow> ([], []));
          mantissa = (if HasPrefix mantissa0 ''-'' then tl mantissa0 else mantissa0);
          whole = takeWhile is_digit mantissa;
          fraction = drop (Suc (length whole)) mantissa;
          negative = HasPrefix exponent0 ''-'';
          expo = int (decimal_value (filter is_digit exponent0));
          scale = (if negative then - expo else expo) - int (length fraction);
          digits = decimal_value (whole @ fraction);
          bound = 2 ^ 1024 - 2 ^ 970 in
      if 0 \<le> scale then bound \<le> digits * 10 ^ nat scale else bound * 10 ^ nat (- scale) \<le> digits)"

fun float64_numbers :: "json \<Rightarrow> bool" where
  "float64_numbers (JNum n) = (\<not> float64_overflows n)"
| "float64_numbers (JArr vs) = list_all float64_numbers vs"
| "float64_numbers (JObj kvs) = list_all (\<lambda>(k, v). float64_numbers v) kvs"
| "float64_numbers _ = True"

text \<open>The keys of a document that is an object.\<close>

definition object_keys :: "string \<Rightarrow> string list option" where
  "object_keys value =
     (case decode_json value of
        Some j \<Rightarrow> if float64_numbers j then map_option (map fst) (object_members j) else None
      | None \<Rightarrow> None)"

subsection \<open>Secret material\<close>

definition looksLikeCredentialJSON :: "string \<Rightarrow> bool" where
  "looksLikeCredentialJSON value \<longleftrightarrow>
     (if \<not> HasPrefix value ''{'' then False
      else case object_keys value of
        None \<Rightarrow> False
      | Some keys \<Rightarrow> list_ex (\<lambda>key. key \<in> set keys)
          [''private_key'', ''private_key_id'', ''client_secret'', ''access_token'', ''refresh_token''])"

definition key_markers :: "string list" where
  "key_markers = [''-----BEGIN'', ''PRIVATE KEY'', ''BEGIN OPENSSH PRIVATE KEY'', ''BEGIN RSA PRIVATE KEY'']"

definition token_prefixes :: "string list" where
  "token_prefixes = [''ghp_'', ''github_pat_'', ''xoxb-'', ''xoxp-'', ''sk_live_'', ''sk_test_'', ''dp.pt.'', ''aiza'']"

definition assignment_markers :: "string list" where
  "assignment_markers = [''password='', ''passwd='', ''pwd='', ''token='', ''secret='', ''api_key='', ''apikey='',
     ''client_secret='', ''access_key='']"

definition looksLikeSecretMaterial :: "string \<Rightarrow> bool" where
  "looksLikeSecretMaterial value0 \<longleftrightarrow>
     (let value = TrimSpace value0; upper = ToUpper value; lower = ToLower value in
      if value = [] then False
      else if list_ex (Contains upper) key_markers then True
      else if list_ex (HasPrefix lower) token_prefixes then True
      else if HasPrefix upper ''AKIA'' \<or> HasPrefix upper ''ASIA'' then length value = 20
      else if HasPrefix lower ''https://hooks.slack.com/services/'' then True
      else if HasPrefix lower ''bearer '' \<or> HasPrefix lower ''basic '' then True
      else if list_ex (Contains lower) assignment_markers then True
      else if (case Parse value of Some u \<Rightarrow> url_Scheme u \<noteq> [] \<and> url_Host u \<noteq> [] \<and> url_HasUser u | None \<Rightarrow> False) then True
      else looksLikeCredentialJSON value)"

definition isSecretConfigKey :: "string \<Rightarrow> bool" where
  "isSecretConfigKey key = IsSecretKey key"

text \<open>
  The rules for configurations, on a decoded value: an object is a map, whose iteration order does not
  matter.
\<close>

fun hasSecretConfigKey :: "json \<Rightarrow> bool" where
  "hasSecretConfigKey (JObj kvs) = list_ex (\<lambda>(key, value). isSecretConfigKey key \<or> hasSecretConfigKey value) kvs"
| "hasSecretConfigKey (JArr vs) = list_ex hasSecretConfigKey vs"
| "hasSecretConfigKey _ = False"

fun hasSecretConfigValue :: "json \<Rightarrow> bool" where
  "hasSecretConfigValue (JObj kvs) = list_ex (\<lambda>(key, value). hasSecretConfigValue value) kvs"
| "hasSecretConfigValue (JArr vs) = list_ex hasSecretConfigValue vs"
| "hasSecretConfigValue (JStr s) = looksLikeSecretMaterial s"
| "hasSecretConfigValue _ = False"

fun pruneConnectorValue :: "json \<Rightarrow> json option" where
  "pruneConnectorValue JNull = None"
| "pruneConnectorValue (JStr s) = (let trimmed = TrimSpace s in if trimmed = [] then None else Some (JStr trimmed))"
| "pruneConnectorValue (JObj kvs) =
     (let pruned = concat (map (\<lambda>(key, value). case pruneConnectorValue value of None \<Rightarrow> [] | Some v \<Rightarrow> [(key, v)]) kvs) in
      if pruned = [] then None else Some (JObj pruned))"
| "pruneConnectorValue (JArr vs) =
     (let pruned = concat (map (\<lambda>value. case pruneConnectorValue value of None \<Rightarrow> [] | Some v \<Rightarrow> [v]) vs) in if pruned = [] then None else Some (JArr pruned))"
| "pruneConnectorValue v = Some v"

definition pruneConnectorConfig :: "(string \<times> json) list \<Rightarrow> (string \<times> json) list" where
  "pruneConnectorConfig kvs = concat (map (\<lambda>(key, value). case pruneConnectorValue value of None \<Rightarrow> [] | Some v \<Rightarrow> [(key, v)]) kvs)"

subsection \<open>Object storage\<close>

record bucket_inventory =
  bi_Provider :: string
  bi_CredentialName :: string
  bi_ExternalRef :: string
  bi_CredentialType :: string
  bi_Status :: string
  bi_Bucket :: string
  bi_Permissions :: "string list"
  bi_Usages :: "credential_usage list"

definition normalizeProvider :: "string \<Rightarrow> string" where
  "normalizeProvider provider = ToLower (TrimSpace provider)"

definition bucketResourceName :: "string \<Rightarrow> string \<Rightarrow> string" where
  "bucketResourceName provider bucket = (if provider = ''gcs'' then ''gs://'' @ bucket else provider @ ''://'' @ bucket)"

definition bucket_usages :: "string \<Rightarrow> string \<Rightarrow> credential_usage list \<Rightarrow> credential_usage list" where
  "bucket_usages provider bucket usages =
     (let kept = map (\<lambda>u. \<lparr>usage_UsedByType = TrimSpace (usage_UsedByType u), usage_UsedByName = TrimSpace (usage_UsedByName u),
                           usage_Context = TrimSpace (usage_Context u)\<rparr>)
            (filter (\<lambda>u. TrimSpace (usage_UsedByType u) \<noteq> [] \<and> TrimSpace (usage_UsedByName u) \<noteq> [] \<and> TrimSpace (usage_Context u) \<noteq> []) usages) in
      if kept = []
      then [\<lparr>usage_UsedByType = ''bucket'', usage_UsedByName = bucketResourceName provider bucket, usage_Context = ''object storage access''\<rparr>]
      else kept)"

definition ToCredentialInventory :: "bucket_inventory \<Rightarrow> go_error + credential_inventory" where
  "ToCredentialInventory inp =
     (let provider = normalizeProvider (bi_Provider inp);
          name = TrimSpace (bi_CredentialName inp);
          ref = TrimSpace (bi_ExternalRef inp);
          type0 = TrimSpace (bi_CredentialType inp);
          bucket = TrimSpace (bi_Bucket inp) in
      case NormalizeCredentialStatus (bi_Status inp) of
        None \<Rightarrow> Inl (Errorf ''credential status must be active, rotating, revoked, or unknown'')
      | Some status \<Rightarrow>
          if provider \<noteq> ''s3'' \<and> provider \<noteq> ''gcs'' then Inl (Errorf ''provider must be s3 or gcs'')
          else if name = [] \<or> ref = [] \<or> bucket = [] then Inl (Errorf ''credential_name, external_ref, and bucket are required'')
          else Inr \<lparr>inv_Name = name, inv_Provider = provider, inv_ExternalRef = ref,
                 inv_Type = (if type0 = [] then ''service_account'' else type0), inv_Status = status,
                 inv_Permissions = map (\<lambda>p. \<lparr>perm_ResourceType = ''bucket'', perm_ResourceName = bucketResourceName provider bucket,
                                             perm_Permission = p, perm_Source = provider\<rparr>)
                   (filter (\<lambda>p. p \<noteq> []) (map TrimSpace (bi_Permissions inp))),
                 inv_Usages = bucket_usages provider bucket (bi_Usages inp)\<rparr>)"

definition decode_bucket :: "(string \<times> json) list \<Rightarrow> bucket_inventory option" where
  "decode_bucket kvs =
     Option.bind (string_field ''provider'' kvs []) (\<lambda>provider.
     Option.bind (string_field ''credential_name'' kvs []) (\<lambda>name.
     Option.bind (string_field ''external_ref'' kvs []) (\<lambda>ref.
     Option.bind (string_field ''credential_type'' kvs []) (\<lambda>type0.
     Option.bind (string_field ''status'' kvs []) (\<lambda>status.
     Option.bind (string_field ''bucket'' kvs []) (\<lambda>bucket.
     Option.bind (strings_field ''permissions'' kvs) (\<lambda>permissions.
     Option.bind (structs_field ''usages'' kvs) (\<lambda>objects.
     Option.bind (all_some (map decode_usage objects)) (\<lambda>usages.
       Some \<lparr>bi_Provider = provider, bi_CredentialName = name, bi_ExternalRef = ref, bi_CredentialType = type0, bi_Status = status,
             bi_Bucket = bucket, bi_Permissions = permissions, bi_Usages = usages\<rparr>)))))))))"

fun sync_buckets :: "string \<Rightarrow> bucket_inventory list \<Rightarrow> go_error + credential_inventory list" where
  "sync_buckets provider [] = Inr []"
| "sync_buckets provider (bucket0 # buckets) =
     (let bucket = (if TrimSpace (bi_Provider bucket0) = [] then bucket0\<lparr>bi_Provider := provider\<rparr> else bucket0) in
      if normalizeProvider (bi_Provider bucket) \<noteq> provider
        then Inl (Errorf (''bucket provider must match '' @ provider @ '' connector''))
      else try_bind (ToCredentialInventory bucket) (\<lambda>item.
        try_bind (sync_buckets provider buckets) (\<lambda>items. Inr (item # items))))"

text \<open>The text of the JSON error is a parameter.\<close>

definition SyncCredentials_buckets :: "(string \<Rightarrow> string) \<Rightarrow> string \<Rightarrow> string \<Rightarrow> go_error + credential_inventory list" where
  "SyncCredentials_buckets json_err provider config =
     (if provider \<noteq> ''s3'' \<and> provider \<noteq> ''gcs'' then Inl (Errorf ''provider must be s3 or gcs'')
      else case Option.bind (decode_json config) (\<lambda>j. Option.bind (object_members j) (\<lambda>kvs.
             Option.bind (structs_field ''buckets'' kvs) (\<lambda>objects. all_some (map decode_bucket objects)))) of
        None \<Rightarrow> Inl (Errorf (''parse object storage connector config: '' @ json_err config))
      | Some buckets \<Rightarrow>
          if buckets = [] then Inl (Errorf ''object storage connector config requires buckets'')
          else sync_buckets provider buckets)"

subsection \<open>Normalization of inventories\<close>

definition hasControlCharacters :: "string list \<Rightarrow> bool" where
  "hasControlCharacters values \<longleftrightarrow> list_ex (\<lambda>value. ContainsAny value [CHR 0x0D, CHR 0x0A, CHR 0x09]) values"

definition allowedCredentialProviders :: "string list" where
  "allowedCredentialProviders = [''github'', ''doppler'', ''s3'', ''gcs'', ''slack'', ''resend'', ''ssh'']"

definition maxCredentialInventoryBatchSize :: nat where
  "maxCredentialInventoryBatchSize = 500"

definition joined_key :: "string list \<Rightarrow> string" where
  "joined_key parts = Join parts [CHR 0x00]"

definition permission_key :: "credential_permission \<Rightarrow> string" where
  "permission_key p = joined_key [perm_ResourceType p, perm_ResourceName p, perm_Permission p]"

definition usage_key :: "credential_usage \<Rightarrow> string" where
  "usage_key u = joined_key [usage_UsedByType u, usage_UsedByName u, usage_Context u]"

definition trim_permission :: "credential_permission \<Rightarrow> credential_permission" where
  "trim_permission p =
     (let source = TrimSpace (perm_Source p) in
      \<lparr>perm_ResourceType = TrimSpace (perm_ResourceType p), perm_ResourceName = TrimSpace (perm_ResourceName p),
       perm_Permission = TrimSpace (perm_Permission p), perm_Source = (if source = [] then ''connector'' else source)\<rparr>)"

fun normalize_permissions :: "string list \<Rightarrow> credential_permission list \<Rightarrow> http_error + credential_permission list" where
  "normalize_permissions seen [] = Inr []"
| "normalize_permissions seen (value0 # values) =
     (let value = trim_permission value0 in
      if perm_ResourceType value = [] \<or> perm_ResourceName value = [] \<or> perm_Permission value = []
        then Inl (ValidationError ''permission resource_type, resource_name, and permission are required'')
      else if hasControlCharacters [perm_ResourceType value, perm_ResourceName value, perm_Permission value, perm_Source value]
        then Inl (ValidationError ''permission fields cannot contain control characters'')
      else if permission_key value \<in> set seen then normalize_permissions seen values
      else try_bind (normalize_permissions (permission_key value # seen) values) (\<lambda>rest. Inr (value # rest)))"

definition normalizeCredentialPermissions :: "credential_permission list \<Rightarrow> http_error + credential_permission list" where
  "normalizeCredentialPermissions values = normalize_permissions [] values"

definition trim_credential_usage :: "credential_usage \<Rightarrow> credential_usage" where
  "trim_credential_usage u = \<lparr>usage_UsedByType = TrimSpace (usage_UsedByType u), usage_UsedByName = TrimSpace (usage_UsedByName u),
     usage_Context = TrimSpace (usage_Context u)\<rparr>"

fun normalize_usages :: "string list \<Rightarrow> credential_usage list \<Rightarrow> http_error + credential_usage list" where
  "normalize_usages seen [] = Inr []"
| "normalize_usages seen (value0 # values) =
     (let value = trim_credential_usage value0 in
      if usage_UsedByType value = [] \<or> usage_UsedByName value = [] \<or> usage_Context value = []
        then Inl (ValidationError ''usage used_by_type, used_by_name, and usage_context are required'')
      else if hasControlCharacters [usage_UsedByType value, usage_UsedByName value, usage_Context value]
        then Inl (ValidationError ''usage fields cannot contain control characters'')
      else if usage_key value \<in> set seen then normalize_usages seen values
      else try_bind (normalize_usages (usage_key value # seen) values) (\<lambda>rest. Inr (value # rest)))"

definition normalizeCredentialUsages :: "credential_usage list \<Rightarrow> http_error + credential_usage list" where
  "normalizeCredentialUsages values = normalize_usages [] values"

definition validCredentialStatus :: "string \<Rightarrow> bool" where
  "validCredentialStatus status \<longleftrightarrow> NormalizeCredentialStatus status \<noteq> None"

definition normalizeCredentialInventoryItem :: "credential_inventory \<Rightarrow> http_error + credential_inventory" where
  "normalizeCredentialInventoryItem item0 =
     (let status0 = TrimSpace (inv_Status item0);
          item = item0\<lparr>inv_Name := TrimSpace (inv_Name item0), inv_Provider := ToLower (TrimSpace (inv_Provider item0)),
            inv_ExternalRef := TrimSpace (inv_ExternalRef item0), inv_Type := TrimSpace (inv_Type item0),
            inv_Status := (if status0 = [] then ''active'' else status0)\<rparr> in
      if \<not> validCredentialStatus (inv_Status item)
        then Inl (ValidationError ''credential status must be active, rotating, revoked, or unknown'')
      else if inv_Name item = [] \<or> inv_Provider item = [] \<or> inv_ExternalRef item = [] \<or> inv_Type item = []
        then Inl (ValidationError ''name, provider, external_ref, and credential_type are required'')
      else if hasControlCharacters [inv_Name item, inv_ExternalRef item, inv_Type item]
        then Inl (ValidationError ''credential identity fields cannot contain control characters'')
      else if looksLikeSecretMaterial (inv_ExternalRef item)
        then Inl (ValidationError ''credential external_ref must be a reference, not a secret value'')
      else if inv_Provider item \<notin> set allowedCredentialProviders
        then Inl (ValidationError ''credential provider must be github, doppler, s3, gcs, slack, resend, or ssh'')
      else try_bind (normalizeCredentialPermissions (inv_Permissions item)) (\<lambda>permissions.
        try_bind (normalizeCredentialUsages (inv_Usages item)) (\<lambda>usages.
          Inr (item\<lparr>inv_Permissions := permissions, inv_Usages := usages\<rparr>))))"

definition credentialStatusPriority :: "string \<Rightarrow> nat" where
  "credentialStatusPriority status =
     (if status = ''revoked'' then 4 else if status = ''rotating'' then 3 else if status = ''unknown'' then 2
      else if status = ''active'' then 1 else 0)"

definition mergedCredentialStatus :: "string \<Rightarrow> string \<Rightarrow> string" where
  "mergedCredentialStatus left right =
     (if credentialStatusPriority left < credentialStatusPriority right then right else left)"

definition credentialInventoryKey :: "credential_inventory \<Rightarrow> string" where
  "credentialInventoryKey item = joined_key [inv_Provider item, inv_ExternalRef item]"

text \<open>An error of the second normalization is dropped with the list, as in the source.\<close>

definition merge_item :: "credential_inventory \<Rightarrow> credential_inventory \<Rightarrow> credential_inventory" where
  "merge_item existing item =
     existing\<lparr>inv_Permissions := (case normalizeCredentialPermissions (inv_Permissions existing @ inv_Permissions item) of
                  Inl _ \<Rightarrow> [] | Inr ps \<Rightarrow> ps),
              inv_Usages := (case normalizeCredentialUsages (inv_Usages existing @ inv_Usages item) of Inl _ \<Rightarrow> [] | Inr us \<Rightarrow> us),
              inv_Status := mergedCredentialStatus (inv_Status existing) (inv_Status item)\<rparr>"

text \<open>The index by key finds the one entry of the key.\<close>

fun merge_items :: "credential_inventory list \<Rightarrow> credential_inventory list \<Rightarrow> credential_inventory list" where
  "merge_items merged [] = merged"
| "merge_items merged (item # items) =
     (let key = credentialInventoryKey item in
      if list_ex (\<lambda>x. credentialInventoryKey x = key) merged
      then merge_items (map (\<lambda>x. if credentialInventoryKey x = key then merge_item x item else x) merged) items
      else merge_items (merged @ [item]) items)"

definition mergeCredentialInventoryItems :: "credential_inventory list \<Rightarrow> credential_inventory list" where
  "mergeCredentialInventoryItems items = merge_items [] items"

fun normalize_items :: "credential_inventory list \<Rightarrow> http_error + credential_inventory list" where
  "normalize_items [] = Inr []"
| "normalize_items (item # items) =
     try_bind (normalizeCredentialInventoryItem item) (\<lambda>x. try_bind (normalize_items items) (\<lambda>xs. Inr (x # xs)))"

definition normalizeCredentialInventoryInput :: "credential_inventory list \<Rightarrow> http_error + credential_inventory list" where
  "normalizeCredentialInventoryInput credentials =
     (if credentials = [] then Inl (ValidationError ''credentials are required'')
      else if maxCredentialInventoryBatchSize < length credentials
        then Inl (ValidationError ''credential inventory batch cannot exceed 500 credentials'')
      else try_bind (normalize_items credentials) (\<lambda>items. Inr (mergeCredentialInventoryItems items)))"

fun bucket_items :: "bucket_inventory list \<Rightarrow> http_error + credential_inventory list" where
  "bucket_items [] = Inr []"
| "bucket_items (bucket # buckets) =
     (case ToCredentialInventory bucket of
        Inl err \<Rightarrow> Inl (ValidationError (err_text err))
      | Inr inventory \<Rightarrow>
          try_bind (normalizeCredentialInventoryItem inventory) (\<lambda>x. try_bind (bucket_items buckets) (\<lambda>xs. Inr (x # xs))))"

definition credentialInventoryFromObjectStorage :: "bucket_inventory list \<Rightarrow> http_error + credential_inventory list" where
  "credentialInventoryFromObjectStorage buckets =
     (if maxCredentialInventoryBatchSize < length buckets
        then Inl (ValidationError ''object storage inventory batch cannot exceed 500 buckets'')
      else try_bind (bucket_items buckets) (\<lambda>items. Inr (mergeCredentialInventoryItems items)))"

end
