(* ===== verification/Credential_Inventory_Proofs.thy ===== *)
theory Credential_Inventory_Proofs
  imports Credential_Inventory
begin

text \<open>
  A normalized inventory has one entry for each credential, holds no secret material as a reference, and
  loses nothing that was reported: every permission, every usage and the most severe status of a
  credential are in its entry.
\<close>

subsection \<open>Lists without duplicates\<close>

text \<open>
  Permissions and usages are normalized the same way: each value is trimmed and checked, and one whose key
  was seen before is left out.
\<close>

locale deduplicating =
  fixes trim :: "'a \<Rightarrow> 'a" and key :: "'a \<Rightarrow> string" and reject :: "'a \<Rightarrow> http_error option"
    and norm :: "string list \<Rightarrow> 'a list \<Rightarrow> http_error + 'a list"
  assumes trim_idem: "trim (trim v) = trim v"
    and norm_Nil: "norm seen [] = Inr []"
    and norm_Cons: "norm seen (v # vs) =
      (case reject (trim v) of
         Some err \<Rightarrow> Inl err
       | None \<Rightarrow>
           if key (trim v) \<in> set seen then norm seen vs
           else try_bind (norm (key (trim v) # seen) vs) (\<lambda>rest. Inr (trim v # rest)))"
begin

definition good :: "'a \<Rightarrow> bool" where
  "good v \<longleftrightarrow> trim v = v \<and> reject v = None"

lemma norm_Inr:
  "norm seen vs = Inr ps \<Longrightarrow> distinct (map key ps) \<and> key ` set ps \<inter> set seen = {} \<and> list_all good ps
     \<and> key ` set ps \<union> set seen = key ` trim ` set vs \<union> set seen"
proof (induction vs arbitrary: seen ps)
  case Nil
  then show ?case by (simp add: norm_Nil)
next
  case (Cons v vs)
  have v: "good (trim v)" using Cons.prems by (auto simp: norm_Cons good_def trim_idem split: option.splits)
  show ?case
  proof (cases "key (trim v) \<in> set seen")
    case True
    then have "norm seen vs = Inr ps" using Cons.prems by (auto simp: norm_Cons split: option.splits)
    then show ?thesis using Cons.IH [of seen ps] True by auto
  next
    case False
    then obtain rest where rest: "norm (key (trim v) # seen) vs = Inr rest" "ps = trim v # rest"
      using Cons.prems by (auto simp: norm_Cons try_bind_eq_Inr_iff split: option.splits)
    then show ?thesis using False v Cons.IH [OF rest(1)] by auto
  qed
qed

lemma norm_total: "list_all good vs \<Longrightarrow> \<exists>ps. norm seen vs = Inr ps"
proof (induction vs arbitrary: seen)
  case (Cons v vs)
  have v: "trim v = v" "reject v = None" using Cons.prems by (simp_all add: good_def)
  obtain ps qs where "norm seen vs = Inr ps" "norm (key v # seen) vs = Inr qs"
    using Cons.IH [of seen] Cons.IH [of "key v # seen"] Cons.prems by auto
  then show ?case by (simp add: norm_Cons v try_bind_def)
qed (simp add: norm_Nil)

lemma norm_good:
  assumes "list_all good vs"
  obtains ps where "norm [] vs = Inr ps" "distinct (map key ps)" "list_all good ps" "key ` set ps = key ` set vs"
proof -
  obtain ps where ps: "norm [] vs = Inr ps" using norm_total [OF assms] by blast
  have "trim ` set vs = set vs" using assms by (force simp: list_all_iff good_def)
  then show thesis using that [OF ps] norm_Inr [OF ps] by auto
qed

end

definition permission_reject :: "credential_permission \<Rightarrow> http_error option" where
  "permission_reject p =
     (if perm_ResourceType p = [] \<or> perm_ResourceName p = [] \<or> perm_Permission p = []
        then Some (ValidationError ''permission resource_type, resource_name, and permission are required'')
      else if hasControlCharacters [perm_ResourceType p, perm_ResourceName p, perm_Permission p, perm_Source p]
        then Some (ValidationError ''permission fields cannot contain control characters'')
      else None)"

definition usage_reject :: "credential_usage \<Rightarrow> http_error option" where
  "usage_reject u =
     (if usage_UsedByType u = [] \<or> usage_UsedByName u = [] \<or> usage_Context u = []
        then Some (ValidationError ''usage used_by_type, used_by_name, and usage_context are required'')
      else if hasControlCharacters [usage_UsedByType u, usage_UsedByName u, usage_Context u]
        then Some (ValidationError ''usage fields cannot contain control characters'')
      else None)"

interpretation permissions: deduplicating trim_permission permission_key permission_reject normalize_permissions
proof unfold_locales
  fix v
  have "TrimSpace ''connector'' = ''connector''" by code_simp
  then show "trim_permission (trim_permission v) = trim_permission v"
    by (simp add: trim_permission_def Let_def TrimSpace_idem)
qed (simp_all add: permission_reject_def Let_def)

interpretation usages: deduplicating trim_credential_usage usage_key usage_reject normalize_usages
  by unfold_locales (simp_all add: usage_reject_def Let_def trim_credential_usage_def TrimSpace_idem)

subsection \<open>Keys\<close>

lemma joined_key_inject:
  assumes "CHR 0x00 \<notin> set a" "CHR 0x00 \<notin> set b" "joined_key [a, c] = joined_key [b, d]"
  shows "a = b \<and> c = d"
proof -
  have eq: "a @ CHR 0x00 # c = b @ CHR 0x00 # d" using assms(3) by (simp add: joined_key_def)
  have take: "takeWhile (\<lambda>x. x \<noteq> CHR 0x00) (xs @ CHR 0x00 # ys) = xs" if "CHR 0x00 \<notin> set xs" for xs ys :: string
    using that by (induction xs) auto
  have "a = b" using arg_cong [OF eq, of "takeWhile (\<lambda>x. x \<noteq> CHR 0x00)"] take assms(1,2) by simp
  then show ?thesis using eq by simp
qed

definition inventory_ok :: "credential_inventory \<Rightarrow> bool" where
  "inventory_ok x \<longleftrightarrow> inv_Name x \<noteq> [] \<and> inv_ExternalRef x \<noteq> [] \<and> inv_Type x \<noteq> []
     \<and> inv_Provider x \<in> set allowedCredentialProviders \<and> inv_Status x \<in> {''active'', ''rotating'', ''revoked'', ''unknown''}
     \<and> \<not> looksLikeSecretMaterial (inv_ExternalRef x)
     \<and> list_all permissions.good (inv_Permissions x) \<and> distinct (map permission_key (inv_Permissions x))
     \<and> list_all usages.good (inv_Usages x) \<and> distinct (map usage_key (inv_Usages x))"

lemma provider_no_nul: "p \<in> set allowedCredentialProviders \<Longrightarrow> CHR 0x00 \<notin> set p"
proof -
  have "list_all (\<lambda>p. CHR 0x00 \<notin> set p) allowedCredentialProviders" by code_simp
  then show "p \<in> set allowedCredentialProviders \<Longrightarrow> CHR 0x00 \<notin> set p" by (auto simp: list_all_iff)
qed

lemma key_identifies:
  "inventory_ok x \<Longrightarrow> inventory_ok y \<Longrightarrow> credentialInventoryKey x = credentialInventoryKey y \<Longrightarrow>
   inv_Provider x = inv_Provider y \<and> inv_ExternalRef x = inv_ExternalRef y"
  unfolding credentialInventoryKey_def inventory_ok_def by (blast dest: joined_key_inject provider_no_nul)

subsection \<open>Merging\<close>

text \<open>An entry covers what was reported of its credential.\<close>

definition covers :: "credential_inventory \<Rightarrow> credential_inventory \<Rightarrow> bool" where
  "covers x item \<longleftrightarrow> inv_Provider x = inv_Provider item \<and> inv_ExternalRef x = inv_ExternalRef item
     \<and> permission_key ` set (inv_Permissions item) \<subseteq> permission_key ` set (inv_Permissions x)
     \<and> usage_key ` set (inv_Usages item) \<subseteq> usage_key ` set (inv_Usages x)
     \<and> credentialStatusPriority (inv_Status item) \<le> credentialStatusPriority (inv_Status x)"

lemma covers_refl [simp]: "covers x x"
  by (simp add: covers_def)

lemma covers_trans: "covers x y \<Longrightarrow> covers y z \<Longrightarrow> covers x z"
  unfolding covers_def by (metis order_trans)

lemma covers_key: "covers x y \<Longrightarrow> credentialInventoryKey x = credentialInventoryKey y"
  by (simp add: covers_def credentialInventoryKey_def)

lemma merge_item_ok:
  assumes "inventory_ok x" "inventory_ok item" "credentialInventoryKey x = credentialInventoryKey item"
  shows "inventory_ok (merge_item x item) \<and> covers (merge_item x item) x \<and> covers (merge_item x item) item"
proof -
  have "list_all permissions.good (inv_Permissions x @ inv_Permissions item)" "list_all usages.good (inv_Usages x @ inv_Usages item)"
    using assms by (simp_all add: inventory_ok_def)
  then obtain ps us where "normalizeCredentialPermissions (inv_Permissions x @ inv_Permissions item) = Inr ps"
      "distinct (map permission_key ps)" "list_all permissions.good ps"
      "permission_key ` set ps = permission_key ` set (inv_Permissions x @ inv_Permissions item)"
      "normalizeCredentialUsages (inv_Usages x @ inv_Usages item) = Inr us" "distinct (map usage_key us)" "list_all usages.good us"
      "usage_key ` set us = usage_key ` set (inv_Usages x @ inv_Usages item)"
    unfolding normalizeCredentialPermissions_def normalizeCredentialUsages_def by (metis permissions.norm_good usages.norm_good)
  then show ?thesis using assms key_identifies [OF assms]
    by (auto simp: merge_item_def inventory_ok_def covers_def mergedCredentialStatus_def image_Un)
qed

lemma merge_items_ok:
  assumes "list_all inventory_ok merged" "distinct (map credentialInventoryKey merged)" "list_all inventory_ok items"
  shows "list_all inventory_ok (merge_items merged items)" "distinct (map credentialInventoryKey (merge_items merged items))"
    "\<And>item. item \<in> set merged \<union> set items \<Longrightarrow> \<exists>x\<in>set (merge_items merged items). covers x item"
proof -
  have "list_all inventory_ok (merge_items merged items) \<and> distinct (map credentialInventoryKey (merge_items merged items))
    \<and> (\<forall>item\<in>set merged \<union> set items. \<exists>x\<in>set (merge_items merged items). covers x item)"
    using assms
  proof (induction merged items rule: merge_items.induct)
    case (1 merged)
    then show ?case by (metis Un_iff covers_refl empty_iff list.set(1) merge_items.simps(1))
  next
    case (2 merged item items)
    let ?key = "credentialInventoryKey item"
    show ?case
    proof (cases "list_ex (\<lambda>x. credentialInventoryKey x = ?key) merged")
      case False
      then have "distinct (map credentialInventoryKey (merged @ [item]))" using "2.prems" by (auto simp: list_ex_iff)
      then show ?thesis using "2.IH"(2) [of ?key] False "2.prems" by (simp add: Let_def)
    next
      case True
      define f where "f x = (if credentialInventoryKey x = ?key then merge_item x item else x)" for x
      have f_fold: "(\<lambda>x. if credentialInventoryKey x = ?key then merge_item x item else x) = f" by (simp add: f_def fun_eq_iff)
      have f: "inventory_ok (f x)" "covers (f x) x" if "x \<in> set merged" for x
        using merge_item_ok [of x item] that "2.prems" by (simp_all add: list_all_iff f_def)
      have keys: "map credentialInventoryKey (map f merged) = map credentialInventoryKey merged"
        using f(2) covers_key by auto
      have ok: "list_all inventory_ok (map f merged)" using f(1) by (simp add: list_all_iff)
      have distinct: "distinct (map credentialInventoryKey (map f merged))" unfolding keys by (rule "2.prems"(2))
      have IH: "list_all inventory_ok (merge_items (map f merged) items)"
        "distinct (map credentialInventoryKey (merge_items (map f merged) items))"
        "\<forall>z\<in>set (map f merged) \<union> set items. \<exists>x\<in>set (merge_items (map f merged) items). covers x z"
        using "2.IH"(1) [OF refl True, unfolded f_fold, OF ok distinct] "2.prems"(3) by simp_all
      obtain y where y: "y \<in> set merged" "credentialInventoryKey y = ?key" using True by (auto simp: list_ex_iff)
      have "covers (f y) item" using merge_item_ok [of y item] y "2.prems" by (simp add: list_all_iff f_def)
      then have "\<exists>w\<in>set (map f merged) \<union> set items. covers w z" if "z \<in> set merged \<union> set (item # items)" for z
        using that f(2) y(1) by (auto intro: bexI [of _ z])
      then have "\<forall>z\<in>set merged \<union> set (item # items). \<exists>x\<in>set (merge_items (map f merged) items). covers x z"
        using IH(3) covers_trans by meson
      then show ?thesis using IH(1,2) True by (simp add: Let_def f_fold)
    qed
  qed
  then show "list_all inventory_ok (merge_items merged items)" "distinct (map credentialInventoryKey (merge_items merged items))"
    "\<And>item. item \<in> set merged \<union> set items \<Longrightarrow> \<exists>x\<in>set (merge_items merged items). covers x item" by blast+
qed

subsection \<open>Inventories\<close>

text \<open>What a client reports of a credential, before it is checked.\<close>

definition reported :: "credential_inventory \<Rightarrow> credential_inventory" where
  "reported c = c\<lparr>inv_Provider := ToLower (TrimSpace (inv_Provider c)), inv_ExternalRef := TrimSpace (inv_ExternalRef c),
     inv_Status := (if TrimSpace (inv_Status c) = [] then ''active'' else TrimSpace (inv_Status c)),
     inv_Permissions := map trim_permission (inv_Permissions c), inv_Usages := map trim_credential_usage (inv_Usages c)\<rparr>"

lemma normalize_item_ok:
  assumes "normalizeCredentialInventoryItem c = Inr x"
  shows "inventory_ok x \<and> covers x (reported c)"
proof -
  obtain ps us where ps: "normalize_permissions [] (inv_Permissions c) = Inr ps" and us: "normalize_usages [] (inv_Usages c) = Inr us"
    and x: "x = c\<lparr>inv_Name := TrimSpace (inv_Name c), inv_Provider := ToLower (TrimSpace (inv_Provider c)),
            inv_ExternalRef := TrimSpace (inv_ExternalRef c), inv_Type := TrimSpace (inv_Type c),
            inv_Status := (if TrimSpace (inv_Status c) = [] then ''active'' else TrimSpace (inv_Status c)),
            inv_Permissions := ps, inv_Usages := us\<rparr>"
    and fields: "inv_Name x \<noteq> []" "inv_Provider x \<noteq> []" "inv_ExternalRef x \<noteq> []" "inv_Type x \<noteq> []" "validCredentialStatus (inv_Status x)"
      "\<not> looksLikeSecretMaterial (inv_ExternalRef x)" "inv_Provider x \<in> set allowedCredentialProviders"
    using assms unfolding normalizeCredentialInventoryItem_def Let_def normalizeCredentialPermissions_def normalizeCredentialUsages_def
    by (auto simp: try_bind_eq_Inr_iff simp del: looksLikeSecretMaterial_def split: if_split_asm)
  have "inv_Status x \<in> {''active'', ''rotating'', ''revoked'', ''unknown''}"
    using fields(5) x by (auto simp: validCredentialStatus_def NormalizeCredentialStatus_def TrimSpace_idem Let_def split: if_splits)
  then have "inventory_ok x" using fields x permissions.norm_Inr [OF ps] usages.norm_Inr [OF us] by (simp add: inventory_ok_def)
  moreover have "covers x (reported c)"
    using x permissions.norm_Inr [OF ps] usages.norm_Inr [OF us] by (simp add: covers_def reported_def)
  ultimately show ?thesis by blast
qed

lemma normalize_items_ok:
  "normalize_items cs = Inr xs \<Longrightarrow> list_all inventory_ok xs \<and> (\<forall>c\<in>set cs. \<exists>x\<in>set xs. covers x (reported c))"
proof (induction cs arbitrary: xs)
  case (Cons c cs)
  then obtain x ys where "normalizeCredentialInventoryItem c = Inr x" "normalize_items cs = Inr ys" "xs = x # ys"
    by (auto simp: try_bind_eq_Inr_iff)
  then show ?case using Cons.IH [of ys] normalize_item_ok [of c x] by auto
qed simp


definition sample_credential :: "string \<Rightarrow> string \<Rightarrow> credential_inventory" where
  "sample_credential status permission =
     \<lparr>inv_Name = ''deploy'', inv_Provider = '' S3 '', inv_ExternalRef = ''arn:aws:iam::123:role/deploy'', inv_Type = ''role'',
      inv_Status = status, inv_Permissions = [\<lparr>perm_ResourceType = ''bucket'', perm_ResourceName = ''s3://assets'',
        perm_Permission = permission, perm_Source = []\<rparr>], inv_Usages = []\<rparr>"

lemma sample_credentials_accepted:
  "\<exists>x. normalizeCredentialInventoryInput [sample_credential ''active'' ''s3:GetObject'', sample_credential ''revoked'' ''s3:PutObject''] = Inr [x]"
proof -
  have "(case normalizeCredentialInventoryInput [sample_credential ''active'' ''s3:GetObject'', sample_credential ''revoked'' ''s3:PutObject''] of
      Inl _ \<Rightarrow> False | Inr xs \<Rightarrow> length xs = 1)" by code_simp
  then show ?thesis by (auto simp: length_Suc_conv split: sum.splits)
qed


end
