(* ===== verification/Compose_Services.thy ===== *)
theory Compose_Services
  imports Http_Base Go_Json_Fields
begin

text \<open>
  The services of a Compose file as \<^verbatim>\<open>internal/httpapi/github_repositories.go\<close> describes them and the table of
  applications stores them: decoding and encoding of the JSON array, and the execution modes of
  \<^verbatim>\<open>internal/httpapi/applications.go\<close>. A nil slice, which is encoded as null, is \<open>None\<close>.
\<close>

record compose_port =
  cp_ContainerPort :: int
  cp_PublishedPort :: int
  cp_Protocol :: string
  cp_Variable :: string

record compose_service =
  cs_Name :: string
  cs_Image :: string
  cs_BuildContext :: string
  cs_Dockerfile :: string
  cs_Ports :: "compose_port list option"
  cs_DependsOn :: "string list option"
  cs_ExecutionMode :: string

subsection \<open>Decoding\<close>

text \<open>A slice field keeps the difference between null and an empty array; the inner \<open>None\<close> is nil.\<close>

fun nil_slice_field :: "string \<Rightarrow> (string \<times> json) list \<Rightarrow> json list option \<Rightarrow> json list option option" where
  "nil_slice_field name [] v = Some v"
| "nil_slice_field name ((k, j) # kvs) v =
     (if fold_key k = fold_key name then
        (case j of
           JArr vs \<Rightarrow> nil_slice_field name kvs (Some vs)
         | JNull \<Rightarrow> nil_slice_field name kvs None
         | _ \<Rightarrow> None)
      else nil_slice_field name kvs v)"

definition map_items :: "(json \<Rightarrow> 'a option) \<Rightarrow> json list option \<Rightarrow> 'a list option option" where
  "map_items dec v = (case v of None \<Rightarrow> Some None | Some vs \<Rightarrow> map_option Some (all_some (map dec vs)))"

definition decode_port :: "json \<Rightarrow> compose_port option" where
  "decode_port j =
     Option.bind (object_members j) (\<lambda>kvs.
     Option.bind (int64_field ''container_port'' kvs 0) (\<lambda>container_port.
     Option.bind (int64_field ''published_port'' kvs 0) (\<lambda>published_port.
     Option.bind (string_field ''protocol'' kvs []) (\<lambda>protocol.
     Option.bind (string_field ''variable'' kvs []) (\<lambda>variable.
       Some \<lparr>cp_ContainerPort = container_port, cp_PublishedPort = published_port, cp_Protocol = protocol, cp_Variable = variable\<rparr>)))))"

definition decode_service :: "json \<Rightarrow> compose_service option" where
  "decode_service j =
     Option.bind (object_members j) (\<lambda>kvs.
     Option.bind (string_field ''name'' kvs []) (\<lambda>name.
     Option.bind (string_field ''image'' kvs []) (\<lambda>image.
     Option.bind (string_field ''build_context'' kvs []) (\<lambda>build_context.
     Option.bind (string_field ''dockerfile'' kvs []) (\<lambda>dockerfile.
     Option.bind (nil_slice_field ''ports'' kvs None) (\<lambda>ports0.
     Option.bind (map_items decode_port ports0) (\<lambda>ports.
     Option.bind (nil_slice_field ''depends_on'' kvs None) (\<lambda>depends0.
     Option.bind (map_items json_text depends0) (\<lambda>depends_on.
     Option.bind (string_field ''execution_mode'' kvs []) (\<lambda>execution_mode.
       Some \<lparr>cs_Name = name, cs_Image = image, cs_BuildContext = build_context, cs_Dockerfile = dockerfile, cs_Ports = ports,
             cs_DependsOn = depends_on, cs_ExecutionMode = execution_mode\<rparr>))))))))))"

text \<open>\<open>json.Unmarshal\<close> into a slice of services: null makes it nil.\<close>

definition unmarshal_services :: "string \<Rightarrow> compose_service list option option" where
  "unmarshal_services metadata =
     (case decode_json metadata of
        Some JNull \<Rightarrow> Some None
      | Some (JArr vs) \<Rightarrow> map_option Some (all_some (map decode_service vs))
      | _ \<Rightarrow> None)"

subsection \<open>Encoding\<close>

definition omit_empty :: "string \<Rightarrow> string \<Rightarrow> (string \<times> json) list" where
  "omit_empty name v = (if v = [] then [] else [(name, JStr v)])"

definition port_json :: "compose_port \<Rightarrow> json" where
  "port_json p = JObj ([(''container_port'', JNum (FormatInt (cp_ContainerPort p)))]
     @ (if cp_PublishedPort p = 0 then [] else [(''published_port'', JNum (FormatInt (cp_PublishedPort p)))])
     @ omit_empty ''protocol'' (cp_Protocol p) @ omit_empty ''variable'' (cp_Variable p))"

definition slice_json :: "('a \<Rightarrow> json) \<Rightarrow> 'a list option \<Rightarrow> json" where
  "slice_json enc v = (case v of None \<Rightarrow> JNull | Some xs \<Rightarrow> JArr (map enc xs))"

definition service_json :: "compose_service \<Rightarrow> json" where
  "service_json s = JObj ([(''name'', JStr (cs_Name s))] @ omit_empty ''image'' (cs_Image s)
     @ omit_empty ''build_context'' (cs_BuildContext s) @ omit_empty ''dockerfile'' (cs_Dockerfile s)
     @ [(''ports'', slice_json port_json (cs_Ports s)), (''depends_on'', slice_json JStr (cs_DependsOn s))]
     @ omit_empty ''execution_mode'' (cs_ExecutionMode s))"

definition marshal_services :: "compose_service list option \<Rightarrow> string" where
  "marshal_services services = Marshal (slice_json service_json services)"

subsection \<open>Execution modes\<close>

definition executionModeFollowStack :: string where
  "executionModeFollowStack = ''follow_stack''"

definition executionModeSingleton :: string where
  "executionModeSingleton = ''singleton''"

definition validServiceExecutionMode :: "string \<Rightarrow> bool" where
  "validServiceExecutionMode mode \<longleftrightarrow> mode = executionModeFollowStack \<or> mode = executionModeSingleton"

definition service_mode :: "(string \<times> string) list \<Rightarrow> compose_service \<Rightarrow> string" where
  "service_mode requested s =
     (let mode0 = (case map_of requested (cs_Name s) of Some m \<Rightarrow> TrimSpace m | None \<Rightarrow> TrimSpace (cs_ExecutionMode s)) in
      if mode0 = [] then executionModeFollowStack else mode0)"

fun set_modes :: "(string \<times> string) list \<Rightarrow> compose_service list \<Rightarrow> http_error + compose_service list" where
  "set_modes requested [] = Inr []"
| "set_modes requested (s # services) =
     (if \<not> validServiceExecutionMode (service_mode requested s)
        then Inl (ValidationError ''service execution mode must be follow_stack or singleton'')
      else try_bind (set_modes requested services) (\<lambda>rest. Inr (s\<lparr>cs_ExecutionMode := service_mode requested s\<rparr> # rest)))"

text \<open>
  The requested modes are a map, here an association list with distinct keys; of several unknown services,
  the source names one in the order of the map, the model the first.
\<close>

definition mergeServiceExecutionModes :: "string \<Rightarrow> (string \<times> string) list \<Rightarrow> http_error + string" where
  "mergeServiceExecutionModes metadata requested =
     (case (if metadata = [] then Some (Some []) else unmarshal_services metadata) of
        None \<Rightarrow> Inl (ValidationError ''compose service metadata is invalid'')
      | Some services \<Rightarrow>
          try_bind (set_modes requested (case services of None \<Rightarrow> [] | Some xs \<Rightarrow> xs)) (\<lambda>updated.
            case filter (\<lambda>(service, _). service \<notin> set (map cs_Name updated)) requested of
              (service, _) # _ \<Rightarrow> Inl (ValidationError (''unknown compose service '' @ service))
            | [] \<Rightarrow> Inr (marshal_services (map_option (\<lambda>_. updated) services))))"

definition applicationHasComposeService :: "application \<Rightarrow> string \<Rightarrow> bool" where
  "applicationHasComposeService app composeService \<longleftrightarrow>
     (if composeService = [] then False
      else case unmarshal_services (app_ComposeServices app) of
        None \<Rightarrow> False
      | Some services \<Rightarrow> list_ex (\<lambda>s. cs_Name s = composeService) (case services of None \<Rightarrow> [] | Some xs \<Rightarrow> xs))"

end
