(* ===== verification/Http_Settings.thy ===== *)
theory Http_Settings
  imports Http_Transaction Store_Settings Credential_Inventory Compose_Services
begin

text \<open>
  The files \<^verbatim>\<open>internal/httpapi/project_variables.go\<close> and \<^verbatim>\<open>internal/httpapi/application_service_variables.go\<close>: the
  variables that projects and Compose services get at run time. Each edit is one transaction, which also
  makes a new revision of the configuration.
\<close>

subsection \<open>Normalization\<close>

record variable_input =
  vi_Key :: string
  vi_Value :: string

definition maxProjectRuntimeVariables :: nat where
  "maxProjectRuntimeVariables = 256"

definition maxProjectRuntimeVariableKey :: nat where
  "maxProjectRuntimeVariableKey = 128"

definition maxProjectRuntimeVariableValue :: nat where
  "maxProjectRuntimeVariableValue = 8192"

definition maxProjectRuntimeEnvironmentSize :: nat where
  "maxProjectRuntimeEnvironmentSize = 65536"

definition reservedProjectRuntimeVariable :: "string \<Rightarrow> bool" where
  "reservedProjectRuntimeVariable key \<longleftrightarrow>
     HasPrefix key ''DEPLOY_'' \<or> key = ''BLUE_DEPLOY_PORT'' \<or> key = ''GREEN_DEPLOY_PORT'' \<or> HasSuffix key ''_IMAGE_TAG''"

definition containsControlCharacter :: "string \<Rightarrow> bool" where
  "containsControlCharacter value \<longleftrightarrow> list_ex IsControl (runes value)"

definition renderedRuntimeVariableSize :: "variable_input \<Rightarrow> nat" where
  "renderedRuntimeVariableSize v =
     length (vi_Key v) + length (vi_Value v) + 4
     + length (filter (\<lambda>r. r = byte backslash \<or> r = 0x22 \<or> r = byte (CHR ''$'') \<or> r = 0x60) (runes (vi_Value v)))"

definition check_variable :: "string list \<Rightarrow> variable_input \<Rightarrow> http_error option" where
  "check_variable seen v =
     (if vi_Key v = [] then Some (ValidationError ''project runtime variable key is required'')
      else if maxProjectRuntimeVariableKey < length (vi_Key v) \<or> \<not> ValidRuntimeVariableKey (vi_Key v)
        then Some (ValidationError ''project runtime variable keys must start with a letter or underscore and contain only letters, numbers, and underscores'')
      else if vi_Key v \<in> set seen then Some (ValidationError ''project runtime variable keys must be unique'')
      else if isSecretConfigKey (vi_Key v)
        then Some (ValidationError ''project runtime variables cannot contain secret-like keys; store secrets in Doppler'')
      else if reservedProjectRuntimeVariable (vi_Key v)
        then Some (ValidationError ''project runtime variable key is reserved by the deployment runtime'')
      else if maxProjectRuntimeVariableValue < length (vi_Value v)
        then Some (ValidationError ''project runtime variable values cannot exceed 8192 bytes'')
      else if containsControlCharacter (vi_Value v)
        then Some (ValidationError ''project runtime variable values cannot contain control characters'')
      else if looksLikeSecretMaterial (vi_Value v)
        then Some (ValidationError ''project runtime variables cannot contain raw secret material; store secrets in Doppler'')
      else None)"

text \<open>The loop, with the keys seen so far: the variables with trimmed keys.\<close>

fun check_variables :: "string list \<Rightarrow> variable_input list \<Rightarrow> http_error + variable_input list" where
  "check_variables seen [] = Inr []"
| "check_variables seen (variable0 # variables) =
     (let variable = variable0\<lparr>vi_Key := TrimSpace (vi_Key variable0)\<rparr> in
      case check_variable seen variable of
        Some err \<Rightarrow> Inl err
      | None \<Rightarrow> try_bind (check_variables (vi_Key variable # seen) variables) (\<lambda>rest. Inr (variable # rest)))"

definition normalizeProjectRuntimeVariables :: "variable_input list \<Rightarrow> http_error + variable_input list" where
  "normalizeProjectRuntimeVariables variables =
     (if maxProjectRuntimeVariables < length variables
        then Inl (ValidationError ''project runtime variables cannot exceed 256 entries'')
      else try_bind (check_variables [] variables) (\<lambda>normalized.
        if maxProjectRuntimeEnvironmentSize < sum_list (map renderedRuntimeVariableSize normalized)
          then Inl (ValidationError ''project runtime variables cannot exceed 65536 bytes when rendered'')
        else Inr (sort_key vi_Key normalized)))"

subsection \<open>Variables of a project\<close>

definition projectRuntimeVariablesEqual :: "project_runtime_variable list \<Rightarrow> variable_input list \<Rightarrow> bool" where
  "projectRuntimeVariablesEqual existing requested \<longleftrightarrow>
     length existing = length requested
     \<and> list_all (\<lambda>(e, r). pvar_Key e = vi_Key r \<and> pvar_Value e = vi_Value r) (zip existing requested)"

definition projectRuntimeVariableInputs :: "project_runtime_variable list \<Rightarrow> variable_input list" where
  "projectRuntimeVariableInputs variables = map (\<lambda>v. \<lparr>vi_Key = pvar_Key v, vi_Value = pvar_Value v\<rparr>) variables"

record variables_response =
  vr_Variables :: "variable_input list"
  vr_ConfigurationRevision :: int
  vr_Changed :: bool

definition listProjectRuntimeVariables :: "http_env \<Rightarrow> http_request \<Rightarrow> variables_response handler" where
  "listProjectRuntimeVariables h r =
     or_error (parseUUIDParam h r ''projectID'') (\<lambda>projectID. do {
       p \<leftarrow> serve h (GetProject projectID);
       or_error (map_error (applicationLookupError ''project not found'') p) (\<lambda>project. do {
         l \<leftarrow> serve h (ListProjectRuntimeVariables projectID);
         or_error (map_error Internal l) (\<lambda>variables.
           State_Monad.return (writeJSON 200 \<lparr>vr_Variables = projectRuntimeVariableInputs variables,
             vr_ConfigurationRevision = proj_ConfigurationRevision project, vr_Changed = False\<rparr>))
       })
     })"

type_synonym 'a tx_body = "((http_error + 'a) \<times> bool) sys_run"

definition tx_fail :: "http_error \<Rightarrow> 'a tx_body" where
  "tx_fail err = State_Monad.return (Inl err, False)"

definition tx_commit :: "'a \<Rightarrow> 'a tx_body" where
  "tx_commit x = State_Monad.return (Inr x, True)"

text \<open>A statement of a transaction: an error ends the transaction.\<close>

definition tx_step :: "http_env \<Rightarrow> (go_error \<Rightarrow> http_error) \<Rightarrow> 'b stmt \<Rightarrow> ('b \<Rightarrow> 'a tx_body) \<Rightarrow> 'a tx_body" where
  "tx_step h on_err q f = do {
     r \<leftarrow> tx_serve h q;
     (case r of Inl err \<Rightarrow> tx_fail (on_err err) | Inr x \<Rightarrow> f x)
   }"

definition in_transaction :: "http_env \<Rightarrow> 'a tx_body \<Rightarrow> (http_error + 'a) sys_run" where
  "in_transaction h body = transaction h (\<lambda>err. Inl (Internal err)) (\<lambda>err _. Inl (Internal err)) body"

fun upsert_variables :: "http_env \<Rightarrow> pg_uuid \<Rightarrow> variable_input list \<Rightarrow> 'a tx_body \<Rightarrow> 'a tx_body" where
  "upsert_variables h projectID [] rest = rest"
| "upsert_variables h projectID (v # vs) rest =
     tx_step h Internal (UpsertProjectRuntimeVariable projectID (vi_Key v) (vi_Value v)) (\<lambda>_. upsert_variables h projectID vs rest)"

definition store_variables_body :: "http_env \<Rightarrow> pg_uuid \<Rightarrow> variable_input list \<Rightarrow> (project \<times> bool) tx_body" where
  "store_variables_body h projectID variables =
     tx_step h (applicationLookupError ''project not found'') (GetProjectForUpdate projectID) (\<lambda>project.
     tx_step h Internal (ListProjectRuntimeVariables projectID) (\<lambda>existing.
       if projectRuntimeVariablesEqual existing variables then tx_commit (project, False)
       else tx_step h Internal (DeleteProjectRuntimeVariables projectID) (\<lambda>_.
         upsert_variables h projectID variables
           (tx_step h Internal (IncrementProjectConfigurationRevision projectID) (\<lambda>revision.
             tx_commit (project\<lparr>proj_ConfigurationRevision := revision\<rparr>, True))))))"

definition storeProjectRuntimeVariables :: "http_env \<Rightarrow> pg_uuid \<Rightarrow> variable_input list \<Rightarrow> (http_error + (project \<times> bool)) sys_run" where
  "storeProjectRuntimeVariables h projectID variables = in_transaction h (store_variables_body h projectID variables)"

definition replaceProjectRuntimeVariables ::
  "http_env \<Rightarrow> http_request \<Rightarrow> http_error + variable_input list \<Rightarrow> variables_response handler" where
  "replaceProjectRuntimeVariables h r decoded =
     or_error (parseUUIDParam h r ''projectID'') (\<lambda>projectID. or_error decoded (\<lambda>request.
       or_error (normalizeProjectRuntimeVariables request) (\<lambda>variables. do {
         s \<leftarrow> storeProjectRuntimeVariables h projectID variables;
         or_error s (\<lambda>(project, changed). do {
           (if changed then
              http_audit h r ''project.variables_update'' ''project'' (id_text h (proj_ID project)) (proj_Name project)
                [(''configuration_revision'', JNum (FormatInt (proj_ConfigurationRevision project))),
                 (''variable_count'', JNum (FormatNat (length variables)))]
            else State_Monad.return ());
           State_Monad.return (writeJSON 200 \<lparr>vr_Variables = variables,
             vr_ConfigurationRevision = proj_ConfigurationRevision project, vr_Changed = changed\<rparr>)
         })
       })))"

subsection \<open>Configurations of Compose services\<close>

record service_config_request =
  sr_DopplerProject :: string
  sr_DopplerConfig :: string
  sr_Variables :: "variable_input list"

record service_config_response =
  sp_ComposeService :: string
  sp_DopplerProject :: string
  sp_DopplerConfig :: string
  sp_Variables :: "variable_input list"
  sp_ConfigurationRevision :: int
  sp_Changed :: bool

definition applicationStackRuntimeConfig :: string where
  "applicationStackRuntimeConfig = ''__stack__''"

definition optionalText :: "string \<Rightarrow> pg_text" where
  "optionalText v = (if v = [] then None else Some v)"

definition validateDopplerScopeValue :: "string \<Rightarrow> string \<Rightarrow> http_error option" where
  "validateDopplerScopeValue field v =
     (if ContainsAny v [CHR 0x0D, CHR 0x0A, CHR 0x09] then Some (ValidationError (field @ '' cannot contain control characters'')) else None)"

definition normalizeApplicationServiceRuntimeConfig :: "service_config_request \<Rightarrow> http_error + service_config_request" where
  "normalizeApplicationServiceRuntimeConfig request0 =
     (let project = TrimSpace (sr_DopplerProject request0);
          config = TrimSpace (sr_DopplerConfig request0) in
      if (project = []) \<noteq> (config = []) then Inl (ValidationError ''doppler project and config must be provided together'')
      else case (if project = [] then None
                 else case validateDopplerScopeValue ''doppler project'' project of
                   Some err \<Rightarrow> Some err
                 | None \<Rightarrow> validateDopplerScopeValue ''doppler config'' config) of
        Some err \<Rightarrow> Inl err
      | None \<Rightarrow> try_bind (normalizeProjectRuntimeVariables (sr_Variables request0)) (\<lambda>variables.
          Inr \<lparr>sr_DopplerProject = project, sr_DopplerConfig = config, sr_Variables = variables\<rparr>))"

text \<open>The JSON of a list of variables, and reading it: the column holds an array, so that the list is never nil.\<close>

definition input_json :: "variable_input \<Rightarrow> json" where
  "input_json v = JObj [(''key'', JStr (vi_Key v)), (''value'', JStr (vi_Value v))]"

definition marshal_inputs :: "variable_input list \<Rightarrow> string" where
  "marshal_inputs variables = Marshal (JArr (map input_json variables))"

definition decode_input :: "(string \<times> json) list \<Rightarrow> variable_input option" where
  "decode_input kvs =
     Option.bind (string_field ''key'' kvs []) (\<lambda>key.
     Option.bind (string_field ''value'' kvs []) (\<lambda>v. Some \<lparr>vi_Key = key, vi_Value = v\<rparr>))"

definition unmarshal_inputs :: "string \<Rightarrow> variable_input list option" where
  "unmarshal_inputs raw = Option.bind (service_rows raw) (\<lambda>rows. all_some (map decode_input rows))"

definition serviceRuntimeConfigMatches :: "service_runtime_config \<Rightarrow> service_config_request \<Rightarrow> bool" where
  "serviceRuntimeConfigMatches existing request \<longleftrightarrow>
     text_String (cfg_DopplerProject existing) = sr_DopplerProject request
     \<and> text_String (cfg_DopplerConfig existing) = sr_DopplerConfig request
     \<and> unmarshal_inputs (cfg_Variables existing) = Some (sr_Variables request)"

definition serviceRuntimeConfigResponse ::
  "http_env \<Rightarrow> service_runtime_config \<Rightarrow> int \<Rightarrow> bool \<Rightarrow> http_error + service_config_response" where
  "serviceRuntimeConfigResponse h config revision changed =
     (case unmarshal_inputs (cfg_Variables config) of
        None \<Rightarrow> Inl (Internal (json_error (h_runner h) (cfg_Variables config)))
      | Some variables \<Rightarrow> Inr \<lparr>sp_ComposeService = cfg_ComposeService config,
          sp_DopplerProject = text_String (cfg_DopplerProject config), sp_DopplerConfig = text_String (cfg_DopplerConfig config),
          sp_Variables = variables, sp_ConfigurationRevision = revision, sp_Changed = changed\<rparr>)"

definition empty_config_response :: "string \<Rightarrow> int \<Rightarrow> service_config_response" where
  "empty_config_response composeService revision =
     \<lparr>sp_ComposeService = composeService, sp_DopplerProject = [], sp_DopplerConfig = [], sp_Variables = [],
      sp_ConfigurationRevision = revision, sp_Changed = False\<rparr>"

fun config_responses :: "http_env \<Rightarrow> int \<Rightarrow> service_runtime_config list \<Rightarrow> http_error + service_config_response list" where
  "config_responses h revision [] = Inr []"
| "config_responses h revision (config # configs) =
     try_bind (serviceRuntimeConfigResponse h config revision False) (\<lambda>item.
     try_bind (config_responses h revision configs) (\<lambda>rest. Inr (item # rest)))"

definition listApplicationServiceRuntimeConfigs :: "http_env \<Rightarrow> http_request \<Rightarrow> service_config_response list handler" where
  "listApplicationServiceRuntimeConfigs h r =
     or_error (parseUUIDParam h r ''applicationID'') (\<lambda>applicationID. do {
       a \<leftarrow> serve h (GetApplication applicationID);
       or_error (map_error (applicationLookupError ''service not found'') a) (\<lambda>app. do {
         l \<leftarrow> serve h (ListApplicationServiceRuntimeConfigs applicationID);
         or_error (map_error Internal l) (\<lambda>configs.
           or_error (config_responses h (app_ConfigurationRevision app) configs) (\<lambda>response.
             State_Monad.return (writeJSON 200 response)))
       })
     })"

text \<open>The change of the row and of the revision; the reply is computed after the commit, which its error does not undo.\<close>

definition change_service_config ::
  "http_env \<Rightarrow> pg_uuid \<Rightarrow> application \<Rightarrow> string \<Rightarrow> service_config_request \<Rightarrow> (service_config_response \<times> bool) tx_body" where
  "change_service_config h applicationID app composeService request =
     (let revision = app_ConfigurationRevision app + 1 in
      if sr_DopplerProject request = [] \<and> sr_Variables request = [] then
        tx_step h Internal (DeleteApplicationServiceRuntimeConfig applicationID composeService) (\<lambda>_.
        tx_step h Internal (BumpApplicationConfigurationRevision applicationID) (\<lambda>_.
          tx_commit (empty_config_response composeService revision, True)))
      else
        tx_step h Internal (UpsertApplicationServiceRuntimeConfig applicationID composeService
          (optionalText (sr_DopplerProject request)) (optionalText (sr_DopplerConfig request)) (marshal_inputs (sr_Variables request))) (\<lambda>stored.
        tx_step h Internal (BumpApplicationConfigurationRevision applicationID) (\<lambda>_.
          State_Monad.return (try_bind (serviceRuntimeConfigResponse h stored revision True) (\<lambda>response. Inr (response, True)), True))))"

definition store_config_body ::
  "http_env \<Rightarrow> pg_uuid \<Rightarrow> string \<Rightarrow> service_config_request \<Rightarrow> (service_config_response \<times> bool) tx_body" where
  "store_config_body h applicationID composeService request =
     tx_step h (applicationLookupError ''service not found'') (GetApplicationForUpdate applicationID) (\<lambda>app.
       if composeService \<noteq> applicationStackRuntimeConfig \<and> \<not> applicationHasComposeService app composeService
         then tx_fail (ValidationError ''compose service was not found in the scanned stack'')
       else do {
         existing \<leftarrow> tx_serve h (GetApplicationServiceRuntimeConfig applicationID composeService);
         (case existing of
            Inl err \<Rightarrow>
              if err \<noteq> ErrNoRows then tx_fail (Internal err)
              else if sr_DopplerProject request = [] \<and> sr_Variables request = []
                then tx_commit (empty_config_response composeService (app_ConfigurationRevision app), False)
              else change_service_config h applicationID app composeService request
          | Inr config \<Rightarrow>
              if serviceRuntimeConfigMatches config request
                then State_Monad.return (try_bind (serviceRuntimeConfigResponse h config (app_ConfigurationRevision app) False)
                  (\<lambda>response. Inr (response, False)), True)
              else change_service_config h applicationID app composeService request)
       })"

definition storeApplicationServiceRuntimeConfig ::
  "http_env \<Rightarrow> pg_uuid \<Rightarrow> string \<Rightarrow> service_config_request \<Rightarrow> (http_error + (service_config_response \<times> bool)) sys_run" where
  "storeApplicationServiceRuntimeConfig h applicationID composeService request =
     in_transaction h (store_config_body h applicationID composeService request)"

definition replaceApplicationServiceRuntimeConfig ::
  "http_env \<Rightarrow> http_request \<Rightarrow> http_error + service_config_request \<Rightarrow> service_config_response handler" where
  "replaceApplicationServiceRuntimeConfig h r decoded =
     or_error (parseUUIDParam h r ''applicationID'') (\<lambda>applicationID. or_error decoded (\<lambda>request0.
       or_error (normalizeApplicationServiceRuntimeConfig request0) (\<lambda>request.
         let composeService = TrimSpace (req_param r ''composeService'') in do {
         s \<leftarrow> storeApplicationServiceRuntimeConfig h applicationID composeService request;
         or_error s (\<lambda>(response0, changed).
           let response = response0\<lparr>sp_Changed := changed\<rparr> in do {
           (if changed then
              http_audit h r ''application.service_variables_update'' ''application'' (id_text h applicationID) composeService
                [(''compose_service'', JStr composeService), (''configuration_revision'', JNum (FormatInt (sp_ConfigurationRevision response))),
                 (''doppler_scoped'', JBool (sr_DopplerProject request \<noteq> [])),
                 (''variable_count'', JNum (FormatNat (length (sr_Variables request))))]
            else State_Monad.return ());
           State_Monad.return (writeJSON 200 response)
         })
       })))"

end
