(* ===== verification/Http_Applications.thy ===== *)
theory Http_Applications
  imports Http_Settings Http_Deployments
begin

text \<open>
  The handlers of \<^verbatim>\<open>internal/httpapi/applications.go\<close>: creating, changing and deleting applications. Deleting an
  application stops its containers and removes its proxy routes on the server before its rows are deleted.
\<close>

subsection \<open>Validation\<close>

definition validateRemoteDirectory :: "string \<Rightarrow> string option" where
  "validateRemoteDirectory v =
     (if ContainsAny v [CHR 0x0D, CHR 0x0A, CHR 0x09] then Some ''remote_directory cannot contain control characters''
      else if v = ''/'' \<or> \<not> HasPrefix v ''/'' then Some ''remote_directory must be an absolute path below root''
      else if Contains v ''//'' then Some ''remote_directory cannot contain empty path segments''
      else if ''..'' \<in> set (Split v (CHR ''/'')) then Some ''remote_directory cannot contain parent directory segments''
      else None)"

definition githubSSHRepositoryURL :: matcher where
  "githubSSHRepositoryURL =
     m_seq (m_lit ''git@github.com:'') (m_seq repository_name (m_seq (m_lit ''/'') (m_seq repository_name (m_lit ''.git''))))"

definition githubHTTPSRepositoryURL :: matcher where
  "githubHTTPSRepositoryURL =
     m_seq (m_lit ''https://github.com/'') (m_seq repository_name (m_seq (m_lit ''/'') (m_seq repository_name (m_opt (m_lit ''.git'')))))"

definition validateRepositoryURL :: "string \<Rightarrow> string option" where
  "validateRepositoryURL v =
     (if ContainsAny v [CHR 0x0D, CHR 0x0A, CHR 0x09] then Some ''repository_url cannot contain control characters''
      else if full_match githubSSHRepositoryURL v then None
      else case Parse v of
        None \<Rightarrow> Some ''repository_url must be a GitHub SSH URL or GitHub https URL''
      | Some u \<Rightarrow>
          if url_Host u = [] then Some ''repository_url must be a GitHub SSH URL or GitHub https URL''
          else if url_Scheme u \<noteq> ''https'' then Some ''repository_url must use https for HTTP remotes''
          else if url_HasUser u then Some ''repository_url cannot include credentials''
          else if \<not> full_match githubHTTPSRepositoryURL v then Some ''repository_url must point to github.com owner/repository''
          else None)"

definition validateApplicationServer :: "pg_uuid \<Rightarrow> pg_uuid \<Rightarrow> http_error option" where
  "validateApplicationServer existing requested =
     (if existing \<noteq> requested then Some (ValidationError ''server_id cannot be changed; recreate the service on another server'') else None)"

text \<open>The fields as they are trimmed, with the defaults of the branch and the Compose file.\<close>

definition trim_application :: "create_application_params \<Rightarrow> create_application_params" where
  "trim_application input =
     input\<lparr>ca_Name := TrimSpace (ca_Name input), ca_Branch := TrimSpace (ca_Branch input),
           ca_ComposePath := TrimSpace (ca_ComposePath input), ca_RemoteDirectory := TrimSpace (ca_RemoteDirectory input),
           ca_RepositoryUrl := map_option TrimSpace (ca_RepositoryUrl input),
           ca_Domain := map_option (\<lambda>v. ToLower (TrimSpace v)) (ca_Domain input),
           ca_HealthCheckUrl := map_option TrimSpace (ca_HealthCheckUrl input),
           ca_DopplerProject := map_option TrimSpace (ca_DopplerProject input),
           ca_DopplerConfig := map_option TrimSpace (ca_DopplerConfig input)\<rparr>"

definition default_application :: "create_application_params \<Rightarrow> create_application_params" where
  "default_application input =
     input\<lparr>ca_Branch := (if ca_Branch input = [] then ''main'' else ca_Branch input),
           ca_ComposePath := (if ca_ComposePath input = [] then ''docker-compose.yml'' else ca_ComposePath input),
           ca_RepositoryUrl := blankTextAsNull (ca_RepositoryUrl input), ca_Domain := blankTextAsNull (ca_Domain input),
           ca_HealthCheckUrl := blankTextAsNull (ca_HealthCheckUrl input),
           ca_DopplerProject := blankTextAsNull (ca_DopplerProject input), ca_DopplerConfig := blankTextAsNull (ca_DopplerConfig input)\<rparr>"

text \<open>The first error of a list of checks.\<close>

fun first_message :: "string option list \<Rightarrow> string option" where
  "first_message [] = None"
| "first_message (Some err # rest) = Some err"
| "first_message (None # rest) = first_message rest"

definition check_optional :: "(string \<Rightarrow> string option) \<Rightarrow> pg_text \<Rightarrow> string option" where
  "check_optional f v = (case v of None \<Rightarrow> None | Some s \<Rightarrow> f s)"

definition application_checks :: "http_env \<Rightarrow> create_application_params \<Rightarrow> string option list" where
  "application_checks h input =
     [(if ca_EnvironmentID input = None \<or> ca_ServerID input = None \<or> ca_Name input = [] \<or> ca_RemoteDirectory input = []
         then Some ''environment_id, server_id, name, and remote_directory are required'' else None),
      validateRemoteDirectory (ca_RemoteDirectory input),
      map_option err_text (ValidateGitRefName (ca_Branch input)),
      map_option err_text (ValidateComposePath (ca_ComposePath input)),
      check_optional validateRepositoryURL (ca_RepositoryUrl input),
      check_optional (\<lambda>v. map_option err_text (ValidateDomain v)) (ca_Domain input),
      check_optional (validateHealthCheckURL h) (ca_HealthCheckUrl input),
      (if (ca_DopplerProject input = None) \<noteq> (ca_DopplerConfig input = None)
         then Some ''doppler project and config must be provided together'' else None),
      check_optional (\<lambda>v. map_option http_error_text (validateDopplerScopeValue ''doppler project'' v)) (ca_DopplerProject input),
      check_optional (\<lambda>v. map_option http_error_text (validateDopplerScopeValue ''doppler config'' v)) (ca_DopplerConfig input)]"

definition normalizeCreateApplication :: "http_env \<Rightarrow> create_application_params \<Rightarrow> http_error + create_application_params" where
  "normalizeCreateApplication h input0 =
     (let input = default_application (trim_application input0) in
      case first_message (application_checks h input) of
        Some err \<Rightarrow> Inl (ValidationError err)
      | None \<Rightarrow> Inr input)"

definition normalizeUpdateApplication :: "http_env \<Rightarrow> update_application_params \<Rightarrow> http_error + update_application_params" where
  "normalizeUpdateApplication h input =
     try_bind (normalizeCreateApplication h (ua_fields input)) (\<lambda>fields.
       Inr (input\<lparr>ua_fields := fields,
                  ua_ComposeServices := (if ua_ComposeServices input = [] then ''[]'' else ua_ComposeServices input)\<rparr>))"

subsection \<open>Creating and changing\<close>

definition application_metadata :: "http_env \<Rightarrow> application \<Rightarrow> (string \<times> json) list" where
  "application_metadata h app =
     [(''branch'', JStr (app_Branch app)),
      (''doppler_scoped'', JBool (app_DopplerProject app \<noteq> None \<and> app_DopplerConfig app \<noteq> None)),
      (''environment_id'', JStr (id_text h (app_EnvironmentID app))),
      (''github_auto_deploy'', JBool (app_GithubAutoDeploy app)),
      (''server_id'', JStr (id_text h (app_ServerID app)))]"

text \<open>The lookups of the server and the environment before a row is written.\<close>

definition with_places :: "http_env \<Rightarrow> create_application_params \<Rightarrow> 'b handler \<Rightarrow> 'b handler" where
  "with_places h input rest = do {
     s \<leftarrow> serve h (GetServer (ca_ServerID input));
     or_error (map_error (applicationLookupError ''server not found'') s) (\<lambda>_. do {
       e \<leftarrow> serve h (GetEnvironment (ca_EnvironmentID input));
       or_error (map_error (applicationLookupError ''environment not found'') e) (\<lambda>_. rest)
     })
   }"

definition createApplication :: "http_env \<Rightarrow> http_request \<Rightarrow> http_error + create_application_params \<Rightarrow> application handler" where
  "createApplication h r decoded =
     or_error decoded (\<lambda>input0. or_error (normalizeCreateApplication h input0) (\<lambda>input.
       with_places h input (do {
         n \<leftarrow> on_world next_step;
         c \<leftarrow> serve h (CreateApplication (fresh_ids (h_runner h) n) input);
         or_error (map_error Internal c) (\<lambda>app. do {
           http_audit h r ''application.create'' ''application'' (id_text h (app_ID app)) (app_Name app) (application_metadata h app);
           State_Monad.return (writeJSON 201 app)
         })
       })))"

definition updateApplication ::
  "http_env \<Rightarrow> http_request \<Rightarrow> http_error + (create_application_params \<times> (string \<times> string) list) \<Rightarrow> application handler" where
  "updateApplication h r decoded =
     or_error (parseUUIDParam h r ''applicationID'') (\<lambda>applicationID. or_error decoded (\<lambda>(fields, modes). do {
       a \<leftarrow> serve h (GetApplication applicationID);
       or_error (map_error (applicationLookupError ''application not found'') a) (\<lambda>existing.
         or_error (mergeServiceExecutionModes (app_ComposeServices existing) modes) (\<lambda>services.
         or_error (normalizeUpdateApplication h \<lparr>ua_fields = fields, ua_ComposeServices = services, ua_ID = applicationID\<rparr>) (\<lambda>input.
         case validateApplicationServer (app_ServerID existing) (ca_ServerID (ua_fields input)) of
           Some err \<Rightarrow> State_Monad.return (writeError err)
         | None \<Rightarrow>
             with_places h (ua_fields input) (do {
               u \<leftarrow> serve h (UpdateApplication input);
               or_error (map_error (applicationLookupError ''application not found'') u) (\<lambda>app. do {
                 http_audit h r ''application.update'' ''application'' (id_text h (app_ID app)) (app_Name app) (application_metadata h app);
                 State_Monad.return (writeJSON 200 app)
               })
             }))))
     }))"

end
