(* ===== verification/Http_Removal.thy ===== *)
theory Http_Removal
  imports Http_Applications
begin

text \<open>
  Commands on a server on behalf of a request (\<^verbatim>\<open>internal/httpapi/server_commands.go\<close>) and the deletion of an application
  (\<^verbatim>\<open>internal/httpapi/applications.go\<close>): what runs on the server is removed first, then the rows, in one transaction.
\<close>

subsection \<open>Commands on a server\<close>

definition server_client :: "http_env \<Rightarrow> server \<Rightarrow> go_error + ssh_client" where
  "server_client h server =
     (if srv_ConnectionMode server = ''tailscale_ssh'' then
        (if local_host (h_runner h) (srv_Hostname server) then Inr (LocalDockerHost (srv_SshUser server))
         else Inr (TailscaleSSH (srv_Hostname server) (srv_SshPort server) (srv_SshUser server)))
      else case ssh_signer (h_runner h) (srv_Hostname server) (srv_SshPort server) (srv_SshUser server) (text_String (srv_SshKeyPath server)) of
        Some err \<Rightarrow> Inl err
      | None \<Rightarrow> Inr (DirectSSH (srv_Hostname server) (srv_SshPort server) (srv_SshUser server)))"

definition remote_run :: "http_env \<Rightarrow> server \<Rightarrow> string \<Rightarrow> (string \<times> go_error option) sys_run" where
  "remote_run h server cmd =
     (case server_client h server of
        Inl err \<Rightarrow> State_Monad.return ([], Some err)
      | Inr client \<Rightarrow> on_world (Run_cmd (h_runner h) client cmd))"

definition maxServerCommandLength :: nat where
  "maxServerCommandLength = 1000"

definition normalizeServerCommand :: "string \<Rightarrow> http_error + string" where
  "normalizeServerCommand command0 =
     (let command = TrimSpace command0 in
      if command = [] then Inl (ValidationError ''command is required'')
      else if maxServerCommandLength < length command then Inl (ValidationError ''command must be 1000 characters or fewer'')
      else if list_ex IsControl (runes command) then Inl (ValidationError ''command cannot contain control characters'')
      else Inr command)"

definition errorString :: "go_error option \<Rightarrow> string" where
  "errorString err = (case err of None \<Rightarrow> [] | Some e \<Rightarrow> err_text e)"

definition serverCommandAuditMetadata :: "string \<Rightarrow> go_error option \<Rightarrow> (string \<times> json) list" where
  "serverCommandAuditMetadata output err =
     [(''error'', JStr (errorString err)), (''output_bytes'', JNum (FormatNat (length output))), (''success'', JBool (err = None))]"

record command_response =
  cmd_Output :: string
  cmd_Error :: string

definition serverLookupError :: "go_error \<Rightarrow> http_error" where
  "serverLookupError err = (if err = ErrNoRows then NotFoundError ''server not found'' else Internal err)"

definition runServerCommand :: "http_env \<Rightarrow> http_request \<Rightarrow> http_error + string \<Rightarrow> command_response handler" where
  "runServerCommand h r decoded =
     or_error (parseUUIDParam h r ''serverID'') (\<lambda>serverID. or_error decoded (\<lambda>request.
       or_error (normalizeServerCommand request) (\<lambda>command. do {
         g \<leftarrow> serve h (GetServer serverID);
         or_error (map_error serverLookupError g) (\<lambda>server.
           if srv_ConnectionMode server \<noteq> ''tailscale_ssh'' \<and> TrimSpace (text_String (srv_SshKeyPath server)) = []
             then State_Monad.return (writeError (ValidationError ''server ssh_key_path is required for terminal access''))
           else do {
             (output, err) \<leftarrow> remote_run h server command;
             http_audit h r ''server.command'' ''server'' (id_text h (srv_ID server)) (srv_Name server) (serverCommandAuditMetadata output err);
             State_Monad.return (writeJSON 200 \<lparr>cmd_Output = output, cmd_Error = errorString err\<rparr>)
           })
       })))"

subsection \<open>Deleting an application\<close>

record deletion_plan =
  dp_application :: application
  dp_routes :: "route_target list"
  dp_hasDeployments :: bool

definition prepareApplicationDeletion :: "http_env \<Rightarrow> application \<Rightarrow> (http_error + deletion_plan) sys_run" where
  "prepareApplicationDeletion h app = do {
     s \<leftarrow> serve h (GetApplicationDeletionState (app_ID app));
     (case s of
        Inl err \<Rightarrow> State_Monad.return (Inl (Internal err))
      | Inr state \<Rightarrow>
          if ds_DeploymentInProgress state
            then State_Monad.return (Inl (ValidationError ''wait for or cancel the active deployment before deleting the service''))
          else do {
            l \<leftarrow> serve h (ListProxyRouteTargetsForApplication (app_ID app) (app_ServerID app));
            State_Monad.return (map_error Internal (try_bind l (\<lambda>routes.
              Inr \<lparr>dp_application = app, dp_routes = routes, dp_hasDeployments = ds_HasDeployments state\<rparr>)))
          })
   }"

text \<open>A step of the cleanup: the command is prepared and executed on the server.\<close>

definition cleanup_step :: "http_env \<Rightarrow> server \<Rightarrow> (go_error + string) \<Rightarrow> string \<Rightarrow> string \<Rightarrow> go_error option sys_run" where
  "cleanup_step h server cmd prepare run =
     (case cmd of
        Inl err \<Rightarrow> State_Monad.return (Some (wrap prepare err))
      | Inr command \<Rightarrow> do {
          (_, err) \<leftarrow> remote_run h server command;
          State_Monad.return (map_option (wrap run) err)
        })"

fun remove_routes :: "http_env \<Rightarrow> server \<Rightarrow> route_target list \<Rightarrow> go_error option sys_run" where
  "remove_routes h server [] = State_Monad.return None"
| "remove_routes h server (route # routes) =
     (if rt_Status route = ''pending'' then remove_routes h server routes
      else do {
        e \<leftarrow> cleanup_step h server (BuildRemoveCommand (rt_Domain route) (rt_ProxyType route))
               (''prepare domain cleanup for '' @ Quote (rt_Domain route))
               (''remove domain '' @ Quote (rt_Domain route) @ '' from server '' @ Quote (srv_Name server));
        (case e of Some err \<Rightarrow> State_Monad.return (Some err) | None \<Rightarrow> remove_routes h server routes)
      })"

definition cleanup_server :: "http_env \<Rightarrow> deletion_plan \<Rightarrow> server \<Rightarrow> go_error option sys_run" where
  "cleanup_server h plan server =
     (let app = dp_application plan in do {
        e \<leftarrow> (if dp_hasDeployments plan
               then cleanup_step h server (BuildComposeDownCommand app (dp_routes plan))
                 (''prepare cleanup for service '' @ Quote (app_Name app))
                 (''stop service '' @ Quote (app_Name app) @ '' on server '' @ Quote (srv_Name server))
               else State_Monad.return None);
        (case e of Some err \<Rightarrow> State_Monad.return (Some err) | None \<Rightarrow> remove_routes h server (dp_routes plan))
      })"

definition cleanupApplication :: "http_env \<Rightarrow> deletion_plan \<Rightarrow> go_error option sys_run" where
  "cleanupApplication h plan =
     (if \<not> dp_hasDeployments plan \<and> list_all (\<lambda>route. rt_Status route = ''pending'') (dp_routes plan)
        then State_Monad.return None
      else do {
        g \<leftarrow> serve h (GetServer (app_ServerID (dp_application plan)));
        (case g of
           Inl err \<Rightarrow> State_Monad.return (Some (wrap (''load server for service '' @ Quote (app_Name (dp_application plan))) err))
         | Inr server \<Rightarrow> cleanup_server h plan server)
      })"

fun delete_routes :: "http_env \<Rightarrow> route_target list \<Rightarrow> 'a tx_body \<Rightarrow> 'a tx_body" where
  "delete_routes h [] rest = rest"
| "delete_routes h (route # routes) rest = tx_step h Internal (DeleteProxyRoute (rt_ID route)) (\<lambda>_. delete_routes h routes rest)"

definition deleteApplicationRecords :: "http_env \<Rightarrow> deletion_plan \<Rightarrow> unit tx_body" where
  "deleteApplicationRecords h plan =
     delete_routes h (dp_routes plan) (tx_step h Internal (DeleteApplication (app_ID (dp_application plan))) tx_commit)"

text \<open>The request after the application has been found.\<close>

definition delete_found :: "http_env \<Rightarrow> http_request \<Rightarrow> application \<Rightarrow> unit handler" where
  "delete_found h r app = do {
     p \<leftarrow> prepareApplicationDeletion h app;
     or_error p (\<lambda>plan. do {
       e \<leftarrow> cleanupApplication h plan;
       (case e of
          Some err \<Rightarrow> State_Monad.return (writeError (Internal err))
        | None \<Rightarrow> do {
            t \<leftarrow> in_transaction h (deleteApplicationRecords h plan);
            or_error t (\<lambda>_. do {
              http_audit h r ''application.delete'' ''application'' (id_text h (app_ID app)) (app_Name app)
                [(''environment_id'', JStr (id_text h (app_EnvironmentID app))), (''server_id'', JStr (id_text h (app_ServerID app)))];
              State_Monad.return (writeJSON 204 ())
            })
          })
     })
   }"

definition deleteApplication :: "http_env \<Rightarrow> http_request \<Rightarrow> unit handler" where
  "deleteApplication h r =
     or_error (parseUUIDParam h r ''applicationID'') (\<lambda>applicationID. do {
       a \<leftarrow> serve h (GetApplication applicationID);
       or_error (map_error (applicationLookupError ''application not found'') a) (\<lambda>app. delete_found h r app)
     })"

end
