(* ===== verification/Http_Routes.thy ===== *)
theory Http_Routes
  imports Http_Removal
begin

text \<open>
  The handlers of proxy routes (\<^verbatim>\<open>internal/httpapi/proxy.go\<close>) and the application of one route
  (\<^verbatim>\<open>internal/proxy/manager.go\<close>).
\<close>

subsection \<open>Applying a route\<close>

definition maxRemoteProxyOutputLength :: nat where
  "maxRemoteProxyOutputLength = 2048"

definition remoteProxyOutput :: "string \<Rightarrow> string" where
  "remoteProxyOutput output0 =
     (let output = TrimSpace output0 in
      if output = [] then []
      else
        let joined = Join (Fields (MapRunes (\<lambda>r. Some (if IsControl r then 0x20 else r)) output)) '' '' in
        if length joined \<le> maxRemoteProxyOutputLength then joined
        else take maxRemoteProxyOutputLength joined @ ''...[truncated]'')"

definition markFailed :: "http_env \<Rightarrow> pg_uuid \<Rightarrow> go_error \<Rightarrow> go_error sys_run" where
  "markFailed h i cause = do {
     m \<leftarrow> serve h (MarkProxyRouteFailed i);
     State_Monad.return (case m of
        Inl err \<Rightarrow> Errorf (err_text cause @ ''; mark proxy route failed: '' @ err_text err)
      | Inr _ \<Rightarrow> cause)
   }"

definition fail_apply :: "http_env \<Rightarrow> pg_uuid \<Rightarrow> go_error \<Rightarrow> (go_error + proxy_route) sys_run" where
  "fail_apply h i cause = do { err \<leftarrow> markFailed h i cause; State_Monad.return (Inl err) }"

definition run_route_command :: "http_env \<Rightarrow> pg_uuid \<Rightarrow> route_target \<Rightarrow> string \<Rightarrow> (go_error + proxy_route) sys_run" where
  "run_route_command h i target command =
     (case ssh_signer (h_runner h) (rt_Hostname target) (rt_SshPort target) (rt_SshUser target) (text_String (rt_SshKeyPath target)) of
        Some err \<Rightarrow> fail_apply h i err
      | None \<Rightarrow> do {
          (output, e) \<leftarrow> on_world (Run_cmd (h_runner h) (DirectSSH (rt_Hostname target) (rt_SshPort target) (rt_SshUser target)) command);
          (case e of
             Some err \<Rightarrow>
               if remoteProxyOutput output = [] then fail_apply h i err
               else fail_apply h i (Errorf (err_text err @ '': '' @ remoteProxyOutput output))
           | None \<Rightarrow> serve h (MarkProxyRouteApplied i))
        })"

definition Apply :: "http_env \<Rightarrow> pg_uuid \<Rightarrow> (go_error + proxy_route) sys_run" where
  "Apply h i = do {
     g \<leftarrow> serve h (GetProxyRouteTarget i);
     (case g of
        Inl err \<Rightarrow> State_Monad.return (Inl err)
      | Inr target \<Rightarrow>
          if TrimSpace (text_String (rt_SshKeyPath target)) = []
            then fail_apply h i (Errorf ''server ssh_key_path is required to apply proxy routes'')
          else do {
            c \<leftarrow> on_world (route_command (h_runner h) target (rt_UpstreamUrl target));
            (case c of Inl err \<Rightarrow> fail_apply h i err | Inr command \<Rightarrow> run_route_command h i target command)
          })
   }"

definition proxyApplyFailureMetadata :: "go_error \<Rightarrow> (string \<times> json) list" where
  "proxyApplyFailureMetadata cause = [(''error'', JStr (err_text cause)), (''status'', JStr ''failed'')]"

definition applyProxyRoute :: "http_env \<Rightarrow> http_request \<Rightarrow> proxy_route handler" where
  "applyProxyRoute h r =
     or_error (parseUUIDParam h r ''routeID'') (\<lambda>routeID. do {
       a \<leftarrow> Apply h routeID;
       (case a of
          Inl err \<Rightarrow> do {
            http_audit h r ''proxy_route.apply_failed'' ''proxy_route'' (id_text h routeID) (id_text h routeID) (proxyApplyFailureMetadata err);
            State_Monad.return (writeError (Internal err))
          }
        | Inr route \<Rightarrow> do {
            http_audit h r ''proxy_route.apply'' ''proxy_route'' (id_text h (route_ID route)) (route_Domain route)
              [(''status'', JStr (route_Status route))];
            State_Monad.return (writeJSON 200 route)
          })
     })"

subsection \<open>Creating and deleting routes\<close>

definition trim_route :: "create_route_params \<Rightarrow> create_route_params" where
  "trim_route input =
     input\<lparr>cr_Domain := TrimSpace (cr_Domain input), cr_UpstreamUrl := TrimSpace (cr_UpstreamUrl input),
           cr_BlueUpstreamUrl := map_option TrimSpace (cr_BlueUpstreamUrl input),
           cr_GreenUpstreamUrl := map_option TrimSpace (cr_GreenUpstreamUrl input),
           cr_ComposeService := map_option TrimSpace (cr_ComposeService input),
           cr_PortVariable := map_option TrimSpace (cr_PortVariable input)\<rparr>"

definition normalizeCreateProxyRoute :: "create_route_params \<Rightarrow> application option \<Rightarrow> create_route_params" where
  "normalizeCreateProxyRoute input0 app =
     (let input = (case app of
          None \<Rightarrow> input0
        | Some a \<Rightarrow> input0\<lparr>cr_ServerID := app_ServerID a,
            cr_Domain := (if TrimSpace (cr_Domain input0) = [] then (case app_Domain a of Some d \<Rightarrow> d | None \<Rightarrow> cr_Domain input0)
                          else cr_Domain input0)\<rparr>) in
      input\<lparr>cr_Domain := ToLower (TrimSpace (cr_Domain input)), cr_UpstreamUrl := TrimSpace (cr_UpstreamUrl input),
            cr_BlueUpstreamUrl := blankTextAsNull (cr_BlueUpstreamUrl input), cr_GreenUpstreamUrl := blankTextAsNull (cr_GreenUpstreamUrl input),
            cr_ComposeService := blankTextAsNull (cr_ComposeService input), cr_PortVariable := blankTextAsNull (cr_PortVariable input)\<rparr>)"

definition validateOptionalProxyUpstream :: "(string \<Rightarrow> ip_addr list option) \<Rightarrow> pg_text \<Rightarrow> string \<Rightarrow> go_error option" where
  "validateOptionalProxyUpstream lookup v proxyType =
     (case v of
        None \<Rightarrow> None
      | Some u \<Rightarrow> ValidateTarget lookup \<lparr>pt_Domain = ''upstream-check.example'', pt_Upstream = u, pt_TLSEnabled = False, pt_ProxyType = proxyType\<rparr>)"

text \<open>Each of the three checks may ask the name service, at a later time than the one before.\<close>

definition validateProxyRouteInput :: "http_env \<Rightarrow> create_route_params \<Rightarrow> string \<Rightarrow> http_error option sys_run" where
  "validateProxyRouteInput h input proxyType = do {
     n \<leftarrow> on_world next_step;
     n_blue \<leftarrow> on_world next_step;
     n_green \<leftarrow> on_world next_step;
     State_Monad.return (map_option ValidationError (first_message (map (map_option err_text)
       [ValidateTarget (lookup_ip (h_runner h) n)
          \<lparr>pt_Domain = cr_Domain input, pt_Upstream = cr_UpstreamUrl input, pt_TLSEnabled = cr_TlsEnabled input, pt_ProxyType = proxyType\<rparr>,
        validateOptionalProxyUpstream (lookup_ip (h_runner h) n_blue) (cr_BlueUpstreamUrl input) proxyType,
        validateOptionalProxyUpstream (lookup_ip (h_runner h) n_green) (cr_GreenUpstreamUrl input) proxyType])))
   }"

definition proxyLookupError :: "string \<Rightarrow> go_error \<Rightarrow> http_error" where
  "proxyLookupError message err = (if err = ErrNoRows then NotFoundError message else Internal err)"

text \<open>The application of the route, when it names one, gives the server and the default of the domain.\<close>

definition with_route_application ::
  "http_env \<Rightarrow> create_route_params \<Rightarrow> (create_route_params \<Rightarrow> 'b handler) \<Rightarrow> 'b handler" where
  "with_route_application h input f =
     (if cr_ApplicationID input = None then f input
      else do {
        a \<leftarrow> serve h (GetApplication (cr_ApplicationID input));
        or_error (map_error (proxyLookupError ''application not found'') a) (\<lambda>app. f (normalizeCreateProxyRoute input (Some app)))
      })"

definition createProxyRoute :: "http_env \<Rightarrow> http_request \<Rightarrow> http_error + create_route_params \<Rightarrow> proxy_route handler" where
  "createProxyRoute h r decoded =
     or_error decoded (\<lambda>input0. with_route_application h (trim_route input0) (\<lambda>input1.
       let input = normalizeCreateProxyRoute input1 None in
       if cr_ServerID input = None \<or> cr_Domain input = [] \<or> cr_UpstreamUrl input = []
         then State_Monad.return (writeError (ValidationError ''server_id, domain, and upstream_url are required''))
       else do {
         s \<leftarrow> serve h (GetServer (cr_ServerID input));
         or_error (map_error (proxyLookupError ''server not found'') s) (\<lambda>server. do {
           invalid \<leftarrow> validateProxyRouteInput h input (srv_ProxyType server);
           (case invalid of
              Some err \<Rightarrow> State_Monad.return (writeError err)
            | None \<Rightarrow> do {
                n \<leftarrow> on_world next_step;
                c \<leftarrow> serve h (CreateProxyRoute (fresh_ids (h_runner h) n) input);
                or_error (map_error Internal c) (\<lambda>route. do {
                  http_audit h r ''proxy_route.upsert'' ''proxy_route'' (id_text h (route_ID route)) (route_Domain route)
                    [(''compose_service'', JStr (text_String (route_ComposeService route))),
                     (''container_port'', JNum (FormatInt (case route_ContainerPort route of None \<Rightarrow> 0 | Some p \<Rightarrow> p))),
                     (''server_id'', JStr (id_text h (route_ServerID route))), (''tls_enabled'', JBool (route_TlsEnabled route))];
                  State_Monad.return (writeJSON 201 route)
                })
              })
         })
       }))"

text \<open>Removing the route from the server, unless it has never been applied.\<close>

definition remove_route :: "http_env \<Rightarrow> route_target \<Rightarrow> http_error option sys_run" where
  "remove_route h route =
     (if rt_Status route = ''pending'' then State_Monad.return None
      else do {
        g \<leftarrow> serve h (GetServer (rt_ServerID route));
        (case g of
           Inl err \<Rightarrow> State_Monad.return (Some (Internal err))
         | Inr server \<Rightarrow>
             (case BuildRemoveCommand (rt_Domain route) (rt_ProxyType route) of
                Inl err \<Rightarrow> State_Monad.return (Some (ValidationError (err_text err)))
              | Inr command \<Rightarrow> do {
                  (_, err) \<leftarrow> remote_run h server command;
                  State_Monad.return (map_option Internal err)
                }))
      })"

definition deleteProxyRoute :: "http_env \<Rightarrow> http_request \<Rightarrow> unit handler" where
  "deleteProxyRoute h r =
     or_error (parseUUIDParam h r ''routeID'') (\<lambda>routeID. do {
       g \<leftarrow> serve h (GetProxyRouteTarget routeID);
       or_error (map_error (proxyLookupError ''proxy route not found'') g) (\<lambda>route. do {
         e \<leftarrow> remove_route h route;
         (case e of
            Some err \<Rightarrow> State_Monad.return (writeError err)
          | None \<Rightarrow> do {
              d \<leftarrow> serve h (DeleteProxyRoute routeID);
              or_error (map_error Internal d) (\<lambda>_. do {
                http_audit h r ''proxy_route.delete'' ''proxy_route'' (id_text h (rt_ID route)) (rt_Domain route)
                  [(''server_id'', JStr (id_text h (rt_ServerID route)))];
                State_Monad.return (writeJSON 204 ())
              })
            })
       })
     })"

end
