(* ===== verification/Http_Projects.thy ===== *)
theory Http_Projects
  imports Http_Applications Http_Github
begin

text \<open>
  The handlers of \<^verbatim>\<open>internal/httpapi/projects.go\<close>: projects, their repository, and their environments. The default
  registry of a project is not modelled.
\<close>

subsection \<open>Normalization\<close>

definition slugPattern :: matcher where
  "slugPattern = (let c = m_set (\<lambda>r. r_lower r \<or> r_digit r) in
     m_seq c (m_opt (m_seq (m_star (m_set (\<lambda>r. r_lower r \<or> r_digit r \<or> r = 45))) c)))"

definition normalizeSlug :: "string \<Rightarrow> string" where
  "normalizeSlug v = ToLower (TrimSpace v)"

definition hasProjectControlCharacters :: "string list \<Rightarrow> bool" where
  "hasProjectControlCharacters vs \<longleftrightarrow> list_ex (\<lambda>v. ContainsAny v [CHR 0x0D, CHR 0x0A, CHR 0x09]) vs"

definition normalizeCreateProject :: "project_params \<Rightarrow> http_error + project_params" where
  "normalizeCreateProject input0 =
     (let input = \<lparr>pp_Name = TrimSpace (pp_Name input0), pp_Slug = normalizeSlug (pp_Slug input0),
                   pp_Description = TrimSpace (pp_Description input0)\<rparr> in
      if pp_Name input = [] \<or> pp_Slug input = [] then Inl (ValidationError ''name and slug are required'')
      else if hasProjectControlCharacters [pp_Name input, pp_Description input]
        then Inl (ValidationError ''project text fields cannot contain control characters'')
      else if \<not> full_match slugPattern (pp_Slug input)
        then Inl (ValidationError ''slug must use lowercase letters, numbers, and hyphens'')
      else Inr input)"

text \<open>The source repeats the body.\<close>

definition normalizeUpdateProject :: "project_params \<Rightarrow> http_error + project_params" where
  "normalizeUpdateProject input = normalizeCreateProject input"

definition normalizeCreateEnvironment :: "environment_params \<Rightarrow> http_error + environment_params" where
  "normalizeCreateEnvironment input0 =
     (let kind = TrimSpace (ep_Kind input0);
          input = input0\<lparr>ep_Name := TrimSpace (ep_Name input0), ep_Slug := normalizeSlug (ep_Slug input0),
                         ep_Kind := (if kind = [] then ''development'' else kind), ep_Branch := map_option TrimSpace (ep_Branch input0)\<rparr> in
      if ep_ProjectID input = None \<or> ep_Name input = [] \<or> ep_Slug input = []
        then Inl (ValidationError ''project_id, name, and slug are required'')
      else if hasProjectControlCharacters [ep_Name input, text_String (ep_Branch input)]
        then Inl (ValidationError ''environment fields cannot contain control characters'')
      else if \<not> full_match slugPattern (ep_Slug input)
        then Inl (ValidationError ''slug must use lowercase letters, numbers, and hyphens'')
      else if ep_Kind input = ''production'' \<or> ep_Kind input = ''development''
        then Inr (input\<lparr>ep_IsEphemeral := False, ep_PullRequestNumber := None, ep_ExpiresAt := None, ep_Branch := blankTextAsNull (ep_Branch input)\<rparr>)
      else if ep_Kind input = ''preview'' then
        (if \<not> opt_all (\<lambda>n. 0 < n) (ep_PullRequestNumber input)
           then Inl (ValidationError ''pull_request_number must be greater than zero'')
         else Inr (input\<lparr>ep_IsEphemeral := True, ep_Branch := blankTextAsNull (ep_Branch input)\<rparr>))
      else Inl (ValidationError ''environment kind must be production, development, or preview''))"

subsection \<open>Projects\<close>

definition project_audit :: "http_env \<Rightarrow> http_request \<Rightarrow> string \<Rightarrow> project \<Rightarrow> unit sys_run" where
  "project_audit h r action p =
     http_audit h r action ''project'' (id_text h (proj_ID p)) (proj_Name p) [(''slug'', JStr (proj_Slug p))]"

definition createProject :: "http_env \<Rightarrow> http_request \<Rightarrow> http_error + project_params \<Rightarrow> project handler" where
  "createProject h r decoded =
     or_error decoded (\<lambda>input0. or_error (normalizeCreateProject input0) (\<lambda>input. do {
       n \<leftarrow> on_world next_step;
       n_env \<leftarrow> on_world next_step;
       c \<leftarrow> serve h (CreateProjectWithDefaultEnvironments (fresh_ids (h_runner h) n) (fresh_ids (h_runner h) n_env) input);
       or_error (map_error Internal c) (\<lambda>p. do {
         project_audit h r ''project.create'' p;
         State_Monad.return (writeJSON 201 p)
       })
     }))"

definition updateProject :: "http_env \<Rightarrow> http_request \<Rightarrow> http_error + project_params \<Rightarrow> project handler" where
  "updateProject h r decoded =
     or_error (parseUUIDParam h r ''projectID'') (\<lambda>projectID. or_error decoded (\<lambda>request0.
       or_error (normalizeUpdateProject request0) (\<lambda>request. do {
         u \<leftarrow> serve h (UpdateProject projectID request);
         or_error (map_error (applicationLookupError ''project not found'') u) (\<lambda>p. do {
           project_audit h r ''project.update'' p;
           State_Monad.return (writeJSON 200 p)
         })
       })))"

definition deleteProject :: "http_env \<Rightarrow> http_request \<Rightarrow> unit handler" where
  "deleteProject h r =
     or_error (parseUUIDParam h r ''projectID'') (\<lambda>projectID. do {
       g \<leftarrow> serve h (GetProject projectID);
       or_error (map_error (applicationLookupError ''project not found'') g) (\<lambda>p. do {
         l \<leftarrow> serve h ListApplications;
         or_error (map_error Internal l) (\<lambda>listed.
           if list_ex (\<lambda>(_, q). proj_ID q = projectID) listed
             then State_Monad.return (writeError (ValidationError ''delete every service in this project before deleting the project''))
           else do {
             d \<leftarrow> serve h (DeleteProject projectID);
             or_error (map_error Internal d) (\<lambda>_. do {
               project_audit h r ''project.delete'' p;
               State_Monad.return (writeJSON 204 ())
             })
           })
       })
     })"

record repository_request =
  rr_ConnectorID :: string
  rr_Repository :: string
  rr_Branch :: string

text \<open>The branch of a request, that of the entry of the connector, or main.\<close>

definition request_branch :: "string \<Rightarrow> gh_repository \<Rightarrow> string" where
  "request_branch branch repository =
     (let b = (if branch = [] then repo_Branch repository else branch) in if b = [] then ''main'' else b)"

text \<open>The source of the project: the connector, the full name and the branch, or none.\<close>

definition project_source :: "http_env \<Rightarrow> repository_request \<Rightarrow> (http_error + (pg_uuid \<times> pg_text \<times> pg_text)) sys_run" where
  "project_source h request =
     (if rr_Repository request = [] then State_Monad.return (Inr (None, None, None))
      else case PgUUID (q_parse_uuid (h_queue h)) (rr_ConnectorID request) of
        Inl _ \<Rightarrow> State_Monad.return (Inl (ValidationError ''connector_id must be a uuid''))
      | Inr connectorID \<Rightarrow> do {
          g \<leftarrow> serve h (GetConnectorAccount connectorID);
          State_Monad.return (case map_error (applicationLookupError ''connector not found'') g of
            Inl err \<Rightarrow> Inl err
          | Inr account \<Rightarrow>
              if acc_Provider account \<noteq> ''github'' \<or> \<not> acc_Enabled account
                then Inl (ValidationError ''connector must be an enabled github connector'')
              else try_bind (githubConnectorRepositoryAnyBranch (json_error (h_runner h)) (acc_Config account) (rr_Repository request)) (\<lambda>repository.
                let branch = request_branch (rr_Branch request) repository in
                case ValidateGitRefName branch of
                  Some err \<Rightarrow> Inl (ValidationError (''branch '' @ err_text err))
                | None \<Rightarrow> Inr (connectorID, blankStringAsText (repo_Repository repository), blankStringAsText branch)))
        })"

definition updateProjectRepository :: "http_env \<Rightarrow> http_request \<Rightarrow> http_error + repository_request \<Rightarrow> project handler" where
  "updateProjectRepository h r decoded =
     or_error (parseUUIDParam h r ''projectID'') (\<lambda>projectID. or_error decoded (\<lambda>request0.
       let request = \<lparr>rr_ConnectorID = TrimSpace (rr_ConnectorID request0), rr_Repository = TrimSpace (rr_Repository request0),
                      rr_Branch = TrimSpace (rr_Branch request0)\<rparr> in do {
       s \<leftarrow> project_source h request;
       or_error s (\<lambda>(connector, name, branch). do {
         u \<leftarrow> serve h (UpdateProjectRepository connector name branch projectID);
         or_error (map_error (applicationLookupError ''project not found'') u) (\<lambda>p. do {
           http_audit h r ''project.repository_update'' ''project'' (id_text h (proj_ID p)) (proj_Name p)
             [(''branch'', JStr (text_String (proj_RepositoryBranch p))), (''connected'', JBool (proj_RepositoryFullName p \<noteq> None)),
              (''repository'', JStr (text_String (proj_RepositoryFullName p)))];
           State_Monad.return (writeJSON 200 p)
         })
       })
     }))"

subsection \<open>Environments\<close>

definition createEnvironment :: "http_env \<Rightarrow> http_request \<Rightarrow> http_error + environment_params \<Rightarrow> environment handler" where
  "createEnvironment h r decoded =
     or_error decoded (\<lambda>input0. or_error (normalizeCreateEnvironment input0) (\<lambda>input. do {
       g \<leftarrow> serve h (GetProject (ep_ProjectID input));
       or_error (map_error (applicationLookupError ''project not found'') g) (\<lambda>_. do {
         n \<leftarrow> on_world next_step;
         c \<leftarrow> serve h (CreateEnvironment (fresh_ids (h_runner h) n) input);
         or_error (map_error Internal c) (\<lambda>e. do {
           http_audit h r ''environment.create'' ''environment'' (id_text h (env_ID e)) (env_Name e)
             [(''ephemeral'', JBool (env_IsEphemeral e)), (''kind'', JStr (env_Kind e)), (''project_id'', JStr (id_text h (env_ProjectID e)))];
           State_Monad.return (writeJSON 201 e)
         })
       })
     }))"

definition environmentDeletionError :: "go_error \<Rightarrow> http_error" where
  "environmentDeletionError err =
     (if err = ErrNoRows then ValidationError ''remove all services before deleting the environment'' else Internal err)"

definition deleteEnvironment :: "http_env \<Rightarrow> http_request \<Rightarrow> unit handler" where
  "deleteEnvironment h r =
     or_error (parseUUIDParam h r ''environmentID'') (\<lambda>environmentID. do {
       g \<leftarrow> serve h (GetEnvironment environmentID);
       or_error (map_error (applicationLookupError ''environment not found'') g) (\<lambda>e.
         if env_Kind e = ''production''
           then State_Monad.return (writeError (ValidationError ''the production environment cannot be deleted''))
         else do {
           d \<leftarrow> serve h (DeleteEnvironment environmentID);
           or_error (map_error environmentDeletionError d) (\<lambda>_. do {
             http_audit h r ''environment.delete'' ''environment'' (id_text h (env_ID e)) (env_Name e)
               [(''kind'', JStr (env_Kind e)), (''project_id'', JStr (id_text h (env_ProjectID e)))];
             State_Monad.return (writeJSON 204 ())
           })
         })
     })"

end
