(* ===== verification/Http_Editing.thy ===== *)
theory Http_Editing
  imports Http_Routes Http_Projects Http_Deployments_Proofs
begin

text \<open>
  What the handlers that edit settings keep of the tables: the interface between them and the statements of
  \<open>Store_Settings\<close> and \<open>Store_Places\<close>, and its instances for executions of the lifecycle and for valid tables.
\<close>

subsection \<open>Statements do not move the clock\<close>

definition keeps_clock :: "'a stmt \<Rightarrow> bool" where
  "keeps_clock q \<longleftrightarrow> (\<forall>db x db'. q db = Inr (x, db') \<longrightarrow> clock db' = clock db)"

lemma settings_clock:
  "keeps_clock (GetProjectForUpdate i)" "keeps_clock (ListProjectRuntimeVariables i)" "keeps_clock (DeleteProjectRuntimeVariables i)"
  "keeps_clock (UpsertProjectRuntimeVariable i key v)" "keeps_clock (IncrementProjectConfigurationRevision i)"
  "keeps_clock (GetApplicationForUpdate i)" "keeps_clock (GetApplicationServiceRuntimeConfig i service)"
  "keeps_clock (DeleteApplicationServiceRuntimeConfig i service)" "keeps_clock (UpsertApplicationServiceRuntimeConfig i service dp dc vars)"
  "keeps_clock (BumpApplicationConfigurationRevision i)" "keeps_clock (DeleteProxyRoute i)" "keeps_clock (DeleteApplication i)"
  by (auto simp: keeps_clock_def GetProjectForUpdate_def ListProjectRuntimeVariables_def DeleteProjectRuntimeVariables_def
      UpsertProjectRuntimeVariable_def IncrementProjectConfigurationRevision_def GetApplicationForUpdate_def
      GetApplicationServiceRuntimeConfig_def DeleteApplicationServiceRuntimeConfig_def UpsertApplicationServiceRuntimeConfig_def
      BumpApplicationConfigurationRevision_def DeleteProxyRoute_def DeleteApplication_def Let_def
      split: option.splits list.splits if_splits)

lemma clock_grows_tx_serve: "keeps_clock q \<Longrightarrow> clock_grows (tx_serve h q)"
  by (rule clock_grows_rules) (simp add: keeps_clock_def)

lemma clock_grows_tx_step: "keeps_clock q \<Longrightarrow> (\<And>x. clock_grows (f x)) \<Longrightarrow> clock_grows (tx_step h on_err q f)"
  unfolding tx_step_def tx_fail_def
  by (intro clock_grows_bind clock_grows_tx_serve clock_grows_cases clock_grows_rules)

lemma clock_grows_tx_end: "clock_grows (tx_fail err)" "clock_grows (tx_commit x)"
  unfolding tx_fail_def tx_commit_def by (intro clock_grows_rules)+

lemmas tx_clock = clock_grows_tx_step clock_grows_tx_end clock_grows_cases clock_grows_rules(1) settings_clock

lemma clock_grows_upsert: "clock_grows rest \<Longrightarrow> clock_grows (upsert_variables h i vs rest)"
  by (induction vs) (auto intro: tx_clock)

lemma clock_grows_delete_routes: "clock_grows rest \<Longrightarrow> clock_grows (delete_routes h routes rest)"
  by (induction routes) (auto intro: tx_clock)

lemma clock_grows_bodies:
  "clock_grows (store_variables_body h i vs)" "clock_grows (store_config_body h j service request)" "clock_grows (deleteApplicationRecords h plan)"
  unfolding store_variables_body_def store_config_body_def deleteApplicationRecords_def change_service_config_def Let_def
  by (intro tx_clock clock_grows_upsert clock_grows_delete_routes clock_grows_bind clock_grows_tx_serve)+

subsection \<open>The interface\<close>

locale settings_statements = http_statements +
  assumes app_creates: "stmt_keeps I (CreateApplication new_id ca)"
    and app_updates: "stmt_keeps I (UpdateApplication ua)"
    and app_bumps: "stmt_keeps I (BumpApplicationConfigurationRevision i)"
    and variables_deletes: "stmt_keeps I (DeleteProjectRuntimeVariables i)"
    and variable_upserts: "stmt_keeps I (UpsertProjectRuntimeVariable i key v)"
    and project_bumps: "stmt_keeps I (IncrementProjectConfigurationRevision i)"
    and service_deletes: "stmt_keeps I (DeleteApplicationServiceRuntimeConfig i service)"
    and service_upserts: "stmt_keeps I (UpsertApplicationServiceRuntimeConfig i service dp dc vars)"
    and project_creates: "stmt_keeps I (CreateProjectWithDefaultEnvironments new_id env_id pp)"
    and project_updates: "stmt_keeps I (UpdateProject i pp)"
    and project_connects: "stmt_keeps I (UpdateProjectRepository conn name branch i)"
    and project_deletes: "stmt_keeps I (DeleteProject i)"
    and environment_creates: "stmt_keeps I (CreateEnvironment new_id ep)"
    and environment_deletes: "stmt_keeps I (DeleteEnvironment i)"
    and route_creates: "stmt_keeps I (CreateProxyRoute new_id cr)"
    and route_deletes: "stmt_keeps I (DeleteProxyRoute i)"
begin

lemmas settings_rules = app_creates app_updates app_bumps variables_deletes variable_upserts project_bumps service_deletes
  service_upserts project_creates project_updates project_connects project_deletes environment_creates environment_deletes
  route_creates route_deletes settings_read_only places_read_only read_only_keeps catalog_read_only configuration_queries_keep

lemma tx_step_keeps: "stmt_keeps I q \<Longrightarrow> (\<And>x. sys_keeps I (f x)) \<Longrightarrow> sys_keeps I (tx_step h on_err q f)"
  unfolding tx_step_def tx_fail_def by (intro sys_keeps_rules tx_serve_keeps)

lemma tx_end_keeps: "sys_keeps I (tx_fail err)" "sys_keeps I (tx_commit x)"
  unfolding tx_fail_def tx_commit_def by (intro sys_keeps_rules)+

lemma upsert_variables_keeps: "sys_keeps I rest \<Longrightarrow> sys_keeps I (upsert_variables h i vs rest)"
  by (induction vs) (auto intro: tx_step_keeps settings_rules)

lemma store_variables_keeps: "sys_keeps I (storeProjectRuntimeVariables h i vs)"
  unfolding storeProjectRuntimeVariables_def in_transaction_def
  by (rule transaction_keeps [OF _ clock_grows_bodies(1)], unfold store_variables_body_def)
    (intro tx_step_keeps tx_end_keeps upsert_variables_keeps sys_keeps_rules settings_rules)

lemma change_config_keeps: "sys_keeps I (change_service_config h j app service request)"
  unfolding change_service_config_def Let_def
  by (intro tx_step_keeps tx_end_keeps sys_keeps_rules settings_rules)

lemma store_config_keeps: "sys_keeps I (storeApplicationServiceRuntimeConfig h j service request)"
  unfolding storeApplicationServiceRuntimeConfig_def in_transaction_def
  by (rule transaction_keeps [OF _ clock_grows_bodies(2)], unfold store_config_body_def)
    (intro tx_step_keeps tx_end_keeps tx_serve_keeps change_config_keeps sys_keeps_rules settings_rules)

lemma variables_handlers_keep:
  "sys_keeps I (listProjectRuntimeVariables h r)" "sys_keeps I (replaceProjectRuntimeVariables h r decoded_vars)"
  "sys_keeps I (listApplicationServiceRuntimeConfigs h r)" "sys_keeps I (replaceApplicationServiceRuntimeConfig h r decoded_config)"
  unfolding listProjectRuntimeVariables_def replaceProjectRuntimeVariables_def listApplicationServiceRuntimeConfigs_def
    replaceApplicationServiceRuntimeConfig_def Let_def
  by (auto split: prod.splits intro!: handler_rules settings_rules store_variables_keeps store_config_keeps)

lemma with_places_keeps: "sys_keeps I rest \<Longrightarrow> sys_keeps I (with_places h input rest)"
  unfolding with_places_def by (intro handler_rules settings_rules)

lemma application_handlers_keep:
  "sys_keeps I (createApplication h r decoded_app)" "sys_keeps I (updateApplication h r decoded_update)"
  unfolding createApplication_def updateApplication_def
  by (auto split: prod.splits option.splits intro!: handler_rules settings_rules with_places_keeps)

lemma project_handlers_keep:
  "sys_keeps I (createProject h r decoded_project)" "sys_keeps I (updateProject h r decoded_project)" "sys_keeps I (deleteProject h r)"
  "sys_keeps I (createEnvironment h r decoded_env)" "sys_keeps I (deleteEnvironment h r)"
  unfolding createProject_def updateProject_def deleteProject_def createEnvironment_def deleteEnvironment_def project_audit_def
  by (intro handler_rules settings_rules)+

lemma project_source_keeps: "sys_keeps I (project_source h request)"
  unfolding project_source_def by (intro handler_rules settings_rules)

lemma updateProjectRepository_keeps: "sys_keeps I (updateProjectRepository h r decoded_repo)"
  unfolding updateProjectRepository_def Let_def
  by (auto split: prod.splits intro!: handler_rules settings_rules project_source_keeps)

lemma remote_run_keeps: "sys_keeps I (remote_run h srv cmd)"
  unfolding remote_run_def by (intro sys_keeps_rules keeps_rules)

lemma runServerCommand_keeps: "sys_keeps I (runServerCommand h r decoded_command)"
  unfolding runServerCommand_def
  by (auto split: prod.splits intro!: handler_rules settings_rules remote_run_keeps)

lemma fail_apply_keeps: "sys_keeps I (fail_apply h i err)"
  unfolding fail_apply_def markFailed_def by (intro handler_rules settings_rules)

lemma Apply_keeps: "sys_keeps I (Apply h i)"
  unfolding Apply_def run_route_command_def route_command_def
  by (auto split: prod.splits sum.splits option.splits intro!: handler_rules keeps_rules settings_rules fail_apply_keeps)

lemma route_handlers_keep:
  "sys_keeps I (applyProxyRoute h r)" "sys_keeps I (createProxyRoute h r decoded_route)" "sys_keeps I (deleteProxyRoute h r)"
  unfolding applyProxyRoute_def createProxyRoute_def with_route_application_def validateProxyRouteInput_def
    deleteProxyRoute_def remove_route_def Let_def
  by (auto split: prod.splits sum.splits option.splits intro!: handler_rules settings_rules remote_run_keeps Apply_keeps)

lemmas settings_handlers_keep = variables_handlers_keep application_handlers_keep project_handlers_keep updateProjectRepository_keeps
  runServerCommand_keeps route_handlers_keep

end

interpretation editing: settings_statements "db_run db0" for db0
  by unfold_locales (auto intro: reach_step db_step.intros)

interpretation editing_ok: settings_statements store_ok
  by unfold_locales (rule settings_ok places_ok)+

end
