(* ===== verification/Http_Settings_Proofs.thy ===== *)
theory Http_Settings_Proofs
  imports Http_Editing Remote_Steps_Proofs
begin

text \<open>
  Properties of the variables of projects and services: what the handlers accept can be rendered by a deployment,
  an edit replaces everything or nothing, and an edit is recorded as a change exactly when it is one.
\<close>

subsection \<open>ASCII bytes and code points\<close>

lemma decode_rune_high_bytes:
  assumes "128 \<le> byte c"
  shows "list_all (\<lambda>d. 128 \<le> byte d) (take (snd (decode_rune (c # cs))) (c # cs))"
proof -
  have high: "128 \<le> b" if "continuation b \<or> second_byte_ok b0 b" for b b0
    using that by (auto simp: continuation_def second_byte_ok_def split: if_splits)
  show ?thesis using assms
    by (simp add: decode_rune.simps(2) Let_def high split: list.split) (blast intro: high)
qed

lemma chunk_high_bytes: "k \<in> set (chunks s) \<Longrightarrow> 128 \<le> fst k \<Longrightarrow> d \<in> set (snd k) \<Longrightarrow> 128 \<le> byte d"
proof (induction s rule: chunks.induct)
  case (2 c cs)
  show ?case
  proof (cases "k \<in> set (chunks (drop (snd (decode_rune (c # cs))) (c # cs)))")
    case True
    then show ?thesis using "2.IH" [OF refl] "2.prems" by blast
  next
    case False
    with "2.prems" have k: "k = (fst (decode_rune (c # cs)), take (snd (decode_rune (c # cs))) (c # cs))"
      by (auto simp: chunks.simps(2) Let_def)
    with "2.prems"(2) have "128 \<le> byte c" by (cases "byte c < 128") auto
    then show ?thesis using decode_rune_high_bytes [of c cs] "2.prems"(3) unfolding k list_all_iff by simp
  qed
qed simp

lemma count_runes:
  assumes "\<And>r. P r \<Longrightarrow> r < 128"
  shows "length (filter P (runes s)) = length (filter (\<lambda>c. P (byte c)) s)"
proof -
  have "length (filter P (map fst ks)) = length (filter (\<lambda>c. P (byte c)) (chunk_bytes ks))" if "set ks \<subseteq> set (chunks s)" for ks
    using that
  proof (induction ks)
    case (Cons k ks)
    have k: "k \<in> set (chunks s)" using Cons.prems by simp
    have "length (filter P [fst k]) = length (filter (\<lambda>c. P (byte c)) (snd k))"
    proof (cases "fst k < 128")
      case True
      then show ?thesis using chunk_below_128 [OF k] by auto
    next
      case False
      then have "\<not> P (byte d)" if "d \<in> set (snd k)" for d using chunk_high_bytes [OF k _ that] assms [of "byte d"] by linarith
      then have "filter (\<lambda>c. P (byte c)) (snd k) = []" by (simp add: filter_empty_conv)
      moreover have "\<not> P (fst k)" using False assms by blast
      ultimately show ?thesis by simp
    qed
    then show ?case using Cons by (auto split: if_splits)
  qed simp
  from this [of "chunks s"] show ?thesis by simp
qed

subsection \<open>Accepted variables can be rendered\<close>

definition as_runtime :: "variable_input \<Rightarrow> runtime_variable" where
  "as_runtime v = runtime_var (vi_Key v) (vi_Value v)"

abbreviation special_byte :: "char \<Rightarrow> bool" where
  "special_byte c \<equiv> c = backslash \<or> c = CHR 0x22 \<or> c = CHR ''$'' \<or> c = CHR 0x60"

lemma quoted_length:
  assumes "CHR 0x0A \<notin> set v" "CHR 0x0D \<notin> set v"
  shows "length (quoteEnvValue v) = length v + length (filter special_byte v) + 2"
proof -
  have "length (concat (map env_escape v)) = length v + length (filter special_byte v)"
    using assms by (induction v) (auto simp: env_escape_def)
  then show ?thesis by (simp add: quoteEnvValue_escape)
qed

lemma no_control_bytes:
  assumes "\<not> containsControlCharacter v" "c \<in> set v"
  shows "0x20 \<le> byte c"
proof -
  have "filter (\<lambda>r. r < 0x20) (runes v) = []"
    using assms(1) by (force simp: containsControlCharacter_def list_ex_iff filter_empty_conv IsControl_def)
  then have "filter (\<lambda>c. byte c < 0x20) v = []" using count_runes [of "\<lambda>r. r < 0x20" v] by simp
  then show ?thesis using assms(2) by (auto simp: filter_empty_conv not_less)
qed

lemma plain_value:
  assumes "\<not> containsControlCharacter v"
  shows "CHR 0x00 \<notin> set v" "CHR 0x0A \<notin> set v" "CHR 0x0D \<notin> set v"
  using no_control_bytes [OF assms] by force+

lemma rendered_line:
  assumes "\<not> containsControlCharacter (vi_Value v)"
  shows "Suc (length (env_line (as_runtime v))) = renderedRuntimeVariableSize v"
proof -
  have quote: "byte c = 0x22 \<longleftrightarrow> c = CHR 0x22" "byte c = 0x60 \<longleftrightarrow> c = CHR 0x60" for c
    using byte_inject [of c "CHR 0x22"] byte_inject [of c "CHR 0x60"] by simp_all
  have "length (filter (\<lambda>r. r = byte backslash \<or> r = 0x22 \<or> r = byte (CHR ''$'') \<or> r = 0x60) (runes (vi_Value v)))
      = length (filter special_byte (vi_Value v))"
  proof (subst count_runes)
    show "length (filter (\<lambda>c. byte c = byte backslash \<or> byte c = 0x22 \<or> byte c = byte (CHR ''$'') \<or> byte c = 0x60) (vi_Value v))
        = length (filter special_byte (vi_Value v))"
      by (intro arg_cong [where f = length] filter_cong refl) (simp only: quote byte_inject)
  qed auto
  then show ?thesis using quoted_length [OF plain_value(2,3) [OF assms]]
    by (simp add: renderedRuntimeVariableSize_def env_line_def as_runtime_def runtime_var_def)
qed

lemma Join_lines: "lines \<noteq> [] \<Longrightarrow> length (Join lines [CHR 0x0A]) = sum_list (map (\<lambda>l. Suc (length l)) lines) - 1"
  by (induction lines rule: induct_list012) auto

lemma sum_list_sort: "sum_list (map f (sort xs)) = sum_list (map (f :: _ \<Rightarrow> nat) xs)"
  by (metis mset_map mset_sort sum_mset_sum_list)

lemma sum_list_sort_key: "sum_list (map f (sort_key k xs)) = sum_list (map (f :: _ \<Rightarrow> nat) xs)"
  by (metis mset_map mset_sort sum_mset_sum_list)

text \<open>What the loop accepts.\<close>

definition accepted_variable :: "variable_input \<Rightarrow> bool" where
  "accepted_variable v \<longleftrightarrow> ValidRuntimeVariableKey (vi_Key v) \<and> length (vi_Key v) \<le> maxProjectRuntimeVariableKey
     \<and> length (vi_Value v) \<le> maxProjectRuntimeVariableValue \<and> \<not> containsControlCharacter (vi_Value v)"

lemma check_variables_accepted:
  assumes "check_variables seen vs = Inr ns"
  shows "list_all accepted_variable ns" "distinct (map vi_Key ns)" "set seen \<inter> set (map vi_Key ns) = {}" "length ns = length vs"
proof -
  have "list_all accepted_variable ns \<and> distinct (map vi_Key ns) \<and> set seen \<inter> set (map vi_Key ns) = {} \<and> length ns = length vs"
    using assms
  proof (induction vs arbitrary: seen ns)
    case (Cons v vs)
    define v' where "v' = v\<lparr>vi_Key := TrimSpace (vi_Key v)\<rparr>"
    obtain ns' where ns: "ns = v' # ns'" and ok: "check_variable seen v' = None" and rest: "check_variables (vi_Key v' # seen) vs = Inr ns'"
      using Cons.prems by (auto simp: Let_def v'_def split: option.splits)
    have "accepted_variable v'" "vi_Key v' \<notin> set seen"
      using ok by (auto simp: check_variable_def accepted_variable_def split: if_splits)
    then show ?case using Cons.IH [OF rest] ns by auto
  qed simp
  then show "list_all accepted_variable ns" "distinct (map vi_Key ns)" "set seen \<inter> set (map vi_Key ns) = {}" "length ns = length vs"
    by simp_all
qed

lemma normalized_variables:
  assumes "normalizeProjectRuntimeVariables vs = Inr ns"
  shows "list_all accepted_variable ns" "distinct (map vi_Key ns)" "sorted (map vi_Key ns)"
    "sum_list (map renderedRuntimeVariableSize ns) \<le> maxProjectRuntimeEnvironmentSize" "length ns \<le> maxProjectRuntimeVariables"
proof -
  obtain ms where ms: "check_variables [] vs = Inr ms" "sum_list (map renderedRuntimeVariableSize ms) \<le> maxProjectRuntimeEnvironmentSize"
    "ns = sort_key vi_Key ms" "length vs \<le> maxProjectRuntimeVariables"
    using assms by (auto simp: normalizeProjectRuntimeVariables_def split: if_splits)
  note acc = check_variables_accepted [OF ms(1)]
  show "list_all accepted_variable ns" using acc(1) ms(3) by (simp add: list_all_iff)
  have "mset (map vi_Key ns) = mset (map vi_Key ms)" using ms(3) by simp
  then show "distinct (map vi_Key ns)" using acc(2) mset_eq_imp_distinct_iff by blast
  show "sorted (map vi_Key ns)" using ms(3) by simp
  show "sum_list (map renderedRuntimeVariableSize ns) \<le> maxProjectRuntimeEnvironmentSize" using ms(2,3) by (simp add: sum_list_sort_key)
  show "length ns \<le> maxProjectRuntimeVariables" using ms(3,4) acc(4) by simp
qed

lemma accepted_renders: "accepted_variable v \<Longrightarrow> validateRuntimeVariable (as_runtime v) = None \<and> isValidRuntimeVariable (as_runtime v)"
  using plain_value(1) by (auto simp: accepted_variable_def validateRuntimeVariable_def isValidRuntimeVariable_def as_runtime_def runtime_var_def
      maxProjectRuntimeVariableValue_def maxRuntimeVariableValueLength_def)

lemma first_error_None: "first_error f xs = None \<longleftrightarrow> list_all (\<lambda>x. f x = None) xs"
  by (induction xs) (auto split: option.splits)

lemma rendered_file_length:
  assumes "list_all accepted_variable ns"
  shows "length (renderEnvFile (map as_runtime ns)) = sum_list (map renderedRuntimeVariableSize ns)"
proof -
  let ?ls = "sort (map env_line (map as_runtime ns))"
  have all: "filter isValidRuntimeVariable (map as_runtime ns) = map as_runtime ns"
    using assms accepted_renders by (auto simp: list_all_iff filter_id_conv)
  have size: "sum_list (map (\<lambda>l. Suc (length l)) ?ls) = sum_list (map renderedRuntimeVariableSize ns)"
    using assms rendered_line by (simp add: sum_list_sort o_def list_all_iff accepted_variable_def cong: map_cong)
  show ?thesis
  proof (cases "ns = []")
    case False
    then have ne: "?ls \<noteq> []" by (metis length_0_conv length_map length_sort)
    then have "0 < sum_list (map (\<lambda>l. Suc (length l)) ?ls)" by (cases ?ls) auto
    then have "length (Join ?ls [CHR 0x0A]) + 1 = sum_list (map renderedRuntimeVariableSize ns)"
      using Join_lines [OF ne] size by linarith
    then show ?thesis using ne by (simp add: renderEnvFile_def all Let_def)
  qed (simp add: renderEnvFile_def)
qed

text \<open>C18. Whatever variables a request for a project or a service gets accepted, a deployment can write them: the environment
  file is rendered without an error, and its length is exactly what the validation of the request has computed, so that
  the limit of the request is the limit of the file.\<close>

theorem accepted_variables_render:
  assumes "normalizeProjectRuntimeVariables vs = Inr ns"
  shows "\<exists>file. renderRuntimeEnvFile (map as_runtime ns) = Inr file
    \<and> length file = sum_list (map renderedRuntimeVariableSize ns) \<and> length file \<le> maxRuntimeEnvFileLength"
proof -
  note ok = normalized_variables [OF assms]
  have "first_error validateRuntimeVariable (map as_runtime ns) = None"
    using ok(1) accepted_renders by (auto simp: first_error_None list_all_iff)
  then show ?thesis using rendered_file_length [OF ok(1)] ok(4)
    by (simp add: renderRuntimeEnvFile_def Let_def maxRuntimeEnvFileLength_def maxProjectRuntimeEnvironmentSize_def)
qed

theorem accepted_variables_render_witness:
  "\<exists>ns file. normalizeProjectRuntimeVariables [\<lparr>vi_Key = ''B'', vi_Value = ''$x''\<rparr>, \<lparr>vi_Key = '' A'', vi_Value = ''y''\<rparr>] = Inr ns
     \<and> renderRuntimeEnvFile (map as_runtime ns) = Inr file \<and> length file = 14"
proof -
  have n: "normalizeProjectRuntimeVariables [\<lparr>vi_Key = ''B'', vi_Value = ''$x''\<rparr>, \<lparr>vi_Key = '' A'', vi_Value = ''y''\<rparr>]
      = Inr [\<lparr>vi_Key = ''A'', vi_Value = ''y''\<rparr>, \<lparr>vi_Key = ''B'', vi_Value = ''$x''\<rparr>]" by code_simp
  have size: "sum_list (map renderedRuntimeVariableSize [\<lparr>vi_Key = ''A'', vi_Value = ''y''\<rparr>, \<lparr>vi_Key = ''B'', vi_Value = ''$x''\<rparr>]) = 14"
    by code_simp
  from accepted_variables_render [OF n] n show ?thesis unfolding size by blast
qed

subsection \<open>Outcomes of a transaction\<close>

text \<open>
  What holds when the body of a transaction, started on given tables, goes on to commit; a body that does not, ends in an error.
\<close>

definition tx_ends :: "'a tx_body \<Rightarrow> store \<Rightarrow> (http_error + 'a \<Rightarrow> store \<Rightarrow> bool) \<Rightarrow> bool" where
  "tx_ends body db Q \<longleftrightarrow> (\<forall>s r c s'. sys_store s = db \<longrightarrow> run_state body s = ((r, c), s') \<longrightarrow> (if c then Q r (sys_store s') else isl r))"

lemma tx_ends_return:
  "tx_ends (tx_fail err) db Q" "Q (Inr x) db \<Longrightarrow> tx_ends (tx_commit x) db Q" "Q r db \<Longrightarrow> tx_ends (State_Monad.return (r, True)) db Q"
  by (auto simp: tx_ends_def tx_fail_def tx_commit_def)

lemma tx_serve_cases:
  assumes "run_state (tx_serve h q) s = (r, s')"
  obtains (failed) err where "r = Inl err" | (done_) x where "r = Inr x" "q (sys_store s) = Inr (x, sys_store s')"
  using assms by (auto simp: tx_serve_def run_on_world db_exec_def run_bind next_step_def Let_def split: db_outcome.splits sum.splits prod.splits)

lemma tx_ends_step:
  assumes "\<And>x db1. q db = Inr (x, db1) \<Longrightarrow> tx_ends (f x) db1 Q"
  shows "tx_ends (tx_step h on_err q f) db Q"
  unfolding tx_ends_def
proof (intro allI impI)
  fix s r c s' assume db: "sys_store s = db" and run: "run_state (tx_step h on_err q f) s = ((r, c), s')"
  obtain a s1 where a: "run_state (tx_serve h q) s = (a, s1)" by (metis surj_pair)
  from a show "if c then Q r (sys_store s') else isl r"
  proof (cases rule: tx_serve_cases)
    case (failed err)
    then show ?thesis using run a by (auto simp: tx_step_def run_bind tx_fail_def)
  next
    case (done_ x)
    then have "tx_ends (f x) (sys_store s1) Q" using assms db by simp
    then show ?thesis using run a done_(1) by (simp add: tx_step_def run_bind tx_ends_def)
  qed
qed

lemma serve_no_op_store:
  assumes "run_state (serve h no_op) s = (b, s1)"
  shows "\<exists>t. sys_store s1 = (sys_store s)\<lparr>clock := t\<rparr>" "sys_queue s1 = sys_queue s" "w_remote (sys_world s1) = w_remote (sys_world s)"
proof -
  have "(\<exists>t. sys_store s1 = (sys_store s)\<lparr>clock := t\<rparr>) \<and> sys_queue s1 = sys_queue s \<and> w_remote (sys_world s1) = w_remote (sys_world s)"
    using assms by (auto simp: serve_def run_on_world db_exec_def run_bind next_step_def no_op_def Let_def split: db_outcome.splits)
  then show "\<exists>t. sys_store s1 = (sys_store s)\<lparr>clock := t\<rparr>" "sys_queue s1 = sys_queue s" "w_remote (sys_world s1) = w_remote (sys_world s)"
    by simp_all
qed

text \<open>Nothing but the time has changed, and there is an error; or the transaction is committed, with its result or an error.\<close>

lemma in_transaction_outcome:
  assumes "run_state (in_transaction h body) s = (r, s')" "\<And>t. tx_ends body ((sys_store s)\<lparr>clock := t\<rparr>) (Q t)"
  shows "(isl r \<and> (\<exists>t. sys_store s' = (sys_store s)\<lparr>clock := t\<rparr>)) \<or> (\<exists>t r'. Q t r' (sys_store s') \<and> (r = r' \<or> isl r))"
proof -
  obtain b s1 where b: "run_state (serve h no_op) s = (b, s1)" by (metis surj_pair)
  obtain t where t: "sys_store s1 = (sys_store s)\<lparr>clock := t\<rparr>" using serve_no_op_store [OF b] by blast
  obtain r1 c s2 where e: "run_state body s1 = ((r1, c), s2)" by (metis surj_pair)
  have ends: "if c then Q t r1 (sys_store s2) else isl r1" using assms(2) [of t] t e unfolding tx_ends_def by blast
  obtain o3 s3 where o: "run_state (Commit h (sys_store s1)) s2 = (o3, s3)" by (metis surj_pair)
  consider (refused) err where "b = Inl err" | (undone) "\<not> isl b" "\<not> c" | (committing) "\<not> isl b" c by (cases b) auto
  then show ?thesis
  proof cases
    case refused
    then have "r = Inl (Internal err)" "s' = s1" using assms(1) b by (simp_all add: in_transaction_def transaction_def run_bind)
    then show ?thesis using t by auto
  next
    case undone
    then have "r = r1" "sys_store s' = (sys_store s1)\<lparr>clock := clock (sys_store s2)\<rparr>" using assms(1) b e
      by (auto simp: in_transaction_def transaction_def run_bind current_store_def rollback_to_def run_on_world split: sum.splits)
    then show ?thesis using undone ends t by auto
  next
    case committing
    then have run: "r = (case o3 of None \<Rightarrow> r1 | Some err \<Rightarrow> Inl (Internal err))" "s' = s3"
      using assms(1) b e o by (auto simp: in_transaction_def transaction_def run_bind current_store_def split: sum.splits option.splits)
    have "sys_store s3 = sys_store s2 \<or> o3 \<noteq> None \<and> sys_store s3 = (sys_store s1)\<lparr>clock := clock (sys_store s2)\<rparr>"
      using Commit_cases(2) [OF o] .
    then show ?thesis using run ends t committing by (cases o3) auto
  qed
qed

subsection \<open>Variables are replaced as a whole\<close>

text \<open>
  The variables as a specification sees them: for each project a collection of keys with values, and the revisions of the
  configurations.
\<close>

type_synonym variables_view = "(pg_uuid \<Rightarrow> (string \<times> string) multiset) \<times> (pg_uuid \<times> int) list"

definition variables_of :: "store \<Rightarrow> pg_uuid \<Rightarrow> (string \<times> string) list" where
  "variables_of db i = map (\<lambda>v. (pvar_Key v, pvar_Value v)) (filter (\<lambda>v. pvar_ProjectID v = i) (project_variables db))"

definition variables_view :: "store \<Rightarrow> variables_view" where
  "variables_view db = (\<lambda>i. mset (variables_of db i), map (\<lambda>p. (proj_ID p, proj_ConfigurationRevision p)) (projects db))"

definition pair_of :: "variable_input \<Rightarrow> string \<times> string" where
  "pair_of v = (vi_Key v, vi_Value v)"

text \<open>The abstract operation: the variables of one project are exchanged and its revision grows by one.\<close>

definition replace_view :: "pg_uuid \<Rightarrow> variable_input list \<Rightarrow> variables_view \<Rightarrow> variables_view" where
  "replace_view i vs view =
     ((fst view)(i := mset (map pair_of vs)), map (\<lambda>(j, n). (j, if j = i then n + 1 else n)) (snd view))"

lemma variables_view_clock [simp]: "variables_view (db\<lparr>clock := t\<rparr>) = variables_view db"
  by (simp add: variables_view_def variables_of_def fun_eq_iff)

lemma upsert_appends:
  assumes "UpsertProjectRuntimeVariable (Some i) key v db = Inr (x, db1)" "key \<notin> set (map fst (variables_of db (Some i)))"
  shows "variables_of db1 j = variables_of db j @ (if j = Some i then [(key, v)] else [])" "projects db1 = projects db"
proof -
  have "filter (\<lambda>x. pvar_ProjectID x = Some i \<and> pvar_Key x = key) (project_variables db) = []"
    using assms(2) by (auto simp: variables_of_def filter_empty_conv)
  then show "variables_of db1 j = variables_of db j @ (if j = Some i then [(key, v)] else [])" "projects db1 = projects db"
    using assms(1) by (auto simp: UpsertProjectRuntimeVariable_def variables_of_def Let_def split: option.splits if_splits)
qed

lemma upsert_ends:
  assumes "distinct (map fst (variables_of db (Some i)) @ map vi_Key vs)"
    and "\<And>db1. projects db1 = projects db \<Longrightarrow>
      (\<And>j. variables_of db1 j = variables_of db j @ (if j = Some i then map pair_of vs else [])) \<Longrightarrow> tx_ends rest db1 Q"
  shows "tx_ends (upsert_variables h (Some i) vs rest) db Q"
  using assms
proof (induction vs arbitrary: db)
  case (Cons v vs)
  show ?case unfolding upsert_variables.simps
  proof (rule tx_ends_step)
    fix x db1 assume u: "UpsertProjectRuntimeVariable (Some i) (vi_Key v) (vi_Value v) db = Inr (x, db1)"
    have "vi_Key v \<notin> set (map fst (variables_of db (Some i)))" using Cons.prems(1) by auto
    note db1 = upsert_appends [OF u this]
    show "tx_ends (upsert_variables h (Some i) vs rest) db1 Q"
      by (rule Cons.IH) (use Cons.prems db1 in \<open>auto simp: pair_of_def\<close>)
  qed
qed auto

lemma one_row_mem: "one_row (filter p rows) = Inr r \<Longrightarrow> r \<in> set rows \<and> p r"
  by (auto simp: one_row_Inr dest!: arg_cong [where f = set])

lemma increment_view:
  assumes "IncrementProjectConfigurationRevision (Some i) db = Inr (n, db1)"
  shows "project_variables db1 = project_variables db"
    "map (\<lambda>p. (proj_ID p, proj_ConfigurationRevision p)) (projects db1)
       = map (\<lambda>(j, n). (j, if j = Some i then n + 1 else n)) (map (\<lambda>p. (proj_ID p, proj_ConfigurationRevision p)) (projects db))"
    "(Some i, n) \<in> set (map (\<lambda>p. (proj_ID p, proj_ConfigurationRevision p)) (projects db1))"
proof -
  obtain p where p: "p \<in> set (projects db)" "proj_ID p = Some i" "n = proj_ConfigurationRevision p + 1"
    and db1: "db1 = db\<lparr>projects := update_rows (\<lambda>p. proj_ID p = Some i)
      (\<lambda>p. p\<lparr>proj_ConfigurationRevision := proj_ConfigurationRevision p + 1, proj_UpdatedAt := now db\<rparr>) (projects db)\<rparr>"
    using assms by (auto simp: IncrementProjectConfigurationRevision_def dest: one_row_mem)
  show "project_variables db1 = project_variables db"
    "map (\<lambda>p. (proj_ID p, proj_ConfigurationRevision p)) (projects db1)
       = map (\<lambda>(j, n). (j, if j = Some i then n + 1 else n)) (map (\<lambda>p. (proj_ID p, proj_ConfigurationRevision p)) (projects db))"
    by (auto simp: db1 update_rows_def)
  show "(Some i, n) \<in> set (map (\<lambda>p. (proj_ID p, proj_ConfigurationRevision p)) (projects db1))"
    using p by (force simp: db1 update_rows_def)
qed

lemma delete_view:
  assumes "DeleteProjectRuntimeVariables (Some i) db = Inr (u, db1)"
  shows "variables_of db1 j = (if j = Some i then [] else variables_of db j)" "projects db1 = projects db"
proof -
  have "filter (\<lambda>v. pvar_ProjectID v = j) (filter (\<lambda>v. pvar_ProjectID v \<noteq> Some i) rows)
      = (if j = Some i then [] else filter (\<lambda>v. pvar_ProjectID v = j) rows)" for rows :: "project_runtime_variable list"
    by (induction rows) auto
  then show "variables_of db1 j = (if j = Some i then [] else variables_of db j)" "projects db1 = projects db"
    using assms by (auto simp: DeleteProjectRuntimeVariables_def variables_of_def simp del: filter_filter)
qed

text \<open>What a committed edit of the variables has done.\<close>

definition variables_stored :: "pg_uuid \<Rightarrow> variable_input list \<Rightarrow> variables_view \<Rightarrow> http_error + (project \<times> bool) \<Rightarrow> variables_view \<Rightarrow> bool" where
  "variables_stored i vs view r view' \<longleftrightarrow>
     (case r of
        Inl _ \<Rightarrow> False
      | Inr (p, changed) \<Rightarrow>
          (i, proj_ConfigurationRevision p) \<in> set (snd view') \<and>
          (if changed then view' = replace_view i vs view
           else view' = view \<and> fst view i = mset (map pair_of vs)))"

lemma equal_variables:
  assumes "ListProjectRuntimeVariables (Some i) db = Inr (existing, db1)" "projectRuntimeVariablesEqual existing vs"
  shows "fst (variables_view db) (Some i) = mset (map pair_of vs)"
proof -
  have "map (\<lambda>v. (pvar_Key v, pvar_Value v)) existing = map pair_of vs"
    using assms(2) by (auto simp: projectRuntimeVariablesEqual_def pair_of_def list_all_length intro: nth_equalityI)
  moreover have "mset existing = mset (filter (\<lambda>v. pvar_ProjectID v = Some i) (project_variables db))"
    using assms(1) by (auto simp: ListProjectRuntimeVariables_def)
  ultimately show ?thesis unfolding variables_view_def variables_of_def by (metis fst_conv mset_map)
qed

lemma variables_body_ends:
  assumes "distinct (map vi_Key vs)"
  shows "tx_ends (store_variables_body h (Some i) vs) db (\<lambda>r db'. variables_stored (Some i) vs (variables_view db) r (variables_view db'))"
  unfolding store_variables_body_def
proof (intro tx_ends_step)
  fix p db1 existing db2
  assume g: "GetProjectForUpdate (Some i) db = Inr (p, db1)" and l: "ListProjectRuntimeVariables (Some i) db1 = Inr (existing, db2)"
  then have db: "db1 = db" "db2 = db" by (auto simp: GetProjectForUpdate_def ListProjectRuntimeVariables_def)
  have p: "(Some i, proj_ConfigurationRevision p) \<in> set (snd (variables_view db))"
    using g by (force simp: GetProjectForUpdate_def variables_view_def dest: one_row_mem)
  let ?Q = "\<lambda>r db'. variables_stored (Some i) vs (variables_view db) r (variables_view db')"
  let ?bump = "tx_step h Internal (IncrementProjectConfigurationRevision (Some i)) (\<lambda>revision. tx_commit (p\<lparr>proj_ConfigurationRevision := revision\<rparr>, True))"
  have "tx_ends (tx_step h Internal (DeleteProjectRuntimeVariables (Some i)) (\<lambda>_. upsert_variables h (Some i) vs ?bump)) db ?Q"
  proof (intro tx_ends_step upsert_ends tx_ends_return)
    fix u db3 db4 n db5
    assume del: "DeleteProjectRuntimeVariables (Some i) db = Inr (u, db3)"
      and ins: "projects db4 = projects db3" "\<And>j. variables_of db4 j = variables_of db3 j @ (if j = Some i then map pair_of vs else [])"
      and inc: "IncrementProjectConfigurationRevision (Some i) db4 = Inr (n, db5)"
    have "variables_of db5 j = (if j = Some i then map pair_of vs else variables_of db j)" for j
      using delete_view(1) [OF del, of j] ins(2) [of j] increment_view(1) [OF inc] by (simp add: variables_of_def)
    moreover have "snd (variables_view db5) = map (\<lambda>(j, n). (j, if j = Some i then n + 1 else n)) (snd (variables_view db))"
      using increment_view(2) [OF inc] ins(1) delete_view(2) [OF del] by (simp add: variables_view_def)
    moreover have "(Some i, n) \<in> set (snd (variables_view db5))" using increment_view(3) [OF inc] by (simp add: variables_view_def)
    ultimately show "?Q (Inr (p\<lparr>proj_ConfigurationRevision := n\<rparr>, True)) db5"
      by (auto simp: variables_stored_def replace_view_def variables_view_def fun_eq_iff)
  next
    fix u db3 assume "DeleteProjectRuntimeVariables (Some i) db = Inr (u, db3)"
    from delete_view(1) [OF this, of "Some i"] show "distinct (map fst (variables_of db3 (Some i)) @ map vi_Key vs)" using assms by simp
  qed
  then show "tx_ends (if projectRuntimeVariablesEqual existing vs then tx_commit (p, False)
      else tx_step h Internal (DeleteProjectRuntimeVariables (Some i)) (\<lambda>_. upsert_variables h (Some i) vs ?bump)) db2 ?Q"
    unfolding db using equal_variables [OF l] p by (auto simp: variables_stored_def db intro!: tx_ends_return)
qed

lemma serve_store:
  assumes "run_state (serve h q) s = (r, s')"
  shows "\<exists>t. sys_store s' = (sys_store s)\<lparr>clock := t\<rparr> \<or> (\<exists>x. q ((sys_store s)\<lparr>clock := t\<rparr>) = Inr (x, sys_store s'))"
  using assms by (force simp: serve_def run_on_world db_exec_def run_bind next_step_def Let_def split: db_outcome.splits sum.splits prod.splits)

lemma audit_tables:
  "\<exists>t evs. sys_store (snd (run_state (http_audit h r action targetType targetID targetName metadata) s))
      = (sys_store s)\<lparr>clock := t, audit_events := evs\<rparr>"
proof -
  obtain x s' where x: "run_state (serve h (AppendAuditEvent (auditActor r) (auditIdentityField action ''unknown'')
           (auditIdentityField targetType ''unknown'') (auditIdentityField targetID ''unknown'')
           (auditIdentityField targetName ''unknown'') (Metadata (Some metadata)))) s = (x, s')" by (metis surj_pair)
  obtain t where "sys_store s' = (sys_store s)\<lparr>clock := t\<rparr> \<or>
      (\<exists>y. AppendAuditEvent (auditActor r) (auditIdentityField action ''unknown'') (auditIdentityField targetType ''unknown'')
        (auditIdentityField targetID ''unknown'') (auditIdentityField targetName ''unknown'') (Metadata (Some metadata))
        ((sys_store s)\<lparr>clock := t\<rparr>) = Inr (y, sys_store s'))" (is "?same \<or> (\<exists>y. ?new y)") using serve_store [OF x] by blast
  then have "\<exists>t evs. sys_store s' = (sys_store s)\<lparr>clock := t, audit_events := evs\<rparr>"
  proof
    assume ?same
    then show ?thesis by (intro exI [of _ t] exI [of _ "audit_events (sys_store s)"]) simp
  next
    assume "\<exists>y. ?new y"
    then show ?thesis by (auto simp: AppendAuditEvent_def Let_def dest: sym)
  qed
  then show ?thesis using x by (simp add: http_audit_def run_bind)
qed

lemma audit_view:
  "variables_view (sys_store (snd (run_state (http_audit h r action targetType targetID targetName metadata) s))) = variables_view (sys_store s)"
  using audit_tables [of h r action targetType targetID targetName metadata s]
  by (auto simp: variables_view_def variables_of_def fun_eq_iff)

lemma parsed_uuid: "parseUUIDParam h r name = Inr i \<Longrightarrow> \<exists>u. i = Some u"
  by (auto simp: parseUUIDParam_def PgUUID_def split: sum.splits)

lemma store_variables_outcome:
  assumes "run_state (storeProjectRuntimeVariables h (Some i) vs) s = (r, s')" "distinct (map vi_Key vs)"
  defines "V \<equiv> variables_view (sys_store s)" and "V' \<equiv> variables_view (sys_store s')"
  shows "(isl r \<and> V' = V) \<or> (isl r \<and> V' = replace_view (Some i) vs V) \<or> variables_stored (Some i) vs V r V'"
proof -
  have "tx_ends (store_variables_body h (Some i) vs) ((sys_store s)\<lparr>clock := t\<rparr>) (\<lambda>r db'. variables_stored (Some i) vs V r (variables_view db'))" for t
    using variables_body_ends [OF assms(2), of h i "(sys_store s)\<lparr>clock := t\<rparr>"] by (simp add: V_def)
  from in_transaction_outcome [OF assms(1) [unfolded storeProjectRuntimeVariables_def] this]
  have "(isl r \<and> V' = V) \<or> (\<exists>r'. variables_stored (Some i) vs V r' V' \<and> (r = r' \<or> isl r))" by (auto simp: V_def V'_def)
  moreover have "V' = V \<or> V' = replace_view (Some i) vs V" if "variables_stored (Some i) vs V r' V'" for r'
    using that by (auto simp: variables_stored_def split: sum.splits prod.splits if_splits)
  ultimately show ?thesis by blast
qed

lemma audited_view:
  "run_state (http_audit h r action targetType targetID targetName metadata) s = (u, s') \<Longrightarrow> variables_view (sys_store s') = variables_view (sys_store s)"
  using audit_view by (metis snd_conv)

text \<open>The tables and a reply agree: a reply that is no error names the variables and the revision that the project has now.\<close>

definition variables_answered ::
  "pg_uuid \<Rightarrow> variable_input list \<Rightarrow> variables_view \<Rightarrow> string + variables_response \<Rightarrow> variables_view \<Rightarrow> bool" where
  "variables_answered i vs V reply V' \<longleftrightarrow> (V' = V \<or> V' = replace_view i vs V) \<and>
     (case reply of
        Inl _ \<Rightarrow> True
      | Inr body \<Rightarrow> vr_Variables body = vs \<and> fst V' i = mset (map pair_of vs) \<and> (i, vr_ConfigurationRevision body) \<in> set (snd V')
          \<and> V' = (if vr_Changed body then replace_view i vs V else V))"

lemma stored_answered:
  "variables_stored i vs V (Inr (p, c)) V' \<Longrightarrow>
   variables_answered i vs V (Inr \<lparr>vr_Variables = vs, vr_ConfigurationRevision = proj_ConfigurationRevision p, vr_Changed = c\<rparr>) V'"
  by (auto simp: variables_stored_def variables_answered_def replace_view_def split: if_splits)

lemma writeError_isl: "isl (snd (writeError err))"
  by (cases err) auto

text \<open>C16. The variables of a project are replaced as a whole or not at all, whichever of the interactions with the database fails or loses
  its answer: afterwards the tables have the old variables and the old revision, or exactly the requested variables and
  the next revision, and those of the other projects as they were. After a reply that is no error the project has exactly the
  variables and the revision of the reply, and a change is reported exactly when the variables were exchanged.\<close>

theorem variables_replaced_as_a_whole:
  assumes run: "run_state (replaceProjectRuntimeVariables h r decoded) s = ((status, reply), s')"
  shows "(isl reply \<and> variables_view (sys_store s') = variables_view (sys_store s)) \<or>
    (\<exists>i request vs. parseUUIDParam h r ''projectID'' = Inr i \<and> decoded = Inr request \<and> normalizeProjectRuntimeVariables request = Inr vs
      \<and> variables_answered i vs (variables_view (sys_store s)) reply (variables_view (sys_store s')))"
proof -
  consider (early) err where "run_state (replaceProjectRuntimeVariables h r decoded) s = (writeError err, s)"
    | (stored) i request vs where "parseUUIDParam h r ''projectID'' = Inr (Some i)" "decoded = Inr request"
        "normalizeProjectRuntimeVariables request = Inr vs"
    using parsed_uuid [of h r "''projectID''"]
    by (cases "parseUUIDParam h r ''projectID''"; cases decoded)
       (force simp: replaceProjectRuntimeVariables_def or_error_def split: sum.splits)+
  then show ?thesis
  proof cases
    case early
    then show ?thesis using run writeError_isl [of err] by (metis prod.inject snd_conv)
  next
    case stored
    obtain a s1 where a: "run_state (storeProjectRuntimeVariables h (Some i) vs) s = (a, s1)" by (metis surj_pair)
    note out = store_variables_outcome [OF a normalized_variables(2) [OF stored(3)]]
    show ?thesis
    proof (cases a)
      case (Inl err)
      then have "s' = s1" "isl reply" using run a stored writeError_isl [of err]
        by (auto simp: replaceProjectRuntimeVariables_def or_error_def run_bind dest: arg_cong [where f = snd])
      moreover have "variables_answered (Some i) vs (variables_view (sys_store s)) reply (variables_view (sys_store s1))"
        using out Inl calculation(2) by (auto simp: variables_answered_def variables_stored_def split: sum.splits)
      ultimately show ?thesis using stored by blast
    next
      case (Inr pc)
      obtain p c where pc: "pc = (p, c)" by (cases pc)
      have "variables_view (sys_store s') = variables_view (sys_store s1)"
        "reply = Inr \<lparr>vr_Variables = vs, vr_ConfigurationRevision = proj_ConfigurationRevision p, vr_Changed = c\<rparr>"
        using run a stored Inr pc
        by (auto simp: replaceProjectRuntimeVariables_def or_error_def run_bind writeJSON_def dest: audited_view split: if_splits prod.splits)
      then show ?thesis using out stored stored_answered Inr pc by auto
    qed
  qed
qed

definition project_request :: http_request where
  "project_request = sample_request\<lparr>req_param := \<lambda>_. ''p1''\<rparr>"

definition mixed_variables :: "variable_input list" where
  "mixed_variables = [\<lparr>vi_Key = ''a'', vi_Value = ''1''\<rparr>, \<lparr>vi_Key = ''B'', vi_Value = ''2''\<rparr>]"

definition mixed_rows :: "project_runtime_variable list" where
  "mixed_rows = map (\<lambda>v. \<lparr>pvar_ProjectID = Some ''p1'', pvar_Key = vi_Key v, pvar_Value = vi_Value v, pvar_CreatedAt = Some 1, pvar_UpdatedAt = Some 1\<rparr>)
     mixed_variables"

text \<open>Tables with the two variables, and a database that orders text without regard to case first, as the locales of most languages do.\<close>

definition locale_system :: system where
  "locale_system = idle_system\<lparr>sys_world := (sys_world idle_system)
     \<lparr>w_store := (sys_store idle_system)\<lparr>project_variables := mixed_rows, collation := map lower_char\<rparr>\<rparr>\<rparr>"

lemma mixed_replaced:
  "fst (run_state (replaceProjectRuntimeVariables sample_http project_request (Inr mixed_variables)) locale_system)
     = (200, Inr \<lparr>vr_Variables = rev mixed_variables, vr_ConfigurationRevision = 2, vr_Changed = True\<rparr>)"
  by code_simp

theorem variables_replaced_as_a_whole_witness:
  "\<exists>reply s'. run_state (replaceProjectRuntimeVariables sample_http project_request (Inr mixed_variables)) locale_system = ((200, reply), s')
     \<and> fst (variables_view (sys_store s')) (Some ''p1'') = {#(''B'', ''2''), (''a'', ''1'')#}"
proof -
  obtain s' where run: "run_state (replaceProjectRuntimeVariables sample_http project_request (Inr mixed_variables)) locale_system
      = ((200, Inr \<lparr>vr_Variables = rev mixed_variables, vr_ConfigurationRevision = 2, vr_Changed = True\<rparr>), s')"
    using mixed_replaced by (metis prod.collapse)
  have "normalizeProjectRuntimeVariables mixed_variables = Inr (rev mixed_variables)" "parseUUIDParam sample_http project_request ''projectID'' = Inr (Some ''p1'')"
    by code_simp+
  then have "fst (variables_view (sys_store s')) (Some ''p1'') = mset (map pair_of (rev mixed_variables))"
    using variables_replaced_as_a_whole [OF run] by (auto simp: variables_answered_def)
  then show ?thesis using run by (auto simp: mixed_variables_def pair_of_def)
qed

text \<open>
  The comparison with the stored variables relies on the order of the database: where it is not that of bytes, sending the
  variables that are stored already is taken for a change, with a new revision.
\<close>

lemma unchanged_variables_reported_changed:
  "fst (variables_view (sys_store locale_system)) (Some ''p1'') = mset (map pair_of mixed_variables)
   \<and> fst (run_state (replaceProjectRuntimeVariables sample_http project_request (Inr mixed_variables)) locale_system)
     = (200, Inr \<lparr>vr_Variables = rev mixed_variables, vr_ConfigurationRevision = 2, vr_Changed = True\<rparr>)"
proof
  have "variables_of (sys_store locale_system) (Some ''p1'') = map pair_of mixed_variables" by code_simp
  then show "fst (variables_view (sys_store locale_system)) (Some ''p1'') = mset (map pair_of mixed_variables)"
    by (simp add: variables_view_def)
qed (rule mixed_replaced)

end
