(* ===== verification/Http_Removal_Proofs.thy ===== *)
theory Http_Removal_Proofs
  imports Http_Settings_Proofs
begin

text \<open>
  Deleting an application: its rows go only after what it runs on the server has been removed, all at once, and the
  tables stay valid.
\<close>

subsection \<open>Statements that read\<close>

text \<open>The tables without the time and the audit trail, which every request moves on.\<close>

definition tables :: "store \<Rightarrow> store" where
  "tables db = db\<lparr>clock := 0, audit_events := []\<rparr>"

lemma tables_clock [simp]: "tables (db\<lparr>clock := t\<rparr>) = tables db"
  by (simp add: tables_def)

definition reads :: "'a stmt \<Rightarrow> bool" where
  "reads q \<longleftrightarrow> (\<forall>db x db'. q db = Inr (x, db') \<longrightarrow> db' = db)"

lemma reads_statements:
  "reads (GetApplication i)" "reads (GetServer i)" "reads (GetApplicationDeletionState i)" "reads (ListProxyRouteTargetsForApplication i j)"
  by (auto simp: reads_def GetApplication_def GetServer_def GetApplicationDeletionState_def ListProxyRouteTargetsForApplication_def Let_def)

text \<open>Two systems that agree on the tables and the executed commands.\<close>

definition same_tables :: "system \<Rightarrow> system \<Rightarrow> bool" where
  "same_tables s s' \<longleftrightarrow> tables (sys_store s') = tables (sys_store s) \<and> w_remote (sys_world s') = w_remote (sys_world s)"

lemma same_tables_refl [simp]: "same_tables s s"
  by (simp add: same_tables_def)

lemma same_tables_trans: "same_tables s s1 \<Longrightarrow> same_tables s1 s2 \<Longrightarrow> same_tables s s2"
  by (simp add: same_tables_def)

lemma serve_reads:
  assumes "run_state (serve h q) s = (r, s')" "reads q"
  shows "same_tables s s'" "r = Inr x \<Longrightarrow> \<exists>t. q ((sys_store s)\<lparr>clock := t\<rparr>) = Inr (x, (sys_store s)\<lparr>clock := t\<rparr>)"
  using assms unfolding reads_def same_tables_def
  by (force simp: serve_def run_on_world db_exec_def run_bind next_step_def Let_def split: db_outcome.splits sum.splits prod.splits)+

lemma serve_remote:
  "run_state (serve h q) s = (r, s') \<Longrightarrow> w_remote (sys_world s') = w_remote (sys_world s)"
  by (auto simp: serve_def run_on_world db_exec_def run_bind next_step_def Let_def split: db_outcome.splits sum.splits prod.splits)

subsection \<open>The cleanup on the server\<close>

definition cleanup_commands :: "deletion_plan \<Rightarrow> (go_error + string) list" where
  "cleanup_commands plan =
     (if dp_hasDeployments plan then [BuildComposeDownCommand (dp_application plan) (dp_routes plan)] else [])
     @ map (\<lambda>route. BuildRemoveCommand (rt_Domain route) (rt_ProxyType route)) (filter (\<lambda>route. rt_Status route \<noteq> ''pending'') (dp_routes plan))"

text \<open>The commands could be built and have been executed by the client, in order, and each succeeded.\<close>

definition commands_succeeded ::
  "http_env \<Rightarrow> ssh_client \<Rightarrow> (go_error + string) list \<Rightarrow> (ssh_client \<times> string \<times> string) list \<Rightarrow> bool" where
  "commands_succeeded h client cmds entries \<longleftrightarrow>
     list_all2 (\<lambda>c (cl, cmd, inp). c = Inr cmd \<and> cl = client \<and> inp = [] \<and> (\<exists>n. snd (ssh_answers (h_runner h) n client cmd []) = None)) cmds entries"

lemma commands_succeeded_append:
  "commands_succeeded h client cmds entries \<Longrightarrow> commands_succeeded h client cmds' entries' \<Longrightarrow> commands_succeeded h client (cmds @ cmds') (entries @ entries')"
  unfolding commands_succeeded_def by (rule list_all2_appendI)

lemma cleanup_step_tables:
  "run_state (cleanup_step h server cmd prepare doing) s = (e, s') \<Longrightarrow> sys_store s' = sys_store s"
  by (auto simp: cleanup_step_def remote_run_def run_bind run_on_world RunWithInput_def next_step_def split: sum.splits prod.splits)

lemma cleanup_step_succeeded:
  assumes "run_state (cleanup_step h server cmd prepare doing) s = (None, s')" "server_client h server = Inr client"
  shows "\<exists>entries. w_remote (sys_world s') = w_remote (sys_world s) @ entries \<and> commands_succeeded h client [cmd] entries"
  using assms
  by (auto simp: cleanup_step_def remote_run_def run_bind run_on_world RunWithInput_def next_step_def commands_succeeded_def
      list_all2_Cons1 split: sum.splits prod.splits) (metis snd_conv)

lemma remove_routes_tables: "run_state (remove_routes h server routes) s = (e, s') \<Longrightarrow> sys_store s' = sys_store s"
proof (induction routes arbitrary: s)
  case (Cons route routes)
  show ?case
  proof (cases "rt_Status route = ''pending''")
    case False
    then show ?thesis using Cons by (auto simp: run_bind dest: cleanup_step_tables split: prod.splits option.splits)
  qed (use Cons in simp)
qed simp

lemma remove_routes_succeeded:
  assumes "run_state (remove_routes h server routes) s = (None, s')" "server_client h server = Inr client"
  shows "\<exists>entries. w_remote (sys_world s') = w_remote (sys_world s) @ entries \<and> commands_succeeded h client
    (map (\<lambda>route. BuildRemoveCommand (rt_Domain route) (rt_ProxyType route)) (filter (\<lambda>route. rt_Status route \<noteq> ''pending'') routes)) entries"
  using assms(1)
proof (induction routes arbitrary: s)
  case (Cons route routes)
  show ?case
  proof (cases "rt_Status route = ''pending''")
    case False
    then obtain s1 where step: "run_state (cleanup_step h server (BuildRemoveCommand (rt_Domain route) (rt_ProxyType route))
               (''prepare domain cleanup for '' @ Quote (rt_Domain route))
               (''remove domain '' @ Quote (rt_Domain route) @ '' from server '' @ Quote (srv_Name server))) s = (None, s1)"
      and rest: "run_state (remove_routes h server routes) s1 = (None, s')"
      using Cons.prems by (auto simp: run_bind split: prod.splits option.splits)
    obtain e1 where e1: "w_remote (sys_world s1) = w_remote (sys_world s) @ e1"
      "commands_succeeded h client [BuildRemoveCommand (rt_Domain route) (rt_ProxyType route)] e1"
      using cleanup_step_succeeded [OF step assms(2)] by blast
    obtain e2 where "w_remote (sys_world s') = w_remote (sys_world s1) @ e2" "commands_succeeded h client
      (map (\<lambda>route. BuildRemoveCommand (rt_Domain route) (rt_ProxyType route)) (filter (\<lambda>route. rt_Status route \<noteq> ''pending'') routes)) e2"
      using Cons.IH [OF rest] by blast
    then show ?thesis using e1 commands_succeeded_append [OF e1(2)] False by (intro exI [of _ "e1 @ e2"]) auto
  qed (use Cons in simp)
qed (simp add: commands_succeeded_def)

lemma no_client_fails:
  assumes "server_client h server = Inl err"
  shows "fst (run_state (cleanup_step h server cmd prepare doing) s) \<noteq> None"
    "list_ex (\<lambda>route. rt_Status route \<noteq> ''pending'') routes \<Longrightarrow> fst (run_state (remove_routes h server routes) s) \<noteq> None"
proof -
  show step: "fst (run_state (cleanup_step h server cmd prepare doing) s) \<noteq> None" for cmd prepare doing s
    using assms by (auto simp: cleanup_step_def remote_run_def run_bind split: sum.splits)
  show "list_ex (\<lambda>route. rt_Status route \<noteq> ''pending'') routes \<Longrightarrow> fst (run_state (remove_routes h server routes) s) \<noteq> None"
  proof (induction routes)
    case (Cons route routes)
    show ?case
    proof (cases "rt_Status route = ''pending''")
      case False
      then show ?thesis using step [of "BuildRemoveCommand (rt_Domain route) (rt_ProxyType route)"
          "''prepare domain cleanup for '' @ Quote (rt_Domain route)"
          "''remove domain '' @ Quote (rt_Domain route) @ '' from server '' @ Quote (srv_Name server)" s]
        by (auto simp: run_bind split: prod.splits option.splits)
    qed (use Cons in auto)
  qed simp
qed

lemma cleanup_server_tables: "run_state (cleanup_server h plan server) s = (e, s') \<Longrightarrow> sys_store s' = sys_store s"
  by (auto simp: cleanup_server_def Let_def run_bind dest!: cleanup_step_tables remove_routes_tables split: prod.splits option.splits if_splits)

lemma cleanup_server_succeeded:
  assumes run: "run_state (cleanup_server h plan server) s = (None, s')"
    and "dp_hasDeployments plan \<or> list_ex (\<lambda>route. rt_Status route \<noteq> ''pending'') (dp_routes plan)"
  shows "\<exists>client entries. server_client h server = Inr client \<and> w_remote (sys_world s') = w_remote (sys_world s) @ entries
    \<and> commands_succeeded h client (cleanup_commands plan) entries"
proof -
  define prepare where "prepare = ''prepare cleanup for service '' @ Quote (app_Name (dp_application plan))"
  define doing where "doing = ''stop service '' @ Quote (app_Name (dp_application plan)) @ '' on server '' @ Quote (srv_Name server)"
  let ?down = "cleanup_step h server (BuildComposeDownCommand (dp_application plan) (dp_routes plan)) prepare doing"
  obtain s1 where first: "run_state (if dp_hasDeployments plan then ?down else State_Monad.return None) s = (None, s1)"
    and rest: "run_state (remove_routes h server (dp_routes plan)) s1 = (None, s')"
    using run unfolding cleanup_server_def Let_def prepare_def [symmetric] doing_def [symmetric]
    by (auto simp: run_bind split: prod.splits option.splits)
  have "server_client h server \<noteq> Inl err" for err
  proof
    assume none: "server_client h server = Inl err"
    have "\<not> dp_hasDeployments plan"
      using first no_client_fails(1) [OF none, of "BuildComposeDownCommand (dp_application plan) (dp_routes plan)" prepare doing s] by auto
    then show False using rest assms(2) no_client_fails(2) [OF none, of "dp_routes plan" s1] by simp
  qed
  then obtain client where client: "server_client h server = Inr client" by (cases "server_client h server") auto
  obtain e1 where e1: "w_remote (sys_world s1) = w_remote (sys_world s) @ e1"
    "commands_succeeded h client (if dp_hasDeployments plan then [BuildComposeDownCommand (dp_application plan) (dp_routes plan)] else []) e1"
  proof (cases "dp_hasDeployments plan")
    case True
    then have "run_state ?down s = (None, s1)" using first by simp
    from cleanup_step_succeeded [OF this client] show thesis using that True by auto
  next
    case False
    then show thesis using first that [of "[]"] by (simp add: commands_succeeded_def)
  qed
  obtain e2 where e2: "w_remote (sys_world s') = w_remote (sys_world s1) @ e2" "commands_succeeded h client
      (map (\<lambda>route. BuildRemoveCommand (rt_Domain route) (rt_ProxyType route)) (filter (\<lambda>route. rt_Status route \<noteq> ''pending'') (dp_routes plan))) e2"
    using remove_routes_succeeded [OF rest client] by blast
  show ?thesis using client e1(1) e2(1) commands_succeeded_append [OF e1(2) e2(2)] unfolding cleanup_commands_def by auto
qed

text \<open>What a plan needs has been done: its commands, by a client for the server of the application.\<close>

definition cleaned_up :: "http_env \<Rightarrow> store \<Rightarrow> deletion_plan \<Rightarrow> (ssh_client \<times> string \<times> string) list \<Rightarrow> bool" where
  "cleaned_up h db plan entries \<longleftrightarrow>
     (cleanup_commands plan = [] \<and> entries = []) \<or>
     (\<exists>server client. server \<in> set (servers db) \<and> srv_ID server = app_ServerID (dp_application plan)
        \<and> server_client h server = Inr client \<and> commands_succeeded h client (cleanup_commands plan) entries)"

lemma cleanupApplication_tables:
  "run_state (cleanupApplication h plan) s = (e, s') \<Longrightarrow> tables (sys_store s') = tables (sys_store s)"
  unfolding cleanupApplication_def
  by (auto simp: run_bind same_tables_def dest!: cleanup_server_tables serve_reads(1) [OF _ reads_statements(2)]
      split: if_splits prod.splits sum.splits)

lemma cleanupApplication_succeeded:
  assumes "run_state (cleanupApplication h plan) s = (None, s')"
  shows "\<exists>entries. w_remote (sys_world s') = w_remote (sys_world s) @ entries \<and> cleaned_up h (sys_store s) plan entries"
proof (cases "\<not> dp_hasDeployments plan \<and> list_all (\<lambda>route. rt_Status route = ''pending'') (dp_routes plan)")
  case True
  then have "cleanup_commands plan = []" by (auto simp: cleanup_commands_def filter_empty_conv list_all_iff)
  then show ?thesis using assms True by (simp add: cleanupApplication_def cleaned_up_def)
next
  case False
  then obtain server s1 where g: "run_state (serve h (GetServer (app_ServerID (dp_application plan)))) s = (Inr server, s1)"
    and run: "run_state (cleanup_server h plan server) s1 = (None, s')"
    using assms by (auto simp: cleanupApplication_def run_bind split: prod.splits sum.splits if_splits)
  have "server \<in> set (servers (sys_store s)) \<and> sql_eq (srv_ID server) (app_ServerID (dp_application plan))"
    using serve_reads(2) [OF g reads_statements(2) refl] by (auto simp: GetServer_def dest: one_row_mem)
  then have "server \<in> set (servers (sys_store s))" "srv_ID server = app_ServerID (dp_application plan)" by (auto simp: sql_eq_def)
  moreover have "dp_hasDeployments plan \<or> list_ex (\<lambda>route. rt_Status route \<noteq> ''pending'') (dp_routes plan)"
    using False by (auto simp: list_ex_iff list_all_iff)
  ultimately show ?thesis using cleanup_server_succeeded [OF run] serve_remote [OF g] unfolding cleaned_up_def by metis
qed

subsection \<open>The rows\<close>

definition drop_routes :: "route_target list \<Rightarrow> store \<Rightarrow> store" where
  "drop_routes routes db =
     db\<lparr>proxy_routes := filter (\<lambda>r. \<not> list_ex (\<lambda>t. sql_eq (route_ID r) (rt_ID t)) routes) (proxy_routes db)\<rparr>"

lemma delete_routes_ends: "tx_ends rest (drop_routes routes db) Q \<Longrightarrow> tx_ends (delete_routes h routes rest) db Q"
proof (induction routes arbitrary: db)
  case (Cons t routes)
  have "drop_routes routes (db\<lparr>proxy_routes := filter (\<lambda>r. \<not> sql_eq (route_ID r) (rt_ID t)) (proxy_routes db)\<rparr>) = drop_routes (t # routes) db"
    by (simp add: drop_routes_def)
  then show ?case using Cons by (auto simp: DeleteProxyRoute_def intro!: tx_ends_step)
qed (simp add: drop_routes_def)

lemma DeleteApplication_tables:
  "DeleteApplication i (drop_routes routes db) = Inr (u, db') \<Longrightarrow> DeleteApplication i (drop_routes routes (tables db)) = Inr ((), tables db')"
  by (auto simp: DeleteApplication_def drop_routes_def tables_def Let_def)

lemma records_deleted:
  assumes "run_state (in_transaction h (deleteApplicationRecords h plan)) s = (r, s')"
  shows "(isl r \<and> tables (sys_store s') = tables (sys_store s)) \<or>
    DeleteApplication (app_ID (dp_application plan)) (drop_routes (dp_routes plan) (tables (sys_store s))) = Inr ((), tables (sys_store s'))"
proof -
  have "tx_ends (deleteApplicationRecords h plan) ((sys_store s)\<lparr>clock := t\<rparr>) (\<lambda>_ db'.
      DeleteApplication (app_ID (dp_application plan)) (drop_routes (dp_routes plan) ((sys_store s)\<lparr>clock := t\<rparr>)) = Inr ((), db'))" for t
    unfolding deleteApplicationRecords_def by (rule delete_routes_ends, rule tx_ends_step, rule tx_ends_return(2)) simp
  from in_transaction_outcome [OF assms this] show ?thesis by (metis DeleteApplication_tables tables_clock)
qed

subsection \<open>The request\<close>

text \<open>
  A plan for an application: no deployment of it is queued or running, the plan knows whether there has been one, and it
  lists the routes of the application.
\<close>

definition plan_for :: "store \<Rightarrow> deletion_plan \<Rightarrow> bool" where
  "plan_for db plan \<longleftrightarrow>
     (let app = dp_application plan; ds = filter (\<lambda>d. sql_eq (dep_ApplicationID d) (app_ID app)) (deployments db) in
      list_all (\<lambda>d. dep_Status d \<noteq> ''queued'' \<and> dep_Status d \<noteq> ''running'') ds \<and> dp_hasDeployments plan = (ds \<noteq> [])
      \<and> ListProxyRouteTargetsForApplication (app_ID app) (app_ServerID app) db = Inr (dp_routes plan, db))"

lemma tables_fields [simp]:
  "collation (tables db) = collation db" "proxy_routes (tables db) = proxy_routes db" "servers (tables db) = servers db"
  "deployments (tables db) = deployments db" "applications (tables db) = applications db"
  by (simp_all add: tables_def)

lemma listed_routes_tables:
  assumes "ListProxyRouteTargetsForApplication i j db = Inr (routes, db1)" "tables db = tables db2"
  shows "ListProxyRouteTargetsForApplication i j (tables db2) = Inr (routes, tables db2)"
proof -
  have "collation db = collation db2" "proxy_routes db = proxy_routes db2" "servers db = servers db2"
    using assms(2) by (metis tables_fields)+
  then show ?thesis using assms(1) unfolding ListProxyRouteTargetsForApplication_def by (auto cong: if_cong)
qed

lemma prepared_plan:
  assumes "run_state (prepareApplicationDeletion h app) s = (r, s')"
  shows "same_tables s s'" "r = Inr plan \<Longrightarrow> dp_application plan = app \<and> plan_for (tables (sys_store s)) plan"
proof -
  obtain a s1 where a: "run_state (serve h (GetApplicationDeletionState (app_ID app))) s = (a, s1)" by (metis surj_pair)
  obtain l s2 where l: "run_state (serve h (ListProxyRouteTargetsForApplication (app_ID app) (app_ServerID app))) s1 = (l, s2)" by (metis surj_pair)
  note reads = serve_reads(1) [OF a reads_statements(3)] serve_reads(1) [OF l reads_statements(4)]
  show "same_tables s s'"
    using assms a l reads same_tables_trans [OF reads]
    by (auto simp: prepareApplicationDeletion_def run_bind split: sum.splits if_splits)
  assume "r = Inr plan"
  then obtain state routes where st: "a = Inr state" "\<not> ds_DeploymentInProgress state" "l = Inr routes"
    "plan = \<lparr>dp_application = app, dp_routes = routes, dp_hasDeployments = ds_HasDeployments state\<rparr>"
    using assms a l by (auto simp: prepareApplicationDeletion_def run_bind map_error_def split: sum.splits if_splits)
  have "tables (sys_store s1) = tables (sys_store s)" using reads(1) by (simp add: same_tables_def)
  then have "ListProxyRouteTargetsForApplication (app_ID app) (app_ServerID app) (tables (sys_store s)) = Inr (routes, tables (sys_store s))"
    using serve_reads(2) [OF l reads_statements(4) st(3)] by (metis listed_routes_tables tables_clock)
  then show "dp_application plan = app \<and> plan_for (tables (sys_store s)) plan"
    using serve_reads(2) [OF a reads_statements(3) st(1)] st
    by (auto simp: plan_for_def GetApplicationDeletionState_def Let_def list_ex_iff list_all_iff)
qed

lemma audited_tables:
  "run_state (http_audit h r action targetType targetID targetName metadata) s = (u, s') \<Longrightarrow>
   tables (sys_store s') = tables (sys_store s) \<and> w_remote (sys_world s') = w_remote (sys_world s)"
  using audit_tables [of h r action targetType targetID targetName metadata s]
  by (auto simp: tables_def http_audit_def run_bind dest: serve_remote split: prod.splits)

subsubsection \<open>Transactions execute no commands\<close>

definition no_commands :: "'a sys_run \<Rightarrow> bool" where
  "no_commands m \<longleftrightarrow> (\<forall>s. w_remote (sys_world (snd (run_state m s))) = w_remote (sys_world s))"

lemma no_commands_rules:
  "no_commands (State_Monad.return x)" "no_commands (serve h q)" "no_commands (tx_serve h q)" "no_commands (rollback_to db)"
  "no_commands current_store" "no_commands (Commit h db)"
  by (auto simp: no_commands_def serve_def tx_serve_def run_on_world db_exec_def run_bind next_step_def rollback_to_def
      current_store_def Commit_def Let_def split: db_outcome.splits sum.splits prod.splits)

lemma no_commands_bind: "no_commands m \<Longrightarrow> (\<And>x. no_commands (f x)) \<Longrightarrow> no_commands (State_Monad.bind m f)"
  unfolding no_commands_def run_bind by simp

lemma no_commands_cases:
  "(\<And>x. no_commands (f x)) \<Longrightarrow> (\<And>y. no_commands (g y)) \<Longrightarrow> no_commands (case r of Inl x \<Rightarrow> f x | Inr y \<Rightarrow> g y)"
  "no_commands m \<Longrightarrow> no_commands n \<Longrightarrow> no_commands (if b then m else n)"
  by (auto split: sum.splits)

lemma no_commands_routes: "no_commands rest \<Longrightarrow> no_commands (delete_routes h routes rest)"
  by (induction routes) (auto simp: tx_step_def tx_fail_def intro!: no_commands_bind no_commands_rules no_commands_cases)

lemma no_commands_deletion: "no_commands (in_transaction h (deleteApplicationRecords h plan))"
  unfolding in_transaction_def transaction_def deleteApplicationRecords_def tx_step_def tx_fail_def tx_commit_def
  by (intro no_commands_bind no_commands_routes no_commands_rules no_commands_cases)

subsubsection \<open>The whole request\<close>

lemma or_error_simps [simp]: "or_error (Inl err) f = State_Monad.return (writeError err)" "or_error (Inr x) f = f x"
  by (simp_all add: or_error_def)

lemma delete_prepared_outcome:
  assumes run: "run_state (in_transaction h (deleteApplicationRecords h plan)) s = (t, s1)"
    and rest: "run_state (or_error t (\<lambda>_. do { http_audit h r action targetType targetID targetName metadata; State_Monad.return (writeJSON 204 ()) })) s1
      = ((status, reply), s')"
  shows "w_remote (sys_world s') = w_remote (sys_world s)"
    "(isl reply \<and> tables (sys_store s') = tables (sys_store s)) \<or>
     DeleteApplication (app_ID (dp_application plan)) (drop_routes (dp_routes plan) (tables (sys_store s))) = Inr ((), tables (sys_store s'))"
proof -
  have quiet: "w_remote (sys_world s1) = w_remote (sys_world s)" using no_commands_deletion run unfolding no_commands_def by (metis snd_conv)
  have same: "tables (sys_store s') = tables (sys_store s1) \<and> w_remote (sys_world s') = w_remote (sys_world s1) \<and> (isl t \<longrightarrow> isl reply)"
  proof (cases t)
    case (Inl err)
    then show ?thesis using rest writeError_isl [of err] by (auto dest: arg_cong [where f = snd])
  next
    case (Inr u)
    then show ?thesis using rest by (auto simp: run_bind dest!: audited_tables split: prod.splits)
  qed
  show "w_remote (sys_world s') = w_remote (sys_world s)" using quiet same by simp
  show "(isl reply \<and> tables (sys_store s') = tables (sys_store s)) \<or>
     DeleteApplication (app_ID (dp_application plan)) (drop_routes (dp_routes plan) (tables (sys_store s))) = Inr ((), tables (sys_store s'))"
    using records_deleted [OF run] same by auto
qed

lemma delete_found_outcome:
  assumes "run_state (delete_found h r app) s = ((status, reply), s')"
  shows "(isl reply \<and> tables (sys_store s') = tables (sys_store s)) \<or>
    (\<exists>plan entries. dp_application plan = app \<and> plan_for (tables (sys_store s)) plan
      \<and> w_remote (sys_world s') = w_remote (sys_world s) @ entries \<and> cleaned_up h (tables (sys_store s)) plan entries
      \<and> DeleteApplication (app_ID app) (drop_routes (dp_routes plan) (tables (sys_store s))) = Inr ((), tables (sys_store s')))"
proof -
  obtain p s1 where p: "run_state (prepareApplicationDeletion h app) s = (p, s1)" by (metis surj_pair)
  have t1: "tables (sys_store s1) = tables (sys_store s)" "w_remote (sys_world s1) = w_remote (sys_world s)"
    using prepared_plan(1) [OF p] by (simp_all add: same_tables_def)
  show ?thesis
  proof (cases p)
    case (Inl err)
    then show ?thesis using assms p t1 writeError_isl [of err] by (auto simp: delete_found_def run_bind dest: arg_cong [where f = snd])
  next
    case (Inr plan)
    note plan = prepared_plan(2) [OF p Inr]
    obtain e s2 where e: "run_state (cleanupApplication h plan) s1 = (e, s2)" by (metis surj_pair)
    have t2: "tables (sys_store s2) = tables (sys_store s)" using cleanupApplication_tables [OF e] t1 by simp
    show ?thesis
    proof (cases e)
      case (Some err)
      then show ?thesis using assms p Inr e t2 by (auto simp: delete_found_def run_bind)
    next
      case None
      obtain entries where cleaned: "w_remote (sys_world s2) = w_remote (sys_world s) @ entries" "cleaned_up h (sys_store s1) plan entries"
        using cleanupApplication_succeeded [OF e [unfolded None]] t1 by auto
      have "cleaned_up h (tables (sys_store s)) plan entries"
        using cleaned(2) arg_cong [OF t1(1), of servers] by (simp add: cleaned_up_def)
      moreover obtain t s3 where t: "run_state (in_transaction h (deleteApplicationRecords h plan)) s2 = (t, s3)" by (metis surj_pair)
      note out = delete_prepared_outcome [OF t, unfolded t2]
      have "run_state (or_error t (\<lambda>_. do {
            http_audit h r ''application.delete'' ''application'' (id_text h (app_ID app)) (app_Name app)
              [(''environment_id'', JStr (id_text h (app_EnvironmentID app))), (''server_id'', JStr (id_text h (app_ServerID app)))];
            State_Monad.return (writeJSON 204 ()) })) s3 = ((status, reply), s')"
        using assms p Inr e None t by (simp add: delete_found_def run_bind)
      from out [OF this] have "w_remote (sys_world s') = w_remote (sys_world s) @ entries"
        "(isl reply \<and> tables (sys_store s') = tables (sys_store s)) \<or>
         DeleteApplication (app_ID app) (drop_routes (dp_routes plan) (tables (sys_store s))) = Inr ((), tables (sys_store s'))"
        using cleaned(1) plan by simp_all
      ultimately show ?thesis using plan by blast
    qed
  qed
qed

text \<open>C13. An application is deleted only after it is gone from its server. A request that deletes rows has found no queued or running
  deployment of the application, and the command that stops its containers (if it was ever deployed) and the commands that
  remove its applied routes have been executed on the server of the application, in this order, and all succeeded. The rows of the application and its
  routes then go together; in every other case all tables are as before, whichever interaction failed.\<close>

theorem deletion_after_cleanup:
  assumes run: "run_state (deleteApplication h r) s = ((status, reply), s')"
  shows "(isl reply \<and> tables (sys_store s') = tables (sys_store s)) \<or>
    (\<exists>plan entries. parseUUIDParam h r ''applicationID'' = Inr (app_ID (dp_application plan)) \<and> dp_application plan \<in> set (applications (sys_store s))
      \<and> plan_for (tables (sys_store s)) plan
      \<and> w_remote (sys_world s') = w_remote (sys_world s) @ entries \<and> cleaned_up h (tables (sys_store s)) plan entries
      \<and> DeleteApplication (app_ID (dp_application plan)) (drop_routes (dp_routes plan) (tables (sys_store s))) = Inr ((), tables (sys_store s')))"
proof -
  consider (early) err where "run_state (deleteApplication h r) s = (writeError err, s)" | (looked_up) i where "parseUUIDParam h r ''applicationID'' = Inr i"
    by (cases "parseUUIDParam h r ''applicationID''") (auto simp: deleteApplication_def or_error_def)
  then show ?thesis
  proof cases
    case early
    then show ?thesis using run writeError_isl [of err] by (metis prod.inject snd_conv)
  next
    case looked_up
    obtain a s1 where a: "run_state (serve h (GetApplication i)) s = (a, s1)" by (metis surj_pair)
    note t1 = serve_reads(1) [OF a reads_statements(1)]
    show ?thesis
    proof (cases a)
      case (Inl err)
      then show ?thesis using run a t1 looked_up writeError_isl [of "applicationLookupError ''application not found'' err"]
        by (auto simp: deleteApplication_def run_bind map_error_def same_tables_def dest: arg_cong [where f = snd])
    next
      case (Inr app)
      have "app \<in> set (applications (sys_store s))" "app_ID app = i"
        using serve_reads(2) [OF a reads_statements(1) Inr] by (auto simp: GetApplication_def sql_eq_def dest: one_row_mem)
      moreover have "run_state (delete_found h r app) s1 = ((status, reply), s')"
        using run a Inr looked_up by (simp add: deleteApplication_def run_bind map_error_def)
      ultimately show ?thesis using delete_found_outcome t1 looked_up unfolding same_tables_def by metis
    qed
  qed
qed

lemma deleted_applications:
  "DeleteApplication i db = Inr (u, db') \<Longrightarrow> applications db' = filter (\<lambda>a. \<not> sql_eq (app_ID a) i) (applications db)"
  by (auto simp: DeleteApplication_def Let_def)

theorem deletion_after_cleanup_witness:
  "\<exists>reply s'. run_state (deleteApplication sample_http sample_request) idle_system = ((204, reply), s')
     \<and> applications (sys_store s') = [] \<and> w_remote (sys_world s') = []"
proof -
  define s1 where "s1 = snd (run_state (serve sample_http (GetApplication (Some ''a1''))) idle_system)"
  define s2 where "s2 = snd (run_state (prepareApplicationDeletion sample_http sample_application) s1)"
  let ?plan = "\<lparr>dp_application = sample_application, dp_routes = [], dp_hasDeployments = False\<rparr>"
  have i: "parseUUIDParam sample_http sample_request ''applicationID'' = Inr (Some ''a1'')" by code_simp
  have "fst (run_state (serve sample_http (GetApplication (Some ''a1''))) idle_system) = Inr sample_application" by code_simp
  then have g: "run_state (serve sample_http (GetApplication (Some ''a1''))) idle_system = (Inr sample_application, s1)"
    by (simp add: s1_def prod_eq_iff)
  have "fst (run_state (prepareApplicationDeletion sample_http sample_application) s1) = Inr ?plan" unfolding s1_def by code_simp
  then have p: "run_state (prepareApplicationDeletion sample_http sample_application) s1 = (Inr ?plan, s2)" by (simp add: s2_def prod_eq_iff)
  have c: "run_state (cleanupApplication sample_http ?plan) s2 = (None, s2)" by (simp add: cleanupApplication_def)
  have "fst (run_state (in_transaction sample_http (deleteApplicationRecords sample_http ?plan)) s2) = Inr ()"
    unfolding s1_def s2_def by code_simp
  then obtain s3 where t: "run_state (in_transaction sample_http (deleteApplicationRecords sample_http ?plan)) s2 = (Inr (), s3)"
    by (metis prod.collapse)
  have "fst (run_state (deleteApplication sample_http sample_request) idle_system) = (204, Inr ())"
    by (simp add: deleteApplication_def delete_found_def run_bind map_error_def writeJSON_def i g p c t split: prod.splits)
  then obtain s' where run: "run_state (deleteApplication sample_http sample_request) idle_system = ((204, Inr ()), s')"
    by (metis prod.collapse)
  have apps: "applications (sys_store idle_system) = [sample_application]" "deployments (sys_store idle_system) = []"
    "proxy_routes (sys_store idle_system) = []" "w_remote (sys_world idle_system) = []" by code_simp+
  obtain plan entries where p: "dp_application plan \<in> set (applications (sys_store idle_system))" "plan_for (tables (sys_store idle_system)) plan"
    "w_remote (sys_world s') = entries" "cleaned_up sample_http (tables (sys_store idle_system)) plan entries"
    "DeleteApplication (app_ID (dp_application plan)) (drop_routes (dp_routes plan) (tables (sys_store idle_system))) = Inr ((), tables (sys_store s'))"
    using deletion_after_cleanup [OF run] unfolding apps(4) by (metis append_Nil sum.disc(2))
  have "cleanup_commands plan = []"
    using p(2) apps by (simp add: plan_for_def cleanup_commands_def ListProxyRouteTargetsForApplication_def Let_def)
  then have "entries = []" using p(4) by (auto simp: cleaned_up_def commands_succeeded_def)
  moreover have "applications (tables (sys_store s')) = []"
    using deleted_applications [OF p(5)] p(1) apps(1) by (auto simp: drop_routes_def sample_application_def)
  ultimately show ?thesis using run p(3) by simp
qed

subsection \<open>Valid tables\<close>

lemma distinct_filter_map: "distinct (map f (filter p xs)) \<Longrightarrow> distinct (map f (filter (\<lambda>x. q x \<and> p x) xs))"
proof (induction xs)
  case (Cons a xs)
  then show ?case by (cases "p a") auto
qed simp

lemma DeleteApplication_ok: "stmt_keeps store_ok (DeleteApplication i)"
proof (rule stmt_keepsI)
  fix db x db' assume ok: "store_ok db" and del: "DeleteApplication i db = Inr (x, db')"
  have "deployments_ok (filter (\<lambda>d. \<not> sql_eq (dep_ApplicationID d) i) (deployments db))"
    using ok by (auto simp: store_ok_def deployments_ok_def distinct_map_filter list_all_iff one_in_progress_def distinct_filter_map)
  moreover have "logs_ok (filter p (deployment_logs db))" for p
    using ok by (auto simp: store_ok_def logs_ok_def sorted_wrt_map sorted_wrt_filter list_all_iff)
  moreover have "slots_ok (update_rows q (\<lambda>s. s\<lparr>slot_DeploymentID := None\<rparr>) (filter (\<lambda>s. \<not> sql_eq (slot_ApplicationID s) i) (slots db)))" for q
  proof -
    have keys: "map slot_key (update_rows q (\<lambda>s. s\<lparr>slot_DeploymentID := None\<rparr>) ss) = map slot_key ss"
      "map slot_place (filter slot_active (update_rows q (\<lambda>s. s\<lparr>slot_DeploymentID := None\<rparr>) ss)) = map slot_place (filter slot_active ss)" for ss
      by (induction ss) (auto simp: update_rows_def slot_key_def slot_place_def slot_active_def)
    have ss: "distinct (map slot_key (slots db))" "list_all (\<lambda>s. slot_ApplicationID s \<noteq> None \<and> slot_ServerID s \<noteq> None) (slots db)"
      "distinct (map slot_place (filter slot_active (slots db)))" using ok by (simp_all add: store_ok_def slots_ok_def)
    show ?thesis unfolding slots_ok_def keys
      using ss distinct_filter_map [OF ss(3), of "\<lambda>s. \<not> sql_eq (slot_ApplicationID s) i"]
      by (auto simp: distinct_map_filter list_all_iff update_rows_def filter_filter conj_commute)
  qed
  ultimately show "store_ok db'" using del by (auto simp: DeleteApplication_def store_ok_def Let_def)
qed

lemma store_core_tables: "slots (tables db) = slots db" "deployment_logs (tables db) = deployment_logs db" "deployments (tables db) = deployments db"
  by (simp_all add: tables_def)

lemma deleteApplication_ok: "sys_keeps store_ok (deleteApplication h r)"
proof -
  have routes: "sys_keeps store_ok (delete_routes h routes rest)" if "sys_keeps store_ok rest" for routes and rest :: "unit tx_body"
    using that by (induction routes) (auto intro: editing_ok.tx_step_keeps editing_ok.route_deletes)
  have "sys_keeps store_ok (in_transaction h (deleteApplicationRecords h plan))" for plan
    unfolding in_transaction_def
    by (rule http_statements.transaction_keeps [OF http_ok.http_statements_axioms _ clock_grows_bodies(3)], unfold deleteApplicationRecords_def)
      (intro routes editing_ok.tx_step_keeps DeleteApplication_ok editing_ok.tx_end_keeps)
  moreover have "sys_keeps store_ok (cleanupApplication h plan)" for plan
    unfolding sys_keeps_def
  proof (intro allI impI)
    fix s assume ok: "store_ok (sys_store s)"
    have "tables (sys_store (snd (run_state (cleanupApplication h plan) s))) = tables (sys_store s)"
      using cleanupApplication_tables by (metis prod.collapse)
    then have "core (sys_store (snd (run_state (cleanupApplication h plan) s))) = core (sys_store s)"
      unfolding core_def by (metis store_core_tables)
    then show "store_ok (sys_store (snd (run_state (cleanupApplication h plan) s)))" using ok by (rule store_ok_core)
  qed
  ultimately show ?thesis
    unfolding deleteApplication_def delete_found_def prepareApplicationDeletion_def
    by (auto split: option.splits intro!: http_ok.handler_rules editing_ok.settings_rules)
qed

end
