(* ===== verification/Http_Applications_Proofs.thy ===== *)
theory Http_Applications_Proofs
  imports Http_Settings_Proofs Go_Regexp_Lang
begin

text \<open>
  The settings of applications that the handlers accept, against the constraints of the table.
\<close>

lemma trim_list_fixed:
  assumes "trim_list p xs = xs" "xs \<noteq> []"
  shows "\<not> p (hd xs)" "\<not> p (last xs)"
proof -
  have len: "length (dropWhile p xs) = length xs" "length (dropWhile p (rev (dropWhile p xs))) = length xs"
    using assms(1) length_dropWhile_le [of p xs] length_dropWhile_le [of p "rev (dropWhile p xs)"]
    by (metis (no_types, lifting) le_antisym length_rev trim_list_def)+
  have keep: "\<not> p (hd ys)" if "length (dropWhile p ys) = length ys" "ys \<noteq> []" for ys
    using that length_dropWhile_le [of p "tl ys"] by (cases ys) (auto split: if_splits)
  show "\<not> p (hd xs)" using keep [OF len(1) assms(2)] .
  then have "dropWhile p xs = xs" using assms(2) by (cases xs) auto
  then show "\<not> p (last xs)" using keep [of "rev xs"] len(2) assms(2) by (simp add: hd_rev)
qed

lemma btrim_trimmed:
  assumes "TrimSpace v = v"
  shows "btrim v = v"
proof (cases "v = []")
  case False
  have "chunks v = trim_list (\<lambda>k. IsSpace (fst k)) (chunks v)" using assms chunks_trimmed [of _ v] by (metis TrimSpace_def)
  from trim_list_fixed [OF this [symmetric]] False
  have ends: "\<not> IsSpace (fst (hd (chunks v)))" "\<not> IsSpace (fst (last (chunks v)))" by simp_all
  have space: "IsSpace (fst k)" if k: "k \<in> set (chunks v)" "CHR '' '' \<in> set (snd k)" for k
  proof (cases "fst k < 128")
    case True
    then obtain c where "k = (byte c, [c])" using chunk_below_128 [OF k(1)] by blast
    then show ?thesis using k(2) by (auto simp: IsSpace_def)
  next
    case False
    then show ?thesis using chunk_high_bytes [OF k(1) _ k(2)] by simp
  qed
  have "hd (chunks v) \<in> set (chunks v)" "last (chunks v) \<in> set (chunks v)" using False by simp_all
  then have ne: "chunks v \<noteq> []" "snd (hd (chunks v)) \<noteq> []" "snd (last (chunks v)) \<noteq> []" using False chunks_nonempty [of _ v]
    by (simp_all add: list.set_sel(1))
  have "hd (concat (map snd ks)) = hd (snd (hd ks))" if "ks \<noteq> []" "snd (hd ks) \<noteq> []" for ks :: "chunk list"
    using that by (cases ks) auto
  from this [OF ne(1,2)] have first: "hd v = hd (snd (hd (chunks v)))" by simp
  have "last (concat (map snd ks)) = last (snd (last ks))" if "ks \<noteq> []" "snd (last ks) \<noteq> []" for ks :: "chunk list"
    using that by (cases ks rule: rev_cases) auto
  from this [OF ne(1,3)] have "last v = last (snd (last (chunks v)))" by simp
  with first have "hd v \<noteq> CHR '' ''" "last v \<noteq> CHR '' ''"
    using space [of "hd (chunks v)"] space [of "last (chunks v)"] ends ne by (metis hd_in_set last_in_set)+
  moreover have keep: "dropWhile (\<lambda>c. c \<in> set '' '') ys = ys" if "ys \<noteq> []" "hd ys \<noteq> CHR '' ''" for ys
    using that by (cases ys) auto
  ultimately show ?thesis using False keep [of v] keep [of "rev v"] by (simp add: btrim_def Trim_def trim_list_def hd_rev)
qed (simp add: btrim_def Trim_def trim_list_def)

lemma repository_url_accepted:
  assumes "validateRepositoryURL v = None"
  shows "full_match repository_url_pattern v"
proof -
  have "\<exists>A. accepts githubSSHRepositoryURL A"
    unfolding githubSSHRepositoryURL_def repository_name_def by (rule exI, (rule accepts_rules)+)
  moreover have "\<exists>B. accepts githubHTTPSRepositoryURL B"
    unfolding githubHTTPSRepositoryURL_def repository_name_def by (rule exI, (rule accepts_rules)+)
  ultimately obtain A B where "accepts githubSSHRepositoryURL A" "accepts githubHTTPSRepositoryURL B" by blast
  moreover have "repository_url_pattern = m_alt githubSSHRepositoryURL githubHTTPSRepositoryURL"
    by (simp add: repository_url_pattern_def githubSSHRepositoryURL_def githubHTTPSRepositoryURL_def)
  moreover have "full_match githubSSHRepositoryURL v \<or> full_match githubHTTPSRepositoryURL v"
    using assms by (auto simp: validateRepositoryURL_def split: if_splits option.splits)
  ultimately show ?thesis by (auto simp: full_match_accepts dest: accepts_alt)
qed

lemma branch_accepted: "ValidateGitRefName v = None \<Longrightarrow> TrimSpace v = v \<Longrightarrow> branch_check (btrim v)"
  by (auto simp: ValidateGitRefName_def branch_check_def btrim_trimmed Let_def one_of_def split: if_splits)

lemma compose_path_accepted:
  assumes "ValidateComposePath v = None" "TrimSpace v = v"
  shows "compose_path_check (btrim v)"
proof -
  have "ValidateComposePath ''.'' \<noteq> None" by code_simp
  then have "v \<noteq> ''.''" using assms(1) by auto
  then show ?thesis using assms
    by (auto simp: ValidateComposePath_def compose_path_check_def no_parent_segment_def btrim_trimmed Let_def IsAbs_def split: if_splits)
qed

lemma remote_directory_accepted: "validateRemoteDirectory v = None \<Longrightarrow> TrimSpace v = v \<Longrightarrow> remote_directory_check (btrim v)"
  by (auto simp: validateRemoteDirectory_def remote_directory_check_def no_parent_segment_def btrim_trimmed split: if_splits)

text \<open>The constraints that the validation of a request does not imply.\<close>

definition unchecked_constraints :: "string set" where
  "unchecked_constraints = {''applications_health_check_url_check'', ''applications_doppler_project_check'', ''applications_doppler_config_check''}"

lemma first_message_None: "first_message xs = None \<longleftrightarrow> list_all (\<lambda>x. x = None) xs"
  by (induction xs rule: first_message.induct) auto

lemma normalized_application:
  assumes "normalizeCreateApplication h input0 = Inr input"
  shows "input = default_application (trim_application input0)" "list_all (\<lambda>x. x = None) (application_checks h input)"
  using assms by (auto simp: normalizeCreateApplication_def Let_def first_message_None split: option.splits)

lemma trimmed_fields:
  assumes "input = default_application (trim_application input0)"
  shows "TrimSpace (ca_Name input) = ca_Name input" "TrimSpace (ca_Branch input) = ca_Branch input"
    "TrimSpace (ca_ComposePath input) = ca_ComposePath input" "TrimSpace (ca_RemoteDirectory input) = ca_RemoteDirectory input"
proof -
  have "TrimSpace ''main'' = ''main''" "TrimSpace ''docker-compose.yml'' = ''docker-compose.yml''" by code_simp+
  then show "TrimSpace (ca_Name input) = ca_Name input" "TrimSpace (ca_Branch input) = ca_Branch input"
    "TrimSpace (ca_ComposePath input) = ca_ComposePath input" "TrimSpace (ca_RemoteDirectory input) = ca_RemoteDirectory input"
    unfolding assms default_application_def trim_application_def by (simp_all add: TrimSpace_idem)
qed

text \<open>C20. The validation of an application implies the constraints of the table: settings that a request to create or change an
  application gets accepted violate none of them, except those on the health check URL and on control
  characters in the names of Doppler, where the validation is weaker.\<close>

theorem accepted_application_storable:
  assumes "normalizeCreateApplication h input0 = Inr input"
  shows "case application_check input of None \<Rightarrow> True | Some constraint \<Rightarrow> constraint \<in> unchecked_constraints"
proof -
  note n = normalized_application [OF assms]
  note t = trimmed_fields [OF n(1)]
  have checks: "ca_Name input \<noteq> []" "validateRemoteDirectory (ca_RemoteDirectory input) = None" "ValidateGitRefName (ca_Branch input) = None"
    "ValidateComposePath (ca_ComposePath input) = None" "check_optional validateRepositoryURL (ca_RepositoryUrl input) = None"
    "(ca_DopplerProject input = None) = (ca_DopplerConfig input = None)"
    using n(2) by (auto simp: application_checks_def split: if_splits)
  have "opt_all (full_match repository_url_pattern) (ca_RepositoryUrl input)"
    using checks(5) repository_url_accepted by (auto simp: check_optional_def opt_all_def split: option.splits)
  moreover have "btrim (ca_Name input) \<noteq> []" using checks(1) btrim_trimmed [OF t(1)] by simp
  moreover note branch_accepted [OF checks(3) t(2)] compose_path_accepted [OF checks(4) t(3)] remote_directory_accepted [OF checks(2) t(4)] checks(6)
  ultimately show ?thesis unfolding application_check_def unchecked_constraints_def by simp
qed

definition new_application :: create_application_params where
  "new_application = \<lparr>ca_EnvironmentID = Some ''e1'', ca_ServerID = Some ''s1'', ca_Name = ''shop '',
     ca_RepositoryUrl = Some ''https://github.com/acme/shop'', ca_Branch = [], ca_ComposePath = [], ca_RemoteDirectory = ''/opt/shop'',
     ca_Domain = None, ca_HealthCheckUrl = Some ''HTTP://127.0.0.1/'', ca_DopplerProject = None, ca_DopplerConfig = None,
     ca_GithubAutoDeploy = False\<rparr>"

lemma new_application_accepted:
  "normalizeCreateApplication sample_http new_application = Inr (new_application\<lparr>ca_Name := ''shop'', ca_Branch := ''main'', ca_ComposePath := ''docker-compose.yml''\<rparr>)"
  by code_simp

theorem accepted_application_storable_witness:
  "\<exists>input. normalizeCreateApplication sample_http new_application = Inr input
     \<and> (application_check input = None \<or> the (application_check input) \<in> unchecked_constraints)"
  using accepted_application_storable [OF new_application_accepted] new_application_accepted
  by (auto split: option.splits)

text \<open>
  The exceptions are real: the scheme of a URL in upper case passes the validation, which parses the URL, and the
  constraint refuses it.
\<close>

lemma upper_case_scheme_refused:
  "normalizeCreateApplication sample_http new_application = Inr (new_application\<lparr>ca_Name := ''shop'', ca_Branch := ''main'', ca_ComposePath := ''docker-compose.yml''\<rparr>)
   \<and> application_check (new_application\<lparr>ca_Name := ''shop'', ca_Branch := ''main'', ca_ComposePath := ''docker-compose.yml''\<rparr>)
      = Some ''applications_health_check_url_check''"
proof
  show "application_check (new_application\<lparr>ca_Name := ''shop'', ca_Branch := ''main'', ca_ComposePath := ''docker-compose.yml''\<rparr>)
      = Some ''applications_health_check_url_check''" by code_simp
qed (rule new_application_accepted)

end
