(* ===== verification/Spec2Isabelle.thy ===== *)
theory Spec2Isabelle
  imports Queue_Drain Remote_Steps_Proofs Proxy_Commands Audit_Log Http_Deployments_Proofs Log_Stream_Proofs
    Http_Guards_Proofs Http_Github_Proofs Http_Builds_Proofs Github_App_Proofs Github_Connector_Proofs
    Configuration_Redeploy_Proofs Credential_Inventory_Proofs Http_Removal_Proofs Http_Applications_Proofs
begin

text \<open>
  A verification library for deploy-manager, a server that deploys Compose applications to remote hosts
  over SSH. It models the program of \<^verbatim>\<open>src/internal\<close> as HOL functions and proves what its parts promise.

  \<^bold>\<open>The parts and how they interact.\<close> A request (\<^verbatim>\<open>httpapi\<close>) or a push to GitHub creates a row in the table of
  deployments and pushes its identifier to a Redis list (\<^verbatim>\<open>deployments/queue.go\<close>). A worker pops it and runs the
  deployment (\<^verbatim>\<open>deployments/runner.go\<close>): it plans shell commands (\<^verbatim>\<open>deployments/remote_steps.go\<close>), executes them
  on the server, switches the routes of the proxy (\<^verbatim>\<open>proxy/commands.go\<close>) to the new color, records slots and
  status, and writes log lines, which clients read as an event stream (\<^verbatim>\<open>deployments/logbus.go\<close>,
  \<^verbatim>\<open>httpapi/deployment_logs.go\<close>). All parts share one PostgreSQL database through the statements of
  \<^verbatim>\<open>db/core.sql.go\<close>.

  \<^bold>\<open>The language and its library.\<close> \<open>Deploy_Prelude\<close> has results of fallible functions (\<open>Inl\<close> is the error) and
  the shared lemmas on lists. Strings are lists of bytes: \<open>Go_Strings\<close> (UTF-8, package strings, strconv, path),
  \<open>Go_Utf8\<close>, \<open>Unicode_Case\<close>, \<open>Go_Quote\<close>, \<open>Go_Url\<close>, \<open>Go_Encoding\<close> (base64, URL escaping), \<open>Go_Sha256\<close>, \<open>Go_Json\<close> with
  \<open>Go_Json_Proofs\<close> and \<open>Go_Json_Fields\<close>, and \<open>Go_Regexp\<close> with \<open>Go_Regexp_Lang\<close> (a regular expression as the list of
  the ways to match, in Go's order) model what the sources use of Go's standard library. \<open>String_Util\<close> is
  \<^verbatim>\<open>stringutil.go\<close> and a scanner of shell text.

  \<^bold>\<open>The database.\<close> \<open>Db_Models\<close> has the rows, \<open>Store\<close> the statements that change tables with the constraints of the
  migrations, \<open>Store_Catalog\<close> further queries, \<open>Store_Configuration\<close> the state of the configuration of an
  application, its snapshot and the candidates of a redeployment, \<open>Store_Settings\<close> the statements on applications and
  runtime variables, \<open>Store_Places\<close> those on projects, environments and routes and the deletion of applications.
  A statement is a function from a store to an error or a result and a new store. \<open>Store_Invariants\<close> shows that every statement keeps the tables valid (\<open>store_ok\<close>: unique
  identifiers, one deployment in progress per application, consistent statuses and times, one active slot);
  \<open>Lifecycle\<close> is the state machine whose steps are statements of any process, with the invariants of its
  executions. The deletion of an application, which takes its deployments along, is outside of this machine, where
  deployments persist; \<open>Http_Removal_Proofs\<close> shows that it keeps the tables valid. After it the numbers of new log
  lines continue from the largest that is left.

  \<^bold>\<open>Deployments.\<close> \<open>Remote_Steps\<close> and \<open>Proxy_Commands\<close> plan commands; \<open>Remote_Steps_Proofs\<close> shows that no value of a
  deployment is read as shell code, that paths stay below their directory, and what environment files read
  back as. \<open>Runner\<close> is the run of a deployment as a program on a world (tables, executed commands, published and
  notified events) whose answers come from an environment; \<open>Runner_Invariants\<close> and \<open>Runner_Outcome\<close> show that it
  is an execution of the lifecycle, ends in a terminal status, and switches routes and services back on errors.
  \<open>Queue\<close>, \<open>Queue_Proofs\<close> and \<open>Queue_Drain\<close> are the worker, the recovery after a restart, and that a drained
  queue has ended its deployments. The locales \<open>run_statements\<close> and \<open>http_statements\<close> are the interface between
  these programs and the database: they are interpreted for executions, for validity, and for single rows.

  \<^bold>\<open>Requests.\<close> \<open>Http_Base\<close>, \<open>Http_Deployments\<close> (with proofs) and \<open>Audit_Log\<close> are the handlers that create, cancel,
  retry and roll back deployments, and the audit trail; \<open>Http_Guards\<close> (with proofs) is authentication, the rate
  limiter and the replay cache; \<open>Log_Bus\<close>, \<open>Log_Stream\<close> (with proofs) are the log events. \<open>Github_Hook\<close>,
  \<open>Github_Connector\<close>, \<open>Github_App\<close> (each with proofs) are push payloads and signatures, the configuration of
  connectors, and the client of the GitHub API; \<open>Github_Builds\<close> and \<open>Http_Github\<close> are the webhook and the dispatch
  of builds, \<open>Http_Builds\<close> the reports of finished builds, with the deployments that follow. \<open>Http_Batch\<close> has the
  rules for handlers that queue several deployments. Decoding of request bodies is an argument of the handlers.

  \<^bold>\<open>Settings.\<close> \<open>Http_Transaction\<close> is a transaction of a handler: its statements change the tables together or not at
  all, also when the answer to the commit is lost. On it stand \<open>Http_Settings\<close> (the runtime variables of projects and
  services, \<^verbatim>\<open>project_variables.go\<close> and \<^verbatim>\<open>application_service_variables.go\<close>), \<open>Http_Removal\<close> (commands on servers and
  the deletion of applications with the cleanup of their server) and \<open>Configuration_Redeploy\<close>
  (\<^verbatim>\<open>configuration_redeploy.go\<close>); beside them \<open>Http_Applications\<close> (creating and changing applications), \<open>Http_Projects\<close>
  (projects and environments) and \<open>Http_Routes\<close> (routes and \<^verbatim>\<open>proxy/manager.go\<close>). \<open>Compose_Services\<close> is the stored
  description of the services of a Compose file, \<open>Credential_Inventory\<close> the normalization of inventories and of the
  buckets of an object store. \<open>Http_Editing\<close> extends the locale of the statements by those of the settings and shows once
  that the handlers of settings keep what the statements keep. Their proofs show that a redeployment is required exactly when
  the configuration differs from the deployed one and runs what was deployed, that replies are truthful, that variables
  are replaced as a whole and fit into the file that a deployment writes, that an application is deleted only after the
  cleanup, that accepted settings satisfy the constraints of the table (but for the health check URL and the
  names of Doppler), and that a merged inventory loses nothing.

  \<^bold>\<open>This theory\<close> puts the parts together: any history of requests, webhooks, worker runs and restarts keeps the
  tables valid, and an accepted deployment comes to an end.

  \<^bold>\<open>Bounds and fuel.\<close> The JSON decoder has the length of the text as fuel, which its round trip shows to be enough.
  Listings of the GitHub API, which the server may make endless, are a partial function. All other recursion is
  structural or has a termination proof.

  \<^bold>\<open>Parameters.\<close> Answers of SSH commands, Redis, Doppler, notifiers, DNS, the clock, fresh identifiers, the HTTP
  client, RSA signatures, the UUID package, and the texts of errors of Go's packages.

  \<^bold>\<open>Not modelled.\<close> The clients of SSH, Docker, Doppler and the notifiers, which only pass on what remote services
  answer; the wiring of the server process, the routing, the static files and the generated interfaces; the handlers
  of servers, registries, connectors and stored credentials, the terminal and the users of development servers, which
  work on further tables and connections; the inspection of Compose files in repositories, which needs a parser of YAML.
\<close>

section \<open>The parts together\<close>

text \<open>
  What the server process does, one action after the other: it answers requests, its worker pops items,
  and after a restart it recovers.
\<close>

datatype server_action =
    Create http_request "http_error + create_deployment_params"
  | Cancel http_request
  | Retry http_request
  | Rollback http_request
  | Webhook "replayCache option" http_request
  | Dispatch_Build http_request "http_error + build_request"
  | Complete_Build http_request "http_error + complete_build_request"
  | Redeploy_Application http_request
  | Redeploy_Project http_request
  | Create_Application http_request "http_error + create_application_params"
  | Update_Application http_request "http_error + (create_application_params \<times> (string \<times> string) list)"
  | Replace_Variables http_request "http_error + variable_input list"
  | Replace_Service_Config http_request "http_error + service_config_request"
  | Create_Project http_request "http_error + project_params"
  | Update_Project http_request "http_error + project_params"
  | Connect_Repository http_request "http_error + repository_request"
  | Delete_Project http_request
  | Create_Environment http_request "http_error + environment_params"
  | Delete_Environment http_request
  | Create_Route http_request "http_error + create_route_params"
  | Apply_Route http_request
  | Delete_Route http_request
  | Run_Command http_request "http_error + string"
  | Worker "pop_answer list"
  | Restart int

fun perform :: "github_env \<Rightarrow> server_action \<Rightarrow> unit sys_run" where
  "perform g (Create r decoded) = do { _ \<leftarrow> createDeployment (g_http g) r decoded; State_Monad.return () }"
| "perform g (Cancel r) = do { _ \<leftarrow> cancelDeployment (g_http g) r; State_Monad.return () }"
| "perform g (Retry r) = do { _ \<leftarrow> retryDeployment (g_http g) r; State_Monad.return () }"
| "perform g (Rollback r) = do { _ \<leftarrow> rollbackApplication (g_http g) r; State_Monad.return () }"
| "perform g (Webhook replays r) = do { _ \<leftarrow> githubWebhook g replays r; State_Monad.return () }"
| "perform g (Dispatch_Build r decoded) = do { _ \<leftarrow> dispatchGitHubBuild g r decoded; State_Monad.return () }"
| "perform g (Complete_Build r decoded) = do { _ \<leftarrow> completeBuildRun (g_http g) r decoded; State_Monad.return () }"
| "perform g (Redeploy_Application r) = do { _ \<leftarrow> redeployApplicationConfiguration (g_http g) r; State_Monad.return () }"
| "perform g (Redeploy_Project r) = do { _ \<leftarrow> redeployProjectConfiguration (g_http g) r; State_Monad.return () }"
| "perform g (Create_Application r decoded) = do { _ \<leftarrow> createApplication (g_http g) r decoded; State_Monad.return () }"
| "perform g (Update_Application r decoded) = do { _ \<leftarrow> updateApplication (g_http g) r decoded; State_Monad.return () }"
| "perform g (Replace_Variables r decoded) = do { _ \<leftarrow> replaceProjectRuntimeVariables (g_http g) r decoded; State_Monad.return () }"
| "perform g (Replace_Service_Config r decoded) = do { _ \<leftarrow> replaceApplicationServiceRuntimeConfig (g_http g) r decoded; State_Monad.return () }"
| "perform g (Create_Project r decoded) = do { _ \<leftarrow> createProject (g_http g) r decoded; State_Monad.return () }"
| "perform g (Update_Project r decoded) = do { _ \<leftarrow> updateProject (g_http g) r decoded; State_Monad.return () }"
| "perform g (Connect_Repository r decoded) = do { _ \<leftarrow> updateProjectRepository (g_http g) r decoded; State_Monad.return () }"
| "perform g (Delete_Project r) = do { _ \<leftarrow> deleteProject (g_http g) r; State_Monad.return () }"
| "perform g (Create_Environment r decoded) = do { _ \<leftarrow> createEnvironment (g_http g) r decoded; State_Monad.return () }"
| "perform g (Delete_Environment r) = do { _ \<leftarrow> deleteEnvironment (g_http g) r; State_Monad.return () }"
| "perform g (Create_Route r decoded) = do { _ \<leftarrow> createProxyRoute (g_http g) r decoded; State_Monad.return () }"
| "perform g (Apply_Route r) = do { _ \<leftarrow> applyProxyRoute (g_http g) r; State_Monad.return () }"
| "perform g (Delete_Route r) = do { _ \<leftarrow> deleteProxyRoute (g_http g) r; State_Monad.return () }"
| "perform g (Run_Command r decoded) = do { _ \<leftarrow> runServerCommand (g_http g) r decoded; State_Monad.return () }"
| "perform g (Worker pops) = do { _ \<leftarrow> work (h_queue (g_http g)) pops; State_Monad.return () }"
| "perform g (Restart limit) = do {
     _ \<leftarrow> RecoverInterrupted (h_queue (g_http g));
     _ \<leftarrow> RecoverQueued (h_queue (g_http g)) limit;
     State_Monad.return () }"

fun perform_all :: "github_env \<Rightarrow> server_action list \<Rightarrow> unit sys_run" where
  "perform_all g [] = State_Monad.return ()"
| "perform_all g (a # as) = do { perform g a; perform_all g as }"

lemma log_interrupted_keeps: "sys_keeps (db_run db0) (log_interrupted q ds)"
  by (induction ds) (auto intro!: sys_keeps_rules reach.db_exec_statement reach.logs)

lemma enqueue_all_keeps: "sys_keeps (db_run db0) (enqueue_all q n ds)"
  by (induction ds arbitrary: n) (auto intro!: sys_keeps_rules http.Enqueue_keeps)

lemma recovery_keeps:
  "sys_keeps (db_run db0) (RecoverInterrupted q)" "sys_keeps (db_run db0) (RecoverQueued q limit)"
  unfolding RecoverInterrupted_def recoverInterrupted_def RecoverQueued_def recoverQueued_def Let_def
  by (intro sys_keeps_rules reach.db_exec_statement http.recovers read_only_keeps log_interrupted_keeps enqueue_all_keeps)+

lemma perform_keeps: "sys_keeps (db_run db0) (perform g a)"
  by (cases a) (auto intro!: sys_keeps_rules http.deployment_handlers_keep http.githubWebhook_keeps http.dispatchGitHubBuild_keeps
      http.completeBuildRun_keeps http.redeployApplicationConfiguration_keeps http.redeployProjectConfiguration_keeps
      editing.settings_handlers_keep work_keeps recovery_keeps)

lemma perform_all_keeps: "sys_keeps (db_run db0) (perform_all g as)"
  by (induction as) (auto intro!: sys_keeps_rules perform_keeps)

lemma perform_all_execution: "db_run (sys_store s) (sys_store (snd (run_state (perform_all g as) s)))"
  by (rule sys_keepsD [OF perform_all_keeps]) simp

lemma ended_stays:
  assumes "db_run db db'" "ended i db"
  shows "ended i db'"
proof -
  obtain d where d: "store_ok db" "deployment_is db i d" "terminal (dep_Status d)"
    using assms(2) by (auto simp: ended_def row_status_def)
  have "\<exists>e. deployment_is db' i e \<and> terminal (dep_Status e)"
    by (rule db_run_move_invariant [where P = terminal, OF assms(1) d(2,3)]) (auto simp: status_move_simps terminal_def)
  then show ?thesis using db_run_ok [OF assms(1) d(1)] by (auto simp: ended_def row_status_def)
qed



subsection \<open>From the request to the end of the deployment\<close>

text \<open>
  The text of a new identifier is read back as that identifier. The parser and the printer of UUIDs are
  parameters.
\<close>

definition uuid_reads_back :: "http_env \<Rightarrow> string \<Rightarrow> bool" where
  "uuid_reads_back h i \<longleftrightarrow>
     (let t = uuidString (h_runner h) (Some i) in
      t \<noteq> [] \<and> ValidString t \<and> TrimSpace t = t \<and> q_parse_uuid (h_queue h) t = Inr i)"

lemma item_for_item_of:
  assumes "uuid_reads_back h i" "dep_ID d = Some i"
  shows "item_for (h_queue h) i (item_of (h_queue h) d)"
proof -
  let ?t = "uuidString (h_runner h) (Some i)"
  have t: "?t \<noteq> []" "ValidString ?t" "TrimSpace ?t = ?t" "q_parse_uuid (h_queue h) ?t = Inr i"
    using assms(1) by (simp_all add: uuid_reads_back_def Let_def)
  from decode_encoded [of "h_runner h" d, OF _ t(1-3)] assms(2) t(4) show ?thesis
    by (auto simp: item_for_def item_of_def)
qed


lemma sample_uuid_reads_back: "uuid_reads_back sample_http (FormatNat n)"
proof -
  have "uuidString sample_env (Some (FormatNat n)) = FormatNat n" by (simp add: uuidString_def UUIDString_def sample_env_def)
  then show ?thesis using FormatNat_nonempty [of n] TrimSpace_FormatNat [of n] ValidString_ascii [OF ascii_FormatNat]
    by (simp add: uuid_reads_back_def sample_http_def sample_queue_def Let_def)
qed




end
